(* ===== verification/Prelude.thy ===== *)
theory Prelude
  imports Complex_Main "HOL-Library.AList" "HOL-Library.Multiset"
begin

text \<open>
  Generic material shared by every component: the stable sort behind
  \<^verbatim>\<open>Array.prototype.sort\<close>, the insertion-ordered map behind \<^verbatim>\<open>Map\<close>,
  string helpers (\<^verbatim>\<open>split\<close>, \<^verbatim>\<open>trim\<close>, \<^verbatim>\<open>startsWith\<close>, decimal printing) and the
  collections of facts the component proofs use.
\<close>

named_theorems frame_simps "what an operation leaves unchanged"
named_theorems inv_intros "operations preserve their component's invariant"
named_theorems diag_simps "diagnostics and their severities"

section \<open>Stable sorting by a comparison\<close>

text \<open>
  \<open>sortBy le\<close> is the stable sort of ECMAScript for a comparator with
  \<open>compare a b \<le> 0 \<longleftrightarrow> le a b\<close>: equal elements keep their order.
\<close>

fun insortBy :: "('a \<Rightarrow> 'a \<Rightarrow> bool) \<Rightarrow> 'a \<Rightarrow> 'a list \<Rightarrow> 'a list" where
  "insortBy le x [] = [x]"
| "insortBy le x (y # ys) = (if le x y then x # y # ys else y # insortBy le x ys)"

definition sortBy :: "('a \<Rightarrow> 'a \<Rightarrow> bool) \<Rightarrow> 'a list \<Rightarrow> 'a list" where
  "sortBy le xs = foldr (insortBy le) xs []"

lemma sortBy_Nil [simp]: "sortBy le [] = []"
  by (simp add: sortBy_def)

lemma sortBy_Cons: "sortBy le (x # xs) = insortBy le x (sortBy le xs)"
  by (simp add: sortBy_def)

lemma mset_insortBy [simp]: "mset (insortBy le x ys) = add_mset x (mset ys)"
  by (induction ys) auto

lemma mset_sortBy [simp]: "mset (sortBy le xs) = mset xs"
  by (induction xs) (auto simp: sortBy_Cons)

lemma set_sortBy [simp]: "set (sortBy le xs) = set xs"
  by (metis mset_sortBy set_mset_mset)

lemma length_sortBy [simp]: "length (sortBy le xs) = length xs"
  by (metis mset_sortBy size_mset)

lemma distinct_sortBy [simp]: "distinct (sortBy le xs) = distinct xs"
  by (metis mset_sortBy mset_eq_imp_distinct_iff)

lemma sortBy_eq_Nil [simp]: "sortBy le xs = [] \<longleftrightarrow> xs = []"
  by (metis length_0_conv length_sortBy)

lemma distinct_map_sortBy [simp]: "distinct (map f (sortBy le xs)) = distinct (map f xs)"
  by (metis mset_map mset_sortBy mset_eq_imp_distinct_iff)

lemma sortBy_singleton [simp]: "sortBy le [x] = [x]"
  by (simp add: sortBy_def)

text \<open>A comparator is consistent when it is a total preorder.\<close>

locale comparator_order =
  fixes le :: "'a \<Rightarrow> 'a \<Rightarrow> bool"
  assumes le_total: "le x y \<or> le y x"
    and le_trans: "le x y \<Longrightarrow> le y z \<Longrightarrow> le x z"
begin

lemma le_refl: "le x x"
  using le_total [of x x] by simp

lemma sorted_insortBy: "sorted_wrt le ys \<Longrightarrow> sorted_wrt le (insortBy le x ys)"
proof (induction ys)
  case Nil
  then show ?case by simp
next
  case (Cons y ys)
  have set_eq: "set (insortBy le x ys) = insert x (set ys)"
    by (metis mset_insortBy set_mset_add_mset_insert set_mset_mset)
  show ?case
  proof (cases "le x y")
    case True
    with Cons.prems show ?thesis by (auto intro: le_trans)
  next
    case False
    then have "le y x" using le_total by blast
    with Cons False show ?thesis by (simp add: set_eq)
  qed
qed

lemma sorted_sortBy: "sorted_wrt le (sortBy le xs)"
  by (induction xs) (auto simp: sortBy_Cons intro: sorted_insortBy)

lemma insortBy_sorted: "sorted_wrt le (x # xs) \<Longrightarrow> insortBy le x xs = x # xs"
  by (cases xs) auto

lemma sortBy_sorted: "sorted_wrt le xs \<Longrightarrow> sortBy le xs = xs"
proof (induction xs)
  case (Cons x xs)
  then have "sortBy le xs = xs" by simp
  with Cons.prems show ?case by (metis insortBy_sorted sortBy_Cons)
qed simp

lemma sortBy_idem: "sortBy le (sortBy le xs) = sortBy le xs"
  by (rule sortBy_sorted [OF sorted_sortBy])

lemma insortBy_filter:
  assumes "sorted_wrt le ys" and "P x"
  shows "filter P (insortBy le x ys) = insortBy le x (filter P ys)"
  using assms
proof (induction ys)
  case (Cons y ys)
  have *: "insortBy le x zs = x # zs" if "\<forall>z\<in>set zs. le x z" for zs
    using that by (cases zs) auto
  show ?case
  proof (cases "le x y")
    case True
    then have "\<forall>z\<in>set (filter P (y # ys)). le x z"
      using Cons.prems(1) by (auto intro: le_trans)
    then show ?thesis using True Cons.prems(2) * [of "filter P (y # ys)"] by simp
  next
    case False
    with Cons show ?thesis by simp
  qed
qed simp

lemma insortBy_filter_not: "\<not> P x \<Longrightarrow> filter P (insortBy le x ys) = filter P ys"
  by (induction ys) auto

lemma filter_sortBy: "filter P (sortBy le xs) = sortBy le (filter P xs)"
proof (induction xs)
  case (Cons x xs)
  then show ?case
    by (cases "P x") (simp_all add: sortBy_Cons insortBy_filter insortBy_filter_not sorted_sortBy)
qed simp

end

lemma insortBy_map:
  assumes "\<And>x y. le' (f x) (f y) = le x y"
  shows "insortBy le' (f x) (map f ys) = map f (insortBy le x ys)"
  by (induction ys) (auto simp: assms)

lemma sortBy_map:
  assumes "\<And>x y. le' (f x) (f y) = le x y"
  shows "sortBy le' (map f xs) = map f (sortBy le xs)"
  by (induction xs) (auto simp: sortBy_Cons insortBy_map assms)

text \<open>Two sorts of the same elements by the same antisymmetric comparator agree.\<close>

lemma sorted_wrt_mset_unique:
  assumes "sorted_wrt le xs" and "sorted_wrt le ys" and "mset xs = mset ys"
    and anti: "\<And>x y. x \<in> set xs \<Longrightarrow> y \<in> set xs \<Longrightarrow> le x y \<Longrightarrow> le y x \<Longrightarrow> x = y"
  shows "xs = ys"
  using assms
proof (induction xs arbitrary: ys)
  case (Cons x xs)
  then obtain y ys' where ys: "ys = y # ys'"
    by (cases ys) auto
  have "set (x # xs) = set ys"
    using Cons.prems(3) by (metis set_mset_mset)
  then have "x = y"
    using Cons.prems(1,2,4) ys
    by (metis list.set_intros(1) set_ConsD sorted_wrt.simps(2))
  moreover have "xs = ys'"
    using Cons ys \<open>x = y\<close> by auto
  ultimately show ?case using ys by simp
qed simp

section \<open>JavaScript maps: insertion-ordered association lists\<close>

text \<open>
  \<^verbatim>\<open>Map.set\<close> overwrites in place or appends, which is \<open>AList.update\<close>;
  \<^verbatim>\<open>Map.delete\<close> is \<open>AList.delete\<close>; \<^verbatim>\<open>Map.get\<close> is \<open>map_of\<close>.
\<close>

type_synonym ('k, 'v) jsmap = "('k \<times> 'v) list"

abbreviation mapGet :: "('k, 'v) jsmap \<Rightarrow> 'k \<Rightarrow> 'v option" where
  "mapGet m k \<equiv> map_of m k"

abbreviation mapSet :: "('k, 'v) jsmap \<Rightarrow> 'k \<Rightarrow> 'v \<Rightarrow> ('k, 'v) jsmap" where
  "mapSet m k v \<equiv> AList.update k v m"

abbreviation mapDelete :: "('k, 'v) jsmap \<Rightarrow> 'k \<Rightarrow> ('k, 'v) jsmap" where
  "mapDelete m k \<equiv> AList.delete k m"

abbreviation mapHas :: "('k, 'v) jsmap \<Rightarrow> 'k \<Rightarrow> bool" where
  "mapHas m k \<equiv> k \<in> fst ` set m"

abbreviation mapKeys :: "('k, 'v) jsmap \<Rightarrow> 'k list" where
  "mapKeys m \<equiv> map fst m"

lemma mapGet_set [simp]: "mapGet (mapSet m k v) k' = (if k' = k then Some v else mapGet m k')"
  by (simp add: update_conv')

lemma mapGet_delete [simp]: "mapGet (mapDelete m k) k' = (if k' = k then None else mapGet m k')"
  by (simp add: delete_conv')

lemma distinct_keys_set [simp]: "distinct (mapKeys m) \<Longrightarrow> distinct (mapKeys (mapSet m k v))"
  by (rule distinct_update)

lemma distinct_keys_delete [simp]: "distinct (mapKeys m) \<Longrightarrow> distinct (mapKeys (mapDelete m k))"
  by (rule distinct_delete)

lemma set_AList_update: "set (AList.update k v m) \<subseteq> insert (k, v) (set m)"
  by (induction m) auto

lemma set_AList_delete: "set (AList.delete k m) \<subseteq> set m"
  by (auto simp: AList.delete_eq)

lemma mapHas_iff: "mapHas m k \<longleftrightarrow> mapGet m k \<noteq> None"
  by (metis map_of_eq_None_iff)

section \<open>Lists\<close>

text \<open>Keep the first occurrence of each element: \<^verbatim>\<open>[...new Set(xs)]\<close>.\<close>

fun dedupFrom :: "'a list \<Rightarrow> 'a list \<Rightarrow> 'a list" where
  "dedupFrom seen [] = []"
| "dedupFrom seen (x # xs) =
     (if x \<in> set seen then dedupFrom seen xs else x # dedupFrom (x # seen) xs)"

definition dedup :: "'a list \<Rightarrow> 'a list" where
  "dedup xs = dedupFrom [] xs"

lemma set_dedupFrom: "set (dedupFrom seen xs) = set xs - set seen"
  by (induction seen xs rule: dedupFrom.induct) auto

lemma distinct_dedupFrom: "distinct (dedupFrom seen xs)"
  by (induction seen xs rule: dedupFrom.induct) (auto simp: set_dedupFrom)

lemma set_dedup [simp]: "set (dedup xs) = set xs"
  by (simp add: dedup_def set_dedupFrom)

lemma distinct_dedup [simp]: "distinct (dedup xs)"
  by (simp add: dedup_def distinct_dedupFrom)

lemma dedupFrom_distinct: "distinct xs \<Longrightarrow> set xs \<inter> set seen = {} \<Longrightarrow> dedupFrom seen xs = xs"
  by (induction seen xs rule: dedupFrom.induct) auto

lemma dedup_distinct: "distinct xs \<Longrightarrow> dedup xs = xs"
  by (simp add: dedup_def dedupFrom_distinct)

text \<open>Concatenate the results of a check run over the elements with their indices.\<close>

fun concatIndexed :: "(nat \<Rightarrow> 'a \<Rightarrow> 'b list) \<Rightarrow> nat \<Rightarrow> 'a list \<Rightarrow> 'b list" where
  "concatIndexed f i [] = []"
| "concatIndexed f i (x # xs) = f i x @ concatIndexed f (Suc i) xs"

lemma set_concatIndexed:
  "d \<in> set (concatIndexed f i xs) \<longleftrightarrow> (\<exists>j < length xs. d \<in> set (f (i + j) (xs ! j)))"
proof (induction xs arbitrary: i)
  case (Cons x xs)
  have "(\<exists>j < length (x # xs). d \<in> set (f (i + j) ((x # xs) ! j)))
      \<longleftrightarrow> d \<in> set (f i x) \<or> (\<exists>j < length xs. d \<in> set (f (Suc i + j) (xs ! j)))"
    by (auto simp: less_Suc_eq_0_disj)
  then show ?case using Cons by simp
qed simp

lemma concatIndexed_Nil_iff:
  "concatIndexed f i xs = [] \<longleftrightarrow> (\<forall>j < length xs. f (i + j) (xs ! j) = [])"
proof (induction xs arbitrary: i)
  case (Cons x xs)
  have "(\<forall>j < length (x # xs). f (i + j) ((x # xs) ! j) = [])
      \<longleftrightarrow> f i x = [] \<and> (\<forall>j < length xs. f (Suc i + j) (xs ! j) = [])"
    by (auto simp: less_Suc_eq_0_disj)
  then show ?case using Cons by simp
qed simp

text \<open>The optional spread \<^verbatim>\<open>...(c ? [x] : [])\<close>.\<close>

definition pushIf :: "bool \<Rightarrow> 'a \<Rightarrow> 'a list" where
  "pushIf c x = (if c then [x] else [])"

lemma pushIf_simps [simp]: "pushIf True x = [x]" "pushIf False x = []"
  by (simp_all add: pushIf_def)

lemma set_pushIf [simp]: "y \<in> set (pushIf c x) \<longleftrightarrow> c \<and> y = x"
  by (cases c) simp_all

lemma pushIf_Nil_iff [simp]: "pushIf c x = [] \<longleftrightarrow> \<not> c"
  by (cases c) simp_all

lemma list_all_pushIf [simp]: "list_all P (pushIf c x) \<longleftrightarrow> (c \<longrightarrow> P x)"
  by (cases c) simp_all

end
