(* ===== verification/JsValue.thy ===== *)
theory JsValue
  imports Prelude
begin

text \<open>
  The part of ECMAScript the modelled code computes with: numbers, strings and the
  untyped values (\<^verbatim>\<open>unknown\<close>) that the validators inspect.

  \<^item> A number is a finite rational, NaN or an infinity. Every finite double is such a rational;
    the code only compares, tests integrality and adds small integers, where the two agree.
  \<^item> A string is a list of code units in the range U+0000 to U+00FF (an Isabelle \<open>string\<close>).
    \<open>length\<close> is \<^verbatim>\<open>.length\<close>, and \<open>byteLength\<close> is the UTF-8 length, which differ
    from U+0080 on.
  \<^item> An object is its list of own properties in insertion order. Values are trees, as
    \<^verbatim>\<open>JSON.parse\<close> makes them: no sharing, no cycles, no exotic prototypes.
\<close>

section \<open>Numbers\<close>

datatype jsnum = Num rat | NaN | PosInf | NegInf

definition numFinite :: "jsnum \<Rightarrow> bool" where
  "numFinite n = (case n of Num _ \<Rightarrow> True | _ \<Rightarrow> False)"

definition numInteger :: "jsnum \<Rightarrow> bool" where
  "numInteger n = (case n of Num r \<Rightarrow> of_int \<lfloor>r\<rfloor> = r | _ \<Rightarrow> False)"

fun numLess :: "jsnum \<Rightarrow> jsnum \<Rightarrow> bool" where
  "numLess NaN _ = False"
| "numLess _ NaN = False"
| "numLess (Num a) (Num b) = (a < b)"
| "numLess NegInf b = (b \<noteq> NegInf)"
| "numLess _ NegInf = False"
| "numLess PosInf _ = False"
| "numLess (Num _) PosInf = True"

text \<open>\<^verbatim>\<open>===\<close> on numbers: NaN differs from itself.\<close>

definition numEq :: "jsnum \<Rightarrow> jsnum \<Rightarrow> bool" where
  "numEq a b = (a \<noteq> NaN \<and> a = b)"

definition numLeq :: "jsnum \<Rightarrow> jsnum \<Rightarrow> bool" where
  "numLeq a b = (numLess a b \<or> numEq a b)"

definition numMax :: "jsnum \<Rightarrow> jsnum \<Rightarrow> jsnum" where
  "numMax a b = (if a = NaN \<or> b = NaN then NaN else if numLess a b then b else a)"

abbreviation numOf :: "int \<Rightarrow> jsnum" where
  "numOf i \<equiv> Num (of_int i)"

lemma numFinite_simps [simp]:
  "numFinite (Num r)" "\<not> numFinite NaN" "\<not> numFinite PosInf" "\<not> numFinite NegInf"
  by (simp_all add: numFinite_def)

lemma numFiniteE: "numFinite n \<Longrightarrow> (\<And>r. n = Num r \<Longrightarrow> P) \<Longrightarrow> P"
  by (cases n) auto

lemma numInteger_simps [simp]:
  "numInteger (Num r) \<longleftrightarrow> of_int \<lfloor>r\<rfloor> = r"
  "\<not> numInteger NaN" "\<not> numInteger PosInf" "\<not> numInteger NegInf"
  by (simp_all add: numInteger_def)

lemma numInteger_finite: "numInteger n \<Longrightarrow> numFinite n"
  by (cases n) auto

lemma numMax_Num [simp]: "numMax (Num a) (Num b) = Num (max a b)"
  by (auto simp: numMax_def)

section \<open>Values\<close>

datatype jsval =
    Undef
  | Null
  | Bool bool
  | Number jsnum
  | Str string
  | Arr "jsval list"
  | Obj "(string \<times> jsval) list"

abbreviation Nat :: "nat \<Rightarrow> jsval" where
  "Nat n \<equiv> Number (Num (of_nat n))"

text \<open>\<^verbatim>\<open>isRecord(value)\<close>: a non-null, non-array object.\<close>

definition isRecord :: "jsval \<Rightarrow> bool" where
  "isRecord v = (case v of Obj _ \<Rightarrow> True | _ \<Rightarrow> False)"

definition isArray :: "jsval \<Rightarrow> bool" where
  "isArray v = (case v of Arr _ \<Rightarrow> True | _ \<Rightarrow> False)"

definition isString :: "jsval \<Rightarrow> bool" where
  "isString v = (case v of Str _ \<Rightarrow> True | _ \<Rightarrow> False)"

definition isNumber :: "jsval \<Rightarrow> bool" where
  "isNumber v = (case v of Number _ \<Rightarrow> True | _ \<Rightarrow> False)"

definition isBool :: "jsval \<Rightarrow> bool" where
  "isBool v = (case v of Bool _ \<Rightarrow> True | _ \<Rightarrow> False)"

text \<open>Property read \<^verbatim>\<open>value.key\<close> of an own property, undefined when absent.\<close>

fun fld :: "jsval \<Rightarrow> string \<Rightarrow> jsval" where
  "fld (Obj kvs) k = (case map_of kvs k of Some v \<Rightarrow> v | None \<Rightarrow> Undef)"
| "fld _ k = Undef"

fun arrItems :: "jsval \<Rightarrow> jsval list" where
  "arrItems (Arr vs) = vs"
| "arrItems _ = []"

fun objFields :: "jsval \<Rightarrow> (string \<times> jsval) list" where
  "objFields (Obj kvs) = kvs"
| "objFields _ = []"

fun strOf :: "jsval \<Rightarrow> string" where
  "strOf (Str s) = s"
| "strOf _ = []"

fun numOfVal :: "jsval \<Rightarrow> jsnum" where
  "numOfVal (Number n) = n"
| "numOfVal _ = NaN"

definition isOneOf :: "jsval \<Rightarrow> string list \<Rightarrow> bool" where
  "isOneOf v xs = (case v of Str s \<Rightarrow> s \<in> set xs | _ \<Rightarrow> False)"

definition hasOwn :: "jsval \<Rightarrow> string \<Rightarrow> bool" where
  "hasOwn v k = (k \<in> set (map fst (objFields v)))"

definition hasAnyOwn :: "jsval \<Rightarrow> string list \<Rightarrow> bool" where
  "hasAnyOwn v ks = list_ex (hasOwn v) ks"

text \<open>The value of an optional field: undefined when it is not there.\<close>

fun optVal :: "('a \<Rightarrow> jsval) \<Rightarrow> 'a option \<Rightarrow> jsval" where
  "optVal f None = Undef"
| "optVal f (Some x) = f x"

text \<open>The spread \<^verbatim>\<open>...(x !== undefined ? { k: x } : {})\<close> as a list of properties.\<close>

fun optField :: "string \<Rightarrow> ('a \<Rightarrow> jsval) \<Rightarrow> 'a option \<Rightarrow> (string \<times> jsval) list" where
  "optField k f None = []"
| "optField k f (Some x) = [(k, f x)]"

text \<open>Truthiness: \<^verbatim>\<open>!!value\<close>.\<close>

fun truthy :: "jsval \<Rightarrow> bool" where
  "truthy Undef = False"
| "truthy Null = False"
| "truthy (Bool b) = b"
| "truthy (Number n) = (n \<noteq> NaN \<and> n \<noteq> Num 0)"
| "truthy (Str s) = (s \<noteq> [])"
| "truthy (Arr _) = True"
| "truthy (Obj _) = True"

lemma isRecord_simps [simp]:
  "isRecord (Obj kvs)" "\<not> isRecord Undef" "\<not> isRecord Null" "\<not> isRecord (Bool b)"
  "\<not> isRecord (Number n)" "\<not> isRecord (Str s)" "\<not> isRecord (Arr vs)"
  by (simp_all add: isRecord_def)

lemma isArray_simps [simp]:
  "isArray (Arr vs)" "\<not> isArray Undef" "\<not> isArray Null" "\<not> isArray (Bool b)"
  "\<not> isArray (Number n)" "\<not> isArray (Str s)" "\<not> isArray (Obj kvs)"
  by (simp_all add: isArray_def)

lemma isString_simps [simp]:
  "isString (Str s)" "\<not> isString Undef" "\<not> isString Null" "\<not> isString (Bool b)"
  "\<not> isString (Number n)" "\<not> isString (Arr vs)" "\<not> isString (Obj kvs)"
  by (simp_all add: isString_def)

lemma isNumber_simps [simp]:
  "isNumber (Number n)" "\<not> isNumber Undef" "\<not> isNumber Null" "\<not> isNumber (Bool b)"
  "\<not> isNumber (Str s)" "\<not> isNumber (Arr vs)" "\<not> isNumber (Obj kvs)"
  by (simp_all add: isNumber_def)

lemma isBool_simps [simp]:
  "isBool (Bool b)" "\<not> isBool Undef" "\<not> isBool Null" "\<not> isBool (Number n)"
  "\<not> isBool (Str s)" "\<not> isBool (Arr vs)" "\<not> isBool (Obj kvs)"
  by (simp_all add: isBool_def)

lemma isOneOf_simps [simp]:
  "isOneOf (Str s) xs \<longleftrightarrow> s \<in> set xs" "\<not> isOneOf Undef xs" "\<not> isOneOf Null xs"
  "\<not> isOneOf (Bool b) xs" "\<not> isOneOf (Number n) xs" "\<not> isOneOf (Arr vs) xs"
  "\<not> isOneOf (Obj kvs) xs"
  by (simp_all add: isOneOf_def)

lemma isStringE: "isString v \<Longrightarrow> (\<And>s. v = Str s \<Longrightarrow> P) \<Longrightarrow> P"
  by (cases v) auto

lemma isArrayE: "isArray v \<Longrightarrow> (\<And>vs. v = Arr vs \<Longrightarrow> P) \<Longrightarrow> P"
  by (cases v) auto

lemma isRecordE: "isRecord v \<Longrightarrow> (\<And>kvs. v = Obj kvs \<Longrightarrow> P) \<Longrightarrow> P"
  by (cases v) auto

lemma isOneOfE: "isOneOf v xs \<Longrightarrow> (\<And>s. v = Str s \<Longrightarrow> s \<in> set xs \<Longrightarrow> P) \<Longrightarrow> P"
  by (cases v) auto

section \<open>Strings\<close>

abbreviation codeUnit :: "char \<Rightarrow> nat" where
  "codeUnit c \<equiv> of_char c"

text \<open>\<^verbatim>\<open>new TextEncoder().encode(value).byteLength\<close>: one byte below U+0080, two below U+0800.\<close>

definition charBytes :: "char \<Rightarrow> nat" where
  "charBytes c = (if codeUnit c < 128 then 1 else 2)"

fun byteLength :: "string \<Rightarrow> nat" where
  "byteLength [] = 0"
| "byteLength (c # cs) = charBytes c + byteLength cs"

lemma charBytes_bounds: "1 \<le> charBytes c" "charBytes c \<le> 2"
  by (simp_all add: charBytes_def)

lemma byteLength_append [simp]: "byteLength (xs @ ys) = byteLength xs + byteLength ys"
  by (induction xs) auto

lemma length_le_byteLength: "length s \<le> byteLength s"
proof (induction s)
  case (Cons c s)
  then show ?case using charBytes_bounds(1) [of c] by simp
qed simp

lemma byteLength_ascii: "list_all (\<lambda>c. codeUnit c < 128) s \<Longrightarrow> byteLength s = length s"
  by (induction s) (auto simp: charBytes_def)

text \<open>White space and line terminators in the modelled range, as \<^verbatim>\<open>trim\<close> removes them.\<close>

definition isSpace :: "char \<Rightarrow> bool" where
  "isSpace c = (let n = codeUnit c in (9 \<le> n \<and> n \<le> 13) \<or> n = 32 \<or> n = 160)"

definition trimStart :: "string \<Rightarrow> string" where
  "trimStart s = dropWhile isSpace s"

definition trim :: "string \<Rightarrow> string" where
  "trim s = rev (dropWhile isSpace (rev (dropWhile isSpace s)))"

lemma trim_Nil [simp]: "trim [] = []"
  by (simp add: trim_def)

lemma dropWhile_rev_hd:
  "ys = rev (dropWhile P (rev xs)) \<Longrightarrow> ys \<noteq> [] \<Longrightarrow> hd ys = hd xs"
  by (metis append_is_Nil_conv dropWhile_eq_Nil_conv hd_append2 rev_append rev_is_Nil_conv
      rev_rev_ident takeWhile_dropWhile_id)

lemma trim_ends:
  assumes "trim s \<noteq> []"
  shows "\<not> isSpace (hd (trim s))" "\<not> isSpace (last (trim s))"
proof -
  let ?t = "dropWhile isSpace s"
  have ne: "?t \<noteq> []" using assms by (metis dropWhile.simps(1) rev.simps(1) trim_def)
  have "hd (trim s) = hd ?t"
    using assms by (intro dropWhile_rev_hd) (simp_all add: trim_def)
  then show "\<not> isSpace (hd (trim s))" using ne by (simp add: hd_dropWhile)
  have "dropWhile isSpace (rev ?t) \<noteq> []" using assms by (metis rev.simps(1) trim_def)
  then show "\<not> isSpace (last (trim s))"
    by (simp add: trim_def last_rev hd_dropWhile)
qed

lemma trim_idem [simp]: "trim (trim s) = trim s"
proof (cases "trim s")
  case (Cons c cs)
  have "dropWhile isSpace (trim s) = trim s"
    using trim_ends(1) [of s] Cons by simp
  moreover have "dropWhile isSpace (rev (trim s)) = rev (trim s)"
    using trim_ends(2) [of s] Cons
    by (metis dropWhile.simps(2) hd_rev list.distinct(1) list.exhaust_sel rev_is_Nil_conv)
  ultimately show ?thesis by (simp add: trim_def)
qed simp

text \<open>\<^verbatim>\<open>toLowerCase\<close> on the modelled range.\<close>

definition lowerChar :: "char \<Rightarrow> char" where
  "lowerChar c = (let n = codeUnit c in
     if (65 \<le> n \<and> n \<le> 90) \<or> (192 \<le> n \<and> n \<le> 222 \<and> n \<noteq> 215) then char_of (n + 32) else c)"

definition toLower :: "string \<Rightarrow> string" where
  "toLower s = map lowerChar s"

definition startsWith :: "string \<Rightarrow> string \<Rightarrow> bool" where
  "startsWith s p = (take (length p) s = p)"

definition endsWith :: "string \<Rightarrow> string \<Rightarrow> bool" where
  "endsWith s p = (length p \<le> length s \<and> drop (length s - length p) s = p)"

text \<open>\<^verbatim>\<open>s.split(c)\<close> for a one-character separator.\<close>

fun splitOn :: "char \<Rightarrow> string \<Rightarrow> string list" where
  "splitOn d [] = [[]]"
| "splitOn d (c # cs) =
     (if c = d then [] # splitOn d cs
      else (case splitOn d cs of [] \<Rightarrow> [[c]] | p # ps \<Rightarrow> (c # p) # ps))"

lemma splitOn_nonempty [simp]: "splitOn d s \<noteq> []"
  by (cases s) (auto split: list.splits)

fun joinWith :: "string \<Rightarrow> string list \<Rightarrow> string" where
  "joinWith sep [] = []"
| "joinWith sep [x] = x"
| "joinWith sep (x # y # ys) = x @ sep @ joinWith sep (y # ys)"

lemma joinWith_Cons_ne: "ps \<noteq> [] \<Longrightarrow> joinWith sep (p # ps) = p @ sep @ joinWith sep ps"
  by (cases ps) auto

lemma joinWith_Cons_head: "joinWith sep ((c # p) # ps) = c # joinWith sep (p # ps)"
  by (cases ps) auto

lemma joinWith_splitOn: "joinWith [d] (splitOn d s) = s"
proof (induction s)
  case (Cons c s)
  show ?case
  proof (cases "splitOn d s")
    case (Cons p ps)
    with Cons.IH show ?thesis
      by (auto simp: joinWith_Cons_ne joinWith_Cons_head)
  qed simp
qed simp

lemma splitOn_no_sep: "p \<in> set (splitOn d s) \<Longrightarrow> d \<notin> set p"
proof (induction s arbitrary: p)
  case (Cons c s)
  then show ?case
    by (cases "splitOn d s") (auto split: if_splits)
qed simp

text \<open>Order of two strings by code unit, the order of \<^verbatim>\<open>sort()\<close> without a comparator.\<close>

fun codeUnitLe :: "string \<Rightarrow> string \<Rightarrow> bool" where
  "codeUnitLe [] _ = True"
| "codeUnitLe (_ # _) [] = False"
| "codeUnitLe (c # cs) (d # ds) =
     (codeUnit c < codeUnit d \<or> (c = d \<and> codeUnitLe cs ds))"

lemma codeUnitLe_refl [simp]: "codeUnitLe s s"
  by (induction s) auto

lemma codeUnitLe_total: "codeUnitLe s t \<or> codeUnitLe t s"
proof (induction s t rule: codeUnitLe.induct)
  case (3 c cs d ds)
  have "codeUnit c < codeUnit d \<or> c = d \<or> codeUnit d < codeUnit c"
    by (metis linorder_neqE_nat of_char_eq_iff)
  with 3 show ?case by auto
qed auto

lemma codeUnitLe_trans: "codeUnitLe s t \<Longrightarrow> codeUnitLe t u \<Longrightarrow> codeUnitLe s u"
proof (induction s t arbitrary: u rule: codeUnitLe.induct)
  case (3 c cs d ds)
  then show ?case by (cases u) auto
qed auto

lemma codeUnitLe_antisym: "codeUnitLe s t \<Longrightarrow> codeUnitLe t s \<Longrightarrow> s = t"
proof (induction s t rule: codeUnitLe.induct)
  case (1 t)
  then show ?case by (cases t) auto
qed auto

interpretation code_unit_order: comparator_order codeUnitLe
  by unfold_locales (use codeUnitLe_total codeUnitLe_trans in blast)+

definition sortStrings :: "string list \<Rightarrow> string list" where
  "sortStrings xs = sortBy codeUnitLe xs"

lemma set_sortStrings [simp]: "set (sortStrings xs) = set xs"
  by (simp add: sortStrings_def)

lemma distinct_sortStrings [simp]: "distinct (sortStrings xs) = distinct xs"
  by (simp add: sortStrings_def)

lemma sortStrings_idem [simp]: "sortStrings (sortStrings xs) = sortStrings xs"
  by (simp add: sortStrings_def code_unit_order.sortBy_idem)

lemma sortStrings_mset:
  assumes "mset xs = mset ys"
  shows "sortStrings xs = sortStrings ys"
  unfolding sortStrings_def
  by (rule sorted_wrt_mset_unique [where le = codeUnitLe])
    (auto simp: assms code_unit_order.sorted_sortBy intro: codeUnitLe_antisym)

section \<open>Numbers as strings\<close>

definition digitChar :: "nat \<Rightarrow> char" where
  "digitChar d = char_of (48 + d)"

fun showNat :: "nat \<Rightarrow> string" where
  "showNat n = (if n < 10 then [digitChar n] else showNat (n div 10) @ [digitChar (n mod 10)])"

declare showNat.simps [simp del]

definition showInt :: "int \<Rightarrow> string" where
  "showInt i = (if i < 0 then ''-'' @ showNat (nat (- i)) else showNat (nat i))"

text \<open>
  \<^verbatim>\<open>Number::toString\<close>. Integers below \<open>10 ^ 21\<close> print in decimal; the digits of other finite
  numbers are a parameter \<open>fmt\<close> (the shortest decimal that reads back as the same double).
\<close>

definition numToString :: "(rat \<Rightarrow> string) \<Rightarrow> jsnum \<Rightarrow> string" where
  "numToString fmt n = (case n of
     NaN \<Rightarrow> ''NaN'' | PosInf \<Rightarrow> ''Infinity'' | NegInf \<Rightarrow> ''-Infinity''
   | Num r \<Rightarrow> (if of_int \<lfloor>r\<rfloor> = r \<and> \<bar>r\<bar> < 10 ^ 21 then showInt \<lfloor>r\<rfloor> else fmt r))"

text \<open>\<^verbatim>\<open>JSON.stringify\<close> of a string: the escapes of the specification.\<close>

definition hexDigit :: "nat \<Rightarrow> char" where
  "hexDigit d = (if d < 10 then char_of (48 + d) else char_of (87 + d))"

definition jsonEscapeChar :: "char \<Rightarrow> string" where
  "jsonEscapeChar c = (let n = codeUnit c in
     if n = 34 then [CHR 0x5C, CHR 0x22]
     else if n = 92 then [CHR 0x5C, CHR 0x5C]
     else if n = 8 then [CHR 0x5C, CHR ''b'']
     else if n = 12 then [CHR 0x5C, CHR ''f'']
     else if n = 10 then [CHR 0x5C, CHR ''n'']
     else if n = 13 then [CHR 0x5C, CHR ''r'']
     else if n = 9 then [CHR 0x5C, CHR ''t'']
     else if n < 32 then [CHR 0x5C, CHR ''u'', CHR ''0'', CHR ''0'', hexDigit (n div 16), hexDigit (n mod 16)]
     else [c])"

definition jsonString :: "string \<Rightarrow> string" where
  "jsonString s = [CHR 0x22] @ concat (map jsonEscapeChar s) @ [CHR 0x22]"

text \<open>
  \<^verbatim>\<open>JSON.stringify\<close> of a value: an undefined element of an array prints as \<^verbatim>\<open>null\<close>, an
  undefined property is left out, and so is the whole value at the top (\<open>None\<close>).
\<close>

fun jsonText :: "(rat \<Rightarrow> string) \<Rightarrow> jsval \<Rightarrow> string"
  and jsonItems :: "(rat \<Rightarrow> string) \<Rightarrow> jsval list \<Rightarrow> string list"
  and jsonFields :: "(rat \<Rightarrow> string) \<Rightarrow> (string \<times> jsval) list \<Rightarrow> string list" where
  "jsonText fmt Undef = ''null''"
| "jsonText fmt Null = ''null''"
| "jsonText fmt (Bool b) = (if b then ''true'' else ''false'')"
| "jsonText fmt (Number n) = (if numFinite n then numToString fmt n else ''null'')"
| "jsonText fmt (Str s) = jsonString s"
| "jsonText fmt (Arr vs) = ''['' @ joinWith '','' (jsonItems fmt vs) @ '']''"
| "jsonText fmt (Obj kvs) = ''{'' @ joinWith '','' (jsonFields fmt kvs) @ ''}''"
| "jsonItems fmt [] = []"
| "jsonItems fmt (v # vs) = jsonText fmt v # jsonItems fmt vs"
| "jsonFields fmt [] = []"
| "jsonFields fmt ((k, v) # kvs) =
     (if v = Undef then jsonFields fmt kvs
      else (jsonString k @ '':'' @ jsonText fmt v) # jsonFields fmt kvs)"

definition jsonStringify :: "(rat \<Rightarrow> string) \<Rightarrow> jsval \<Rightarrow> string option" where
  "jsonStringify fmt v = (if v = Undef then None else Some (jsonText fmt v))"

text \<open>
  The two host functions the code calls whose result the language leaves to the
  implementation: the digits of a non-integer number, and \<^verbatim>\<open>localeCompare\<close>, whose order is
  the host's collation; \<open>collateLe h a b\<close> is \<^verbatim>\<open>a.localeCompare(b) <= 0\<close>.
\<close>

record jsHost =
  numDigits :: "rat \<Rightarrow> string"
  collateLe :: "string \<Rightarrow> string \<Rightarrow> bool"

definition codeUnitHost :: jsHost where
  "codeUnitHost = \<lparr>numDigits = (\<lambda>r. ''0''), collateLe = codeUnitLe\<rparr>"

text \<open>What ECMA-402 promises of a collation: a consistent comparison (a total preorder).\<close>

definition consistentHost :: "jsHost \<Rightarrow> bool" where
  "consistentHost h = comparator_order (collateLe h)"

lemma consistent_codeUnitHost: "consistentHost codeUnitHost"
  by (simp add: consistentHost_def codeUnitHost_def code_unit_order.comparator_order_axioms)

end
