(* ===== verification/QueueTypes.thy ===== *)
theory QueueTypes
  imports JsValue
begin

text \<open>
  The shared data of the transport queue (\<^verbatim>\<open>shared/transport-queue-types.ts\<close>), the projection
  that leaves private material out (\<^verbatim>\<open>shared/transport-queue-privacy.ts\<close>) and the validation
  of wire events (\<^verbatim>\<open>shared/transport-queue-wire.ts\<close>).
\<close>

section \<open>Data\<close>

datatype queueEntryStatus =
    St_queued | St_handoff_inflight | St_dispatching | St_failed | St_expired | St_capacity_evicted
  | St_cancelled | St_sent | St_deleted | St_dismissed | St_session_removed

datatype queuePlacement = Pl_normal | Pl_front

datatype queueDropReason =
    Dr_expired | Dr_capacity_evicted | Dr_user_cleared | Dr_user_stopped | Dr_session_removed
  | Dr_private_material_missing

datatype queueResetReason =
    Rr_sqlite_restore | Rr_runtime_recreated | Rr_user_clear | Rr_authority_corrupt_reinitialized

datatype queueFailureReason =
    Fr_dispatch_failed | Fr_expired | Fr_capacity_evicted | Fr_cancelled
  | Fr_private_material_missing | Fr_sqlite_degraded

record queueSharedActorProjection =
  sa_actorId :: "string option"
  sa_displayName :: "string option"
  sa_role :: "string option"
  sa_type :: "string option"
  sa_avatarUrl :: "string option"
  sa_color :: "string option"

record queueAttachmentProjection =
  at_attachmentId :: string
  at_filename :: "string option"
  at_mimeType :: "string option"
  at_size :: "jsnum option"

text \<open>Ordinals and timestamps live in INTEGER columns, so they are integers here.\<close>

record queueStoredEntry =
  qs_sessionName :: string
  qs_queueEpoch :: string
  qs_queueAuthorityId :: string
  qs_clientMessageId :: string
  qs_commandId :: "string option"
  qs_text :: string
  qs_status :: queueEntryStatus
  qs_placement :: queuePlacement
  qs_ordinal :: int
  qs_createdAt :: int
  qs_updatedAt :: int
  qs_pendingMessageVersion :: int
  qs_activityGeneration :: "string option"
  qs_replacesClientMessageId :: "string option"
  qs_failureReason :: "queueFailureReason option"
  qs_dropReason :: "queueDropReason option"
  qs_resetReason :: "queueResetReason option"
  qs_attachments :: "queueAttachmentProjection list option"
  qs_sharedActor :: "queueSharedActorProjection option"
  qs_handoffId :: "string option"
  qs_handoffStartedAt :: "int option"
  qs_handoffExpiresAt :: "int option"
  qs_handoffAttempt :: "int option"
  qs_privateMaterialRef :: "string option"

record queueProjectionEntry =
  qp_clientMessageId :: string
  qp_text :: string
  qp_status :: queueEntryStatus
  qp_placement :: queuePlacement
  qp_ordinal :: int
  qp_createdAt :: int
  qp_updatedAt :: int
  qp_commandId :: "string option"
  qp_activityGeneration :: "string option"
  qp_replacesClientMessageId :: "string option"
  qp_failureReason :: "queueFailureReason option"
  qp_attachments :: "queueAttachmentProjection list option"
  qp_sharedActor :: "queueSharedActorProjection option"

record queueSnapshot =
  sn_sessionName :: string
  sn_queueEpoch :: string
  sn_queueAuthorityId :: string
  sn_pendingMessageVersion :: jsnum
  sn_pendingMessageEntries :: "queueProjectionEntry list"
  sn_failedMessageEntries :: "queueProjectionEntry list"
  sn_source :: string
  sn_resetReason :: "queueResetReason option"
  sn_dropReason :: "queueDropReason option"
  sn_activityGeneration :: "string option"
  sn_degradedReason :: "string option"

record queueDeliveryFact =
  df_sessionName :: string
  df_clientMessageId :: string
  df_queueEpoch :: string
  df_queueAuthorityId :: string
  df_pendingMessageVersion :: jsnum
  df_deliveryFrameId :: string
  df_deliveryFrameVersion :: jsnum

datatype receiptStatus = Receipt_accepted | Receipt_error

record queueMutationReceipt =
  rc_sessionName :: string
  rc_commandId :: string
  rc_status :: receiptStatus
  rc_reason :: "string option"

record queueFailureDropEvent =
  fd_sessionName :: string
  fd_queueEpoch :: string
  fd_queueAuthorityId :: string
  fd_pendingMessageVersion :: jsnum
  fd_clientMessageId :: string
  fd_failureReason :: "queueFailureReason option"
  fd_dropReason :: "queueDropReason option"

record queueResetEvent =
  rs_sessionName :: string
  rs_queueEpoch :: string
  rs_queueAuthorityId :: string
  rs_pendingMessageVersion :: jsnum
  rs_resetReason :: queueResetReason

datatype queueEvent =
    QSnapshot queueSnapshot
  | QDelivery queueDeliveryFact
  | QReceipt queueMutationReceipt
  | QFailure queueFailureDropEvent
  | QReset queueResetEvent

definition LIVE_QUEUE_ENTRY_STATUSES :: "queueEntryStatus list" where
  "LIVE_QUEUE_ENTRY_STATUSES = [St_queued, St_handoff_inflight, St_dispatching]"

definition FAILED_QUEUE_ENTRY_STATUSES :: "queueEntryStatus list" where
  "FAILED_QUEUE_ENTRY_STATUSES = [St_failed, St_expired, St_capacity_evicted, St_cancelled]"

definition QUEUE_RESET_REASONS :: "queueResetReason list" where
  "QUEUE_RESET_REASONS =
     [Rr_sqlite_restore, Rr_runtime_recreated, Rr_user_clear, Rr_authority_corrupt_reinitialized]"

definition QUEUE_DROP_REASONS :: "queueDropReason list" where
  "QUEUE_DROP_REASONS =
     [Dr_expired, Dr_capacity_evicted, Dr_user_cleared, Dr_user_stopped, Dr_session_removed,
      Dr_private_material_missing]"

abbreviation isLiveStatus :: "queueEntryStatus \<Rightarrow> bool" where
  "isLiveStatus s \<equiv> s \<in> set LIVE_QUEUE_ENTRY_STATUSES"

abbreviation isFailedStatus :: "queueEntryStatus \<Rightarrow> bool" where
  "isFailedStatus s \<equiv> s \<in> set FAILED_QUEUE_ENTRY_STATUSES"

lemma status_disjoint: "isLiveStatus s \<Longrightarrow> \<not> isFailedStatus s"
  by (auto simp: LIVE_QUEUE_ENTRY_STATUSES_def FAILED_QUEUE_ENTRY_STATUSES_def)

lemma reset_reason_known [simp]: "r \<in> set QUEUE_RESET_REASONS"
  by (cases r) (simp_all add: QUEUE_RESET_REASONS_def)

section \<open>The strings the enumerations stand for\<close>

fun statusText :: "queueEntryStatus \<Rightarrow> string" where
  "statusText St_queued = ''queued''"
| "statusText St_handoff_inflight = ''handoff_inflight''"
| "statusText St_dispatching = ''dispatching''"
| "statusText St_failed = ''failed''"
| "statusText St_expired = ''expired''"
| "statusText St_capacity_evicted = ''capacity_evicted''"
| "statusText St_cancelled = ''cancelled''"
| "statusText St_sent = ''sent''"
| "statusText St_deleted = ''deleted''"
| "statusText St_dismissed = ''dismissed''"
| "statusText St_session_removed = ''session_removed''"

fun placementText :: "queuePlacement \<Rightarrow> string" where
  "placementText Pl_normal = ''normal''"
| "placementText Pl_front = ''front''"

fun dropReasonText :: "queueDropReason \<Rightarrow> string" where
  "dropReasonText Dr_expired = ''expired''"
| "dropReasonText Dr_capacity_evicted = ''capacity_evicted''"
| "dropReasonText Dr_user_cleared = ''user_cleared''"
| "dropReasonText Dr_user_stopped = ''user_stopped''"
| "dropReasonText Dr_session_removed = ''session_removed''"
| "dropReasonText Dr_private_material_missing = ''private_material_missing''"

fun resetReasonText :: "queueResetReason \<Rightarrow> string" where
  "resetReasonText Rr_sqlite_restore = ''sqlite_restore''"
| "resetReasonText Rr_runtime_recreated = ''runtime_recreated''"
| "resetReasonText Rr_user_clear = ''user_clear''"
| "resetReasonText Rr_authority_corrupt_reinitialized = ''authority_corrupt_reinitialized''"

fun failureReasonText :: "queueFailureReason \<Rightarrow> string" where
  "failureReasonText Fr_dispatch_failed = ''dispatch_failed''"
| "failureReasonText Fr_expired = ''expired''"
| "failureReasonText Fr_capacity_evicted = ''capacity_evicted''"
| "failureReasonText Fr_cancelled = ''cancelled''"
| "failureReasonText Fr_private_material_missing = ''private_material_missing''"
| "failureReasonText Fr_sqlite_degraded = ''sqlite_degraded''"

section \<open>Projection without private material\<close>

definition MAX_SAFE_STRING :: nat where
  "MAX_SAFE_STRING = 512"

definition safeString :: "jsval \<Rightarrow> nat \<Rightarrow> string option" where
  "safeString value maxLength = (case value of
     Str s \<Rightarrow> (let trimmed = trim s in
       if trimmed = [] then None
       else Some (if length trimmed > maxLength then take maxLength trimmed else trimmed))
   | _ \<Rightarrow> None)"

definition safeNumber :: "jsval \<Rightarrow> jsnum option" where
  "safeNumber value = (case value of Number n \<Rightarrow> if numFinite n then Some n else None | _ \<Rightarrow> None)"

text \<open>\<^verbatim>\<open>a ?? b\<close>.\<close>

definition nullish :: "jsval \<Rightarrow> jsval \<Rightarrow> jsval" where
  "nullish a b = (if a = Undef \<or> a = Null then b else a)"

definition buildQueueSharedActorProjection :: "jsval \<Rightarrow> queueSharedActorProjection option" where
  "buildQueueSharedActorProjection value = (if \<not> isRecord value then None else
     let projection = \<lparr>
       sa_actorId = safeString (nullish (fld value ''actorId'') (fld value ''id'')) 128,
       sa_displayName = safeString (nullish (fld value ''displayName'') (fld value ''name'')) 128,
       sa_role = safeString (fld value ''role'') 64,
       sa_type = safeString (fld value ''type'') 64,
       sa_avatarUrl = safeString (fld value ''avatarUrl'') 512,
       sa_color = safeString (fld value ''color'') 64\<rparr>
     in if projection = \<lparr>sa_actorId = None, sa_displayName = None, sa_role = None, sa_type = None,
            sa_avatarUrl = None, sa_color = None\<rparr> then None else Some projection)"

definition buildQueueAttachmentProjection :: "jsval \<Rightarrow> queueAttachmentProjection option" where
  "buildQueueAttachmentProjection value = (if \<not> isRecord value then None else
     case safeString (nullish (fld value ''attachmentId'') (fld value ''id'')) 256 of
       None \<Rightarrow> None
     | Some attachmentId \<Rightarrow> Some \<lparr>
         at_attachmentId = attachmentId,
         at_filename = safeString (nullish (fld value ''filename'') (fld value ''name'')) 256,
         at_mimeType = safeString (nullish (fld value ''mimeType'') (fld value ''type'')) 128,
         at_size = safeNumber (fld value ''size'')\<rparr>)"

text \<open>The runtime objects behind the typed records.\<close>

definition sharedActor_js :: "queueSharedActorProjection \<Rightarrow> jsval" where
  "sharedActor_js a = Obj (optField ''actorId'' Str (sa_actorId a)
     @ optField ''displayName'' Str (sa_displayName a) @ optField ''role'' Str (sa_role a)
     @ optField ''type'' Str (sa_type a) @ optField ''avatarUrl'' Str (sa_avatarUrl a)
     @ optField ''color'' Str (sa_color a))"

definition attachment_js :: "queueAttachmentProjection \<Rightarrow> jsval" where
  "attachment_js a = Obj ([(''attachmentId'', Str (at_attachmentId a))]
     @ optField ''filename'' Str (at_filename a) @ optField ''mimeType'' Str (at_mimeType a)
     @ optField ''size'' Number (at_size a))"

fun nonEmptyOpt :: "string option \<Rightarrow> string option" where
  "nonEmptyOpt (Some (c # cs)) = Some (c # cs)"
| "nonEmptyOpt _ = None"

definition buildQueueProjectionEntry :: "queueStoredEntry \<Rightarrow> queueProjectionEntry" where
  "buildQueueProjectionEntry entry = \<lparr>
     qp_clientMessageId = qs_clientMessageId entry,
     qp_text = qs_text entry,
     qp_status = qs_status entry,
     qp_placement = qs_placement entry,
     qp_ordinal = qs_ordinal entry,
     qp_createdAt = qs_createdAt entry,
     qp_updatedAt = qs_updatedAt entry,
     qp_commandId = nonEmptyOpt (qs_commandId entry),
     qp_activityGeneration = qs_activityGeneration entry,
     qp_replacesClientMessageId = nonEmptyOpt (qs_replacesClientMessageId entry),
     qp_failureReason = qs_failureReason entry,
     qp_attachments = (case qs_attachments entry of
         None \<Rightarrow> None
       | Some [] \<Rightarrow> None
       | Some as \<Rightarrow> Some (List.map_filter (\<lambda>a. buildQueueAttachmentProjection (attachment_js a)) as)),
     qp_sharedActor = (case qs_sharedActor entry of
         None \<Rightarrow> None
       | Some a \<Rightarrow> buildQueueSharedActorProjection (sharedActor_js a))\<rparr>"

definition PROHIBITED_PROJECTION_FIELDS :: "string list" where
  "PROHIBITED_PROJECTION_FIELDS =
     [''messagePreamble'', ''daemonPath'', ''rawProviderPayload'', ''providerPayload'', ''toolInput'',
      ''toolOutput'', ''env'', ''secret'', ''secrets'', ''rawSessionHistory'',
      ''rawSharedActorEnvelope'', ''sharedActorEnvelope'', ''fullChildTranscript'',
      ''timelineCommitted'', ''historyCommitted'', ''privateMaterialRef'', ''providerRouting'']"

fun containsProhibitedQueueProjectionField :: "jsval \<Rightarrow> bool"
  and prohibitedItems :: "jsval list \<Rightarrow> bool"
  and prohibitedFields :: "(string \<times> jsval) list \<Rightarrow> bool" where
  "containsProhibitedQueueProjectionField (Arr vs) = prohibitedItems vs"
| "containsProhibitedQueueProjectionField (Obj kvs) = prohibitedFields kvs"
| "containsProhibitedQueueProjectionField _ = False"
| "prohibitedItems [] = False"
| "prohibitedItems (v # vs) = (containsProhibitedQueueProjectionField v \<or> prohibitedItems vs)"
| "prohibitedFields [] = False"
| "prohibitedFields ((k, v) # kvs) =
     (k \<in> set PROHIBITED_PROJECTION_FIELDS \<or> containsProhibitedQueueProjectionField v \<or> prohibitedFields kvs)"

section \<open>Wire validation\<close>

definition QUEUE_EVENT_TYPES :: "string list" where
  "QUEUE_EVENT_TYPES =
     [''transport.queue.snapshot'', ''transport.queue.delivery'', ''transport.queue.receipt'',
      ''transport.queue.failure'', ''transport.queue.reset'']"

definition LEGACY_LIVE_QUEUE_FIELDS :: "string list" where
  "LEGACY_LIVE_QUEUE_FIELDS = [''pendingMessages'', ''transportPendingMessages'', ''pendingCount'']"

definition hasLegacyLiveQueueField :: "jsval \<Rightarrow> bool" where
  "hasLegacyLiveQueueField value = (isRecord value
     \<and> list_ex (\<lambda>kv. fst kv \<in> set LEGACY_LIVE_QUEUE_FIELDS) (objFields value))"

fun containsLegacyLiveQueueEvidence :: "jsval \<Rightarrow> bool"
  and legacyItems :: "jsval list \<Rightarrow> bool"
  and legacyFields :: "(string \<times> jsval) list \<Rightarrow> bool" where
  "containsLegacyLiveQueueEvidence (Arr vs) = legacyItems vs"
| "containsLegacyLiveQueueEvidence (Obj kvs) = (hasLegacyLiveQueueField (Obj kvs) \<or> legacyFields kvs)"
| "containsLegacyLiveQueueEvidence _ = False"
| "legacyItems [] = False"
| "legacyItems (v # vs) = (containsLegacyLiveQueueEvidence v \<or> legacyItems vs)"
| "legacyFields [] = False"
| "legacyFields ((k, v) # kvs) = (containsLegacyLiveQueueEvidence v \<or> legacyFields kvs)"

definition isTransportQueueEventType :: "jsval \<Rightarrow> bool" where
  "isTransportQueueEventType t = isOneOf t QUEUE_EVENT_TYPES"

definition isFiniteNumber :: "jsval \<Rightarrow> bool" where
  "isFiniteNumber v = (case v of Number n \<Rightarrow> numFinite n | _ \<Rightarrow> False)"

lemma isFiniteNumber_simps [simp]: "isFiniteNumber (Number n) = numFinite n" "\<not> isFiniteNumber Undef"
  "\<not> isFiniteNumber (Str s)"
  by (simp_all add: isFiniteNumber_def)

definition hasQueueBaseline :: "jsval \<Rightarrow> bool" where
  "hasQueueBaseline value = (isString (fld value ''sessionName'')
     \<and> isString (fld value ''queueEpoch'')
     \<and> isString (fld value ''queueAuthorityId'')
     \<and> isFiniteNumber (fld value ''pendingMessageVersion''))"

definition isProjectionEntry :: "string list \<Rightarrow> jsval \<Rightarrow> bool" where
  "isProjectionEntry statusSet value = (isRecord value
     \<and> isString (fld value ''clientMessageId'')
     \<and> isString (fld value ''text'')
     \<and> isOneOf (fld value ''status'') statusSet
     \<and> isOneOf (fld value ''placement'') [''normal'', ''front'']
     \<and> isFiniteNumber (fld value ''ordinal'')
     \<and> isFiniteNumber (fld value ''createdAt'')
     \<and> isFiniteNumber (fld value ''updatedAt''))"

definition optOneOf :: "jsval \<Rightarrow> string list \<Rightarrow> bool" where
  "optOneOf v xs = (v = Undef \<or> isOneOf v xs)"

definition isValidTransportQueueWireEvent :: "jsval \<Rightarrow> bool" where
  "isValidTransportQueueWireEvent value = (
     if \<not> isRecord value \<or> \<not> isTransportQueueEventType (fld value ''type'') then False
     else if containsLegacyLiveQueueEvidence value \<or> containsProhibitedQueueProjectionField value then False
     else if fld value ''type'' = Str ''transport.queue.snapshot'' then
       hasQueueBaseline value
       \<and> isArray (fld value ''pendingMessageEntries'')
       \<and> list_all (isProjectionEntry (map statusText LIVE_QUEUE_ENTRY_STATUSES))
           (arrItems (fld value ''pendingMessageEntries''))
       \<and> isArray (fld value ''failedMessageEntries'')
       \<and> list_all (isProjectionEntry (map statusText FAILED_QUEUE_ENTRY_STATUSES))
           (arrItems (fld value ''failedMessageEntries''))
       \<and> optOneOf (fld value ''resetReason'') (map resetReasonText QUEUE_RESET_REASONS)
       \<and> optOneOf (fld value ''dropReason'') (map dropReasonText QUEUE_DROP_REASONS)
     else if fld value ''type'' = Str ''transport.queue.delivery'' then
       hasQueueBaseline value
       \<and> isString (fld value ''clientMessageId'')
       \<and> isString (fld value ''deliveryFrameId'')
       \<and> isFiniteNumber (fld value ''deliveryFrameVersion'')
     else if fld value ''type'' = Str ''transport.queue.receipt'' then
       isString (fld value ''sessionName'')
       \<and> isString (fld value ''commandId'')
       \<and> isOneOf (fld value ''status'') [''accepted'', ''error'']
     else if fld value ''type'' = Str ''transport.queue.failure'' then
       hasQueueBaseline value
       \<and> isString (fld value ''clientMessageId'')
       \<and> optOneOf (fld value ''dropReason'') (map dropReasonText QUEUE_DROP_REASONS)
     else
       hasQueueBaseline value
       \<and> isOneOf (fld value ''resetReason'') (map resetReasonText QUEUE_RESET_REASONS))"

section \<open>Events as runtime objects\<close>

definition projectionEntry_js :: "queueProjectionEntry \<Rightarrow> jsval" where
  "projectionEntry_js e = Obj (
     [(''clientMessageId'', Str (qp_clientMessageId e)), (''text'', Str (qp_text e)),
      (''status'', Str (statusText (qp_status e))), (''placement'', Str (placementText (qp_placement e))),
      (''ordinal'', Number (numOf (qp_ordinal e))), (''createdAt'', Number (numOf (qp_createdAt e))),
      (''updatedAt'', Number (numOf (qp_updatedAt e)))]
     @ optField ''commandId'' Str (qp_commandId e)
     @ optField ''activityGeneration'' Str (qp_activityGeneration e)
     @ optField ''replacesClientMessageId'' Str (qp_replacesClientMessageId e)
     @ optField ''failureReason'' (\<lambda>r. Str (failureReasonText r)) (qp_failureReason e)
     @ optField ''attachments'' (\<lambda>as. Arr (map attachment_js as)) (qp_attachments e)
     @ optField ''sharedActor'' sharedActor_js (qp_sharedActor e))"

fun queueEvent_js :: "queueEvent \<Rightarrow> jsval" where
  "queueEvent_js (QSnapshot s) = Obj (
     [(''type'', Str ''transport.queue.snapshot''), (''sessionName'', Str (sn_sessionName s)),
      (''queueEpoch'', Str (sn_queueEpoch s)), (''queueAuthorityId'', Str (sn_queueAuthorityId s)),
      (''pendingMessageVersion'', Number (sn_pendingMessageVersion s)),
      (''pendingMessageEntries'', Arr (map projectionEntry_js (sn_pendingMessageEntries s))),
      (''failedMessageEntries'', Arr (map projectionEntry_js (sn_failedMessageEntries s))),
      (''source'', Str (sn_source s))]
     @ optField ''resetReason'' (\<lambda>r. Str (resetReasonText r)) (sn_resetReason s)
     @ optField ''dropReason'' (\<lambda>r. Str (dropReasonText r)) (sn_dropReason s)
     @ optField ''activityGeneration'' Str (sn_activityGeneration s)
     @ (case sn_degradedReason s of None \<Rightarrow> []
        | Some r \<Rightarrow> [(''degraded'', Bool True), (''degradedReason'', Str r)]))"
| "queueEvent_js (QDelivery d) = Obj
     [(''type'', Str ''transport.queue.delivery''), (''sessionName'', Str (df_sessionName d)),
      (''clientMessageId'', Str (df_clientMessageId d)), (''queueEpoch'', Str (df_queueEpoch d)),
      (''queueAuthorityId'', Str (df_queueAuthorityId d)),
      (''pendingMessageVersion'', Number (df_pendingMessageVersion d)),
      (''deliveryFrameId'', Str (df_deliveryFrameId d)),
      (''deliveryFrameVersion'', Number (df_deliveryFrameVersion d))]"
| "queueEvent_js (QReceipt r) = Obj (
     [(''type'', Str ''transport.queue.receipt''), (''sessionName'', Str (rc_sessionName r)),
      (''commandId'', Str (rc_commandId r)),
      (''status'', Str (case rc_status r of Receipt_accepted \<Rightarrow> ''accepted'' | Receipt_error \<Rightarrow> ''error''))]
     @ optField ''reason'' Str (rc_reason r))"
| "queueEvent_js (QFailure f) = Obj (
     [(''type'', Str ''transport.queue.failure''), (''sessionName'', Str (fd_sessionName f)),
      (''queueEpoch'', Str (fd_queueEpoch f)), (''queueAuthorityId'', Str (fd_queueAuthorityId f)),
      (''pendingMessageVersion'', Number (fd_pendingMessageVersion f)),
      (''clientMessageId'', Str (fd_clientMessageId f))]
     @ optField ''failureReason'' (\<lambda>r. Str (failureReasonText r)) (fd_failureReason f)
     @ optField ''dropReason'' (\<lambda>r. Str (dropReasonText r)) (fd_dropReason f))"
| "queueEvent_js (QReset r) = Obj
     [(''type'', Str ''transport.queue.reset''), (''sessionName'', Str (rs_sessionName r)),
      (''queueEpoch'', Str (rs_queueEpoch r)), (''queueAuthorityId'', Str (rs_queueAuthorityId r)),
      (''pendingMessageVersion'', Number (rs_pendingMessageVersion r)),
      (''resetReason'', Str (resetReasonText (rs_resetReason r)))]"

end
