(* ===== verification/QueueStore.thy ===== *)
theory QueueStore
  imports QueueTypes
begin

text \<open>
  The SQLite-backed queue authority (\<^verbatim>\<open>src/daemon/transport-queue-store.ts\<close>): the four
  tables as a record, \<^verbatim>\<open>randomUUID\<close> as a numbered supply, a transaction as a body whose
  failure restores the tables, and one definition per public method.
\<close>

section \<open>Tables and errors\<close>

record queueMeta =
  qm_queueEpoch :: string
  qm_queueAuthorityId :: string
  qm_pendingMessageVersion :: int
  qm_nextOrdinal :: int
  qm_updatedAt :: int

record queueRow =
  er_sessionName :: string
  er_clientMessageId :: string
  er_commandId :: "string option"
  er_text :: string
  er_status :: queueEntryStatus
  er_placement :: queuePlacement
  er_ordinal :: int
  er_createdAt :: int
  er_updatedAt :: int
  er_activityGeneration :: "string option"
  er_replacesClientMessageId :: "string option"
  er_failureReason :: "queueFailureReason option"
  er_dropReason :: "queueDropReason option"
  er_resetReason :: "queueResetReason option"
  er_attachments :: "queueAttachmentProjection list option"
  er_sharedActor :: "queueSharedActorProjection option"
  er_handoffId :: "string option"
  er_handoffStartedAt :: "int option"
  er_handoffExpiresAt :: "int option"
  er_handoffAttempt :: "int option"
  er_privateMaterialRef :: "string option"

text \<open>
  Private material is keyed by session and client message id, delivery tombstones by session,
  epoch and client message id; their values pair the stored column with its timestamp.
\<close>

record queueDb =
  db_meta :: "string \<rightharpoonup> queueMeta"
  db_entries :: "queueRow list"
  db_private :: "string \<times> string \<rightharpoonup> string \<times> int"
  db_tombstones :: "(string \<times> string \<times> string, string \<times> int) jsmap"

record sqlFault =
  sf_name :: string
  sf_message :: string

text \<open>\<open>st_fault\<close> is the error every statement raises while the database is unusable.\<close>

record queueStore =
  st_db :: queueDb
  st_uuid :: "nat \<Rightarrow> string"
  st_drawn :: nat
  st_fault :: "sqlFault option"

datatype storeError =
    SessionNameRequired
  | FieldRequired string
  | PrimaryKeyConflict
  | SqliteFault sqlFault

type_synonym 'a storeResult = "(storeError + 'a) \<times> queueStore"

definition emptyDb :: queueDb where
  "emptyDb = \<lparr>db_meta = Map.empty, db_entries = [], db_private = Map.empty, db_tombstones = []\<rparr>"

definition openStore :: "(nat \<Rightarrow> string) \<Rightarrow> queueStore" where
  "openStore uuid = \<lparr>st_db = emptyDb, st_uuid = uuid, st_drawn = 0, st_fault = None\<rparr>"

definition normalizeSessionName :: "string \<Rightarrow> storeError + string" where
  "normalizeSessionName sessionName =
     (if trim sessionName = [] then Inl SessionNameRequired else Inr (trim sessionName))"

definition requireNonEmpty :: "string \<Rightarrow> string \<Rightarrow> storeError + string" where
  "requireNonEmpty value label = (if value = [] then Inl (FieldRequired label) else Inr value)"

definition nowMs :: "int option \<Rightarrow> int \<Rightarrow> int" where
  "nowMs input dateNow = (case input of Some t \<Rightarrow> t | None \<Rightarrow> dateNow)"

abbreviation readString :: "string option \<Rightarrow> string option" where
  "readString \<equiv> nonEmptyOpt"

section \<open>Classification of SQLite errors\<close>

definition wordChar :: "char \<Rightarrow> bool" where
  "wordChar c = (let n = codeUnit c in
     (48 \<le> n \<and> n \<le> 57) \<or> (65 \<le> n \<and> n \<le> 90) \<or> n = 95 \<or> (97 \<le> n \<and> n \<le> 122))"

text \<open>
  \<^verbatim>\<open>/\b(w)\b/i\<close> for a word \<open>w\<close> made of word characters, in lower case: \<open>prev\<close> is the
  character before the remaining text.
\<close>

fun wordSearch :: "string \<Rightarrow> char option \<Rightarrow> string \<Rightarrow> bool" where
  "wordSearch w prev [] = False"
| "wordSearch w prev (c # cs) =
     (((case prev of None \<Rightarrow> True | Some p \<Rightarrow> \<not> wordChar p)
        \<and> startsWith (c # cs) w
        \<and> (case drop (length w) (c # cs) of [] \<Rightarrow> True | d # _ \<Rightarrow> \<not> wordChar d))
      \<or> wordSearch w (Some c) cs)"

definition mentionsWord :: "string list \<Rightarrow> string \<Rightarrow> bool" where
  "mentionsWord ws message = list_ex (\<lambda>w. wordSearch w None (toLower message)) ws"

datatype degradedReason = Sqlite_busy_or_locked | Sqlite_error | Queue_authority_corrupt

fun degradedReasonText :: "degradedReason \<Rightarrow> string" where
  "degradedReasonText Sqlite_busy_or_locked = ''sqlite_busy_or_locked''"
| "degradedReasonText Sqlite_error = ''sqlite_error''"
| "degradedReasonText Queue_authority_corrupt = ''queue_authority_corrupt''"

record queueDegradedDiagnostic =
  qd_degradedReason :: degradedReason
  qd_errorClass :: string

text \<open>The message and class of the errors the store throws.\<close>

fun errorMessage :: "storeError \<Rightarrow> string" where
  "errorMessage SessionNameRequired = ''transport queue sessionName is required''"
| "errorMessage (FieldRequired label) = ''transport queue '' @ label @ '' is required''"
| "errorMessage PrimaryKeyConflict =
     ''UNIQUE constraint failed: queue_entries.session_name, queue_entries.client_message_id''"
| "errorMessage (SqliteFault f) = sf_message f"

fun errorClass :: "storeError \<Rightarrow> string" where
  "errorClass (SqliteFault f) = sf_name f"
| "errorClass _ = ''Error''"

definition safeSqliteDiagnostic :: "storeError \<Rightarrow> queueDegradedDiagnostic" where
  "safeSqliteDiagnostic err =
     (let message = errorMessage err;
          isBusyOrLocked = mentionsWord [''sqlite_busy'', ''sqlite_locked'', ''busy'', ''locked''] message;
          isCorrupt = mentionsWord [''sqlite_corrupt'', ''corrupt'', ''malformed''] message
      in \<lparr>qd_degradedReason = (if isCorrupt then Queue_authority_corrupt
                               else if isBusyOrLocked then Sqlite_busy_or_locked else Sqlite_error),
          qd_errorClass = errorClass err\<rparr>)"

section \<open>Statements\<close>

definition randomUUID :: "queueStore \<Rightarrow> string \<times> queueStore" where
  "randomUUID st = (st_uuid st (st_drawn st), st\<lparr>st_drawn := Suc (st_drawn st)\<rparr>)"

definition rowKey :: "queueRow \<Rightarrow> string \<times> string" where
  "rowKey r = (er_sessionName r, er_clientMessageId r)"

definition deleteEntries :: "(queueRow \<Rightarrow> bool) \<Rightarrow> queueDb \<Rightarrow> queueDb" where
  "deleteEntries P db = db\<lparr>db_entries := filter (\<lambda>r. \<not> P r) (db_entries db)\<rparr>"

definition updateEntries :: "(queueRow \<Rightarrow> bool) \<Rightarrow> (queueRow \<Rightarrow> queueRow) \<Rightarrow> queueDb \<Rightarrow> queueDb" where
  "updateEntries P f db = db\<lparr>db_entries := map (\<lambda>r. if P r then f r else r) (db_entries db)\<rparr>"

definition deletePrivate :: "(string \<times> string \<Rightarrow> bool) \<Rightarrow> queueDb \<Rightarrow> queueDb" where
  "deletePrivate P db = db\<lparr>db_private := (\<lambda>k. if P k then None else db_private db k)\<rparr>"

text \<open>\<^verbatim>\<open>WHERE session_name = ? AND client_message_id = ?\<close>.\<close>

abbreviation isRow :: "string \<Rightarrow> string \<Rightarrow> queueRow \<Rightarrow> bool" where
  "isRow s i r \<equiv> rowKey r = (s, i)"

definition ensureMeta :: "string \<Rightarrow> int \<Rightarrow> queueStore \<Rightarrow> queueMeta \<times> queueStore" where
  "ensureMeta session now st =
     (case db_meta (st_db st) session of
        Some existing \<Rightarrow> (existing, st)
      | None \<Rightarrow>
          (let (epoch, st1) = randomUUID st;
               (authority, st2) = randomUUID st1;
               meta = \<lparr>qm_queueEpoch = epoch, qm_queueAuthorityId = authority,
                       qm_pendingMessageVersion = 0, qm_nextOrdinal = 0, qm_updatedAt = now\<rparr>
           in (meta, st2\<lparr>st_db := (st_db st2)\<lparr>db_meta := (db_meta (st_db st2))(session \<mapsto> meta)\<rparr>\<rparr>)))"

definition updateMeta :: "string \<Rightarrow> (queueMeta \<Rightarrow> queueMeta) \<Rightarrow> queueDb \<Rightarrow> queueDb" where
  "updateMeta session f db = db\<lparr>db_meta := (db_meta db)(session := map_option f (db_meta db session))\<rparr>"

definition bumpVersion :: "string \<Rightarrow> int \<Rightarrow> queueStore \<Rightarrow> queueMeta \<times> queueStore" where
  "bumpVersion session now st =
     (let (_, st1) = ensureMeta session now st;
          st2 = st1\<lparr>st_db := updateMeta session (\<lambda>m. m\<lparr>
                  qm_pendingMessageVersion := qm_pendingMessageVersion m + 1,
                  qm_updatedAt := now\<rparr>) (st_db st1)\<rparr>
      in ensureMeta session now st2)"

text \<open>\<^verbatim>\<open>BEGIN IMMEDIATE ... COMMIT\<close>, with \<^verbatim>\<open>ROLLBACK\<close> and a rethrow when the body fails.\<close>

definition transact :: "(queueStore \<Rightarrow> 'a storeResult) \<Rightarrow> queueStore \<Rightarrow> 'a storeResult" where
  "transact body st =
     (case st_fault st of
        Some f \<Rightarrow> (Inl (SqliteFault f), st)
      | None \<Rightarrow> (case body st of
            (Inl e, st') \<Rightarrow> (Inl e, st'\<lparr>st_db := st_db st\<rparr>)
          | (Inr r, st') \<Rightarrow> (Inr r, st')))"

section \<open>Reading\<close>

type_synonym orderKey = "queuePlacement \<times> int \<times> int \<times> string"

text \<open>Front entries first, then ordinal, creation time and client message id.\<close>

fun orderLe :: "(string \<Rightarrow> string \<Rightarrow> bool) \<Rightarrow> orderKey \<Rightarrow> orderKey \<Rightarrow> bool" where
  "orderLe lc (p1, o1, c1, i1) (p2, o2, c2, i2) =
     (if p1 \<noteq> p2 then p1 = Pl_front
      else if o1 \<noteq> o2 then o1 < o2
      else if c1 \<noteq> c2 then c1 < c2
      else lc i1 i2)"

definition rowOrderKey :: "queueRow \<Rightarrow> orderKey" where
  "rowOrderKey r = (er_placement r, er_ordinal r, er_createdAt r, er_clientMessageId r)"

definition storedOrderKey :: "queueStoredEntry \<Rightarrow> orderKey" where
  "storedOrderKey e = (qs_placement e, qs_ordinal e, qs_createdAt e, qs_clientMessageId e)"

text \<open>The fields of a row as the SELECT joins them with its session's meta row.\<close>

definition storedEntry :: "queueMeta \<Rightarrow> queueRow \<Rightarrow> queueStoredEntry" where
  "storedEntry meta r = \<lparr>
     qs_sessionName = er_sessionName r,
     qs_queueEpoch = qm_queueEpoch meta,
     qs_queueAuthorityId = qm_queueAuthorityId meta,
     qs_clientMessageId = er_clientMessageId r,
     qs_commandId = readString (er_commandId r),
     qs_text = er_text r,
     qs_status = er_status r,
     qs_placement = er_placement r,
     qs_ordinal = er_ordinal r,
     qs_createdAt = er_createdAt r,
     qs_updatedAt = er_updatedAt r,
     qs_pendingMessageVersion = qm_pendingMessageVersion meta,
     qs_activityGeneration = readString (er_activityGeneration r),
     qs_replacesClientMessageId = readString (er_replacesClientMessageId r),
     qs_failureReason = er_failureReason r,
     qs_dropReason = er_dropReason r,
     qs_resetReason = er_resetReason r,
     qs_attachments = er_attachments r,
     qs_sharedActor = er_sharedActor r,
     qs_handoffId = readString (er_handoffId r),
     qs_handoffStartedAt = er_handoffStartedAt r,
     qs_handoffExpiresAt = er_handoffExpiresAt r,
     qs_handoffAttempt = er_handoffAttempt r,
     qs_privateMaterialRef = readString (er_privateMaterialRef r)\<rparr>"

definition parseStoredEntry :: "queueMeta \<Rightarrow> queueRow \<Rightarrow> storeError + queueStoredEntry" where
  "parseStoredEntry meta r =
     (case requireNonEmpty (er_sessionName r) ''row.sessionName'' of Inl e \<Rightarrow> Inl e | Inr _ \<Rightarrow>
     (case requireNonEmpty (qm_queueEpoch meta) ''row.queueEpoch'' of Inl e \<Rightarrow> Inl e | Inr _ \<Rightarrow>
     (case requireNonEmpty (qm_queueAuthorityId meta) ''row.queueAuthorityId'' of Inl e \<Rightarrow> Inl e | Inr _ \<Rightarrow>
     (case requireNonEmpty (er_clientMessageId r) ''row.clientMessageId'' of Inl e \<Rightarrow> Inl e | Inr _ \<Rightarrow>
        Inr (storedEntry meta r)))))"

fun traverseE :: "('a \<Rightarrow> 'e + 'b) \<Rightarrow> 'a list \<Rightarrow> 'e + 'b list" where
  "traverseE f [] = Inr []"
| "traverseE f (x # xs) = (case f x of Inl e \<Rightarrow> Inl e
     | Inr y \<Rightarrow> (case traverseE f xs of Inl e \<Rightarrow> Inl e | Inr ys \<Rightarrow> Inr (y # ys)))"

definition readRows :: "string \<Rightarrow> queueDb \<Rightarrow> storeError + queueStoredEntry list" where
  "readRows session db =
     (case db_meta db session of
        None \<Rightarrow> Inr []
      | Some meta \<Rightarrow> traverseE (parseStoredEntry meta)
          (sortBy (\<lambda>a b. orderLe codeUnitLe (rowOrderKey a) (rowOrderKey b))
            (filter (\<lambda>r. er_sessionName r = session) (db_entries db))))"

record snapshotOverride =
  ov_queueEpoch :: string
  ov_queueAuthorityId :: string
  ov_pendingMessageVersion :: int
  ov_resetReason :: "queueResetReason option"
  ov_dropReason :: "queueDropReason option"
  ov_activityGeneration :: "string option"

definition overrideOf :: "queueMeta \<Rightarrow> queueResetReason option \<Rightarrow> queueDropReason option \<Rightarrow> string option
    \<Rightarrow> snapshotOverride" where
  "overrideOf m rr dr ag = \<lparr>ov_queueEpoch = qm_queueEpoch m, ov_queueAuthorityId = qm_queueAuthorityId m,
     ov_pendingMessageVersion = qm_pendingMessageVersion m, ov_resetReason = rr, ov_dropReason = dr,
     ov_activityGeneration = ag\<rparr>"

text \<open>The filtered, sorted and projected entries of one list of the snapshot.\<close>

definition projectEntries :: "jsHost \<Rightarrow> (queueEntryStatus \<Rightarrow> bool) \<Rightarrow> queueStoredEntry list
    \<Rightarrow> queueProjectionEntry list" where
  "projectEntries h keep rows =
     map buildQueueProjectionEntry
       (sortBy (\<lambda>a b. orderLe (collateLe h) (storedOrderKey a) (storedOrderKey b))
         (filter (\<lambda>e. keep (qs_status e)) rows))"

definition buildSnapshot :: "jsHost \<Rightarrow> string \<Rightarrow> string \<Rightarrow> snapshotOverride \<Rightarrow> queueStoredEntry list
    \<Rightarrow> queueSnapshot" where
  "buildSnapshot h session source ov rows = \<lparr>
     sn_sessionName = session,
     sn_queueEpoch = ov_queueEpoch ov,
     sn_queueAuthorityId = ov_queueAuthorityId ov,
     sn_pendingMessageVersion = numOf (ov_pendingMessageVersion ov),
     sn_pendingMessageEntries = projectEntries h isLiveStatus rows,
     sn_failedMessageEntries = projectEntries h isFailedStatus rows,
     sn_source = source,
     sn_resetReason = ov_resetReason ov,
     sn_dropReason = ov_dropReason ov,
     sn_activityGeneration = ov_activityGeneration ov,
     sn_degradedReason = None\<rparr>"

definition readSnapshot :: "jsHost \<Rightarrow> string \<Rightarrow> string \<Rightarrow> snapshotOverride option \<Rightarrow> int
    \<Rightarrow> queueStore \<Rightarrow> queueSnapshot storeResult" where
  "readSnapshot h sessionNameInput source override dateNow st =
     (case normalizeSessionName sessionNameInput of
        Inl e \<Rightarrow> (Inl e, st)
      | Inr session \<Rightarrow>
          (case st_fault st of
             Some f \<Rightarrow> (Inl (SqliteFault f), st)
           | None \<Rightarrow>
               (let (ov, st1) = (case override of
                      Some ov \<Rightarrow> (ov, st)
                    | None \<Rightarrow> (case ensureMeta session dateNow st of
                        (m, st') \<Rightarrow> (overrideOf m None None None, st')))
                in (case readRows session (st_db st1) of
                      Inl e \<Rightarrow> (Inl e, st1)
                    | Inr rows \<Rightarrow> (Inr (buildSnapshot h session source ov rows), st1)))))"

definition unavailableSnapshot :: "string \<Rightarrow> string \<Rightarrow> queueDegradedDiagnostic \<Rightarrow> queueSnapshot" where
  "unavailableSnapshot session source d = \<lparr>
     sn_sessionName = session,
     sn_queueEpoch = ''unavailable'',
     sn_queueAuthorityId = ''unavailable'',
     sn_pendingMessageVersion = numOf 0,
     sn_pendingMessageEntries = [],
     sn_failedMessageEntries = [],
     sn_source = source,
     sn_resetReason = None,
     sn_dropReason = None,
     sn_activityGeneration = None,
     sn_degradedReason = Some (degradedReasonText (qd_degradedReason d))\<rparr>"

definition readSnapshotSafely :: "jsHost \<Rightarrow> string \<Rightarrow> string \<Rightarrow> int \<Rightarrow> queueStore
    \<Rightarrow> queueSnapshot storeResult" where
  "readSnapshotSafely h sessionNameInput source dateNow st =
     (case readSnapshot h sessionNameInput source None dateNow st of
        (Inr s, st') \<Rightarrow> (Inr s, st')
      | (Inl err, st') \<Rightarrow>
          (case normalizeSessionName sessionNameInput of
             Inl e \<Rightarrow> (Inl e, st')
           | Inr session \<Rightarrow>
               (Inr (unavailableSnapshot session source (safeSqliteDiagnostic err)), st')))"

datatype 'a queueSafeMutationResult =
    MutationOk 'a
  | MutationDegraded queueSnapshot queueDegradedDiagnostic

definition mutateSafely :: "jsHost \<Rightarrow> string \<Rightarrow> string \<Rightarrow> (queueStore \<Rightarrow> 'a storeResult) \<Rightarrow> int
    \<Rightarrow> queueStore \<Rightarrow> 'a queueSafeMutationResult storeResult" where
  "mutateSafely h sessionNameInput source mutation dateNow st =
     (case mutation st of
        (Inr r, st') \<Rightarrow> (Inr (MutationOk r), st')
      | (Inl err, st') \<Rightarrow>
          (case readSnapshotSafely h sessionNameInput source dateNow st' of
             (Inl e, st'') \<Rightarrow> (Inl e, st'')
           | (Inr snapshot, st'') \<Rightarrow>
               (Inr (MutationDegraded snapshot (safeSqliteDiagnostic err)), st'')))"

end
