(* ===== verification/QueueOps.thy ===== *)
theory QueueOps
  imports QueueStore
begin

text \<open>
  The mutating methods of the queue store (\<^verbatim>\<open>src/daemon/transport-queue-store.ts\<close>), each a
  transaction that changes the rows of one session, bumps its version and returns the snapshot
  of the committed state.
\<close>

section \<open>Enqueue\<close>

record enqueueInput =
  eq_sessionName :: string
  eq_text :: string
  eq_clientMessageId :: "string option"
  eq_commandId :: "string option"
  eq_placement :: "queuePlacement option"
  eq_now :: "int option"
  eq_activityGeneration :: "string option"
  eq_replacesClientMessageId :: "string option"
  eq_privateMaterialJson :: "string option"

record enqueueResult =
  er_queueSnapshot :: queueSnapshot
  er_dropSnapshot :: "queueSnapshot option"

definition trimOpt :: "string option \<Rightarrow> string option" where
  "trimOpt s = nonEmptyOpt (map_option trim s)"

definition newRow :: "string \<Rightarrow> string \<Rightarrow> enqueueInput \<Rightarrow> int \<Rightarrow> int \<Rightarrow> queueRow" where
  "newRow session clientMessageId input ordinal now = \<lparr>
     er_sessionName = session,
     er_clientMessageId = clientMessageId,
     er_commandId = trimOpt (eq_commandId input),
     er_text = eq_text input,
     er_status = St_queued,
     er_placement = (case eq_placement input of None \<Rightarrow> Pl_normal | Some p \<Rightarrow> p),
     er_ordinal = ordinal,
     er_createdAt = now,
     er_updatedAt = now,
     er_activityGeneration = eq_activityGeneration input,
     er_replacesClientMessageId = trimOpt (eq_replacesClientMessageId input),
     er_failureReason = None,
     er_dropReason = None,
     er_resetReason = None,
     er_attachments = None,
     er_sharedActor = None,
     er_handoffId = None,
     er_handoffStartedAt = None,
     er_handoffExpiresAt = None,
     er_handoffAttempt = None,
     er_privateMaterialRef = (case eq_privateMaterialJson input of None \<Rightarrow> None | Some _ \<Rightarrow> Some clientMessageId)\<rparr>"

text \<open>\<^verbatim>\<open>INSERT INTO queue_entries\<close>: the primary key must be free.\<close>

definition insertRow :: "queueRow \<Rightarrow> queueDb \<Rightarrow> queueDb option" where
  "insertRow r db = (if rowKey r \<in> rowKey ` set (db_entries db) then None
     else Some (db\<lparr>db_entries := db_entries db @ [r]\<rparr>))"

definition evictEntry :: "string \<Rightarrow> string option \<Rightarrow> queueDb \<Rightarrow> queueDb" where
  "evictEntry session evict db = (case evict of None \<Rightarrow> db
     | Some i \<Rightarrow> deletePrivate (\<lambda>k. k = (session, i)) (deleteEntries (isRow session i) db))"

definition storePrivate :: "string \<Rightarrow> string \<Rightarrow> string option \<Rightarrow> int \<Rightarrow> queueDb \<Rightarrow> queueDb" where
  "storePrivate session clientMessageId material now db = (case material of None \<Rightarrow> db
     | Some json \<Rightarrow> db\<lparr>db_private := (db_private db)((session, clientMessageId) \<mapsto> (json, now))\<rparr>)"

definition enqueueBody :: "string \<Rightarrow> string \<Rightarrow> string option \<Rightarrow> enqueueInput \<Rightarrow> int \<Rightarrow> queueStore
    \<Rightarrow> queueMeta storeResult" where
  "enqueueBody session clientMessageId evict input now st =
     (let (meta, st1) = ensureMeta session now st;
          db1 = evictEntry session evict (st_db st1);
          ordinal = qm_nextOrdinal meta;
          db2 = updateMeta session (\<lambda>m. m\<lparr>qm_nextOrdinal := qm_nextOrdinal m + 1, qm_updatedAt := now\<rparr>) db1
      in (case insertRow (newRow session clientMessageId input ordinal now) db2 of
            None \<Rightarrow> (Inl PrimaryKeyConflict, st1)
          | Some db3 \<Rightarrow>
              (let db4 = storePrivate session clientMessageId (eq_privateMaterialJson input) now db3;
                   (version, st2) = bumpVersion session now (st1\<lparr>st_db := db4\<rparr>)
               in (Inr version, st2))))"

definition enqueueWithCapacityEviction :: "jsHost \<Rightarrow> enqueueInput \<Rightarrow> string option \<Rightarrow> int \<Rightarrow> queueStore
    \<Rightarrow> enqueueResult storeResult" where
  "enqueueWithCapacityEviction h input evictInput dateNow st0 =
     (case normalizeSessionName (eq_sessionName input) of
        Inl e \<Rightarrow> (Inl e, st0)
      | Inr session \<Rightarrow>
          (let now = nowMs (eq_now input) dateNow;
               (clientMessageId, st) = (case trimOpt (eq_clientMessageId input) of
                  Some i \<Rightarrow> (i, st0) | None \<Rightarrow> randomUUID st0);
               evict = trimOpt evictInput
           in (case transact (enqueueBody session clientMessageId evict input now) st of
                 (Inl e, st') \<Rightarrow> (Inl e, st')
               | (Inr version, st') \<Rightarrow>
                   (case readSnapshot h session ''enqueue'' (Some (overrideOf version None None None)) dateNow st' of
                      (Inl e, st'') \<Rightarrow> (Inl e, st'')
                    | (Inr snap, st'') \<Rightarrow>
                        (case evict of
                           None \<Rightarrow> (Inr \<lparr>er_queueSnapshot = snap, er_dropSnapshot = None\<rparr>, st'')
                         | Some _ \<Rightarrow>
                             (case readSnapshot h session ''drop''
                                (Some (overrideOf version None (Some Dr_capacity_evicted) None)) dateNow st'' of
                                (Inl e, st3) \<Rightarrow> (Inl e, st3)
                              | (Inr dsnap, st3) \<Rightarrow>
                                  (Inr \<lparr>er_queueSnapshot = snap, er_dropSnapshot = Some dsnap\<rparr>, st3)))))))"

definition enqueue :: "jsHost \<Rightarrow> enqueueInput \<Rightarrow> int \<Rightarrow> queueStore \<Rightarrow> queueSnapshot storeResult" where
  "enqueue h input dateNow st =
     (case enqueueWithCapacityEviction h input None dateNow st of
        (Inl e, st') \<Rightarrow> (Inl e, st')
      | (Inr r, st') \<Rightarrow> (Inr (er_queueSnapshot r), st'))"

definition retry :: "jsHost \<Rightarrow> string \<Rightarrow> string \<Rightarrow> enqueueInput \<Rightarrow> int \<Rightarrow> queueStore
    \<Rightarrow> queueSnapshot storeResult" where
  "retry h sessionNameInput failedInput input dateNow st =
     (case normalizeSessionName sessionNameInput of
        Inl e \<Rightarrow> (Inl e, st)
      | Inr session \<Rightarrow>
          (case requireNonEmpty (trim failedInput) ''failedClientMessageId'' of
             Inl e \<Rightarrow> (Inl e, st)
           | Inr failedId \<Rightarrow>
               enqueue h (input\<lparr>eq_sessionName := session, eq_replacesClientMessageId := Some failedId\<rparr>)
                 dateNow st))"

section \<open>Row updates\<close>

text \<open>
  The shape the remaining methods share: a transaction that makes sure of the meta row, changes
  the tables and bumps the version, then a snapshot of what was committed.
\<close>

definition commitChange :: "string \<Rightarrow> int \<Rightarrow> (queueDb \<Rightarrow> queueDb) \<Rightarrow> queueStore \<Rightarrow> queueMeta storeResult" where
  "commitChange session now change =
     transact (\<lambda>st. let (_, st1) = ensureMeta session now st;
                        (version, st2) = bumpVersion session now (st1\<lparr>st_db := change (st_db st1)\<rparr>)
                    in (Inr version, st2))"

definition commitAndRead :: "jsHost \<Rightarrow> string \<Rightarrow> int \<Rightarrow> (queueDb \<Rightarrow> queueDb) \<Rightarrow> string
    \<Rightarrow> queueDropReason option \<Rightarrow> queueStore \<Rightarrow> queueSnapshot storeResult" where
  "commitAndRead h session now change source dropReason st =
     (case commitChange session now change st of
        (Inl e, st') \<Rightarrow> (Inl e, st')
      | (Inr version, st') \<Rightarrow>
          readSnapshot h session source (Some (overrideOf version None dropReason None)) now st')"

text \<open>Both arguments checked before the transaction, as every per-entry method does.\<close>

definition withEntry :: "string \<Rightarrow> string \<Rightarrow> (string \<Rightarrow> string \<Rightarrow> queueStore \<Rightarrow> 'a storeResult)
    \<Rightarrow> queueStore \<Rightarrow> 'a storeResult" where
  "withEntry sessionNameInput clientMessageIdInput f st =
     (case normalizeSessionName sessionNameInput of
        Inl e \<Rightarrow> (Inl e, st)
      | Inr session \<Rightarrow>
          (case requireNonEmpty (trim clientMessageIdInput) ''clientMessageId'' of
             Inl e \<Rightarrow> (Inl e, st)
           | Inr i \<Rightarrow> f session i st))"

definition edit :: "jsHost \<Rightarrow> string \<Rightarrow> string \<Rightarrow> string \<Rightarrow> int \<Rightarrow> queueStore \<Rightarrow> queueSnapshot storeResult" where
  "edit h sessionNameInput clientMessageIdInput text now =
     withEntry sessionNameInput clientMessageIdInput (\<lambda>s i.
       commitAndRead h s now
         (updateEntries (isRow s i) (\<lambda>r. r\<lparr>er_text := text, er_updatedAt := now\<rparr>))
         ''edit'' None)"

definition markMissingPrivateMaterialFailed :: "jsHost \<Rightarrow> string \<Rightarrow> string \<Rightarrow> int \<Rightarrow> queueStore
    \<Rightarrow> queueSnapshot storeResult" where
  "markMissingPrivateMaterialFailed h sessionNameInput clientMessageIdInput now =
     withEntry sessionNameInput clientMessageIdInput (\<lambda>s i.
       commitAndRead h s now
         (deletePrivate (\<lambda>k. k = (s, i)) \<circ>
          updateEntries (isRow s i) (\<lambda>r. r\<lparr>er_status := St_failed,
            er_failureReason := Some Fr_private_material_missing,
            er_dropReason := Some Dr_private_material_missing, er_updatedAt := now\<rparr>))
         ''private_material_missing'' (Some Dr_private_material_missing))"

definition markDeleted :: "jsHost \<Rightarrow> string \<Rightarrow> string \<Rightarrow> int \<Rightarrow> queueStore \<Rightarrow> queueSnapshot storeResult" where
  "markDeleted h sessionNameInput clientMessageIdInput now =
     withEntry sessionNameInput clientMessageIdInput (\<lambda>s i.
       commitAndRead h s now
         (deletePrivate (\<lambda>k. k = (s, i)) \<circ>
          updateEntries (isRow s i) (\<lambda>r. r\<lparr>er_status := St_deleted, er_updatedAt := now\<rparr>))
         ''delete'' None)"

definition markFailed :: "jsHost \<Rightarrow> string \<Rightarrow> string \<Rightarrow> queueFailureReason \<Rightarrow> int \<Rightarrow> queueStore
    \<Rightarrow> queueSnapshot storeResult" where
  "markFailed h sessionNameInput clientMessageIdInput failureReason now =
     withEntry sessionNameInput clientMessageIdInput (\<lambda>s i.
       commitAndRead h s now
         (updateEntries (isRow s i) (\<lambda>r. r\<lparr>er_status := St_failed,
            er_failureReason := Some failureReason, er_updatedAt := now\<rparr>))
         ''mark_failed'' None)"

definition dismissFailed :: "jsHost \<Rightarrow> string \<Rightarrow> string \<Rightarrow> int \<Rightarrow> queueStore \<Rightarrow> queueSnapshot storeResult" where
  "dismissFailed h sessionNameInput clientMessageIdInput now =
     withEntry sessionNameInput clientMessageIdInput (\<lambda>s i.
       commitAndRead h s now
         (deletePrivate (\<lambda>k. k = (s, i)) \<circ>
          updateEntries (\<lambda>r. isRow s i r
              \<and> er_status r \<in> {St_failed, St_expired, St_capacity_evicted, St_cancelled})
            (\<lambda>r. r\<lparr>er_status := St_dismissed, er_updatedAt := now\<rparr>))
         ''dismiss_failed'' None)"

definition dropEntry :: "jsHost \<Rightarrow> string \<Rightarrow> string \<Rightarrow> queueDropReason \<Rightarrow> int \<Rightarrow> queueStore
    \<Rightarrow> queueSnapshot storeResult" where
  "dropEntry h sessionNameInput clientMessageIdInput dropReason now =
     withEntry sessionNameInput clientMessageIdInput (\<lambda>s i.
       commitAndRead h s now
         (deletePrivate (\<lambda>k. k = (s, i)) \<circ> deleteEntries (isRow s i))
         ''drop'' (Some dropReason))"

definition withSession :: "string \<Rightarrow> (string \<Rightarrow> queueStore \<Rightarrow> 'a storeResult) \<Rightarrow> queueStore \<Rightarrow> 'a storeResult" where
  "withSession sessionNameInput f st =
     (case normalizeSessionName sessionNameInput of Inl e \<Rightarrow> (Inl e, st) | Inr session \<Rightarrow> f session st)"

definition cleanup :: "jsHost \<Rightarrow> string \<Rightarrow> int \<Rightarrow> queueStore \<Rightarrow> queueSnapshot storeResult" where
  "cleanup h sessionNameInput now =
     withSession sessionNameInput (\<lambda>s.
       commitAndRead h s now
         ((\<lambda>db. deletePrivate (\<lambda>k. fst k = s
              \<and> snd k \<notin> set (map er_clientMessageId (filter (\<lambda>r. er_sessionName r = s) (db_entries db)))) db) \<circ>
          deleteEntries (\<lambda>r. er_sessionName r = s
              \<and> er_status r \<in> {St_sent, St_deleted, St_dismissed, St_session_removed}))
         ''cleanup'' None)"

definition dropAll :: "jsHost \<Rightarrow> string \<Rightarrow> queueDropReason \<Rightarrow> int \<Rightarrow> queueStore \<Rightarrow> queueSnapshot storeResult" where
  "dropAll h sessionNameInput dropReason now =
     withSession sessionNameInput (\<lambda>s.
       commitAndRead h s now
         (deletePrivate (\<lambda>k. fst k = s) \<circ> deleteEntries (\<lambda>r. er_sessionName r = s))
         ''drop_all'' (Some dropReason))"

definition restoreExpiredHandoffs :: "jsHost \<Rightarrow> string \<Rightarrow> int \<Rightarrow> queueStore \<Rightarrow> queueSnapshot storeResult" where
  "restoreExpiredHandoffs h sessionNameInput now =
     withSession sessionNameInput (\<lambda>s.
       commitAndRead h s now
         (updateEntries (\<lambda>r. er_sessionName r = s \<and> er_status r = St_handoff_inflight
              \<and> (case er_handoffExpiresAt r of None \<Rightarrow> False | Some t \<Rightarrow> t \<le> now))
            (\<lambda>r. r\<lparr>er_status := St_queued, er_handoffId := None, er_handoffStartedAt := None,
              er_handoffExpiresAt := None, er_updatedAt := now\<rparr>))
         ''restore_expired_handoffs'' None)"

section \<open>Handoff and delivery\<close>

record handoffEntry =
  ho_entry :: queueProjectionEntry
  ho_handoffId :: string
  ho_privateMaterialJson :: "string option"

definition takeHandoff :: "string \<Rightarrow> int \<Rightarrow> int \<Rightarrow> queueRow \<Rightarrow> queueRow" where
  "takeHandoff handoffId leaseMs now r = r\<lparr>er_status := St_handoff_inflight,
     er_handoffId := Some handoffId,
     er_handoffStartedAt := Some now,
     er_handoffExpiresAt := Some (now + leaseMs),
     er_handoffAttempt := Some ((case er_handoffAttempt r of None \<Rightarrow> 0 | Some a \<Rightarrow> a) + 1),
     er_updatedAt := now\<rparr>"

definition handoffBody :: "string \<Rightarrow> string list \<Rightarrow> string \<Rightarrow> int \<Rightarrow> int \<Rightarrow> queueStore
    \<Rightarrow> handoffEntry list storeResult" where
  "handoffBody session ids handoffId leaseMs now st =
     (let (_, st1) = ensureMeta session now st;
          db1 = fold (\<lambda>i. updateEntries (isRow session i) (takeHandoff handoffId leaseMs now)) ids (st_db st1);
          (_, st2) = bumpVersion session now (st1\<lparr>st_db := db1\<rparr>)
      in (case readRows session (st_db st2) of
            Inl e \<Rightarrow> (Inl e, st2)
          | Inr rows \<Rightarrow>
              (Inr (map (\<lambda>e. \<lparr>
                  ho_entry = buildQueueProjectionEntry e,
                  ho_handoffId = handoffId,
                  ho_privateMaterialJson = nonEmptyOpt
                    (map_option fst (db_private (st_db st2) (session, qs_clientMessageId e)))\<rparr>)
                (filter (\<lambda>e. qs_clientMessageId e \<in> set ids) rows)), st2)))"

definition markHandoffInFlight :: "string \<Rightarrow> string list \<Rightarrow> int \<Rightarrow> int \<Rightarrow> queueStore
    \<Rightarrow> handoffEntry list storeResult" where
  "markHandoffInFlight sessionNameInput clientMessageIds leaseMs now =
     withSession sessionNameInput (\<lambda>session st.
       if clientMessageIds = [] then (Inr [], st)
       else (let (handoffId, st1) = randomUUID st
             in transact (handoffBody session clientMessageIds handoffId leaseMs now) st1))"

definition readPrivateDispatchMaterial :: "string \<Rightarrow> string \<Rightarrow> queueStore \<Rightarrow> string option storeResult" where
  "readPrivateDispatchMaterial sessionNameInput clientMessageIdInput =
     withEntry sessionNameInput clientMessageIdInput (\<lambda>s i st.
       case st_fault st of
         Some f \<Rightarrow> (Inl (SqliteFault f), st)
       | None \<Rightarrow> (Inr (readString (map_option fst (db_private (st_db st) (s, i)))), st))"

definition finalizeOne :: "string \<Rightarrow> string \<Rightarrow> string \<Rightarrow> int \<Rightarrow> string \<Rightarrow> queueDb \<Rightarrow> queueDb" where
  "finalizeOne session epoch frameId now i db =
     deletePrivate (\<lambda>k. k = (session, i))
       (deleteEntries (isRow session i)
         (db\<lparr>db_tombstones := mapSet (db_tombstones db) (session, epoch, i) (frameId, now)\<rparr>))"

definition finalizeBody :: "string \<Rightarrow> string list \<Rightarrow> string \<Rightarrow> int \<Rightarrow> queueStore \<Rightarrow> queueMeta storeResult" where
  "finalizeBody session ids frameId now st =
     (let (meta, st1) = ensureMeta session now st;
          db1 = fold (finalizeOne session (qm_queueEpoch meta) frameId now) ids (st_db st1);
          (version, st2) = bumpVersion session now (st1\<lparr>st_db := db1\<rparr>)
      in (Inr version, st2))"

definition deliveryFact :: "string \<Rightarrow> queueMeta \<Rightarrow> string \<Rightarrow> string \<Rightarrow> queueDeliveryFact" where
  "deliveryFact session version frameId i = \<lparr>
     df_sessionName = session,
     df_clientMessageId = i,
     df_queueEpoch = qm_queueEpoch version,
     df_queueAuthorityId = qm_queueAuthorityId version,
     df_pendingMessageVersion = numOf (qm_pendingMessageVersion version),
     df_deliveryFrameId = frameId,
     df_deliveryFrameVersion = numOf (qm_pendingMessageVersion version)\<rparr>"

text \<open>The trimmed, non-empty, distinct message ids of a batch.\<close>

definition batchIds :: "string list \<Rightarrow> string list" where
  "batchIds inputs = dedup (filter (\<lambda>i. i \<noteq> []) (map trim inputs))"

definition finalizeSentBatch :: "jsHost \<Rightarrow> string \<Rightarrow> string list \<Rightarrow> string option \<Rightarrow> int \<Rightarrow> queueStore
    \<Rightarrow> (queueSnapshot \<times> queueDeliveryFact list) storeResult" where
  "finalizeSentBatch h sessionNameInput idInputs frameIdInput now st0 =
     (let (frameId, st) = (case frameIdInput of Some f \<Rightarrow> (f, st0) | None \<Rightarrow> randomUUID st0)
      in withSession sessionNameInput (\<lambda>session st.
        (let ids = batchIds idInputs
         in if ids = [] then
              (case readSnapshot h session ''finalize_sent_noop'' None now st of
                 (Inl e, st') \<Rightarrow> (Inl e, st')
               | (Inr snap, st') \<Rightarrow> (Inr (snap, []), st'))
            else
              (case transact (finalizeBody session ids frameId now) st of
                 (Inl e, st') \<Rightarrow> (Inl e, st')
               | (Inr version, st') \<Rightarrow>
                   (case readSnapshot h session ''finalize_sent''
                       (Some (overrideOf version None None None)) now st' of
                      (Inl e, st'') \<Rightarrow> (Inl e, st'')
                    | (Inr snap, st'') \<Rightarrow>
                        (Inr (snap, map (deliveryFact session version frameId) ids), st''))))) st)"

definition finalizeSent :: "jsHost \<Rightarrow> string \<Rightarrow> string \<Rightarrow> string option \<Rightarrow> int \<Rightarrow> queueStore
    \<Rightarrow> queueSnapshot storeResult" where
  "finalizeSent h sessionNameInput clientMessageIdInput frameId now st =
     (case finalizeSentBatch h sessionNameInput [clientMessageIdInput] frameId now st of
        (Inl e, st') \<Rightarrow> (Inl e, st')
      | (Inr (snap, _), st') \<Rightarrow> (Inr snap, st'))"

definition hasDeliveryTombstone :: "string \<Rightarrow> string \<Rightarrow> queueStore \<Rightarrow> bool storeResult" where
  "hasDeliveryTombstone sessionNameInput clientMessageIdInput =
     withEntry sessionNameInput clientMessageIdInput (\<lambda>s i st.
       case st_fault st of
         Some f \<Rightarrow> (Inl (SqliteFault f), st)
       | None \<Rightarrow> (Inr (list_ex (\<lambda>t. fst (fst t) = s \<and> snd (snd (fst t)) = i) (db_tombstones (st_db st))), st))"

section \<open>Reset\<close>

definition resetMeta :: "string \<Rightarrow> string \<Rightarrow> string \<Rightarrow> int \<Rightarrow> queueDb \<Rightarrow> queueDb" where
  "resetMeta session epoch authority now db =
     db\<lparr>db_meta := (db_meta db)(session \<mapsto> (case db_meta db session of
        None \<Rightarrow> \<lparr>qm_queueEpoch = epoch, qm_queueAuthorityId = authority,
                 qm_pendingMessageVersion = 1, qm_nextOrdinal = 0, qm_updatedAt = now\<rparr>
      | Some m \<Rightarrow> \<lparr>qm_queueEpoch = epoch, qm_queueAuthorityId = authority,
                   qm_pendingMessageVersion = qm_pendingMessageVersion m + 1,
                   qm_nextOrdinal = 0, qm_updatedAt = now\<rparr>))\<rparr>"

definition resetBody :: "string \<Rightarrow> int \<Rightarrow> queueStore \<Rightarrow> unit storeResult" where
  "resetBody session now st =
     (let db1 = deleteEntries (\<lambda>r. er_sessionName r = session) (st_db st);
          db2 = deletePrivate (\<lambda>k. fst k = session) db1;
          db3 = db2\<lparr>db_tombstones := filter (\<lambda>t. fst (fst t) \<noteq> session) (db_tombstones db2)\<rparr>;
          (epoch, st1) = randomUUID st;
          (authority, st2) = randomUUID st1
      in (Inr (), st2\<lparr>st_db := resetMeta session epoch authority now db3\<rparr>))"

definition reset :: "jsHost \<Rightarrow> string \<Rightarrow> queueResetReason \<Rightarrow> int \<Rightarrow> string option \<Rightarrow> queueStore
    \<Rightarrow> queueSnapshot storeResult" where
  "reset h sessionNameInput resetReason now activityGeneration =
     withSession sessionNameInput (\<lambda>session st.
       case transact (resetBody session now) st of
         (Inl e, st') \<Rightarrow> (Inl e, st')
       | (Inr _, st') \<Rightarrow>
           (case ensureMeta session now st' of (m, st'') \<Rightarrow>
              readSnapshot h session ''reset''
                (Some (overrideOf m (Some resetReason) None activityGeneration)) now st''))"

definition reinitializeAfterCorruption :: "jsHost \<Rightarrow> string \<Rightarrow> int \<Rightarrow> string option \<Rightarrow> queueStore
    \<Rightarrow> queueSnapshot storeResult" where
  "reinitializeAfterCorruption h sessionNameInput now activityGeneration =
     reset h sessionNameInput Rr_authority_corrupt_reinitialized now activityGeneration"

end
