(* ===== verification/QueueInv.thy ===== *)
theory QueueInv
  imports QueueOps
begin

text \<open>
  The invariant of the queue tables, the part of them one session sees, and the contract every
  public method of the store keeps: it preserves the invariant, leaves the other sessions
  alone, changes nothing when it fails and answers with a snapshot of what it committed.
\<close>

section \<open>The invariant\<close>

definition metaFits :: "queueMeta \<Rightarrow> bool" where
  "metaFits m \<longleftrightarrow> qm_queueEpoch m \<noteq> [] \<and> qm_queueAuthorityId m \<noteq> []
     \<and> 0 \<le> qm_pendingMessageVersion m \<and> 0 \<le> qm_nextOrdinal m"

definition rowFits :: "queueDb \<Rightarrow> queueRow \<Rightarrow> bool" where
  "rowFits db r \<longleftrightarrow> er_sessionName r \<noteq> [] \<and> er_clientMessageId r \<noteq> []
     \<and> (case db_meta db (er_sessionName r) of None \<Rightarrow> False
        | Some m \<Rightarrow> 0 \<le> er_ordinal r \<and> er_ordinal r < qm_nextOrdinal m)"

definition rowSlot :: "queueRow \<Rightarrow> string \<times> int" where
  "rowSlot r = (er_sessionName r, er_ordinal r)"

definition dbInv :: "queueDb \<Rightarrow> bool" where
  "dbInv db \<longleftrightarrow> distinct (map rowKey (db_entries db))
     \<and> distinct (map rowSlot (db_entries db))
     \<and> (\<forall>r\<in>set (db_entries db). rowFits db r)
     \<and> (\<forall>s m. db_meta db s = Some m \<longrightarrow> metaFits m)
     \<and> dom (db_private db) \<subseteq> rowKey ` set (db_entries db)"

definition uuidSupply :: "(nat \<Rightarrow> string) \<Rightarrow> bool" where
  "uuidSupply u \<longleftrightarrow> inj u \<and> (\<forall>n. u n \<noteq> [])"

definition issued :: "queueStore \<Rightarrow> string set" where
  "issued st = st_uuid st ` {..<st_drawn st}"

definition storeInv :: "queueStore \<Rightarrow> bool" where
  "storeInv st \<longleftrightarrow> uuidSupply (st_uuid st) \<and> dbInv (st_db st)
     \<and> (\<forall>s m. db_meta (st_db st) s = Some m \<longrightarrow> {qm_queueEpoch m, qm_queueAuthorityId m} \<subseteq> issued st)"

lemma dbInvI [intro?]:
  assumes "distinct (map rowKey (db_entries db))" "distinct (map rowSlot (db_entries db))"
    and "\<And>r. r \<in> set (db_entries db) \<Longrightarrow> rowFits db r"
    and "\<And>s m. db_meta db s = Some m \<Longrightarrow> metaFits m"
    and "\<And>k. db_private db k \<noteq> None \<Longrightarrow> k \<in> rowKey ` set (db_entries db)"
  shows "dbInv db"
  using assms unfolding dbInv_def by blast

lemma dbInvD:
  assumes "dbInv db"
  shows "distinct (map rowKey (db_entries db))" "distinct (map rowSlot (db_entries db))"
    and "r \<in> set (db_entries db) \<Longrightarrow> rowFits db r"
    and "db_meta db s = Some m \<Longrightarrow> metaFits m"
    and "db_private db k \<noteq> None \<Longrightarrow> k \<in> rowKey ` set (db_entries db)"
  using assms unfolding dbInv_def by blast+

lemma storeInv_dbInv [intro]: "storeInv st \<Longrightarrow> dbInv (st_db st)"
  by (simp add: storeInv_def)

lemma storeInv_openStore [inv_intros]: "uuidSupply u \<Longrightarrow> storeInv (openStore u)"
  by (simp add: storeInv_def openStore_def emptyDb_def dbInv_def)

lemma statement_frames [frame_simps]:
  "db_meta (deletePrivate K db) = db_meta db" "db_meta (deleteEntries P db) = db_meta db"
  "db_meta (updateEntries P f db) = db_meta db"
  "db_entries (deletePrivate K db) = db_entries db"
  "db_entries (deleteEntries P db) = filter (\<lambda>r. \<not> P r) (db_entries db)"
  "db_entries (updateMeta s g db) = db_entries db"
  "db_private (deleteEntries P db) = db_private db" "db_private (updateEntries P f db) = db_private db"
  "db_private (updateMeta s g db) = db_private db"
  "db_tombstones (deletePrivate K db) = db_tombstones db" "db_tombstones (deleteEntries P db) = db_tombstones db"
  "db_tombstones (updateEntries P f db) = db_tombstones db" "db_tombstones (updateMeta s g db) = db_tombstones db"
  by (simp_all add: deletePrivate_def deleteEntries_def updateEntries_def updateMeta_def)

section \<open>What a session sees\<close>

definition sessionRows :: "string \<Rightarrow> queueDb \<Rightarrow> queueRow list" where
  "sessionRows s db = filter (\<lambda>r. er_sessionName r = s) (db_entries db)"

definition sessionView :: "string \<Rightarrow> queueDb
    \<Rightarrow> queueMeta option \<times> queueRow list \<times> (string \<Rightarrow> (string \<times> int) option)
       \<times> (string \<times> string \<times> string, string \<times> int) jsmap" where
  "sessionView s db = (db_meta db s, sessionRows s db, (\<lambda>i. db_private db (s, i)),
     filter (\<lambda>t. fst (fst t) = s) (db_tombstones db))"

definition versionOf :: "string \<Rightarrow> queueStore \<Rightarrow> int" where
  "versionOf s st = (case db_meta (st_db st) s of None \<Rightarrow> 0 | Some m \<Rightarrow> qm_pendingMessageVersion m)"

lemma sessionView_eq:
  "sessionView s db = sessionView s db' \<longleftrightarrow>
     db_meta db s = db_meta db' s \<and> sessionRows s db = sessionRows s db'
     \<and> (\<forall>i. db_private db (s, i) = db_private db' (s, i))
     \<and> filter (\<lambda>t. fst (fst t) = s) (db_tombstones db) = filter (\<lambda>t. fst (fst t) = s) (db_tombstones db')"
  by (simp add: sessionView_def fun_eq_iff)

text \<open>A change to the rows and private material of session \<open>s\<close> alone.\<close>

definition localChange :: "string \<Rightarrow> (queueDb \<Rightarrow> queueDb) \<Rightarrow> bool" where
  "localChange s change \<longleftrightarrow> (\<forall>db. db_meta (change db) = db_meta db
     \<and> (dbInv db \<longrightarrow> dbInv (change db))
     \<and> (\<forall>s'. s' \<noteq> s \<longrightarrow> sessionView s' (change db) = sessionView s' db))"

lemma localChange_id [inv_intros]: "localChange s (\<lambda>db. db)"
  by (simp add: localChange_def)

lemma localChange_comp [inv_intros]:
  "localChange s f \<Longrightarrow> localChange s g \<Longrightarrow> localChange s (f \<circ> g)"
  by (simp add: localChange_def)

lemma localChange_fold [inv_intros]:
  assumes "\<And>x. localChange s (f x)"
  shows "localChange s (fold f xs)"
proof (induction xs)
  case Nil
  then show ?case using localChange_id by (simp add: id_def)
next
  case (Cons x xs)
  then show ?case using localChange_comp [OF Cons assms] by (simp only: fold.simps)
qed

lemma rowFits_cong: "db_meta db = db_meta db' \<Longrightarrow> rowFits db r = rowFits db' r"
  by (simp add: rowFits_def)

lemma localChange_update [inv_intros]:
  assumes P: "\<And>r. P r \<Longrightarrow> er_sessionName r = s"
    and f: "\<And>r. rowKey (f r) = rowKey r" "\<And>r. er_ordinal (f r) = er_ordinal r"
  shows "localChange s (updateEntries P f)"
proof -
  let ?g = "\<lambda>r. if P r then f r else r"
  have key: "rowKey (?g r) = rowKey r" "er_ordinal (?g r) = er_ordinal r"
      "er_sessionName (?g r) = er_sessionName r" "er_clientMessageId (?g r) = er_clientMessageId r" for r
    using f [of r] by (simp_all add: rowKey_def)
  have slot: "rowSlot (?g r) = rowSlot r" for r
    using key [of r] by (simp add: rowSlot_def del: if_split)
  have maps: "map rowKey (map ?g xs) = map rowKey xs" "map rowSlot (map ?g xs) = map rowSlot xs" for xs
    by (simp_all only: list.map_comp o_def key slot)
  have entries: "db_entries (updateEntries P f db) = map ?g (db_entries db)" for db
    by (simp add: updateEntries_def)
  have rows: "filter (\<lambda>r. er_sessionName r = s') (map ?g xs) = filter (\<lambda>r. er_sessionName r = s') xs"
    if "s' \<noteq> s" for s' xs
    using that P by (induction xs) (auto simp: key(3) [simplified])
  have inv: "dbInv (updateEntries P f db)" if "dbInv db" for db
  proof
    show "distinct (map rowKey (db_entries (updateEntries P f db)))"
      using dbInvD(1) [OF that] by (simp only: entries maps)
    show "distinct (map rowSlot (db_entries (updateEntries P f db)))"
      using dbInvD(2) [OF that] by (simp only: entries maps)
    show "rowFits (updateEntries P f db) r" if r: "r \<in> set (db_entries (updateEntries P f db))" for r
    proof -
      from r obtain r0 where r0: "r0 \<in> set (db_entries db)" "r = ?g r0"
        by (auto simp: updateEntries_def)
      then have "rowFits db r0" using dbInvD(3) [OF \<open>dbInv db\<close>] by blast
      then show ?thesis
        unfolding rowFits_def r0(2) key by (simp add: updateEntries_def)
    qed
    show "metaFits m" if "db_meta (updateEntries P f db) s' = Some m" for s' m
      using that dbInvD(4) [OF \<open>dbInv db\<close>] by (simp add: updateEntries_def)
    show "k \<in> rowKey ` set (db_entries (updateEntries P f db))"
      if "db_private (updateEntries P f db) k \<noteq> None" for k
    proof -
      have "k \<in> rowKey ` set (db_entries db)"
        using that dbInvD(5) [OF \<open>dbInv db\<close>] by (simp add: updateEntries_def)
      moreover have "set (map rowKey (map ?g (db_entries db))) = set (map rowKey (db_entries db))"
        by (simp only: maps)
      ultimately show ?thesis by (simp only: entries set_map)
    qed
  qed
  show ?thesis
    unfolding localChange_def using inv
    by (simp add: updateEntries_def sessionView_def sessionRows_def rows)
qed

lemma removeRows_inv:
  assumes inv: "dbInv db"
    and K: "\<And>r. r \<in> set (db_entries db) \<Longrightarrow> P r \<Longrightarrow> K (rowKey r)"
  shows "dbInv (deletePrivate K (deleteEntries P db))"
proof
  let ?db = "deletePrivate K (deleteEntries P db)"
  have entries: "db_entries ?db = filter (\<lambda>r. \<not> P r) (db_entries db)"
    by (simp add: deletePrivate_def deleteEntries_def)
  have meta: "db_meta ?db = db_meta db"
    by (simp add: deletePrivate_def deleteEntries_def)
  show "distinct (map rowKey (db_entries ?db))" "distinct (map rowSlot (db_entries ?db))"
    using dbInvD(1,2) [OF inv] by (auto simp: entries intro: distinct_map_filter)
  show "rowFits ?db r" if "r \<in> set (db_entries ?db)" for r
    using that dbInvD(3) [OF inv] rowFits_cong [OF meta] by (simp add: entries)
  show "metaFits m" if "db_meta ?db s = Some m" for s m
    using that dbInvD(4) [OF inv] by (simp add: meta)
  show "k \<in> rowKey ` set (db_entries ?db)" if "db_private ?db k \<noteq> None" for k
  proof -
    have "\<not> K k" "db_private db k \<noteq> None"
      using that by (simp_all add: deletePrivate_def deleteEntries_def split: if_splits)
    with dbInvD(5) [OF inv] K obtain r where "r \<in> set (db_entries db)" "k = rowKey r" "\<not> P r"
      by blast
    then show ?thesis by (auto simp: entries)
  qed
qed

lemma removeRows_view:
  assumes "\<And>r. P r \<Longrightarrow> er_sessionName r = s" and "\<And>k. K k \<Longrightarrow> fst k = s" and "s' \<noteq> s"
  shows "sessionView s' (deletePrivate K (deleteEntries P db)) = sessionView s' db"
proof -
  have "filter (\<lambda>r. er_sessionName r = s') (filter (\<lambda>r. \<not> P r) xs)
      = filter (\<lambda>r. er_sessionName r = s') xs" for xs
    using assms(1,3) by (induction xs) auto
  moreover have "\<not> K (s', i)" for i
    using assms(2) [of "(s', i)"] assms(3) by auto
  ultimately show ?thesis
    by (simp add: sessionView_def sessionRows_def deletePrivate_def deleteEntries_def)
qed

lemma localChange_remove [inv_intros]:
  assumes "\<And>r. P r \<Longrightarrow> er_sessionName r = s" and "\<And>k. K k \<Longrightarrow> fst k = s"
    and "\<And>r. P r \<Longrightarrow> K (rowKey r)"
  shows "localChange s (deletePrivate K \<circ> deleteEntries P)"
  unfolding localChange_def comp_def
  using removeRows_inv [of _ P K] removeRows_view [of P s K] assms
  by (simp add: frame_simps)

lemma localChange_deletePrivate [inv_intros]:
  assumes "\<And>k. K k \<Longrightarrow> fst k = s"
  shows "localChange s (deletePrivate K)"
proof -
  have "localChange s (deletePrivate K \<circ> deleteEntries (\<lambda>r. False))"
    using assms by (intro localChange_remove) auto
  moreover have "deletePrivate K \<circ> deleteEntries (\<lambda>r. False) = deletePrivate K"
    by (simp add: fun_eq_iff deleteEntries_def)
  ultimately show ?thesis by simp
qed

section \<open>Meta rows\<close>

abbreviation ensured :: "string \<Rightarrow> int \<Rightarrow> queueStore \<Rightarrow> queueStore" where
  "ensured s now st \<equiv> snd (ensureMeta s now st)"

definition bumped :: "int \<Rightarrow> queueMeta \<Rightarrow> queueMeta" where
  "bumped now m = m\<lparr>qm_pendingMessageVersion := qm_pendingMessageVersion m + 1, qm_updatedAt := now\<rparr>"

lemma ensureMeta_frame [frame_simps]:
  "db_entries (st_db (ensured s now st)) = db_entries (st_db st)"
  "db_private (st_db (ensured s now st)) = db_private (st_db st)"
  "db_tombstones (st_db (ensured s now st)) = db_tombstones (st_db st)"
  "st_uuid (ensured s now st) = st_uuid st" "st_fault (ensured s now st) = st_fault st"
  by (simp_all add: ensureMeta_def randomUUID_def Let_def split: option.splits)

lemma ensureMeta_meta:
  "db_meta (st_db (ensured s now st)) = (db_meta (st_db st))(s \<mapsto> fst (ensureMeta s now st))"
  by (auto simp: ensureMeta_def randomUUID_def Let_def fun_eq_iff split: option.splits)

lemma ensureMeta_existing: "db_meta (st_db st) s = Some m \<Longrightarrow> ensureMeta s now st = (m, st)"
  by (simp add: ensureMeta_def)

lemma ensureMeta_fresh:
  assumes "db_meta (st_db st) s = None"
  shows "fst (ensureMeta s now st) = \<lparr>qm_queueEpoch = st_uuid st (st_drawn st),
      qm_queueAuthorityId = st_uuid st (Suc (st_drawn st)), qm_pendingMessageVersion = 0,
      qm_nextOrdinal = 0, qm_updatedAt = now\<rparr>"
    and "st_drawn (ensured s now st) = Suc (Suc (st_drawn st))"
  using assms by (simp_all add: ensureMeta_def randomUUID_def Let_def)

lemma ensureMeta_drawn: "st_drawn st \<le> st_drawn (ensured s now st)"
  by (auto simp: ensureMeta_def randomUUID_def Let_def split: option.splits)

lemma ensureMeta_version [simp]:
  "qm_pendingMessageVersion (fst (ensureMeta s now st)) = versionOf s st"
  by (simp add: versionOf_def ensureMeta_def randomUUID_def Let_def split: option.splits)

lemma bumpVersion_eq:
  assumes "db_meta (st_db st) s = Some m"
  shows "bumpVersion s now st = (bumped now m, st\<lparr>st_db := updateMeta s (bumped now) (st_db st)\<rparr>)"
  using assms by (simp add: bumpVersion_def ensureMeta_existing updateMeta_def bumped_def [abs_def])

lemma issued_mono: "st_uuid st' = st_uuid st \<Longrightarrow> st_drawn st \<le> st_drawn st' \<Longrightarrow> issued st \<subseteq> issued st'"
  by (auto simp: issued_def)

lemma dbInv_meta:
  assumes inv: "dbInv db" and s: "db_meta db s = None \<or> (\<exists>m0. db_meta db s = Some m0 \<and> qm_nextOrdinal m0 \<le> qm_nextOrdinal m)"
    and m: "metaFits m"
  shows "dbInv (db\<lparr>db_meta := (db_meta db)(s \<mapsto> m)\<rparr>)"
proof
  let ?db = "db\<lparr>db_meta := (db_meta db)(s \<mapsto> m)\<rparr>"
  show "distinct (map rowKey (db_entries ?db))" "distinct (map rowSlot (db_entries ?db))"
    using dbInvD(1,2) [OF inv] by simp_all
  show "rowFits ?db r" if "r \<in> set (db_entries ?db)" for r
    using that dbInvD(3) [OF inv, of r] s by (auto simp: rowFits_def split: option.splits)
  show "metaFits m'" if "db_meta ?db s' = Some m'" for s' m'
    using that m dbInvD(4) [OF inv] by (auto split: if_splits)
  show "k \<in> rowKey ` set (db_entries ?db)" if "db_private ?db k \<noteq> None" for k
    using that dbInvD(5) [OF inv] by simp
qed

lemma storeInv_ensured [inv_intros]:
  assumes "storeInv st"
  shows "storeInv (ensured s now st)"
proof (cases "db_meta (st_db st) s")
  case (Some m)
  then show ?thesis using assms by (simp add: ensureMeta_existing)
next
  case None
  let ?m = "fst (ensureMeta s now st)" and ?st = "ensured s now st"
  have db: "st_db ?st = (st_db st)\<lparr>db_meta := (db_meta (st_db st))(s \<mapsto> ?m)\<rparr>"
    using None by (simp add: ensureMeta_def randomUUID_def Let_def)
  have "metaFits ?m"
    using assms by (simp add: metaFits_def ensureMeta_fresh(1) [OF None] storeInv_def uuidSupply_def)
  then have inv: "dbInv (st_db ?st)"
    unfolding db using assms None by (intro dbInv_meta) auto
  have new: "{qm_queueEpoch ?m, qm_queueAuthorityId ?m} \<subseteq> issued ?st"
    by (simp add: issued_def ensureMeta_fresh [OF None] frame_simps)
  have old: "issued st \<subseteq> issued ?st"
    by (rule issued_mono) (simp_all add: frame_simps ensureMeta_drawn)
  show ?thesis
    using inv new old assms unfolding storeInv_def
    by (auto simp: db frame_simps split: if_splits)
qed

lemma ensured_view: "s' \<noteq> s \<Longrightarrow> sessionView s' (st_db (ensured s now st)) = sessionView s' (st_db st)"
  by (simp add: sessionView_def sessionRows_def frame_simps ensureMeta_meta)

lemma updateMeta_view: "s' \<noteq> s \<Longrightarrow> sessionView s' (updateMeta s f db) = sessionView s' db"
  by (simp add: sessionView_def sessionRows_def updateMeta_def)

lemma storeInv_change:
  assumes "storeInv st" and "db_meta db' = db_meta (st_db st)" and "dbInv db'"
  shows "storeInv (st\<lparr>st_db := db'\<rparr>)"
  using assms by (simp add: storeInv_def issued_def)

lemma storeInv_updateMeta [inv_intros]:
  assumes "storeInv st"
    and f: "\<And>m. metaFits m \<Longrightarrow> metaFits (f m) \<and> qm_nextOrdinal m \<le> qm_nextOrdinal (f m)
      \<and> qm_queueEpoch (f m) = qm_queueEpoch m \<and> qm_queueAuthorityId (f m) = qm_queueAuthorityId m"
  shows "storeInv (st\<lparr>st_db := updateMeta s f (st_db st)\<rparr>)"
proof (cases "db_meta (st_db st) s")
  case None
  then have "updateMeta s f (st_db st) = st_db st"
    by (simp add: updateMeta_def fun_upd_idem)
  then show ?thesis using assms(1) by simp
next
  case (Some m)
  have fits: "metaFits m" using assms(1) Some dbInvD(4) storeInv_dbInv by blast
  have db: "updateMeta s f (st_db st) = (st_db st)\<lparr>db_meta := (db_meta (st_db st))(s \<mapsto> f m)\<rparr>"
    using Some by (simp add: updateMeta_def)
  have "dbInv (updateMeta s f (st_db st))"
    unfolding db using assms(1) f [OF fits] Some by (intro dbInv_meta) auto
  then show ?thesis
    using assms(1) f [OF fits] Some by (auto simp: storeInv_def db issued_def)
qed

lemma bumped_fits: "metaFits m \<Longrightarrow> metaFits (bumped now m) \<and> qm_nextOrdinal m \<le> qm_nextOrdinal (bumped now m)
    \<and> qm_queueEpoch (bumped now m) = qm_queueEpoch m \<and> qm_queueAuthorityId (bumped now m) = qm_queueAuthorityId m"
  by (simp add: bumped_def metaFits_def)

section \<open>Committing a local change\<close>

text \<open>The store a successful \<open>commitChange\<close> leaves, and the meta row it returns.\<close>

definition committed :: "string \<Rightarrow> int \<Rightarrow> (queueDb \<Rightarrow> queueDb) \<Rightarrow> queueStore \<Rightarrow> queueStore" where
  "committed s now change st = (ensured s now st)\<lparr>st_db :=
     updateMeta s (bumped now) (change (st_db (ensured s now st)))\<rparr>"

lemma commitChange_fault: "st_fault st = Some f \<Longrightarrow> commitChange s now change st = (Inl (SqliteFault f), st)"
  by (simp add: commitChange_def transact_def)

lemma commitChange_ok:
  assumes "st_fault st = None" and "localChange s change"
  shows "commitChange s now change st
    = (Inr (bumped now (fst (ensureMeta s now st))), committed s now change st)"
proof -
  let ?st1 = "ensured s now st"
  have "db_meta (change (st_db ?st1)) s = Some (fst (ensureMeta s now st))"
    using assms(2) by (simp add: localChange_def ensureMeta_meta)
  then have "bumpVersion s now (?st1\<lparr>st_db := change (st_db ?st1)\<rparr>)
      = (bumped now (fst (ensureMeta s now st)), committed s now change st)"
    by (simp add: bumpVersion_eq committed_def)
  then show ?thesis
    using assms(1) by (simp add: commitChange_def transact_def Let_def case_prod_beta)
qed

lemma storeInv_committed [inv_intros]:
  assumes "storeInv st" and "localChange s change"
  shows "storeInv (committed s now change st)"
proof -
  let ?st1 = "ensured s now st" and ?st2 = "(ensured s now st)\<lparr>st_db := change (st_db (ensured s now st))\<rparr>"
  have "storeInv ?st1" by (rule storeInv_ensured [OF assms(1)])
  then have "storeInv ?st2"
    using assms(2) by (intro storeInv_change) (auto simp: localChange_def)
  then have "storeInv (?st2\<lparr>st_db := updateMeta s (bumped now) (st_db ?st2)\<rparr>)"
    by (rule storeInv_updateMeta) (rule bumped_fits)
  then show ?thesis by (simp add: committed_def)
qed

lemma committed_view:
  assumes "localChange s change" and "s' \<noteq> s"
  shows "sessionView s' (st_db (committed s now change st)) = sessionView s' (st_db st)"
  using assms by (simp add: committed_def updateMeta_view localChange_def ensured_view)

lemma committed_meta:
  assumes "localChange s change"
  shows "db_meta (st_db (committed s now change st)) s = Some (bumped now (fst (ensureMeta s now st)))"
  using assms by (simp add: committed_def updateMeta_def localChange_def ensureMeta_meta)

lemma committed_version:
  assumes "localChange s change"
  shows "versionOf s (committed s now change st) = versionOf s st + 1"
  using committed_meta [OF assms, of now st] by (simp add: versionOf_def [of s "committed s now change st"] bumped_def)

lemma committed_frame [frame_simps]:
  "db_entries (st_db (committed s now change st)) = db_entries (change (st_db (ensured s now st)))"
  "db_private (st_db (committed s now change st)) = db_private (change (st_db (ensured s now st)))"
  "db_tombstones (st_db (committed s now change st)) = db_tombstones (change (st_db (ensured s now st)))"
  "st_fault (committed s now change st) = st_fault st"
  by (simp_all add: committed_def frame_simps)

section \<open>Reading the committed state\<close>

definition sortedRows :: "string \<Rightarrow> queueDb \<Rightarrow> queueRow list" where
  "sortedRows s db = sortBy (\<lambda>a b. orderLe codeUnitLe (rowOrderKey a) (rowOrderKey b)) (sessionRows s db)"

definition storedRows :: "string \<Rightarrow> queueDb \<Rightarrow> queueStoredEntry list" where
  "storedRows s db = (case db_meta db s of None \<Rightarrow> [] | Some m \<Rightarrow> map (storedEntry m) (sortedRows s db))"

lemma traverseE_ok:
  assumes "\<And>x. x \<in> set xs \<Longrightarrow> f x = Inr (g x)"
  shows "traverseE f xs = Inr (map g xs)"
  using assms by (induction xs) simp_all

lemma parseStoredEntry_ok:
  "metaFits m \<Longrightarrow> rowFits db r \<Longrightarrow> parseStoredEntry m r = Inr (storedEntry m r)"
  by (simp add: parseStoredEntry_def requireNonEmpty_def metaFits_def rowFits_def)

lemma readRows_ok:
  assumes "dbInv db"
  shows "readRows s db = Inr (storedRows s db)"
proof (cases "db_meta db s")
  case None
  then show ?thesis by (simp add: readRows_def storedRows_def)
next
  case (Some m)
  have "parseStoredEntry m r = Inr (storedEntry m r)" if "r \<in> set (sortedRows s db)" for r
    using that dbInvD(4) [OF assms Some] dbInvD(3) [OF assms, of r]
    by (intro parseStoredEntry_ok) (auto simp: sortedRows_def sessionRows_def)
  then have "traverseE (parseStoredEntry m) (sortedRows s db) = Inr (map (storedEntry m) (sortedRows s db))"
    by (rule traverseE_ok)
  then show ?thesis
    using Some by (simp add: readRows_def storedRows_def sortedRows_def sessionRows_def)
qed

text \<open>A snapshot is faithful when it shows exactly the committed rows of its session.\<close>

definition faithful :: "jsHost \<Rightarrow> string \<Rightarrow> queueStore \<Rightarrow> queueSnapshot \<Rightarrow> bool" where
  "faithful h s st snap \<longleftrightarrow> sn_sessionName snap = s \<and> sn_degradedReason snap = None
     \<and> (\<exists>m. db_meta (st_db st) s = Some m \<and> sn_queueEpoch snap = qm_queueEpoch m
          \<and> sn_queueAuthorityId snap = qm_queueAuthorityId m
          \<and> sn_pendingMessageVersion snap = numOf (qm_pendingMessageVersion m))
     \<and> sn_pendingMessageEntries snap = projectEntries h isLiveStatus (storedRows s (st_db st))
     \<and> sn_failedMessageEntries snap = projectEntries h isFailedStatus (storedRows s (st_db st))"

lemma normalize_ok: "normalizeSessionName n = Inr s \<Longrightarrow> s = trim n \<and> s \<noteq> [] \<and> trim s = s"
  by (auto simp: normalizeSessionName_def split: if_splits)

lemma normalize_trim [simp]: "trim s = s \<Longrightarrow> s \<noteq> [] \<Longrightarrow> normalizeSessionName s = Inr s"
  by (simp add: normalizeSessionName_def)

lemma readSnapshot_override:
  assumes "trim s = s" "s \<noteq> []" "st_fault st = None" "dbInv (st_db st)"
  shows "readSnapshot h s src (Some ov) now st
    = (Inr (buildSnapshot h s src ov (storedRows s (st_db st))), st)"
  using assms by (simp add: readSnapshot_def readRows_ok)

lemma buildSnapshot_faithful:
  assumes "db_meta (st_db st) s = Some m"
  shows "faithful h s st (buildSnapshot h s src (overrideOf m rr dr ag) (storedRows s (st_db st)))"
  using assms by (simp add: faithful_def buildSnapshot_def overrideOf_def)

lemma readSnapshot_none:
  assumes "trim s = s" "s \<noteq> []" "st_fault st = None" "storeInv st"
  shows "readSnapshot h s src None now st
    = (Inr (buildSnapshot h s src (overrideOf (fst (ensureMeta s now st)) None None None)
         (storedRows s (st_db (ensured s now st)))), ensured s now st)"
  using assms storeInv_ensured [of st s now]
  by (simp add: readSnapshot_def readRows_ok storeInv_dbInv case_prod_beta Let_def)

lemma readSnapshot_fails:
  "normalizeSessionName n = Inl e \<Longrightarrow> readSnapshot h n src ov now st = (Inl e, st)"
  "st_fault st = Some f \<Longrightarrow> \<exists>e. readSnapshot h n src ov now st = (Inl e, st)"
  by (simp_all add: readSnapshot_def split: sum.split)

text \<open>What \<open>commitAndRead\<close> returns on a store that works.\<close>

lemma commitAndRead_ok:
  assumes "trim s = s" "s \<noteq> []" "st_fault st = None" "storeInv st" "localChange s change"
  shows "commitAndRead h s now change src dr st
    = (Inr (buildSnapshot h s src (overrideOf (bumped now (fst (ensureMeta s now st))) None dr None)
         (storedRows s (st_db (committed s now change st)))), committed s now change st)"
  using assms storeInv_committed [of st s change now]
  by (simp add: commitAndRead_def commitChange_ok readSnapshot_override storeInv_dbInv frame_simps)

end
