(* ===== verification/QueueContract.thy ===== *)
theory QueueContract
  imports QueueInv
begin

text \<open>
  The contract of the store's public methods as a locale, extended by the methods that answer
  with a snapshot of a commit, and its interpretation on every method of
  \<^verbatim>\<open>src/daemon/transport-queue-store.ts\<close>.
\<close>

section \<open>The contract\<close>

text \<open>Either the session's rows and version stay, or the version goes up by one.\<close>

definition versionStep :: "string \<Rightarrow> queueStore \<Rightarrow> queueStore \<Rightarrow> bool" where
  "versionStep s st st' \<longleftrightarrow> versionOf s st' = versionOf s st + 1
     \<or> versionOf s st' = versionOf s st \<and> sessionRows s (st_db st') = sessionRows s (st_db st)"

lemma versionStep_refl [simp]: "versionStep s st st"
  by (simp add: versionStep_def)

lemma versionStep_bump: "versionOf s st' = versionOf s st + 1 \<Longrightarrow> versionStep s st st'"
  by (simp add: versionStep_def)

lemma versionStep_db: "st_db st' = st_db st \<Longrightarrow> versionStep s st st'"
  by (simp add: versionStep_def versionOf_def)

locale store_operation =
  fixes run :: "queueStore \<Rightarrow> 'a storeResult" and session :: string
  assumes keeps_inv: "storeInv st \<Longrightarrow> storeInv (snd (run st))"
    and isolated: "storeInv st \<Longrightarrow> s \<noteq> session \<Longrightarrow>
      sessionView s (st_db (snd (run st))) = sessionView s (st_db st)"
    and failed_unchanged: "storeInv st \<Longrightarrow> fst (run st) = Inl e \<Longrightarrow> st_db (snd (run st)) = st_db st"
    and versioned: "storeInv st \<Longrightarrow> versionStep session st (snd (run st))"
begin

lemma version_mono: "storeInv st \<Longrightarrow> versionOf session st \<le> versionOf session (snd (run st))"
  using versioned [of st] by (auto simp: versionStep_def)

lemma other_version: "storeInv st \<Longrightarrow> s \<noteq> session \<Longrightarrow> versionOf s (snd (run st)) = versionOf s st"
  using isolated [of st s] by (simp add: versionOf_def sessionView_eq)

lemma all_versions_mono: "storeInv st \<Longrightarrow> versionOf s st \<le> versionOf s (snd (run st))"
  using version_mono other_version by (cases "s = session") auto

end

locale store_mutation = store_operation +
  assumes commits: "storeInv st \<Longrightarrow> fst (run st) = Inr r \<Longrightarrow>
      versionOf session (snd (run st)) = versionOf session st + 1"
begin

text \<open>A caller sees the mutation either applied with the next version or not at all.\<close>

lemma all_or_nothing:
  assumes "storeInv st"
  shows "(\<exists>e. fst (run st) = Inl e) \<and> st_db (snd (run st)) = st_db st
    \<or> (\<exists>r. fst (run st) = Inr r) \<and> versionOf session (snd (run st)) = versionOf session st + 1"
  using assms failed_unchanged commits by (cases "fst (run st)") auto

end

locale snapshot_mutation = store_mutation run session
  for run :: "queueStore \<Rightarrow> queueSnapshot storeResult" and session +
  fixes h :: jsHost
  assumes answers: "storeInv st \<Longrightarrow> fst (run st) = Inr snap \<Longrightarrow> faithful h session (snd (run st)) snap"
begin

lemma snapshot_version:
  assumes "storeInv st" and "fst (run st) = Inr snap"
  shows "sn_pendingMessageVersion snap = numOf (versionOf session st + 1)"
  using answers [OF assms] commits [OF assms] by (auto simp: faithful_def versionOf_def [of session "snd (run st)"])

end

section \<open>Methods that commit a local change\<close>

lemma storedEntry_session: "qs_sessionName (storedEntry m r) = er_sessionName r"
  by (simp add: storedEntry_def)

lemma commitAndRead_cases:
  assumes "trim s = s" "s \<noteq> []" "storeInv st" "localChange s change"
  obtains (fault) f where "st_fault st = Some f" "commitAndRead h s now change src dr st = (Inl (SqliteFault f), st)"
  | (ok) snap where "st_fault st = None"
      "commitAndRead h s now change src dr st = (Inr snap, committed s now change st)"
      "faithful h s (committed s now change st) snap"
proof (cases "st_fault st")
  case None
  show thesis
    by (rule ok [OF None commitAndRead_ok [OF assms(1,2) None assms(3,4)]])
       (rule buildSnapshot_faithful [OF committed_meta [OF assms(4)]])
next
  case (Some f)
  then show thesis by (intro fault) (simp_all add: commitAndRead_def commitChange_fault)
qed

lemma snapshot_mutation_commit:
  assumes s: "trim s = s" "s \<noteq> []" and loc: "localChange s change"
  shows "snapshot_mutation (commitAndRead h s now change src dr) s h"
proof
  fix st e s' snap
  assume inv: "storeInv st"
  note cases = commitAndRead_cases [OF s inv loc, of h now src dr]
  show "storeInv (snd (commitAndRead h s now change src dr st))"
    by (rule cases) (simp_all add: inv storeInv_committed loc)
  show "sessionView s' (st_db (snd (commitAndRead h s now change src dr st))) = sessionView s' (st_db st)"
    if "s' \<noteq> s"
    by (rule cases) (simp_all add: committed_view loc that)
  show "st_db (snd (commitAndRead h s now change src dr st)) = st_db st"
    if "fst (commitAndRead h s now change src dr st) = Inl e"
    by (rule cases) (use that in simp_all)
  show "versionStep s st (snd (commitAndRead h s now change src dr st))"
    by (rule cases) (simp_all add: versionStep_bump committed_version loc)
  show "versionOf s (snd (commitAndRead h s now change src dr st)) = versionOf s st + 1"
    if "fst (commitAndRead h s now change src dr st) = Inr snap"
    by (rule cases) (use that in \<open>simp_all add: committed_version loc\<close>)
  show "faithful h s (snd (commitAndRead h s now change src dr st)) snap"
    if "fst (commitAndRead h s now change src dr st) = Inr snap"
    by (rule cases) (use that in simp_all)
qed

text \<open>A method that rejects its arguments before it opens a transaction.\<close>

lemma snapshot_mutation_reject:
  assumes "\<And>st. f st = (Inl e, st)"
  shows "snapshot_mutation f s h"
  by unfold_locales (simp_all add: assms)

lemma snapshot_mutation_withSession:
  assumes "\<And>s. trim s = s \<Longrightarrow> s \<noteq> [] \<Longrightarrow> snapshot_mutation (f s) s h"
  shows "snapshot_mutation (withSession n f) (trim n) h"
proof (cases "normalizeSessionName n")
  case (Inl e)
  then have "withSession n f st = (Inl e, st)" for st by (simp add: withSession_def)
  then show ?thesis by (rule snapshot_mutation_reject)
next
  case (Inr s)
  then have "withSession n f = f s" by (simp add: withSession_def fun_eq_iff)
  moreover have "trim s = s" "s \<noteq> []" "s = trim n" using normalize_ok [OF Inr] by blast+
  ultimately show ?thesis using assms [of s] by simp
qed

lemma snapshot_mutation_withEntry:
  assumes "\<And>s. trim s = s \<Longrightarrow> s \<noteq> [] \<Longrightarrow> trim i \<noteq> [] \<Longrightarrow> snapshot_mutation (f s (trim i)) s h"
  shows "snapshot_mutation (withEntry n i f) (trim n) h"
proof (cases "normalizeSessionName n")
  case (Inl e)
  then have "withEntry n i f st = (Inl e, st)" for st by (simp add: withEntry_def)
  then show ?thesis by (rule snapshot_mutation_reject)
next
  case (Inr s)
  show ?thesis
  proof (cases "trim i = []")
    case True
    with Inr have "withEntry n i f st = (Inl (FieldRequired ''clientMessageId''), st)" for st
      by (simp add: withEntry_def requireNonEmpty_def)
    then show ?thesis by (rule snapshot_mutation_reject)
  next
    case False
    then have "withEntry n i f = f s (trim i)"
      using Inr by (simp add: withEntry_def requireNonEmpty_def fun_eq_iff)
    moreover have "trim s = s" "s \<noteq> []" "s = trim n" using normalize_ok [OF Inr] by blast+
    ultimately show ?thesis using assms [of s] False by simp
  qed
qed

lemmas snapshot_mutation_intros = snapshot_mutation_withSession snapshot_mutation_withEntry
  snapshot_mutation_commit

section \<open>The methods\<close>

text \<open>The table change each row method commits.\<close>

lemma isRow_session: "isRow s i r \<Longrightarrow> er_sessionName r = s"
  by (simp add: rowKey_def)

lemma localChange_updateRow:
  assumes "\<And>r. rowKey (f r) = rowKey r" "\<And>r. er_ordinal (f r) = er_ordinal r" "\<And>r. P r \<Longrightarrow> isRow s i r"
  shows "localChange s (updateEntries P f)"
  using assms by (intro localChange_update) (auto dest: isRow_session)

lemma localChange_dropRow: "localChange s (deletePrivate (\<lambda>k. k = (s, i)) \<circ> deleteEntries (isRow s i))"
  by (intro localChange_remove) (auto simp: rowKey_def)

lemma localChange_failRow:
  assumes "\<And>r. rowKey (f r) = rowKey r" "\<And>r. er_ordinal (f r) = er_ordinal r" "\<And>r. P r \<Longrightarrow> isRow s i r"
  shows "localChange s (deletePrivate (\<lambda>k. k = (s, i)) \<circ> updateEntries P f)"
  using assms by (intro localChange_comp localChange_deletePrivate localChange_updateRow [where i = i]) auto

interpretation edit: snapshot_mutation "edit h n i text now" "trim n" h for h n i text now
  unfolding edit_def by (intro snapshot_mutation_intros localChange_updateRow) (simp_all add: rowKey_def)

interpretation markMissing: snapshot_mutation "markMissingPrivateMaterialFailed h n i now" "trim n" h
  for h n i now
  unfolding markMissingPrivateMaterialFailed_def
  by (intro snapshot_mutation_intros localChange_failRow) (simp_all add: rowKey_def)

interpretation markDeleted: snapshot_mutation "markDeleted h n i now" "trim n" h for h n i now
  unfolding markDeleted_def by (intro snapshot_mutation_intros localChange_failRow) (simp_all add: rowKey_def)

interpretation markFailed: snapshot_mutation "markFailed h n i reason now" "trim n" h for h n i reason now
  unfolding markFailed_def by (intro snapshot_mutation_intros localChange_updateRow) (simp_all add: rowKey_def)

interpretation dismissFailed: snapshot_mutation "dismissFailed h n i now" "trim n" h for h n i now
  unfolding dismissFailed_def by (intro snapshot_mutation_intros localChange_failRow) (simp_all add: rowKey_def)

interpretation dropEntry: snapshot_mutation "dropEntry h n i reason now" "trim n" h for h n i reason now
  unfolding dropEntry_def by (intro snapshot_mutation_intros localChange_dropRow)

interpretation dropAll: snapshot_mutation "dropAll h n reason now" "trim n" h for h n reason now
  unfolding dropAll_def by (intro snapshot_mutation_intros localChange_remove) (auto simp: rowKey_def)

interpretation restoreHandoffs: snapshot_mutation "restoreExpiredHandoffs h n now" "trim n" h for h n now
  unfolding restoreExpiredHandoffs_def
  by (intro snapshot_mutation_intros localChange_update) (simp_all add: rowKey_def)

lemma localChange_cleanup:
  "localChange s ((\<lambda>db. deletePrivate (\<lambda>k. fst k = s
        \<and> snd k \<notin> set (map er_clientMessageId (filter (\<lambda>r. er_sessionName r = s) (db_entries db)))) db) \<circ>
      deleteEntries (\<lambda>r. er_sessionName r = s \<and> Q r))" (is "localChange s (?f \<circ> deleteEntries ?P)")
proof -
  let ?K = "\<lambda>db k. fst k = s \<and> snd k \<notin> set (map er_clientMessageId (filter (\<lambda>r. er_sessionName r = s)
      (db_entries (deleteEntries ?P db))))"
  have eq: "(?f \<circ> deleteEntries ?P) db = deletePrivate (?K db) (deleteEntries ?P db)" for db
    by simp
  have left: "?K db (rowKey r)" if "dbInv db" "r \<in> set (db_entries db)" "?P r" for db r
  proof -
    have same: "r' = r" if "r' \<in> set (db_entries db)" "rowKey r' = rowKey r" for r'
      using that dbInvD(1) [OF \<open>dbInv db\<close>] \<open>r \<in> set (db_entries db)\<close> by (auto simp: distinct_map inj_on_def)
    have "False" if "r' \<in> set (db_entries db)" "er_sessionName r' = s" "\<not> Q r'"
        "er_clientMessageId r' = er_clientMessageId r" for r'
      using same [of r'] that \<open>?P r\<close> by (simp add: rowKey_def)
    then show ?thesis using that(3) by (auto simp: frame_simps rowKey_def) metis
  qed
  show ?thesis
    unfolding localChange_def eq
  proof (intro allI conjI impI)
    fix db s'
    show "db_meta (deletePrivate (?K db) (deleteEntries ?P db)) = db_meta db" by (simp add: frame_simps)
    show "dbInv (deletePrivate (?K db) (deleteEntries ?P db))" if "dbInv db"
      by (rule removeRows_inv [OF that]) (rule left [OF that])
    show "sessionView s' (deletePrivate (?K db) (deleteEntries ?P db)) = sessionView s' db" if "s' \<noteq> s"
      by (rule removeRows_view [where s = s]) (use that in simp_all)
  qed
qed

interpretation cleanup: snapshot_mutation "cleanup h n now" "trim n" h for h n now
  unfolding cleanup_def by (intro snapshot_mutation_intros localChange_cleanup)

end
