(* ===== verification/QueueEnqueue.thy ===== *)
theory QueueEnqueue
  imports QueueContract
begin

text \<open>
  Enqueue with optional capacity eviction: the row it admits, when it conflicts, and the
  contract of \<^verbatim>\<open>enqueueWithCapacityEviction\<close>, \<^verbatim>\<open>enqueue\<close> and \<^verbatim>\<open>retry\<close>.
\<close>

section \<open>The admitted state\<close>

definition takeOrdinal :: "int \<Rightarrow> queueMeta \<Rightarrow> queueMeta" where
  "takeOrdinal now m = m\<lparr>qm_nextOrdinal := qm_nextOrdinal m + 1, qm_updatedAt := now\<rparr>"

definition admitRow :: "queueRow \<Rightarrow> queueDb \<Rightarrow> queueDb" where
  "admitRow r db = db\<lparr>db_entries := db_entries db @ [r]\<rparr>"

definition enqueuedDb :: "string \<Rightarrow> string \<Rightarrow> string option \<Rightarrow> enqueueInput \<Rightarrow> int \<Rightarrow> queueMeta
    \<Rightarrow> queueDb \<Rightarrow> queueDb" where
  "enqueuedDb s i evict input now m db =
     storePrivate s i (eq_privateMaterialJson input) now
       (admitRow (newRow s i input (qm_nextOrdinal m) now)
         (updateMeta s (takeOrdinal now) (evictEntry s evict db)))"

lemma localChange_evict [inv_intros]: "localChange s (evictEntry s evict)"
proof (cases evict)
  case None
  then have "evictEntry s evict = (\<lambda>db. db)" by (simp add: evictEntry_def fun_eq_iff)
  then show ?thesis by (simp add: localChange_id)
next
  case (Some i)
  then have "evictEntry s evict = deletePrivate (\<lambda>k. k = (s, i)) \<circ> deleteEntries (isRow s i)"
    by (simp add: evictEntry_def fun_eq_iff)
  then show ?thesis by (simp add: localChange_dropRow)
qed

lemma evictEntry_frame [frame_simps]:
  "db_meta (evictEntry s evict db) = db_meta db"
  "db_tombstones (evictEntry s evict db) = db_tombstones db"
  "db_entries (evictEntry s evict db) = filter (\<lambda>r. \<not> (case evict of None \<Rightarrow> False | Some i \<Rightarrow> isRow s i r)) (db_entries db)"
  by (simp_all add: evictEntry_def frame_simps split: option.splits)

lemma newRow_key [simp]: "rowKey (newRow s i input n now) = (s, i)" "er_ordinal (newRow s i input n now) = n"
  "er_sessionName (newRow s i input n now) = s" "er_clientMessageId (newRow s i input n now) = i"
  "rowSlot (newRow s i input n now) = (s, n)" "er_status (newRow s i input n now) = St_queued"
  by (simp_all add: newRow_def rowKey_def rowSlot_def)

lemma enqueuedDb_frame [frame_simps]:
  "db_meta (enqueuedDb s i evict input now m db) = (db_meta db)(s := map_option (takeOrdinal now) (db_meta db s))"
  "db_entries (enqueuedDb s i evict input now m db)
     = db_entries (evictEntry s evict db) @ [newRow s i input (qm_nextOrdinal m) now]"
  "db_tombstones (enqueuedDb s i evict input now m db) = db_tombstones db"
  by (simp_all add: enqueuedDb_def storePrivate_def admitRow_def updateMeta_def evictEntry_frame
      split: option.splits)

lemma enqueuedDb_private:
  "db_private (enqueuedDb s i evict input now m db) k =
     (if k = (s, i) \<and> eq_privateMaterialJson input \<noteq> None
      then Some (the (eq_privateMaterialJson input), now) else db_private (evictEntry s evict db) k)"
  by (simp add: enqueuedDb_def storePrivate_def admitRow_def updateMeta_def split: option.splits)

lemma enqueuedDb_inv:
  assumes inv: "dbInv db" and m: "db_meta db s = Some m" and s: "s \<noteq> []" and i: "i \<noteq> []"
    and free: "(s, i) \<notin> rowKey ` set (db_entries (evictEntry s evict db))"
  shows "dbInv (enqueuedDb s i evict input now m db)" (is "dbInv ?db")
proof
  let ?db1 = "evictEntry s evict db"
  have inv1: "dbInv ?db1" and m1: "db_meta ?db1 s = Some m"
    using localChange_evict [of s evict] inv m by (simp_all add: localChange_def frame_simps)
  have below: "er_ordinal r < qm_nextOrdinal m" if "r \<in> set (db_entries ?db1)" "er_sessionName r = s" for r
    using dbInvD(3) [OF inv1 that(1)] that(2) m1 by (simp add: rowFits_def)
  have entries: "db_entries ?db = db_entries ?db1 @ [newRow s i input (qm_nextOrdinal m) now]"
    by (simp only: enqueuedDb_frame)
  have "distinct (map rowKey (db_entries ?db1))" "distinct (map rowSlot (db_entries ?db1))"
    using dbInvD(1,2) [OF inv1] by blast+
  moreover have "(s, qm_nextOrdinal m) \<notin> rowSlot ` set (db_entries ?db1)"
    using below by (force simp: rowSlot_def)
  ultimately show "distinct (map rowKey (db_entries ?db))" "distinct (map rowSlot (db_entries ?db))"
    using free unfolding entries by simp_all
  show "rowFits ?db r" if r: "r \<in> set (db_entries ?db)" for r
  proof (cases "r \<in> set (db_entries ?db1)")
    case True
    then have "rowFits ?db1 r" using dbInvD(3) [OF inv1] by blast
    then show ?thesis
      using m1 by (auto simp: rowFits_def enqueuedDb_frame evictEntry_frame takeOrdinal_def split: option.splits)
  next
    case False
    with r have "r = newRow s i input (qm_nextOrdinal m) now" by (simp add: entries)
    then show ?thesis
      using s i m dbInvD(4) [OF inv m] by (simp add: rowFits_def enqueuedDb_frame takeOrdinal_def metaFits_def)
  qed
  show "metaFits m'" if "db_meta ?db s' = Some m'" for s' m'
    using that m dbInvD(4) [OF inv] by (fastforce simp: enqueuedDb_frame takeOrdinal_def metaFits_def split: if_splits)
  show "k \<in> rowKey ` set (db_entries ?db)" if "db_private ?db k \<noteq> None" for k
    using that dbInvD(5) [OF inv1, of k] by (auto simp: enqueuedDb_private entries split: if_splits)
qed

lemma enqueuedDb_view:
  assumes "s' \<noteq> s"
  shows "sessionView s' (enqueuedDb s i evict input now m db) = sessionView s' db"
proof -
  have "sessionView s' (evictEntry s evict db) = sessionView s' db"
    using localChange_evict [of s evict] assms by (simp add: localChange_def)
  then show ?thesis
    using assms by (simp add: sessionView_eq enqueuedDb_frame enqueuedDb_private sessionRows_def)
qed

section \<open>The outcome of an enqueue\<close>

text \<open>The id the entry gets, and the store after a fresh one was drawn.\<close>

definition chooseId :: "enqueueInput \<Rightarrow> queueStore \<Rightarrow> string \<times> queueStore" where
  "chooseId input st = (case trimOpt (eq_clientMessageId input) of Some i \<Rightarrow> (i, st) | None \<Rightarrow> randomUUID st)"

definition enqueuedStore :: "string \<Rightarrow> string \<Rightarrow> string option \<Rightarrow> enqueueInput \<Rightarrow> int \<Rightarrow> queueStore \<Rightarrow> queueStore" where
  "enqueuedStore s i evict input now st = (ensured s now st)\<lparr>st_db := updateMeta s (bumped now)
     (enqueuedDb s i evict input now (fst (ensureMeta s now st)) (st_db (ensured s now st)))\<rparr>"

definition conflicts :: "string \<Rightarrow> string \<Rightarrow> string option \<Rightarrow> queueStore \<Rightarrow> bool" where
  "conflicts s i evict st \<longleftrightarrow> (s, i) \<in> rowKey ` set (db_entries (st_db st)) \<and> evict \<noteq> Some i"

lemma trimOpt_nonempty: "trimOpt x = Some i \<Longrightarrow> i \<noteq> []"
  by (cases "map_option trim x" rule: nonEmptyOpt.cases) (auto simp: trimOpt_def)

lemma nonEmptyOpt_trim: "trim i = i \<Longrightarrow> i \<noteq> [] \<Longrightarrow> trimOpt (Some i) = Some i"
  by (cases i) (simp_all add: trimOpt_def)

lemma chooseId_frame [frame_simps]:
  "st_db (snd (chooseId input st)) = st_db st" "st_fault (snd (chooseId input st)) = st_fault st"
  "st_uuid (snd (chooseId input st)) = st_uuid st" "versionOf s (snd (chooseId input st)) = versionOf s st"
  by (simp_all add: chooseId_def randomUUID_def versionOf_def split: option.splits)

lemma storeInv_drawn: "storeInv st \<Longrightarrow> storeInv (snd (randomUUID st))"
  by (fastforce simp: storeInv_def randomUUID_def issued_def)

lemma storeInv_chooseId: "storeInv st \<Longrightarrow> storeInv (snd (chooseId input st))"
  using storeInv_drawn [of st] by (simp add: chooseId_def split: option.split)

lemma chooseId_nonempty: "storeInv st \<Longrightarrow> fst (chooseId input st) \<noteq> []"
  by (auto simp: chooseId_def randomUUID_def storeInv_def uuidSupply_def dest: trimOpt_nonempty split: option.split)

lemma conflicts_evict:
  "(s, i) \<in> rowKey ` set (db_entries (evictEntry s evict db)) \<longleftrightarrow>
     (s, i) \<in> rowKey ` set (db_entries db) \<and> evict \<noteq> Some i"
  by (auto simp: frame_simps image_iff split: option.splits)

lemma enqueueBody_eq:
  "enqueueBody s i evict input now st = (if conflicts s i evict st
     then (Inl PrimaryKeyConflict, ensured s now st)
     else (Inr (bumped now (takeOrdinal now (fst (ensureMeta s now st)))), enqueuedStore s i evict input now st))"
proof -
  let ?m = "fst (ensureMeta s now st)" and ?st1 = "ensured s now st"
  let ?db2 = "updateMeta s (takeOrdinal now) (evictEntry s evict (st_db ?st1))"
  have keys: "rowKey ` set (db_entries ?db2) = rowKey ` set (db_entries (evictEntry s evict (st_db ?st1)))"
    by (simp add: updateMeta_def)
  have "db_meta (enqueuedDb s i evict input now ?m (st_db ?st1)) s = Some (takeOrdinal now ?m)"
    by (simp add: enqueuedDb_frame ensureMeta_meta)
  then have "bumpVersion s now (?st1\<lparr>st_db := enqueuedDb s i evict input now ?m (st_db ?st1)\<rparr>)
      = (bumped now (takeOrdinal now ?m), enqueuedStore s i evict input now st)"
    by (simp add: bumpVersion_eq enqueuedStore_def)
  then show ?thesis
    unfolding enqueueBody_def conflicts_def
    using keys conflicts_evict [of s i evict "st_db ?st1"]
    by (simp add: case_prod_beta insertRow_def Let_def enqueuedDb_def admitRow_def takeOrdinal_def [abs_def]
        ensureMeta_frame)
qed

lemma enqueuedStore_meta:
  "db_meta (st_db (enqueuedStore s i evict input now st)) s
    = Some (bumped now (takeOrdinal now (fst (ensureMeta s now st))))"
  by (simp add: enqueuedStore_def updateMeta_def enqueuedDb_frame ensureMeta_meta)

lemma enqueuedStore_frame [frame_simps]:
  "db_entries (st_db (enqueuedStore s i evict input now st))
     = db_entries (evictEntry s evict (st_db st))
       @ [newRow s i input (qm_nextOrdinal (fst (ensureMeta s now st))) now]"
  "st_fault (enqueuedStore s i evict input now st) = st_fault st"
  by (simp_all add: enqueuedStore_def updateMeta_def enqueuedDb_frame evictEntry_frame ensureMeta_frame)

lemma enqueuedStore_version: "versionOf s (enqueuedStore s i evict input now st) = versionOf s st + 1"
  using enqueuedStore_meta [of s i evict input now st]
  by (simp add: versionOf_def [of s "enqueuedStore s i evict input now st"] bumped_def takeOrdinal_def)

lemma enqueuedStore_view:
  "s' \<noteq> s \<Longrightarrow> sessionView s' (st_db (enqueuedStore s i evict input now st)) = sessionView s' (st_db st)"
  by (simp add: enqueuedStore_def updateMeta_view enqueuedDb_view ensured_view)

lemma storeInv_enqueued:
  assumes inv: "storeInv st" and "s \<noteq> []" "i \<noteq> []" "\<not> conflicts s i evict st"
  shows "storeInv (enqueuedStore s i evict input now st)"
proof -
  let ?m = "fst (ensureMeta s now st)" and ?st1 = "ensured s now st"
  let ?db = "enqueuedDb s i evict input now ?m (st_db ?st1)"
  have inv1: "storeInv ?st1" by (rule storeInv_ensured [OF inv])
  have m: "db_meta (st_db ?st1) s = Some ?m" by (simp add: ensureMeta_meta)
  have "(s, i) \<notin> rowKey ` set (db_entries (evictEntry s evict (st_db ?st1)))"
    using assms(4) conflicts_evict [of s i evict "st_db ?st1"] by (simp add: conflicts_def ensureMeta_frame)
  then have "dbInv ?db"
    using inv1 m assms(2,3) by (intro enqueuedDb_inv) auto
  then have "storeInv (?st1\<lparr>st_db := ?db\<rparr>)"
    using inv1 m by (fastforce simp: storeInv_def issued_def enqueuedDb_frame takeOrdinal_def split: if_splits)
  then have "storeInv (?st1\<lparr>st_db := ?db\<rparr>\<lparr>st_db := updateMeta s (bumped now) (st_db (?st1\<lparr>st_db := ?db\<rparr>))\<rparr>)"
    by (rule storeInv_updateMeta) (rule bumped_fits)
  then show ?thesis by (simp add: enqueuedStore_def)
qed

section \<open>The contract of the enqueueing methods\<close>

lemma enqueue_reject:
  "normalizeSessionName (eq_sessionName input) = Inl e \<Longrightarrow>
     enqueueWithCapacityEviction h input ev dateNow st = (Inl e, st)"
  by (simp add: enqueueWithCapacityEviction_def)

text \<open>Every outcome of an enqueue into a valid session.\<close>

lemma enqueue_cases:
  fixes input ev dateNow st
  defines "s \<equiv> trim (eq_sessionName input)" and "now \<equiv> nowMs (eq_now input) dateNow"
    and "i \<equiv> fst (chooseId input st)" and "st1 \<equiv> snd (chooseId input st)" and "evict \<equiv> trimOpt ev"
  assumes s: "s \<noteq> []" and inv: "storeInv st"
  obtains (fault) f where "st_fault st = Some f"
      "enqueueWithCapacityEviction h input ev dateNow st = (Inl (SqliteFault f), st1)"
  | (conflict) "st_fault st = None" "conflicts s i evict st"
      "enqueueWithCapacityEviction h input ev dateNow st
         = (Inl PrimaryKeyConflict, (ensured s now st1)\<lparr>st_db := st_db st\<rparr>)"
  | (ok) r where "st_fault st = None" "\<not> conflicts s i evict st" "storeInv (enqueuedStore s i evict input now st1)"
      "enqueueWithCapacityEviction h input ev dateNow st = (Inr r, enqueuedStore s i evict input now st1)"
      "faithful h s (enqueuedStore s i evict input now st1) (er_queueSnapshot r)"
      "\<And>d. er_dropSnapshot r = Some d \<Longrightarrow> evict \<noteq> None \<and> sn_dropReason d = Some Dr_capacity_evicted
          \<and> faithful h s (enqueuedStore s i evict input now st1) d"
proof -
  have norm: "normalizeSessionName (eq_sessionName input) = Inr s"
    using s by (simp add: s_def normalizeSessionName_def)
  have ts: "trim s = s" by (simp add: s_def)
  have run: "enqueueWithCapacityEviction h input ev dateNow st =
     (case transact (enqueueBody s i evict input now) st1 of
        (Inl e, st') \<Rightarrow> (Inl e, st')
      | (Inr version, st') \<Rightarrow>
          (case readSnapshot h s ''enqueue'' (Some (overrideOf version None None None)) dateNow st' of
             (Inl e, st'') \<Rightarrow> (Inl e, st'')
           | (Inr snap, st'') \<Rightarrow>
               (case evict of
                  None \<Rightarrow> (Inr \<lparr>er_queueSnapshot = snap, er_dropSnapshot = None\<rparr>, st'')
                | Some _ \<Rightarrow>
                    (case readSnapshot h s ''drop''
                       (Some (overrideOf version None (Some Dr_capacity_evicted) None)) dateNow st'' of
                       (Inl e, st3) \<Rightarrow> (Inl e, st3)
                     | (Inr dsnap, st3) \<Rightarrow> (Inr \<lparr>er_queueSnapshot = snap, er_dropSnapshot = Some dsnap\<rparr>, st3)))))"
    unfolding enqueueWithCapacityEviction_def norm evict_def
    by (cases "chooseId input st") (simp add: i_def st1_def now_def chooseId_def [symmetric] Let_def)
  have st1: "st_db st1 = st_db st" "st_fault st1 = st_fault st" "storeInv st1" "i \<noteq> []"
    using inv by (simp_all add: st1_def i_def frame_simps storeInv_chooseId chooseId_nonempty)
  have conf: "conflicts s i evict st1 = conflicts s i evict st"
    by (simp add: conflicts_def st1)
  show thesis
  proof (cases "st_fault st")
    case (Some f)
    then show thesis using run by (intro fault) (simp_all add: transact_def st1)
  next
    case None
    show thesis
    proof (cases "conflicts s i evict st")
      case True
      then have "transact (enqueueBody s i evict input now) st1
          = (Inl PrimaryKeyConflict, (ensured s now st1)\<lparr>st_db := st_db st\<rparr>)"
        using None by (simp add: transact_def enqueueBody_eq conf st1)
      then show thesis using run by (intro conflict [OF None True]) simp
    next
      case False
      let ?st' = "enqueuedStore s i evict input now st1"
      let ?v = "bumped now (takeOrdinal now (fst (ensureMeta s now st1)))"
      have inv': "storeInv ?st'"
        by (rule storeInv_enqueued) (simp_all add: st1 s conf False)
      have rd: "readSnapshot h s src (Some ov) dateNow ?st'
          = (Inr (buildSnapshot h s src ov (storedRows s (st_db ?st'))), ?st')" for src ov
        using None s inv' ts by (simp add: readSnapshot_override frame_simps st1 storeInv_dbInv)
      have "transact (enqueueBody s i evict input now) st1 = (Inr ?v, ?st')"
        using None False by (simp add: transact_def enqueueBody_eq conf st1)
      then have run': "enqueueWithCapacityEviction h input ev dateNow st = (Inr \<lparr>
          er_queueSnapshot = buildSnapshot h s ''enqueue'' (overrideOf ?v None None None) (storedRows s (st_db ?st')),
          er_dropSnapshot = map_option (\<lambda>_. buildSnapshot h s ''drop''
            (overrideOf ?v None (Some Dr_capacity_evicted) None) (storedRows s (st_db ?st'))) evict\<rparr>, ?st')"
        using run rd by (cases evict) simp_all
      show thesis
        by (rule ok [OF None False inv' run'])
          (auto simp: buildSnapshot_faithful [OF enqueuedStore_meta] buildSnapshot_def [of h s "''drop''"] overrideOf_def
            faithful_def enqueuedStore_meta buildSnapshot_def)
    qed
  qed
qed

interpretation enqueueEvict: store_mutation "enqueueWithCapacityEviction h input ev dateNow"
  "trim (eq_sessionName input)" for h input ev dateNow
proof
  let ?s = "trim (eq_sessionName input)" and ?run = "enqueueWithCapacityEviction h input ev dateNow"
  fix st s e r
  assume inv: "storeInv st"
  have rej: "?run st = (Inl SessionNameRequired, st)" if "?s = []"
    using that by (intro enqueue_reject) (simp add: normalizeSessionName_def)
  note cases = enqueue_cases [OF _ inv, of input h ev dateNow]
  have drawn: "storeInv ((ensured ?s now (snd (chooseId input st)))\<lparr>st_db := st_db st\<rparr>)" for now
  proof -
    have "issued st \<subseteq> issued ((ensured ?s now (snd (chooseId input st)))\<lparr>st_db := st_db st\<rparr>)"
      by (rule issued_mono) (auto simp: frame_simps chooseId_def randomUUID_def
        intro: order_trans [OF _ ensureMeta_drawn] split: option.split)
    then show ?thesis using inv unfolding storeInv_def by (auto simp: frame_simps)
  qed
  show "storeInv (snd (?run st))"
  proof (cases "?s = []")
    case False
    then show ?thesis by (rule cases) (simp_all add: storeInv_chooseId inv drawn)
  qed (simp add: rej inv)
  show "sessionView s (st_db (snd (?run st))) = sessionView s (st_db st)" if "s \<noteq> ?s"
  proof (cases "?s = []")
    case False
    then show ?thesis by (rule cases) (simp_all add: frame_simps enqueuedStore_view that)
  qed (simp add: rej)
  show "st_db (snd (?run st)) = st_db st" if "fst (?run st) = Inl e"
  proof (cases "?s = []")
    case False
    then show ?thesis by (rule cases) (use that in \<open>simp_all add: frame_simps\<close>)
  qed (simp add: rej)
  show "versionStep ?s st (snd (?run st))"
  proof (cases "?s = []")
    case False
    then show ?thesis
      by (rule cases) (simp_all add: versionStep_db versionStep_bump frame_simps enqueuedStore_version)
  qed (simp add: rej)
  show "versionOf ?s (snd (?run st)) = versionOf ?s st + 1" if "fst (?run st) = Inr r"
  proof (cases "?s = []")
    case False
    then show ?thesis by (rule cases) (use that in \<open>simp_all add: frame_simps enqueuedStore_version\<close>)
  qed (use that in \<open>simp add: rej\<close>)
qed

lemma enqueue_fst: "fst (enqueue h input dateNow st) = map_sum id er_queueSnapshot
    (fst (enqueueWithCapacityEviction h input None dateNow st))"
  and enqueue_snd: "snd (enqueue h input dateNow st) = snd (enqueueWithCapacityEviction h input None dateNow st)"
  by (simp_all add: enqueue_def split: prod.split sum.split)

lemma map_sum_cases: "map_sum f g x = Inl e \<longleftrightarrow> (\<exists>y. x = Inl y \<and> e = f y)" "map_sum f g x = Inr r \<longleftrightarrow> (\<exists>y. x = Inr y \<and> r = g y)"
  by (cases x; auto)+

lemma snapshot_mutation_enqueue: "snapshot_mutation (enqueue h input dateNow) (trim (eq_sessionName input)) h"
proof
  let ?s = "trim (eq_sessionName input)" and ?run = "enqueue h input dateNow"
  fix st s e snap
  assume inv: "storeInv st"
  note E = enqueueEvict.keeps_inv [OF inv] enqueueEvict.isolated [OF inv] enqueueEvict.failed_unchanged [OF inv]
    enqueueEvict.versioned [OF inv] enqueueEvict.commits [OF inv]
  show "storeInv (snd (?run st))" by (simp add: enqueue_snd E)
  show "sessionView s (st_db (snd (?run st))) = sessionView s (st_db st)" if "s \<noteq> ?s"
    using that by (simp add: enqueue_snd E)
  show "st_db (snd (?run st)) = st_db st" if "fst (?run st) = Inl e"
    using that E(3) [of h input None dateNow] by (auto simp: enqueue_fst enqueue_snd map_sum_cases)
  show "versionStep ?s st (snd (?run st))" by (simp add: enqueue_snd E)
  show "versionOf ?s (snd (?run st)) = versionOf ?s st + 1" if "fst (?run st) = Inr snap"
    using that E(5) [of h input None dateNow] by (auto simp: enqueue_fst enqueue_snd map_sum_cases)
  show "faithful h ?s (snd (?run st)) snap" if ok: "fst (?run st) = Inr snap"
  proof (cases "?s = []")
    case True
    then have "?run st = (Inl SessionNameRequired, st)"
      by (simp add: enqueue_def enqueue_reject normalizeSessionName_def)
    then show ?thesis using ok by simp
  next
    case False
    then show ?thesis
      by (rule enqueue_cases [OF _ inv, of input h None dateNow]) (use ok in \<open>simp_all add: enqueue_fst enqueue_snd\<close>)
  qed
qed

interpretation enqueue: snapshot_mutation "enqueue h input dateNow" "trim (eq_sessionName input)" h
  for h input dateNow
  by (rule snapshot_mutation_enqueue)

interpretation retry: snapshot_mutation "retry h n failed input dateNow" "trim n" h for h n failed input dateNow
proof (cases "normalizeSessionName n")
  case (Inl e)
  then have "retry h n failed input dateNow st = (Inl e, st)" for st by (simp add: retry_def)
  then show "snapshot_mutation (retry h n failed input dateNow) (trim n) h" by (rule snapshot_mutation_reject)
next
  case (Inr s)
  show "snapshot_mutation (retry h n failed input dateNow) (trim n) h"
  proof (cases "trim failed = []")
    case True
    with Inr have "retry h n failed input dateNow st = (Inl (FieldRequired ''failedClientMessageId''), st)" for st
      by (simp add: retry_def requireNonEmpty_def)
    then show ?thesis by (rule snapshot_mutation_reject)
  next
    case False
    let ?input = "input\<lparr>eq_sessionName := s, eq_replacesClientMessageId := Some (trim failed)\<rparr>"
    from False Inr have "retry h n failed input dateNow = enqueue h ?input dateNow"
      by (simp add: retry_def requireNonEmpty_def fun_eq_iff)
    moreover have "trim (eq_sessionName ?input) = trim n"
      using normalize_ok [OF Inr] by simp
    ultimately show ?thesis using snapshot_mutation_enqueue [of h ?input dateNow] by simp
  qed
qed

end
