(* ===== verification/QueueDelivery.thy ===== *)
theory QueueDelivery
  imports QueueEnqueue
begin

text \<open>
  Handoff, delivery and reset: the tables each leaves behind and the contract of
  \<^verbatim>\<open>markHandoffInFlight\<close>, \<^verbatim>\<open>finalizeSentBatch\<close>, \<^verbatim>\<open>finalizeSent\<close>, \<^verbatim>\<open>reset\<close>,
  \<^verbatim>\<open>reinitializeAfterCorruption\<close> and the reading methods.
\<close>

section \<open>Reading methods\<close>

lemma store_operation_reject: "(\<And>st. f st = (Inl e, st)) \<Longrightarrow> store_operation f s"
  by unfold_locales simp_all

lemma store_operation_pure: "(\<And>st. snd (f st) = st) \<Longrightarrow> store_operation f s"
  by unfold_locales simp_all

lemma ensured_version [simp]: "versionOf s' (ensured s now st) = versionOf s' st"
  by (simp add: versionOf_def ensureMeta_meta)

lemma ensured_operation:
  assumes "\<And>st. storeInv st \<Longrightarrow> snd (f st) = st \<or> snd (f st) = ensured s now st \<and> (\<exists>r. fst (f st) = Inr r)"
  shows "store_operation f s"
proof
  fix st s' e
  assume inv: "storeInv st"
  note cases = assms [OF inv]
  show "storeInv (snd (f st))" using cases inv storeInv_ensured [OF inv] by auto
  show "sessionView s' (st_db (snd (f st))) = sessionView s' (st_db st)" if "s' \<noteq> s"
    using cases ensured_view [OF that] by auto
  show "st_db (snd (f st)) = st_db st" if "fst (f st) = Inl e"
    using cases that by auto
  show "versionStep s st (snd (f st))"
    using cases by (auto simp: versionStep_def sessionRows_def frame_simps)
qed

lemma readSnapshot_state:
  assumes "storeInv st"
  shows "snd (readSnapshot h n src None now st) = st
    \<or> snd (readSnapshot h n src None now st) = ensured (trim n) now st
      \<and> (\<exists>r. fst (readSnapshot h n src None now st) = Inr r)"
proof (cases "normalizeSessionName n")
  case (Inl e)
  then show ?thesis by (simp add: readSnapshot_fails)
next
  case (Inr s)
  then have s: "s = trim n" "s \<noteq> []" using normalize_ok by blast+
  show ?thesis
  proof (cases "st_fault st")
    case None
    have "readSnapshot h n src None now st = readSnapshot h s src None now st"
      using Inr s by (simp add: readSnapshot_def)
    then show ?thesis
      using readSnapshot_none [of s st h src now] s None assms by simp
  next
    case (Some f)
    then show ?thesis using readSnapshot_fails(2) [OF Some, of h n src None now] by auto
  qed
qed

interpretation readSnapshot: store_operation "readSnapshot h n src None now" "trim n" for h n src now
  by (rule ensured_operation) (rule readSnapshot_state)

lemma readSnapshotSafely_state:
  assumes "storeInv st"
  shows "snd (readSnapshotSafely h n src now st) = st
    \<or> snd (readSnapshotSafely h n src now st) = ensured (trim n) now st
      \<and> (\<exists>r. fst (readSnapshotSafely h n src now st) = Inr r)"
  using readSnapshot_state [OF assms, of h n src now]
  by (auto simp: readSnapshotSafely_def split: prod.splits sum.splits)

interpretation readSnapshotSafely: store_operation "readSnapshotSafely h n src now" "trim n" for h n src now
  by (rule ensured_operation) (rule readSnapshotSafely_state)

interpretation readPrivateDispatchMaterial: store_operation "readPrivateDispatchMaterial n i" "trim n" for n i
  by (rule store_operation_pure)
    (simp add: readPrivateDispatchMaterial_def withEntry_def split: sum.split option.split)

interpretation hasDeliveryTombstone: store_operation "hasDeliveryTombstone n i" "trim n" for n i
  by (rule store_operation_pure)
    (simp add: hasDeliveryTombstone_def withEntry_def split: sum.split option.split)

text \<open>A degraded read still answers unless the session name itself is missing.\<close>

lemma readSnapshotSafely_fails_iff:
  assumes "storeInv st"
  shows "(\<exists>e. fst (readSnapshotSafely h n src now st) = Inl e) \<longleftrightarrow> trim n = []"
proof (cases "trim n = []")
  case True
  then have "normalizeSessionName n = Inl SessionNameRequired" by (simp add: normalizeSessionName_def)
  then show ?thesis using True by (simp add: readSnapshotSafely_def readSnapshot_fails)
next
  case False
  then have "normalizeSessionName n = Inr (trim n)" by (simp add: normalizeSessionName_def)
  then show ?thesis using False by (simp add: readSnapshotSafely_def split: prod.split sum.split)
qed

context store_operation
begin

text \<open>Running a mutation through \<^verbatim>\<open>mutateSafely\<close> keeps its contract.\<close>

lemma mutateSafely_contract:
  assumes "trim n = session"
  shows "store_operation (mutateSafely h n src run now) session"
proof
  let ?safe = "mutateSafely h n src run now"
  fix st s e
  assume inv: "storeInv st"
  have cases: "snd (?safe st) = snd (run st) \<and> (\<exists>r. fst (?safe st) = Inr r)
      \<or> (\<exists>x. fst (run st) = Inl x) \<and> snd (?safe st) = snd (readSnapshotSafely h n src now (snd (run st)))
         \<and> (\<forall>y. fst (?safe st) = Inl y \<longrightarrow> fst (readSnapshotSafely h n src now (snd (run st))) = Inl y)"
    by (auto simp: mutateSafely_def split: prod.splits sum.splits)
  have run: "storeInv (snd (run st))" by (rule keeps_inv [OF inv])
  show "storeInv (snd (?safe st))"
    using cases run readSnapshotSafely.keeps_inv [OF run, of h n src now] by auto
  show "sessionView s (st_db (snd (?safe st))) = sessionView s (st_db st)" if "s \<noteq> session"
    using cases isolated [OF inv that] readSnapshotSafely.isolated [OF run, of s n h src now] that assms by auto
  show "st_db (snd (?safe st)) = st_db st" if "fst (?safe st) = Inl e"
    using cases that failed_unchanged [OF inv] readSnapshotSafely.failed_unchanged [OF run, of h n src now] by auto
  have "versionStep session st (snd (readSnapshotSafely h n src now (snd (run st))))" if "fst (run st) = Inl x" for x
    using readSnapshotSafely_state [OF run, of h n src now] failed_unchanged [OF inv that] assms
    by (auto simp: versionStep_def versionOf_def sessionRows_def frame_simps ensureMeta_meta)
  then show "versionStep session st (snd (?safe st))"
    using cases versioned [OF inv] by auto
qed

end

section \<open>Handoff\<close>

definition handoffChange :: "string \<Rightarrow> string list \<Rightarrow> string \<Rightarrow> int \<Rightarrow> int \<Rightarrow> queueDb \<Rightarrow> queueDb" where
  "handoffChange s ids handoffId leaseMs now =
     fold (\<lambda>i. updateEntries (isRow s i) (takeHandoff handoffId leaseMs now)) ids"

lemma takeHandoff_frame [simp]:
  "rowKey (takeHandoff hid lease now r) = rowKey r" "er_ordinal (takeHandoff hid lease now r) = er_ordinal r"
  "er_sessionName (takeHandoff hid lease now r) = er_sessionName r"
  "er_clientMessageId (takeHandoff hid lease now r) = er_clientMessageId r"
  "er_placement (takeHandoff hid lease now r) = er_placement r"
  "er_createdAt (takeHandoff hid lease now r) = er_createdAt r"
  "er_status (takeHandoff hid lease now r) = St_handoff_inflight"
  "er_handoffId (takeHandoff hid lease now r) = Some hid"
  "er_handoffExpiresAt (takeHandoff hid lease now r) = Some (now + lease)"
  by (simp_all add: takeHandoff_def rowKey_def)

lemma localChange_handoff: "localChange s (handoffChange s ids hid lease now)"
  unfolding handoffChange_def by (intro localChange_fold localChange_updateRow) simp_all

definition handoffResult :: "string \<Rightarrow> string list \<Rightarrow> string \<Rightarrow> queueDb \<Rightarrow> handoffEntry list" where
  "handoffResult s ids handoffId db =
     map (\<lambda>e. \<lparr>ho_entry = buildQueueProjectionEntry e, ho_handoffId = handoffId,
               ho_privateMaterialJson = nonEmptyOpt (map_option fst (db_private db (s, qs_clientMessageId e)))\<rparr>)
       (filter (\<lambda>e. qs_clientMessageId e \<in> set ids) (storedRows s db))"

lemma handoffBody_eq:
  assumes "storeInv st"
  shows "handoffBody s ids hid lease now st =
     (let st' = committed s now (handoffChange s ids hid lease now) st
      in (Inr (handoffResult s ids hid (st_db st')), st'))"
proof -
  let ?change = "handoffChange s ids hid lease now"
  have "db_meta (?change (st_db (ensured s now st))) s = Some (fst (ensureMeta s now st))"
    using localChange_handoff [of s ids hid lease now] by (simp add: localChange_def ensureMeta_meta)
  then have bump: "bumpVersion s now ((ensured s now st)\<lparr>st_db := ?change (st_db (ensured s now st))\<rparr>)
      = (bumped now (fst (ensureMeta s now st)), committed s now ?change st)"
    by (simp add: bumpVersion_eq committed_def)
  have "dbInv (st_db (committed s now ?change st))"
    using storeInv_committed [OF assms localChange_handoff] by auto
  then show ?thesis
    using bump by (simp add: handoffBody_def case_prod_beta Let_def handoffChange_def readRows_ok handoffResult_def)
qed

lemma handoff_cases:
  assumes inv: "storeInv st"
  obtains (reject) "trim n = []" "markHandoffInFlight n ids lease now st = (Inl SessionNameRequired, st)"
  | (empty) "trim n \<noteq> []" "ids = []" "markHandoffInFlight n ids lease now st = (Inr [], st)"
  | (fault) f where "trim n \<noteq> []" "ids \<noteq> []" "st_fault st = Some f"
      "markHandoffInFlight n ids lease now st = (Inl (SqliteFault f), snd (randomUUID st))"
  | (ok) st' where "trim n \<noteq> []" "ids \<noteq> []" "st_fault st = None"
      "st' = committed (trim n) now (handoffChange (trim n) ids (fst (randomUUID st)) lease now) (snd (randomUUID st))"
      "markHandoffInFlight n ids lease now st = (Inr (handoffResult (trim n) ids (fst (randomUUID st)) (st_db st')), st')"
proof (cases "trim n = [] \<or> ids = []")
  case True
  then show thesis
    using reject empty by (cases "trim n = []")
      (simp_all add: markHandoffInFlight_def withSession_def normalizeSessionName_def)
next
  case False
  have eq: "markHandoffInFlight n ids lease now st
      = transact (handoffBody (trim n) ids (fst (randomUUID st)) lease now) (snd (randomUUID st))"
    using False by (simp add: markHandoffInFlight_def withSession_def normalizeSessionName_def case_prod_beta)
  have f: "st_fault (snd (randomUUID st)) = st_fault st" by (simp add: randomUUID_def)
  show thesis
  proof (cases "st_fault st")
    case None
    then show thesis
      using False eq f handoffBody_eq [OF storeInv_drawn [OF inv]]
      by (intro ok) (auto simp: transact_def Let_def)
  next
    case (Some x)
    then show thesis using False eq f by (intro fault) (auto simp: transact_def)
  qed
qed

lemma randomUUID_frame [simp]:
  "st_db (snd (randomUUID st)) = st_db st" "versionOf s (snd (randomUUID st)) = versionOf s st"
  "st_fault (snd (randomUUID st)) = st_fault st"
  by (simp_all add: randomUUID_def versionOf_def)

interpretation handoff: store_operation "markHandoffInFlight n ids lease now" "trim n" for n ids lease now
proof
  fix st s e
  assume inv: "storeInv st"
  note cases = handoff_cases [OF inv, of n ids lease now]
  show "storeInv (snd (markHandoffInFlight n ids lease now st))"
    by (rule cases) (simp_all add: inv storeInv_drawn storeInv_committed localChange_handoff)
  show "sessionView s (st_db (snd (markHandoffInFlight n ids lease now st))) = sessionView s (st_db st)"
    if "s \<noteq> trim n"
    by (rule cases) (simp_all add: committed_view localChange_handoff that)
  show "st_db (snd (markHandoffInFlight n ids lease now st)) = st_db st"
    if "fst (markHandoffInFlight n ids lease now st) = Inl e"
    by (rule cases) (use that in simp_all)
  show "versionStep (trim n) st (snd (markHandoffInFlight n ids lease now st))"
    by (rule cases) (simp_all add: versionStep_db versionStep_bump committed_version localChange_handoff)
qed

section \<open>Delivery\<close>

lemma filter_update_other:
  assumes "\<not> Q k"
  shows "filter (\<lambda>t. Q (fst t)) (AList.update k v ts) = filter (\<lambda>t. Q (fst t)) ts"
  using assms by (induction ts) auto

lemma localChange_finalizeOne: "localChange s (finalizeOne s epoch frame now i)"
proof -
  let ?tomb = "\<lambda>db. db\<lparr>db_tombstones := mapSet (db_tombstones db) (s, epoch, i) (frame, now)\<rparr>"
  have "localChange s ?tomb"
    by (simp add: localChange_def sessionView_def sessionRows_def dbInv_def rowFits_def
        filter_update_other [of "\<lambda>k. fst k = _"] cong: option.case_cong)
  then have "localChange s (deletePrivate (\<lambda>k. k = (s, i)) \<circ> deleteEntries (isRow s i) \<circ> ?tomb)"
    by (intro localChange_comp localChange_dropRow)
  moreover have "deletePrivate (\<lambda>k. k = (s, i)) \<circ> deleteEntries (isRow s i) \<circ> ?tomb = finalizeOne s epoch frame now i"
    by (simp add: finalizeOne_def fun_eq_iff)
  ultimately show ?thesis by simp
qed

definition finalizeChange :: "string \<Rightarrow> string list \<Rightarrow> string \<Rightarrow> string \<Rightarrow> int \<Rightarrow> queueDb \<Rightarrow> queueDb" where
  "finalizeChange s ids epoch frame now = fold (finalizeOne s epoch frame now) ids"

lemma localChange_finalize: "localChange s (finalizeChange s ids epoch frame now)"
  unfolding finalizeChange_def by (rule localChange_fold) (rule localChange_finalizeOne)

definition finalizedStore :: "string \<Rightarrow> string list \<Rightarrow> string \<Rightarrow> int \<Rightarrow> queueStore \<Rightarrow> queueStore" where
  "finalizedStore s ids frame now st =
     committed s now (finalizeChange s ids (qm_queueEpoch (fst (ensureMeta s now st))) frame now) st"

lemma finalizeBody_eq:
  "finalizeBody s ids frame now st = (Inr (bumped now (fst (ensureMeta s now st))), finalizedStore s ids frame now st)"
proof -
  let ?change = "finalizeChange s ids (qm_queueEpoch (fst (ensureMeta s now st))) frame now"
  have "db_meta (?change (st_db (ensured s now st))) s = Some (fst (ensureMeta s now st))"
    using localChange_finalize by (simp add: localChange_def ensureMeta_meta)
  then have "bumpVersion s now ((ensured s now st)\<lparr>st_db := ?change (st_db (ensured s now st))\<rparr>)
      = (bumped now (fst (ensureMeta s now st)), finalizedStore s ids frame now st)"
    by (simp add: bumpVersion_eq committed_def finalizedStore_def)
  then show ?thesis by (simp add: finalizeBody_def case_prod_beta Let_def finalizeChange_def)
qed

text \<open>The frame id of a batch, drawn when the caller gives none.\<close>

definition chooseFrame :: "string option \<Rightarrow> queueStore \<Rightarrow> string \<times> queueStore" where
  "chooseFrame frame st = (case frame of Some f \<Rightarrow> (f, st) | None \<Rightarrow> randomUUID st)"

lemma chooseFrame_frame [simp]:
  "st_db (snd (chooseFrame frame st)) = st_db st" "st_fault (snd (chooseFrame frame st)) = st_fault st"
  "versionOf s (snd (chooseFrame frame st)) = versionOf s st"
  by (simp_all add: chooseFrame_def split: option.split)

lemma storeInv_chooseFrame: "storeInv st \<Longrightarrow> storeInv (snd (chooseFrame frame st))"
  by (simp add: chooseFrame_def storeInv_drawn split: option.split)

lemma finalize_cases:
  fixes n frame st
  defines "s \<equiv> trim n" and "st1 \<equiv> snd (chooseFrame frame st)" and "f \<equiv> fst (chooseFrame frame st)"
  assumes inv: "storeInv st"
  obtains (fails) e where "finalizeSentBatch h n inputs frame now st = (Inl e, st1)"
  | (noop) snap where "s \<noteq> []" "batchIds inputs = []" "st_fault st = None"
      "finalizeSentBatch h n inputs frame now st = (Inr (snap, []), ensured s now st1)"
      "faithful h s (ensured s now st1) snap"
  | (ok) snap where "s \<noteq> []" "batchIds inputs \<noteq> []" "st_fault st = None"
      "finalizeSentBatch h n inputs frame now st = (Inr (snap,
         map (deliveryFact s (bumped now (fst (ensureMeta s now st1))) f) (batchIds inputs)),
         finalizedStore s (batchIds inputs) f now st1)"
      "faithful h s (finalizedStore s (batchIds inputs) f now st1) snap"
proof -
  have st1: "storeInv st1" "st_fault st1 = st_fault st"
    using inv by (simp_all add: st1_def storeInv_chooseFrame)
  have run: "finalizeSentBatch h n inputs frame now st = (case normalizeSessionName n of
      Inl e \<Rightarrow> (Inl e, st1)
    | Inr session \<Rightarrow> (if batchIds inputs = [] then
        (case readSnapshot h session ''finalize_sent_noop'' None now st1 of
           (Inl e, st') \<Rightarrow> (Inl e, st') | (Inr snap, st') \<Rightarrow> (Inr (snap, []), st'))
      else (case transact (finalizeBody session (batchIds inputs) f now) st1 of
           (Inl e, st') \<Rightarrow> (Inl e, st')
         | (Inr version, st') \<Rightarrow>
             (case readSnapshot h session ''finalize_sent'' (Some (overrideOf version None None None)) now st' of
                (Inl e, st'') \<Rightarrow> (Inl e, st'')
              | (Inr snap, st'') \<Rightarrow> (Inr (snap, map (deliveryFact session version f) (batchIds inputs)), st'')))))"
    unfolding st1_def f_def finalizeSentBatch_def chooseFrame_def [symmetric] withSession_def Let_def
    by (simp add: case_prod_beta)
  show thesis
  proof (cases "s = []")
    case True
    then show thesis using fails run by (simp add: normalizeSessionName_def s_def)
  next
    case False
    then have norm: "normalizeSessionName n = Inr s" and ts: "trim s = s"
      by (simp_all add: normalizeSessionName_def s_def)
    show thesis
    proof (cases "st_fault st")
      case (Some x)
      obtain e where "readSnapshot h s ''finalize_sent_noop'' None now st1 = (Inl e, st1)"
        using readSnapshot_fails(2) [of st1 x h s "''finalize_sent_noop''" None now] Some st1 by auto
      then show thesis using fails run norm Some st1 by (cases "batchIds inputs = []") (simp_all add: transact_def)
    next
      case None
      show thesis
      proof (cases "batchIds inputs = []")
        case True
        have meta: "db_meta (st_db (ensured s now st1)) s = Some (fst (ensureMeta s now st1))"
          by (simp add: ensureMeta_meta)
        show thesis
          using noop [OF False True None _ buildSnapshot_faithful [OF meta]] run norm True None st1 False ts
          by (simp add: readSnapshot_none)
      next
        case ids: False
        let ?st' = "finalizedStore s (batchIds inputs) f now st1"
        have meta: "db_meta (st_db ?st') s = Some (bumped now (fst (ensureMeta s now st1)))"
          unfolding finalizedStore_def by (rule committed_meta) (rule localChange_finalize)
        have "storeInv ?st'"
          unfolding finalizedStore_def by (intro storeInv_committed localChange_finalize st1)
        moreover have "st_fault ?st' = None" using None st1 by (simp add: finalizedStore_def frame_simps)
        moreover have "transact (finalizeBody s (batchIds inputs) f now) st1
            = (Inr (bumped now (fst (ensureMeta s now st1))), ?st')"
          using None st1 by (simp add: transact_def finalizeBody_eq)
        ultimately show thesis
          using ok [OF False ids None _ buildSnapshot_faithful [OF meta]] run norm ids False ts
          by (simp add: readSnapshot_override storeInv_dbInv)
      qed
    qed
  qed
qed

lemma storeInv_finalized: "storeInv st \<Longrightarrow> storeInv (finalizedStore s ids frame now st)"
  unfolding finalizedStore_def by (intro storeInv_committed localChange_finalize)

lemma finalized_version: "versionOf s (finalizedStore s ids frame now st) = versionOf s st + 1"
  unfolding finalizedStore_def by (intro committed_version localChange_finalize)

interpretation finalize: store_operation "finalizeSentBatch h n inputs frame now" "trim n" for h n inputs frame now
proof
  let ?run = "finalizeSentBatch h n inputs frame now"
  fix st s e
  assume inv: "storeInv st"
  note cases = finalize_cases [OF inv, of h n inputs frame now]
  show "storeInv (snd (?run st))"
    by (rule cases) (simp_all add: inv storeInv_chooseFrame storeInv_ensured storeInv_finalized)
  show "sessionView s (st_db (snd (?run st))) = sessionView s (st_db st)" if "s \<noteq> trim n"
    by (rule cases) (simp_all add: that ensured_view finalizedStore_def committed_view localChange_finalize)
  show "st_db (snd (?run st)) = st_db st" if "fst (?run st) = Inl e"
    by (rule cases) (use that in simp_all)
  show "versionStep (trim n) st (snd (?run st))"
    by (rule cases)
      (simp_all add: versionStep_db versionStep_bump finalized_version, simp add: versionStep_def sessionRows_def frame_simps)
qed

lemma finalizeSent_eq:
  "fst (finalizeSent h n i frame now st) = map_sum id fst (fst (finalizeSentBatch h n [i] frame now st))"
  "snd (finalizeSent h n i frame now st) = snd (finalizeSentBatch h n [i] frame now st)"
  by (simp_all add: finalizeSent_def split: prod.split sum.split)

interpretation finalizeSent: store_operation "finalizeSent h n i frame now" "trim n" for h n i frame now
proof
  fix st s e
  assume inv: "storeInv st"
  note E = finalize.keeps_inv [OF inv] finalize.isolated [OF inv] finalize.failed_unchanged [OF inv]
    finalize.versioned [OF inv]
  show "storeInv (snd (finalizeSent h n i frame now st))" by (simp add: finalizeSent_eq E)
  show "sessionView s (st_db (snd (finalizeSent h n i frame now st))) = sessionView s (st_db st)" if "s \<noteq> trim n"
    using that by (simp add: finalizeSent_eq E)
  show "st_db (snd (finalizeSent h n i frame now st)) = st_db st" if "fst (finalizeSent h n i frame now st) = Inl e"
    using that E(3) [of h n "[i]" frame now] by (auto simp: finalizeSent_eq map_sum_cases)
  show "versionStep (trim n) st (snd (finalizeSent h n i frame now st))"
    by (simp add: finalizeSent_eq E)
qed

section \<open>Reset\<close>

definition resetStore :: "string \<Rightarrow> int \<Rightarrow> queueStore \<Rightarrow> queueStore" where
  "resetStore s now st = st\<lparr>st_drawn := Suc (Suc (st_drawn st)),
     st_db := resetMeta s (st_uuid st (st_drawn st)) (st_uuid st (Suc (st_drawn st))) now
       ((deletePrivate (\<lambda>k. fst k = s) (deleteEntries (\<lambda>r. er_sessionName r = s) (st_db st)))
         \<lparr>db_tombstones := filter (\<lambda>t. fst (fst t) \<noteq> s) (db_tombstones (st_db st))\<rparr>)\<rparr>"

definition resetRow :: "int \<Rightarrow> queueStore \<Rightarrow> string \<Rightarrow> queueMeta" where
  "resetRow now st s = \<lparr>qm_queueEpoch = st_uuid st (st_drawn st),
     qm_queueAuthorityId = st_uuid st (Suc (st_drawn st)),
     qm_pendingMessageVersion = versionOf s st + 1, qm_nextOrdinal = 0, qm_updatedAt = now\<rparr>"

lemma resetBody_eq: "resetBody s now st = (Inr (), resetStore s now st)"
  by (simp add: resetBody_def resetStore_def randomUUID_def Let_def frame_simps)

lemma resetStore_frame [frame_simps]:
  "db_meta (st_db (resetStore s now st)) = (db_meta (st_db st))(s \<mapsto> resetRow now st s)"
  "db_entries (st_db (resetStore s now st)) = filter (\<lambda>r. er_sessionName r \<noteq> s) (db_entries (st_db st))"
  "db_private (st_db (resetStore s now st)) k = (if fst k = s then None else db_private (st_db st) k)"
  "db_tombstones (st_db (resetStore s now st)) = filter (\<lambda>t. fst (fst t) \<noteq> s) (db_tombstones (st_db st))"
  "st_fault (resetStore s now st) = st_fault st" "st_uuid (resetStore s now st) = st_uuid st"
  "st_drawn (resetStore s now st) = Suc (Suc (st_drawn st))"
  by (simp_all add: resetStore_def resetMeta_def resetRow_def versionOf_def deletePrivate_def deleteEntries_def
      split: option.split)

lemma resetRow_fits: "storeInv st \<Longrightarrow> metaFits (resetRow now st s)"
  using dbInvD(4) [of "st_db st" s]
  by (auto simp: metaFits_def resetRow_def storeInv_def uuidSupply_def versionOf_def split: option.split)

lemma storeInv_reset:
  assumes "storeInv st"
  shows "storeInv (resetStore s now st)"
proof -
  let ?st = "resetStore s now st"
  have inv: "dbInv (st_db st)" using assms by auto
  have "dbInv (st_db ?st)"
  proof (rule dbInvI)
    show "distinct (map rowKey (db_entries (st_db ?st)))" "distinct (map rowSlot (db_entries (st_db ?st)))"
      using dbInvD(1,2) [OF inv] by (simp_all add: frame_simps distinct_map_filter)
    show "rowFits (st_db ?st) r" if "r \<in> set (db_entries (st_db ?st))" for r
      using that dbInvD(3) [OF inv, of r] by (auto simp: frame_simps rowFits_def)
    show "metaFits m" if "db_meta (st_db ?st) s' = Some m" for s' m
      using that dbInvD(4) [OF inv] resetRow_fits [OF assms] by (auto simp: frame_simps split: if_splits)
    show "k \<in> rowKey ` set (db_entries (st_db ?st))" if "db_private (st_db ?st) k \<noteq> None" for k
      using that dbInvD(5) [OF inv, of k] by (force simp: frame_simps rowKey_def split: if_splits)
  qed
  moreover have "issued st \<subseteq> issued ?st"
    by (rule issued_mono) (simp_all add: frame_simps)
  moreover have "{qm_queueEpoch (resetRow now st s), qm_queueAuthorityId (resetRow now st s)} \<subseteq> issued ?st"
    by (simp add: resetRow_def issued_def frame_simps)
  ultimately show ?thesis
    using assms unfolding storeInv_def by (auto simp: frame_simps split: if_splits)
qed

lemma reset_view: "s' \<noteq> s \<Longrightarrow> sessionView s' (st_db (resetStore s now st)) = sessionView s' (st_db st)"
proof -
  assume "s' \<noteq> s"
  then have "filter (\<lambda>x. er_sessionName x = s' \<and> er_sessionName x \<noteq> s) xs = filter (\<lambda>x. er_sessionName x = s') xs"
    "filter (\<lambda>t. fst (fst t) = s' \<and> fst (fst t) \<noteq> s) ts = filter (\<lambda>t. fst (fst t) = s') ts" for xs and ts :: "((string \<times> string \<times> string) \<times> string \<times> int) list"
    by (auto intro: filter_cong)
  then show ?thesis
    using \<open>s' \<noteq> s\<close> by (simp add: sessionView_eq sessionRows_def frame_simps conj_commute)
qed

lemma reset_version: "versionOf s (resetStore s now st) = versionOf s st + 1"
  by (simp add: versionOf_def [of s "resetStore s now st"] frame_simps) (simp add: resetRow_def)

text \<open>The epoch a reset installs was never issued before.\<close>

lemma reset_epoch_fresh:
  assumes "storeInv st"
  shows "qm_queueEpoch (resetRow now st s) \<notin> issued st" "qm_queueAuthorityId (resetRow now st s) \<notin> issued st"
  using assms by (auto simp: resetRow_def issued_def storeInv_def uuidSupply_def inj_eq)

lemma reset_ok:
  assumes s: "trim s = s" "s \<noteq> []" and inv: "storeInv st" and ok: "st_fault st = None"
  shows "reset h s reason now ag st = (Inr (buildSnapshot h s ''reset''
      (overrideOf (resetRow now st s) (Some reason) None ag) (storedRows s (st_db (resetStore s now st)))),
      resetStore s now st)"
proof -
  have "ensureMeta s now (resetStore s now st) = (resetRow now st s, resetStore s now st)"
    by (rule ensureMeta_existing) (simp add: frame_simps)
  then show ?thesis
    using s ok storeInv_reset [OF inv]
    by (simp add: reset_def withSession_def transact_def resetBody_eq readSnapshot_override frame_simps storeInv_dbInv)
qed

lemma snapshot_mutation_reset: "snapshot_mutation (reset h n reason now ag) (trim n) h"
proof -
  have "snapshot_mutation (\<lambda>st. reset h s reason now ag st) s h" if s: "trim s = s" "s \<noteq> []" for s
  proof
    let ?run = "reset h s reason now ag"
    fix st s' e snap
    assume inv: "storeInv st"
    have fault: "?run st = (Inl (SqliteFault f), st)" if "st_fault st = Some f" for f
      using that s by (simp add: reset_def withSession_def transact_def)
    show "storeInv (snd (?run st))"
      using inv fault storeInv_reset by (cases "st_fault st") (auto simp: reset_ok [OF s inv])
    show "sessionView s' (st_db (snd (?run st))) = sessionView s' (st_db st)" if "s' \<noteq> s"
      using fault reset_view [OF that] by (cases "st_fault st") (auto simp: reset_ok [OF s inv])
    show "st_db (snd (?run st)) = st_db st" if "fst (?run st) = Inl e"
      using that fault by (cases "st_fault st") (auto simp: reset_ok [OF s inv])
    show "versionStep s st (snd (?run st))"
      using fault by (cases "st_fault st") (auto simp: reset_ok [OF s inv] versionStep_bump reset_version)
    show "versionOf s (snd (?run st)) = versionOf s st + 1" if "fst (?run st) = Inr snap"
      using that fault by (cases "st_fault st") (auto simp: reset_ok [OF s inv] reset_version)
    show "faithful h s (snd (?run st)) snap" if "fst (?run st) = Inr snap"
      using that fault buildSnapshot_faithful [of "resetStore s now st" s]
      by (cases "st_fault st") (auto simp: reset_ok [OF s inv] frame_simps)
  qed
  moreover have "reset h n reason now ag st = (if trim n = [] then (Inl SessionNameRequired, st)
      else reset h (trim n) reason now ag st)" for st
    by (simp add: reset_def withSession_def normalizeSessionName_def)
  then have "reset h n reason now ag = (if trim n = [] then (\<lambda>st. (Inl SessionNameRequired, st))
      else reset h (trim n) reason now ag)"
    by (auto simp: fun_eq_iff)
  ultimately show ?thesis
    by (cases "trim n = []") (simp_all add: snapshot_mutation_reject)
qed

interpretation reset: snapshot_mutation "reset h n reason now ag" "trim n" h for h n reason now ag
  by (rule snapshot_mutation_reset)

interpretation reinitialize: snapshot_mutation "reinitializeAfterCorruption h n now ag" "trim n" h for h n now ag
  unfolding reinitializeAfterCorruption_def [abs_def] by (rule snapshot_mutation_reset)

end
