(* ===== verification/QueueReducer.thy ===== *)
theory QueueReducer
  imports QueueDelivery
begin

text \<open>
  The client's reducer of queue events (\<^verbatim>\<open>shared/transport-queue-reducer.ts\<close>): which
  snapshots it accepts, what delivery and reset do to the lists, and the facts that make it
  converge whatever order the events arrive in.
\<close>

section \<open>The reducer\<close>

record reducerState =
  rd_sessionName :: "string option"
  rd_queueEpoch :: "string option"
  rd_queueAuthorityId :: "string option"
  rd_pendingMessageVersion :: "jsnum option"
  rd_pendingMessageEntries :: "queueProjectionEntry list"
  rd_failedMessageEntries :: "queueProjectionEntry list"
  rd_deliveredTombstones :: "(string, unit) jsmap"
  rd_receipts :: "(string, queueMutationReceipt) jsmap"
  rd_degradedEvidence :: "string list"

definition createTransportQueueReducerState :: "string option \<Rightarrow> reducerState" where
  "createTransportQueueReducerState sessionName = \<lparr>
     rd_sessionName = nonEmptyOpt sessionName, rd_queueEpoch = None, rd_queueAuthorityId = None,
     rd_pendingMessageVersion = None, rd_pendingMessageEntries = [], rd_failedMessageEntries = [],
     rd_deliveredTombstones = [], rd_receipts = [], rd_degradedEvidence = []\<rparr>"

definition projectionOrderKey :: "queueProjectionEntry \<Rightarrow> orderKey" where
  "projectionOrderKey e = (qp_placement e, qp_ordinal e, qp_createdAt e, qp_clientMessageId e)"

definition sortEntries :: "jsHost \<Rightarrow> queueProjectionEntry list \<Rightarrow> queueProjectionEntry list" where
  "sortEntries h entries =
     sortBy (\<lambda>a b. orderLe (collateLe h) (projectionOrderKey a) (projectionOrderKey b)) entries"

definition tombstoneKey :: "string \<Rightarrow> string \<Rightarrow> string" where
  "tombstoneKey epoch clientMessageId = epoch @ '':'' @ clientMessageId"

definition hasBaseline :: "reducerState \<Rightarrow> bool" where
  "hasBaseline c = (nonEmptyOpt (rd_queueEpoch c) \<noteq> None \<and> nonEmptyOpt (rd_queueAuthorityId c) \<noteq> None
     \<and> rd_pendingMessageVersion c \<noteq> None)"

definition withDegraded :: "reducerState \<Rightarrow> string \<Rightarrow> reducerState" where
  "withDegraded c reason = c\<lparr>rd_degradedEvidence := rd_degradedEvidence c @ [reason]\<rparr>"

text \<open>
  The fields \<^verbatim>\<open>canApplySnapshot\<close> reads of a snapshot or reset event; \<open>None\<close> is its
  answer \<^verbatim>\<open>true\<close>, \<open>Some r\<close> the reason it refuses.
\<close>

definition canApplySnapshot :: "reducerState \<Rightarrow> string \<Rightarrow> string \<Rightarrow> jsnum \<Rightarrow> queueResetReason option
    \<Rightarrow> string option" where
  "canApplySnapshot c epoch authority version resetReason =
     (if epoch = [] \<or> authority = [] \<or> \<not> numFinite version then Some ''missing_epoch_authority_or_version''
      else if \<not> hasBaseline c then None
      else if Some epoch = rd_queueEpoch c \<and> Some authority \<noteq> rd_queueAuthorityId c
        then Some ''same_epoch_authority_mismatch''
      else if Some epoch \<noteq> rd_queueEpoch c \<and> Some authority = rd_queueAuthorityId c
        then Some ''different_epoch_authority_reuse''
      else if Some epoch \<noteq> rd_queueEpoch c
        then (case resetReason of
            Some r \<Rightarrow> if r \<in> set QUEUE_RESET_REASONS then None else Some ''cross_epoch_without_recognized_reset''
          | None \<Rightarrow> Some ''cross_epoch_without_recognized_reset'')
      else if numLess version (the (rd_pendingMessageVersion c)) then Some ''stale_version''
      else None)"

definition applySnapshot :: "jsHost \<Rightarrow> reducerState \<Rightarrow> queueSnapshot \<Rightarrow> reducerState" where
  "applySnapshot h c s =
     (case canApplySnapshot c (sn_queueEpoch s) (sn_queueAuthorityId s) (sn_pendingMessageVersion s) (sn_resetReason s) of
        Some reason \<Rightarrow> withDegraded c reason
      | None \<Rightarrow>
          (let isNewEpoch = (rd_queueEpoch c \<noteq> None \<and> rd_queueEpoch c \<noteq> Some (sn_queueEpoch s));
               delivered = (if isNewEpoch then [] else rd_deliveredTombstones c);
               liveEntries = sortEntries h
                 (filter (\<lambda>e. \<not> mapHas delivered (tombstoneKey (sn_queueEpoch s) (qp_clientMessageId e)))
                   (filter (\<lambda>e. isLiveStatus (qp_status e)) (sn_pendingMessageEntries s)));
               failedEntries = sortEntries h
                 (filter (\<lambda>e. isFailedStatus (qp_status e)) (sn_failedMessageEntries s))
           in c\<lparr>rd_sessionName := Some (sn_sessionName s), rd_queueEpoch := Some (sn_queueEpoch s),
                rd_queueAuthorityId := Some (sn_queueAuthorityId s),
                rd_pendingMessageVersion := Some (sn_pendingMessageVersion s),
                rd_pendingMessageEntries := liveEntries, rd_failedMessageEntries := failedEntries,
                rd_deliveredTombstones := delivered\<rparr>))"

definition applyDelivery :: "reducerState \<Rightarrow> queueDeliveryFact \<Rightarrow> reducerState" where
  "applyDelivery c d =
     (if \<not> hasBaseline c then withDegraded c ''delivery_without_baseline''
      else if Some (df_queueEpoch d) \<noteq> rd_queueEpoch c \<or> Some (df_queueAuthorityId d) \<noteq> rd_queueAuthorityId c
        then withDegraded c ''delivery_epoch_or_authority_mismatch''
      else c\<lparr>
        rd_pendingMessageVersion :=
          Some (numMax (the (rd_pendingMessageVersion c)) (df_pendingMessageVersion d)),
        rd_pendingMessageEntries :=
          filter (\<lambda>e. qp_clientMessageId e \<noteq> df_clientMessageId d) (rd_pendingMessageEntries c),
        rd_failedMessageEntries :=
          filter (\<lambda>e. qp_clientMessageId e \<noteq> df_clientMessageId d) (rd_failedMessageEntries c),
        rd_deliveredTombstones :=
          mapSet (rd_deliveredTombstones c) (tombstoneKey (df_queueEpoch d) (df_clientMessageId d)) ()\<rparr>)"

definition applyReset :: "reducerState \<Rightarrow> queueResetEvent \<Rightarrow> reducerState" where
  "applyReset c r =
     (case canApplySnapshot c (rs_queueEpoch r) (rs_queueAuthorityId r) (rs_pendingMessageVersion r)
         (Some (rs_resetReason r)) of
        Some reason \<Rightarrow> withDegraded c reason
      | None \<Rightarrow> c\<lparr>rd_sessionName := Some (rs_sessionName r), rd_queueEpoch := Some (rs_queueEpoch r),
          rd_queueAuthorityId := Some (rs_queueAuthorityId r),
          rd_pendingMessageVersion := Some (rs_pendingMessageVersion r),
          rd_pendingMessageEntries := [], rd_failedMessageEntries := [], rd_deliveredTombstones := []\<rparr>)"

definition applyFailure :: "reducerState \<Rightarrow> queueFailureDropEvent \<Rightarrow> reducerState" where
  "applyFailure c f =
     (if \<not> hasBaseline c \<or> Some (fd_queueEpoch f) \<noteq> rd_queueEpoch c
         \<or> Some (fd_queueAuthorityId f) \<noteq> rd_queueAuthorityId c
      then withDegraded c ''failure_epoch_or_authority_mismatch''
      else c\<lparr>
        rd_pendingMessageVersion :=
          Some (numMax (the (rd_pendingMessageVersion c)) (fd_pendingMessageVersion f)),
        rd_pendingMessageEntries :=
          filter (\<lambda>e. qp_clientMessageId e \<noteq> fd_clientMessageId f) (rd_pendingMessageEntries c)\<rparr>)"

fun reduceTransportQueueEvent :: "jsHost \<Rightarrow> reducerState \<Rightarrow> queueEvent \<Rightarrow> reducerState" where
  "reduceTransportQueueEvent h c (QSnapshot s) = applySnapshot h c s"
| "reduceTransportQueueEvent h c (QDelivery d) = applyDelivery c d"
| "reduceTransportQueueEvent h c (QReset r) = applyReset c r"
| "reduceTransportQueueEvent h c (QReceipt r) =
     c\<lparr>rd_receipts := mapSet (rd_receipts c) (rc_commandId r) r\<rparr>"
| "reduceTransportQueueEvent h c (QFailure f) = applyFailure c f"

definition reduceEvents :: "jsHost \<Rightarrow> reducerState \<Rightarrow> queueEvent list \<Rightarrow> reducerState" where
  "reduceEvents h c evs = foldl (reduceTransportQueueEvent h) c evs"

definition selectLiveQueueEntries :: "reducerState \<Rightarrow> queueProjectionEntry list" where
  "selectLiveQueueEntries c = rd_pendingMessageEntries c"

definition selectFailedQueueEntries :: "reducerState \<Rightarrow> queueProjectionEntry list" where
  "selectFailedQueueEntries c = rd_failedMessageEntries c"

definition selectLiveQueueCount :: "reducerState \<Rightarrow> nat" where
  "selectLiveQueueCount c = length (rd_pendingMessageEntries c)"

definition selectSessionHasLiveQueue :: "reducerState \<Rightarrow> bool" where
  "selectSessionHasLiveQueue c = (selectLiveQueueCount c > 0)"

section \<open>Ordering\<close>

lemma placement_cases: "p \<noteq> Pl_front \<longleftrightarrow> p = Pl_normal" "Pl_normal \<noteq> p \<longleftrightarrow> p = Pl_front"
  "Pl_front \<noteq> p \<longleftrightarrow> p = Pl_normal"
  by (cases p; auto)+

lemma orderLe_total: "comparator_order lc \<Longrightarrow> orderLe lc a b \<or> orderLe lc b a"
  by (cases a; cases b) (auto simp: comparator_order_def placement_cases split: if_splits)

lemma orderLe_trans: "comparator_order lc \<Longrightarrow> orderLe lc a b \<Longrightarrow> orderLe lc b c \<Longrightarrow> orderLe lc a c"
  by (cases a; cases b; cases c) (auto simp: comparator_order_def placement_cases split: if_splits)

lemma comparator_orderLe:
  assumes "comparator_order lc"
  shows "comparator_order (\<lambda>a b. orderLe lc (f a) (f b))"
  using orderLe_total [OF assms] orderLe_trans [OF assms] by unfold_locales blast+

lemma projectionKey_build: "projectionOrderKey (buildQueueProjectionEntry e) = storedOrderKey e"
  by (simp add: projectionOrderKey_def storedOrderKey_def buildQueueProjectionEntry_def)

lemma build_fields [simp]:
  "qp_status (buildQueueProjectionEntry e) = qs_status e"
  "qp_clientMessageId (buildQueueProjectionEntry e) = qs_clientMessageId e"
  "qp_placement (buildQueueProjectionEntry e) = qs_placement e"
  "qp_text (buildQueueProjectionEntry e) = qs_text e"
  "qp_ordinal (buildQueueProjectionEntry e) = qs_ordinal e"
  by (simp_all add: buildQueueProjectionEntry_def)

lemma projectEntries_alt:
  "projectEntries h keep rows = sortEntries h (map buildQueueProjectionEntry (filter (\<lambda>e. keep (qs_status e)) rows))"
  unfolding projectEntries_def sortEntries_def
  by (rule sortBy_map [symmetric]) (simp add: projectionKey_build)

lemma sortEntries_project:
  assumes "consistentHost h"
  shows "sortEntries h (filter P (projectEntries h keep rows)) = filter P (projectEntries h keep rows)"
proof -
  have o: "comparator_order (\<lambda>a b. orderLe (collateLe h) (projectionOrderKey a) (projectionOrderKey b))"
    using assms unfolding consistentHost_def by (rule comparator_orderLe)
  show ?thesis
    unfolding projectEntries_alt sortEntries_def comparator_order.filter_sortBy [OF o]
    by (rule comparator_order.sortBy_idem [OF o])
qed

lemma sortEntries_idem:
  assumes "consistentHost h"
  shows "sortEntries h (sortEntries h es) = sortEntries h es"
  using assms unfolding consistentHost_def sortEntries_def
  by (intro comparator_order.sortBy_idem comparator_orderLe)

lemma set_sortEntries [simp]: "set (sortEntries h es) = set es"
  by (simp add: sortEntries_def)

lemma projectEntries_status: "e \<in> set (projectEntries h keep rows) \<Longrightarrow> keep (qp_status e)"
  by (auto simp: projectEntries_alt)

section \<open>Tombstones\<close>

text \<open>
  Within an epoch the entries of delivered messages stay out: the live list never shows an
  entry whose tombstone is present, and only a reset or a change of epoch drops tombstones.
\<close>

definition delivered :: "reducerState \<Rightarrow> string \<Rightarrow> string \<Rightarrow> bool" where
  "delivered c epoch i \<longleftrightarrow> mapHas (rd_deliveredTombstones c) (tombstoneKey epoch i)"

definition reducerInv :: "reducerState \<Rightarrow> bool" where
  "reducerInv c \<longleftrightarrow> (\<forall>e\<in>set (rd_pendingMessageEntries c). isLiveStatus (qp_status e)
       \<and> (\<exists>epoch. rd_queueEpoch c = Some epoch \<and> \<not> delivered c epoch (qp_clientMessageId e)))
     \<and> (\<forall>e\<in>set (rd_failedMessageEntries c). isFailedStatus (qp_status e))"

lemma tombstoneKey_inj [simp]: "tombstoneKey ep i = tombstoneKey ep j \<longleftrightarrow> i = j"
  by (simp add: tombstoneKey_def)

lemma reducerInv_create [inv_intros]: "reducerInv (createTransportQueueReducerState n)"
  by (simp add: reducerInv_def createTransportQueueReducerState_def)

lemma withDegraded_simps [simp]:
  "rd_pendingMessageEntries (withDegraded c r) = rd_pendingMessageEntries c"
  "rd_failedMessageEntries (withDegraded c r) = rd_failedMessageEntries c"
  "rd_queueEpoch (withDegraded c r) = rd_queueEpoch c"
  "rd_queueAuthorityId (withDegraded c r) = rd_queueAuthorityId c"
  "rd_pendingMessageVersion (withDegraded c r) = rd_pendingMessageVersion c"
  "rd_deliveredTombstones (withDegraded c r) = rd_deliveredTombstones c"
  "delivered (withDegraded c r) = delivered c"
  "hasBaseline (withDegraded c r) = hasBaseline c"
  "reducerInv (withDegraded c r) = reducerInv c"
  by (simp_all add: withDegraded_def delivered_def [abs_def] hasBaseline_def reducerInv_def)

lemma mapHas_set [simp]: "mapHas (mapSet m k v) k' \<longleftrightarrow> k' = k \<or> mapHas m k'"
  by (simp add: mapHas_iff)

lemma reduce_inv [inv_intros]:
  assumes "reducerInv c"
  shows "reducerInv (reduceTransportQueueEvent h c ev)"
proof (cases ev)
  case (QSnapshot s)
  then show ?thesis
    using assms by (auto simp: applySnapshot_def Let_def reducerInv_def delivered_def split: option.split)
next
  case (QDelivery d)
  have "df_clientMessageId d = i" if "tombstoneKey ep (df_clientMessageId d) = tombstoneKey ep i" for ep i
    using that by simp
  then show ?thesis
    using assms QDelivery by (fastforce simp: applyDelivery_def reducerInv_def delivered_def)
next
  case (QReceipt r)
  then show ?thesis using assms by (simp add: reducerInv_def delivered_def)
next
  case (QFailure f)
  then show ?thesis using assms by (auto simp: applyFailure_def reducerInv_def delivered_def)
next
  case (QReset r)
  then show ?thesis using assms by (simp add: applyReset_def reducerInv_def split: option.split)
qed

lemma reduceEvents_inv: "reducerInv c \<Longrightarrow> reducerInv (reduceEvents h c evs)"
  by (induction evs arbitrary: c) (simp_all add: reduceEvents_def reduce_inv)

text \<open>Events that keep a client inside epoch \<open>ep\<close>.\<close>

fun staysIn :: "string \<Rightarrow> queueEvent \<Rightarrow> bool" where
  "staysIn ep (QSnapshot s) = (sn_queueEpoch s = ep)"
| "staysIn ep (QReset r) = False"
| "staysIn ep _ = True"

lemma staysIn_step:
  assumes "staysIn ep ev" and "rd_queueEpoch c = Some ep"
  shows "rd_queueEpoch (reduceTransportQueueEvent h c ev) = Some ep"
    and "delivered c ep i \<Longrightarrow> delivered (reduceTransportQueueEvent h c ev) ep i"
  using assms
  by (cases ev; auto simp: applySnapshot_def applyDelivery_def applyFailure_def Let_def delivered_def
      split: option.split)+

lemma staysIn_events:
  assumes "list_all (staysIn ep) evs" and "rd_queueEpoch c = Some ep" and "delivered c ep i"
  shows "rd_queueEpoch (reduceEvents h c evs) = Some ep \<and> delivered (reduceEvents h c evs) ep i"
  using assms
proof (induction evs arbitrary: c)
  case (Cons ev evs)
  then show ?case
    using staysIn_step [where c = c and h = h and ev = ev and ep = ep] by (simp add: reduceEvents_def)
qed (simp add: reduceEvents_def)

lemma delivered_hidden:
  assumes "reducerInv c" and "rd_queueEpoch c = Some ep" and "delivered c ep i"
  shows "i \<notin> qp_clientMessageId ` set (rd_pendingMessageEntries c)"
  using assms by (auto simp: reducerInv_def)

section \<open>Versions\<close>

text \<open>The events the wire validation lets through carry finite versions.\<close>

fun finiteVersion :: "queueEvent \<Rightarrow> bool" where
  "finiteVersion (QSnapshot s) = numFinite (sn_pendingMessageVersion s)"
| "finiteVersion (QDelivery d) = numFinite (df_pendingMessageVersion d)"
| "finiteVersion (QReceipt r) = True"
| "finiteVersion (QFailure f) = numFinite (fd_pendingMessageVersion f)"
| "finiteVersion (QReset r) = numFinite (rs_pendingMessageVersion r)"

definition versionAtLeast :: "rat \<Rightarrow> reducerState \<Rightarrow> bool" where
  "versionAtLeast v c \<longleftrightarrow> (\<exists>w. rd_pendingMessageVersion c = Some (Num w) \<and> v \<le> w)"

lemma canApply_same_epoch:
  assumes "canApplySnapshot c ep au v rr = None" and "hasBaseline c" and "rd_queueEpoch c = Some ep"
    and "rd_pendingMessageVersion c = Some (Num w)"
  shows "\<exists>v'. v = Num v' \<and> w \<le> v'"
  using assms by (auto simp: canApplySnapshot_def split: if_splits elim!: numFiniteE)

lemma versionAtLeast_step:
  assumes "finiteVersion ev" and "hasBaseline c" and "versionAtLeast v c"
    and "rd_queueEpoch c = Some ep" and "rd_queueEpoch (reduceTransportQueueEvent h c ev) = Some ep"
  shows "versionAtLeast v (reduceTransportQueueEvent h c ev)"
proof (cases ev)
  case (QSnapshot s)
  show ?thesis
  proof (cases "canApplySnapshot c (sn_queueEpoch s) (sn_queueAuthorityId s) (sn_pendingMessageVersion s) (sn_resetReason s)")
    case None
    with QSnapshot assms(5) have "sn_queueEpoch s = ep" by (simp add: applySnapshot_def Let_def)
    then show ?thesis
      using None canApply_same_epoch [OF _ assms(2,4)] assms(3) QSnapshot
      by (fastforce simp: versionAtLeast_def applySnapshot_def Let_def)
  next
    case (Some r)
    then show ?thesis using QSnapshot assms(3) by (simp add: applySnapshot_def versionAtLeast_def)
  qed
next
  case (QReset r)
  show ?thesis
  proof (cases "canApplySnapshot c (rs_queueEpoch r) (rs_queueAuthorityId r) (rs_pendingMessageVersion r) (Some (rs_resetReason r))")
    case None
    with QReset assms(5) have "rs_queueEpoch r = ep" by (simp add: applyReset_def)
    then show ?thesis
      using None canApply_same_epoch [OF _ assms(2,4)] assms(3) QReset
      by (fastforce simp: versionAtLeast_def applyReset_def)
  next
    case (Some x)
    then show ?thesis using QReset assms(3) by (simp add: applyReset_def versionAtLeast_def)
  qed
next
  case (QDelivery d)
  then show ?thesis
    using assms(1,3) by (auto simp: applyDelivery_def versionAtLeast_def elim!: numFiniteE)
next
  case (QFailure f)
  then show ?thesis
    using assms(1,3) by (auto simp: applyFailure_def versionAtLeast_def elim!: numFiniteE)
next
  case (QReceipt r)
  then show ?thesis using assms(3) by (simp add: versionAtLeast_def)
qed

lemma baseline_step: "hasBaseline c \<Longrightarrow> hasBaseline (reduceTransportQueueEvent h c ev)"
proof (cases ev)
  case (QSnapshot s)
  assume "hasBaseline c"
  then show ?thesis
    using QSnapshot by (auto simp: applySnapshot_def Let_def hasBaseline_def canApplySnapshot_def neq_Nil_conv
        split: option.split if_splits)
next
  case (QReset r)
  assume "hasBaseline c"
  then show ?thesis
    using QReset by (auto simp: applyReset_def hasBaseline_def canApplySnapshot_def neq_Nil_conv
        split: option.split if_splits)
qed (auto simp: hasBaseline_def applyDelivery_def applyFailure_def withDegraded_def)

end
