(* ===== verification/QueueEpoch.thy ===== *)
theory QueueEpoch
  imports QueueDelivery
begin

text \<open>
  Every method but the two resets keeps the epoch and authority of a session once they are
  set: the second contract of the store, which the client's convergence rests on.
\<close>

definition epochKept :: "string \<Rightarrow> queueStore \<Rightarrow> queueStore \<Rightarrow> bool" where
  "epochKept s st st' \<longleftrightarrow> (\<forall>m. db_meta (st_db st) s = Some m \<longrightarrow>
     (\<exists>m'. db_meta (st_db st') s = Some m' \<and> qm_queueEpoch m' = qm_queueEpoch m
        \<and> qm_queueAuthorityId m' = qm_queueAuthorityId m))"

lemma epochKept_refl [simp]: "epochKept s st st"
  by (simp add: epochKept_def)

lemma epochKept_db: "st_db st' = st_db st \<Longrightarrow> epochKept s st st'"
  by (simp add: epochKept_def)

lemma epochKept_ensured: "st_db st1 = st_db st \<Longrightarrow> epochKept s st (ensured s now st1)"
  by (simp add: epochKept_def ensureMeta_existing)

lemma epochKept_committed:
  assumes "localChange s change" and "st_db st1 = st_db st"
  shows "epochKept s st (committed s now change st1)"
  using committed_meta [OF assms(1), of now st1] assms(2)
  by (auto simp: epochKept_def ensureMeta_existing bumped_def)

lemma epochKept_trans: "epochKept s a b \<Longrightarrow> epochKept s b c \<Longrightarrow> epochKept s a c"
  by (fastforce simp: epochKept_def)

locale same_epoch =
  fixes run :: "queueStore \<Rightarrow> 'a storeResult" and session :: string
  assumes keeps_epoch: "storeInv st \<Longrightarrow> epochKept session st (snd (run st))"

lemma same_epoch_reject: "(\<And>st. snd (f st) = st) \<Longrightarrow> same_epoch f s"
  by unfold_locales simp

lemma same_epoch_commit:
  assumes "trim s = s" "s \<noteq> []" "localChange s change"
  shows "same_epoch (commitAndRead h s now change src dr) s"
proof
  fix st assume "storeInv st"
  then show "epochKept s st (snd (commitAndRead h s now change src dr st))"
    by (rule commitAndRead_cases [OF assms(1,2) _ assms(3), of st h now src dr])
      (simp_all add: epochKept_committed assms)
qed

lemma same_epoch_withSession:
  assumes "\<And>s. trim s = s \<Longrightarrow> s \<noteq> [] \<Longrightarrow> same_epoch (f s) s"
  shows "same_epoch (withSession n f) (trim n)"
proof
  fix st assume inv: "storeInv st"
  show "epochKept (trim n) st (snd (withSession n f st))"
    using assms [of "trim n"] inv
    by (cases "trim n = []") (simp_all add: withSession_def normalizeSessionName_def same_epoch_def)
qed

lemma same_epoch_withEntry:
  assumes "\<And>s. trim s = s \<Longrightarrow> s \<noteq> [] \<Longrightarrow> trim i \<noteq> [] \<Longrightarrow> same_epoch (f s (trim i)) s"
  shows "same_epoch (withEntry n i f) (trim n)"
proof
  fix st assume inv: "storeInv st"
  show "epochKept (trim n) st (snd (withEntry n i f st))"
    using assms [of "trim n"] inv
    by (cases "trim n = []"; cases "trim i = []")
      (simp_all add: withEntry_def normalizeSessionName_def requireNonEmpty_def same_epoch_def)
qed

lemmas same_epoch_intros = same_epoch_withSession same_epoch_withEntry same_epoch_commit

interpretation edit_epoch: same_epoch "edit h n i text now" "trim n" for h n i text now
  unfolding edit_def by (intro same_epoch_intros localChange_updateRow) (simp_all add: rowKey_def)

interpretation markMissing_epoch: same_epoch "markMissingPrivateMaterialFailed h n i now" "trim n" for h n i now
  unfolding markMissingPrivateMaterialFailed_def
  by (intro same_epoch_intros localChange_failRow) (simp_all add: rowKey_def)

interpretation markDeleted_epoch: same_epoch "markDeleted h n i now" "trim n" for h n i now
  unfolding markDeleted_def by (intro same_epoch_intros localChange_failRow) (simp_all add: rowKey_def)

interpretation markFailed_epoch: same_epoch "markFailed h n i reason now" "trim n" for h n i reason now
  unfolding markFailed_def by (intro same_epoch_intros localChange_updateRow) (simp_all add: rowKey_def)

interpretation dismissFailed_epoch: same_epoch "dismissFailed h n i now" "trim n" for h n i now
  unfolding dismissFailed_def by (intro same_epoch_intros localChange_failRow) (simp_all add: rowKey_def)

interpretation dropEntry_epoch: same_epoch "dropEntry h n i reason now" "trim n" for h n i reason now
  unfolding dropEntry_def by (intro same_epoch_intros localChange_dropRow)

interpretation dropAll_epoch: same_epoch "dropAll h n reason now" "trim n" for h n reason now
  unfolding dropAll_def by (intro same_epoch_intros localChange_remove) (auto simp: rowKey_def)

interpretation restoreHandoffs_epoch: same_epoch "restoreExpiredHandoffs h n now" "trim n" for h n now
  unfolding restoreExpiredHandoffs_def
  by (intro same_epoch_intros localChange_update) (simp_all add: rowKey_def)

interpretation cleanup_epoch: same_epoch "cleanup h n now" "trim n" for h n now
  unfolding cleanup_def by (intro same_epoch_intros localChange_cleanup)

lemma epochKept_enqueued:
  "st_db st1 = st_db st \<Longrightarrow> epochKept s st (enqueuedStore s i evict input now st1)"
  by (auto simp: epochKept_def enqueuedStore_meta ensureMeta_existing bumped_def takeOrdinal_def)

lemma same_epoch_enqueueEvict: "same_epoch (enqueueWithCapacityEviction h input ev dateNow) (trim (eq_sessionName input))"
proof
  fix st assume inv: "storeInv st"
  show "epochKept (trim (eq_sessionName input)) st (snd (enqueueWithCapacityEviction h input ev dateNow st))"
  proof (cases "trim (eq_sessionName input) = []")
    case True
    then show ?thesis by (simp add: enqueue_reject normalizeSessionName_def)
  next
    case False
    then show ?thesis
      by (rule enqueue_cases [OF _ inv, of input h ev dateNow])
        (simp_all add: epochKept_db epochKept_enqueued frame_simps)
  qed
qed

interpretation enqueueEvict_epoch: same_epoch "enqueueWithCapacityEviction h input ev dateNow"
  "trim (eq_sessionName input)" for h input ev dateNow
  by (rule same_epoch_enqueueEvict)

interpretation enqueue_epoch: same_epoch "enqueue h input dateNow" "trim (eq_sessionName input)" for h input dateNow
  using enqueueEvict_epoch.keeps_epoch by unfold_locales (simp add: enqueue_snd)

interpretation retry_epoch: same_epoch "retry h n failed input dateNow" "trim n" for h n failed input dateNow
proof
  fix st assume inv: "storeInv st"
  show "epochKept (trim n) st (snd (retry h n failed input dateNow st))"
    using enqueue_epoch.keeps_epoch [OF inv, of
        "input\<lparr>eq_sessionName := trim n, eq_replacesClientMessageId := Some (trim failed)\<rparr>" h dateNow]
    by (cases "trim n = []"; cases "trim failed = []")
      (simp_all add: retry_def normalizeSessionName_def requireNonEmpty_def)
qed

interpretation handoff_epoch: same_epoch "markHandoffInFlight n ids lease now" "trim n" for n ids lease now
proof
  fix st assume inv: "storeInv st"
  show "epochKept (trim n) st (snd (markHandoffInFlight n ids lease now st))"
    by (rule handoff_cases [OF inv, of n ids lease now])
      (simp_all add: epochKept_db epochKept_committed localChange_handoff)
qed

interpretation finalize_epoch: same_epoch "finalizeSentBatch h n inputs frame now" "trim n" for h n inputs frame now
proof
  fix st assume inv: "storeInv st"
  show "epochKept (trim n) st (snd (finalizeSentBatch h n inputs frame now st))"
    by (rule finalize_cases [OF inv, of h n inputs frame now])
      (simp_all add: epochKept_db epochKept_ensured finalizedStore_def epochKept_committed localChange_finalize)
qed

interpretation readSnapshotSafely_epoch: same_epoch "readSnapshotSafely h n src now" "trim n" for h n src now
proof
  fix st assume inv: "storeInv st"
  show "epochKept (trim n) st (snd (readSnapshotSafely h n src now st))"
    using readSnapshotSafely_state [OF inv, of h n src now] epochKept_ensured [of st st "trim n" now] by auto
qed

end
