(* ===== verification/QueueMachine.thy ===== *)
theory QueueMachine
  imports QueueReducer QueueEpoch
begin

text \<open>
  The store as a state machine: one rule per public method, labelled by the snapshot it
  answers with, and a rule for the database becoming unusable or usable again. Reachability,
  the invariants over it, and the convergence of a client that receives the snapshots of a
  session in any order.
\<close>

section \<open>Steps\<close>

fun answerOf :: "storeError + queueSnapshot \<Rightarrow> queueSnapshot option" where
  "answerOf (Inl e) = None"
| "answerOf (Inr s) = Some s"

text \<open>
  \<open>storeStep h s r st out st'\<close>: a method called on session \<open>s\<close> takes \<open>st\<close> to \<open>st'\<close>
  and answers with \<open>out\<close>; \<open>r\<close> marks the two resets, which start a new epoch.
\<close>

inductive storeStep :: "jsHost \<Rightarrow> string \<Rightarrow> bool \<Rightarrow> queueStore \<Rightarrow> queueSnapshot option \<Rightarrow> queueStore \<Rightarrow> bool"
  for h where
  step_enqueueEvict: "storeStep h (trim (eq_sessionName input)) False st None
     (snd (enqueueWithCapacityEviction h input ev dateNow st))"
| step_enqueue: "storeStep h (trim (eq_sessionName input)) False st
     (answerOf (fst (enqueue h input dateNow st))) (snd (enqueue h input dateNow st))"
| step_retry: "storeStep h (trim n) False st
     (answerOf (fst (retry h n failed input dateNow st))) (snd (retry h n failed input dateNow st))"
| step_edit: "storeStep h (trim n) False st
     (answerOf (fst (edit h n i txt now st))) (snd (edit h n i txt now st))"
| step_markMissing: "storeStep h (trim n) False st
     (answerOf (fst (markMissingPrivateMaterialFailed h n i now st)))
     (snd (markMissingPrivateMaterialFailed h n i now st))"
| step_markDeleted: "storeStep h (trim n) False st
     (answerOf (fst (markDeleted h n i now st))) (snd (markDeleted h n i now st))"
| step_markFailed: "storeStep h (trim n) False st
     (answerOf (fst (markFailed h n i reason now st))) (snd (markFailed h n i reason now st))"
| step_dismissFailed: "storeStep h (trim n) False st
     (answerOf (fst (dismissFailed h n i now st))) (snd (dismissFailed h n i now st))"
| step_cleanup: "storeStep h (trim n) False st
     (answerOf (fst (cleanup h n now st))) (snd (cleanup h n now st))"
| step_drop: "storeStep h (trim n) False st
     (answerOf (fst (dropEntry h n i dreason now st))) (snd (dropEntry h n i dreason now st))"
| step_dropAll: "storeStep h (trim n) False st
     (answerOf (fst (dropAll h n dreason now st))) (snd (dropAll h n dreason now st))"
| step_restore: "storeStep h (trim n) False st
     (answerOf (fst (restoreExpiredHandoffs h n now st))) (snd (restoreExpiredHandoffs h n now st))"
| step_handoff: "storeStep h (trim n) False st None (snd (markHandoffInFlight n ids lease now st))"
| step_finalize: "storeStep h (trim n) False st
     (answerOf (map_sum id fst (fst (finalizeSentBatch h n inputs frame now st))))
     (snd (finalizeSentBatch h n inputs frame now st))"
| step_read: "storeStep h (trim n) False st None (snd (readSnapshotSafely h n src now st))"
| step_material: "storeStep h (trim n) False st None (snd (readPrivateDispatchMaterial n i st))"
| step_tombstone: "storeStep h (trim n) False st None (snd (hasDeliveryTombstone n i st))"
| step_reset: "storeStep h (trim n) True st
     (answerOf (fst (reset h n rreason now ag st))) (snd (reset h n rreason now ag st))"
| step_reinitialize: "storeStep h (trim n) True st
     (answerOf (fst (reinitializeAfterCorruption h n now ag st)))
     (snd (reinitializeAfterCorruption h n now ag st))"
| step_fault: "storeStep h s False st None (st\<lparr>st_fault := f\<rparr>)"

inductive_cases storeStepE: "storeStep h s r st out st'"

lemmas operations_keep_inv [inv_intros] =
  enqueueEvict.keeps_inv enqueue.keeps_inv retry.keeps_inv edit.keeps_inv markMissing.keeps_inv
  markDeleted.keeps_inv markFailed.keeps_inv dismissFailed.keeps_inv cleanup.keeps_inv
  dropEntry.keeps_inv dropAll.keeps_inv restoreHandoffs.keeps_inv handoff.keeps_inv
  finalize.keeps_inv readSnapshotSafely.keeps_inv readPrivateDispatchMaterial.keeps_inv
  hasDeliveryTombstone.keeps_inv reset.keeps_inv reinitialize.keeps_inv

lemmas operations_isolated =
  enqueueEvict.isolated enqueue.isolated retry.isolated edit.isolated markMissing.isolated
  markDeleted.isolated markFailed.isolated dismissFailed.isolated cleanup.isolated
  dropEntry.isolated dropAll.isolated restoreHandoffs.isolated handoff.isolated
  finalize.isolated readSnapshotSafely.isolated readPrivateDispatchMaterial.isolated
  hasDeliveryTombstone.isolated reset.isolated reinitialize.isolated

lemmas operations_versioned =
  enqueueEvict.versioned enqueue.versioned retry.versioned edit.versioned markMissing.versioned
  markDeleted.versioned markFailed.versioned dismissFailed.versioned cleanup.versioned
  dropEntry.versioned dropAll.versioned restoreHandoffs.versioned handoff.versioned
  finalize.versioned readSnapshotSafely.versioned readPrivateDispatchMaterial.versioned
  hasDeliveryTombstone.versioned reset.versioned reinitialize.versioned

lemma storeInv_fault [simp]: "storeInv (st\<lparr>st_fault := f\<rparr>) = storeInv st"
  by (simp add: storeInv_def issued_def)

lemma versionStep_fault [simp]: "versionStep s st (st\<lparr>st_fault := f\<rparr>)"
  by (rule versionStep_db) simp

lemma storeStep_inv: "storeStep h s r st out st' \<Longrightarrow> storeInv st \<Longrightarrow> storeInv st'"
  by (induction rule: storeStep.induct) (simp_all add: operations_keep_inv)

lemma storeStep_isolated:
  "storeStep h s r st out st' \<Longrightarrow> storeInv st \<Longrightarrow> s' \<noteq> s \<Longrightarrow>
     sessionView s' (st_db st') = sessionView s' (st_db st)"
  by (induction rule: storeStep.induct) (simp_all add: operations_isolated)

lemma storeStep_versioned: "storeStep h s r st out st' \<Longrightarrow> storeInv st \<Longrightarrow> versionStep s st st'"
  by (induction rule: storeStep.induct) (simp_all add: operations_versioned)

lemma storeStep_epoch:
  "storeStep h s r st out st' \<Longrightarrow> \<not> r \<Longrightarrow> storeInv st \<Longrightarrow> epochKept s st st'"
  by (induction rule: storeStep.induct)
    (simp_all add: edit_epoch.keeps_epoch markMissing_epoch.keeps_epoch markDeleted_epoch.keeps_epoch
      markFailed_epoch.keeps_epoch dismissFailed_epoch.keeps_epoch dropEntry_epoch.keeps_epoch
      dropAll_epoch.keeps_epoch restoreHandoffs_epoch.keeps_epoch cleanup_epoch.keeps_epoch
      enqueueEvict_epoch.keeps_epoch enqueue_epoch.keeps_epoch retry_epoch.keeps_epoch
      handoff_epoch.keeps_epoch finalize_epoch.keeps_epoch readSnapshotSafely_epoch.keeps_epoch
      same_epoch.keeps_epoch [OF same_epoch_reject] epochKept_db
      readPrivateDispatchMaterial_def hasDeliveryTombstone_def withEntry_def split: sum.split option.split)

lemma answerOf_Some [simp]: "answerOf x = Some s \<longleftrightarrow> x = Inr s" "Some s = answerOf x \<longleftrightarrow> x = Inr s"
  by (cases x; auto)+

lemma finalize_faithful:
  assumes "storeInv st" and "fst (finalizeSentBatch h n inputs frame now st) = Inr p"
  shows "faithful h (trim n) (snd (finalizeSentBatch h n inputs frame now st)) (fst p)"
  by (rule finalize_cases [OF assms(1), of h n inputs frame now]) (use assms(2) in auto)

lemma storeStep_faithful:
  assumes "storeStep h s r st (Some snap) st'" and "storeInv st"
  shows "faithful h s st' snap"
  using assms(1)
  by (cases rule: storeStep.cases)
    (auto simp: map_sum_cases intro!: enqueue.answers retry.answers edit.answers markMissing.answers
      markDeleted.answers markFailed.answers dismissFailed.answers cleanup.answers dropEntry.answers
      dropAll.answers restoreHandoffs.answers reset.answers reinitialize.answers assms(2)
      dest!: finalize_faithful [OF assms(2)])

section \<open>What a client sees of a run\<close>

text \<open>The rows of a session as the client is shown them.\<close>

definition shownRows :: "jsHost \<Rightarrow> (queueEntryStatus \<Rightarrow> bool) \<Rightarrow> string \<Rightarrow> queueStore
    \<Rightarrow> queueProjectionEntry list" where
  "shownRows h keep s st = projectEntries h keep (storedRows s (st_db st))"

lemma project_storedEntry: "buildQueueProjectionEntry (storedEntry m r) = buildQueueProjectionEntry (storedEntry m' r)"
  by (simp add: buildQueueProjectionEntry_def storedEntry_def)

lemma projectEntries_rows:
  "projectEntries h keep (map (storedEntry m) rows) =
     map (\<lambda>r. buildQueueProjectionEntry (storedEntry m r))
       (sortBy (\<lambda>a b. orderLe (collateLe h) (rowOrderKey a) (rowOrderKey b)) (filter (\<lambda>r. keep (er_status r)) rows))"
proof -
  have "qs_status (storedEntry m r) = er_status r" for r by (simp add: storedEntry_def)
  then have "filter (\<lambda>e. keep (qs_status e)) (map (storedEntry m) rows)
      = map (storedEntry m) (filter (\<lambda>r. keep (er_status r)) rows)"
    by (simp add: filter_map o_def)
  moreover have "storedOrderKey (storedEntry m r) = rowOrderKey r" for r
    by (simp add: storedOrderKey_def rowOrderKey_def storedEntry_def)
  ultimately show ?thesis
    unfolding projectEntries_def
    by (simp add: sortBy_map [where le = "\<lambda>a b. orderLe (collateLe h) (rowOrderKey a) (rowOrderKey b)"] o_def)
qed

lemma shownRows_cong:
  assumes "dbInv (st_db st)" "dbInv (st_db st')" "sessionRows s (st_db st) = sessionRows s (st_db st')"
  shows "shownRows h keep s st = shownRows h keep s st'"
proof -
  have none: "sessionRows s db = []" if "dbInv db" "db_meta db s = None" for db
    using that dbInvD(3) [OF that(1)] by (fastforce simp: sessionRows_def rowFits_def filter_empty_conv)
  have sorted: "sortedRows s (st_db st) = sortedRows s (st_db st')"
    using assms(3) by (simp add: sortedRows_def)
  have empty: "storedRows s db = map (storedEntry m) []" if "dbInv db" "sessionRows s db = []" for db m
    using that by (simp add: storedRows_def sortedRows_def split: option.split)
  show ?thesis
  proof (cases "db_meta (st_db st) s = None \<or> db_meta (st_db st') s = None")
    case True
    then have "sessionRows s (st_db st) = []" "sessionRows s (st_db st') = []"
      using none assms by auto
    then show ?thesis using empty assms by (simp add: shownRows_def)
  next
    case False
    then show ?thesis
      using sorted project_storedEntry by (auto simp: shownRows_def storedRows_def projectEntries_rows)
  qed
qed

lemma faithful_shown:
  assumes "faithful h s st snap"
  shows "sn_pendingMessageVersion snap = numOf (versionOf s st)"
    and "sn_pendingMessageEntries snap = shownRows h isLiveStatus s st"
    and "sn_failedMessageEntries snap = shownRows h isFailedStatus s st"
  using assms by (auto simp: faithful_def shownRows_def versionOf_def)

text \<open>
  A run of the store that does not reset session \<open>s\<close>, with the snapshots of \<open>s\<close> it
  answered with, oldest first. Other sessions do what they like.
\<close>

inductive storeRun :: "jsHost \<Rightarrow> string \<Rightarrow> queueStore \<Rightarrow> queueSnapshot list \<Rightarrow> queueStore \<Rightarrow> bool"
  for h s where
  run_start: "storeRun h s st [] st"
| run_own: "storeRun h s st outs st' \<Longrightarrow> storeStep h s False st' out st'' \<Longrightarrow>
     storeRun h s st (outs @ (case out of None \<Rightarrow> [] | Some x \<Rightarrow> [x])) st''"
| run_other: "storeRun h s st outs st' \<Longrightarrow> storeStep h s' r st' out st'' \<Longrightarrow> s' \<noteq> s \<Longrightarrow>
     storeRun h s st outs st''"

text \<open>Snapshots of one version show the same lists, and the lists are projections of rows.\<close>

definition sameContent :: "queueSnapshot \<Rightarrow> queueSnapshot \<Rightarrow> bool" where
  "sameContent x y \<longleftrightarrow> (sn_pendingMessageVersion x = sn_pendingMessageVersion y \<longrightarrow>
     sn_pendingMessageEntries x = sn_pendingMessageEntries y \<and> sn_failedMessageEntries x = sn_failedMessageEntries y)"

definition projected :: "jsHost \<Rightarrow> queueSnapshot \<Rightarrow> bool" where
  "projected h x \<longleftrightarrow> (\<exists>rows. sn_pendingMessageEntries x = projectEntries h isLiveStatus rows)
     \<and> (\<exists>rows. sn_failedMessageEntries x = projectEntries h isFailedStatus rows)"

definition emittedOne :: "jsHost \<Rightarrow> string \<Rightarrow> queueStore \<Rightarrow> queueSnapshot \<Rightarrow> bool" where
  "emittedOne h s st x \<longleftrightarrow> projected h x
     \<and> (\<exists>m. db_meta (st_db st) s = Some m \<and> sn_queueEpoch x = qm_queueEpoch m \<and> sn_queueAuthorityId x = qm_queueAuthorityId m)
     \<and> (\<exists>v. sn_pendingMessageVersion x = numOf v \<and> v \<le> versionOf s st
          \<and> (v = versionOf s st \<longrightarrow> sn_pendingMessageEntries x = shownRows h isLiveStatus s st
               \<and> sn_failedMessageEntries x = shownRows h isFailedStatus s st))"

definition emittedOk :: "jsHost \<Rightarrow> string \<Rightarrow> queueStore \<Rightarrow> queueSnapshot list \<Rightarrow> bool" where
  "emittedOk h s st outs \<longleftrightarrow> (\<forall>x\<in>set outs. emittedOne h s st x \<and> (\<forall>y\<in>set outs. sameContent x y))"

lemma sameContent_sym: "sameContent x y \<Longrightarrow> sameContent y x"
  by (auto simp: sameContent_def)

lemma sameContent_refl [simp]: "sameContent x x"
  by (simp add: sameContent_def)

lemma emittedOk_step:
  assumes ok: "emittedOk h s st outs" and inv: "dbInv (st_db st)" "dbInv (st_db st')"
    and epoch: "epochKept s st st'" and ver: "versionStep s st st'"
  shows "emittedOk h s st' outs"
proof -
  have "emittedOne h s st' x" if "emittedOne h s st x" for x
    using that epoch ver shownRows_cong [OF inv, of s h]
    by (fastforce simp: emittedOne_def epochKept_def versionStep_def)
  then show ?thesis
    using ok by (simp add: emittedOk_def)
qed

lemma emittedOk_emit:
  assumes "emittedOk h s st outs" and f: "faithful h s st snap"
  shows "emittedOk h s st (outs @ [snap])"
proof -
  have one: "emittedOne h s st snap"
    using f faithful_shown [OF f] by (auto simp: emittedOne_def projected_def shownRows_def faithful_def)
  have "sameContent x snap" if "emittedOne h s st x" for x
    using that faithful_shown [OF f] by (auto simp: sameContent_def emittedOne_def)
  then show ?thesis
    using assms(1) one by (auto simp: emittedOk_def intro: sameContent_sym)
qed

lemma storeRun_ok:
  "storeRun h s st outs st' \<Longrightarrow> storeInv st \<Longrightarrow> storeInv st' \<and> emittedOk h s st' outs"
proof (induction rule: storeRun.induct)
  case (run_start st)
  then show ?case by (simp add: emittedOk_def)
next
  case (run_own st outs st' out st'')
  then have inv: "storeInv st'" "storeInv st''" "emittedOk h s st' outs"
    using storeStep_inv by auto
  have "emittedOk h s st'' outs"
    using emittedOk_step [OF inv(3)] inv storeStep_epoch [OF run_own.hyps(2)] storeStep_versioned [OF run_own.hyps(2)]
    by auto
  then show ?case
    using inv storeStep_faithful [of h s False st' _ st''] run_own.hyps(2) emittedOk_emit by (cases out) auto
next
  case (run_other st outs st' s' r out st'')
  then have inv: "storeInv st'" "storeInv st''" "emittedOk h s st' outs"
    using storeStep_inv by auto
  have view: "sessionView s (st_db st'') = sessionView s (st_db st')"
    using storeStep_isolated [OF run_other.hyps(2) inv(1)] run_other.hyps(3) by simp
  then have "epochKept s st' st''" "versionStep s st' st''"
    by (auto simp: epochKept_def versionStep_def versionOf_def sessionView_eq)
  then show ?case using emittedOk_step [OF inv(3)] inv by auto
qed

section \<open>Convergence of the client\<close>

definition agreed :: "string \<Rightarrow> string \<Rightarrow> queueSnapshot list \<Rightarrow> jsHost \<Rightarrow> bool" where
  "agreed ep au xs h \<longleftrightarrow> ep \<noteq> [] \<and> au \<noteq> [] \<and> (\<forall>x\<in>set xs. sn_queueEpoch x = ep \<and> sn_queueAuthorityId x = au
     \<and> (\<exists>v. sn_pendingMessageVersion x = numOf v) \<and> projected h x)"

lemma agreed_version: "agreed ep au xs h \<Longrightarrow> x \<in> set xs \<Longrightarrow> \<exists>v. sn_pendingMessageVersion x = numOf v"
  by (simp add: agreed_def)

text \<open>The client holds snapshot \<open>x\<close>, and nothing was delivered behind its back.\<close>

definition holds :: "reducerState \<Rightarrow> queueSnapshot \<Rightarrow> bool" where
  "holds c x \<longleftrightarrow> rd_queueEpoch c = Some (sn_queueEpoch x) \<and> rd_queueAuthorityId c = Some (sn_queueAuthorityId x)
     \<and> rd_pendingMessageVersion c = Some (sn_pendingMessageVersion x)
     \<and> rd_pendingMessageEntries c = sn_pendingMessageEntries x
     \<and> rd_failedMessageEntries c = sn_failedMessageEntries x \<and> rd_deliveredTombstones c = []"

lemma sortEntries_kept:
  assumes "consistentHost h" "xs = projectEntries h keep rows"
  shows "sortEntries h (filter (\<lambda>e. keep (qp_status e)) xs) = xs"
proof -
  have "filter (\<lambda>e. keep (qp_status e)) xs = xs"
    using projectEntries_status assms(2) by (auto simp: filter_id_conv)
  then show ?thesis
    using sortEntries_project [OF assms(1), of "\<lambda>_. True" keep rows] assms(2) by simp
qed

lemma apply_accepted:
  assumes "consistentHost h" "agreed ep au xs h" "x \<in> set xs" "rd_deliveredTombstones c = []"
    and "canApplySnapshot c ep au (sn_pendingMessageVersion x) (sn_resetReason x) = None"
  shows "holds (applySnapshot h c x) x"
proof -
  from assms(2,3) obtain rows rows' where x: "sn_queueEpoch x = ep" "sn_queueAuthorityId x = au"
      "sn_pendingMessageEntries x = projectEntries h isLiveStatus rows"
      "sn_failedMessageEntries x = projectEntries h isFailedStatus rows'"
    unfolding agreed_def projected_def by blast
  show ?thesis
    using sortEntries_kept [OF assms(1) x(3)] sortEntries_kept [OF assms(1) x(4)] assms(4,5) x(1,2)
    by (simp add: applySnapshot_def holds_def Let_def)
qed

lemma converge_snapshots:
  assumes h: "consistentHost h" and ag: "agreed ep au xs h" and ne: "xs \<noteq> []"
  shows "\<exists>x\<in>set xs. holds (reduceEvents h (createTransportQueueReducerState n) (map QSnapshot xs)) x
    \<and> (\<forall>y\<in>set xs. numLeq (sn_pendingMessageVersion y) (sn_pendingMessageVersion x))"
  using ag ne
proof (induction xs rule: rev_induct)
  case (snoc x xs)
  let ?c = "reduceEvents h (createTransportQueueReducerState n) (map QSnapshot xs)"
  have step: "reduceEvents h (createTransportQueueReducerState n) (map QSnapshot (xs @ [x])) = applySnapshot h ?c x"
    by (simp add: reduceEvents_def)
  obtain v where v: "sn_pendingMessageVersion x = numOf v" "sn_queueEpoch x = ep" "sn_queueAuthorityId x = au" "ep \<noteq> []" "au \<noteq> []"
    using snoc.prems(1) unfolding agreed_def by auto
  show ?case
  proof (cases "xs = []")
    case True
    have "canApplySnapshot ?c ep au (sn_pendingMessageVersion x) (sn_resetReason x) = None"
      using True v by (simp add: canApplySnapshot_def reduceEvents_def createTransportQueueReducerState_def hasBaseline_def)
    then have "holds (applySnapshot h ?c x) x"
      using snoc.prems(1) True by (intro apply_accepted [OF h, of ep au "xs @ [x]"])
        (simp_all add: reduceEvents_def createTransportQueueReducerState_def)
    then show ?thesis using True step v by (simp add: numLeq_def numEq_def)
  next
    case False
    have "agreed ep au xs h" using snoc.prems(1) unfolding agreed_def by auto
    then obtain y where y: "y \<in> set xs" "holds ?c y"
        "\<forall>z\<in>set xs. numLeq (sn_pendingMessageVersion z) (sn_pendingMessageVersion y)"
      using snoc.IH False by blast
    then obtain w where w: "sn_pendingMessageVersion y = numOf w" "sn_queueEpoch y = ep" "sn_queueAuthorityId y = au"
      using snoc.prems(1) unfolding agreed_def by auto
    have base: "hasBaseline ?c"
      using y(2) w v(4,5) by (auto simp: hasBaseline_def holds_def neq_Nil_conv)
    show ?thesis
    proof (cases "v < w")
      case True
      then have "applySnapshot h ?c x = withDegraded ?c ''stale_version''"
        using y(2) w v base by (simp add: applySnapshot_def canApplySnapshot_def holds_def)
      then have "holds (applySnapshot h ?c x) y" using y(2) by (simp add: holds_def)
      moreover have "\<forall>z\<in>set (xs @ [x]). numLeq (sn_pendingMessageVersion z) (sn_pendingMessageVersion y)"
        using y(3) True w(1) v(1) by (simp add: numLeq_def)
      moreover have "y \<in> set (xs @ [x])" using y(1) by simp
      ultimately show ?thesis unfolding step by blast
    next
      case le: False
      then have "canApplySnapshot ?c ep au (sn_pendingMessageVersion x) (sn_resetReason x) = None"
        using y(2) w v base by (simp add: canApplySnapshot_def holds_def)
      moreover have "rd_deliveredTombstones ?c = []" using y(2) by (simp add: holds_def)
      ultimately have "holds (applySnapshot h ?c x) x"
        using snoc.prems(1) by (intro apply_accepted [OF h, of ep au "xs @ [x]"]) simp_all
      moreover have "numLeq (sn_pendingMessageVersion z) (sn_pendingMessageVersion x)" if z: "z \<in> set (xs @ [x])" for z
      proof -
        obtain u where u: "sn_pendingMessageVersion z = numOf u"
          using agreed_version [OF snoc.prems(1) z] by blast
        have "numLeq (sn_pendingMessageVersion z) (sn_pendingMessageVersion y) \<or> z = x"
          using z y(3) by (simp only: set_append list.set Un_iff insert_iff empty_iff) blast
        then have "u \<le> w \<or> z = x"
          unfolding u w(1) by (auto simp: numLeq_def numEq_def)
        then have "u \<le> v"
          using le v(1) u by (elim disjE) simp_all
        then show ?thesis
          unfolding u v(1) by (auto simp: numLeq_def numEq_def)
      qed
      moreover have "x \<in> set (xs @ [x])" by simp
      ultimately show ?thesis unfolding step by blast
    qed
  qed
qed simp

end
