(* ===== verification/QueueOrder.thy ===== *)
theory QueueOrder
  imports QueueMachine
begin

text \<open>
  The lists a session shows, computed from its rows: unique ordinals make every sort of them
  agree, so enqueue appends within the entry's placement group and the other operations filter.
\<close>

section \<open>Sorting rows with unique ordinals\<close>

abbreviation rowLe :: "jsHost \<Rightarrow> queueRow \<Rightarrow> queueRow \<Rightarrow> bool" where
  "rowLe h a b \<equiv> orderLe (collateLe h) (rowOrderKey a) (rowOrderKey b)"

lemma comparator_rowLe: "consistentHost h \<Longrightarrow> comparator_order (rowLe h)"
  unfolding consistentHost_def by (rule comparator_orderLe)

lemma insortBy_snoc: "le y x \<Longrightarrow> insortBy le y (zs @ [x]) = insortBy le y zs @ [x]"
  by (induction zs) auto

lemma sortBy_snoc: "(\<And>y. y \<in> set ys \<Longrightarrow> le y x) \<Longrightarrow> sortBy le (ys @ [x]) = sortBy le ys @ [x]"
  by (induction ys) (simp_all add: sortBy_Cons insortBy_snoc)

lemma sortBy_append:
  assumes "\<And>x y. x \<in> set xs \<Longrightarrow> y \<in> set ys \<Longrightarrow> le x y"
  shows "sortBy le (xs @ ys) = sortBy le xs @ sortBy le ys"
proof -
  have "insortBy le x (as @ bs) = insortBy le x as @ bs" if "\<forall>b\<in>set bs. le x b" for x as bs
    using that by (induction as) (cases bs; simp)+
  then show ?thesis
    using assms by (induction xs) (simp_all add: sortBy_Cons)
qed

lemma rowLe_antisym:
  assumes "rowLe h a b" "rowLe h b a"
  shows "er_ordinal a = er_ordinal b"
  using assms by (auto simp: rowOrderKey_def split: if_splits)

lemma slots_inj:
  assumes "dbInv db" "a \<in> set (sessionRows s db)" "b \<in> set (sessionRows s db)" "er_ordinal a = er_ordinal b"
  shows "a = b"
  using assms dbInvD(2) [OF assms(1)]
  by (auto simp: sessionRows_def rowSlot_def distinct_map inj_on_def)

lemma sort_rows_perm:
  assumes h: "consistentHost h" and inv: "dbInv db" and m: "mset xs = mset ys"
    and sub: "set xs \<subseteq> set (sessionRows s db)"
  shows "sortBy (rowLe h) xs = sortBy (rowLe h) ys"
proof (rule sorted_wrt_mset_unique)
  show "sorted_wrt (rowLe h) (sortBy (rowLe h) xs)" "sorted_wrt (rowLe h) (sortBy (rowLe h) ys)"
    by (rule comparator_order.sorted_sortBy [OF comparator_rowLe [OF h]])+
  show "mset (sortBy (rowLe h) xs) = mset (sortBy (rowLe h) ys)" using m by simp
  show "a = b" if "a \<in> set (sortBy (rowLe h) xs)" "b \<in> set (sortBy (rowLe h) xs)" "rowLe h a b" "rowLe h b a" for a b
    using that sub slots_inj [OF inv, of a s b] rowLe_antisym [OF that(3,4)] by auto
qed

definition showRow :: "queueRow \<Rightarrow> queueProjectionEntry" where
  "showRow r = buildQueueProjectionEntry (storedEntry
     \<lparr>qm_queueEpoch = [], qm_queueAuthorityId = [], qm_pendingMessageVersion = 0, qm_nextOrdinal = 0, qm_updatedAt = 0\<rparr> r)"

lemma showRow_fields [simp]:
  "qp_clientMessageId (showRow r) = er_clientMessageId r" "qp_placement (showRow r) = er_placement r"
  "qp_status (showRow r) = er_status r" "qp_text (showRow r) = er_text r"
  by (simp_all add: showRow_def buildQueueProjectionEntry_def storedEntry_def)

lemma shownRows_rows:
  assumes h: "consistentHost h" and inv: "dbInv (st_db st)"
  shows "shownRows h keep s st
    = map showRow (sortBy (rowLe h) (filter (\<lambda>r. keep (er_status r)) (sessionRows s (st_db st))))"
proof (cases "db_meta (st_db st) s")
  case None
  have "sessionRows s (st_db st) = []"
    using None dbInvD(3) [OF inv] by (fastforce simp: sessionRows_def rowFits_def filter_empty_conv)
  then show ?thesis
    using None by (simp add: shownRows_def storedRows_def projectEntries_def)
next
  case (Some m)
  have show_m: "(\<lambda>r. buildQueueProjectionEntry (storedEntry m r)) = showRow"
    unfolding showRow_def by (rule ext) (rule project_storedEntry)
  have "sortBy (rowLe h) (filter (\<lambda>r. keep (er_status r)) (sortedRows s (st_db st)))
      = sortBy (rowLe h) (filter (\<lambda>r. keep (er_status r)) (sessionRows s (st_db st)))"
    by (rule sort_rows_perm [OF h inv, of _ _ s]) (auto simp: sortedRows_def)
  then show ?thesis
    using Some show_m by (simp add: shownRows_def storedRows_def projectEntries_rows)
qed

lemma shownRows_ids:
  assumes "consistentHost h" "dbInv (st_db st)"
  shows "distinct (map qp_clientMessageId (shownRows h keep s st))"
proof -
  have "distinct (map er_clientMessageId (sessionRows s (st_db st)))"
    using dbInvD(1) [OF assms(2)] by (auto simp: sessionRows_def distinct_map inj_on_def rowKey_def)
  then have "distinct (map er_clientMessageId (filter (\<lambda>r. keep (er_status r)) (sessionRows s (st_db st))))"
    by (rule distinct_map_filter)
  then show ?thesis by (simp add: shownRows_rows [OF assms] o_def)
qed

section \<open>Placement groups\<close>

text \<open>Every shown list is its front entries followed by its normal ones.\<close>

lemma split_mset:
  "{#x \<in># mset xs. K x \<and> er_placement x = Pl_front#} + {#x \<in># mset xs. K x \<and> er_placement x = Pl_normal#}
    = {#x \<in># mset xs. K x#}"
  by (induction xs) (auto simp: placement_cases(1) [symmetric])

lemma filter_shownRows:
  assumes "consistentHost h" "dbInv (st_db st)" and "\<And>r. P (showRow r) = Q r"
  shows "filter P (shownRows h keep s st) = map showRow (sortBy (rowLe h)
    (filter Q (filter (\<lambda>r. keep (er_status r)) (sessionRows s (st_db st)))))"
  by (simp add: shownRows_rows [OF assms(1,2)] filter_map o_def assms(3)
      comparator_order.filter_sortBy [OF comparator_rowLe [OF assms(1)]])

lemma shown_front_normal:
  fixes h keep s st
  assumes h: "consistentHost h" and inv: "dbInv (st_db st)"
  defines "shown \<equiv> shownRows h keep s st"
  shows "shown = filter (\<lambda>e. qp_placement e = Pl_front) shown @ filter (\<lambda>e. qp_placement e = Pl_normal) shown"
proof -
  let ?rows = "filter (\<lambda>r. keep (er_status r)) (sessionRows s (st_db st))"
  let ?split = "filter (\<lambda>r. er_placement r = Pl_front) ?rows @ filter (\<lambda>r. er_placement r = Pl_normal) ?rows"
  have perm: "mset ?split = mset ?rows"
    by (simp add: split_mset)
  have "sortBy (rowLe h) ?split = sortBy (rowLe h) ?rows"
    by (rule sort_rows_perm [OF h inv perm, of s]) auto
  moreover have "sortBy (rowLe h) ?split = sortBy (rowLe h) (filter (\<lambda>r. er_placement r = Pl_front) ?rows)
      @ sortBy (rowLe h) (filter (\<lambda>r. er_placement r = Pl_normal) ?rows)"
    by (rule sortBy_append) (auto simp: rowOrderKey_def)
  moreover have "filter (\<lambda>e. qp_placement e = p) shown
      = map showRow (sortBy (rowLe h) (filter (\<lambda>r. er_placement r = p) ?rows))" for p
    unfolding shown_def by (rule filter_shownRows [OF h inv]) simp
  moreover have "shown = map showRow (sortBy (rowLe h) ?rows)"
    unfolding shown_def by (rule shownRows_rows [OF h inv])
  ultimately show ?thesis by (metis map_append)
qed

section \<open>Enqueue appends within its group\<close>

lemma enqueued_group:
  fixes h s i evict input now st
  assumes h: "consistentHost h" and inv: "storeInv st" and inv': "storeInv (enqueuedStore s i evict input now st)"
  defines "st' \<equiv> enqueuedStore s i evict input now st"
    and "p0 \<equiv> (case eq_placement input of None \<Rightarrow> Pl_normal | Some p \<Rightarrow> p)"
    and "new \<equiv> newRow s i input (qm_nextOrdinal (fst (ensureMeta s now st))) now"
  shows "filter (\<lambda>e. qp_placement e = p) (shownRows h isLiveStatus s st')
    = filter (\<lambda>e. Some (qp_clientMessageId e) \<noteq> evict \<and> qp_placement e = p) (shownRows h isLiveStatus s st)
      @ (if p = p0 then [showRow new] else [])"
proof -
  let ?old = "filter (\<lambda>r. isLiveStatus (er_status r)) (sessionRows s (st_db st))"
  let ?keep = "\<lambda>r. Some (er_clientMessageId r) \<noteq> evict \<and> er_placement r = p"
  have dbi: "dbInv (st_db st)" "dbInv (st_db st')" using inv inv' by (auto simp: st'_def)
  have evicted: "\<not> (case evict of None \<Rightarrow> False | Some j \<Rightarrow> isRow s j r) \<longleftrightarrow> Some (er_clientMessageId r) \<noteq> evict"
    if "er_sessionName r = s" for r
    using that by (auto simp: rowKey_def split: option.split)
  have place: "er_placement new = p0" "er_sessionName new = s" "isLiveStatus (er_status new)" "rowKey new = (s, i)"
    by (simp_all add: new_def p0_def newRow_def rowKey_def LIVE_QUEUE_ENTRY_STATUSES_def)
  have rows: "filter (\<lambda>r. er_placement r = p) (filter (\<lambda>r. isLiveStatus (er_status r)) (sessionRows s (st_db st')))
      = filter ?keep ?old @ (if p = p0 then [new] else [])"
    using place(1,2,3) evicted
    by (auto simp: st'_def new_def [symmetric] sessionRows_def frame_simps intro!: filter_cong)
  have below: "rowLe h r new" if "r \<in> set (filter ?keep ?old)" "p = p0" for r
  proof -
    have "rowFits (st_db st) r" "er_sessionName r = s" "er_placement r = p"
      using that(1) dbInvD(3) [OF dbi(1)] by (auto simp: sessionRows_def)
    then have "er_ordinal r < er_ordinal new"
      by (auto simp: rowFits_def new_def ensureMeta_existing split: option.splits)
    then show ?thesis using place(1) that(2) \<open>er_placement r = p\<close> by (simp add: rowOrderKey_def)
  qed
  have "filter (\<lambda>e. qp_placement e = p) (shownRows h isLiveStatus s st')
      = map showRow (sortBy (rowLe h) (filter ?keep ?old @ (if p = p0 then [new] else [])))"
    unfolding rows [symmetric] by (rule filter_shownRows [OF h dbi(2)]) simp
  also have "\<dots> = map showRow (sortBy (rowLe h) (filter ?keep ?old)) @ (if p = p0 then [showRow new] else [])"
  proof (cases "p = p0")
    case True
    then have "sortBy (rowLe h) (filter ?keep ?old @ [new]) = sortBy (rowLe h) (filter ?keep ?old) @ [new]"
      by (intro sortBy_snoc below)
    then show ?thesis using True by simp
  qed simp
  also have "map showRow (sortBy (rowLe h) (filter ?keep ?old))
      = filter (\<lambda>e. Some (qp_clientMessageId e) \<noteq> evict \<and> qp_placement e = p) (shownRows h isLiveStatus s st)"
    by (rule filter_shownRows [OF h dbi(1), symmetric]) simp
  finally show ?thesis .
qed

end
