(* ===== verification/QueueWire.thy ===== *)
theory QueueWire
  imports QueueOrder
begin

text \<open>
  What leaves the daemon: a snapshot of the store passes the wire validation of
  \<^verbatim>\<open>shared/transport-queue-wire.ts\<close>, and carries none of the private fields of
  \<^verbatim>\<open>shared/transport-queue-privacy.ts\<close>.
\<close>

section \<open>Objects with known field names\<close>

lemma prohibitedFields_iff:
  "prohibitedFields kvs \<longleftrightarrow> (\<exists>(k, v)\<in>set kvs. k \<in> set PROHIBITED_PROJECTION_FIELDS
     \<or> containsProhibitedQueueProjectionField v)"
  by (induction kvs) auto

lemma prohibitedItems_iff: "prohibitedItems vs \<longleftrightarrow> (\<exists>v\<in>set vs. containsProhibitedQueueProjectionField v)"
  by (induction vs) auto

lemma legacyFields_iff: "legacyFields kvs \<longleftrightarrow> (\<exists>(k, v)\<in>set kvs. containsLegacyLiveQueueEvidence v)"
  by (induction kvs) auto

lemma legacyItems_iff: "legacyItems vs \<longleftrightarrow> (\<exists>v\<in>set vs. containsLegacyLiveQueueEvidence v)"
  by (induction vs) auto

text \<open>A value the projection may carry: no prohibited and no legacy field anywhere in it.\<close>

definition clean :: "jsval \<Rightarrow> bool" where
  "clean v \<longleftrightarrow> \<not> containsProhibitedQueueProjectionField v \<and> \<not> containsLegacyLiveQueueEvidence v"

lemma clean_scalars [simp]: "clean (Str s)" "clean (Number n)" "clean (Bool b)" "clean Undef" "clean Null"
  by (simp_all add: clean_def)

lemma clean_Arr [simp]: "clean (Arr vs) \<longleftrightarrow> (\<forall>v\<in>set vs. clean v)"
  by (auto simp: clean_def prohibitedItems_iff legacyItems_iff)

lemma clean_Obj: "clean (Obj kvs) \<longleftrightarrow> (\<forall>(k, v)\<in>set kvs.
    k \<notin> set PROHIBITED_PROJECTION_FIELDS \<and> k \<notin> set LEGACY_LIVE_QUEUE_FIELDS \<and> clean v)"
  by (auto simp: clean_def prohibitedFields_iff legacyFields_iff hasLegacyLiveQueueField_def list_ex_iff
      split: prod.splits)

lemma clean_append: "clean (Obj (xs @ ys)) \<longleftrightarrow> clean (Obj xs) \<and> clean (Obj ys)"
  by (auto simp: clean_Obj)

lemma clean_Cons: "clean (Obj ((k, v) # kvs)) \<longleftrightarrow> k \<notin> set PROHIBITED_PROJECTION_FIELDS
    \<and> k \<notin> set LEGACY_LIVE_QUEUE_FIELDS \<and> clean v \<and> clean (Obj kvs)"
  by (auto simp: clean_Obj)

lemma clean_Nil [simp]: "clean (Obj [])"
  by (simp add: clean_Obj)

lemma clean_optField: "clean (Obj (optField k f x)) \<longleftrightarrow> (\<forall>y. x = Some y \<longrightarrow> clean (Obj [(k, f y)]))"
  by (cases x) simp_all

lemmas clean_object = clean_append clean_Cons clean_optField PROHIBITED_PROJECTION_FIELDS_def
  LEGACY_LIVE_QUEUE_FIELDS_def

lemma clean_attachment: "clean (attachment_js a)"
  by (simp add: attachment_js_def clean_object)

lemma clean_sharedActor: "clean (sharedActor_js a)"
  by (simp add: sharedActor_js_def clean_object)

lemma clean_projectionEntry: "clean (projectionEntry_js e)"
  by (simp add: projectionEntry_js_def clean_object clean_attachment clean_sharedActor)

lemma clean_snapshot: "clean (queueEvent_js (QSnapshot s))"
  by (auto simp: clean_object clean_projectionEntry split: option.split)

section \<open>Validity\<close>

lemma isProjectionEntry_js:
  assumes "statusText (qp_status e) \<in> set names"
  shows "isProjectionEntry names (projectionEntry_js e)"
proof -
  have "placementText (qp_placement e) \<in> {''normal'', ''front''}" by (cases "qp_placement e") simp_all
  then show ?thesis using assms by (simp add: isProjectionEntry_def projectionEntry_js_def)
qed

lemma dropReason_known [simp]: "r \<in> set QUEUE_DROP_REASONS"
  by (cases r) (simp_all add: QUEUE_DROP_REASONS_def)

lemma map_of_optField: "map_of (optField k f x) j = (if x \<noteq> None \<and> j = k then Some (f (the x)) else None)"
  by (cases x) simp_all

definition listsOk :: "queueSnapshot \<Rightarrow> bool" where
  "listsOk s \<longleftrightarrow> numFinite (sn_pendingMessageVersion s)
     \<and> (\<forall>e\<in>set (sn_pendingMessageEntries s). isLiveStatus (qp_status e))
     \<and> (\<forall>e\<in>set (sn_failedMessageEntries s). isFailedStatus (qp_status e))"

lemma valid_snapshot_iff: "isValidTransportQueueWireEvent (queueEvent_js (QSnapshot s)) \<longleftrightarrow>
    hasQueueBaseline (queueEvent_js (QSnapshot s))
  \<and> list_all (isProjectionEntry (map statusText LIVE_QUEUE_ENTRY_STATUSES)) (map projectionEntry_js (sn_pendingMessageEntries s))
  \<and> list_all (isProjectionEntry (map statusText FAILED_QUEUE_ENTRY_STATUSES)) (map projectionEntry_js (sn_failedMessageEntries s))
  \<and> optOneOf (fld (queueEvent_js (QSnapshot s)) ''resetReason'') (map resetReasonText QUEUE_RESET_REASONS)
  \<and> optOneOf (fld (queueEvent_js (QSnapshot s)) ''dropReason'') (map dropReasonText QUEUE_DROP_REASONS)"
  using clean_snapshot [of s] unfolding clean_def isValidTransportQueueWireEvent_def
  by (simp add: isTransportQueueEventType_def QUEUE_EVENT_TYPES_def isOneOf_def)

lemma valid_snapshot:
  assumes "listsOk s"
  shows "isValidTransportQueueWireEvent (queueEvent_js (QSnapshot s))"
proof -
  have reset: "fld (queueEvent_js (QSnapshot s)) ''resetReason'' = optVal (\<lambda>r. Str (resetReasonText r)) (sn_resetReason s)"
    by (cases "sn_resetReason s") (auto simp: map_of_optField split: option.split)
  have drop: "fld (queueEvent_js (QSnapshot s)) ''dropReason'' = optVal (\<lambda>r. Str (dropReasonText r)) (sn_dropReason s)"
    by (cases "sn_dropReason s") (auto simp: map_of_optField split: option.split)
  have "optOneOf (optVal (\<lambda>r. Str (resetReasonText r)) (sn_resetReason s)) (map resetReasonText QUEUE_RESET_REASONS)"
    "optOneOf (optVal (\<lambda>r. Str (dropReasonText r)) (sn_dropReason s)) (map dropReasonText QUEUE_DROP_REASONS)"
    by (cases "sn_resetReason s"; cases "sn_dropReason s"; simp add: optOneOf_def isOneOf_def)+
  moreover have "hasQueueBaseline (queueEvent_js (QSnapshot s))"
    using assms by (simp add: hasQueueBaseline_def listsOk_def)
  moreover have "list_all (isProjectionEntry (map statusText LIVE_QUEUE_ENTRY_STATUSES)) (map projectionEntry_js (sn_pendingMessageEntries s))"
    "list_all (isProjectionEntry (map statusText FAILED_QUEUE_ENTRY_STATUSES)) (map projectionEntry_js (sn_failedMessageEntries s))"
    using assms by (auto simp: listsOk_def list_all_iff intro!: isProjectionEntry_js)
  ultimately show ?thesis
    unfolding valid_snapshot_iff reset drop by blast
qed

lemma faithful_listsOk: "faithful h s st snap \<Longrightarrow> listsOk snap"
  using projectEntries_status by (auto simp: faithful_def listsOk_def)

end
