(* ===== verification/QueueProps.thy ===== *)
theory QueueProps
  imports QueueWire
begin

text \<open>
  The properties of the transport queue: the store's tables, its methods, the events it
  sends and the client that reduces them.
\<close>

section \<open>Reachable stores\<close>

inductive storeReachable :: "jsHost \<Rightarrow> (nat \<Rightarrow> string) \<Rightarrow> queueStore \<Rightarrow> bool" for h u where
  reach_open: "storeReachable h u (openStore u)"
| reach_step: "storeReachable h u st \<Longrightarrow> storeStep h s r st out st' \<Longrightarrow> storeReachable h u st'"

lemma reachable_inv: "storeReachable h u st \<Longrightarrow> uuidSupply u \<Longrightarrow> storeInv st"
  by (induction rule: storeReachable.induct) (simp_all add: storeInv_openStore storeStep_inv)

text \<open>A supply of identifiers and a first request, for the concrete instances below.\<close>

definition uuidOf :: "nat \<Rightarrow> string" where
  "uuidOf n = replicate (Suc n) (CHR ''u'')"

definition requestOf :: "string \<Rightarrow> string \<Rightarrow> queuePlacement option \<Rightarrow> enqueueInput" where
  "requestOf i txt p = \<lparr>eq_sessionName = ''s1'', eq_text = txt, eq_clientMessageId = Some i,
     eq_commandId = None, eq_placement = p, eq_now = Some 10, eq_activityGeneration = None,
     eq_replacesClientMessageId = None, eq_privateMaterialJson = Some ''{}''\<rparr>"

lemma uuidSupply_uuidOf: "uuidSupply uuidOf"
  by (auto simp: uuidSupply_def uuidOf_def inj_def replicate_eq_replicate)

abbreviation store1 :: queueStore where
  "store1 \<equiv> snd (enqueue codeUnitHost (requestOf ''m1'' ''hello'' None) 10 (openStore uuidOf))"

lemma reachable_store1: "storeReachable codeUnitHost uuidOf store1"
  by (rule reach_step [OF reach_open step_enqueue])

lemma trim_s1: "trim ''s1'' = ''s1''"
  by code_simp

lemma enqueue_uuid: "st_uuid (snd (enqueueWithCapacityEviction h input ev dateNow st)) = st_uuid st"
  by (simp add: enqueueWithCapacityEviction_def transact_def enqueueBody_eq enqueuedStore_def readSnapshot_def
      chooseId_def [symmetric] case_prod_beta Let_def frame_simps split: sum.split option.split)

lemma storeInv_store1: "storeInv store1"
  by (rule reachable_inv [OF reachable_store1 uuidSupply_uuidOf])



section \<open>The tables\<close>

text \<open>C2: in every reachable store, whatever methods ran and whenever the database was
  unusable, the primary key holds, no two entries of a session share an ordinal, every ordinal was
  issued by the session's counter, and private material exists only for entries that exist.\<close>

theorem store_tables_sound:
  assumes "uuidSupply u" and "storeReachable h u st"
  shows "distinct (map rowKey (db_entries (st_db st)))
    \<and> distinct (map rowSlot (db_entries (st_db st)))
    \<and> (\<forall>r\<in>set (db_entries (st_db st)). \<exists>m. db_meta (st_db st) (er_sessionName r) = Some m
        \<and> 0 \<le> er_ordinal r \<and> er_ordinal r < qm_nextOrdinal m)
    \<and> (\<forall>k. db_private (st_db st) k \<noteq> None \<longrightarrow> k \<in> rowKey ` set (db_entries (st_db st)))"
proof -
  have "dbInv (st_db st)" using reachable_inv [OF assms(2,1)] by auto
  then show ?thesis by (auto simp: dbInv_def rowFits_def split: option.splits)
qed

theorem store_tables_sound_witness: "distinct (map rowKey (db_entries (st_db store1)))
    \<and> (''s1'', ''m1'') \<in> rowKey ` set (db_entries (st_db store1))"
proof -
  have "db_private (st_db store1) (''s1'', ''m1'') \<noteq> None" by code_simp
  then show ?thesis using store_tables_sound [OF uuidSupply_uuidOf reachable_store1] by blast
qed

text \<open>a method called for one session leaves the meta row, the entries, the private
  material and the tombstones of every other session as they were.\<close>

theorem sessions_isolated:
  assumes "uuidSupply u" and "storeReachable h u st" and "storeStep h s r st out st'" and "s' \<noteq> s"
  shows "sessionView s' (st_db st') = sessionView s' (st_db st)"
  by (rule storeStep_isolated [OF assms(3) reachable_inv [OF assms(2,1)] assms(4)])

theorem sessions_isolated_witness:
  "sessionView ''s1'' (st_db (snd (dropAll codeUnitHost ''s2'' Dr_user_cleared 11 store1))) = sessionView ''s1'' (st_db store1)"
  by (rule sessions_isolated [OF uuidSupply_uuidOf reachable_store1 step_dropAll]) code_simp

text \<open>every method either bumps its session's version by one or leaves the version and
  the entries as they were, so two snapshots with one version of an epoch show the same queue; the
  other sessions' versions stay, and outside the resets the epoch stays too.\<close>

theorem version_counts_changes:
  assumes "uuidSupply u" and "storeReachable h u st" and "storeStep h s r st out st'"
  shows "(versionOf s st' = versionOf s st + 1
      \<or> versionOf s st' = versionOf s st \<and> sessionRows s (st_db st') = sessionRows s (st_db st))
    \<and> (\<forall>s'. s' \<noteq> s \<longrightarrow> versionOf s' st' = versionOf s' st)
    \<and> (\<not> r \<longrightarrow> epochKept s st st')"
proof -
  have inv: "storeInv st" by (rule reachable_inv [OF assms(2,1)])
  show ?thesis
    using storeStep_versioned [OF assms(3) inv] storeStep_isolated [OF assms(3) inv] storeStep_epoch [OF assms(3) _ inv]
    by (auto simp: versionStep_def versionOf_def sessionView_eq)
qed

theorem version_counts_changes_witness:
  "epochKept ''s1'' store1 (snd (cleanup codeUnitHost ''s1'' 12 store1))"
  using version_counts_changes [OF uuidSupply_uuidOf reachable_store1, of "trim ''s1''" False _
      "snd (cleanup codeUnitHost ''s1'' 12 store1)"] step_cleanup [of codeUnitHost "''s1''" store1 12]
    trim_s1 by simp

section \<open>Enqueue\<close>

text \<open>C13: on a usable database an enqueue into a named session succeeds exactly when its
  client message id is free or names the entry it evicts; otherwise the tables stay as they were.\<close>

theorem enqueue_succeeds_iff:
  assumes "storeInv st" and "st_fault st = None" and "trim (eq_sessionName input) \<noteq> []"
  defines "key \<equiv> (trim (eq_sessionName input), fst (chooseId input st))"
  shows "((\<exists>r. fst (enqueueWithCapacityEviction h input ev dateNow st) = Inr r)
      \<longleftrightarrow> key \<notin> rowKey ` set (db_entries (st_db st)) \<or> trimOpt ev = Some (snd key))
    \<and> (\<forall>e. fst (enqueueWithCapacityEviction h input ev dateNow st) = Inl e \<longrightarrow>
      e = PrimaryKeyConflict \<and> st_db (snd (enqueueWithCapacityEviction h input ev dateNow st)) = st_db st)"
  by (rule enqueue_cases [OF assms(3,1), of h ev dateNow]; use assms(2) in \<open>auto simp: conflicts_def key_def\<close>)

theorem enqueue_succeeds_iff_witness:
  "fst (enqueueWithCapacityEviction codeUnitHost (requestOf ''m1'' ''again'' None) None 11 store1) = Inl PrimaryKeyConflict"
proof -
  let ?run = "enqueueWithCapacityEviction codeUnitHost (requestOf ''m1'' ''again'' None) None 11 store1"
  have "st_fault store1 = None" "trim (eq_sessionName (requestOf ''m1'' ''again'' None)) \<noteq> []"
    "(trim (eq_sessionName (requestOf ''m1'' ''again'' None)), fst (chooseId (requestOf ''m1'' ''again'' None) store1))
       \<in> rowKey ` set (db_entries (st_db store1))"
    by code_simp+
  then show ?thesis
    using enqueue_succeeds_iff [OF storeInv_store1, of "requestOf ''m1'' ''again'' None" codeUnitHost None 11]
    by (cases "fst ?run") (auto simp: trimOpt_def)
qed

text \<open>C7: a successful enqueue shows the entry behind every entry of its placement group and
  leaves the order of the others: the live list is its front entries, then its normal ones, each
  group as before without the evicted entry and with the new one last where it belongs.\<close>

theorem enqueue_appends_to_its_group:
  assumes "consistentHost h" and "storeInv st"
    and "fst (enqueueWithCapacityEviction h input ev dateNow st) = Inr r"
  defines "old \<equiv> filter (\<lambda>e. Some (qp_clientMessageId e) \<noteq> trimOpt ev)
      (shownRows h isLiveStatus (trim (eq_sessionName input)) st)"
    and "place \<equiv> (case eq_placement input of None \<Rightarrow> Pl_normal | Some p \<Rightarrow> p)"
  shows "\<exists>e. qp_clientMessageId e = fst (chooseId input st) \<and> qp_text e = eq_text input
    \<and> qp_placement e = place \<and> qp_status e = St_queued
    \<and> sn_pendingMessageEntries (er_queueSnapshot r) =
        filter (\<lambda>x. qp_placement x = Pl_front) old @ (if place = Pl_front then [e] else [])
        @ filter (\<lambda>x. qp_placement x = Pl_normal) old @ (if place = Pl_normal then [e] else [])"
proof -
  let ?s = "trim (eq_sessionName input)" and ?now = "nowMs (eq_now input) dateNow"
  let ?i = "fst (chooseId input st)" and ?st1 = "snd (chooseId input st)"
  let ?st' = "enqueuedStore ?s ?i (trimOpt ev) input ?now ?st1"
  let ?new = "showRow (newRow ?s ?i input (qm_nextOrdinal (fst (ensureMeta ?s ?now ?st1))) ?now)"
  have s: "?s \<noteq> []"
    using assms(3) by (auto simp: enqueue_reject normalizeSessionName_def)
  have ok: "storeInv ?st'" "faithful h ?s ?st' (er_queueSnapshot r)"
    by (rule enqueue_cases [OF s assms(2), of h ev dateNow]; use assms(3) in auto)+
  have inv1: "storeInv ?st1" by (rule storeInv_chooseId [OF assms(2)])
  have shown1: "shownRows h isLiveStatus ?s ?st1 = shownRows h isLiveStatus ?s st"
    by (simp add: shownRows_def frame_simps)
  have group: "filter (\<lambda>e. qp_placement e = p) (shownRows h isLiveStatus ?s ?st')
      = filter (\<lambda>x. qp_placement x = p) old @ (if p = place then [?new] else [])" for p
    using enqueued_group [OF assms(1) inv1 ok(1), of p]
    by (simp add: old_def place_def shown1 conj_commute)
  have "sn_pendingMessageEntries (er_queueSnapshot r) = filter (\<lambda>e. qp_placement e = Pl_front) (shownRows h isLiveStatus ?s ?st')
      @ filter (\<lambda>e. qp_placement e = Pl_normal) (shownRows h isLiveStatus ?s ?st')"
    using shown_front_normal [OF assms(1) storeInv_dbInv [OF ok(1)]] faithful_shown(2) [OF ok(2)] by simp
  then show ?thesis
    unfolding group by (intro exI [of _ ?new]) (auto simp: place_def newRow_def)
qed

theorem enqueue_appends_to_its_group_witness:
  "\<exists>snap. fst (enqueueWithCapacityEviction codeUnitHost (requestOf ''m2'' ''next'' None) None 11 store1) = Inr snap
     \<and> map qp_clientMessageId (sn_pendingMessageEntries (er_queueSnapshot snap)) = [''m1'', ''m2'']"
proof -
  let ?req = "requestOf ''m2'' ''next'' None"
  have "\<not> isl (fst (enqueueWithCapacityEviction codeUnitHost ?req None 11 store1))" by code_simp
  then obtain r where r: "fst (enqueueWithCapacityEviction codeUnitHost ?req None 11 store1) = Inr r"
    by (cases "fst (enqueueWithCapacityEviction codeUnitHost ?req None 11 store1)") auto
  have old: "map qp_clientMessageId (filter (\<lambda>x. qp_placement x = Pl_normal) (filter (\<lambda>e. Some (qp_clientMessageId e) \<noteq> trimOpt None)
      (shownRows codeUnitHost isLiveStatus (trim (eq_sessionName ?req)) store1))) = [''m1'']"
    "filter (\<lambda>x. qp_placement x = Pl_front) (filter (\<lambda>e. Some (qp_clientMessageId e) \<noteq> trimOpt None)
      (shownRows codeUnitHost isLiveStatus (trim (eq_sessionName ?req)) store1)) = []"
    "fst (chooseId ?req store1) = ''m2''" "eq_placement ?req = None"
    by code_simp+
  show ?thesis
    using enqueue_appends_to_its_group [OF consistent_codeUnitHost storeInv_store1 r] r old by auto
qed

section \<open>Delivery\<close>

lemma fold_finalizeOne:
  "db_entries (fold (finalizeOne s ep frame now) ids db) = filter (\<lambda>r. \<not> (er_sessionName r = s \<and> er_clientMessageId r \<in> set ids)) (db_entries db)"
  "db_private (fold (finalizeOne s ep frame now) ids db) k = (if fst k = s \<and> snd k \<in> set ids then None else db_private db k)"
  "mapGet (db_tombstones (fold (finalizeOne s ep frame now) ids db)) t =
     (if fst t = s \<and> fst (snd t) = ep \<and> snd (snd t) \<in> set ids then Some (frame, now) else mapGet (db_tombstones db) t)"
  by (induction ids arbitrary: db)
    (auto simp: finalizeOne_def frame_simps rowKey_def deletePrivate_def prod_eq_iff intro!: filter_cong)

lemma finalizedStore_tables:
  fixes s ids frame now st
  defines "st' \<equiv> finalizedStore s ids frame now st" and "ep \<equiv> qm_queueEpoch (fst (ensureMeta s now st))"
  shows "db_entries (st_db st') = filter (\<lambda>r. \<not> (er_sessionName r = s \<and> er_clientMessageId r \<in> set ids)) (db_entries (st_db st))"
    and "db_private (st_db st') k = (if fst k = s \<and> snd k \<in> set ids then None else db_private (st_db st) k)"
    and "mapGet (db_tombstones (st_db st')) t =
      (if fst t = s \<and> fst (snd t) = ep \<and> snd (snd t) \<in> set ids then Some (frame, now) else mapGet (db_tombstones (st_db st)) t)"
  by (simp_all add: st'_def ep_def finalizedStore_def finalizeChange_def frame_simps fold_finalizeOne)

text \<open>C14: a successful delivery batch removes exactly the named messages from the session's
  entries, deletes their private material, records a tombstone for each under the current epoch, and
  reports one delivery fact per distinct non-blank id, in order, all with the committed version.\<close>

theorem finalize_batch_delivers:
  assumes "storeInv st" and "fst (finalizeSentBatch h n inputs frame now st) = Inr (snap, facts)"
  defines "ids \<equiv> batchIds inputs" and "st' \<equiv> snd (finalizeSentBatch h n inputs frame now st)"
  shows "sessionRows (trim n) (st_db st') = filter (\<lambda>r. er_clientMessageId r \<notin> set ids) (sessionRows (trim n) (st_db st))
    \<and> (\<forall>i\<in>set ids. db_private (st_db st') (trim n, i) = None
        \<and> mapGet (db_tombstones (st_db st')) (trim n, sn_queueEpoch snap, i) = Some (fst (chooseFrame frame st), now))
    \<and> map df_clientMessageId facts = ids \<and> distinct ids
    \<and> (\<forall>f\<in>set facts. df_queueEpoch f = sn_queueEpoch snap \<and> df_pendingMessageVersion f = sn_pendingMessageVersion snap
        \<and> df_deliveryFrameVersion f = sn_pendingMessageVersion snap)"
proof (rule finalize_cases [OF assms(1), of h n inputs frame now])
  fix e assume "finalizeSentBatch h n inputs frame now st = (Inl e, snd (chooseFrame frame st))"
  then show ?thesis using assms(2) by simp
next
  fix snap'
  assume "batchIds inputs = []"
    "finalizeSentBatch h n inputs frame now st = (Inr (snap', []), ensured (trim n) now (snd (chooseFrame frame st)))"
  then show ?thesis using assms(2) by (simp add: ids_def st'_def sessionRows_def frame_simps)
next
  fix snap'
  let ?st1 = "snd (chooseFrame frame st)" and ?f = "fst (chooseFrame frame st)"
  let ?fin = "finalizedStore (trim n) (batchIds inputs) ?f now ?st1"
  let ?m = "bumped now (fst (ensureMeta (trim n) now ?st1))"
  assume run: "finalizeSentBatch h n inputs frame now st =
      (Inr (snap', map (deliveryFact (trim n) ?m ?f) (batchIds inputs)), ?fin)"
    and f: "faithful h (trim n) ?fin snap'"
  have snap: "snap' = snap" "facts = map (deliveryFact (trim n) ?m ?f) ids" "st' = ?fin"
    using run assms(2) by (simp_all add: ids_def st'_def)
  have meta: "db_meta (st_db ?fin) (trim n) = Some ?m"
    unfolding finalizedStore_def by (rule committed_meta) (rule localChange_finalize)
  have ep: "sn_queueEpoch snap = qm_queueEpoch (fst (ensureMeta (trim n) now ?st1))"
    "sn_pendingMessageVersion snap = numOf (qm_pendingMessageVersion ?m)" "sn_queueEpoch snap = qm_queueEpoch ?m"
    using f meta snap(1) by (auto simp: faithful_def bumped_def)
  have "filter (\<lambda>r. er_sessionName r = trim n) (filter (\<lambda>r. \<not> (er_sessionName r = trim n \<and> er_clientMessageId r \<in> set ids)) rows)
      = filter (\<lambda>r. er_clientMessageId r \<notin> set ids) (filter (\<lambda>r. er_sessionName r = trim n) rows)" for rows
    by (auto intro: filter_cong)
  then show ?thesis
    using ep snap(2,3)
    by (auto simp: finalizedStore_tables sessionRows_def ids_def [symmetric] deliveryFact_def o_def)
      (simp add: ids_def batchIds_def)
qed

theorem finalize_batch_delivers_witness:
  "\<exists>p. fst (finalizeSentBatch codeUnitHost ''s1'' ['' m1 '', ''m1''] None 20 store1) = Inr p
     \<and> map df_clientMessageId (snd p) = [''m1'']
     \<and> sessionRows ''s1'' (st_db (snd (finalizeSentBatch codeUnitHost ''s1'' ['' m1 '', ''m1''] None 20 store1))) = []"
proof -
  let ?run = "finalizeSentBatch codeUnitHost ''s1'' ['' m1 '', ''m1''] None 20 store1"
  have "\<not> isl (fst ?run)" by code_simp
  then obtain snap facts where r: "fst ?run = Inr (snap, facts)" by (cases "fst ?run") auto
  have ids: "batchIds ['' m1 '', ''m1''] = [''m1'']" by code_simp
  have "filter (\<lambda>r. er_clientMessageId r \<notin> {''m1''}) (sessionRows ''s1'' (st_db store1)) = []" by code_simp
  then show ?thesis
    using finalize_batch_delivers [OF storeInv_store1 r] r ids trim_s1 by simp
qed

section \<open>Handoff\<close>

lemma fold_handoff:
  "db_entries (fold (\<lambda>i. updateEntries (isRow s i) (takeHandoff hid lease now)) ids db)
    = map (\<lambda>r. fold (\<lambda>i r. if isRow s i r then takeHandoff hid lease now r else r) ids r) (db_entries db)"
  by (induction ids arbitrary: db) (simp_all add: updateEntries_def o_def)

lemma fold_takeHandoff:
  fixes s hid lease now ids r
  defines "r' \<equiv> fold (\<lambda>i r. if isRow s i r then takeHandoff hid lease now r else r) ids r"
    and "mine \<equiv> er_sessionName r = s \<and> er_clientMessageId r \<in> set ids"
  shows "er_sessionName r' = er_sessionName r" "er_clientMessageId r' = er_clientMessageId r"
    "rowOrderKey r' = rowOrderKey r"
    "er_status r' = (if mine then St_handoff_inflight else er_status r)"
    "er_handoffExpiresAt r' = (if mine then Some (now + lease) else er_handoffExpiresAt r)"
  unfolding r'_def mine_def
  by (induction ids arbitrary: r) (simp_all add: rowKey_def rowOrderKey_def)

lemma shown_ids_map:
  assumes h: "consistentHost h" and inv: "dbInv (st_db st)" "dbInv (st_db st')"
    and rows: "sessionRows s (st_db st') = map f (sessionRows s (st_db st))"
    and f: "\<And>r. rowOrderKey (f r) = rowOrderKey r" "\<And>r. er_clientMessageId (f r) = er_clientMessageId r"
    and keep: "\<And>r. r \<in> set (sessionRows s (st_db st)) \<Longrightarrow> keep (er_status (f r)) = keep (er_status r)"
  shows "map qp_clientMessageId (shownRows h keep s st') = map qp_clientMessageId (shownRows h keep s st)"
proof -
  have "filter (\<lambda>r. keep (er_status r)) (sessionRows s (st_db st'))
      = map f (filter (\<lambda>r. keep (er_status r)) (sessionRows s (st_db st)))"
    using keep by (auto simp: rows filter_map o_def intro!: arg_cong [where f = "map f"] filter_cong)
  then show ?thesis
    by (simp add: shownRows_rows [OF h] inv sortBy_map [where le = "rowLe h"] f o_def)
qed

abbreviation expiredHandoff :: "string \<Rightarrow> int \<Rightarrow> queueRow \<Rightarrow> bool" where
  "expiredHandoff s now r \<equiv> er_sessionName r = s \<and> er_status r = St_handoff_inflight
     \<and> (case er_handoffExpiresAt r of None \<Rightarrow> False | Some t \<Rightarrow> t \<le> now)"

abbreviation requeued :: "int \<Rightarrow> queueRow \<Rightarrow> queueRow" where
  "requeued now r \<equiv> r\<lparr>er_status := St_queued, er_handoffId := None, er_handoffStartedAt := None,
     er_handoffExpiresAt := None, er_updatedAt := now\<rparr>"

lemma requeued_frame: "rowOrderKey (requeued now r) = rowOrderKey r" "er_clientMessageId (requeued now r) = er_clientMessageId r"
  by (simp_all add: rowOrderKey_def)

lemma sessionRows_map:
  assumes "\<And>r. er_sessionName (f r) = er_sessionName r"
  shows "filter (\<lambda>r. er_sessionName r = s) (map f rows) = map f (filter (\<lambda>r. er_sessionName r = s) rows)"
  by (simp add: filter_map o_def assms)

lemma restore_rows:
  assumes "storeInv st" "trim n \<noteq> []" "st_fault st = None"
  shows "sessionRows (trim n) (st_db (snd (restoreExpiredHandoffs h n later st)))
    = map (\<lambda>r. if expiredHandoff (trim n) later r then requeued later r else r) (sessionRows (trim n) (st_db st))"
proof -
  let ?change = "updateEntries (expiredHandoff (trim n) later) (requeued later)"
  have loc: "localChange (trim n) ?change"
    by (rule localChange_update) (simp_all add: rowKey_def)
  have "snd (restoreExpiredHandoffs h n later st) = committed (trim n) later ?change st"
    using assms commitAndRead_ok [OF _ assms(2,3,1) loc]
    by (simp add: restoreExpiredHandoffs_def withSession_def normalizeSessionName_def)
  then show ?thesis
    by (simp add: sessionRows_def frame_simps updateEntries_def sessionRows_map)
qed

lemma handoff_rows:
  assumes "storeInv st" "trim n \<noteq> []" "ids \<noteq> []" "st_fault st = None"
  shows "sessionRows (trim n) (st_db (snd (markHandoffInFlight n ids lease now st)))
    = map (\<lambda>r. fold (\<lambda>i r. if isRow (trim n) i r then takeHandoff (fst (randomUUID st)) lease now r else r) ids r)
        (sessionRows (trim n) (st_db st))"
    and "st_fault (snd (markHandoffInFlight n ids lease now st)) = None"
  by (rule handoff_cases [OF assms(1), of n ids lease now];
    use assms in \<open>auto simp: sessionRows_def frame_simps handoffChange_def fold_handoff fold_takeHandoff(1) sessionRows_map\<close>)+

text \<open>C15: a handoff whose dispatcher never reports back loses no message and no message's
  place: when the leases of handed-off live messages are later swept, the live list shows the same ids
  in the same order; the messages are queued again from the moment the lease has run out, and still in
  flight before.\<close>

theorem expired_handoff_restores:
  fixes later lease now :: int
  assumes "consistentHost h" and "storeInv st" and "st_fault st = None" and "trim n \<noteq> []" and "ids \<noteq> []"
    and "\<forall>r\<in>set (sessionRows (trim n) (st_db st)). er_clientMessageId r \<in> set ids \<longrightarrow> isLiveStatus (er_status r)"
  defines "st2 \<equiv> snd (restoreExpiredHandoffs h n later (snd (markHandoffInFlight n ids lease now st)))"
  shows "map qp_clientMessageId (shownRows h isLiveStatus (trim n) st2)
      = map qp_clientMessageId (shownRows h isLiveStatus (trim n) st)
    \<and> (\<forall>r\<in>set (sessionRows (trim n) (st_db st2)). er_clientMessageId r \<in> set ids \<longrightarrow>
        er_status r = (if now + lease \<le> later then St_queued else St_handoff_inflight))"
proof -
  let ?st1 = "snd (markHandoffInFlight n ids lease now st)"
  let ?take = "\<lambda>r. fold (\<lambda>i r. if isRow (trim n) i r then takeHandoff (fst (randomUUID st)) lease now r else r) ids r"
  let ?give = "\<lambda>r. if expiredHandoff (trim n) later r then requeued later r else r"
  have inv: "storeInv ?st1" "storeInv st2"
    using assms(2) by (simp_all add: st2_def handoff.keeps_inv restoreHandoffs.keeps_inv)
  have rows1: "sessionRows (trim n) (st_db ?st1) = map ?take (sessionRows (trim n) (st_db st))"
    by (rule handoff_rows [OF assms(2,4,5,3)])
  have rows2: "sessionRows (trim n) (st_db st2) = map ?give (sessionRows (trim n) (st_db ?st1))"
    unfolding st2_def by (rule restore_rows [OF inv(1) assms(4) handoff_rows(2) [OF assms(2,4,5,3)]])
  have live: "isLiveStatus St_handoff_inflight" "isLiveStatus St_queued"
    by (simp_all add: LIVE_QUEUE_ENTRY_STATUSES_def)
  have "map qp_clientMessageId (shownRows h isLiveStatus (trim n) st2)
      = map qp_clientMessageId (shownRows h isLiveStatus (trim n) ?st1)"
    by (rule shown_ids_map [OF assms(1) storeInv_dbInv [OF inv(1)] storeInv_dbInv [OF inv(2)] rows2])
      (use live requeued_frame in auto)
  also have "\<dots> = map qp_clientMessageId (shownRows h isLiveStatus (trim n) st)"
    by (rule shown_ids_map [OF assms(1) storeInv_dbInv [OF assms(2)] storeInv_dbInv [OF inv(1)] rows1])
      (use live assms(6) in \<open>auto simp: fold_takeHandoff(2,3,4) sessionRows_def\<close>)
  finally have ids: "map qp_clientMessageId (shownRows h isLiveStatus (trim n) st2)
      = map qp_clientMessageId (shownRows h isLiveStatus (trim n) st)" .
  have name: "er_sessionName r = trim n" if "r \<in> set (sessionRows (trim n) (st_db st))" for r
    using that by (simp add: sessionRows_def)
  have "er_status (?give (?take r)) = (if now + lease \<le> later then St_queued else St_handoff_inflight)"
    if "r \<in> set (sessionRows (trim n) (st_db st))" "er_clientMessageId (?give (?take r)) \<in> set ids" for r
    using that name [OF that(1)] by (simp add: fold_takeHandoff split: if_splits)
  then show ?thesis
    using ids unfolding rows2 rows1 by (simp only: set_map ball_simps) blast
qed

theorem expired_handoff_restores_witness:
  "map qp_clientMessageId (shownRows codeUnitHost isLiveStatus ''s1''
     (snd (restoreExpiredHandoffs codeUnitHost ''s1'' 200 (snd (markHandoffInFlight ''s1'' [''m1''] 100 20 store1))))) = [''m1'']"
proof -
  have pre: "st_fault store1 = None" "[''m1''] \<noteq> []" "trim ''s1'' \<noteq> []"
    "\<forall>r\<in>set (sessionRows (trim ''s1'') (st_db store1)). er_clientMessageId r \<in> set [''m1''] \<longrightarrow> isLiveStatus (er_status r)"
    "map qp_clientMessageId (shownRows codeUnitHost isLiveStatus (trim ''s1'') store1) = [''m1'']"
    by code_simp+
  show ?thesis
    using expired_handoff_restores [OF consistent_codeUnitHost storeInv_store1 pre(1,3,2,4), of 200 100 20] pre(5) trim_s1
    by simp
qed

section \<open>Reset\<close>

text \<open>C16: a reset of a session empties it under an epoch and authority that no session ever
  had, and a client still in any earlier epoch of the store accepts the reset's snapshot: it drops its
  entries and its tombstones and continues in the new epoch.\<close>

theorem reset_reaches_clients:
  assumes "consistentHost h" and "storeInv st" and "fst (reset h n reason now ag st) = Inr snap"
    and "hasBaseline c" and "the (rd_queueEpoch c) \<in> issued st" and "the (rd_queueAuthorityId c) \<in> issued st"
  defines "c' \<equiv> reduceTransportQueueEvent h c (QSnapshot snap)"
  shows "sn_queueEpoch snap \<notin> issued st \<and> sn_queueAuthorityId snap \<notin> issued st
    \<and> sn_pendingMessageVersion snap = numOf (versionOf (trim n) st + 1)
    \<and> rd_queueEpoch c' = Some (sn_queueEpoch snap) \<and> rd_queueAuthorityId c' = Some (sn_queueAuthorityId snap)
    \<and> rd_pendingMessageEntries c' = [] \<and> rd_failedMessageEntries c' = [] \<and> rd_deliveredTombstones c' = []"
proof -
  let ?s = "trim n"
  have s: "?s \<noteq> []" and fault: "st_fault st = None"
    using assms(3) by (auto simp: reset_def withSession_def normalizeSessionName_def transact_def split: if_splits option.splits)
  have "reset h n reason now ag st = reset h ?s reason now ag st"
    using s by (simp add: reset_def withSession_def normalizeSessionName_def)
  then have snap: "snap = buildSnapshot h ?s ''reset'' (overrideOf (resetRow now st ?s) (Some reason) None ag)
      (storedRows ?s (st_db (resetStore ?s now st)))"
    using reset_ok [OF _ s assms(2) fault] assms(3) by simp
  have "sessionRows ?s (st_db (resetStore ?s now st)) = []"
    by (simp add: sessionRows_def frame_simps)
  then have rows: "storedRows ?s (st_db (resetStore ?s now st)) = []"
    by (simp add: storedRows_def sortedRows_def split: option.split)
  have fresh: "qm_queueEpoch (resetRow now st ?s) \<notin> issued st" "qm_queueAuthorityId (resetRow now st ?s) \<notin> issued st"
    by (rule reset_epoch_fresh [OF assms(2)])+
  have fits: "metaFits (resetRow now st ?s)" by (rule resetRow_fits [OF assms(2)])
  have base: "rd_queueEpoch c \<noteq> Some (qm_queueEpoch (resetRow now st ?s))"
    "rd_queueAuthorityId c \<noteq> Some (qm_queueAuthorityId (resetRow now st ?s))" "rd_queueEpoch c \<noteq> None"
    using fresh assms(4,5,6) by (cases "rd_queueEpoch c"; auto simp: hasBaseline_def)+
  have apply_ok: "canApplySnapshot c (sn_queueEpoch snap) (sn_queueAuthorityId snap) (sn_pendingMessageVersion snap) (sn_resetReason snap) = None"
    using base fits assms(4) by (auto simp: canApplySnapshot_def snap buildSnapshot_def overrideOf_def metaFits_def)
  have lists: "sn_pendingMessageEntries snap = []" "sn_failedMessageEntries snap = []"
    by (simp_all add: snap buildSnapshot_def rows projectEntries_def)
  have "sn_pendingMessageVersion snap = numOf (versionOf ?s st + 1)"
    by (simp add: snap buildSnapshot_def overrideOf_def resetRow_def)
  then show ?thesis
    using apply_ok lists base fresh
    by (simp add: c'_def applySnapshot_def Let_def sortEntries_def)
      (simp add: snap buildSnapshot_def overrideOf_def)
qed

theorem reset_reaches_clients_witness:
  "\<exists>snap. fst (reset codeUnitHost ''s1'' Rr_user_clear 30 None store1) = Inr snap
     \<and> rd_pendingMessageEntries (reduceTransportQueueEvent codeUnitHost
         ((createTransportQueueReducerState None)\<lparr>rd_queueEpoch := Some ''u'', rd_queueAuthorityId := Some ''uu'',
            rd_pendingMessageVersion := Some (numOf 1)\<rparr>) (QSnapshot snap)) = []"
proof -
  let ?c = "(createTransportQueueReducerState None)\<lparr>rd_queueEpoch := Some ''u'', rd_queueAuthorityId := Some ''uu'',
            rd_pendingMessageVersion := Some (numOf 1)\<rparr>"
  have "\<not> isl (fst (reset codeUnitHost ''s1'' Rr_user_clear 30 None store1))" by code_simp
  then obtain snap where r: "fst (reset codeUnitHost ''s1'' Rr_user_clear 30 None store1) = Inr snap"
    by (cases "fst (reset codeUnitHost ''s1'' Rr_user_clear 30 None store1)") auto
  have drawn: "st_drawn store1 = 2" "st_uuid store1 = uuidOf" by (code_simp, simp add: enqueue_snd enqueue_uuid openStore_def)
  then have "''u'' \<in> issued store1" "''uu'' \<in> issued store1"
    by (auto simp: issued_def uuidOf_def lessThan_Suc numeral_2_eq_2)
  then have "rd_pendingMessageEntries (reduceTransportQueueEvent codeUnitHost ?c (QSnapshot snap)) = []"
    using reset_reaches_clients [OF consistent_codeUnitHost storeInv_store1 r, of ?c] by (simp add: hasBaseline_def)
  then show ?thesis using r by blast
qed

section \<open>What leaves the daemon\<close>

text \<open>Private dispatch material cannot reach a client: the answer of \<^verbatim>\<open>readSnapshot\<close>
  does not depend on the private-material table at all.\<close>

theorem snapshot_ignores_private_material:
  "fst (readSnapshot h n src ov now (st\<lparr>st_db := (st_db st)\<lparr>db_private := p\<rparr>\<rparr>)) = fst (readSnapshot h n src ov now st)"
proof -
  have meta: "fst (ensureMeta s now (st\<lparr>st_db := (st_db st)\<lparr>db_private := p\<rparr>\<rparr>)) = fst (ensureMeta s now st)" for s
    by (simp add: ensureMeta_def randomUUID_def Let_def split: option.split)
  have metas: "db_meta (st_db (ensured s now (st\<lparr>st_db := (st_db st)\<lparr>db_private := p\<rparr>\<rparr>))) = db_meta (st_db (ensured s now st))" for s
    using meta by (simp add: ensureMeta_meta)
  have rows: "readRows s db = readRows s db'" if "db_meta db = db_meta db'" "db_entries db = db_entries db'" for s db db'
    unfolding readRows_def that ..
  have "readRows s (st_db (ensured s now (st\<lparr>st_db := (st_db st)\<lparr>db_private := p\<rparr>\<rparr>))) = readRows s (st_db (ensured s now st))"
    "readRows s ((st_db st)\<lparr>db_private := p\<rparr>) = readRows s (st_db st)" for s
    by (rule rows; simp add: metas frame_simps)+
  then show ?thesis
    using meta by (simp add: readSnapshot_def case_prod_beta Let_def split: sum.split option.split)
qed




section \<open>The client\<close>




definition clientAt :: "string \<Rightarrow> string \<Rightarrow> int \<Rightarrow> reducerState" where
  "clientAt ep au v = (createTransportQueueReducerState None)\<lparr>rd_queueEpoch := Some ep,
     rd_queueAuthorityId := Some au, rd_pendingMessageVersion := Some (numOf v)\<rparr>"


definition factOf :: "string \<Rightarrow> int \<Rightarrow> queueDeliveryFact" where
  "factOf i v = \<lparr>df_sessionName = ''s1'', df_clientMessageId = i, df_queueEpoch = ''e'',
     df_queueAuthorityId = ''a'', df_pendingMessageVersion = numOf v, df_deliveryFrameId = ''f'',
     df_deliveryFrameVersion = numOf v\<rparr>"

definition snapshotOf :: "string \<Rightarrow> int \<Rightarrow> queueProjectionEntry list \<Rightarrow> queueSnapshot" where
  "snapshotOf ep v es = \<lparr>sn_sessionName = ''s1'', sn_queueEpoch = ep, sn_queueAuthorityId = ''a'',
     sn_pendingMessageVersion = numOf v, sn_pendingMessageEntries = es, sn_failedMessageEntries = [],
     sn_source = ''read'', sn_resetReason = None, sn_dropReason = None, sn_activityGeneration = None,
     sn_degradedReason = None\<rparr>"


text \<open>the version a client shows never goes back within an epoch, whatever events with
  finite versions arrive and whether they are accepted, stale or foreign.\<close>

theorem client_version_monotone:
  assumes "hasBaseline c" and "rd_pendingMessageVersion c = Some (Num v)" and "finiteVersion ev"
    and "rd_queueEpoch (reduceTransportQueueEvent h c ev) = rd_queueEpoch c"
  shows "\<exists>w. rd_pendingMessageVersion (reduceTransportQueueEvent h c ev) = Some (Num w) \<and> v \<le> w"
proof -
  obtain ep where "rd_queueEpoch c = Some ep" using assms(1) by (cases "rd_queueEpoch c") (auto simp: hasBaseline_def)
  then show ?thesis
    using versionAtLeast_step [OF assms(3,1), of v ep h] assms(2,4) by (simp add: versionAtLeast_def)
qed

theorem client_version_monotone_witness:
  "\<exists>w. rd_pendingMessageVersion (reduceTransportQueueEvent codeUnitHost (clientAt ''e'' ''a'' 5)
     (QDelivery (factOf ''m1'' 2))) = Some (Num w) \<and> 5 \<le> w"
  by (rule client_version_monotone) (simp_all add: clientAt_def factOf_def hasBaseline_def applyDelivery_def)

text \<open>applying an accepted snapshot again changes nothing: the reducer is idempotent, so a
  transport that repeats a message is harmless.\<close>

theorem snapshot_idempotent:
  assumes "consistentHost h"
    and "canApplySnapshot c (sn_queueEpoch x) (sn_queueAuthorityId x) (sn_pendingMessageVersion x) (sn_resetReason x) = None"
  shows "reduceTransportQueueEvent h (reduceTransportQueueEvent h c (QSnapshot x)) (QSnapshot x)
    = reduceTransportQueueEvent h c (QSnapshot x)"
proof -
  let ?c = "reduceTransportQueueEvent h c (QSnapshot x)"
  have ok: "sn_queueEpoch x \<noteq> []" "sn_queueAuthorityId x \<noteq> []" "numFinite (sn_pendingMessageVersion x)"
    using assms(2) by (auto simp: canApplySnapshot_def split: if_splits)
  then have "canApplySnapshot ?c (sn_queueEpoch x) (sn_queueAuthorityId x) (sn_pendingMessageVersion x) (sn_resetReason x) = None"
    using assms(2) by (auto simp: applySnapshot_def Let_def canApplySnapshot_def elim!: numFiniteE)
  then show ?thesis
    using assms(2) by (simp add: applySnapshot_def Let_def)
qed

theorem snapshot_idempotent_witness:
  "reduceTransportQueueEvent codeUnitHost (reduceTransportQueueEvent codeUnitHost (clientAt ''e'' ''a'' 1)
      (QSnapshot (snapshotOf ''e'' 2 []))) (QSnapshot (snapshotOf ''e'' 2 []))
   = reduceTransportQueueEvent codeUnitHost (clientAt ''e'' ''a'' 1) (QSnapshot (snapshotOf ''e'' 2 []))"
  by (rule snapshot_idempotent [OF consistent_codeUnitHost])
    (simp add: clientAt_def snapshotOf_def canApplySnapshot_def hasBaseline_def)

section \<open>Degraded storage\<close>

lemma readSnapshotSafely_lists:
  assumes "storeInv st" "trim n \<noteq> []" "fst (readSnapshotSafely h n src now st) = Inr snap"
  shows "listsOk snap"
proof -
  have norm: "normalizeSessionName n = Inr (trim n)" using assms(2) by (simp add: normalizeSessionName_def)
  have same: "readSnapshot h n src None now st = readSnapshot h (trim n) src None now st"
    using assms(2) by (simp add: readSnapshot_def normalizeSessionName_def)
  show ?thesis
  proof (cases "st_fault st")
    case None
    have "db_meta (st_db (ensured (trim n) now st)) (trim n) = Some (fst (ensureMeta (trim n) now st))"
      by (simp add: ensureMeta_meta)
    then have "listsOk (buildSnapshot h (trim n) src (overrideOf (fst (ensureMeta (trim n) now st)) None None None)
        (storedRows (trim n) (st_db (ensured (trim n) now st))))"
      by (intro faithful_listsOk [OF buildSnapshot_faithful])
    then show ?thesis
      using assms(3) same readSnapshot_none [OF _ assms(2) None assms(1)]
      by (auto simp: readSnapshotSafely_def)
  next
    case (Some f)
    then obtain e where "readSnapshot h n src None now st = (Inl e, st)"
      using readSnapshot_fails(2) [OF Some, of h n src None now] by blast
    then show ?thesis
      using assms(3) norm by (auto simp: readSnapshotSafely_def unavailableSnapshot_def listsOk_def)
  qed
qed

text \<open>\<^verbatim>\<open>mutateSafely\<close> turns a failing mutation into a degraded answer: with a named session
  it always returns a result, a failed mutation leaves the session's entries and version as they were,
  and the answer then carries a snapshot that passes the wire validation.\<close>

theorem mutateSafely_always_answers:
  assumes "store_operation run (trim n)" and "storeInv st" and "trim n \<noteq> []"
  shows "(\<exists>r. fst (mutateSafely h n src run now st) = Inr (MutationOk r) \<and> fst (run st) = Inr r)
    \<or> (\<exists>snap d e. fst (mutateSafely h n src run now st) = Inr (MutationDegraded snap d) \<and> fst (run st) = Inl e
        \<and> d = safeSqliteDiagnostic e \<and> versionOf (trim n) (snd (mutateSafely h n src run now st)) = versionOf (trim n) st
        \<and> sessionRows (trim n) (st_db (snd (mutateSafely h n src run now st))) = sessionRows (trim n) (st_db st)
        \<and> isValidTransportQueueWireEvent (queueEvent_js (QSnapshot snap)))"
proof (cases "fst (run st)")
  case (Inr r)
  then show ?thesis by (auto simp: mutateSafely_def split: prod.split)
next
  case (Inl e)
  let ?st1 = "snd (run st)"
  have inv1: "storeInv ?st1" and db1: "st_db ?st1 = st_db st"
    using assms(1,2) Inl by (auto simp: store_operation_def)
  obtain snap where snap: "fst (readSnapshotSafely h n src now ?st1) = Inr snap"
    using readSnapshotSafely_fails_iff [OF inv1, of h n src now] assms(3)
    by (cases "fst (readSnapshotSafely h n src now ?st1)") auto
  have run: "mutateSafely h n src run now st
      = (Inr (MutationDegraded snap (safeSqliteDiagnostic e)), snd (readSnapshotSafely h n src now ?st1))"
    using Inl snap by (cases "run st"; cases "readSnapshotSafely h n src now ?st1") (simp add: mutateSafely_def)
  have lists: "listsOk snap" using readSnapshotSafely_lists [OF inv1 assms(3) snap] .
  have "versionOf (trim n) (snd (readSnapshotSafely h n src now ?st1)) = versionOf (trim n) st
      \<and> sessionRows (trim n) (st_db (snd (readSnapshotSafely h n src now ?st1))) = sessionRows (trim n) (st_db st)"
    using readSnapshotSafely_state [OF inv1, of h n src now] db1
    by (auto simp: versionOf_def sessionRows_def frame_simps ensureMeta_meta)
  then show ?thesis
    using run Inl valid_snapshot [OF lists] by simp
qed

theorem mutateSafely_always_answers_witness:
  "\<exists>snap d. fst (mutateSafely codeUnitHost ''s1'' ''edit'' (edit codeUnitHost ''s1'' '' '' ''x'' 20) 20 store1)
     = Inr (MutationDegraded snap d)"
proof -
  have "isl (fst (edit codeUnitHost ''s1'' '' '' ''x'' 20 store1))" by code_simp
  then show ?thesis
    using mutateSafely_always_answers [of "edit codeUnitHost ''s1'' '' '' ''x'' 20" "''s1''" store1 codeUnitHost "''edit''" 20]
      edit.store_operation_axioms [of codeUnitHost "''s1''" "'' ''" "''x''" 20] storeInv_store1 trim_s1
    by (cases "fst (edit codeUnitHost ''s1'' '' '' ''x'' 20 store1)") auto
qed

end
