(* ===== verification/ResendQueue.thy ===== *)
theory ResendQueue
  imports QueueMachine
begin

text \<open>
  \<^verbatim>\<open>src/daemon/transport-resend-queue.ts\<close>, the messages held in memory while a provider is
  offline, each of them also a row of the queue store, and \<^verbatim>\<open>src/daemon/transport-queue-revision.ts\<close>,
  the version numbers old call sites still read. A thrown error is the left side of a sum, with
  the state it leaves behind.
\<close>

section \<open>Revisions\<close>

definition normalizeRevision :: "jsval \<Rightarrow> jsnum option" where
  "normalizeRevision v = (case v of
     Number (Num r) \<Rightarrow> if r \<ge> 0 then Some (Num (of_int \<lfloor>r\<rfloor>)) else None
   | _ \<Rightarrow> None)"

definition getTransportQueueRevision :: "jsHost \<Rightarrow> string \<Rightarrow> int \<Rightarrow> queueStore \<Rightarrow> jsnum option storeResult" where
  "getTransportQueueRevision h sessionName dateNow st =
     (case readSnapshotSafely h sessionName ''revision_shim'' dateNow st of
        (Inl e, st') \<Rightarrow> (Inl e, st')
      | (Inr snapshot, st') \<Rightarrow>
          (Inr (if sn_degradedReason snapshot \<noteq> None then None else Some (sn_pendingMessageVersion snapshot)), st'))"

definition bumpTransportQueueRevision :: "jsHost \<Rightarrow> string \<Rightarrow> int \<Rightarrow> queueStore \<Rightarrow> jsnum storeResult" where
  "bumpTransportQueueRevision h sessionName dateNow st =
     (case getTransportQueueRevision h sessionName dateNow st of
        (Inl e, st') \<Rightarrow> (Inl e, st')
      | (Inr v, st') \<Rightarrow> (Inr (case v of Some n \<Rightarrow> n | None \<Rightarrow> Num 0), st'))"

text \<open>The observed versions are remembered for a log line only: the answer is the committed one.\<close>

definition observeTransportQueueRevision :: "jsHost \<Rightarrow> string \<Rightarrow> jsval \<Rightarrow> int \<Rightarrow> (string, jsnum) jsmap \<times> queueStore
    \<Rightarrow> (storeError + jsnum) \<times> (string, jsnum) jsmap \<times> queueStore" where
  "observeTransportQueueRevision h sessionName observed dateNow = (\<lambda>(seen, st).
     let seen' = (case normalizeRevision observed of Some n \<Rightarrow> mapSet seen sessionName n | None \<Rightarrow> seen);
         (v, st') = bumpTransportQueueRevision h sessionName dateNow st
     in (v, seen', st'))"

definition clearTransportQueueRevision :: "string \<Rightarrow> (string, jsnum) jsmap \<Rightarrow> (string, jsnum) jsmap" where
  "clearTransportQueueRevision sessionName seen = mapDelete seen sessionName"

section \<open>The queues\<close>

definition RESEND_EXPIRY_MS :: int where "RESEND_EXPIRY_MS = 5 * 60 * 1000"

definition MAX_RESEND_ENTRIES :: nat where "MAX_RESEND_ENTRIES = 10"

record resendEntry =
  re_text :: string
  re_messagePreamble :: "string option"
  re_commandId :: string
  re_clientMessageId :: "string option"
  re_attachments :: "jsval list option"
  re_sharedActor :: "jsval option"
  re_timelineCommitted :: "bool option"
  re_historyCommitted :: "bool option"
  re_queuedAt :: int

record resendState =
  rq_queues :: "(string, resendEntry list) jsmap"
  rq_store :: queueStore

type_synonym 'a resendResult = "(storeError + 'a) \<times> resendState"

definition resendList :: "resendState \<Rightarrow> string \<Rightarrow> resendEntry list" where
  "resendList st sessionName = (case mapGet (rq_queues st) sessionName of Some l \<Rightarrow> l | None \<Rightarrow> [])"

definition isFresh :: "int \<Rightarrow> resendEntry \<Rightarrow> bool" where
  "isFresh now entry = (now - re_queuedAt entry \<le> RESEND_EXPIRY_MS)"

text \<open>The entry's client message id where it is a non-empty string.\<close>

definition usableId :: "resendEntry \<Rightarrow> string option" where
  "usableId entry = nonEmptyOpt (re_clientMessageId entry)"

definition truthyField :: "string \<Rightarrow> bool option \<Rightarrow> (string \<times> jsval) list" where
  "truthyField k v = (if v = Some True then [(k, Bool True)] else [])"

definition privateMaterial :: "resendEntry \<Rightarrow> jsval" where
  "privateMaterial e = Obj (
     optField ''clientMessageId'' Str (re_clientMessageId e)
     @ [(''text'', Str (re_text e))]
     @ optField ''messagePreamble'' Str (nonEmptyOpt (re_messagePreamble e))
     @ (case re_attachments e of Some (a # as) \<Rightarrow> [(''attachmentRefs'', Arr (a # as))] | _ \<Rightarrow> [])
     @ optField ''sharedActorEnvelope'' id (re_sharedActor e)
     @ truthyField ''timelineCommitted'' (re_timelineCommitted e)
     @ truthyField ''historyCommitted'' (re_historyCommitted e))"

definition resendInput :: "jsHost \<Rightarrow> string \<Rightarrow> resendEntry \<Rightarrow> enqueueInput" where
  "resendInput h sessionName e = \<lparr>eq_sessionName = sessionName, eq_text = re_text e,
     eq_clientMessageId = re_clientMessageId e, eq_commandId = Some (re_commandId e), eq_placement = None,
     eq_now = Some (re_queuedAt e), eq_activityGeneration = None, eq_replacesClientMessageId = None,
     eq_privateMaterialJson = Some (jsonText (numDigits h) (privateMaterial e))\<rparr>"

datatype resendOutcome =
    Resend_accepted bool jsnum queueSnapshot "queueSnapshot option"
  | Resend_rejected jsnum

definition admitResend :: "string \<Rightarrow> resendEntry list \<Rightarrow> resendEntry \<Rightarrow> queueSnapshot \<Rightarrow> queueSnapshot option
    \<Rightarrow> resendState \<Rightarrow> resendOutcome resendResult" where
  "admitResend sessionName list entry queueSnapshot dropSnapshot st =
     (let full = (length list \<ge> MAX_RESEND_ENTRIES) in
      (Inr (Resend_accepted full (sn_pendingMessageVersion queueSnapshot) queueSnapshot dropSnapshot),
       st\<lparr>rq_queues := mapSet (rq_queues st) sessionName ((if full then tl list else list) @ [entry])\<rparr>))"

definition rejectResend :: "jsHost \<Rightarrow> string \<Rightarrow> int \<Rightarrow> resendState \<Rightarrow> resendOutcome resendResult" where
  "rejectResend h sessionName dateNow st =
     (case bumpTransportQueueRevision h sessionName dateNow (rq_store st) of
        (Inl e, store) \<Rightarrow> (Inl e, st\<lparr>rq_store := store\<rparr>)
      | (Inr v, store) \<Rightarrow> (Inr (Resend_rejected v), st\<lparr>rq_store := store\<rparr>))"

definition enqueueResend :: "jsHost \<Rightarrow> string \<Rightarrow> resendEntry \<Rightarrow> int \<Rightarrow> resendState \<Rightarrow> resendOutcome resendResult" where
  "enqueueResend h sessionName entry dateNow st =
     (let list = resendList st sessionName;
          (clientMessageId, store0) = (case trimOpt (re_clientMessageId entry) of
             Some i \<Rightarrow> (i, rq_store st) | None \<Rightarrow> randomUUID (rq_store st));
          normalizedEntry = entry\<lparr>re_clientMessageId := Some clientMessageId\<rparr>;
          evicted = (if length list \<ge> MAX_RESEND_ENTRIES then re_clientMessageId (hd list) else None)
      in (case enqueueWithCapacityEviction h (resendInput h sessionName normalizedEntry) evicted dateNow store0 of
            (Inr result, store) \<Rightarrow>
              admitResend sessionName list normalizedEntry (er_queueSnapshot result) (er_dropSnapshot result)
                (st\<lparr>rq_store := store\<rparr>)
          | (Inl _, store) \<Rightarrow>
              (case readSnapshot h sessionName ''read'' None dateNow store of
                 (Inr existing, store') \<Rightarrow>
                   if list_ex (\<lambda>c. qp_clientMessageId c = clientMessageId) (sn_pendingMessageEntries existing)
                   then admitResend sessionName list normalizedEntry existing None (st\<lparr>rq_store := store'\<rparr>)
                   else rejectResend h sessionName dateNow (st\<lparr>rq_store := store'\<rparr>)
               | (Inl _, store') \<Rightarrow> rejectResend h sessionName dateNow (st\<lparr>rq_store := store'\<rparr>))))"

section \<open>Reading\<close>

definition getResendEntries :: "string \<Rightarrow> resendState \<Rightarrow> resendEntry list" where
  "getResendEntries sessionName st = resendList st sessionName"

definition getFreshResendEntries :: "string \<Rightarrow> int \<Rightarrow> resendState \<Rightarrow> resendEntry list" where
  "getFreshResendEntries sessionName now st = filter (isFresh now) (resendList st sessionName)"

definition listResendQueues :: "resendState \<Rightarrow> (string \<times> resendEntry list) list" where
  "listResendQueues st = rq_queues st"

definition listFreshResendQueues :: "int \<Rightarrow> resendState \<Rightarrow> (string \<times> resendEntry list) list" where
  "listFreshResendQueues now st =
     filter (\<lambda>q. snd q \<noteq> []) (map (\<lambda>(s, l). (s, filter (isFresh now) l)) (rq_queues st))"

definition getResendCount :: "string \<Rightarrow> resendState \<Rightarrow> nat" where
  "getResendCount sessionName st = length (resendList st sessionName)"

section \<open>Expiry and removal\<close>

text \<open>
  \<open>storeCall f\<close> runs a method of the store inside \<^verbatim>\<open>try\<close>/\<^verbatim>\<open>catch\<close> with a log line: the
  error, if any, is dropped.
\<close>

definition storeCall :: "(queueStore \<Rightarrow> 'a storeResult) \<Rightarrow> resendState \<Rightarrow> 'a option \<times> resendState" where
  "storeCall f st = (case f (rq_store st) of
     (Inl _, store) \<Rightarrow> (None, st\<lparr>rq_store := store\<rparr>)
   | (Inr r, store) \<Rightarrow> (Some r, st\<lparr>rq_store := store\<rparr>))"

fun markExpired :: "jsHost \<Rightarrow> string \<Rightarrow> int \<Rightarrow> queueSnapshot option \<Rightarrow> resendEntry list \<Rightarrow> resendState
    \<Rightarrow> queueSnapshot option \<times> resendState" where
  "markExpired h sessionName now snapshot [] st = (snapshot, st)"
| "markExpired h sessionName now snapshot (e # es) st = (case usableId e of
     None \<Rightarrow> markExpired h sessionName now snapshot es st
   | Some i \<Rightarrow>
       (case storeCall (markFailed h sessionName i Fr_expired now) st of
          (None, st') \<Rightarrow> markExpired h sessionName now snapshot es st'
        | (Some snap, st') \<Rightarrow> markExpired h sessionName now (Some snap) es st'))"

definition setQueue :: "string \<Rightarrow> resendEntry list \<Rightarrow> resendState \<Rightarrow> resendState" where
  "setQueue sessionName list st =
     st\<lparr>rq_queues := (if list = [] then mapDelete (rq_queues st) sessionName else mapSet (rq_queues st) sessionName list)\<rparr>"

definition bumpRevision :: "jsHost \<Rightarrow> string \<Rightarrow> int \<Rightarrow> resendState \<Rightarrow> jsnum resendResult" where
  "bumpRevision h sessionName dateNow st =
     (case bumpTransportQueueRevision h sessionName dateNow (rq_store st) of (v, store) \<Rightarrow> (v, st\<lparr>rq_store := store\<rparr>))"

definition expireResendEntries :: "jsHost \<Rightarrow> string \<Rightarrow> int \<Rightarrow> int \<Rightarrow> resendState \<Rightarrow> queueSnapshot option resendResult" where
  "expireResendEntries h sessionName now dateNow st =
     (let list = resendList st sessionName;
          freshEntries = filter (isFresh now) list;
          expiredEntries = filter (\<lambda>e. \<not> isFresh now e) list
      in if expiredEntries = [] then (Inr None, st)
         else (case bumpRevision h sessionName dateNow (setQueue sessionName freshEntries st) of
             (Inl e, st1) \<Rightarrow> (Inl e, st1)
           | (Inr _, st1) \<Rightarrow>
               (case markExpired h sessionName now None expiredEntries st1 of (snapshot, st2) \<Rightarrow> (Inr snapshot, st2))))"

fun dropRemoved :: "jsHost \<Rightarrow> string \<Rightarrow> int \<Rightarrow> resendEntry list \<Rightarrow> resendState \<Rightarrow> resendState" where
  "dropRemoved h sessionName dateNow [] st = st"
| "dropRemoved h sessionName dateNow (e # es) st = (case usableId e of
     None \<Rightarrow> dropRemoved h sessionName dateNow es st
   | Some i \<Rightarrow> dropRemoved h sessionName dateNow es
       (snd (storeCall (dropEntry h sessionName i Dr_user_cleared dateNow) st)))"

definition removeResendEntries :: "jsHost \<Rightarrow> string \<Rightarrow> (resendEntry \<Rightarrow> bool) \<Rightarrow> int \<Rightarrow> resendState \<Rightarrow> nat resendResult" where
  "removeResendEntries h sessionName predicate dateNow st =
     (let list = resendList st sessionName;
          kept = filter (\<lambda>e. \<not> predicate e) list;
          removed = length list - length kept
      in if removed = 0 then (Inr 0, st)
         else (case bumpRevision h sessionName dateNow (setQueue sessionName kept st) of
             (Inl e, st1) \<Rightarrow> (Inl e, st1)
           | (Inr _, st1) \<Rightarrow> (Inr removed, dropRemoved h sessionName dateNow (filter predicate list) st1)))"

datatype clearReason = Clear_reset queueResetReason | Clear_drop queueDropReason

definition clearResend :: "jsHost \<Rightarrow> string \<Rightarrow> clearReason \<Rightarrow> int \<Rightarrow> resendState \<Rightarrow> queueSnapshot option resendResult" where
  "clearResend h sessionName reason dateNow st =
     (if mapGet (rq_queues st) sessionName = None then (Inr None, st)
      else (case bumpRevision h sessionName dateNow st of
          (Inl e, st1) \<Rightarrow> (Inl e, st1)
        | (Inr _, st1) \<Rightarrow>
            (case storeCall (case reason of
                 Clear_reset r \<Rightarrow> reset h sessionName r dateNow None
               | Clear_drop r \<Rightarrow> dropAll h sessionName r dateNow) st1 of
               (snapshot, st2) \<Rightarrow> (Inr snapshot, setQueue sessionName [] st2))))"

section \<open>Draining\<close>

text \<open>
  The dispatcher is awaited: while it runs, anything may happen to the queues and the store. It
  is a function from an entry and a state to its result, the time it returns, and the state then.
\<close>

datatype dispatchResult = Dispatch_queued | Dispatch_delivered | Dispatch_threw

type_synonym resendDispatcher = "resendEntry \<Rightarrow> resendState \<Rightarrow> dispatchResult \<times> int \<times> resendState"

text \<open>What a drain did; \<open>dn_calls\<close> records the entries the dispatcher was called with.\<close>

record drainReport =
  dn_dispatched :: nat
  dn_expired :: nat
  dn_failed :: nat
  dn_calls :: "resendEntry list"
  dn_delivered :: "queueDeliveryFact list list"

definition emptyReport :: drainReport where
  "emptyReport = \<lparr>dn_dispatched = 0, dn_expired = 0, dn_failed = 0, dn_calls = [], dn_delivered = []\<rparr>"

definition drainExpired :: "jsHost \<Rightarrow> string \<Rightarrow> int \<Rightarrow> resendEntry \<Rightarrow> drainReport \<Rightarrow> resendState \<Rightarrow> drainReport \<times> resendState" where
  "drainExpired h sessionName now e r st = (case usableId e of
     None \<Rightarrow> (r, st)
   | Some i \<Rightarrow> (r\<lparr>dn_expired := dn_expired r + 1\<rparr>, snd (storeCall (markFailed h sessionName i Fr_expired now) st)))"

definition drainDispatched :: "jsHost \<Rightarrow> string \<Rightarrow> int \<Rightarrow> resendEntry \<Rightarrow> dispatchResult \<times> int \<times> resendState \<Rightarrow> drainReport
    \<Rightarrow> drainReport \<times> resendState" where
  "drainDispatched h sessionName now e outcome r0 =
     (let (result, dateNow, st) = outcome; r = r0\<lparr>dn_calls := dn_calls r0 @ [e]\<rparr> in
      case (result, usableId e) of
        (Dispatch_threw, None) \<Rightarrow> (r\<lparr>dn_failed := dn_failed r + 1\<rparr>, st)
      | (Dispatch_threw, Some i) \<Rightarrow>
          (r\<lparr>dn_failed := dn_failed r + 1\<rparr>, snd (storeCall (markFailed h sessionName i Fr_dispatch_failed now) st))
      | (_, None) \<Rightarrow> (r\<lparr>dn_failed := dn_failed r + 1\<rparr>, st)
      | (Dispatch_queued, Some i) \<Rightarrow> (r\<lparr>dn_dispatched := dn_dispatched r + 1\<rparr>, st)
      | (Dispatch_delivered, Some i) \<Rightarrow>
          (case storeCall (finalizeSentBatch h sessionName [i] None dateNow) st of
             (Some (_, f # fs), st') \<Rightarrow>
               (r\<lparr>dn_dispatched := dn_dispatched r + 1, dn_delivered := dn_delivered r @ [f # fs]\<rparr>, st')
           | (_, st') \<Rightarrow> (r\<lparr>dn_dispatched := dn_dispatched r + 1\<rparr>, st')))"

fun drainEntries :: "jsHost \<Rightarrow> string \<Rightarrow> int \<Rightarrow> resendDispatcher \<Rightarrow> resendEntry list \<Rightarrow> drainReport \<times> resendState
    \<Rightarrow> drainReport \<times> resendState" where
  "drainEntries h sessionName now dispatch [] acc = acc"
| "drainEntries h sessionName now dispatch (e # es) (r, st) =
     drainEntries h sessionName now dispatch es
       (if \<not> isFresh now e then drainExpired h sessionName now e r st
        else drainDispatched h sessionName now e (dispatch e st) r)"

definition drainResend :: "jsHost \<Rightarrow> string \<Rightarrow> resendDispatcher \<Rightarrow> int \<Rightarrow> resendState \<Rightarrow> drainReport resendResult" where
  "drainResend h sessionName dispatch now st =
     (let list = resendList st sessionName;
          freshEntries = filter (isFresh now) list;
          ids = List.map_filter usableId freshEntries
      in if list = [] \<or> length ids \<noteq> length freshEntries then (Inr emptyReport, st)
         else (case storeCall (markHandoffInFlight sessionName ids RESEND_EXPIRY_MS now) st of
             (None, st1) \<Rightarrow> (Inr emptyReport, st1)
           | (Some leased, st1) \<Rightarrow>
               if length leased \<noteq> length freshEntries then (Inr emptyReport, st1)
               else (case bumpRevision h sessionName now (setQueue sessionName [] st1) of
                   (Inl e, st2) \<Rightarrow> (Inl e, st2)
                 | (Inr _, st2) \<Rightarrow>
                     (case drainEntries h sessionName now dispatch list (emptyReport, st2) of
                        (r, st3) \<Rightarrow> (Inr r, st3)))))"

text \<open>
  Forgetting everything, for tests: under \<^verbatim>\<open>VITEST\<close> the store is closed too, and
  the next call opens the one given.
\<close>

definition clearAllTransportQueueRevisions :: "(string, jsnum) jsmap \<Rightarrow> (string, jsnum) jsmap" where
  "clearAllTransportQueueRevisions seen = []"

definition clearAllResend :: "queueStore option \<Rightarrow> (string, jsnum) jsmap \<times> resendState \<Rightarrow> (string, jsnum) jsmap \<times> resendState" where
  "clearAllResend testStore = (\<lambda>(seen, st). (clearAllTransportQueueRevisions seen,
     st\<lparr>rq_queues := [], rq_store := (case testStore of Some store \<Rightarrow> store | None \<Rightarrow> rq_store st)\<rparr>))"

section \<open>Preserving the queues of a runtime\<close>

text \<open>
  \<^verbatim>\<open>src/daemon/transport-resend-preservation.ts\<close>: before a runtime is replaced, the messages it is
  dispatching and those waiting in it move to the resend queue. \<open>clock n\<close> is the time of the
  \<open>n\<close>-th call of \<^verbatim>\<open>Date.now\<close>.
\<close>

record pendingMessage =
  pm_clientMessageId :: string
  pm_text :: string
  pm_messagePreamble :: "string option"
  pm_attachments :: "jsval list option"
  pm_sharedActor :: "jsval option"
  pm_timelineCommitted :: "bool option"
  pm_historyCommitted :: "bool option"

definition preservedEntry :: "pendingMessage \<Rightarrow> int \<Rightarrow> resendEntry" where
  "preservedEntry m dateNow = \<lparr>re_text = pm_text m, re_messagePreamble = nonEmptyOpt (pm_messagePreamble m),
     re_commandId = pm_clientMessageId m, re_clientMessageId = Some (pm_clientMessageId m),
     re_attachments = (case pm_attachments m of Some (a # as) \<Rightarrow> Some (a # as) | _ \<Rightarrow> None),
     re_sharedActor = pm_sharedActor m,
     re_timelineCommitted = (if pm_timelineCommitted m = Some True then Some True else None),
     re_historyCommitted = (if pm_historyCommitted m = Some True then Some True else None),
     re_queuedAt = dateNow\<rparr>"

text \<open>The command ids seen so far and the number of messages preserved are threaded through.\<close>

fun preserveEntries :: "jsHost \<Rightarrow> string \<Rightarrow> (nat \<Rightarrow> int) \<Rightarrow> pendingMessage list \<Rightarrow> string list \<Rightarrow> nat \<Rightarrow> resendState
    \<Rightarrow> (string list \<times> nat) resendResult" where
  "preserveEntries h sessionName clock [] seen n st = (Inr (seen, n), st)"
| "preserveEntries h sessionName clock (m # ms) seen n st =
     (if pm_clientMessageId m \<in> set seen then preserveEntries h sessionName clock ms seen n st
      else (case enqueueResend h sessionName (preservedEntry m (clock n)) (clock n) st of
          (Inl e, st') \<Rightarrow> (Inl e, st')
        | (Inr _, st') \<Rightarrow> preserveEntries h sessionName clock ms (pm_clientMessageId m # seen) (Suc n) st'))"

record preservationResult =
  pr_beforeCount :: nat
  pr_afterCount :: nat
  pr_preservedCount :: nat
  pr_activeCount :: nat
  pr_pendingCount :: nat

definition preserveTransportRuntimeQueuesToResend :: "jsHost \<Rightarrow> string \<Rightarrow> (nat \<Rightarrow> int) \<Rightarrow> pendingMessage list \<Rightarrow> pendingMessage list
    \<Rightarrow> resendState \<Rightarrow> preservationResult resendResult" where
  "preserveTransportRuntimeQueuesToResend h sessionName clock activeEntries pendingEntries st =
     (let seenCommandIds = map re_commandId (getResendEntries sessionName st) in
      case preserveEntries h sessionName clock activeEntries seenCommandIds 0 st of
        (Inl e, st1) \<Rightarrow> (Inl e, st1)
      | (Inr (seen, n), st1) \<Rightarrow>
          (case preserveEntries h sessionName clock pendingEntries seen n st1 of
             (Inl e, st2) \<Rightarrow> (Inl e, st2)
           | (Inr (_, preserved), st2) \<Rightarrow>
               (Inr \<lparr>pr_beforeCount = getResendCount sessionName st, pr_afterCount = getResendCount sessionName st2,
                  pr_preservedCount = preserved, pr_activeCount = length activeEntries,
                  pr_pendingCount = length pendingEntries\<rparr>, st2)))"

section \<open>What the operations keep\<close>

text \<open>A queue holds between one and ten entries, each with an id.\<close>

definition queueOk :: "string \<times> resendEntry list \<Rightarrow> bool" where
  "queueOk q = (snd q \<noteq> [] \<and> length (snd q) \<le> MAX_RESEND_ENTRIES \<and> list_all (\<lambda>e. usableId e \<noteq> None) (snd q))"

definition resendInv :: "resendState \<Rightarrow> bool" where
  "resendInv st \<longleftrightarrow> storeInv (rq_store st) \<and> distinct (mapKeys (rq_queues st)) \<and> list_all queueOk (rq_queues st)"

lemma resendInv_store [simp]: "resendInv (st\<lparr>rq_store := s\<rparr>) \<longleftrightarrow> storeInv s \<and> distinct (mapKeys (rq_queues st))
    \<and> list_all queueOk (rq_queues st)"
  by (simp add: resendInv_def)

lemma resendInv_setQueue [inv_intros]:
  assumes "resendInv st" and "list = [] \<or> queueOk (s, list)"
  shows "resendInv (setQueue s list st)"
  using assms set_AList_update [of s list "rq_queues st"] set_AList_delete [of s "rq_queues st"]
  by (auto simp: resendInv_def setQueue_def list_all_iff)

lemma resendList_ok: "resendInv st \<Longrightarrow> resendList st s = [] \<or> queueOk (s, resendList st s)"
  by (fastforce simp: resendInv_def resendList_def list_all_iff dest: map_of_SomeD split: option.split)

lemma queueOk_filter: "queueOk (s, l) \<Longrightarrow> filter P l = [] \<or> queueOk (s, filter P l)"
  by (auto simp: queueOk_def list_all_iff intro: order_trans [OF length_filter_le])

lemma storeCall_frame [simp]: "rq_queues (snd (storeCall f st)) = rq_queues st"
  by (auto simp: storeCall_def split: prod.split sum.split)

lemma storeCall_store: "rq_store (snd (storeCall f st)) = snd (f (rq_store st))"
  by (auto simp: storeCall_def split: prod.split sum.split)

lemma bump_store: "snd (bumpTransportQueueRevision h s dateNow st) = snd (readSnapshotSafely h s ''revision_shim'' dateNow st)"
  by (auto simp: bumpTransportQueueRevision_def getTransportQueueRevision_def split: prod.split sum.split)

lemma bumpRevision_state: "snd (bumpRevision h s dateNow st) = st\<lparr>rq_store := snd (bumpTransportQueueRevision h s dateNow (rq_store st))\<rparr>"
  by (simp add: bumpRevision_def case_prod_beta)

lemma bump_keeps [inv_intros]: "storeInv st \<Longrightarrow> storeInv (snd (bumpTransportQueueRevision h s dateNow st))"
  by (simp add: bump_store readSnapshotSafely.keeps_inv)

lemma bumpRevision_keeps [inv_intros]: "resendInv st \<Longrightarrow> resendInv (snd (bumpRevision h s dateNow st))"
  by (simp add: bumpRevision_state bump_keeps) (simp add: resendInv_def bump_keeps)

text \<open>A method of the store called under \<^verbatim>\<open>try\<close>.\<close>

context store_operation
begin

lemma storeCall_keeps: "resendInv st \<Longrightarrow> resendInv (snd (storeCall run st))"
  using keeps_inv [of "rq_store st"] by (simp add: resendInv_def storeCall_store)

end

lemmas storeCalls_keep [inv_intros] =
  markFailed.storeCall_keeps dropEntry.storeCall_keeps dropAll.storeCall_keeps reset.storeCall_keeps
  finalize.storeCall_keeps handoff.storeCall_keeps

lemma admit_keeps:
  assumes "storeInv (rq_store st')" and "resendInv st" and "rq_queues st' = rq_queues st" and "usableId e \<noteq> None"
  shows "resendInv (snd (admitResend s (resendList st s) e snap dsnap st'))"
proof -
  let ?l = "(if length (resendList st s) \<ge> MAX_RESEND_ENTRIES then tl (resendList st s) else resendList st s) @ [e]"
  have "queueOk (s, ?l)"
    using resendList_ok [OF assms(2), of s] assms(4)
    by (cases "resendList st s") (auto simp: queueOk_def MAX_RESEND_ENTRIES_def)
  then have "resendInv (setQueue s ?l st')"
    using assms(1-3) by (intro resendInv_setQueue) (simp_all add: resendInv_def)
  then show ?thesis by (simp add: admitResend_def Let_def setQueue_def)
qed

lemma reject_keeps: "resendInv st \<Longrightarrow> resendInv (snd (rejectResend h s dateNow st))"
  using bump_keeps [of "rq_store st" h s dateNow]
  by (auto simp: rejectResend_def resendInv_def split: prod.split sum.split)

lemma uuid_usable: "storeInv st \<Longrightarrow> fst (randomUUID st) \<noteq> []"
  by (simp add: storeInv_def uuidSupply_def randomUUID_def)

text \<open>The id an entry is given, and the store once it is drawn.\<close>

lemma resendId:
  assumes "storeInv st" and "(case trimOpt x of Some i \<Rightarrow> (i, st) | None \<Rightarrow> randomUUID st) = (i, st0)"
  shows "storeInv st0" and "nonEmptyOpt (Some i) \<noteq> None"
  using assms storeInv_drawn [OF assms(1)] uuid_usable [OF assms(1)] trimOpt_nonempty [of x]
  by (cases i; auto split: option.splits)+

lemma enqueueResend_keeps:
  assumes inv: "resendInv st"
  shows "resendInv (snd (enqueueResend h s e dateNow st))"
proof -
  obtain i s0 where id: "(case trimOpt (re_clientMessageId e) of Some i \<Rightarrow> (i, rq_store st) | None \<Rightarrow> randomUUID (rq_store st)) = (i, s0)"
    by force
  have store: "storeInv (rq_store st)" using inv by (simp add: resendInv_def)
  let ?n = "e\<lparr>re_clientMessageId := Some i\<rparr>"
  let ?ev = "if length (resendList st s) \<ge> MAX_RESEND_ENTRIES then re_clientMessageId (hd (resendList st s)) else None"
  let ?run = "enqueueWithCapacityEviction h (resendInput h s ?n) ?ev dateNow s0"
  let ?read = "readSnapshot h s ''read'' None dateNow (snd ?run)"
  have ok: "usableId ?n \<noteq> None" using resendId(2) [OF store id] by (simp add: usableId_def)
  have s1: "storeInv (snd ?run)" by (rule enqueueEvict.keeps_inv [OF resendId(1) [OF store id]])
  have s2: "storeInv (snd ?read)" by (rule readSnapshot.keeps_inv [OF s1])
  have adm: "resendInv (snd (admitResend s (resendList st s) ?n snap dsnap (st\<lparr>rq_store := x\<rparr>)))"
    and rej: "resendInv (snd (rejectResend h s dateNow (st\<lparr>rq_store := x\<rparr>)))" if "storeInv x" for x snap dsnap
    by (rule admit_keeps [OF _ inv _ ok]; simp add: that) (rule reject_keeps; use that inv in \<open>simp add: resendInv_def\<close>)
  obtain r1 t1 where run: "?run = (r1, t1)" by force
  obtain r2 t2 where read: "?read = (r2, t2)" by force
  show ?thesis
    using adm [of t1] adm [of t2] rej [of t2] s1 s2 run read
    by (cases r1; cases r2) (simp_all add: enqueueResend_def id Let_def)
qed

lemma markExpired_keeps: "resendInv st \<Longrightarrow> resendInv (snd (markExpired h s now snap es st))"
proof (induction h s now snap es st rule: markExpired.induct)
  case (2 h s now snap e es st)
  show ?case
  proof (cases "usableId e")
    case (Some i)
    have "resendInv (snd (storeCall (markFailed h s i Fr_expired now) st))" by (rule markFailed.storeCall_keeps [OF "2.prems"])
    then show ?thesis
      using "2.IH"(2,3) [OF Some] Some
      by (cases "storeCall (markFailed h s i Fr_expired now) st") (auto split: option.split)
  qed (use 2 in simp)
qed simp

lemma dropRemoved_keeps: "resendInv st \<Longrightarrow> resendInv (dropRemoved h s dateNow es st)"
  by (induction h s dateNow es st rule: dropRemoved.induct) (auto simp: dropEntry.storeCall_keeps split: option.split)

text \<open>Writing a filtered queue back and reading the revision.\<close>

lemma keepFiltered: "resendInv st \<Longrightarrow> resendInv (snd (bumpRevision h s dateNow (setQueue s (filter P (resendList st s)) st)))"
  using resendList_ok [of st s] queueOk_filter [of s "resendList st s" P]
  by (intro bumpRevision_keeps resendInv_setQueue) auto

lemma expireResend_keeps: "resendInv st \<Longrightarrow> resendInv (snd (expireResendEntries h s now dateNow st))"
  using keepFiltered [of st h s dateNow "isFresh now"]
  by (cases "bumpRevision h s dateNow (setQueue s (filter (isFresh now) (resendList st s)) st)")
    (simp add: expireResendEntries_def Let_def case_prod_beta markExpired_keeps split: sum.split)

lemma removeResend_keeps: "resendInv st \<Longrightarrow> resendInv (snd (removeResendEntries h s P dateNow st))"
  using keepFiltered [of st h s dateNow "\<lambda>e. \<not> P e"]
  by (cases "bumpRevision h s dateNow (setQueue s (filter (\<lambda>e. \<not> P e) (resendList st s)) st)")
    (simp add: removeResendEntries_def Let_def dropRemoved_keeps split: sum.split)

lemma clearResend_keeps:
  assumes inv: "resendInv st"
  shows "resendInv (snd (clearResend h s reason dateNow st))"
proof -
  obtain v st1 where bump: "bumpRevision h s dateNow st = (v, st1)" by force
  then have st1: "resendInv st1" using bumpRevision_keeps [OF inv, of h s dateNow] by simp
  have "resendInv (setQueue s [] (snd (storeCall (reset h s r dateNow None) st1)))"
    "resendInv (setQueue s [] (snd (storeCall (dropAll h s r' dateNow) st1)))" for r r'
    by (rule resendInv_setQueue; simp add: reset.storeCall_keeps dropAll.storeCall_keeps st1)+
  then show ?thesis
    using inv st1 by (cases reason) (simp_all add: clearResend_def bump case_prod_beta split: sum.split)
qed

end
