(* ===== verification/ResendProps.thy ===== *)
theory ResendProps
  imports ResendQueue QueueProps
begin

text \<open>
  The properties of the resend queue: what every sequence of operations keeps, and when a drain
  dispatches.
\<close>

section \<open>The lease a drain takes\<close>

lemma sessionIds_distinct: "storeInv st \<Longrightarrow> distinct (map er_clientMessageId (sessionRows s (st_db st)))"
  using dbInvD(1) [OF storeInv_dbInv] by (auto simp: sessionRows_def distinct_map inj_on_def rowKey_def)

lemma length_storedRows:
  assumes "db_meta db s = Some m"
  shows "length (filter (\<lambda>e. qs_clientMessageId e \<in> I) (storedRows s db))
    = length (filter (\<lambda>r. er_clientMessageId r \<in> I) (sessionRows s db))"
proof -
  have "mset (filter (\<lambda>r. er_clientMessageId r \<in> I) (sortedRows s db))
      = mset (filter (\<lambda>r. er_clientMessageId r \<in> I) (sessionRows s db))"
    by (simp add: sortedRows_def)
  then have "length (filter (\<lambda>r. er_clientMessageId r \<in> I) (sortedRows s db))
      = length (filter (\<lambda>r. er_clientMessageId r \<in> I) (sessionRows s db))"
    by (rule mset_eq_length)
  then show ?thesis using assms by (simp add: storedRows_def filter_map o_def storedEntry_def)
qed

lemma length_filter_ids:
  assumes "distinct (map f xs)"
  shows "length (filter (\<lambda>x. f x \<in> I) xs) = card (f ` set xs \<inter> I)"
proof -
  have "length (filter (\<lambda>x. f x \<in> I) xs) = card (set (filter (\<lambda>x. f x \<in> I) xs))"
    by (metis assms distinct_card distinct_filter distinct_map)
  also have "\<dots> = card (f ` set (filter (\<lambda>x. f x \<in> I) xs))"
    using assms by (intro card_image [symmetric]) (auto simp: distinct_map inj_on_def)
  also have "f ` set (filter (\<lambda>x. f x \<in> I) xs) = f ` set xs \<inter> I" by auto
  finally show ?thesis .
qed

lemma full_lease:
  "card (R \<inter> set ids) = length ids \<longleftrightarrow> distinct ids \<and> set ids \<subseteq> R"
proof
  assume eq: "card (R \<inter> set ids) = length ids"
  have "card (R \<inter> set ids) \<le> card (set ids)" by (rule card_mono) auto
  then have "card (set ids) = length ids" using eq card_length [of ids] by simp
  then show "distinct ids \<and> set ids \<subseteq> R"
    using eq card_subset_eq [of "set ids" "R \<inter> set ids"] card_distinct by auto
next
  assume "distinct ids \<and> set ids \<subseteq> R"
  then show "card (R \<inter> set ids) = length ids" by (simp add: Int_absorb1 distinct_card)
qed

definition sessionIds :: "string \<Rightarrow> queueStore \<Rightarrow> string set" where
  "sessionIds s st = er_clientMessageId ` set (sessionRows (trim s) (st_db st))"

text \<open>The whole list is leased iff the ids are distinct and every one of them is a row.\<close>

lemma lease_length:
  assumes inv: "storeInv st" and ok: "fst (markHandoffInFlight s ids lease now st) = Inr leased"
  shows "length leased = length ids \<longleftrightarrow> distinct ids \<and> set ids \<subseteq> sessionIds s st"
proof (rule handoff_cases [OF inv, of s ids lease now])
  fix st'
  assume h: "ids \<noteq> []" "trim s \<noteq> []" "st_fault st = None"
    and st': "st' = committed (trim s) now (handoffChange (trim s) ids (fst (randomUUID st)) lease now) (snd (randomUUID st))"
    and run: "markHandoffInFlight s ids lease now st = (Inr (handoffResult (trim s) ids (fst (randomUUID st)) (st_db st')), st')"
  have meta: "\<exists>m. db_meta (st_db st') (trim s) = Some m"
    by (simp add: st' committed_meta localChange_handoff)
  have inv': "storeInv st'" using handoff.keeps_inv [OF inv, of s ids lease now] run by simp
  have "sessionRows (trim s) (st_db st') = map (\<lambda>r. fold (\<lambda>i r. if isRow (trim s) i r then
      takeHandoff (fst (randomUUID st)) lease now r else r) ids r) (sessionRows (trim s) (st_db st))"
    using handoff_rows(1) [OF inv h(2,1,3), of lease now] run by simp
  then have ids: "er_clientMessageId ` set (sessionRows (trim s) (st_db st')) = sessionIds s st"
    by (simp add: sessionIds_def image_image fold_takeHandoff(2))
  have "length leased = card (sessionIds s st \<inter> set ids)"
    using ok run meta by (auto simp: handoffResult_def length_storedRows length_filter_ids sessionIds_distinct [OF inv'] ids)
  then show ?thesis by (simp add: full_lease)
qed (use ok in auto)

text \<open>The rows of a session whose message is in flight for this drain.\<close>

definition leasedUntil :: "string \<Rightarrow> int \<Rightarrow> queueStore \<Rightarrow> string set" where
  "leasedUntil s t st = er_clientMessageId ` {r \<in> set (sessionRows (trim s) (st_db st)).
     er_status r = St_handoff_inflight \<and> er_handoffExpiresAt r = Some t}"

lemma lease_rows:
  assumes inv: "storeInv st" and ok: "fst (markHandoffInFlight s ids lease now st) = Inr leased"
  shows "set ids \<inter> sessionIds s st \<subseteq> leasedUntil s (now + lease) (snd (markHandoffInFlight s ids lease now st))"
proof (cases "ids = []")
  case False
  have "trim s \<noteq> []" "st_fault st = None"
    by (rule handoff_cases [OF inv, of s ids lease now]; use ok False in auto)+
  note rows = handoff_rows(1) [OF inv this(1) False this(2), of lease now]
  have "er_sessionName r = trim s" if "r \<in> set (sessionRows (trim s) (st_db st))" for r
    using that by (simp add: sessionRows_def)
  then show ?thesis
    by (fastforce simp: leasedUntil_def sessionIds_def rows fold_takeHandoff image_iff)
qed simp

section \<open>What a drain does\<close>

lemma drainEntries_report:
  assumes "list_all (\<lambda>e. usableId e \<noteq> None) es" and "drainEntries h s now d es (r, st) = (r', st')"
  shows "dn_calls r' = dn_calls r @ filter (isFresh now) es
    \<and> dn_dispatched r' + dn_failed r' = dn_dispatched r + dn_failed r + length (filter (isFresh now) es)
    \<and> dn_expired r' = dn_expired r + length (filter (\<lambda>e. \<not> isFresh now e) es)"
  using assms
proof (induction es arbitrary: r st)
  case (Cons e es)
  let ?acc = "if \<not> isFresh now e then drainExpired h s now e r st else drainDispatched h s now e (d e st) r"
  obtain i where i: "usableId e = Some i" using Cons.prems(1) by auto
  obtain r1 st1 where acc: "?acc = (r1, st1)" by force
  obtain res t x where out: "d e st = (res, t, x)" by (metis prod_cases3)
  have "dn_calls r1 = dn_calls r @ filter (isFresh now) [e]
    \<and> dn_dispatched r1 + dn_failed r1 = dn_dispatched r + dn_failed r + length (filter (isFresh now) [e])
    \<and> dn_expired r1 = dn_expired r + length (filter (\<lambda>e. \<not> isFresh now e) [e])"
    using acc i out
    by (cases res) (auto simp: drainExpired_def drainDispatched_def Let_def split: if_splits option.splits list.splits prod.splits)
  moreover have "drainEntries h s now d es (r1, st1) = (r', st')" using Cons.prems(2) acc by simp
  ultimately show ?case using Cons.IH [of r1 st1] Cons.prems(1) by auto
qed simp

abbreviation freshIds :: "int \<Rightarrow> string \<Rightarrow> resendState \<Rightarrow> string list" where
  "freshIds now s st \<equiv> List.map_filter usableId (getFreshResendEntries s now st)"

lemma mapFilter_length: "list_all (\<lambda>x. f x \<noteq> None) xs \<Longrightarrow> length (List.map_filter f xs) = length xs"
  by (induction xs) (auto simp: List.map_filter_simps)

lemma resendList_ids: "resendInv st \<Longrightarrow> list_all (\<lambda>e. usableId e \<noteq> None) (resendList st s)"
  using resendList_ok [of st s] by (auto simp: queueOk_def)

lemma storeCall_eq:
  "f (rq_store st) = (Inr x, t) \<Longrightarrow> storeCall f st = (Some x, st\<lparr>rq_store := t\<rparr>)"
  "f (rq_store st) = (Inl e, t) \<Longrightarrow> storeCall f st = (None, st\<lparr>rq_store := t\<rparr>)"
  by (simp_all add: storeCall_def)

lemma bumpRevision_answers:
  assumes "storeInv (rq_store st)" and "trim s \<noteq> []"
  shows "\<exists>v st'. bumpRevision h s now st = (Inr v, st')"
  using readSnapshotSafely_fails_iff [OF assms(1), of h s "''revision_shim''" now] assms(2)
  by (cases "readSnapshotSafely h s ''revision_shim'' now (rq_store st)"; cases "fst (readSnapshotSafely h s ''revision_shim'' now (rq_store st))")
    (auto simp: bumpRevision_def bumpTransportQueueRevision_def getTransportQueueRevision_def)

text \<open>When the lease of every fresh entry is taken, and what follows.\<close>

definition leasable :: "int \<Rightarrow> string \<Rightarrow> resendState \<Rightarrow> bool" where
  "leasable now s st \<longleftrightarrow> trim s \<noteq> [] \<and> (freshIds now s st = [] \<or> st_fault (rq_store st) = None)
     \<and> distinct (freshIds now s st) \<and> set (freshIds now s st) \<subseteq> sessionIds s (rq_store st)"

lemma lease_cases:
  assumes inv: "storeInv st" and ids: "ids = freshIds now s q" and q: "rq_store q = st"
  shows "(\<exists>leased. fst (markHandoffInFlight s ids lease now st) = Inr leased \<and> length leased = length ids)
    \<longleftrightarrow> leasable now s q"
proof -
  have "(\<exists>leased. fst (markHandoffInFlight s ids lease now st) = Inr leased)
      \<longleftrightarrow> trim s \<noteq> [] \<and> (ids = [] \<or> st_fault st = None)"
    by (rule handoff_cases [OF inv, of s ids lease now]) auto
  then show ?thesis
    using lease_length [OF inv, of s ids lease now] by (auto simp: leasable_def ids [symmetric] q)
qed

lemma freshIds_length: "resendInv st \<Longrightarrow> length (freshIds now s st) = length (getFreshResendEntries s now st)"
  using resendList_ids [of st s] by (auto simp: getFreshResendEntries_def list_all_iff intro!: mapFilter_length)

text \<open>The check for missing ids never stops a drain.\<close>

lemma drainResend_eq:
  assumes inv: "resendInv st"
  shows "drainResend h s d now st = (if resendList st s = [] then (Inr emptyReport, st)
      else (case storeCall (markHandoffInFlight s (freshIds now s st) RESEND_EXPIRY_MS now) st of
             (None, st1) \<Rightarrow> (Inr emptyReport, st1)
           | (Some l, st1) \<Rightarrow>
               if length l \<noteq> length (filter (isFresh now) (resendList st s)) then (Inr emptyReport, st1)
               else (case bumpRevision h s now (setQueue s [] st1) of
                   (Inl e, st2) \<Rightarrow> (Inl e, st2)
                 | (Inr _, st2) \<Rightarrow>
                     (case drainEntries h s now d (resendList st s) (emptyReport, st2) of (r, st3) \<Rightarrow> (Inr r, st3)))))"
  using freshIds_length [OF inv, where now = now and s = s] unfolding getFreshResendEntries_def drainResend_def Let_def by simp

text \<open>C12: a drain is all or nothing. It dispatches exactly when the whole list of fresh
  entries can be leased: the session is named, the database works, the ids of the fresh entries are
  distinct and each of them is a row of the store. Then every fresh entry is handed to the dispatcher
  once and in order, after a lease until the entry's age limit was committed for each; every expired
  entry is counted and none of them is dispatched. Otherwise nothing is dispatched and every queue
  stays as it was: one duplicate id, or one entry whose row is gone, holds up all the others.\<close>

theorem drain_all_or_nothing:
  fixes now s h d
  assumes inv: "resendInv st"
  defines "ids \<equiv> freshIds now s st"
  defines "leased \<equiv> snd (markHandoffInFlight s ids RESEND_EXPIRY_MS now (rq_store st))"
  shows "\<exists>r. fst (drainResend h s d now st) = Inr r
    \<and> (if getResendEntries s st \<noteq> [] \<and> leasable now s st
       then dn_calls r = getFreshResendEntries s now st
         \<and> dn_dispatched r + dn_failed r = length ids
         \<and> dn_expired r = getResendCount s st - length ids
         \<and> set ids \<subseteq> leasedUntil s (now + RESEND_EXPIRY_MS) leased
       else r = emptyReport \<and> rq_queues (snd (drainResend h s d now st)) = rq_queues st)"
proof -
  let ?list = "resendList st s" and ?run = "markHandoffInFlight s ids RESEND_EXPIRY_MS now (rq_store st)"
  have store: "storeInv (rq_store st)" using inv by (simp add: resendInv_def)
  have len: "length ids = length (getFreshResendEntries s now st)" unfolding ids_def by (rule freshIds_length [OF inv])
  then have fresh: "length (filter (isFresh now) ?list) = length ids" by (simp add: getFreshResendEntries_def)
  have lease: "(\<exists>l. fst ?run = Inr l \<and> length l = length ids) \<longleftrightarrow> leasable now s st"
    by (rule lease_cases [OF store]) (simp_all add: ids_def)
  note drain = drainResend_eq [OF inv, of h s d now, folded ids_def]
  show ?thesis
  proof (cases "?list \<noteq> [] \<and> leasable now s st")
    case True
    then obtain l where l: "fst ?run = Inr l" "length l = length ids" using lease ids_def by auto
    have sub: "set ids \<subseteq> leasedUntil s (now + RESEND_EXPIRY_MS) leased"
      using lease_rows [OF store l(1)] True by (auto simp: leased_def leasable_def ids_def)
    let ?st1 = "st\<lparr>rq_store := snd ?run\<rparr>"
    have call: "storeCall (markHandoffInFlight s ids RESEND_EXPIRY_MS now) st = (Some l, ?st1)"
      by (rule storeCall_eq(1)) (metis l(1) prod.collapse)
    have "storeInv (rq_store (setQueue s [] ?st1))"
      using handoff.keeps_inv [OF store] by (simp add: setQueue_def)
    then obtain v st2 where bump: "bumpRevision h s now (setQueue s [] ?st1) = (Inr v, st2)"
      using bumpRevision_answers True by (metis leasable_def)
    obtain r st3 where run: "drainEntries h s now d ?list (emptyReport, st2) = (r, st3)" by force
    have "length (filter (\<lambda>e. \<not> isFresh now e) ?list) = length ?list - length ids"
      using sum_length_filter_compl [of "isFresh now" ?list] len by (simp add: getFreshResendEntries_def)
    note report = drainEntries_report [OF resendList_ids [OF inv] run, unfolded fresh this]
    have "drainResend h s d now st = (Inr r, st3)"
      using True by (simp only: drain call bump run l(2) fresh option.case prod.case sum.case if_False if_True not_True_eq_False simp_thms(6))
    then show ?thesis
      using True sub report
      by (auto simp: getResendEntries_def getResendCount_def getFreshResendEntries_def emptyReport_def)
  next
    case False
    have "fst (drainResend h s d now st) = Inr emptyReport \<and> rq_queues (snd (drainResend h s d now st)) = rq_queues st"
    proof (cases "?list = []")
      case list: False
      then have "\<not> (\<exists>l. fst ?run = Inr l \<and> length l = length ids)" using False lease ids_def by simp
      then show ?thesis
        using list by (cases ?run; cases "fst ?run") (auto simp: drain fresh storeCall_eq)
    qed (simp add: drain)
    then show ?thesis using False by (auto simp: getResendEntries_def)
  qed
qed

text \<open>Entries and states for the concrete instances.\<close>

definition resendOf :: "string \<Rightarrow> string \<Rightarrow> int \<Rightarrow> resendEntry" where
  "resendOf i txt t = \<lparr>re_text = txt, re_messagePreamble = None, re_commandId = ''c1'', re_clientMessageId = Some i,
     re_attachments = None, re_sharedActor = None, re_timelineCommitted = None, re_historyCommitted = None, re_queuedAt = t\<rparr>"

definition noResends :: "queueStore \<Rightarrow> resendState" where
  "noResends store = \<lparr>rq_queues = [], rq_store = store\<rparr>"

definition resendAll :: "resendEntry list \<Rightarrow> resendState" where
  "resendAll es = fold (\<lambda>e st. snd (enqueueResend codeUnitHost ''s1'' e 10 st)) es (noResends (openStore uuidOf))"

lemma resendInv_noResends: "storeInv store \<Longrightarrow> resendInv (noResends store)"
  by (simp add: noResends_def resendInv_def)

lemma resendInv_resendAll: "resendInv (resendAll es)"
proof -
  have "resendInv st \<Longrightarrow> resendInv (fold (\<lambda>e st. snd (enqueueResend codeUnitHost ''s1'' e 10 st)) es st)" for st
    by (induction es arbitrary: st) (simp_all add: enqueueResend_keeps)
  then show ?thesis
    by (simp add: resendAll_def resendInv_noResends storeInv_openStore uuidSupply_uuidOf)
qed

text \<open>Three messages of which two were sent under one id: the second is taken in because a live
  row already has its id, and from then on no drain dispatches anything.\<close>

theorem drain_all_or_nothing_witness:
  "getResendCount ''s1'' (resendAll [resendOf ''m1'' ''a'' 10, resendOf ''m1'' ''a'' 11, resendOf ''m2'' ''b'' 12]) = 3
   \<and> fst (drainResend codeUnitHost ''s1'' (\<lambda>e st. (Dispatch_delivered, 20, st)) 20
       (resendAll [resendOf ''m1'' ''a'' 10, resendOf ''m1'' ''a'' 11, resendOf ''m2'' ''b'' 12])) = Inr emptyReport
   \<and> (\<exists>r. fst (drainResend codeUnitHost ''s1'' (\<lambda>e st. (Dispatch_delivered, 20, st)) 20
       (resendAll [resendOf ''m1'' ''a'' 10, resendOf ''m2'' ''b'' 12])) = Inr r \<and> map re_text (dn_calls r) = [''a'', ''b''])"
proof -
  let ?d = "\<lambda>(e::resendEntry) st. (Dispatch_delivered, 20::int, st)"
  let ?dup = "resendAll [resendOf ''m1'' ''a'' 10, resendOf ''m1'' ''a'' 11, resendOf ''m2'' ''b'' 12]"
  let ?two = "resendAll [resendOf ''m1'' ''a'' 10, resendOf ''m2'' ''b'' 12]"
  have pre: "getResendCount ''s1'' ?dup = 3" "\<not> distinct (freshIds 20 ''s1'' ?dup)"
    "trim ''s1'' \<noteq> []" "st_fault (rq_store ?two) = None" "distinct (freshIds 20 ''s1'' ?two)"
    "list_all (\<lambda>i. i \<in> sessionIds ''s1'' (rq_store ?two)) (freshIds 20 ''s1'' ?two)"
    "getResendEntries ''s1'' ?two \<noteq> []" "map re_text (getFreshResendEntries ''s1'' 20 ?two) = [''a'', ''b'']"
    by code_simp+
  have "\<not> leasable 20 ''s1'' ?dup" "leasable 20 ''s1'' ?two"
    using pre by (auto simp: leasable_def list_all_iff)
  then show ?thesis
    using drain_all_or_nothing [OF resendInv_resendAll, of codeUnitHost "''s1''" ?d 20 "[resendOf ''m1'' ''a'' 10, resendOf ''m1'' ''a'' 11, resendOf ''m2'' ''b'' 12]"]
      drain_all_or_nothing [OF resendInv_resendAll, of codeUnitHost "''s1''" ?d 20 "[resendOf ''m1'' ''a'' 10, resendOf ''m2'' ''b'' 12]"] pre(1,7,8)
    by fastforce
qed

text \<open>
  A runtime that still holds a message the resend queue has under another command id: the second copy
  is counted as preserved and taken in under the same id.
\<close>

lemma preserved_twice:
  "(case preserveTransportRuntimeQueuesToResend codeUnitHost ''s1'' (\<lambda>_. 11) []
         [\<lparr>pm_clientMessageId = ''m1'', pm_text = ''a'', pm_messagePreamble = None, pm_attachments = None, pm_sharedActor = None,
           pm_timelineCommitted = None, pm_historyCommitted = None\<rparr>] (resendAll [resendOf ''m1'' ''a'' 10]) of
       (Inr r, st) \<Rightarrow> pr_preservedCount r = 1 \<and> map re_clientMessageId (getResendEntries ''s1'' st) = [Some ''m1'', Some ''m1'']
     | _ \<Rightarrow> False)"
  by code_simp

section \<open>What every sequence of operations keeps\<close>

text \<open>
  The states a daemon reaches: the operations of the resend queue in any order, methods of the store
  called by anyone else in between, and drains whose dispatcher does any of this while it is awaited.
\<close>

inductive resendRuns :: "jsHost \<Rightarrow> resendState \<Rightarrow> resendState \<Rightarrow> bool" for h where
  runs_start: "resendRuns h st st"
| runs_enqueue: "resendRuns h st st' \<Longrightarrow> resendRuns h st (snd (enqueueResend h s e t st'))"
| runs_expire: "resendRuns h st st' \<Longrightarrow> resendRuns h st (snd (expireResendEntries h s now t st'))"
| runs_remove: "resendRuns h st st' \<Longrightarrow> resendRuns h st (snd (removeResendEntries h s P t st'))"
| runs_clear: "resendRuns h st st' \<Longrightarrow> resendRuns h st (snd (clearResend h s reason t st'))"
| runs_store: "resendRuns h st st' \<Longrightarrow> storeStep h s r (rq_store st') out store \<Longrightarrow> resendRuns h st (st'\<lparr>rq_store := store\<rparr>)"
| runs_drain: "resendRuns h st st' \<Longrightarrow> (\<And>e x. resendRuns h x (snd (snd (d e x)))) \<Longrightarrow>
     resendRuns h st (snd (drainResend h s d now st'))"

lemma preserveEntries_runs: "resendRuns h st st' \<Longrightarrow> resendRuns h st (snd (preserveEntries h s clock ms seen n st'))"
proof (induction ms arbitrary: seen n st')
  case (Cons m ms)
  obtain r st1 where run: "enqueueResend h s (preservedEntry m (clock n)) (clock n) st' = (r, st1)" by force
  then have "resendRuns h st st1" using runs_enqueue [OF Cons.prems, of s "preservedEntry m (clock n)" "clock n"] by simp
  then show ?case using Cons run by (cases r) simp_all
qed simp

text \<open>Preserving the queues of a runtime is such a sequence.\<close>

lemma preserve_runs:
  assumes "resendRuns h st st'"
  shows "resendRuns h st (snd (preserveTransportRuntimeQueuesToResend h s clock active pending st'))"
proof -
  obtain r1 st1 where run: "preserveEntries h s clock active (map re_commandId (getResendEntries s st')) 0 st' = (r1, st1)"
    by force
  then have st1: "resendRuns h st st1" using preserveEntries_runs [OF assms] by (metis snd_conv)
  show ?thesis
    using st1 run preserveEntries_runs [OF st1, of s clock pending]
    by (cases r1) (auto simp: preserveTransportRuntimeQueuesToResend_def Let_def case_prod_beta split: sum.split)
qed

lemma drainExpired_keeps: "resendInv st \<Longrightarrow> resendInv (snd (drainExpired h s now e r st))"
  by (simp add: drainExpired_def markFailed.storeCall_keeps split: option.split)

lemma drainDispatched_keeps:
  assumes "resendInv (snd (snd out))"
  shows "resendInv (snd (drainDispatched h s now e out r))"
proof -
  obtain res t x where out: "out = (res, t, x)" by (metis prod_cases3)
  have x: "resendInv x" using assms out by simp
  have "resendInv x'" if "storeCall (finalizeSentBatch h s [i] None t) x = (y, x')" for i y x'
    using finalize.storeCall_keeps [OF x, of h s "[i]" None t] that by simp
  then show ?thesis
    by (auto simp: drainDispatched_def out Let_def x markFailed.storeCall_keeps
        split: dispatchResult.split option.split list.split prod.split)
qed

lemma drainEntries_keeps:
  assumes "\<And>e x. resendInv x \<Longrightarrow> resendInv (snd (snd (d e x)))"
  shows "resendInv (snd acc) \<Longrightarrow> resendInv (snd (drainEntries h s now d es acc))"
proof (induction es arbitrary: acc)
  case (Cons e es)
  then show ?case
    by (cases acc) (simp add: assms drainExpired_keeps drainDispatched_keeps)
qed simp

lemma drainResend_keeps:
  assumes inv: "resendInv st" and d: "\<And>e x. resendInv x \<Longrightarrow> resendInv (snd (snd (d e x)))"
  shows "resendInv (snd (drainResend h s d now st))"
proof -
  let ?ids = "List.map_filter usableId (filter (isFresh now) (resendList st s))"
  obtain l st1 where call: "storeCall (markHandoffInFlight s ?ids RESEND_EXPIRY_MS now) st = (l, st1)" by force
  have st1: "resendInv st1"
    using handoff.storeCall_keeps [OF inv, of s ?ids RESEND_EXPIRY_MS now] call by simp
  obtain v st2 where bump: "bumpRevision h s now (setQueue s [] st1) = (v, st2)" by force
  have st2: "resendInv st2"
    using bumpRevision_keeps [OF resendInv_setQueue [OF st1, of "[]" s], of h s now] bump by simp
  show ?thesis
    using drainEntries_keeps [where d = d and acc = "(emptyReport, st2)", OF d] st1 st2 inv
    by (simp add: drainResend_def Let_def call bump case_prod_beta split: option.split sum.split)
qed

lemma resendRuns_keeps: "resendRuns h st st' \<Longrightarrow> resendInv st \<Longrightarrow> resendInv st'"
proof (induction rule: resendRuns.induct)
  case (runs_store st st' s r out store)
  then show ?case using storeStep_inv by (auto simp: resendInv_def)
qed (simp_all add: enqueueResend_keeps expireResend_keeps removeResend_keeps clearResend_keeps drainResend_keeps)

text \<open>whatever the daemon does, a session never has more than ten messages waiting, every
  one of them has an id, no session is listed without a message, and the
  tables of the store stay sound.\<close>

theorem resend_bounded:
  assumes "uuidSupply u" and "resendRuns h (noResends (openStore u)) st"
  shows "getResendCount s st \<le> MAX_RESEND_ENTRIES
    \<and> (\<forall>e\<in>set (getResendEntries s st). usableId e \<noteq> None)
    \<and> (\<forall>q\<in>set (listResendQueues st). snd q \<noteq> []) \<and> storeInv (rq_store st)"
proof -
  have inv: "resendInv st"
    by (rule resendRuns_keeps [OF assms(2) resendInv_noResends [OF storeInv_openStore [OF assms(1)]]])
  show ?thesis
    using inv resendList_ok [OF inv, of s]
    by (auto simp: getResendCount_def getResendEntries_def listResendQueues_def resendInv_def queueOk_def list_all_iff)
qed

abbreviation elevenResends :: resendState where
  "elevenResends \<equiv> resendAll (map (\<lambda>n. resendOf (replicate (Suc n) CHR ''m'') ''a'' 10) [0..<11])"

lemma resendAll_runs: "resendRuns codeUnitHost (noResends (openStore uuidOf)) (resendAll es)"
proof -
  have "resendRuns codeUnitHost x st \<Longrightarrow>
      resendRuns codeUnitHost x (fold (\<lambda>e st. snd (enqueueResend codeUnitHost ''s1'' e 10 st)) es st)" for x st
    by (induction es arbitrary: st) (simp_all add: runs_enqueue)
  then show ?thesis by (simp add: resendAll_def runs_start)
qed

theorem resend_bounded_witness: "getResendCount ''s1'' elevenResends \<le> 10 \<and> storeInv (rq_store elevenResends)"
  using resend_bounded [OF uuidSupply_uuidOf resendAll_runs, of "''s1''" "map (\<lambda>n. resendOf (replicate (Suc n) CHR ''m'') ''a'' 10) [0..<11]"]
  by (simp add: MAX_RESEND_ENTRIES_def)

section \<open>Taking a message in\<close>

lemma trimOpt_trimmed: "trimOpt x = Some i \<Longrightarrow> trim i = i"
  by (cases "map_option trim x" rule: nonEmptyOpt.cases) (auto simp: trimOpt_def, metis trim_idem)

lemma enqueued_row:
  assumes inv: "storeInv st" and i: "eq_clientMessageId input = Some i" "trim i = i" "i \<noteq> []"
    and ok: "fst (enqueueWithCapacityEviction h input ev t st) = Inr r"
  shows "i \<in> sessionIds (eq_sessionName input) (snd (enqueueWithCapacityEviction h input ev t st))"
proof -
  have s: "trim (eq_sessionName input) \<noteq> []"
    using ok enqueue_reject [of input _ h ev t st] by (auto simp: normalizeSessionName_def split: if_splits)
  have "chooseId input st = (i, st)" using nonEmptyOpt_trim [OF i(2,3)] by (simp add: chooseId_def i(1))
  then have id: "fst (chooseId input st) = i" by simp
  show ?thesis
  proof (rule enqueue_cases [OF s inv, of h ev t])
    let ?st' = "enqueuedStore (trim (eq_sessionName input)) (fst (chooseId input st)) (trimOpt ev) input
      (nowMs (eq_now input) t) (snd (chooseId input st))"
    fix x
    assume "enqueueWithCapacityEviction h input ev t st = (Inr x, ?st')"
    then show ?thesis
      by (simp only: snd_conv sessionIds_def sessionRows_def enqueuedStore_frame id) (simp add: newRow_def)
  qed (use ok in simp_all)
qed

lemma projected_ids:
  "c \<in> set (projectEntries h keep (storedRows s db)) \<Longrightarrow> qp_clientMessageId c \<in> er_clientMessageId ` set (sessionRows s db)"
  by (auto simp: projectEntries_def storedRows_def sortedRows_def buildQueueProjectionEntry_def storedEntry_def split: option.splits)

lemma read_row:
  assumes inv: "storeInv st" and ok: "fst (readSnapshot h s src None t st) = Inr snap" and c: "c \<in> set (sn_pendingMessageEntries snap)"
  shows "qp_clientMessageId c \<in> sessionIds s (snd (readSnapshot h s src None t st))"
proof -
  have s: "trim s \<noteq> []" and fault: "st_fault st = None"
    using ok readSnapshot_fails(2) [of st _ h s src None t] by (auto simp: readSnapshot_def normalizeSessionName_def split: if_splits) (cases "st_fault st"; force)
  have "readSnapshot h s src None t st = readSnapshot h (trim s) src None t st"
    using s by (simp add: readSnapshot_def normalizeSessionName_def)
  then show ?thesis
    using ok c readSnapshot_none [OF trim_idem s fault inv, of h src t]
    by (auto simp: sessionIds_def buildSnapshot_def dest!: projected_ids)
qed

text \<open>C19: a message is taken in last in its session's queue, under the sender's id where there
  is one, and only when a row of the store has that id; the oldest message makes room exactly when ten
  are waiting. A message that is not taken in leaves the queue as it was, and no queue of another
  session changes.\<close>

theorem accepted_message_backed:
  assumes inv: "resendInv st" and uuid: "\<forall>n. trim (st_uuid (rq_store st) n) = st_uuid (rq_store st) n"
  shows "case enqueueResend h s e t st of
      (Inr (Resend_accepted dropped v snap dsnap), st') \<Rightarrow>
        (\<exists>i. i \<in> sessionIds s (rq_store st') \<and> (\<forall>j. trimOpt (re_clientMessageId e) = Some j \<longrightarrow> i = j)
          \<and> getResendEntries s st' = (if dropped then tl (getResendEntries s st) else getResendEntries s st)
              @ [e\<lparr>re_clientMessageId := Some i\<rparr>])
        \<and> (dropped \<longleftrightarrow> getResendCount s st = MAX_RESEND_ENTRIES)
        \<and> (\<forall>s'. s' \<noteq> s \<longrightarrow> getResendEntries s' st' = getResendEntries s' st)
    | (_, st') \<Rightarrow> rq_queues st' = rq_queues st"
proof -
  obtain i s0 where id: "(case trimOpt (re_clientMessageId e) of Some i \<Rightarrow> (i, rq_store st) | None \<Rightarrow> randomUUID (rq_store st)) = (i, s0)"
    by force
  have store: "storeInv (rq_store st)" using inv by (simp add: resendInv_def)
  have i: "trim i = i" "i \<noteq> []" "\<forall>j. trimOpt (re_clientMessageId e) = Some j \<longrightarrow> i = j"
    using id uuid resendId(2) [OF store id] trimOpt_trimmed
    by (auto simp: randomUUID_def split: option.splits)
  let ?l = "resendList st s" and ?n = "e\<lparr>re_clientMessageId := Some i\<rparr>"
  let ?ev = "if length ?l \<ge> MAX_RESEND_ENTRIES then re_clientMessageId (hd ?l) else None"
  obtain r1 t1 where run: "enqueueWithCapacityEviction h (resendInput h s ?n) ?ev t s0 = (r1, t1)" by force
  obtain r2 t2 where read: "readSnapshot h s ''read'' None t t1 = (r2, t2)" by force
  have t1: "storeInv t1" using enqueueEvict.keeps_inv [OF resendId(1) [OF store id]] run by (metis snd_conv)
  have row1: "i \<in> sessionIds s t1" if "r1 = Inr x" for x
    using enqueued_row [OF resendId(1) [OF store id], of "resendInput h s ?n" i h ?ev t x] run i that
    by (simp add: resendInput_def)
  have row2: "i \<in> sessionIds s t2" if "r2 = Inr x" "list_ex (\<lambda>c. qp_clientMessageId c = i) (sn_pendingMessageEntries x)" for x
    using read_row [OF t1, of h s "''read''" t x] read that by (auto simp: list_ex_iff)
  have full: "length ?l \<ge> MAX_RESEND_ENTRIES \<longleftrightarrow> getResendCount s st = MAX_RESEND_ENTRIES"
    using resendList_ok [OF inv, of s] by (auto simp: queueOk_def getResendCount_def MAX_RESEND_ENTRIES_def)
  let ?ok = "\<lambda>out. case out of
      (Inr (Resend_accepted dropped v snap dsnap), st') \<Rightarrow>
        (\<exists>i. i \<in> sessionIds s (rq_store st') \<and> (\<forall>j. trimOpt (re_clientMessageId e) = Some j \<longrightarrow> i = j)
          \<and> getResendEntries s st' = (if dropped then tl (getResendEntries s st) else getResendEntries s st)
              @ [e\<lparr>re_clientMessageId := Some i\<rparr>])
        \<and> (dropped \<longleftrightarrow> getResendCount s st = MAX_RESEND_ENTRIES)
        \<and> (\<forall>s'. s' \<noteq> s \<longrightarrow> getResendEntries s' st' = getResendEntries s' st)
    | (_, st') \<Rightarrow> rq_queues st' = rq_queues st"
  have adm: "?ok (admitResend s ?l ?n snap dsnap (st\<lparr>rq_store := x\<rparr>))" if "i \<in> sessionIds s x" for x snap dsnap
    using that i(3) by (auto simp: admitResend_def Let_def full full [unfolded resendList_def] getResendEntries_def resendList_def)
  have rej: "?ok (rejectResend h s t (st\<lparr>rq_store := x\<rparr>))" for x
    by (auto simp: rejectResend_def split: prod.split sum.split)
  show ?thesis
  proof (cases r1)
    case (Inr x)
    then show ?thesis using adm [OF row1 [OF Inr]] by (simp add: enqueueResend_def id Let_def run)
  next
    case (Inl x)
    then show ?thesis
      using adm [OF row2] rej
      by (cases r2) (simp_all add: enqueueResend_def id Let_def run read)
  qed
qed

lemma trim_uuidOf: "trim (uuidOf n) = uuidOf n"
proof -
  have "\<not> isSpace (CHR ''u'')" by code_simp
  then have "dropWhile isSpace (replicate (Suc n) (CHR ''u'')) = replicate (Suc n) (CHR ''u'')" by simp
  then show ?thesis by (simp add: trim_def uuidOf_def del: replicate_Suc)
qed

text \<open>A message sent without an id.\<close>

theorem accepted_message_backed_witness:
  "\<exists>i st'. snd (enqueueResend codeUnitHost ''s1'' (resendOf ''  '' ''hi'' 10) 10 (noResends (openStore uuidOf))) = st'
     \<and> i \<in> sessionIds ''s1'' (rq_store st') \<and> getResendEntries ''s1'' st' = [resendOf i ''hi'' 10]"
proof -
  let ?st = "noResends (openStore uuidOf)"
  let ?run = "enqueueResend codeUnitHost ''s1'' (resendOf ''  '' ''hi'' 10) 10 ?st"
  have uuid: "\<forall>n. trim (st_uuid (rq_store ?st) n) = st_uuid (rq_store ?st) n"
    by (simp add: noResends_def openStore_def trim_uuidOf)
  have "case ?run of (Inr (Resend_accepted dropped v snap dsnap), st') \<Rightarrow> \<not> dropped | _ \<Rightarrow> False"
    by code_simp
  moreover have "getResendEntries ''s1'' ?st = []" by code_simp
  ultimately show ?thesis
    using accepted_message_backed [OF resendInv_noResends [OF storeInv_openStore [OF uuidSupply_uuidOf]] uuid,
      where h = codeUnitHost and s = "''s1''" and e = "resendOf ''  '' ''hi'' 10" and t = 10]
    by (cases ?run) (auto simp: resendOf_def split: sum.splits resendOutcome.splits)
qed

end
