(* ===== verification/AckOutbox.thy ===== *)
theory AckOutbox
  imports QueueTypes
begin

text \<open>
  The acknowledgements the daemon owes to the browser (\<^verbatim>\<open>src/daemon/ack-outbox.ts\<close>, with the
  constants of \<^verbatim>\<open>shared/ack-protocol.ts\<close>, and the two functions of
  \<^verbatim>\<open>src/daemon/command-handler.ts\<close> that emit one). The entries of the map are objects that the
  map, a running flush and the records waiting to be written share, so they live in a heap and are
  named by their addresses. A record is turned into text when it is written, not when it is queued.
\<close>

section \<open>Entries, records and the outbox\<close>

definition ACK_OUTBOX_TTL_MS :: int where "ACK_OUTBOX_TTL_MS = 10 * 60000"

definition ACK_OUTBOX_MAX_ATTEMPTS :: int where "ACK_OUTBOX_MAX_ATTEMPTS = 10"

definition MSG_COMMAND_ACK :: string where "MSG_COMMAND_ACK = ''command.ack''"

record ackOutboxEntry =
  ao_commandId :: string
  ao_sessionName :: string
  ao_status :: string
  ao_error :: "string option"
  ao_extras :: "(string \<times> jsval) list option"
  ao_ts :: int
  ao_attempts :: int

datatype diskRecord = EntryRecord ackOutboxEntry | AckRecord string

text \<open>A line of the file: a record, or text that does not parse, such as a line cut short by a crash.\<close>

datatype diskLine = RecordLine diskRecord | BrokenLine

text \<open>A record waiting to be written holds the entry object itself.\<close>

datatype queuedRecord = QueuedEntry nat | QueuedAck string

text \<open>
  \<open>ob_writing\<close> is the chain of appends not yet carried out, \<open>ob_settled\<close> how the earlier
  ones ended, in order. The promise of an append is its number in that order.
\<close>

record ackOutbox =
  ob_heap :: "ackOutboxEntry list"
  ob_entries :: "(string, nat) jsmap"
  ob_file :: "diskLine list option"
  ob_writing :: "queuedRecord list"
  ob_settled :: "bool list"
  ob_initialized :: bool

definition newAckOutbox :: "diskLine list option \<Rightarrow> ackOutbox" where
  "newAckOutbox file = \<lparr>ob_heap = [], ob_entries = [], ob_file = file, ob_writing = [], ob_settled = [], ob_initialized = False\<rparr>"

definition outboxSize :: "ackOutbox \<Rightarrow> nat" where
  "outboxSize st = length (ob_entries st)"

definition outboxSnapshot :: "ackOutbox \<Rightarrow> ackOutboxEntry list" where
  "outboxSnapshot st = map (\<lambda>(i, a). ob_heap st ! a) (ob_entries st)"

section \<open>Writing\<close>

definition appendRecord :: "queuedRecord \<Rightarrow> ackOutbox \<Rightarrow> nat \<times> ackOutbox" where
  "appendRecord r st = (length (ob_settled st) + length (ob_writing st), st\<lparr>ob_writing := ob_writing st @ [r]\<rparr>)"

fun recordText :: "ackOutboxEntry list \<Rightarrow> queuedRecord \<Rightarrow> diskRecord" where
  "recordText heap (QueuedEntry a) = EntryRecord (heap ! a)"
| "recordText heap (QueuedAck i) = AckRecord i"

text \<open>The next append of the chain runs; a failed one writes nothing and the chain goes on.\<close>

definition writeNext :: "bool \<Rightarrow> ackOutbox \<Rightarrow> ackOutbox" where
  "writeNext ok st = (case ob_writing st of
     [] \<Rightarrow> st
   | r # rs \<Rightarrow> st\<lparr>ob_writing := rs, ob_settled := ob_settled st @ [ok],
       ob_file := (if ok then Some ((case ob_file st of Some ls \<Rightarrow> ls | None \<Rightarrow> []) @ [RecordLine (recordText (ob_heap st) r)])
                   else ob_file st)\<rparr>)"

definition settledAs :: "ackOutbox \<Rightarrow> nat \<Rightarrow> bool option" where
  "settledAs st t = (if t < length (ob_settled st) then Some (ob_settled st ! t) else None)"

section \<open>Enqueueing and acknowledging\<close>

definition enqueueAck :: "ackOutboxEntry \<Rightarrow> int option \<Rightarrow> ackOutbox \<Rightarrow> nat \<times> ackOutbox" where
  "enqueueAck entry attempts st =
     (let full = entry\<lparr>ao_attempts := (case attempts of Some n \<Rightarrow> n | None \<Rightarrow> 0)\<rparr>;
          a = length (ob_heap st)
      in appendRecord (QueuedEntry a)
           (st\<lparr>ob_heap := ob_heap st @ [full], ob_entries := mapSet (ob_entries st) (ao_commandId full) a\<rparr>))"

text \<open>None is a promise that is resolved already.\<close>

definition markAcked :: "string \<Rightarrow> ackOutbox \<Rightarrow> nat option \<times> ackOutbox" where
  "markAcked commandId st =
     (if \<not> mapHas (ob_entries st) commandId then (None, st)
      else (let (t, st') = appendRecord (QueuedAck commandId) (st\<lparr>ob_entries := mapDelete (ob_entries st) commandId\<rparr>)
            in (Some t, st')))"

text \<open>
  Object spread and assignment by name, for names other than \<^verbatim>\<open>__proto__\<close>: the members of the second
  list overwrite those of the first in place.
\<close>

fun spreadInto :: "(string \<times> jsval) list \<Rightarrow> (string \<times> jsval) list \<Rightarrow> (string \<times> jsval) list" where
  "spreadInto obj [] = obj"
| "spreadInto obj ((k, v) # kvs) = spreadInto (mapSet obj k v) kvs"

record ackParams =
  ap_commandId :: string
  ap_sessionName :: string
  ap_status :: string
  ap_error :: "string option"
  ap_others :: "(string \<times> jsval) list"

datatype ackLink = No_link | Link_trySend "jsval \<Rightarrow> bool" | Link_send "jsval \<Rightarrow> bool"

text \<open>\<open>Link_send f\<close>: a link without \<^verbatim>\<open>trySend\<close>, whose \<^verbatim>\<open>send\<close> throws where \<open>f\<close> is False.\<close>

definition wireAck :: "ackParams \<Rightarrow> jsval" where
  "wireAck p = Obj (spreadInto
     ([(''type'', Str MSG_COMMAND_ACK), (''commandId'', Str (ap_commandId p)), (''status'', Str (ap_status p)),
       (''session'', Str (ap_sessionName p))] @ optField ''error'' Str (nonEmptyOpt (ap_error p)))
     (filter (\<lambda>(k, v). v \<noteq> Undef) (ap_others p)))"

definition trySendCommandAck :: "ackLink \<Rightarrow> ackParams \<Rightarrow> bool" where
  "trySendCommandAck serverLink p = (case serverLink of
     No_link \<Rightarrow> False | Link_trySend f \<Rightarrow> f (wireAck p) | Link_send f \<Rightarrow> f (wireAck p))"

definition reliableEntry :: "ackParams \<Rightarrow> int \<Rightarrow> ackOutboxEntry" where
  "reliableEntry p dateNow = \<lparr>ao_commandId = ap_commandId p, ao_sessionName = ap_sessionName p, ao_status = ap_status p,
     ao_error = nonEmptyOpt (ap_error p), ao_extras = Some (filter (\<lambda>(k, v). v \<noteq> Undef) (ap_others p)),
     ao_ts = dateNow, ao_attempts = 0\<rparr>"

definition emitCommandAckReliable :: "ackLink \<Rightarrow> ackParams \<Rightarrow> int \<Rightarrow> ackOutbox \<Rightarrow> ackOutbox" where
  "emitCommandAckReliable serverLink p dateNow st =
     (let st1 = snd (enqueueAck (reliableEntry p dateNow) None st)
      in if trySendCommandAck serverLink p then snd (markAcked (ap_commandId p) st1) else st1)"

definition emitCommandAck :: "string \<Rightarrow> string \<Rightarrow> string \<Rightarrow> string option \<Rightarrow> ackLink \<Rightarrow> int \<Rightarrow> ackOutbox \<Rightarrow> ackOutbox" where
  "emitCommandAck sessionName commandId status err serverLink dateNow st =
     (let st1 = snd (enqueueAck \<lparr>ao_commandId = commandId, ao_sessionName = sessionName, ao_status = status,
            ao_error = err, ao_extras = None, ao_ts = dateNow, ao_attempts = 0\<rparr> None st)
      in if trySendCommandAck serverLink \<lparr>ap_commandId = commandId, ap_sessionName = sessionName, ap_status = status,
              ap_error = err, ap_others = []\<rparr>
         then snd (markAcked commandId st1) else st1)"

section \<open>Flushing\<close>

definition flushMessage :: "ackOutboxEntry \<Rightarrow> jsval" where
  "flushMessage e = Obj (spreadInto
     ([(''type'', Str MSG_COMMAND_ACK), (''commandId'', Str (ao_commandId e)), (''status'', Str (ao_status e)),
       (''session'', Str (ao_sessionName e))] @ optField ''error'' Str (nonEmptyOpt (ao_error e)))
     (case ao_extras e of Some x \<Rightarrow> x | None \<Rightarrow> []))"

datatype sendResult = Send_true | Send_false | Send_threw

text \<open>
  Where a running flush stands: before its next entry, or waiting for an append. The flush and the
  rest of the daemon take turns at these points.
\<close>

datatype flushState =
    Flush_at "nat list"
  | Flush_dropping "nat option" "nat list"
  | Flush_acking "nat option" nat "nat list"
  | Flush_saving nat nat
  | Flush_catching nat
  | Flush_done
  | Flush_threw

definition flushStart :: "ackOutbox \<Rightarrow> flushState" where
  "flushStart st = Flush_at (sortBy (\<lambda>a b. ao_ts (ob_heap st ! a) \<le> ao_ts (ob_heap st ! b)) (map snd (ob_entries st)))"

definition countAttempt :: "nat \<Rightarrow> ackOutbox \<Rightarrow> ackOutbox" where
  "countAttempt a st = st\<lparr>ob_heap := (ob_heap st)[a := (ob_heap st ! a)\<lparr>ao_attempts := ao_attempts (ob_heap st ! a) + 1\<rparr>]\<rparr>"

definition persistAttempt :: "nat \<Rightarrow> (nat \<Rightarrow> flushState) \<Rightarrow> ackOutbox \<Rightarrow> flushState \<times> ackOutbox" where
  "persistAttempt a next st = (let (t, st') = appendRecord (QueuedEntry a) st in (next t, st'))"

text \<open>
  One turn of the flush, for a link that is connected or not and a sender that answers a message;
  the second component is the entry handed to the sender, if any.
\<close>

definition flushStep :: "bool \<Rightarrow> (jsval \<Rightarrow> sendResult) \<Rightarrow> flushState \<Rightarrow> ackOutbox \<Rightarrow> flushState \<times> nat option \<times> ackOutbox" where
  "flushStep isConnected send f st = (case f of
     Flush_at [] \<Rightarrow> (Flush_done, None, st)
   | Flush_at (a # as) \<Rightarrow>
       (let entry = ob_heap st ! a in
        if ao_attempts entry \<ge> ACK_OUTBOX_MAX_ATTEMPTS
        then (let (t, st') = markAcked (ao_commandId entry) st in (Flush_dropping t as, None, st'))
        else if \<not> isConnected then (Flush_done, None, st)
        else (let st1 = countAttempt a st in
              case send (flushMessage entry) of
                Send_true \<Rightarrow> (let (t, st2) = markAcked (ao_commandId entry) st1 in (Flush_acking t a as, Some a, st2))
              | Send_false \<Rightarrow> (let (n, st2) = persistAttempt a (\<lambda>t. Flush_saving t a) st1 in (n, Some a, st2))
              | Send_threw \<Rightarrow> (let (n, st2) = persistAttempt a Flush_catching st1 in (n, Some a, st2))))
   | Flush_dropping None as \<Rightarrow> (Flush_at as, None, st)
   | Flush_dropping (Some t) as \<Rightarrow> (case settledAs st t of
         None \<Rightarrow> (f, None, st)
       | Some ok \<Rightarrow> (if ok then Flush_at as else Flush_threw, None, st))
   | Flush_acking None a as \<Rightarrow> (Flush_at as, None, st)
   | Flush_acking (Some t) a as \<Rightarrow> (case settledAs st t of
         None \<Rightarrow> (f, None, st)
       | Some True \<Rightarrow> (Flush_at as, None, st)
       | Some False \<Rightarrow> (let (n, st') = persistAttempt a Flush_catching st in (n, None, st')))
   | Flush_saving t a \<Rightarrow> (case settledAs st t of
         None \<Rightarrow> (f, None, st)
       | Some True \<Rightarrow> (Flush_done, None, st)
       | Some False \<Rightarrow> (let (n, st') = persistAttempt a Flush_catching st in (n, None, st')))
   | Flush_catching t \<Rightarrow> (case settledAs st t of
         None \<Rightarrow> (f, None, st)
       | Some ok \<Rightarrow> (if ok then Flush_done else Flush_threw, None, st))
   | Flush_done \<Rightarrow> (f, None, st)
   | Flush_threw \<Rightarrow> (f, None, st))"

section \<open>Garbage collection\<close>

datatype gcState = Gc_at "string list" | Gc_waiting nat "string list" | Gc_done | Gc_threw

definition gcStart :: "int \<Rightarrow> ackOutbox \<Rightarrow> gcState" where
  "gcStart now st = Gc_at (map fst (filter (\<lambda>(i, a). now - ao_ts (ob_heap st ! a) > ACK_OUTBOX_TTL_MS
     \<or> ao_attempts (ob_heap st ! a) \<ge> ACK_OUTBOX_MAX_ATTEMPTS) (ob_entries st)))"

definition gcStep :: "gcState \<Rightarrow> ackOutbox \<Rightarrow> gcState \<times> ackOutbox" where
  "gcStep g st = (case g of
     Gc_at [] \<Rightarrow> (Gc_done, st)
   | Gc_at (i # ids) \<Rightarrow>
       (let (t, st') = appendRecord (QueuedAck i) (st\<lparr>ob_entries := mapDelete (ob_entries st) i\<rparr>) in (Gc_waiting t ids, st'))
   | Gc_waiting t ids \<Rightarrow> (case settledAs st t of
         None \<Rightarrow> (g, st)
       | Some ok \<Rightarrow> (if ok then Gc_at ids else Gc_threw, st))
   | Gc_done \<Rightarrow> (g, st)
   | Gc_threw \<Rightarrow> (g, st))"

section \<open>Starting\<close>

fun loadLine :: "int \<Rightarrow> diskLine \<Rightarrow> (string, ackOutboxEntry) jsmap \<Rightarrow> (string, ackOutboxEntry) jsmap" where
  "loadLine now (RecordLine (EntryRecord e)) live =
     (if now - ao_ts e > ACK_OUTBOX_TTL_MS then live
      else if ao_attempts e \<ge> ACK_OUTBOX_MAX_ATTEMPTS then live
      else mapSet live (ao_commandId e) e)"
| "loadLine now (RecordLine (AckRecord i)) live = mapDelete live i"
| "loadLine now BrokenLine live = live"

definition loadFromDisk :: "int \<Rightarrow> diskLine list option \<Rightarrow> (string, ackOutboxEntry) jsmap" where
  "loadFromDisk now file = (case file of None \<Rightarrow> [] | Some ls \<Rightarrow> fold (loadLine now) ls [])"

definition adopt :: "string \<times> ackOutboxEntry \<Rightarrow> ackOutbox \<Rightarrow> ackOutbox" where
  "adopt = (\<lambda>(i, e) st. st\<lparr>ob_heap := ob_heap st @ [e], ob_entries := mapSet (ob_entries st) i (length (ob_heap st))\<rparr>)"

definition rewriteAll :: "ackOutbox \<Rightarrow> ackOutbox" where
  "rewriteAll st = st\<lparr>ob_file := Some (map (\<lambda>e. RecordLine (EntryRecord e)) (outboxSnapshot st))\<rparr>"

text \<open>Reading and rewriting the file are taken as one turn: nothing is appended in between.\<close>

definition initOutbox :: "int \<Rightarrow> ackOutbox \<Rightarrow> ackOutbox" where
  "initOutbox now st =
     (if ob_initialized st then st
      else (rewriteAll (fold adopt (loadFromDisk now (ob_file st)) st))\<lparr>ob_initialized := True\<rparr>)"

end
