(* ===== verification/AckInv.thy ===== *)
theory AckInv
  imports AckOutbox
begin

text \<open>
  What every operation of the outbox keeps: the map points to objects of the right id, no object has
  more attempts than the cap, and every entry of the map is written or about to be, with no later
  tombstone.
\<close>

section \<open>The invariants\<close>

definition entryOk :: "ackOutboxEntry \<Rightarrow> bool" where
  "entryOk e \<longleftrightarrow> 0 \<le> ao_attempts e \<and> ao_attempts e \<le> ACK_OUTBOX_MAX_ATTEMPTS"

definition fileLines :: "ackOutbox \<Rightarrow> diskLine list" where
  "fileLines st = (case ob_file st of None \<Rightarrow> [] | Some ls \<Rightarrow> ls)"

abbreviation entryLines :: "diskLine list \<Rightarrow> ackOutboxEntry set" where
  "entryLines ls \<equiv> {e. RecordLine (EntryRecord e) \<in> set ls}"

definition boxOk :: "ackOutbox \<Rightarrow> bool" where
  "boxOk st \<longleftrightarrow> distinct (mapKeys (ob_entries st))
     \<and> (\<forall>(i, a)\<in>set (ob_entries st). a < length (ob_heap st) \<and> ao_commandId (ob_heap st ! a) = i)
     \<and> (\<forall>a. QueuedEntry a \<in> set (ob_writing st) \<longrightarrow> a < length (ob_heap st))
     \<and> (\<forall>e\<in>set (ob_heap st). entryOk e)
     \<and> (\<forall>e\<in>entryLines (fileLines st). entryOk e)"

text \<open>\<open>e'\<close> is the object \<open>e\<close>, perhaps after further attempts.\<close>

definition laterEntry :: "ackOutboxEntry \<Rightarrow> ackOutboxEntry \<Rightarrow> bool" where
  "laterEntry e e' \<longleftrightarrow> ao_commandId e' = ao_commandId e \<and> ao_ts e' = ao_ts e \<and> ao_attempts e \<le> ao_attempts e'"

definition queuedFor :: "queuedRecord list \<Rightarrow> string \<Rightarrow> nat \<Rightarrow> bool" where
  "queuedFor rs i a \<longleftrightarrow> (\<exists>xs ys. rs = xs @ QueuedEntry a # ys \<and> QueuedAck i \<notin> set ys)"

definition writtenFor :: "diskLine list \<Rightarrow> string \<Rightarrow> ackOutboxEntry \<Rightarrow> bool" where
  "writtenFor ls i e' \<longleftrightarrow> (\<exists>xs e ys. ls = xs @ RecordLine (EntryRecord e) # ys \<and> ao_commandId e = i \<and> laterEntry e e'
     \<and> RecordLine (AckRecord i) \<notin> set ys)"

definition durable :: "ackOutbox \<Rightarrow> string \<Rightarrow> nat \<Rightarrow> bool" where
  "durable st i a \<longleftrightarrow> queuedFor (ob_writing st) i a
     \<or> writtenFor (fileLines st) i (ob_heap st ! a) \<and> QueuedAck i \<notin> set (ob_writing st)"

definition allDurable :: "ackOutbox \<Rightarrow> bool" where
  "allDurable st \<longleftrightarrow> (\<forall>(i, a)\<in>set (ob_entries st). durable st i a)"

lemma laterEntry_refl [simp]: "laterEntry e e"
  by (simp add: laterEntry_def)

lemma laterEntry_trans: "laterEntry e f \<Longrightarrow> laterEntry f g \<Longrightarrow> laterEntry e g"
  by (auto simp: laterEntry_def)

lemma queuedFor_append: "queuedFor rs i a \<Longrightarrow> QueuedAck i \<notin> set added \<Longrightarrow> queuedFor (rs @ added) i a"
  by (fastforce simp: queuedFor_def)

lemma queuedFor_later: "queuedFor added i a \<Longrightarrow> queuedFor (rs @ added) i a"
  unfolding queuedFor_def by (metis append_assoc)

lemma queuedFor_single [simp]: "queuedFor [QueuedEntry a] i a"
  by (force simp: queuedFor_def)

lemma writtenFor_later: "writtenFor ls i e \<Longrightarrow> laterEntry e e' \<Longrightarrow> writtenFor ls i e'"
  unfolding writtenFor_def by (metis laterEntry_trans)

lemma writtenFor_append: "writtenFor ls i e \<Longrightarrow> RecordLine (AckRecord i) \<notin> set added \<Longrightarrow> writtenFor (ls @ added) i e"
  by (fastforce simp: writtenFor_def)

section \<open>The contract of the operations\<close>

text \<open>
  An operation appends to the chain, changes objects only by counting attempts, and lets an entry
  into the map, or keeps it there, only if its last record says so.
\<close>

definition growsBy :: "queuedRecord list \<Rightarrow> ackOutbox \<Rightarrow> ackOutbox \<Rightarrow> bool" where
  "growsBy added st st' \<longleftrightarrow> ob_file st' = ob_file st \<and> ob_settled st' = ob_settled st
     \<and> ob_writing st' = ob_writing st @ added
     \<and> length (ob_heap st) \<le> length (ob_heap st')
     \<and> (\<forall>a < length (ob_heap st). laterEntry (ob_heap st ! a) (ob_heap st' ! a))
     \<and> (\<forall>e\<in>set (ob_heap st'). entryOk e)
     \<and> distinct (mapKeys (ob_entries st'))
     \<and> (\<forall>a. QueuedEntry a \<in> set added \<longrightarrow> a < length (ob_heap st'))
     \<and> (\<forall>(i, a)\<in>set (ob_entries st'). a < length (ob_heap st') \<and> ao_commandId (ob_heap st' ! a) = i
          \<and> ((i, a) \<in> set (ob_entries st) \<and> QueuedAck i \<notin> set added \<or> queuedFor added i a))"

lemma growsBy_refl: "boxOk st \<Longrightarrow> growsBy [] st st"
  by (auto simp: growsBy_def boxOk_def)

lemma growsBy_ok:
  assumes "growsBy added st st'" and "boxOk st"
  shows "boxOk st'"
  using assms by (fastforce simp: growsBy_def boxOk_def fileLines_def)

lemma growsBy_trans:
  assumes "growsBy m1 st st1" and "growsBy m2 st1 st2"
  shows "growsBy (m1 @ m2) st st2"
proof -
  have "laterEntry (ob_heap st ! a) (ob_heap st2 ! a)" if "a < length (ob_heap st)" for a
    using assms that laterEntry_trans [of "ob_heap st ! a" "ob_heap st1 ! a" "ob_heap st2 ! a"] by (simp add: growsBy_def)
  moreover have "(i, a) \<in> set (ob_entries st) \<and> QueuedAck i \<notin> set (m1 @ m2) \<or> queuedFor (m1 @ m2) i a"
    if "(i, a) \<in> set (ob_entries st2)" for i a
  proof -
    have "(i, a) \<in> set (ob_entries st1) \<and> QueuedAck i \<notin> set m2 \<or> queuedFor m2 i a"
      using assms(2) that by (auto simp: growsBy_def)
    moreover have "(i, a) \<in> set (ob_entries st) \<and> QueuedAck i \<notin> set m1 \<or> queuedFor m1 i a" if "(i, a) \<in> set (ob_entries st1)"
      using assms(1) that by (auto simp: growsBy_def)
    ultimately show ?thesis using queuedFor_append [of m1 i a m2] queuedFor_later [of m2 i a m1] by auto
  qed
  ultimately show ?thesis
    using assms unfolding growsBy_def by (fastforce simp: case_prod_beta)
qed

lemma durable_grows:
  assumes g: "growsBy added st st'" and ok: "boxOk st" and d: "allDurable st"
  shows "allDurable st'"
proof -
  have "durable st' i a" if mem: "(i, a) \<in> set (ob_entries st')" for i a
  proof (cases "queuedFor added i a")
    case True
    then show ?thesis using g queuedFor_later [of added i a "ob_writing st"] by (simp add: durable_def growsBy_def)
  next
    case False
    then have old: "(i, a) \<in> set (ob_entries st)" "QueuedAck i \<notin> set added" using g mem by (auto simp: growsBy_def)
    then have "durable st i a" "a < length (ob_heap st)" using d ok by (auto simp: allDurable_def boxOk_def)
    then show ?thesis
      using g old(2) queuedFor_append [of "ob_writing st" i a added] writtenFor_later [of "fileLines st" i "ob_heap st ! a" "ob_heap st' ! a"]
      by (auto simp: durable_def growsBy_def fileLines_def)
  qed
  then show ?thesis by (auto simp: allDurable_def)
qed

locale outbox_operation =
  fixes ready :: "ackOutbox \<Rightarrow> bool" and run :: "ackOutbox \<Rightarrow> ackOutbox"
  assumes grows: "boxOk st \<Longrightarrow> ready st \<Longrightarrow> \<exists>added. growsBy added st (run st)"
begin

lemma keeps_ok: "boxOk st \<Longrightarrow> ready st \<Longrightarrow> boxOk (run st)"
  using grows growsBy_ok by blast

lemma keeps_durable: "boxOk st \<Longrightarrow> ready st \<Longrightarrow> allDurable st \<Longrightarrow> allDurable (run st)"
  using grows durable_grows by blast

lemma keeps_heap: "boxOk st \<Longrightarrow> ready st \<Longrightarrow> length (ob_heap st) \<le> length (ob_heap (run st))"
  using grows by (auto simp: growsBy_def)

lemma keeps_attempts: "boxOk st \<Longrightarrow> ready st \<Longrightarrow> a < length (ob_heap st) \<Longrightarrow>
    ao_attempts (ob_heap st ! a) \<le> ao_attempts (ob_heap (run st) ! a)"
  using grows [of st] by (auto simp: growsBy_def laterEntry_def)

end

section \<open>The operations\<close>

lemma mem_mapSet: "distinct (mapKeys m) \<Longrightarrow> x \<in> set (mapSet m k v) \<longleftrightarrow> x = (k, v) \<or> x \<in> set m \<and> fst x \<noteq> k"
  by (induction m) (auto simp: image_iff)

lemma mem_mapDelete: "x \<in> set (mapDelete m k) \<longleftrightarrow> x \<in> set m \<and> fst x \<noteq> k"
  by (cases x) (auto simp: AList.delete_eq)

lemma entryOk_new [simp]: "entryOk (e\<lparr>ao_attempts := 0\<rparr>)"
  by (simp add: entryOk_def ACK_OUTBOX_MAX_ATTEMPTS_def)

lemma enqueueAck_grows:
  assumes "boxOk st"
  shows "growsBy [QueuedEntry (length (ob_heap st))] st (snd (enqueueAck e None st))"
  using assms by (auto simp: growsBy_def boxOk_def enqueueAck_def appendRecord_def Let_def mem_mapSet nth_append)

lemma appendAck_grows:
  assumes "boxOk st"
  shows "growsBy [QueuedAck i] st (snd (appendRecord (QueuedAck i) (st\<lparr>ob_entries := mapDelete (ob_entries st) i\<rparr>)))"
  using assms by (auto simp: growsBy_def boxOk_def appendRecord_def mem_mapDelete)

lemma markAcked_grows: "boxOk st \<Longrightarrow> \<exists>added. growsBy added st (snd (markAcked i st))"
  using appendAck_grows [of st i] growsBy_refl [of st] by (auto simp: markAcked_def case_prod_beta Let_def)

lemma persistAttempt_grows:
  "boxOk st \<Longrightarrow> a < length (ob_heap st) \<Longrightarrow> growsBy [QueuedEntry a] st (snd (persistAttempt a f st))"
  by (auto simp: growsBy_def boxOk_def persistAttempt_def appendRecord_def)

lemma countAttempt_grows:
  assumes "boxOk st" and "a < length (ob_heap st)" and "ao_attempts (ob_heap st ! a) < ACK_OUTBOX_MAX_ATTEMPTS"
  shows "growsBy [] st (countAttempt a st)"
proof -
  have "entryOk (ob_heap st ! a)" using assms by (auto simp: boxOk_def)
  then have "entryOk ((ob_heap st ! a)\<lparr>ao_attempts := ao_attempts (ob_heap st ! a) + 1\<rparr>)"
    using assms(3) by (simp add: entryOk_def)
  then show ?thesis
    using assms set_update_subset_insert [of "ob_heap st" a]
    by (fastforce simp: growsBy_def boxOk_def countAttempt_def laterEntry_def nth_list_update)
qed

interpretation enqueueAck: outbox_operation "\<lambda>_. True" "\<lambda>st. snd (enqueueAck e None st)" for e
  by unfold_locales (use enqueueAck_grows in blast)

interpretation markAcked: outbox_operation "\<lambda>_. True" "\<lambda>st. snd (markAcked i st)" for i
  by unfold_locales (use markAcked_grows in blast)

interpretation emitReliable: outbox_operation "\<lambda>_. True" "emitCommandAckReliable link p now" for link p now
proof
  fix st
  assume ok: "boxOk st"
  note g = enqueueAck_grows [OF ok, of "reliableEntry p now"]
  show "\<exists>added. growsBy added st (emitCommandAckReliable link p now st)"
    using g markAcked_grows [OF growsBy_ok [OF g ok], of "ap_commandId p"] growsBy_trans [OF g]
    by (auto simp: emitCommandAckReliable_def Let_def)
qed

interpretation emitAck: outbox_operation "\<lambda>_. True" "emitCommandAck s i status err link now" for s i status err link now
proof
  fix st
  assume ok: "boxOk st"
  let ?e = "\<lparr>ao_commandId = i, ao_sessionName = s, ao_status = status, ao_error = err, ao_extras = None, ao_ts = now, ao_attempts = 0\<rparr>"
  note g = enqueueAck_grows [OF ok, of ?e]
  show "\<exists>added. growsBy added st (emitCommandAck s i status err link now st)"
    using g markAcked_grows [OF growsBy_ok [OF g ok], of i] growsBy_trans [OF g]
    by (auto simp: emitCommandAck_def Let_def)
qed

fun flushAddresses :: "flushState \<Rightarrow> nat set" where
  "flushAddresses (Flush_at as) = set as"
| "flushAddresses (Flush_dropping t as) = set as"
| "flushAddresses (Flush_acking t a as) = insert a (set as)"
| "flushAddresses (Flush_saving t a) = {a}"
| "flushAddresses _ = {}"

definition flushOk :: "flushState \<Rightarrow> ackOutbox \<Rightarrow> bool" where
  "flushOk f st \<longleftrightarrow> flushAddresses f \<subseteq> {..<length (ob_heap st)}"

interpretation flush: outbox_operation "flushOk f" "\<lambda>st. snd (snd (flushStep con send f st))" for con send f
proof
  fix st
  assume ok: "boxOk st" and f: "flushOk f st"
  have stay: "\<exists>added. growsBy added st st" using growsBy_refl [OF ok] by blast
  have persist: "\<exists>added. growsBy added st (snd (persistAttempt a n st))" if "a \<in> flushAddresses f" for a n
    using persistAttempt_grows [OF ok] that f by (auto simp: flushOk_def)
  show "\<exists>added. growsBy added st (snd (snd (flushStep con send f st)))"
  proof (cases f)
    case (Flush_at as)
    show ?thesis
    proof (cases as)
      case Nil
      then show ?thesis using Flush_at stay by (simp add: flushStep_def)
    next
      case (Cons a bs)
      then have a: "a < length (ob_heap st)" using f Flush_at by (simp add: flushOk_def)
      show ?thesis
      proof (cases "ao_attempts (ob_heap st ! a) \<ge> ACK_OUTBOX_MAX_ATTEMPTS")
        case True
        then show ?thesis
          using markAcked_grows [OF ok] Flush_at Cons by (simp add: flushStep_def case_prod_beta Let_def)
      next
        case False
        then have g: "growsBy [] st (countAttempt a st)" using countAttempt_grows [OF ok a] by simp
        have a1: "a < length (ob_heap (countAttempt a st))" using a by (simp add: countAttempt_def)
        note then_grows = growsBy_trans [OF g]
        have ack: "\<exists>added. growsBy added st (snd (markAcked i (countAttempt a st)))" for i
          using then_grows markAcked_grows [OF growsBy_ok [OF g ok], of i] by blast
        have save: "\<exists>added. growsBy added st (snd (persistAttempt a n (countAttempt a st)))" for n
          using then_grows persistAttempt_grows [OF growsBy_ok [OF g ok] a1] by blast
        show ?thesis
          using False Flush_at Cons stay ack save
          by (cases "send (flushMessage (ob_heap st ! a))") (simp_all add: flushStep_def case_prod_beta Let_def)
      qed
    qed
  qed (use stay persist in \<open>auto simp: flushStep_def case_prod_beta Let_def split: option.split bool.split\<close>)
qed

interpretation gc: outbox_operation "\<lambda>_. True" "\<lambda>st. snd (gcStep g st)" for g
proof
  fix st
  assume ok: "boxOk st"
  show "\<exists>added. growsBy added st (snd (gcStep g st))"
    using growsBy_refl [OF ok] appendAck_grows [OF ok]
    by (auto simp: gcStep_def case_prod_beta Let_def split: gcState.split list.split option.split)
qed

section \<open>Writing and starting\<close>

lemma fileLines_write:
  "ob_writing st = r # rs \<Longrightarrow> fileLines (writeNext True st) = fileLines st @ [RecordLine (recordText (ob_heap st) r)]"
  by (simp add: writeNext_def fileLines_def split: option.split)

lemma writeNext_frame [simp]:
  "ob_heap (writeNext ok st) = ob_heap st" "ob_entries (writeNext ok st) = ob_entries st"
  "ob_writing (writeNext ok st) = tl (ob_writing st)"
  by (simp_all add: writeNext_def split: list.split)

lemma writeNext_ok:
  assumes "boxOk st"
  shows "boxOk (writeNext ok st)"
proof (cases "ob_writing st")
  case (Cons r rs)
  have "entryOk e" if "RecordLine (EntryRecord e) \<in> set (fileLines (writeNext ok st))" for e
  proof (cases ok)
    case True
    then show ?thesis
      using that assms Cons fileLines_write [OF Cons] by (cases r) (auto simp: boxOk_def)
  next
    case False
    then show ?thesis using that assms Cons by (auto simp: boxOk_def writeNext_def fileLines_def)
  qed
  then show ?thesis using assms Cons by (auto simp: boxOk_def)
qed (use assms in \<open>simp add: writeNext_def\<close>)

lemma writeNext_durable:
  assumes ok: "boxOk st" and d: "allDurable st"
  shows "allDurable (writeNext True st)"
proof (cases "ob_writing st")
  case (Cons r rs)
  note lines = fileLines_write [OF Cons]
  have "durable (writeNext True st) i a" if mem: "(i, a) \<in> set (ob_entries st)" for i a
  proof -
    have id: "ao_commandId (ob_heap st ! a) = i" using ok mem by (auto simp: boxOk_def)
    have "durable st i a" using d mem by (auto simp: allDurable_def)
    then consider (queued) xs ys where "r # rs = xs @ QueuedEntry a # ys" "QueuedAck i \<notin> set ys"
      | (written) "writtenFor (fileLines st) i (ob_heap st ! a)" "QueuedAck i \<notin> set (r # rs)"
      using Cons by (auto simp: durable_def queuedFor_def)
    then show ?thesis
    proof cases
      case queued
      show ?thesis
      proof (cases xs)
        case Nil
        then have "writtenFor (fileLines (writeNext True st)) i (ob_heap st ! a)"
          using queued(1) id unfolding lines writtenFor_def by (intro exI [of _ "fileLines st"]) auto
        then show ?thesis using Nil queued Cons by (simp add: durable_def)
      next
        case (Cons y zs)
        then show ?thesis using queued \<open>ob_writing st = r # rs\<close> by (auto simp: durable_def queuedFor_def)
      qed
    next
      case written
      then have "RecordLine (AckRecord i) \<noteq> RecordLine (recordText (ob_heap st) r)" by (cases r) auto
      then show ?thesis
        using written Cons writtenFor_append [OF written(1), of "[RecordLine (recordText (ob_heap st) r)]"]
        by (simp add: durable_def lines)
    qed
  qed
  then show ?thesis by (auto simp: allDurable_def)
qed (use d in \<open>simp add: writeNext_def\<close>)

lemma adopt_simps [simp]:
  "ob_file (adopt x st) = ob_file st" "ob_writing (adopt x st) = ob_writing st" "ob_settled (adopt x st) = ob_settled st"
  "ob_heap (adopt x st) = ob_heap st @ [snd x]"
  "ob_entries (adopt x st) = mapSet (ob_entries st) (fst x) (length (ob_heap st))"
  by (simp_all add: adopt_def case_prod_beta)

lemma adopt_ok: "boxOk st \<Longrightarrow> entryOk (snd x) \<Longrightarrow> ao_commandId (snd x) = fst x \<Longrightarrow> boxOk (adopt x st)"
  by (auto simp: boxOk_def mem_mapSet nth_append fileLines_def)

lemma adoptAll_ok:
  "boxOk st \<Longrightarrow> \<forall>x\<in>set xs. entryOk (snd x) \<and> ao_commandId (snd x) = fst x \<Longrightarrow> boxOk (fold adopt xs st)"
  by (induction xs arbitrary: st) (simp_all add: adopt_ok)

text \<open>What is read back: entries under their own id, young enough and below the cap.\<close>

definition loadedOk :: "int \<Rightarrow> (string, ackOutboxEntry) jsmap \<Rightarrow> bool" where
  "loadedOk now m \<longleftrightarrow> distinct (mapKeys m) \<and> (\<forall>(i, e)\<in>set m. ao_commandId e = i \<and> now - ao_ts e \<le> ACK_OUTBOX_TTL_MS
     \<and> ao_attempts e < ACK_OUTBOX_MAX_ATTEMPTS)"

lemma loadLine_ok: "loadedOk now m \<Longrightarrow> loadedOk now (loadLine now l m)"
  by (cases "(now, l, m)" rule: loadLine.cases) (auto simp: loadedOk_def mem_mapSet mem_mapDelete)

lemma loadFromDisk_ok: "loadedOk now (loadFromDisk now file)"
proof -
  have "loadedOk now m \<Longrightarrow> loadedOk now (fold (loadLine now) ls m)" for ls m
    by (induction ls arbitrary: m) (simp_all add: loadLine_ok)
  moreover have "loadedOk now []" by (simp add: loadedOk_def)
  ultimately show ?thesis by (cases "file") (simp_all add: loadFromDisk_def)
qed

lemma loaded_from_lines:
  "(i, e) \<in> set (fold (loadLine now) ls m) \<Longrightarrow> (i, e) \<in> set m \<or> e \<in> entryLines ls"
proof (induction ls arbitrary: m)
  case (Cons l ls)
  then have "(i, e) \<in> set (loadLine now l m) \<or> e \<in> entryLines ls" by simp
  moreover have "(i, e) \<in> set m \<or> e \<in> entryLines [l]" if "(i, e) \<in> set (loadLine now l m)"
    using that by (cases "(now, l, m)" rule: loadLine.cases)
      (auto simp: mem_mapDelete split: if_splits dest: subsetD [OF set_AList_update])
  ultimately show ?case by auto
qed simp

lemma initOutbox_ok:
  assumes "boxOk st"
  shows "boxOk (initOutbox now st)"
proof -
  let ?xs = "loadFromDisk now (ob_file st)"
  have "?xs = fold (loadLine now) (fileLines st) []" by (simp add: loadFromDisk_def fileLines_def split: option.split)
  then have "e \<in> entryLines (fileLines st)" if "(i, e) \<in> set ?xs" for i e
    using that loaded_from_lines [of i e now "fileLines st" "[]"] by auto
  then have "entryOk e \<and> ao_commandId e = i" if "(i, e) \<in> set ?xs" for i e
    using that loadFromDisk_ok [of now "ob_file st"] assms by (auto simp: loadedOk_def boxOk_def)
  then have ok: "boxOk (fold adopt ?xs st)" by (intro adoptAll_ok [OF assms]) auto
  then have "entryOk e" if "e \<in> set (outboxSnapshot (fold adopt ?xs st))" for e
    using that by (auto simp: boxOk_def outboxSnapshot_def case_prod_beta)
  then have "boxOk ((rewriteAll (fold adopt ?xs st))\<lparr>ob_initialized := True\<rparr>)"
    using ok by (auto simp: rewriteAll_def boxOk_def fileLines_def)
  then show ?thesis using assms by (simp add: initOutbox_def)
qed

lemma initOutbox_durable:
  assumes "boxOk st" and "ob_writing st = []" and "allDurable st"
  shows "allDurable (initOutbox now st)"
proof (cases "ob_initialized st")
  case False
  have w: "ob_writing (fold adopt xs st) = ob_writing st" for xs
    by (induction xs arbitrary: st) simp_all
  have ok: "boxOk (initOutbox now st)" by (rule initOutbox_ok [OF assms(1)])
  let ?st = "initOutbox now st"
  have lines: "fileLines ?st = map (\<lambda>(i, a). RecordLine (EntryRecord (ob_heap ?st ! a))) (ob_entries ?st)"
    using False by (auto simp: initOutbox_def rewriteAll_def fileLines_def outboxSnapshot_def)
  have "writtenFor (fileLines ?st) i (ob_heap ?st ! a)" if mem: "(i, a) \<in> set (ob_entries ?st)" for i a
  proof -
    obtain xs ys where "ob_entries ?st = xs @ (i, a) # ys" using split_list [OF mem] by blast
    moreover have "ao_commandId (ob_heap ?st ! a) = i" using ok mem by (auto simp: boxOk_def)
    ultimately show ?thesis
      unfolding writtenFor_def lines by (intro exI [of _ "map (\<lambda>(i, a). RecordLine (EntryRecord (ob_heap ?st ! a))) xs"]) auto
  qed
  moreover have "ob_writing ?st = []" using False assms(2) w by (simp add: initOutbox_def rewriteAll_def)
  ultimately show ?thesis by (auto simp: allDurable_def durable_def)
qed (use assms in \<open>simp add: initOutbox_def\<close>)

text \<open>What is written with no later tombstone is read back.\<close>

lemma load_keeps: "RecordLine (AckRecord i) \<notin> set ls \<Longrightarrow> mapGet m i \<noteq> None \<Longrightarrow> mapGet (fold (loadLine now) ls m) i \<noteq> None"
proof (induction ls arbitrary: m)
  case (Cons l ls)
  have "mapGet (loadLine now l m) i \<noteq> None"
    using Cons.prems by (cases "(now, l, m)" rule: loadLine.cases) auto
  then show ?case using Cons by simp
qed simp

lemma load_written:
  assumes "writtenFor ls i e" and "ao_attempts e < ACK_OUTBOX_MAX_ATTEMPTS" and "now - ao_ts e \<le> ACK_OUTBOX_TTL_MS"
  shows "mapGet (fold (loadLine now) ls m) i \<noteq> None"
proof -
  obtain xs e0 ys where ls: "ls = xs @ RecordLine (EntryRecord e0) # ys" "ao_commandId e0 = i" "laterEntry e0 e"
      "RecordLine (AckRecord i) \<notin> set ys"
    using assms(1) by (auto simp: writtenFor_def)
  then have "mapGet (loadLine now (RecordLine (EntryRecord e0)) (fold (loadLine now) xs m)) i \<noteq> None"
    using assms(2,3) by (auto simp: laterEntry_def)
  then show ?thesis using load_keeps [OF ls(4)] ls(1) by simp
qed

end
