(* ===== verification/AckProps.thy ===== *)
theory AckProps
  imports AckInv
begin

text \<open>
  The properties of the outbox of acknowledgements, over all interleavings of the daemon's calls, its
  running flushes and collections, and the writes to the file.
\<close>

section \<open>Runs of the daemon\<close>

text \<open>\<open>aw_sent\<close> records the objects handed to the sender by flushes, in order.\<close>

record ackWorld =
  aw_box :: ackOutbox
  aw_flushes :: "flushState list"
  aw_gcs :: "gcState list"
  aw_sent :: "nat list"

definition startWorld :: "ackOutbox \<Rightarrow> ackWorld" where
  "startWorld st = \<lparr>aw_box = st, aw_flushes = [], aw_gcs = [], aw_sent = []\<rparr>"

definition flushTurn :: "bool \<Rightarrow> (jsval \<Rightarrow> sendResult) \<Rightarrow> nat \<Rightarrow> ackWorld \<Rightarrow> ackWorld" where
  "flushTurn con send k w = (case flushStep con send (aw_flushes w ! k) (aw_box w) of
     (f, sent, st) \<Rightarrow> w\<lparr>aw_box := st, aw_flushes := (aw_flushes w)[k := f], aw_sent := aw_sent w @ (case sent of None \<Rightarrow> [] | Some a \<Rightarrow> [a])\<rparr>)"

definition gcTurn :: "nat \<Rightarrow> ackWorld \<Rightarrow> ackWorld" where
  "gcTurn k w = (case gcStep (aw_gcs w ! k) (aw_box w) of (g, st) \<Rightarrow> w\<lparr>aw_box := st, aw_gcs := (aw_gcs w)[k := g]\<rparr>)"

text \<open>
  A step takes a write as done (the flag says how it ended), the daemon's calls, turns of any running
  flush or collection, the start on whatever is on disk, and a crash, after which a new process finds
  the file as far as it was written, its last line perhaps cut short. The daemon starts the outbox
  before anything is queued for writing.
\<close>

inductive ackStep :: "bool \<Rightarrow> ackWorld \<Rightarrow> ackWorld \<Rightarrow> bool" where
  aw_emitReliable: "ackStep ok w (w\<lparr>aw_box := emitCommandAckReliable link p now (aw_box w)\<rparr>)"
| aw_emit: "ackStep ok w (w\<lparr>aw_box := emitCommandAck s i status err link now (aw_box w)\<rparr>)"
| aw_enqueue: "ackStep ok w (w\<lparr>aw_box := snd (enqueueAck e None (aw_box w))\<rparr>)"
| aw_acked: "ackStep ok w (w\<lparr>aw_box := snd (markAcked i (aw_box w))\<rparr>)"
| aw_flush: "ackStep ok w (w\<lparr>aw_flushes := aw_flushes w @ [flushStart (aw_box w)]\<rparr>)"
| aw_flushTurn: "k < length (aw_flushes w) \<Longrightarrow> ackStep ok w (flushTurn con send k w)"
| aw_gc: "ackStep ok w (w\<lparr>aw_gcs := aw_gcs w @ [gcStart now (aw_box w)]\<rparr>)"
| aw_gcTurn: "k < length (aw_gcs w) \<Longrightarrow> ackStep ok w (gcTurn k w)"
| aw_write: "ackStep ok w (w\<lparr>aw_box := writeNext ok (aw_box w)\<rparr>)"
| aw_init: "ob_writing (aw_box w) = [] \<Longrightarrow> ackStep ok w (w\<lparr>aw_box := initOutbox now (aw_box w)\<rparr>)"
| aw_crash: "torn = [] \<or> torn = [BrokenLine] \<Longrightarrow>
     ackStep ok w (startWorld (newAckOutbox (map_option (\<lambda>ls. ls @ torn) (ob_file (aw_box w)))))"

text \<open>\<open>ackRun True\<close>: no write failed.\<close>

inductive ackRun :: "bool \<Rightarrow> ackWorld \<Rightarrow> bool" for reliable where
  aw_new: "ackRun reliable (startWorld (newAckOutbox None))"
| aw_then: "ackRun reliable w \<Longrightarrow> ackStep ok w w' \<Longrightarrow> reliable \<longrightarrow> ok \<Longrightarrow> ackRun reliable w'"

definition worldOk :: "ackWorld \<Rightarrow> bool" where
  "worldOk w \<longleftrightarrow> boxOk (aw_box w) \<and> (\<forall>f\<in>set (aw_flushes w). flushOk f (aw_box w))
     \<and> (\<forall>a < length (ob_heap (aw_box w)). int (count_list (aw_sent w) a) \<le> ao_attempts (ob_heap (aw_box w) ! a))
     \<and> set (aw_sent w) \<subseteq> {..<length (ob_heap (aw_box w))}"

lemma worldOkI:
  assumes "boxOk st" and "\<And>f. f \<in> set fs \<Longrightarrow> flushOk f st" and "set sent \<subseteq> {..<length (ob_heap st)}"
    and "\<And>a. a < length (ob_heap st) \<Longrightarrow> int (count_list sent a) \<le> ao_attempts (ob_heap st ! a)"
  shows "worldOk \<lparr>aw_box = st, aw_flushes = fs, aw_gcs = gs, aw_sent = sent\<rparr>"
  using assms by (simp add: worldOk_def)

lemma flushOk_mono: "flushOk f st \<Longrightarrow> length (ob_heap st) \<le> length (ob_heap st') \<Longrightarrow> flushOk f st'"
  by (auto simp: flushOk_def)

lemma attempts_nonneg: "boxOk st \<Longrightarrow> a < length (ob_heap st) \<Longrightarrow> 0 \<le> ao_attempts (ob_heap st ! a)"
  by (simp add: boxOk_def entryOk_def)

text \<open>An operation that keeps its contract keeps the world in order; flushes only look at old objects.\<close>

lemma worldOk_grows:
  assumes w: "worldOk w" and g: "growsBy added (aw_box w) st"
  shows "worldOk (w\<lparr>aw_box := st\<rparr>)"
proof -
  let ?st = "aw_box w"
  have ok: "boxOk st" using g w growsBy_ok by (auto simp: worldOk_def)
  have len: "length (ob_heap ?st) \<le> length (ob_heap st)" using g by (simp add: growsBy_def)
  have "int (count_list (aw_sent w) a) \<le> ao_attempts (ob_heap st ! a)" if "a < length (ob_heap st)" for a
  proof (cases "a < length (ob_heap ?st)")
    case True
    then have "int (count_list (aw_sent w) a) \<le> ao_attempts (ob_heap ?st ! a)" using w by (simp add: worldOk_def)
    also have "\<dots> \<le> ao_attempts (ob_heap st ! a)" using g True by (auto simp: growsBy_def laterEntry_def)
    finally show ?thesis .
  next
    case False
    then have "count_list (aw_sent w) a = 0" using w by (auto simp: worldOk_def count_list_0_iff)
    then show ?thesis using attempts_nonneg [OF ok that] by simp
  qed
  then show ?thesis using w ok len flushOk_mono by (auto simp: worldOk_def)
qed

lemma flushStep_sent:
  assumes "boxOk st" and "flushOk f st" and "flushStep con send f st = (f', Some a, st')"
  shows "a < length (ob_heap st) \<and> ao_attempts (ob_heap st' ! a) = ao_attempts (ob_heap st ! a) + 1"
  using assms
  by (auto simp: flushStep_def flushOk_def countAttempt_def markAcked_def persistAttempt_def appendRecord_def Let_def
      split: flushState.splits list.splits if_splits sendResult.splits option.splits bool.splits)

lemma flushStep_addresses:
  "flushStep con send f st = (f', x, st') \<Longrightarrow> flushAddresses f' \<subseteq> flushAddresses f"
  by (auto simp: flushStep_def persistAttempt_def Let_def case_prod_beta
      split: flushState.splits list.splits if_splits sendResult.splits option.splits bool.splits)

lemma flushTurn_ok:
  assumes w: "worldOk w" and k: "k < length (aw_flushes w)"
  shows "worldOk (flushTurn con send k w)"
proof -
  let ?f = "aw_flushes w ! k" and ?st = "aw_box w"
  obtain f' sent st' where step: "flushStep con send ?f ?st = (f', sent, st')" by (metis prod_cases3)
  have ok: "boxOk ?st" and f: "flushOk ?f ?st" using w k by (auto simp: worldOk_def)
  obtain added where g: "growsBy added ?st st'" using flush.grows [OF ok f, of con send] step by auto
  have w1: "worldOk (w\<lparr>aw_box := st'\<rparr>)" by (rule worldOk_grows [OF w g])
  have f': "flushOk f' st'"
    using flushStep_addresses [OF step] flushOk_mono [OF f, of st'] g by (auto simp: flushOk_def growsBy_def)
  have fs: "flushOk x st'" if "x \<in> set ((aw_flushes w)[k := f'])" for x
    using that f' w1 set_update_subset_insert [of "aw_flushes w" k f'] by (auto simp: worldOk_def)
  have count: "int (count_list (aw_sent w @ [b]) a) \<le> ao_attempts (ob_heap st' ! a)"
    if b: "sent = Some b" and a: "a < length (ob_heap st')" for a b
  proof (cases "a = b")
    case True
    then have "ao_attempts (ob_heap st' ! a) = ao_attempts (ob_heap ?st ! a) + 1" "a < length (ob_heap ?st)"
      using flushStep_sent [OF ok f] step b by auto
    then show ?thesis using w True by (auto simp: worldOk_def)
  qed (use w1 a in \<open>simp add: worldOk_def\<close>)
  show ?thesis
  proof (cases sent)
    case None
    then show ?thesis using w1 fs step by (simp add: flushTurn_def worldOk_def)
  next
    case (Some b)
    have "length (ob_heap ?st) \<le> length (ob_heap st')" using g by (simp add: growsBy_def)
    moreover have "b < length (ob_heap ?st)" using flushStep_sent [OF ok f step [unfolded Some]] by simp
    ultimately have "b < length (ob_heap st')" by simp
    then show ?thesis using w1 fs count [OF Some] step Some by (simp add: flushTurn_def worldOk_def)
  qed
qed

lemma worldOk_ops:
  assumes w: "worldOk w"
  shows "worldOk (w\<lparr>aw_box := emitCommandAckReliable link p now (aw_box w)\<rparr>)"
    and "worldOk (w\<lparr>aw_box := emitCommandAck s i status err link now (aw_box w)\<rparr>)"
    and "worldOk (w\<lparr>aw_box := snd (enqueueAck e None (aw_box w))\<rparr>)"
    and "worldOk (w\<lparr>aw_box := snd (markAcked i (aw_box w))\<rparr>)"
    and "worldOk (gcTurn k w)"
proof -
  have ok: "boxOk (aw_box w)" using w by (simp add: worldOk_def)
  note via = worldOk_grows [OF w]
  show "worldOk (w\<lparr>aw_box := emitCommandAckReliable link p now (aw_box w)\<rparr>)"
    "worldOk (w\<lparr>aw_box := emitCommandAck s i status err link now (aw_box w)\<rparr>)"
    "worldOk (w\<lparr>aw_box := snd (enqueueAck e None (aw_box w))\<rparr>)"
    "worldOk (w\<lparr>aw_box := snd (markAcked i (aw_box w))\<rparr>)"
    using via emitReliable.grows [OF ok TrueI] emitAck.grows [OF ok TrueI] enqueueAck.grows [OF ok TrueI]
      markAcked.grows [OF ok TrueI] by blast+
  obtain g st where step: "gcStep (aw_gcs w ! k) (aw_box w) = (g, st)" by force
  then have "worldOk (w\<lparr>aw_box := st\<rparr>)" using via gc.grows [OF ok TrueI, of "aw_gcs w ! k"] by auto
  then show "worldOk (gcTurn k w)" by (simp add: gcTurn_def step worldOk_def)
qed

text \<open>Starting adds objects and leaves the old ones alone.\<close>

lemma adopt_heap: "\<exists>es. ob_heap (fold adopt xs st) = ob_heap st @ es"
proof (induction xs arbitrary: st)
  case (Cons x xs)
  obtain es where "ob_heap (fold adopt xs (adopt x st)) = ob_heap (adopt x st) @ es" using Cons [of "adopt x st"] by blast
  then show ?case by simp
qed simp

lemma worldOk_init:
  assumes w: "worldOk w"
  shows "worldOk (w\<lparr>aw_box := initOutbox now (aw_box w)\<rparr>)"
proof -
  have ok: "boxOk (initOutbox now (aw_box w))" using w by (intro initOutbox_ok) (simp add: worldOk_def)
  obtain es where es: "ob_heap (initOutbox now (aw_box w)) = ob_heap (aw_box w) @ es"
    using adopt_heap [of "loadFromDisk now (ob_file (aw_box w))" "aw_box w"]
    by (cases "ob_initialized (aw_box w)") (auto simp: initOutbox_def rewriteAll_def)
  have "int (count_list (aw_sent w) a) \<le> ao_attempts (ob_heap (initOutbox now (aw_box w)) ! a)"
    if "a < length (ob_heap (initOutbox now (aw_box w)))" for a
  proof (cases "a < length (ob_heap (aw_box w))")
    case True
    then show ?thesis using w by (simp add: worldOk_def es nth_append)
  next
    case False
    then have "count_list (aw_sent w) a = 0" using w by (auto simp: worldOk_def count_list_0_iff)
    then show ?thesis using attempts_nonneg [OF ok that] by simp
  qed
  moreover have "flushOk f (initOutbox now (aw_box w))" if "f \<in> set (aw_flushes w)" for f
    using w that flushOk_mono [of f "aw_box w"] by (auto simp: worldOk_def es)
  ultimately show ?thesis using w ok by (auto simp: worldOk_def es)
qed

lemma newAckOutbox_ok: "\<forall>e\<in>entryLines (case lines of None \<Rightarrow> [] | Some ls \<Rightarrow> ls). entryOk e \<Longrightarrow> boxOk (newAckOutbox lines)"
  by (simp add: boxOk_def newAckOutbox_def fileLines_def)

lemma worldOk_start: "boxOk (newAckOutbox lines) \<Longrightarrow> worldOk (startWorld (newAckOutbox lines))"
  by (simp add: worldOk_def startWorld_def newAckOutbox_def)

lemma flushStart_ok: "boxOk st \<Longrightarrow> flushOk (flushStart st) st"
  by (auto simp: flushOk_def flushStart_def boxOk_def)

lemma ackStep_ok: "ackStep ok w w' \<Longrightarrow> worldOk w \<Longrightarrow> worldOk w'"
proof (induction rule: ackStep.induct)
  case (aw_flush ok w)
  then show ?case using flushStart_ok [of "aw_box w"] by (auto simp: worldOk_def)
next
  case (aw_write ok w)
  then show ?case using writeNext_ok [of "aw_box w" ok] by (auto simp: worldOk_def flushOk_def)
next
  case (aw_crash torn ok w)
  have "\<forall>e\<in>entryLines (case map_option (\<lambda>ls. ls @ torn) (ob_file (aw_box w)) of None \<Rightarrow> [] | Some ls \<Rightarrow> ls). entryOk e"
    using aw_crash by (auto simp: worldOk_def boxOk_def fileLines_def split: option.splits)
  then show ?case by (intro worldOk_start newAckOutbox_ok)
qed (simp_all add: worldOk_ops flushTurn_ok worldOk_init, simp add: worldOk_def)

lemma ackRun_ok: "ackRun reliable w \<Longrightarrow> worldOk w"
proof (induction rule: ackRun.induct)
  case aw_new
  then show ?case by (intro worldOk_start newAckOutbox_ok) simp
qed (simp add: ackStep_ok)

text \<open>C20: however calls, flushes, collections, failed writes and crashes interleave, a process
  hands an acknowledgement to the sender at most ten times.\<close>

theorem sent_at_most_ten_times:
  assumes "ackRun reliable w"
  shows "int (count_list (aw_sent w) a) \<le> ACK_OUTBOX_MAX_ATTEMPTS"
proof (cases "a < length (ob_heap (aw_box w))")
  case True
  then have "ao_attempts (ob_heap (aw_box w) ! a) \<le> ACK_OUTBOX_MAX_ATTEMPTS"
    using ackRun_ok [OF assms] by (simp add: worldOk_def boxOk_def entryOk_def)
  then show ?thesis using ackRun_ok [OF assms] True unfolding worldOk_def by fastforce
next
  case False
  then have "a \<notin> set (aw_sent w)" using ackRun_ok [OF assms] by (auto simp: worldOk_def)
  then show ?thesis by (simp add: count_list_0_iff ACK_OUTBOX_MAX_ATTEMPTS_def)
qed

section \<open>Crashes\<close>



abbreviation restarted :: "int \<Rightarrow> diskLine list \<Rightarrow> ackOutbox \<Rightarrow> ackOutbox" where
  "restarted now torn st \<equiv> initOutbox now (newAckOutbox (map_option (\<lambda>ls. ls @ torn) (ob_file st)))"



section \<open>Restarting\<close>

lemma update_new: "k \<notin> set (mapKeys m) \<Longrightarrow> mapSet m k v = m @ [(k, v)]"
  by (induction m) auto

abbreviation young :: "int \<Rightarrow> string \<times> ackOutboxEntry \<Rightarrow> bool" where
  "young now \<equiv> (\<lambda>x. now - ao_ts (snd x) \<le> ACK_OUTBOX_TTL_MS)"

lemma load_rewritten:
  assumes "\<forall>(i, e)\<in>set m. ao_commandId e = i \<and> ao_attempts e < ACK_OUTBOX_MAX_ATTEMPTS" and "distinct (mapKeys (acc @ m))"
  shows "fold (loadLine now) (map (\<lambda>x. RecordLine (EntryRecord (snd x))) m) acc = acc @ filter (young now) m"
  using assms
proof (induction m arbitrary: acc)
  case (Cons x m)
  obtain i e where x: "x = (i, e)" by force
  show ?case
  proof (cases "now - ao_ts e \<le> ACK_OUTBOX_TTL_MS")
    case True
    then have "loadLine now (RecordLine (EntryRecord e)) acc = acc @ [x]"
      using Cons.prems x by (simp add: update_new)
    then show ?thesis using Cons.IH [of "acc @ [x]"] Cons.prems True x by simp
  next
    case False
    then show ?thesis using Cons.IH [of acc] Cons.prems x by simp
  qed
qed simp

lemma snapshot_adopt:
  "distinct (mapKeys (ob_entries st) @ mapKeys xs) \<Longrightarrow> \<forall>x\<in>set (ob_entries st). snd x < length (ob_heap st) \<Longrightarrow>
     outboxSnapshot (fold adopt xs st) = outboxSnapshot st @ map snd xs"
proof (induction xs arbitrary: st)
  case (Cons x xs)
  have entries: "ob_entries (adopt x st) = ob_entries st @ [(fst x, length (ob_heap st))]"
    using Cons.prems by (simp add: update_new)
  then have "outboxSnapshot (adopt x st) = outboxSnapshot st @ [snd x]"
    using Cons.prems(2) by (auto simp: outboxSnapshot_def nth_append)
  moreover have "\<forall>y\<in>set (ob_entries (adopt x st)). snd y < length (ob_heap (adopt x st))"
    using Cons.prems(2) entries by (auto intro: less_SucI)
  ultimately show ?case using Cons.IH [of "adopt x st"] Cons.prems entries by (auto simp: image_iff)
qed simp

lemma snapshot_init: "outboxSnapshot (initOutbox now (newAckOutbox lines)) = map snd (loadFromDisk now lines)"
  using snapshot_adopt [of "newAckOutbox lines" "loadFromDisk now lines"] loadFromDisk_ok [of now lines]
  by (simp add: initOutbox_def rewriteAll_def outboxSnapshot_def newAckOutbox_def loadedOk_def)

text \<open>C21: what a start writes, the next start reads: restarting at any later or earlier time gives
  the same outbox without the entries past their age limit, in the same order, and the file then holds
  exactly one line for each of them.\<close>

theorem restart_roundtrip:
  fixes now now' lines
  defines "st \<equiv> initOutbox now (newAckOutbox lines)"
  defines "st' \<equiv> initOutbox now' (newAckOutbox (ob_file st))"
  shows "outboxSnapshot st' = filter (\<lambda>e. now' - ao_ts e \<le> ACK_OUTBOX_TTL_MS) (outboxSnapshot st)
    \<and> ob_file st' = Some (map (\<lambda>e. RecordLine (EntryRecord e)) (outboxSnapshot st'))"
proof -
  let ?xs = "loadFromDisk now lines"
  have written: "ob_file (initOutbox t (newAckOutbox ls)) = Some (map (\<lambda>e. RecordLine (EntryRecord e)) (outboxSnapshot (initOutbox t (newAckOutbox ls))))" for t ls
    by (simp add: initOutbox_def rewriteAll_def newAckOutbox_def outboxSnapshot_def)
  have "loadFromDisk now' (ob_file st) = fold (loadLine now') (map (\<lambda>x. RecordLine (EntryRecord (snd x))) ?xs) []"
    by (simp add: st_def written snapshot_init loadFromDisk_def [of now'] o_def)
  also have "\<dots> = filter (young now') ?xs"
    using load_rewritten [of ?xs "[]" now'] loadFromDisk_ok [of now lines] by (auto simp: loadedOk_def)
  finally have "outboxSnapshot st' = map snd (filter (young now') ?xs)" by (simp add: st'_def snapshot_init)
  also have "\<dots> = filter (\<lambda>e. now' - ao_ts e \<le> ACK_OUTBOX_TTL_MS) (map snd ?xs)"
    by (simp add: filter_map o_def case_prod_beta)
  finally show ?thesis using written [of now' "ob_file st"] by (simp add: st_def st'_def snapshot_init)
qed

section \<open>An undisturbed flush\<close>

text \<open>The message a flush sends is the one that was tried when the acknowledgement was made.\<close>

lemma nonEmptyOpt_idem [simp]: "nonEmptyOpt (nonEmptyOpt x) = nonEmptyOpt x"
  by (cases x rule: nonEmptyOpt.cases) simp_all

lemma replay_is_same_message: "flushMessage (reliableEntry p now) = wireAck p"
  by (simp add: flushMessage_def reliableEntry_def wireAck_def)











section \<open>Concrete runs\<close>

definition ackOf :: "string \<Rightarrow> string \<Rightarrow> int \<Rightarrow> int \<Rightarrow> ackOutboxEntry" where
  "ackOf i status t n = \<lparr>ao_commandId = i, ao_sessionName = ''s1'', ao_status = status, ao_error = None, ao_extras = None,
     ao_ts = t, ao_attempts = n\<rparr>"

abbreviation twoAcks :: ackOutbox where
  "twoAcks \<equiv> writeNext True (writeNext True (snd (enqueueAck (ackOf ''c1'' ''accepted'' 10 0) None
     (snd (enqueueAck (ackOf ''c2'' ''accepted'' 20 0) None (newAckOutbox None))))))"

lemma twoAcks_run: "ackRun True (startWorld twoAcks)"
proof -
  let ?r = "\<lambda>st. ackRun True (startWorld st)"
  have "?r (snd (enqueueAck e None st))" if "?r st" for e st
    using aw_then [OF that aw_enqueue [of True _ e]] by (simp add: startWorld_def)
  moreover have "?r (writeNext True st)" if "?r st" for st
    using aw_then [OF that aw_write [of True]] by (simp add: startWorld_def)
  ultimately show ?thesis by (simp add: aw_new)
qed


text \<open>One turn of a flush whose message the link does not take.\<close>

abbreviation refusedWorld :: ackWorld where
  "refusedWorld \<equiv> flushTurn True (\<lambda>_. Send_false) 0 ((startWorld twoAcks)\<lparr>aw_flushes := [flushStart twoAcks]\<rparr>)"

theorem sent_at_most_ten_times_witness: "aw_sent refusedWorld = [1] \<and> int (count_list (aw_sent refusedWorld) 1) \<le> 10"
proof -
  have "ackRun True ((startWorld twoAcks)\<lparr>aw_flushes := [flushStart twoAcks]\<rparr>)"
    using aw_then [OF twoAcks_run aw_flush [of True]] by (simp add: startWorld_def)
  then have "ackRun True refusedWorld" by (rule aw_then [OF _ aw_flushTurn [of _ _ True]]) simp_all
  moreover have "aw_sent refusedWorld = [1]" by code_simp
  ultimately show ?thesis using sent_at_most_ten_times [of True refusedWorld 1] by (simp add: ACK_OUTBOX_MAX_ATTEMPTS_def)
qed


text \<open>The cap does not survive a restart: the record with ten attempts is skipped, an older one stays.\<close>

lemma cap_lost_on_restart:
  "map ao_attempts (outboxSnapshot (initOutbox 50 (newAckOutbox (Some
     [RecordLine (EntryRecord (ackOf ''c1'' ''accepted'' 10 9)), RecordLine (EntryRecord (ackOf ''c1'' ''accepted'' 10 10))])))) = [9]"
  by code_simp

text \<open>
  A flush that took its snapshot before a command was acknowledged again sends the old status and then
  strikes the new one out of the map: nothing is left to send.
\<close>

lemma newer_ack_struck_out:
  "(case flushStep True (\<lambda>_. Send_true) (flushStart twoAcks) (snd (enqueueAck (ackOf ''c1'' ''error'' 30 0) None twoAcks)) of
      (f, sent, st) \<Rightarrow> (map ao_commandId (outboxSnapshot st), map_option (\<lambda>a. ao_status (ob_heap st ! a)) sent))
    = ([''c2''], Some ''accepted'')"
  by code_simp

text \<open>
  When the tombstone of a sent acknowledgement cannot be written, its entry is written again although
  the map has dropped it: the next process finds it.
\<close>

lemma sent_ack_comes_back:
  "(case flushStep True (\<lambda>_. Send_true) (flushStart twoAcks) twoAcks of
      (f, _, st1) \<Rightarrow> (case flushStep True (\<lambda>_. Send_true) f (writeNext False st1) of
        (_, _, st2) \<Rightarrow> (map ao_commandId (outboxSnapshot st2), map ao_commandId (outboxSnapshot (restarted 50 [] (writeNext True st2))))))
    = ([''c2''], [''c2'', ''c1''])"
  by code_simp

end
