(* ===== verification/WfTypes.thy ===== *)
theory WfTypes
  imports JsValue
begin

text \<open>
  The vocabulary of P2P workflows: the enumerations and limits of
  \<^verbatim>\<open>shared/p2p-workflow-constants.ts\<close>, the diagnostics of
  \<^verbatim>\<open>shared/p2p-workflow-diagnostics.ts\<close> and the data of
  \<^verbatim>\<open>shared/p2p-workflow-types.ts\<close>, with the runtime objects behind the typed records.
  The English \<^verbatim>\<open>summary\<close> of a diagnostic is display text no code reads; it is left out.
\<close>

section \<open>Diagnostics\<close>

datatype diagnosticCode =
    Dc_forbidden_envelope_field | Dc_unsupported_schema_version |
    Dc_unknown_future_schema_read_only | Dc_mixed_advanced_schema_fields |
    Dc_static_policy_mismatch_recompiled | Dc_missing_required_capability | Dc_capability_stale |
    Dc_capability_downgraded_during_run | Dc_invalid_launch_envelope | Dc_invalid_workflow_graph |
    Dc_invalid_routing_authority | Dc_invalid_edge_condition | Dc_loop_budget_exhausted |
    Dc_invalid_workflow_variable | Dc_invalid_prompt_append | Dc_missing_context_source |
    Dc_context_source_too_large | Dc_unsafe_artifact_path |
    Dc_artifact_identity_collision_resolved | Dc_artifact_baseline_too_large |
    Dc_artifact_baseline_mismatch | Dc_artifact_contract_not_satisfied |
    Dc_invalid_script_contract | Dc_script_executable_denied | Dc_script_machine_output_invalid |
    Dc_script_timeout | Dc_script_cancelled | Dc_daemon_busy | Dc_workflow_stale_after_restart |
    Dc_private_projection_field_dropped | Dc_legacy_progress_snapshot_sanitized |
    Dc_unknown_p2p_message | Dc_unmatched_edge_route

datatype diagnosticPhase =
    Dp_parse | Dp_compile | Dp_bind | Dp_execute | Dp_project | Dp_sanitize | Dp_server_ingress
  | Dp_web_validate

datatype diagnosticSeverity = Sv_info | Sv_warning | Sv_error

fun diagnosticCodeText :: "diagnosticCode \<Rightarrow> string" where
  "diagnosticCodeText Dc_forbidden_envelope_field = ''forbidden_envelope_field''"
| "diagnosticCodeText Dc_unsupported_schema_version = ''unsupported_schema_version''"
| "diagnosticCodeText Dc_unknown_future_schema_read_only = ''unknown_future_schema_read_only''"
| "diagnosticCodeText Dc_mixed_advanced_schema_fields = ''mixed_advanced_schema_fields''"
| "diagnosticCodeText Dc_static_policy_mismatch_recompiled = ''static_policy_mismatch_recompiled''"
| "diagnosticCodeText Dc_missing_required_capability = ''missing_required_capability''"
| "diagnosticCodeText Dc_capability_stale = ''capability_stale''"
| "diagnosticCodeText Dc_capability_downgraded_during_run = ''capability_downgraded_during_run''"
| "diagnosticCodeText Dc_invalid_launch_envelope = ''invalid_launch_envelope''"
| "diagnosticCodeText Dc_invalid_workflow_graph = ''invalid_workflow_graph''"
| "diagnosticCodeText Dc_invalid_routing_authority = ''invalid_routing_authority''"
| "diagnosticCodeText Dc_invalid_edge_condition = ''invalid_edge_condition''"
| "diagnosticCodeText Dc_loop_budget_exhausted = ''loop_budget_exhausted''"
| "diagnosticCodeText Dc_invalid_workflow_variable = ''invalid_workflow_variable''"
| "diagnosticCodeText Dc_invalid_prompt_append = ''invalid_prompt_append''"
| "diagnosticCodeText Dc_missing_context_source = ''missing_context_source''"
| "diagnosticCodeText Dc_context_source_too_large = ''context_source_too_large''"
| "diagnosticCodeText Dc_unsafe_artifact_path = ''unsafe_artifact_path''"
| "diagnosticCodeText Dc_artifact_identity_collision_resolved = ''artifact_identity_collision_resolved''"
| "diagnosticCodeText Dc_artifact_baseline_too_large = ''artifact_baseline_too_large''"
| "diagnosticCodeText Dc_artifact_baseline_mismatch = ''artifact_baseline_mismatch''"
| "diagnosticCodeText Dc_artifact_contract_not_satisfied = ''artifact_contract_not_satisfied''"
| "diagnosticCodeText Dc_invalid_script_contract = ''invalid_script_contract''"
| "diagnosticCodeText Dc_script_executable_denied = ''script_executable_denied''"
| "diagnosticCodeText Dc_script_machine_output_invalid = ''script_machine_output_invalid''"
| "diagnosticCodeText Dc_script_timeout = ''script_timeout''"
| "diagnosticCodeText Dc_script_cancelled = ''script_cancelled''"
| "diagnosticCodeText Dc_daemon_busy = ''daemon_busy''"
| "diagnosticCodeText Dc_workflow_stale_after_restart = ''workflow_stale_after_restart''"
| "diagnosticCodeText Dc_private_projection_field_dropped = ''private_projection_field_dropped''"
| "diagnosticCodeText Dc_legacy_progress_snapshot_sanitized = ''legacy_progress_snapshot_sanitized''"
| "diagnosticCodeText Dc_unknown_p2p_message = ''unknown_p2p_message''"
| "diagnosticCodeText Dc_unmatched_edge_route = ''unmatched_edge_route''"

definition P2P_WORKFLOW_DIAGNOSTIC_CODES :: "diagnosticCode list" where
  "P2P_WORKFLOW_DIAGNOSTIC_CODES =
     [Dc_forbidden_envelope_field, Dc_unsupported_schema_version,
      Dc_unknown_future_schema_read_only, Dc_mixed_advanced_schema_fields,
      Dc_static_policy_mismatch_recompiled, Dc_missing_required_capability, Dc_capability_stale,
      Dc_capability_downgraded_during_run, Dc_invalid_launch_envelope, Dc_invalid_workflow_graph,
      Dc_invalid_routing_authority, Dc_invalid_edge_condition, Dc_loop_budget_exhausted,
      Dc_invalid_workflow_variable, Dc_invalid_prompt_append, Dc_missing_context_source,
      Dc_context_source_too_large, Dc_unsafe_artifact_path,
      Dc_artifact_identity_collision_resolved, Dc_artifact_baseline_too_large,
      Dc_artifact_baseline_mismatch, Dc_artifact_contract_not_satisfied,
      Dc_invalid_script_contract, Dc_script_executable_denied, Dc_script_machine_output_invalid,
      Dc_script_timeout, Dc_script_cancelled, Dc_daemon_busy, Dc_workflow_stale_after_restart,
      Dc_private_projection_field_dropped, Dc_legacy_progress_snapshot_sanitized,
      Dc_unknown_p2p_message, Dc_unmatched_edge_route]"

fun P2P_WORKFLOW_DIAGNOSTIC_PHASE_MATRIX :: "diagnosticCode \<Rightarrow> diagnosticPhase list" where
  "P2P_WORKFLOW_DIAGNOSTIC_PHASE_MATRIX Dc_forbidden_envelope_field = [Dp_parse]"
| "P2P_WORKFLOW_DIAGNOSTIC_PHASE_MATRIX Dc_unsupported_schema_version = [Dp_parse, Dp_web_validate]"
| "P2P_WORKFLOW_DIAGNOSTIC_PHASE_MATRIX Dc_unknown_future_schema_read_only = [Dp_web_validate]"
| "P2P_WORKFLOW_DIAGNOSTIC_PHASE_MATRIX Dc_mixed_advanced_schema_fields = [Dp_parse, Dp_web_validate]"
| "P2P_WORKFLOW_DIAGNOSTIC_PHASE_MATRIX Dc_static_policy_mismatch_recompiled = [Dp_bind]"
| "P2P_WORKFLOW_DIAGNOSTIC_PHASE_MATRIX Dc_missing_required_capability = [Dp_bind, Dp_execute, Dp_web_validate]"
| "P2P_WORKFLOW_DIAGNOSTIC_PHASE_MATRIX Dc_capability_stale = [Dp_bind, Dp_web_validate]"
| "P2P_WORKFLOW_DIAGNOSTIC_PHASE_MATRIX Dc_capability_downgraded_during_run = [Dp_execute]"
| "P2P_WORKFLOW_DIAGNOSTIC_PHASE_MATRIX Dc_invalid_launch_envelope = [Dp_parse]"
| "P2P_WORKFLOW_DIAGNOSTIC_PHASE_MATRIX Dc_invalid_workflow_graph = [Dp_compile]"
| "P2P_WORKFLOW_DIAGNOSTIC_PHASE_MATRIX Dc_invalid_routing_authority = [Dp_compile]"
| "P2P_WORKFLOW_DIAGNOSTIC_PHASE_MATRIX Dc_invalid_edge_condition = [Dp_compile]"
| "P2P_WORKFLOW_DIAGNOSTIC_PHASE_MATRIX Dc_loop_budget_exhausted = [Dp_execute]"
| "P2P_WORKFLOW_DIAGNOSTIC_PHASE_MATRIX Dc_invalid_workflow_variable = [Dp_compile, Dp_execute]"
| "P2P_WORKFLOW_DIAGNOSTIC_PHASE_MATRIX Dc_invalid_prompt_append = [Dp_compile]"
| "P2P_WORKFLOW_DIAGNOSTIC_PHASE_MATRIX Dc_missing_context_source = [Dp_bind, Dp_execute]"
| "P2P_WORKFLOW_DIAGNOSTIC_PHASE_MATRIX Dc_context_source_too_large = [Dp_bind, Dp_execute]"
| "P2P_WORKFLOW_DIAGNOSTIC_PHASE_MATRIX Dc_unsafe_artifact_path = [Dp_compile, Dp_bind, Dp_execute]"
| "P2P_WORKFLOW_DIAGNOSTIC_PHASE_MATRIX Dc_artifact_identity_collision_resolved = [Dp_bind]"
| "P2P_WORKFLOW_DIAGNOSTIC_PHASE_MATRIX Dc_artifact_baseline_too_large = [Dp_bind]"
| "P2P_WORKFLOW_DIAGNOSTIC_PHASE_MATRIX Dc_artifact_baseline_mismatch = [Dp_execute]"
| "P2P_WORKFLOW_DIAGNOSTIC_PHASE_MATRIX Dc_artifact_contract_not_satisfied = [Dp_execute]"
| "P2P_WORKFLOW_DIAGNOSTIC_PHASE_MATRIX Dc_invalid_script_contract = [Dp_compile, Dp_bind]"
| "P2P_WORKFLOW_DIAGNOSTIC_PHASE_MATRIX Dc_script_executable_denied = [Dp_bind, Dp_execute]"
| "P2P_WORKFLOW_DIAGNOSTIC_PHASE_MATRIX Dc_script_machine_output_invalid = [Dp_execute]"
| "P2P_WORKFLOW_DIAGNOSTIC_PHASE_MATRIX Dc_script_timeout = [Dp_execute]"
| "P2P_WORKFLOW_DIAGNOSTIC_PHASE_MATRIX Dc_script_cancelled = [Dp_execute]"
| "P2P_WORKFLOW_DIAGNOSTIC_PHASE_MATRIX Dc_daemon_busy = [Dp_bind]"
| "P2P_WORKFLOW_DIAGNOSTIC_PHASE_MATRIX Dc_workflow_stale_after_restart = [Dp_bind, Dp_execute]"
| "P2P_WORKFLOW_DIAGNOSTIC_PHASE_MATRIX Dc_private_projection_field_dropped = [Dp_sanitize]"
| "P2P_WORKFLOW_DIAGNOSTIC_PHASE_MATRIX Dc_legacy_progress_snapshot_sanitized = [Dp_sanitize]"
| "P2P_WORKFLOW_DIAGNOSTIC_PHASE_MATRIX Dc_unknown_p2p_message = [Dp_server_ingress]"
| "P2P_WORKFLOW_DIAGNOSTIC_PHASE_MATRIX Dc_unmatched_edge_route = [Dp_execute]"

record workflowDiagnostic =
  dg_code :: diagnosticCode
  dg_phase :: diagnosticPhase
  dg_severity :: diagnosticSeverity
  dg_messageKey :: string
  dg_nodeId :: "string option"
  dg_runId :: "string option"
  dg_fieldPath :: "string option"

record diagnosticExtras =
  dx_nodeId :: "string option"
  dx_runId :: "string option"
  dx_fieldPath :: "string option"

definition noExtras :: diagnosticExtras where
  "noExtras = \<lparr>dx_nodeId = None, dx_runId = None, dx_fieldPath = None\<rparr>"

definition atPath :: "string \<Rightarrow> diagnosticExtras" where
  "atPath p = \<lparr>dx_nodeId = None, dx_runId = None, dx_fieldPath = Some p\<rparr>"

definition WARNING_CODES :: "diagnosticCode list" where
  "WARNING_CODES = [Dc_artifact_identity_collision_resolved, Dc_static_policy_mismatch_recompiled,
     Dc_private_projection_field_dropped, Dc_legacy_progress_snapshot_sanitized]"

definition makeP2pWorkflowDiagnostic :: "diagnosticCode \<Rightarrow> diagnosticPhase option \<Rightarrow> diagnosticExtras
    \<Rightarrow> workflowDiagnostic" where
  "makeP2pWorkflowDiagnostic code phase extras = \<lparr>
     dg_code = code,
     dg_phase = (case phase of Some p \<Rightarrow> p | None \<Rightarrow> hd (P2P_WORKFLOW_DIAGNOSTIC_PHASE_MATRIX code)),
     dg_severity = (if code \<in> set WARNING_CODES then Sv_warning else Sv_error),
     dg_messageKey = ''p2p.workflow.diagnostics.'' @ diagnosticCodeText code,
     dg_nodeId = dx_nodeId extras,
     dg_runId = dx_runId extras,
     dg_fieldPath = dx_fieldPath extras\<rparr>"

definition makeP2pWorkflowWarning :: "diagnosticCode \<Rightarrow> diagnosticPhase option \<Rightarrow> diagnosticExtras
    \<Rightarrow> workflowDiagnostic" where
  "makeP2pWorkflowWarning code phase extras =
     (makeP2pWorkflowDiagnostic code phase extras)\<lparr>dg_severity := Sv_warning\<rparr>"

text \<open>The two shapes every call of the modelled code has: with and without a field path.\<close>

abbreviation diag :: "diagnosticCode \<Rightarrow> diagnosticPhase \<Rightarrow> string \<Rightarrow> workflowDiagnostic" where
  "diag code phase path \<equiv> makeP2pWorkflowDiagnostic code (Some phase) (atPath path)"

abbreviation diag0 :: "diagnosticCode \<Rightarrow> diagnosticPhase \<Rightarrow> workflowDiagnostic" where
  "diag0 code phase \<equiv> makeP2pWorkflowDiagnostic code (Some phase) noExtras"

definition hasError :: "workflowDiagnostic list \<Rightarrow> bool" where
  "hasError ds = list_ex (\<lambda>d. dg_severity d = Sv_error) ds"

definition allErrors :: "workflowDiagnostic list \<Rightarrow> bool" where
  "allErrors ds = list_all (\<lambda>d. dg_severity d = Sv_error) ds"

lemma severity_make [diag_simps]:
  "dg_severity (makeP2pWorkflowDiagnostic code phase x) = (if code \<in> set WARNING_CODES then Sv_warning else Sv_error)"
  by (simp add: makeP2pWorkflowDiagnostic_def)

lemma hasError_simps [simp]: "\<not> hasError []" "hasError (d # ds) \<longleftrightarrow> dg_severity d = Sv_error \<or> hasError ds"
  "hasError (xs @ ys) \<longleftrightarrow> hasError xs \<or> hasError ys"
  by (auto simp: hasError_def)

lemma allErrors_simps [simp]: "allErrors []" "allErrors (d # ds) \<longleftrightarrow> dg_severity d = Sv_error \<and> allErrors ds"
  "allErrors (xs @ ys) \<longleftrightarrow> allErrors xs \<and> allErrors ys"
  by (auto simp: allErrors_def)

lemma allErrors_pushIf [simp]: "allErrors (pushIf c d) \<longleftrightarrow> (c \<longrightarrow> dg_severity d = Sv_error)"
  by (cases c) simp_all

lemma allErrors_concatIndexed: "(\<And>i x. allErrors (f i x)) \<Longrightarrow> allErrors (concatIndexed f i xs)"
  by (induction f i xs rule: concatIndexed.induct) simp_all

lemma allErrors_hasError: "allErrors ds \<Longrightarrow> hasError ds \<longleftrightarrow> ds \<noteq> []"
  by (cases ds) simp_all

text \<open>The path of an array element or a member: \<^verbatim>\<open>`${path}[${index}]`\<close>, \<^verbatim>\<open>`${path}.${key}`\<close>.\<close>

definition itemPath :: "string \<Rightarrow> nat \<Rightarrow> string" where
  "itemPath path i = path @ ''['' @ showNat i @ '']''"

definition memberPath :: "string \<Rightarrow> string \<Rightarrow> string" where
  "memberPath path key = path @ ''.'' @ key"

section \<open>Enumerations\<close>

datatype workflowKind = Wk_legacy | Wk_combo | Wk_advanced

datatype nodeKind = Nk_llm | Nk_logic | Nk_script

datatype presetKey =
    Pk_brainstorm | Pk_discuss | Pk_audit | Pk_review | Pk_plan | Pk_openspec_propose
  | Pk_proposal_audit | Pk_implementation | Pk_implementation_audit | Pk_custom

datatype dispatchStyle = Ds_single_main | Ds_multi_dispatch

datatype edgeKind = Ek_default | Ek_conditional

datatype edgeConditionKind = Ck_routing_key_equals | Ck_verdict_marker_equals | Ck_logic_marker_equals

datatype permissionScope = Ps_analysis_only | Ps_artifact_generation | Ps_implementation

datatype artifactConvention = Ac_none | Ac_explicit_paths | Ac_openspec_convention

datatype symlinkPolicy = Sp_reject_all | Sp_allow_existing_under_root

datatype commandKind = Cm_argv | Cm_interpreter

fun workflowKindText :: "workflowKind \<Rightarrow> string" where
  "workflowKindText Wk_legacy = ''legacy''"
| "workflowKindText Wk_combo = ''combo''"
| "workflowKindText Wk_advanced = ''advanced''"

fun nodeKindText :: "nodeKind \<Rightarrow> string" where
  "nodeKindText Nk_llm = ''llm''"
| "nodeKindText Nk_logic = ''logic''"
| "nodeKindText Nk_script = ''script''"

fun presetText :: "presetKey \<Rightarrow> string" where
  "presetText Pk_brainstorm = ''brainstorm''"
| "presetText Pk_discuss = ''discuss''"
| "presetText Pk_audit = ''audit''"
| "presetText Pk_review = ''review''"
| "presetText Pk_plan = ''plan''"
| "presetText Pk_openspec_propose = ''openspec_propose''"
| "presetText Pk_proposal_audit = ''proposal_audit''"
| "presetText Pk_implementation = ''implementation''"
| "presetText Pk_implementation_audit = ''implementation_audit''"
| "presetText Pk_custom = ''custom''"

fun dispatchStyleText :: "dispatchStyle \<Rightarrow> string" where
  "dispatchStyleText Ds_single_main = ''single_main''"
| "dispatchStyleText Ds_multi_dispatch = ''multi_dispatch''"

fun edgeKindText :: "edgeKind \<Rightarrow> string" where
  "edgeKindText Ek_default = ''default''"
| "edgeKindText Ek_conditional = ''conditional''"

fun conditionKindText :: "edgeConditionKind \<Rightarrow> string" where
  "conditionKindText Ck_routing_key_equals = ''routing_key_equals''"
| "conditionKindText Ck_verdict_marker_equals = ''verdict_marker_equals''"
| "conditionKindText Ck_logic_marker_equals = ''logic_marker_equals''"

fun scopeText :: "permissionScope \<Rightarrow> string" where
  "scopeText Ps_analysis_only = ''analysis_only''"
| "scopeText Ps_artifact_generation = ''artifact_generation''"
| "scopeText Ps_implementation = ''implementation''"

fun conventionText :: "artifactConvention \<Rightarrow> string" where
  "conventionText Ac_none = ''none''"
| "conventionText Ac_explicit_paths = ''explicit_paths''"
| "conventionText Ac_openspec_convention = ''openspec_convention''"

fun symlinkPolicyText :: "symlinkPolicy \<Rightarrow> string" where
  "symlinkPolicyText Sp_reject_all = ''reject_all''"
| "symlinkPolicyText Sp_allow_existing_under_root = ''allow_existing_under_root''"

fun commandKindText :: "commandKind \<Rightarrow> string" where
  "commandKindText Cm_argv = ''argv''"
| "commandKindText Cm_interpreter = ''interpreter''"

definition P2P_WORKFLOW_KINDS :: "string list" where
  "P2P_WORKFLOW_KINDS = [''legacy'', ''combo'', ''advanced'']"

definition P2P_NODE_KINDS :: "string list" where
  "P2P_NODE_KINDS = [''llm'', ''logic'', ''script'']"

definition P2P_PRESET_KEYS :: "string list" where
  "P2P_PRESET_KEYS = [''brainstorm'', ''discuss'', ''audit'', ''review'', ''plan'', ''openspec_propose'',
     ''proposal_audit'', ''implementation'', ''implementation_audit'', ''custom'']"

definition P2P_NODE_DISPATCH_STYLES :: "string list" where
  "P2P_NODE_DISPATCH_STYLES = [''single_main'', ''multi_dispatch'']"

definition P2P_EDGE_KINDS :: "string list" where
  "P2P_EDGE_KINDS = [''default'', ''conditional'']"

definition P2P_EDGE_CONDITION_KINDS :: "string list" where
  "P2P_EDGE_CONDITION_KINDS = [''routing_key_equals'', ''verdict_marker_equals'', ''logic_marker_equals'']"

definition P2P_PERMISSION_SCOPES :: "string list" where
  "P2P_PERMISSION_SCOPES = [''analysis_only'', ''artifact_generation'', ''implementation'']"

definition P2P_ARTIFACT_CONVENTIONS :: "string list" where
  "P2P_ARTIFACT_CONVENTIONS = [''none'', ''explicit_paths'', ''openspec_convention'']"

definition P2P_START_CONTEXT_SOURCE_KINDS :: "string list" where
  "P2P_START_CONTEXT_SOURCE_KINDS = [''current_prompt'', ''associated_discussion_file'',
     ''recent_discussion_history'', ''file_reference'']"

definition P2P_FORBIDDEN_ENVELOPE_FIELD_NAMES :: "string list" where
  "P2P_FORBIDDEN_ENVELOPE_FIELD_NAMES = [''compiledWorkflow'', ''boundWorkflow'', ''privateRuntimeState'',
     ''runtimePrivateState'', ''rawPrompt'', ''rawPromptText'', ''scriptRawOutputs'', ''rawScriptOutput'',
     ''artifactBaselines'', ''privateArtifactBaselines'', ''editorCache'', ''hiddenEditorCache'', ''env'',
     ''environment'', ''token'', ''accessToken'', ''refreshToken'', ''apiKey'', ''secret'']"

definition P2P_WORKFLOW_CAPABILITY_V1 :: string where
  "P2P_WORKFLOW_CAPABILITY_V1 = ''p2p.workflow.v1''"

definition P2P_WORKFLOW_SCRIPT_ARGV_CAPABILITY_V1 :: string where
  "P2P_WORKFLOW_SCRIPT_ARGV_CAPABILITY_V1 = ''p2p.workflow.script.argv.v1''"

definition P2P_WORKFLOW_SCRIPT_INTERPRETER_CAPABILITY_V1 :: string where
  "P2P_WORKFLOW_SCRIPT_INTERPRETER_CAPABILITY_V1 = ''p2p.workflow.script.interpreter.v1''"

definition P2P_WORKFLOW_OPENSPEC_ARTIFACTS_CAPABILITY_V1 :: string where
  "P2P_WORKFLOW_OPENSPEC_ARTIFACTS_CAPABILITY_V1 = ''p2p.workflow.openspec-artifacts.v1''"

definition P2P_WORKFLOW_IMPLEMENTATION_CAPABILITY_V1 :: string where
  "P2P_WORKFLOW_IMPLEMENTATION_CAPABILITY_V1 = ''p2p.workflow.implementation.v1''"

definition P2P_WORKFLOW_CAPABILITIES :: "string list" where
  "P2P_WORKFLOW_CAPABILITIES = [P2P_WORKFLOW_CAPABILITY_V1, P2P_WORKFLOW_SCRIPT_ARGV_CAPABILITY_V1,
     P2P_WORKFLOW_SCRIPT_INTERPRETER_CAPABILITY_V1, P2P_WORKFLOW_OPENSPEC_ARTIFACTS_CAPABILITY_V1,
     P2P_WORKFLOW_IMPLEMENTATION_CAPABILITY_V1]"

fun P2P_PRESET_DEFAULT_PERMISSION_SCOPE :: "presetKey \<Rightarrow> permissionScope" where
  "P2P_PRESET_DEFAULT_PERMISSION_SCOPE Pk_openspec_propose = Ps_artifact_generation"
| "P2P_PRESET_DEFAULT_PERMISSION_SCOPE Pk_implementation = Ps_implementation"
| "P2P_PRESET_DEFAULT_PERMISSION_SCOPE _ = Ps_analysis_only"

fun P2P_PRESET_DEFAULT_DISPATCH_STYLE :: "presetKey \<Rightarrow> dispatchStyle" where
  "P2P_PRESET_DEFAULT_DISPATCH_STYLE Pk_brainstorm = Ds_multi_dispatch"
| "P2P_PRESET_DEFAULT_DISPATCH_STYLE Pk_discuss = Ds_multi_dispatch"
| "P2P_PRESET_DEFAULT_DISPATCH_STYLE Pk_audit = Ds_multi_dispatch"
| "P2P_PRESET_DEFAULT_DISPATCH_STYLE Pk_review = Ds_multi_dispatch"
| "P2P_PRESET_DEFAULT_DISPATCH_STYLE Pk_plan = Ds_multi_dispatch"
| "P2P_PRESET_DEFAULT_DISPATCH_STYLE _ = Ds_single_main"

section \<open>Limits\<close>

definition P2P_WORKFLOW_MAX_NODES :: nat where "P2P_WORKFLOW_MAX_NODES = 64"

definition P2P_WORKFLOW_MAX_EDGES :: nat where "P2P_WORKFLOW_MAX_EDGES = 128"

definition P2P_WORKFLOW_MAX_VARIABLES :: nat where "P2P_WORKFLOW_MAX_VARIABLES = 64"

definition P2P_WORKFLOW_MAX_VARIABLE_BYTES :: nat where "P2P_WORKFLOW_MAX_VARIABLE_BYTES = 8 * 1024"

definition P2P_WORKFLOW_MAX_PROMPT_APPEND_BYTES :: nat where "P2P_WORKFLOW_MAX_PROMPT_APPEND_BYTES = 16 * 1024"

definition P2P_WORKFLOW_MAX_ACTIVE_RUNS :: nat where "P2P_WORKFLOW_MAX_ACTIVE_RUNS = 2"

definition P2P_WORKFLOW_MAX_ACTIVE_SCRIPTS :: nat where "P2P_WORKFLOW_MAX_ACTIVE_SCRIPTS = 4"

definition P2P_WORKFLOW_ARTIFACT_MAX_FILES :: nat where "P2P_WORKFLOW_ARTIFACT_MAX_FILES = 200"

definition P2P_WORKFLOW_ARTIFACT_MAX_TOTAL_BYTES :: nat where
  "P2P_WORKFLOW_ARTIFACT_MAX_TOTAL_BYTES = 64 * 1024 * 1024"

definition P2P_WORKFLOW_ARTIFACT_MAX_FILE_BYTES :: nat where
  "P2P_WORKFLOW_ARTIFACT_MAX_FILE_BYTES = 8 * 1024 * 1024"

definition P2P_WORKFLOW_ARTIFACT_MAX_DEPTH :: nat where "P2P_WORKFLOW_ARTIFACT_MAX_DEPTH = 8"

definition P2P_ALLOWED_EXECUTABLE_MAX_BYTES :: nat where "P2P_ALLOWED_EXECUTABLE_MAX_BYTES = 256"

definition P2P_WORKFLOW_LIBRARY_MAX_ENTRIES :: nat where "P2P_WORKFLOW_LIBRARY_MAX_ENTRIES = 20"

definition P2P_WORKFLOW_TITLE_MAX_BYTES :: nat where "P2P_WORKFLOW_TITLE_MAX_BYTES = 128"

definition P2P_SCRIPT_DEFAULT_STDIN_MAX_BYTES :: nat where "P2P_SCRIPT_DEFAULT_STDIN_MAX_BYTES = 64 * 1024"

definition P2P_SCRIPT_DEFAULT_STDOUT_MAX_BYTES :: nat where "P2P_SCRIPT_DEFAULT_STDOUT_MAX_BYTES = 256 * 1024"

definition P2P_SCRIPT_DEFAULT_STDERR_MAX_BYTES :: nat where "P2P_SCRIPT_DEFAULT_STDERR_MAX_BYTES = 128 * 1024"

definition P2P_SCRIPT_DEFAULT_MACHINE_OUTPUT_MAX_BYTES :: nat where
  "P2P_SCRIPT_DEFAULT_MACHINE_OUTPUT_MAX_BYTES = 128 * 1024"

section \<open>Character classes of the patterns\<close>

definition isLowerAz :: "char \<Rightarrow> bool" where
  "isLowerAz c = (97 \<le> codeUnit c \<and> codeUnit c \<le> 122)"

definition isUpperAz :: "char \<Rightarrow> bool" where
  "isUpperAz c = (65 \<le> codeUnit c \<and> codeUnit c \<le> 90)"

definition isDigitChar :: "char \<Rightarrow> bool" where
  "isDigitChar c = (48 \<le> codeUnit c \<and> codeUnit c \<le> 57)"

definition isVisibleAscii :: "char \<Rightarrow> bool" where
  "isVisibleAscii c = (33 \<le> codeUnit c \<and> codeUnit c \<le> 126)"

text \<open>\<^verbatim>\<open>/^[a-z][a-z0-9_]{0,63}$/\<close>.\<close>

fun isVariableName :: "string \<Rightarrow> bool" where
  "isVariableName [] = False"
| "isVariableName (c # cs) = (isLowerAz c \<and> length cs \<le> 63
     \<and> list_all (\<lambda>d. isLowerAz d \<or> isDigitChar d \<or> d = CHR ''_'') cs)"

text \<open>\<^verbatim>\<open>/^[\x21-\x7e]+$/\<close> and \<^verbatim>\<open>/^[\x21-\x7e]{1,128}$/\<close>.\<close>

definition visibleAsciiText :: "string \<Rightarrow> bool" where
  "visibleAsciiText s = (s \<noteq> [] \<and> list_all isVisibleAscii s)"

definition requestIdText :: "string \<Rightarrow> bool" where
  "requestIdText s = (visibleAsciiText s \<and> length s \<le> 128)"

end
