(* ===== verification/WfData.thy ===== *)
theory WfData
  imports WfTypes
begin

text \<open>
  The records of \<^verbatim>\<open>shared/p2p-workflow-types.ts\<close>: drafts, policies and compiled workflows,
  and the plain objects the validators see when they are handed one. An optional field is an
  option; a \<^verbatim>\<open>Record<string, number>\<close> is its list of own properties.
\<close>

section \<open>Shared helpers\<close>

text \<open>\<^verbatim>\<open>v ?? d\<close>, and the properties a read of any plain object finds on its prototype.\<close>

definition orElse :: "'a option \<Rightarrow> 'a \<Rightarrow> 'a" where
  "orElse v d = (case v of Some x \<Rightarrow> x | None \<Rightarrow> d)"

lemma orElse_simps [simp]: "orElse (Some x) d = x" "orElse None d = d"
  by (simp_all add: orElse_def)

definition OBJECT_PROTOTYPE_MEMBERS :: "string list" where
  "OBJECT_PROTOTYPE_MEMBERS = [''constructor'', ''__defineGetter__'', ''__defineSetter__'', ''hasOwnProperty'',
     ''__lookupGetter__'', ''__lookupSetter__'', ''isPrototypeOf'', ''propertyIsEnumerable'', ''toString'',
     ''valueOf'', ''__proto__'', ''toLocaleString'']"

section \<open>Node contracts\<close>

datatype variableValue = Vv_string string | Vv_number jsnum | Vv_bool bool | Vv_strings "string list"

record scriptCaps =
  sc_stdinBytes :: jsnum
  sc_stdoutBytes :: jsnum
  sc_stderrBytes :: jsnum
  sc_machineOutputBytes :: jsnum

record scriptContract =
  sp_commandKind :: commandKind
  sp_argv :: "string list"
  sp_interpreter :: "string option"
  sp_stdin :: "string option"
  sp_envAllowlist :: "string list option"
  sp_requiredMachineOutput :: "bool option"
  sp_timeoutMs :: "jsnum option"
  sp_caps :: "scriptCaps option"

record artifactContract =
  ac_convention :: artifactConvention
  ac_paths :: "string list"
  ac_permissionScope :: "permissionScope option"
  ac_symlinkPolicy :: "symlinkPolicy option"

datatype logicCondition =
    VariableEquals string string
  | VariablePresent string
  | VariableTruthy string

record logicRule =
  lr_if :: "logicCondition option"
  lr_emit :: string

record logicContract =
  lc_rules :: "logicRule list"
  lc_default :: string

datatype routingAuthority =
    Ra_none
  | Ra_audit_verdict_marker "string list"
  | Ra_logic_marker "string list"
  | Ra_script_routing_key "string list"

section \<open>Drafts\<close>

record nodeDraft =
  nd_id :: string
  nd_title :: "string option"
  nd_nodeKind :: nodeKind
  nd_preset :: presetKey
  nd_dispatchStyle :: "dispatchStyle option"
  nd_permissionScope :: "permissionScope option"
  nd_promptAppend :: "string option"
  nd_summaryPromptOverride :: "string option"
  nd_timeoutMs :: "jsnum option"
  nd_routingAuthority :: "routingAuthority option"
  nd_script :: "scriptContract option"
  nd_logic :: "logicContract option"
  nd_artifacts :: "artifactContract list option"

record edgeCondition =
  ec_kind :: edgeConditionKind
  ec_equals :: string

record edgeDraft =
  ed_id :: string
  ed_fromNodeId :: string
  ed_toNodeId :: string
  ed_edgeKind :: edgeKind
  ed_condition :: "edgeCondition option"

record variableDefinition =
  vd_name :: string
  vd_value :: variableValue

text \<open>The start context is only handed to its validator, so it stays the object it is.\<close>

record workflowDraft =
  wd_id :: string
  wd_title :: "string option"
  wd_nodes :: "nodeDraft list"
  wd_edges :: "edgeDraft list"
  wd_rootNodeId :: "string option"
  wd_startContext :: "jsval option"
  wd_variables :: "variableDefinition list option"
  wd_loopBudgets :: "(string, jsnum) jsmap option"

section \<open>Policies and compiled workflows\<close>

record staticPolicy =
  pol_policyVersion :: nat
  pol_maxNodes :: nat
  pol_maxEdges :: nat
  pol_maxLoopBudget :: nat
  pol_allowedExecutables :: "string list"
  pol_allowInterpreterScripts :: bool
  pol_allowOpenSpecArtifacts :: bool
  pol_allowImplementationPermission :: bool
  pol_maxPromptAppendBytes :: nat
  pol_maxAdvancedRuns :: nat
  pol_maxScripts :: nat
  pol_policyHash :: "string option"

record compiledNode =
  cn_id :: string
  cn_title :: "string option"
  cn_nodeKind :: nodeKind
  cn_preset :: presetKey
  cn_dispatchStyle :: "dispatchStyle option"
  cn_permissionScope :: permissionScope
  cn_promptAppend :: "string option"
  cn_summaryPromptOverride :: "string option"
  cn_routingAuthority :: routingAuthority
  cn_script :: "scriptContract option"
  cn_logic :: "logicContract option"
  cn_artifacts :: "artifactContract list"

record compiledWorkflow =
  cw_workflowId :: string
  cw_rootNodeId :: string
  cw_nodes :: "compiledNode list"
  cw_edges :: "edgeDraft list"
  cw_variables :: "variableDefinition list"
  cw_loopBudgets :: "(string, jsnum) jsmap"
  cw_derivedRequiredCapabilities :: "string list"
  cw_staticPolicyHash :: string
  cw_workflowContractHash :: string
  cw_diagnostics :: "workflowDiagnostic list"

section \<open>The objects behind the records\<close>

fun variableValue_js :: "variableValue \<Rightarrow> jsval" where
  "variableValue_js (Vv_string s) = Str s"
| "variableValue_js (Vv_number n) = Number n"
| "variableValue_js (Vv_bool b) = Bool b"
| "variableValue_js (Vv_strings ss) = Arr (map Str ss)"

definition caps_js :: "scriptCaps \<Rightarrow> jsval" where
  "caps_js c = Obj [(''stdinBytes'', Number (sc_stdinBytes c)), (''stdoutBytes'', Number (sc_stdoutBytes c)),
     (''stderrBytes'', Number (sc_stderrBytes c)), (''machineOutputBytes'', Number (sc_machineOutputBytes c))]"

definition scriptContract_js :: "scriptContract \<Rightarrow> jsval" where
  "scriptContract_js s = Obj (
     [(''commandKind'', Str (commandKindText (sp_commandKind s))), (''argv'', Arr (map Str (sp_argv s)))]
     @ optField ''interpreter'' Str (sp_interpreter s)
     @ optField ''stdin'' Str (sp_stdin s)
     @ optField ''envAllowlist'' (\<lambda>xs. Arr (map Str xs)) (sp_envAllowlist s)
     @ optField ''requiredMachineOutput'' Bool (sp_requiredMachineOutput s)
     @ optField ''timeoutMs'' Number (sp_timeoutMs s)
     @ optField ''caps'' caps_js (sp_caps s))"

definition artifactContract_js :: "artifactContract \<Rightarrow> jsval" where
  "artifactContract_js a = Obj (
     [(''convention'', Str (conventionText (ac_convention a))), (''paths'', Arr (map Str (ac_paths a)))]
     @ optField ''permissionScope'' (\<lambda>s. Str (scopeText s)) (ac_permissionScope a)
     @ optField ''symlinkPolicy'' (\<lambda>p. Str (symlinkPolicyText p)) (ac_symlinkPolicy a))"

fun logicCondition_js :: "logicCondition \<Rightarrow> jsval" where
  "logicCondition_js (VariableEquals n e) =
     Obj [(''kind'', Str ''variable_equals''), (''name'', Str n), (''equals'', Str e)]"
| "logicCondition_js (VariablePresent n) = Obj [(''kind'', Str ''variable_present''), (''name'', Str n)]"
| "logicCondition_js (VariableTruthy n) = Obj [(''kind'', Str ''variable_truthy''), (''name'', Str n)]"

definition logicRule_js :: "logicRule \<Rightarrow> jsval" where
  "logicRule_js r = Obj (optField ''if'' logicCondition_js (lr_if r) @ [(''emit'', Str (lr_emit r))])"

definition logicContract_js :: "logicContract \<Rightarrow> jsval" where
  "logicContract_js l = Obj [(''rules'', Arr (map logicRule_js (lc_rules l))), (''default'', Str (lc_default l))]"

fun routingAuthority_js :: "routingAuthority \<Rightarrow> jsval" where
  "routingAuthority_js Ra_none = Obj [(''kind'', Str ''none'')]"
| "routingAuthority_js (Ra_audit_verdict_marker ms) =
     Obj [(''kind'', Str ''audit_verdict_marker''), (''allowedMarkers'', Arr (map Str ms))]"
| "routingAuthority_js (Ra_logic_marker ms) =
     Obj [(''kind'', Str ''logic_marker''), (''allowedMarkers'', Arr (map Str ms))]"
| "routingAuthority_js (Ra_script_routing_key ks) =
     Obj [(''kind'', Str ''script_routing_key''), (''allowedKeys'', Arr (map Str ks))]"

definition nodeDraft_js :: "nodeDraft \<Rightarrow> jsval" where
  "nodeDraft_js n = Obj (
     [(''id'', Str (nd_id n)), (''nodeKind'', Str (nodeKindText (nd_nodeKind n))),
      (''preset'', Str (presetText (nd_preset n)))]
     @ optField ''title'' Str (nd_title n)
     @ optField ''dispatchStyle'' (\<lambda>d. Str (dispatchStyleText d)) (nd_dispatchStyle n)
     @ optField ''permissionScope'' (\<lambda>s. Str (scopeText s)) (nd_permissionScope n)
     @ optField ''promptAppend'' Str (nd_promptAppend n)
     @ optField ''summaryPromptOverride'' Str (nd_summaryPromptOverride n)
     @ optField ''timeoutMs'' Number (nd_timeoutMs n)
     @ optField ''routingAuthority'' routingAuthority_js (nd_routingAuthority n)
     @ optField ''script'' scriptContract_js (nd_script n)
     @ optField ''logic'' logicContract_js (nd_logic n)
     @ optField ''artifacts'' (\<lambda>as. Arr (map artifactContract_js as)) (nd_artifacts n))"

definition edgeCondition_js :: "edgeCondition \<Rightarrow> jsval" where
  "edgeCondition_js c = Obj [(''kind'', Str (conditionKindText (ec_kind c))), (''equals'', Str (ec_equals c))]"

definition edgeDraft_js :: "edgeDraft \<Rightarrow> jsval" where
  "edgeDraft_js e = Obj (
     [(''id'', Str (ed_id e)), (''fromNodeId'', Str (ed_fromNodeId e)), (''toNodeId'', Str (ed_toNodeId e)),
      (''edgeKind'', Str (edgeKindText (ed_edgeKind e)))]
     @ optField ''condition'' edgeCondition_js (ed_condition e))"

definition variable_js :: "variableDefinition \<Rightarrow> jsval" where
  "variable_js v = Obj [(''name'', Str (vd_name v)), (''value'', variableValue_js (vd_value v))]"

definition numberRecord_js :: "(string, jsnum) jsmap \<Rightarrow> jsval" where
  "numberRecord_js m = Obj (map (\<lambda>(k, n). (k, Number n)) m)"

definition workflowDraft_js :: "workflowDraft \<Rightarrow> jsval" where
  "workflowDraft_js d = Obj (
     [(''schemaVersion'', Nat 1), (''id'', Str (wd_id d)), (''nodes'', Arr (map nodeDraft_js (wd_nodes d))),
      (''edges'', Arr (map edgeDraft_js (wd_edges d)))]
     @ optField ''title'' Str (wd_title d)
     @ optField ''rootNodeId'' Str (wd_rootNodeId d)
     @ optField ''startContext'' (\<lambda>v. v) (wd_startContext d)
     @ optField ''variables'' (\<lambda>vs. Arr (map variable_js vs)) (wd_variables d)
     @ optField ''loopBudgets'' numberRecord_js (wd_loopBudgets d))"

definition compiledNode_js :: "compiledNode \<Rightarrow> jsval" where
  "compiledNode_js n = Obj (
     [(''id'', Str (cn_id n)), (''nodeKind'', Str (nodeKindText (cn_nodeKind n))),
      (''preset'', Str (presetText (cn_preset n))), (''permissionScope'', Str (scopeText (cn_permissionScope n))),
      (''routingAuthority'', routingAuthority_js (cn_routingAuthority n)),
      (''artifacts'', Arr (map artifactContract_js (cn_artifacts n)))]
     @ optField ''title'' Str (cn_title n)
     @ optField ''dispatchStyle'' (\<lambda>d. Str (dispatchStyleText d)) (cn_dispatchStyle n)
     @ optField ''promptAppend'' Str (cn_promptAppend n)
     @ optField ''summaryPromptOverride'' Str (cn_summaryPromptOverride n)
     @ optField ''script'' scriptContract_js (cn_script n)
     @ optField ''logic'' logicContract_js (cn_logic n))"

text \<open>
  A member read of an object built this way: the members are looked up one by one, so a
  read simplifies to the field it names.
\<close>

lemma map_of_opt [simp]: "map_of (optField k f x) j = (if j = k then map_option f x else None)"
  by (cases x) simp_all

end
