(* ===== verification/WfPaths.thy ===== *)
theory WfPaths
  imports WfTypes
begin

text \<open>
  Artifact paths: \<^verbatim>\<open>shared/p2p-workflow-artifact-paths.ts\<close> and the older copy of its check in
  \<^verbatim>\<open>shared/p2p-workflow-validators.ts\<close>. The specification side is a lexical path resolution:
  an accepted path stays below the directory it is joined to, segment by segment.
\<close>

section \<open>The checks of the code\<close>

text \<open>\<^verbatim>\<open>/^[a-zA-Z]:/\<close>.\<close>

definition hasDrivePrefix :: "string \<Rightarrow> bool" where
  "hasDrivePrefix p = (case p of c # d # _ \<Rightarrow> (isLowerAz c \<or> isUpperAz c) \<and> d = CHR '':'' | _ \<Rightarrow> False)"

definition badSegment :: "string \<Rightarrow> bool" where
  "badSegment s = (s = [] \<or> s = ''.'' \<or> s = ''..'')"

definition isP2pArtifactRelativePath :: "string \<Rightarrow> bool" where
  "isP2pArtifactRelativePath p =
     (if p = [] \<or> CHR 0x00 \<in> set p then False
      else if startsWith p ''/'' \<or> startsWith p ''~'' \<or> CHR 0x5C \<in> set p then False
      else if hasDrivePrefix p \<or> startsWith p ''//'' then False
      else list_all (\<lambda>s. s \<noteq> [] \<and> s \<noteq> ''.'' \<and> s \<noteq> ''..'') (splitOn (CHR ''/'') p))"

definition getP2pArtifactPathDepth :: "string \<Rightarrow> nat" where
  "getP2pArtifactPathDepth p = length (filter (\<lambda>s. s \<noteq> []) (splitOn (CHR ''/'') p))"

definition validateP2pArtifactRelativePath :: "jsval \<Rightarrow> string \<Rightarrow> workflowDiagnostic list + string" where
  "validateP2pArtifactRelativePath input fieldPath = (case input of
     Str p \<Rightarrow> if \<not> isP2pArtifactRelativePath p then Inl [diag Dc_unsafe_artifact_path Dp_compile fieldPath] else Inr p
   | _ \<Rightarrow> Inl [diag Dc_unsafe_artifact_path Dp_compile fieldPath])"

definition isSafeRelativeArtifactPath :: "string \<Rightarrow> bool" where
  "isSafeRelativeArtifactPath p =
     (if p = [] \<or> startsWith p ''/'' \<or> startsWith p ''~'' \<or> CHR 0x00 \<in> set p \<or> CHR 0x5C \<in> set p then False
      else if hasDrivePrefix p \<or> startsWith p ''//'' then False
      else list_all (\<lambda>s. s \<noteq> [] \<and> s \<noteq> ''.'' \<and> s \<noteq> ''..'') (splitOn (CHR ''/'') p))"

section \<open>Lexical resolution\<close>

text \<open>
  Joining a relative path to a directory, given by the list of its segments, the way
  \<^verbatim>\<open>path.resolve\<close> normalises: empty segments and dots vanish, two dots go up.
\<close>

fun resolveSegments :: "string list \<Rightarrow> string list \<Rightarrow> string list" where
  "resolveSegments dir [] = dir"
| "resolveSegments dir (s # ss) =
     (if s = [] \<or> s = ''.'' then resolveSegments dir ss
      else if s = ''..'' then resolveSegments (butlast dir) ss
      else resolveSegments (dir @ [s]) ss)"

definition resolvePath :: "string list \<Rightarrow> string \<Rightarrow> string list" where
  "resolvePath base p = (if startsWith p ''/'' then resolveSegments [] (splitOn (CHR ''/'') p)
                         else resolveSegments base (splitOn (CHR ''/'') p))"

lemma resolve_clean: "list_all (\<lambda>s. \<not> badSegment s) ss \<Longrightarrow> resolveSegments dir ss = dir @ ss"
  by (induction dir ss rule: resolveSegments.induct) (auto simp: badSegment_def)

lemma resolve_dotdot: "\<not> badSegment s \<Longrightarrow> resolveSegments dir (s # ''..'' # ss) = resolveSegments dir ss"
  by (auto simp: badSegment_def)

lemma relative_segments:
  "isP2pArtifactRelativePath p \<Longrightarrow> list_all (\<lambda>s. \<not> badSegment s) (splitOn (CHR ''/'') p)"
  by (simp add: isP2pArtifactRelativePath_def badSegment_def split: if_splits)

lemma relative_not_absolute: "isP2pArtifactRelativePath p \<Longrightarrow> \<not> startsWith p ''/''"
  by (simp add: isP2pArtifactRelativePath_def split: if_splits)

lemma relative_resolves_below:
  assumes "isP2pArtifactRelativePath p"
  shows "resolvePath base p = base @ splitOn (CHR ''/'') p"
  by (simp add: resolvePath_def relative_not_absolute [OF assms] resolve_clean relative_segments [OF assms])

lemma relative_depth:
  assumes "isP2pArtifactRelativePath p"
  shows "getP2pArtifactPathDepth p = length (splitOn (CHR ''/'') p)"
proof -
  have "filter (\<lambda>s. s \<noteq> []) (splitOn (CHR ''/'') p) = splitOn (CHR ''/'') p"
    using relative_segments [OF assms] by (auto simp: filter_id_conv list_all_iff badSegment_def)
  then show ?thesis by (simp add: getP2pArtifactPathDepth_def)
qed

lemma path_checks_agree: "isSafeRelativeArtifactPath p = isP2pArtifactRelativePath p"
  by (auto simp: isSafeRelativeArtifactPath_def isP2pArtifactRelativePath_def)

text \<open>Two accepted paths that resolve to the same place are the same path.\<close>

lemma relative_resolution_inj:
  assumes "isP2pArtifactRelativePath p" and "isP2pArtifactRelativePath q"
    and "resolvePath base p = resolvePath base q"
  shows "p = q"
proof -
  have "splitOn (CHR ''/'') p = splitOn (CHR ''/'') q"
    using assms by (simp add: relative_resolves_below)
  then show ?thesis by (metis joinWith_splitOn)
qed

lemma validate_path_simps [simp]:
  "validateP2pArtifactRelativePath (Str p) f
     = (if isP2pArtifactRelativePath p then Inr p else Inl [diag Dc_unsafe_artifact_path Dp_compile f])"
  by (simp add: validateP2pArtifactRelativePath_def)

end
