(* ===== verification/WfScript.thy ===== *)
theory WfScript
  imports WfData WfPaths
begin

text \<open>
  \<^verbatim>\<open>shared/p2p-workflow-script.ts\<close>: the contract of a script node and the line protocol its
  process answers with. \<^verbatim>\<open>JSON.parse\<close> of one line is an argument of the parser: the theorems
  hold for every decoder.
\<close>

section \<open>Contract validation\<close>

definition DEFAULT_P2P_SCRIPT_CAPS :: scriptCaps where
  "DEFAULT_P2P_SCRIPT_CAPS = \<lparr>
     sc_stdinBytes = Num (of_nat P2P_SCRIPT_DEFAULT_STDIN_MAX_BYTES),
     sc_stdoutBytes = Num (of_nat P2P_SCRIPT_DEFAULT_STDOUT_MAX_BYTES),
     sc_stderrBytes = Num (of_nat P2P_SCRIPT_DEFAULT_STDERR_MAX_BYTES),
     sc_machineOutputBytes = Num (of_nat P2P_SCRIPT_DEFAULT_MACHINE_OUTPUT_MAX_BYTES)\<rparr>"

definition DEFAULT_P2P_SCRIPT_MACHINE_OUTPUT_FRAME_MAX_BYTES :: nat where
  "DEFAULT_P2P_SCRIPT_MACHINE_OUTPUT_FRAME_MAX_BYTES = 16 * 1024"

text \<open>\<^verbatim>\<open>Number.isInteger(v) && v >= 0\<close>.\<close>

definition nonNegInteger :: "jsval \<Rightarrow> bool" where
  "nonNegInteger v = (case v of Number n \<Rightarrow> numInteger n \<and> \<not> numLess n (Num 0) | _ \<Rightarrow> False)"

text \<open>
  \<^verbatim>\<open>key in caps\<close> also holds of the members every object inherits. Assigning such a key
  creates an own property besides the four caps (assigning a number to \<^verbatim>\<open>__proto__\<close> does
  nothing); these stray properties are the second component.
\<close>

definition CAP_KEYS :: "string list" where
  "CAP_KEYS = [''stdinBytes'', ''stdoutBytes'', ''stderrBytes'', ''machineOutputBytes'']"

type_synonym capsObject = "scriptCaps \<times> (string, jsnum) jsmap"

definition setCap :: "string \<Rightarrow> jsnum \<Rightarrow> capsObject \<Rightarrow> capsObject" where
  "setCap key n = (\<lambda>(c, extra).
     if key = ''stdinBytes'' then (c\<lparr>sc_stdinBytes := n\<rparr>, extra)
     else if key = ''stdoutBytes'' then (c\<lparr>sc_stdoutBytes := n\<rparr>, extra)
     else if key = ''stderrBytes'' then (c\<lparr>sc_stderrBytes := n\<rparr>, extra)
     else if key = ''machineOutputBytes'' then (c\<lparr>sc_machineOutputBytes := n\<rparr>, extra)
     else if key = ''__proto__'' then (c, extra)
     else (c, mapSet extra key n))"

fun normalizeCapsFrom :: "capsObject \<Rightarrow> (string \<times> jsval) list \<Rightarrow> capsObject option" where
  "normalizeCapsFrom caps [] = Some caps"
| "normalizeCapsFrom caps ((key, capValue) # rest) =
     (if key \<notin> set CAP_KEYS \<union> set OBJECT_PROTOTYPE_MEMBERS then None
      else if \<not> nonNegInteger capValue then None
      else normalizeCapsFrom (setCap key (numOfVal capValue) caps) rest)"

definition normalizeScriptCaps :: "jsval \<Rightarrow> capsObject option" where
  "normalizeScriptCaps v =
     (if v = Undef then Some (DEFAULT_P2P_SCRIPT_CAPS, [])
      else if \<not> isRecord v then None
      else normalizeCapsFrom (DEFAULT_P2P_SCRIPT_CAPS, []) (objFields v))"

text \<open>\<^verbatim>\<open>/^[A-Z_][A-Z0-9_]{0,127}$/\<close>.\<close>

definition isSafeEnvironmentName :: "jsval \<Rightarrow> bool" where
  "isSafeEnvironmentName v = (case v of
     Str (c # cs) \<Rightarrow> (isUpperAz c \<or> c = CHR ''_'') \<and> length cs \<le> 127
       \<and> list_all (\<lambda>d. isUpperAz d \<or> isDigitChar d \<or> d = CHR ''_'') cs
   | _ \<Rightarrow> False)"

definition invalidScriptContract :: "string \<Rightarrow> workflowDiagnostic list" where
  "invalidScriptContract fieldPath = [diag Dc_invalid_script_contract Dp_compile fieldPath]"

record scriptAccepted =
  sa_contract :: scriptContract
  sa_strayCaps :: "(string, jsnum) jsmap"

definition buildScriptContract :: "jsval \<Rightarrow> jsval \<Rightarrow> scriptCaps \<Rightarrow> scriptContract" where
  "buildScriptContract input commandKind caps = \<lparr>
     sp_commandKind = (if commandKind = Str ''argv'' then Cm_argv else Cm_interpreter),
     sp_argv = map strOf (arrItems (fld input ''argv'')),
     sp_interpreter = (if commandKind = Str ''interpreter'' then Some (strOf (fld input ''interpreter'')) else None),
     sp_stdin = (case fld input ''stdin'' of Str s \<Rightarrow> Some s | _ \<Rightarrow> None),
     sp_envAllowlist =
       (if isArray (fld input ''envAllowlist'') \<and> list_all isString (arrItems (fld input ''envAllowlist''))
        then Some (map strOf (arrItems (fld input ''envAllowlist''))) else None),
     sp_requiredMachineOutput = (case fld input ''requiredMachineOutput'' of Bool b \<Rightarrow> Some b | _ \<Rightarrow> None),
     sp_timeoutMs = (case fld input ''timeoutMs'' of Number n \<Rightarrow> Some n | _ \<Rightarrow> None),
     sp_caps = Some caps\<rparr>"

definition validateP2pScriptContract :: "jsval \<Rightarrow> string \<Rightarrow> workflowDiagnostic list + scriptAccepted" where
  "validateP2pScriptContract input fieldPath =
     (if \<not> isRecord input then Inl (invalidScriptContract fieldPath)
      else
        let commandKind = (if fld input ''commandKind'' = Undef \<or> fld input ''commandKind'' = Null
                           then Str ''argv'' else fld input ''commandKind'');
            argv = arrItems (fld input ''argv'')
        in
        if commandKind \<noteq> Str ''argv'' \<and> commandKind \<noteq> Str ''interpreter''
          then Inl (invalidScriptContract (memberPath fieldPath ''commandKind''))
        else if \<not> isArray (fld input ''argv'') \<or> argv = [] \<or> \<not> isString (hd argv) \<or> hd argv = Str []
          then Inl (invalidScriptContract (memberPath fieldPath ''argv''))
        else if list_ex (\<lambda>e. \<not> isString e) argv
          then Inl (invalidScriptContract (memberPath fieldPath ''argv''))
        else if commandKind = Str ''interpreter''
            \<and> (\<not> isString (fld input ''interpreter'') \<or> fld input ''interpreter'' = Str [])
          then Inl (invalidScriptContract (memberPath fieldPath ''interpreter''))
        else (case normalizeScriptCaps (fld input ''caps'') of
          None \<Rightarrow> Inl (invalidScriptContract (memberPath fieldPath ''caps''))
        | Some (caps, extra) \<Rightarrow>
            if isString (fld input ''stdin'')
                \<and> numLess (sc_stdinBytes caps) (Num (of_nat (byteLength (strOf (fld input ''stdin'')))))
              then Inl (invalidScriptContract (memberPath fieldPath ''stdin''))
            else if isArray (fld input ''envAllowlist'')
                \<and> \<not> list_all isSafeEnvironmentName (arrItems (fld input ''envAllowlist''))
              then Inl (invalidScriptContract (memberPath fieldPath ''envAllowlist''))
            else if fld input ''timeoutMs'' \<noteq> Undef
                \<and> (\<not> isNumber (fld input ''timeoutMs'') \<or> \<not> numInteger (numOfVal (fld input ''timeoutMs''))
                    \<or> numLeq (numOfVal (fld input ''timeoutMs'')) (Num 0))
              then Inl (invalidScriptContract (memberPath fieldPath ''timeoutMs''))
            else Inr \<lparr>sa_contract = buildScriptContract input commandKind caps, sa_strayCaps = extra\<rparr>))"

section \<open>Machine output\<close>

datatype parseMode = Lenient_last_valid | Strict

datatype requiredField = Rf_routingKey | Rf_variables | Rf_artifacts

fun requiredFieldText :: "requiredField \<Rightarrow> string" where
  "requiredFieldText Rf_routingKey = ''routingKey''"
| "requiredFieldText Rf_variables = ''variables''"
| "requiredFieldText Rf_artifacts = ''artifacts''"

record parseOptions =
  po_mode :: "parseMode option"
  po_maxTotalBytes :: "nat option"
  po_maxFrameBytes :: "nat option"
  po_requiredFields :: "requiredField list option"

record machineOutput =
  mo_frames :: "jsval list"
  mo_finalFrame :: jsval
  mo_diagnostics :: "workflowDiagnostic list"
  mo_truncated :: bool

record machineOutputFailure =
  mx_diagnostics :: "workflowDiagnostic list"
  mx_truncated :: bool

definition P2P_SCRIPT_MACHINE_OUTPUT_KIND :: string where
  "P2P_SCRIPT_MACHINE_OUTPUT_KIND = ''p2p_script_machine_output_v1''"

text \<open>
  A prefix of at most so many bytes, never cutting a character: in the modelled range the
  decoder turns a cut two-byte character into U+FFFD, which the code then strips.
\<close>

fun byteSlice :: "string \<Rightarrow> nat \<Rightarrow> string" where
  "byteSlice [] n = []"
| "byteSlice (c # cs) n = (if charBytes c \<le> n then c # byteSlice cs (n - charBytes c) else [])"

text \<open>\<^verbatim>\<open>s.slice(0, s.lastIndexOf('\n') + 1)\<close>: everything up to the last line feed.\<close>

definition uptoLastNewline :: "string \<Rightarrow> string" where
  "uptoLastNewline s = rev (dropWhile (\<lambda>c. c \<noteq> CHR 0x0A) (rev s))"

definition stripCr :: "string \<Rightarrow> string" where
  "stripCr l = (if l \<noteq> [] \<and> last l = CHR 0x0D then butlast l else l)"

text \<open>\<^verbatim>\<open>s.split(/\r?\n/)\<close>: the last piece has no line feed behind it.\<close>

definition splitLines :: "string \<Rightarrow> string list" where
  "splitLines s = (let ps = splitOn (CHR 0x0A) s in map stripCr (butlast ps) @ [last ps])"

definition isWorkflowVariableValue :: "jsval \<Rightarrow> bool" where
  "isWorkflowVariableValue v = (isString v \<or> isNumber v \<or> isBool v \<or> (isArray v \<and> list_all isString (arrItems v)))"

definition isVariablesRecord :: "jsHost \<Rightarrow> jsval \<Rightarrow> bool" where
  "isVariablesRecord h v = (isRecord v \<and> list_all (\<lambda>(key, entry). isVariableName key
     \<and> isWorkflowVariableValue entry
     \<and> byteLength (jsonText (numDigits h) entry) \<le> P2P_WORKFLOW_MAX_VARIABLE_BYTES) (objFields v))"

definition isArtifactOutputArray :: "jsval \<Rightarrow> bool" where
  "isArtifactOutputArray v = (isArray v \<and> list_all (\<lambda>entry.
     isRecord entry \<and> isString (fld entry ''path'') \<and> isP2pArtifactRelativePath (strOf (fld entry ''path''))
     \<and> (fld entry ''sha256'' = Undef \<or> isString (fld entry ''sha256''))) (arrItems v))"

definition isP2pScriptMachineOutputFrame :: "jsHost \<Rightarrow> jsval \<Rightarrow> bool" where
  "isP2pScriptMachineOutputFrame h v =
     (if \<not> isRecord v \<or> fld v ''kind'' \<noteq> Str P2P_SCRIPT_MACHINE_OUTPUT_KIND then False
      else if fld v ''status'' \<noteq> Undef \<and> fld v ''status'' \<noteq> Str ''ok'' \<and> fld v ''status'' \<noteq> Str ''fail'' then False
      else if fld v ''routingKey'' \<noteq> Undef \<and> \<not> isString (fld v ''routingKey'') then False
      else if fld v ''displaySummary'' \<noteq> Undef \<and> \<not> isString (fld v ''displaySummary'') then False
      else if fld v ''variables'' \<noteq> Undef \<and> \<not> isVariablesRecord h (fld v ''variables'') then False
      else if fld v ''artifacts'' \<noteq> Undef \<and> \<not> isArtifactOutputArray (fld v ''artifacts'') then False
      else True)"

definition hasRequiredFields :: "jsval \<Rightarrow> requiredField list \<Rightarrow> bool" where
  "hasRequiredFields frame required = list_all (\<lambda>f. fld frame (requiredFieldText f) \<noteq> Undef) required"

definition machineOutputDiagnostic :: "parseMode \<Rightarrow> workflowDiagnostic" where
  "machineOutputDiagnostic mode = (case mode of
     Strict \<Rightarrow> diag0 Dc_script_machine_output_invalid Dp_execute
   | Lenient_last_valid \<Rightarrow> makeP2pWorkflowWarning Dc_script_machine_output_invalid (Some Dp_execute) noExtras)"

definition invalidMachineOutput :: "workflowDiagnostic list" where
  "invalidMachineOutput = [diag0 Dc_script_machine_output_invalid Dp_execute]"

text \<open>One line: the frame it holds, or nothing when any of the three checks fails.\<close>

definition lineFrame :: "jsHost \<Rightarrow> (string \<Rightarrow> jsval option) \<Rightarrow> nat \<Rightarrow> requiredField list \<Rightarrow> string \<Rightarrow> jsval option" where
  "lineFrame h jsonParse maxFrameBytes required line =
     (if byteLength line > maxFrameBytes then None
      else (case jsonParse line of
        None \<Rightarrow> None
      | Some parsed \<Rightarrow>
          if \<not> isP2pScriptMachineOutputFrame h parsed \<or> \<not> hasRequiredFields parsed required then None
          else Some parsed))"

fun parseLines :: "(string \<Rightarrow> jsval option) \<Rightarrow> parseMode \<Rightarrow> string list
    \<Rightarrow> workflowDiagnostic list + (jsval list \<times> workflowDiagnostic list)" where
  "parseLines frameOf mode [] = Inr ([], [])"
| "parseLines frameOf mode (line # rest) = (case frameOf line of
     Some f \<Rightarrow> (case parseLines frameOf mode rest of Inl ds \<Rightarrow> Inl ds | Inr (fs, ds) \<Rightarrow> Inr (f # fs, ds))
   | None \<Rightarrow> (case mode of
       Strict \<Rightarrow> Inl [machineOutputDiagnostic mode]
     | Lenient_last_valid \<Rightarrow> (case parseLines frameOf mode rest of
         Inl ds \<Rightarrow> Inl ds | Inr (fs, ds) \<Rightarrow> Inr (fs, machineOutputDiagnostic mode # ds))))"

definition parseP2pScriptMachineOutput :: "jsHost \<Rightarrow> (string \<Rightarrow> jsval option) \<Rightarrow> string \<Rightarrow> parseOptions
    \<Rightarrow> machineOutputFailure + machineOutput" where
  "parseP2pScriptMachineOutput h jsonParse input options =
     (let mode = (case po_mode options of Some m \<Rightarrow> m | None \<Rightarrow> Lenient_last_valid);
          maxTotalBytes = (case po_maxTotalBytes options of Some n \<Rightarrow> n
            | None \<Rightarrow> P2P_SCRIPT_DEFAULT_MACHINE_OUTPUT_MAX_BYTES);
          maxFrameBytes = (case po_maxFrameBytes options of Some n \<Rightarrow> n
            | None \<Rightarrow> DEFAULT_P2P_SCRIPT_MACHINE_OUTPUT_FRAME_MAX_BYTES);
          required = (case po_requiredFields options of Some fs \<Rightarrow> fs | None \<Rightarrow> []);
          truncated = (byteLength input > maxTotalBytes)
      in
      if truncated \<and> mode = Strict then Inl \<lparr>mx_diagnostics = invalidMachineOutput, mx_truncated = False\<rparr>
      else
        let parseInput = (if truncated then uptoLastNewline (byteSlice input maxTotalBytes) else input);
            lines = filter (\<lambda>line. trim line \<noteq> []) (splitLines parseInput)
        in case parseLines (lineFrame h jsonParse maxFrameBytes required) mode lines of
          Inl ds \<Rightarrow> Inl \<lparr>mx_diagnostics = ds, mx_truncated = False\<rparr>
        | Inr (frames, ds) \<Rightarrow>
            if frames = [] then Inl \<lparr>mx_diagnostics = invalidMachineOutput, mx_truncated = truncated\<rparr>
            else Inr \<lparr>mo_frames = frames, mo_finalFrame = last frames,
                   mo_diagnostics = pushIf truncated
                     (makeP2pWorkflowWarning Dc_script_machine_output_invalid (Some Dp_execute) noExtras) @ ds,
                   mo_truncated = truncated\<rparr>)"

section \<open>What an accepted contract satisfies\<close>

definition capsOk :: "scriptCaps \<Rightarrow> bool" where
  "capsOk c = list_all (\<lambda>n. nonNegInteger (Number n))
     [sc_stdinBytes c, sc_stdoutBytes c, sc_stderrBytes c, sc_machineOutputBytes c]"

definition scriptOk :: "scriptContract \<Rightarrow> bool" where
  "scriptOk c = (sp_argv c \<noteq> [] \<and> hd (sp_argv c) \<noteq> []
     \<and> (case sp_commandKind c of Cm_argv \<Rightarrow> sp_interpreter c = None
        | Cm_interpreter \<Rightarrow> (case sp_interpreter c of Some i \<Rightarrow> i \<noteq> [] | None \<Rightarrow> False))
     \<and> (case sp_caps c of None \<Rightarrow> False | Some caps \<Rightarrow> capsOk caps
          \<and> (case sp_stdin c of None \<Rightarrow> True
             | Some s \<Rightarrow> \<not> numLess (sc_stdinBytes caps) (Num (of_nat (byteLength s)))))
     \<and> (case sp_envAllowlist c of None \<Rightarrow> True | Some es \<Rightarrow> list_all (\<lambda>e. isSafeEnvironmentName (Str e)) es)
     \<and> (case sp_timeoutMs c of None \<Rightarrow> True | Some n \<Rightarrow> numInteger n \<and> \<not> numLeq n (Num 0)))"

lemma nonNegInteger_Number: "nonNegInteger v \<Longrightarrow> v = Number (numOfVal v)"
  by (cases v) (simp_all add: nonNegInteger_def)

lemma setCap_ok: "capsOk (fst caps) \<Longrightarrow> nonNegInteger v \<Longrightarrow> capsOk (fst (setCap key (numOfVal v) caps))"
  by (cases caps; cases v) (simp_all add: setCap_def capsOk_def nonNegInteger_def)

lemma normalizeCapsFrom_ok:
  "normalizeCapsFrom caps kvs = Some caps' \<Longrightarrow> capsOk (fst caps) \<Longrightarrow> capsOk (fst caps')"
proof (induction caps kvs rule: normalizeCapsFrom.induct)
  case (2 caps key v rest)
  then show ?case
    by (auto split: if_splits simp: setCap_ok)
qed simp

lemma default_caps_ok: "capsOk DEFAULT_P2P_SCRIPT_CAPS"
  by (simp add: capsOk_def DEFAULT_P2P_SCRIPT_CAPS_def nonNegInteger_def)

lemma normalizeScriptCaps_ok: "normalizeScriptCaps v = Some caps \<Longrightarrow> capsOk (fst caps)"
  by (auto simp: normalizeScriptCaps_def default_caps_ok split: if_splits
      dest: normalizeCapsFrom_ok)

lemma normalize_caps_js:
  "capsOk c \<Longrightarrow> normalizeScriptCaps (caps_js c) = Some (c, [])"
  by (simp add: normalizeScriptCaps_def caps_js_def CAP_KEYS_def capsOk_def setCap_def DEFAULT_P2P_SCRIPT_CAPS_def)

lemma strOf_Str: "list_all isString xs \<Longrightarrow> map (\<lambda>x. Str (strOf x)) xs = xs"
  by (induction xs) (auto elim: isStringE)

lemma safe_env_string: "isSafeEnvironmentName v \<Longrightarrow> isString v"
  by (cases v) (simp_all add: isSafeEnvironmentName_def)

lemma safe_env_strOf: "isSafeEnvironmentName v \<Longrightarrow> isSafeEnvironmentName (Str (strOf v))"
  by (cases v) (simp_all add: isSafeEnvironmentName_def)

lemma list_ex_not: "list_ex (\<lambda>e. \<not> P e) xs \<longleftrightarrow> \<not> list_all P xs"
  by (induction xs) auto

lemma guard_Inr:
  "((if c then Inl d else b) = Inr a) = (\<not> c \<and> b = Inr a)"
  "((case v of None \<Rightarrow> Inl d | Some x \<Rightarrow> f x) = Inr a) = (\<exists>x. v = Some x \<and> f x = Inr a)"
  "((case q of (x, y) \<Rightarrow> g x y) = Inr a) = (\<exists>x y. q = (x, y) \<and> g x y = Inr a)"
proof -
  show "((if c then Inl d else b) = Inr a) = (\<not> c \<and> b = Inr a)" by simp
  show "((case v of None \<Rightarrow> Inl d | Some x \<Rightarrow> f x) = Inr a) = (\<exists>x. v = Some x \<and> f x = Inr a)" by (cases v) simp_all
  show "((case q of (x, y) \<Rightarrow> g x y) = Inr a) = (\<exists>x y. q = (x, y) \<and> g x y = Inr a)" by (cases q) simp
qed

lemma member_reads:
  "(case (case v of Str s \<Rightarrow> Some s | _ \<Rightarrow> None) of None \<Rightarrow> True | Some s \<Rightarrow> P s) = (isString v \<longrightarrow> P (strOf v))"
  "(case (case v of Number n \<Rightarrow> Some n | _ \<Rightarrow> None) of None \<Rightarrow> True | Some n \<Rightarrow> Q n) = (isNumber v \<longrightarrow> Q (numOfVal v))"
  by (cases v; simp)+

lemma validate_script_ok:
  assumes "validateP2pScriptContract input path = Inr a"
  shows "scriptOk (sa_contract a)"
proof -
  define K where "K = (if fld input ''commandKind'' = Undef \<or> fld input ''commandKind'' = Null
                       then Str ''argv'' else fld input ''commandKind'')"
  note accepted = assms [unfolded validateP2pScriptContract_def Let_def K_def [symmetric] guard_Inr]
  have kind: "\<not> (K \<noteq> Str ''argv'' \<and> K \<noteq> Str ''interpreter'')"
    using accepted by (elim conjE)
  have argv: "\<not> (\<not> isArray (fld input ''argv'') \<or> arrItems (fld input ''argv'') = []
      \<or> \<not> isString (hd (arrItems (fld input ''argv''))) \<or> hd (arrItems (fld input ''argv'')) = Str [])"
    using accepted by (elim conjE)
  have interp: "\<not> (K = Str ''interpreter'' \<and> (\<not> isString (fld input ''interpreter'') \<or> fld input ''interpreter'' = Str []))"
    using accepted by (elim conjE)
  obtain caps extra where norm: "normalizeScriptCaps (fld input ''caps'') = Some (caps, extra)"
    and stdin: "\<not> (isString (fld input ''stdin'')
         \<and> numLess (sc_stdinBytes caps) (Num (of_nat (byteLength (strOf (fld input ''stdin''))))))"
    and env: "\<not> (isArray (fld input ''envAllowlist'')
         \<and> \<not> list_all isSafeEnvironmentName (arrItems (fld input ''envAllowlist'')))"
    and timeout: "\<not> (fld input ''timeoutMs'' \<noteq> Undef
         \<and> (\<not> isNumber (fld input ''timeoutMs'') \<or> \<not> numInteger (numOfVal (fld input ''timeoutMs''))
             \<or> numLeq (numOfVal (fld input ''timeoutMs'')) (Num 0)))"
    and a: "a = \<lparr>sa_contract = buildScriptContract input K caps, sa_strayCaps = extra\<rparr>"
  proof -
    from accepted show thesis
      by (elim conjE exE) (rule that, simp only:, assumption+, simp only: sum.inject)
  qed
  have "capsOk caps" using normalizeScriptCaps_ok [OF norm] by simp
  moreover have "strOf (hd (arrItems (fld input ''argv''))) \<noteq> []"
    using argv by (cases "hd (arrItems (fld input ''argv''))") auto
  moreover have "K = Str ''interpreter'' \<longrightarrow> strOf (fld input ''interpreter'') \<noteq> []"
    using interp by (cases "fld input ''interpreter''") auto
  moreover have "isArray (fld input ''envAllowlist'') \<longrightarrow>
      list_all (\<lambda>e. isSafeEnvironmentName (Str e)) (map strOf (arrItems (fld input ''envAllowlist'')))"
    using env by (auto simp: list_all_iff intro: safe_env_strOf)
  ultimately show ?thesis
    using kind argv stdin timeout
    by (cases "K = Str ''argv''")
      (simp_all add: a buildScriptContract_def scriptOk_def hd_map member_reads, cases "fld input ''timeoutMs''"; simp)+
qed

lemma fld_scriptContract:
  "fld (scriptContract_js c) ''commandKind'' = Str (commandKindText (sp_commandKind c))"
  "fld (scriptContract_js c) ''argv'' = Arr (map Str (sp_argv c))"
  "fld (scriptContract_js c) ''interpreter'' = optVal Str (sp_interpreter c)"
  "fld (scriptContract_js c) ''stdin'' = optVal Str (sp_stdin c)"
  "fld (scriptContract_js c) ''envAllowlist'' = optVal (\<lambda>xs. Arr (map Str xs)) (sp_envAllowlist c)"
  "fld (scriptContract_js c) ''requiredMachineOutput'' = optVal Bool (sp_requiredMachineOutput c)"
  "fld (scriptContract_js c) ''timeoutMs'' = optVal Number (sp_timeoutMs c)"
  "fld (scriptContract_js c) ''caps'' = optVal caps_js (sp_caps c)"
  "isRecord (scriptContract_js c)"
  by (simp_all add: scriptContract_js_def map_add_def split: option.splits)

text \<open>Reading back a member that was written from an option.\<close>

lemma opt_reads:
  "isString (optVal Str x) \<longleftrightarrow> x \<noteq> None"
  "(case optVal Str x of Str s \<Rightarrow> Some s | _ \<Rightarrow> None) = x"
  "(case optVal Bool y of Bool b \<Rightarrow> Some b | _ \<Rightarrow> None) = y"
  "(case optVal Number n of Number k \<Rightarrow> Some k | _ \<Rightarrow> None) = n"
  "isNumber (optVal Number n) \<longleftrightarrow> n \<noteq> None"
  "optVal Number n = Undef \<longleftrightarrow> n = None"
  "optVal Str x = Str s \<longleftrightarrow> x = Some s"
  "isArray (optVal (\<lambda>xs. Arr (map Str xs)) z) \<longleftrightarrow> z \<noteq> None"
  "arrItems (optVal (\<lambda>xs. Arr (map Str xs)) z) = (case z of None \<Rightarrow> [] | Some xs \<Rightarrow> map Str xs)"
  by (cases x; cases y; cases n; cases z; simp)+

lemma strs_back: "list_all isString (map Str xs)" "map (strOf \<circ> Str) xs = xs"
  by (induction xs) auto

lemma scriptOk_validates:
  assumes "scriptOk c"
  shows "validateP2pScriptContract (scriptContract_js c) path = Inr \<lparr>sa_contract = c, sa_strayCaps = []\<rparr>"
proof -
  obtain caps where caps: "sp_caps c = Some caps" "capsOk caps"
    using assms by (auto simp: scriptOk_def split: option.splits)
  have argv: "sp_argv c \<noteq> []" "hd (sp_argv c) \<noteq> []"
    using assms by (simp_all add: scriptOk_def)
  have kind: "sp_commandKind c = Cm_argv \<and> sp_interpreter c = None
      \<or> sp_commandKind c = Cm_interpreter \<and> (\<exists>i. sp_interpreter c = Some i \<and> i \<noteq> [])"
    using assms by (auto simp: scriptOk_def split: commandKind.splits option.splits)
  have stdin: "sp_stdin c = Some s \<Longrightarrow> \<not> numLess (sc_stdinBytes caps) (Num (of_nat (byteLength s)))" for s
    using assms caps by (simp add: scriptOk_def)
  have env: "sp_envAllowlist c = Some es \<Longrightarrow> list_all isSafeEnvironmentName (map Str es)" for es
    using assms by (simp add: scriptOk_def list_all_iff)
  have timeout: "sp_timeoutMs c = Some n \<Longrightarrow> numInteger n \<and> \<not> numLeq n (Num 0)" for n
    using assms by (simp add: scriptOk_def)
  from kind show ?thesis
  proof (elim disjE conjE exE)
    assume k: "sp_commandKind c = Cm_argv" "sp_interpreter c = None"
    show ?thesis
      by (cases "sp_stdin c"; cases "sp_envAllowlist c"; cases "sp_timeoutMs c")
        (simp_all add: validateP2pScriptContract_def buildScriptContract_def fld_scriptContract opt_reads k argv caps normalize_caps_js
          list_ex_not strs_back hd_map stdin env timeout)
  next
    fix i
    assume k: "sp_commandKind c = Cm_interpreter" "sp_interpreter c = Some i" "i \<noteq> []"
    show ?thesis
      by (cases "sp_stdin c"; cases "sp_envAllowlist c"; cases "sp_timeoutMs c")
        (simp_all add: validateP2pScriptContract_def buildScriptContract_def fld_scriptContract opt_reads k argv caps normalize_caps_js
          list_ex_not strs_back hd_map stdin env timeout)
  qed
qed

text \<open>A result that, when it is a failure, comes with at least one diagnostic, all of them errors.\<close>

definition failsWithErrors :: "workflowDiagnostic list + 'a \<Rightarrow> bool" where
  "failsWithErrors r = (case r of Inl ds \<Rightarrow> ds \<noteq> [] \<and> allErrors ds | Inr _ \<Rightarrow> True)"

lemma failsWithErrors_Inr: "failsWithErrors (Inr x)"
  by (simp add: failsWithErrors_def)

lemma failsWithErrors_if: "failsWithErrors a \<Longrightarrow> failsWithErrors b \<Longrightarrow> failsWithErrors (if c then a else b)"
  by simp

lemma failsWithErrors_option:
  "failsWithErrors a \<Longrightarrow> (\<And>x. failsWithErrors (f x)) \<Longrightarrow> failsWithErrors (case v of None \<Rightarrow> a | Some x \<Rightarrow> f x)"
  by (cases v) simp_all

lemma failsWithErrors_prod: "(\<And>x y. failsWithErrors (f x y)) \<Longrightarrow> failsWithErrors (case v of (x, y) \<Rightarrow> f x y)"
  by (cases v) simp

lemma failsWithErrors_script: "failsWithErrors (Inl (invalidScriptContract p))"
  by (simp add: failsWithErrors_def invalidScriptContract_def diag_simps WARNING_CODES_def)

lemma validate_script_errors: "failsWithErrors (validateP2pScriptContract input path)"
  unfolding validateP2pScriptContract_def Let_def
  by (intro failsWithErrors_if failsWithErrors_option failsWithErrors_prod failsWithErrors_script failsWithErrors_Inr)

section \<open>What the parser answers\<close>

lemma parseLines_strict:
  "parseLines frameOf Strict ls =
     (if list_all (\<lambda>l. frameOf l \<noteq> None) ls then Inr (map (\<lambda>l. the (frameOf l)) ls, [])
      else Inl [machineOutputDiagnostic Strict])"
  by (induction ls) (auto split: option.splits)

lemma parseLines_lenient:
  "parseLines frameOf Lenient_last_valid ls =
     Inr (List.map_filter frameOf ls,
          map (\<lambda>_. machineOutputDiagnostic Lenient_last_valid) (filter (\<lambda>l. frameOf l = None) ls))"
  by (induction ls) (auto simp: List.map_filter_simps split: option.splits)

lemma map_filter_all: "list_all (\<lambda>l. f l \<noteq> None) ls \<Longrightarrow> List.map_filter f ls = map (\<lambda>l. the (f l)) ls"
  by (induction ls) (auto simp: List.map_filter_simps)

lemma lineFrame_valid:
  "lineFrame h jp n req l = Some f \<Longrightarrow> jp l = Some f \<and> byteLength l \<le> n \<and> isP2pScriptMachineOutputFrame h f
     \<and> hasRequiredFields f req"
  by (auto simp: lineFrame_def split: if_splits option.splits)

lemma byteSlice_bound: "byteLength (byteSlice s n) \<le> n"
proof (induction s n rule: byteSlice.induct)
  case (2 c cs n)
  then show ?case by auto
qed simp

lemma byteSlice_prefix: "\<exists>rest. s = byteSlice s n @ rest"
  by (induction s n rule: byteSlice.induct) auto

lemma uptoLastNewline_prefix: "\<exists>rest. s = uptoLastNewline s @ rest \<and> CHR 0x0A \<notin> set rest"
proof -
  let ?t = "takeWhile (\<lambda>c. c \<noteq> CHR 0x0A) (rev s)"
  have "rev s = ?t @ dropWhile (\<lambda>c. c \<noteq> CHR 0x0A) (rev s)" by simp
  then have "s = uptoLastNewline s @ rev ?t"
    by (metis rev_append rev_rev_ident uptoLastNewline_def)
  moreover have "CHR 0x0A \<notin> set (rev ?t)" by (auto dest: set_takeWhileD)
  ultimately show ?thesis by blast
qed

end
