(* ===== verification/WfLogic.thy ===== *)
theory WfLogic
  imports WfData
begin

text \<open>
  \<^verbatim>\<open>shared/p2p-workflow-logic-evaluator.ts\<close>: the rules of a logic node and their validation.

  A variables snapshot is an object: its own properties and whether it has the prototype of
  plain objects, whose members a read also finds. The daemon passes an object without a
  prototype (\<^verbatim>\<open>runVariables\<close> in \<^verbatim>\<open>src/daemon/p2p-orchestrator.ts\<close>).
\<close>

definition P2P_LOGIC_MAX_RULES :: nat where "P2P_LOGIC_MAX_RULES = 32"

definition P2P_LOGIC_MAX_MARKER_BYTES :: nat where "P2P_LOGIC_MAX_MARKER_BYTES = 128"

definition PROTOTYPE_POLLUTION_KEYS :: "string list" where
  "PROTOTYPE_POLLUTION_KEYS = [''__proto__'', ''constructor'', ''prototype'']"

section \<open>Evaluation\<close>

record logicVariables =
  lv_own :: "(string, variableValue) jsmap"
  lv_nullPrototype :: bool

record logicEvalResult =
  le_marker :: string
  le_matchedRuleIndex :: int

text \<open>What a property read finds: nothing, an own value, or an inherited function.\<close>

datatype lookedUp = Missing | Own variableValue | Inherited

definition readVariable :: "logicVariables \<Rightarrow> string \<Rightarrow> lookedUp" where
  "readVariable vars name = (case mapGet (lv_own vars) name of
     Some v \<Rightarrow> Own v
   | None \<Rightarrow> if \<not> lv_nullPrototype vars \<and> name \<in> set OBJECT_PROTOTYPE_MEMBERS then Inherited else Missing)"

fun stringifyVariable :: "jsHost \<Rightarrow> variableValue \<Rightarrow> string" where
  "stringifyVariable h (Vv_string s) = s"
| "stringifyVariable h (Vv_number n) = numToString (numDigits h) n"
| "stringifyVariable h (Vv_bool b) = (if b then ''true'' else ''false'')"
| "stringifyVariable h (Vv_strings ss) = jsonText (numDigits h) (Arr (map Str ss))"

fun truthyVariable :: "variableValue \<Rightarrow> bool" where
  "truthyVariable (Vv_string s) = (length s > 0)"
| "truthyVariable (Vv_number n) = (n \<noteq> Num 0 \<and> n \<noteq> NaN)"
| "truthyVariable (Vv_bool b) = b"
| "truthyVariable (Vv_strings ss) = (length ss > 0)"

fun conditionName :: "logicCondition \<Rightarrow> string" where
  "conditionName (VariableEquals n _) = n"
| "conditionName (VariablePresent n) = n"
| "conditionName (VariableTruthy n) = n"

definition matchRule :: "jsHost \<Rightarrow> logicRule \<Rightarrow> logicVariables \<Rightarrow> bool" where
  "matchRule h rule vars = (case lr_if rule of
     None \<Rightarrow> True
   | Some c \<Rightarrow>
       if conditionName c \<in> set PROTOTYPE_POLLUTION_KEYS then False
       else (let value = readVariable vars (conditionName c) in
         case c of
           VariablePresent _ \<Rightarrow> value \<noteq> Missing
         | VariableTruthy _ \<Rightarrow> (case value of Missing \<Rightarrow> False | Own v \<Rightarrow> truthyVariable v | Inherited \<Rightarrow> False)
         | VariableEquals _ e \<Rightarrow> (case value of Missing \<Rightarrow> False | Own v \<Rightarrow> stringifyVariable h v = e
                                 | Inherited \<Rightarrow> [] = e)))"

fun evaluateFrom :: "jsHost \<Rightarrow> nat \<Rightarrow> logicRule list \<Rightarrow> string \<Rightarrow> logicVariables \<Rightarrow> logicEvalResult" where
  "evaluateFrom h i [] dflt vars = \<lparr>le_marker = dflt, le_matchedRuleIndex = -1\<rparr>"
| "evaluateFrom h i (r # rs) dflt vars =
     (if matchRule h r vars then \<lparr>le_marker = lr_emit r, le_matchedRuleIndex = int i\<rparr>
      else evaluateFrom h (Suc i) rs dflt vars)"

definition evaluateP2pLogic :: "jsHost \<Rightarrow> logicContract \<Rightarrow> logicVariables \<Rightarrow> logicEvalResult" where
  "evaluateP2pLogic h contract vars = evaluateFrom h 0 (lc_rules contract) (lc_default contract) vars"

section \<open>Validation\<close>

text \<open>A diagnostic of this validator is a field path with a summary; the summary is display text.\<close>

definition isValidMarker :: "string \<Rightarrow> bool" where
  "isValidMarker s = (if length s = 0 \<or> length s > P2P_LOGIC_MAX_MARKER_BYTES then False else visibleAsciiText s)"

text \<open>\<^verbatim>\<open>/^[A-Za-z_][A-Za-z0-9_]*$/\<close>.\<close>

fun isLogicIdentifier :: "string \<Rightarrow> bool" where
  "isLogicIdentifier [] = False"
| "isLogicIdentifier (c # cs) = ((isLowerAz c \<or> isUpperAz c \<or> c = CHR ''_'')
     \<and> list_all (\<lambda>d. isLowerAz d \<or> isUpperAz d \<or> isDigitChar d \<or> d = CHR ''_'') cs)"

definition validConditionName :: "jsval \<Rightarrow> bool" where
  "validConditionName v = (case v of
     Str n \<Rightarrow> \<not> (length n = 0 \<or> length n > 64 \<or> \<not> isLogicIdentifier n \<or> n \<in> set PROTOTYPE_POLLUTION_KEYS)
   | _ \<Rightarrow> False)"

definition validMarkerVal :: "jsval \<Rightarrow> bool" where
  "validMarkerVal v = (case v of Str s \<Rightarrow> isValidMarker s | _ \<Rightarrow> False)"

definition validateRule :: "jsval \<Rightarrow> string \<Rightarrow> string list" where
  "validateRule rule path =
     (if \<not> isRecord rule then [path]
      else
        pushIf (\<not> validMarkerVal (fld rule ''emit'')) (path @ ''.emit'') @
        (let cond = fld rule ''if'' in
         if cond = Undef then []
         else if \<not> isRecord cond then [path @ ''.if'']
         else if \<not> isOneOf (fld cond ''kind'') [''variable_equals'', ''variable_present'', ''variable_truthy'']
           then [path @ ''.if.kind'']
         else
           pushIf (\<not> validConditionName (fld cond ''name'')) (path @ ''.if.name'') @
           (if fld cond ''kind'' = Str ''variable_equals''
            then pushIf (case fld cond ''equals'' of Str s \<Rightarrow> length s > P2P_LOGIC_MAX_MARKER_BYTES | _ \<Rightarrow> True)
                   (path @ ''.if.equals'')
            else [])))"

definition validateP2pLogicContract :: "jsval \<Rightarrow> string \<Rightarrow> string list" where
  "validateP2pLogicContract contract basePath =
     (if \<not> isRecord contract then [basePath]
      else if \<not> isArray (fld contract ''rules'') then [basePath @ ''.rules'']
      else
        pushIf (length (arrItems (fld contract ''rules'')) > P2P_LOGIC_MAX_RULES) (basePath @ ''.rules'')
        @ pushIf (\<not> validMarkerVal (fld contract ''default'')) (basePath @ ''.default'')
        @ concatIndexed (\<lambda>i rule. validateRule rule (itemPath (basePath @ ''.rules'') i)) 0
            (arrItems (fld contract ''rules'')))"

section \<open>Evaluation picks the first rule that matches\<close>

lemma evaluateFrom_skip:
  "\<forall>k < j. \<not> matchRule h (rs ! k) vars \<Longrightarrow> j \<le> length rs
    \<Longrightarrow> evaluateFrom h i rs d vars = evaluateFrom h (i + j) (drop j rs) d vars"
proof (induction j arbitrary: i rs)
  case (Suc j)
  then obtain r rs' where rs: "rs = r # rs'" by (cases rs) auto
  have "\<not> matchRule h r vars" and "\<forall>k < j. \<not> matchRule h (rs' ! k) vars"
    using Suc.prems(1) rs by auto
  then show ?case using Suc.IH [of rs' "Suc i"] Suc.prems(2) rs by simp
qed simp

lemma evaluateFrom_match:
  assumes "j < length rs" and "matchRule h (rs ! j) vars" and "\<forall>k < j. \<not> matchRule h (rs ! k) vars"
  shows "evaluateFrom h i rs d vars = \<lparr>le_marker = lr_emit (rs ! j), le_matchedRuleIndex = int (i + j)\<rparr>"
proof -
  have "drop j rs = rs ! j # drop (Suc j) rs" using assms(1) by (simp add: Cons_nth_drop_Suc)
  then show ?thesis using evaluateFrom_skip [OF assms(3), of i d] assms by simp
qed

lemma evaluateFrom_default:
  assumes "\<forall>k < length rs. \<not> matchRule h (rs ! k) vars"
  shows "evaluateFrom h i rs d vars = \<lparr>le_marker = d, le_matchedRuleIndex = -1\<rparr>"
  using evaluateFrom_skip [OF assms, of i d] by simp

text \<open>Either no rule matches, or there is a first one that does.\<close>

lemma first_match:
  "(\<exists>j < length rs. P (rs ! j) \<and> (\<forall>k < j. \<not> P (rs ! k))) \<or> (\<forall>k < length rs. \<not> P (rs ! k))"
proof (cases "\<exists>j < length rs. P (rs ! j)")
  case True
  define j where "j = (LEAST j. j < length rs \<and> P (rs ! j))"
  have "j < length rs \<and> P (rs ! j)" unfolding j_def by (rule LeastI_ex) (use True in blast)
  moreover have "\<not> P (rs ! k)" if "k < j" for k
    using not_less_Least [OF that [unfolded j_def]] that calculation by simp
  ultimately show ?thesis by blast
qed blast

section \<open>A validated contract\<close>

lemma fld_logicContract [simp]:
  "fld (logicContract_js l) ''rules'' = Arr (map logicRule_js (lc_rules l))"
  "fld (logicContract_js l) ''default'' = Str (lc_default l)"
  "isRecord (logicContract_js l)"
  by (simp_all add: logicContract_js_def)

lemma fld_logicRule [simp]:
  "fld (logicRule_js r) ''emit'' = Str (lr_emit r)"
  "fld (logicRule_js r) ''if'' = optVal logicCondition_js (lr_if r)"
  "isRecord (logicRule_js r)"
  by (cases "lr_if r"; simp add: logicRule_js_def)+

lemma validMarkerVal_simp [simp]: "validMarkerVal (Str s) = isValidMarker s"
  by (simp add: validMarkerVal_def)

lemma valid_rule_emit:
  "validateRule (logicRule_js r) path = [] \<Longrightarrow> isValidMarker (lr_emit r)"
  by (simp add: validateRule_def Let_def)

lemma valid_rule_name:
  assumes "validateRule (logicRule_js r) path = []" and "lr_if r = Some c"
  shows "validConditionName (Str (conditionName c))"
  using assms by (cases c) (simp_all add: validateRule_def Let_def split: if_splits)

lemma valid_contract:
  assumes "validateP2pLogicContract (logicContract_js l) path = []"
  shows "isValidMarker (lc_default l)" and "length (lc_rules l) \<le> P2P_LOGIC_MAX_RULES"
    and "r \<in> set (lc_rules l) \<Longrightarrow> \<exists>p. validateRule (logicRule_js r) p = []"
  using assms
  by (auto simp: validateP2pLogicContract_def concatIndexed_Nil_iff in_set_conv_nth)

lemma valid_marker_visible: "isValidMarker s \<Longrightarrow> s \<noteq> [] \<and> length s \<le> 128 \<and> list_all isVisibleAscii s"
  by (simp add: isValidMarker_def visibleAsciiText_def P2P_LOGIC_MAX_MARKER_BYTES_def split: if_splits)

text \<open>On an object without prototype a condition only ever sees own variables.\<close>

lemma null_prototype_reads_own:
  "lv_nullPrototype vars \<Longrightarrow> readVariable vars n = (case mapGet (lv_own vars) n of Some v \<Rightarrow> Own v | None \<Rightarrow> Missing)"
  by (simp add: readVariable_def split: option.splits)

text \<open>What a condition means on such an object: a predicate on the own value it names.\<close>

fun conditionHolds :: "jsHost \<Rightarrow> logicCondition \<Rightarrow> (string \<Rightarrow> variableValue option) \<Rightarrow> bool" where
  "conditionHolds h (VariablePresent n) env = (env n \<noteq> None)"
| "conditionHolds h (VariableTruthy n) env = (\<exists>v. env n = Some v \<and> truthyVariable v)"
| "conditionHolds h (VariableEquals n e) env = (\<exists>v. env n = Some v \<and> stringifyVariable h v = e)"

lemma matchRule_holds:
  assumes "lv_nullPrototype vars" and "lr_if r = Some c" and "conditionName c \<notin> set PROTOTYPE_POLLUTION_KEYS"
  shows "matchRule h r vars = conditionHolds h c (mapGet (lv_own vars))"
  using assms
  by (cases c) (auto simp: matchRule_def null_prototype_reads_own Let_def split: option.splits)

end
