(* ===== verification/WfScan.thy ===== *)
theory WfScan
  imports WfTypes
begin

text \<open>
  \<^verbatim>\<open>findForbiddenEnvelopeField\<close> of \<^verbatim>\<open>shared/p2p-workflow-validators.ts\<close>: the walk that looks for
  private or secret members anywhere in a launch envelope, with its limits on depth, number
  of containers, array length and string size. The depth is restored after each call, so it is
  an argument; the container count is threaded. Values are trees, so the
  \<^verbatim>\<open>visited\<close> set never answers yes.
\<close>

section \<open>The walk\<close>

definition FORBIDDEN_SCAN_MAX_DEPTH :: nat where "FORBIDDEN_SCAN_MAX_DEPTH = 32"

definition FORBIDDEN_SCAN_MAX_NODES :: nat where "FORBIDDEN_SCAN_MAX_NODES = 5000"

definition FORBIDDEN_SCAN_MAX_ARRAY_ITEMS :: nat where "FORBIDDEN_SCAN_MAX_ARRAY_ITEMS = 1000"

definition FORBIDDEN_SCAN_MAX_STRING_BYTES :: nat where "FORBIDDEN_SCAN_MAX_STRING_BYTES = 256 * 1024"

definition forbiddenKey :: "string \<Rightarrow> bool" where
  "forbiddenKey key = (let normalizedKey = toLower key in
     key \<in> set P2P_FORBIDDEN_ENVELOPE_FIELD_NAMES
     \<or> endsWith normalizedKey ''token'' \<or> endsWith normalizedKey ''secret'' \<or> endsWith normalizedKey ''apikey''
     \<or> normalizedKey = ''env'' \<or> normalizedKey = ''environment'')"

text \<open>\<^verbatim>\<open>path || '$'\<close> and \<^verbatim>\<open>path ? `${path}.${key}` : key\<close>.\<close>

definition orDollar :: "string \<Rightarrow> string" where
  "orDollar path = (if path = [] then ''$'' else path)"

definition childPath :: "string \<Rightarrow> string \<Rightarrow> string" where
  "childPath path key = (if path \<noteq> [] then memberPath path key else key)"

fun scanValue :: "nat \<Rightarrow> string \<Rightarrow> jsval \<Rightarrow> nat \<Rightarrow> string option \<times> nat"
  and scanItems :: "nat \<Rightarrow> string \<Rightarrow> nat \<Rightarrow> jsval list \<Rightarrow> nat \<Rightarrow> string option \<times> nat"
  and scanFields :: "nat \<Rightarrow> string \<Rightarrow> (string \<times> jsval) list \<Rightarrow> nat \<Rightarrow> string option \<times> nat" where
  "scanValue depth path (Str s) nodes =
     (if byteLength s > FORBIDDEN_SCAN_MAX_STRING_BYTES then (Some (orDollar path), nodes) else (None, nodes))"
| "scanValue depth path (Arr vs) nodes =
     (if depth > FORBIDDEN_SCAN_MAX_DEPTH \<or> nodes + 1 > FORBIDDEN_SCAN_MAX_NODES then (Some (orDollar path), nodes + 1)
      else if length vs > FORBIDDEN_SCAN_MAX_ARRAY_ITEMS then (Some (orDollar path), nodes + 1)
      else scanItems depth path 0 vs (nodes + 1))"
| "scanValue depth path (Obj kvs) nodes =
     (if depth > FORBIDDEN_SCAN_MAX_DEPTH \<or> nodes + 1 > FORBIDDEN_SCAN_MAX_NODES then (Some (orDollar path), nodes + 1)
      else scanFields depth path kvs (nodes + 1))"
| "scanValue depth path _ nodes = (None, nodes)"
| "scanItems depth path i [] nodes = (None, nodes)"
| "scanItems depth path i (v # vs) nodes = (case scanValue (depth + 1) (itemPath path i) v nodes of
     (Some f, nodes') \<Rightarrow> (Some f, nodes')
   | (None, nodes') \<Rightarrow> scanItems depth path (Suc i) vs nodes')"
| "scanFields depth path [] nodes = (None, nodes)"
| "scanFields depth path ((key, v) # kvs) nodes =
     (if forbiddenKey key then (Some (childPath path key), nodes)
      else (case scanValue (depth + 1) (childPath path key) v nodes of
        (Some f, nodes') \<Rightarrow> (Some f, nodes')
      | (None, nodes') \<Rightarrow> scanFields depth path kvs nodes'))"

definition findForbiddenEnvelopeField :: "jsval \<Rightarrow> string option" where
  "findForbiddenEnvelopeField v = fst (scanValue 0 [] v 0)"

section \<open>What an accepted value is\<close>

text \<open>All values inside a value, itself included, and how deep its containers nest.\<close>

fun subvalues :: "jsval \<Rightarrow> jsval list"
  and subItems :: "jsval list \<Rightarrow> jsval list"
  and subFields :: "(string \<times> jsval) list \<Rightarrow> jsval list" where
  "subvalues (Arr vs) = Arr vs # subItems vs"
| "subvalues (Obj kvs) = Obj kvs # subFields kvs"
| "subvalues v = [v]"
| "subItems [] = []"
| "subItems (v # vs) = subvalues v @ subItems vs"
| "subFields [] = []"
| "subFields ((k, v) # kvs) = subvalues v @ subFields kvs"

fun nesting :: "jsval \<Rightarrow> nat"
  and nestItems :: "jsval list \<Rightarrow> nat"
  and nestFields :: "(string \<times> jsval) list \<Rightarrow> nat" where
  "nesting (Arr vs) = Suc (nestItems vs)"
| "nesting (Obj kvs) = Suc (nestFields kvs)"
| "nesting v = 0"
| "nestItems [] = 0"
| "nestItems (v # vs) = max (nesting v) (nestItems vs)"
| "nestFields [] = 0"
| "nestFields ((k, v) # kvs) = max (nesting v) (nestFields kvs)"

definition isContainer :: "jsval \<Rightarrow> bool" where
  "isContainer v = (isArray v \<or> isRecord v)"

definition containers :: "jsval list \<Rightarrow> nat" where
  "containers vs = length (filter isContainer vs)"

definition harmless :: "jsval \<Rightarrow> bool" where
  "harmless v = (case v of
     Str s \<Rightarrow> byteLength s \<le> FORBIDDEN_SCAN_MAX_STRING_BYTES
   | Arr vs \<Rightarrow> length vs \<le> FORBIDDEN_SCAN_MAX_ARRAY_ITEMS
   | Obj kvs \<Rightarrow> list_all (\<lambda>(k, _). \<not> forbiddenKey k) kvs
   | _ \<Rightarrow> True)"

lemma containers_simps [simp]:
  "containers [] = 0" "containers (v # vs) = (if isContainer v then 1 else 0) + containers vs"
  "containers (xs @ ys) = containers xs + containers ys"
  by (simp_all add: containers_def)

lemma isContainer_simps [simp]:
  "isContainer (Arr vs)" "isContainer (Obj kvs)" "\<not> isContainer (Str s)" "\<not> isContainer Undef"
  "\<not> isContainer Null" "\<not> isContainer (Bool b)" "\<not> isContainer (Number n)"
  by (simp_all add: isContainer_def)

lemma harmless_simps [simp]:
  "harmless (Str s) \<longleftrightarrow> byteLength s \<le> FORBIDDEN_SCAN_MAX_STRING_BYTES"
  "harmless (Arr vs) \<longleftrightarrow> length vs \<le> FORBIDDEN_SCAN_MAX_ARRAY_ITEMS"
  "harmless (Obj kvs) \<longleftrightarrow> list_all (\<lambda>(k, _). \<not> forbiddenKey k) kvs"
  "harmless Undef" "harmless Null" "harmless (Bool b)" "harmless (Number n)"
  by (simp_all add: harmless_def)

text \<open>A walk that ends quietly has counted exactly the containers it passed.\<close>

definition quiet :: "string option \<times> nat \<Rightarrow> nat \<Rightarrow> jsval list \<Rightarrow> nat \<Rightarrow> nat \<Rightarrow> bool" where
  "quiet r nodes vs depth nest \<longleftrightarrow>
     (fst r = None \<longleftrightarrow> list_all harmless vs \<and> depth + nest \<le> Suc FORBIDDEN_SCAN_MAX_DEPTH
        \<and> nodes + containers vs \<le> FORBIDDEN_SCAN_MAX_NODES)
     \<and> (fst r = None \<longrightarrow> snd r = nodes + containers vs)"

definition keysAllowed :: "(string \<times> jsval) list \<Rightarrow> bool" where
  "keysAllowed kvs = list_all (\<lambda>(k, _). \<not> forbiddenKey k) kvs"

lemma quiet_seq:
  assumes "quiet r nodes xs d n" and "fst r = None \<Longrightarrow> quiet (s (snd r)) (snd r) ys d m"
  shows "quiet (case r of (Some f, k) \<Rightarrow> (Some f, k) | (None, k) \<Rightarrow> s k) nodes (xs @ ys) d (max n m)"
proof (cases r)
  case (Pair o1 k)
  with assms show ?thesis
    by (cases o1) (auto simp: quiet_def)
qed

lemma scan_quiet:
  "depth \<le> Suc FORBIDDEN_SCAN_MAX_DEPTH \<Longrightarrow> nodes \<le> FORBIDDEN_SCAN_MAX_NODES
    \<Longrightarrow> quiet (scanValue depth path v nodes) nodes (subvalues v) depth (nesting v)"
  "depth \<le> FORBIDDEN_SCAN_MAX_DEPTH \<Longrightarrow> nodes \<le> FORBIDDEN_SCAN_MAX_NODES
    \<Longrightarrow> quiet (scanItems depth path i vs nodes) nodes (subItems vs) (Suc depth) (nestItems vs)"
  "depth \<le> FORBIDDEN_SCAN_MAX_DEPTH \<Longrightarrow> nodes \<le> FORBIDDEN_SCAN_MAX_NODES
    \<Longrightarrow> (keysAllowed kvs \<longrightarrow> quiet (scanFields depth path kvs nodes) nodes (subFields kvs) (Suc depth) (nestFields kvs))
      \<and> (\<not> keysAllowed kvs \<longrightarrow> fst (scanFields depth path kvs nodes) \<noteq> None)"
proof (induction depth path v nodes and depth path i vs nodes and depth path kvs nodes
    rule: scanValue_scanItems_scanFields.induct)
  case (2 depth path vs nodes)
  then show ?case by (auto simp: quiet_def)
next
  case (3 depth path kvs nodes)
  then show ?case by (auto simp: quiet_def keysAllowed_def)
next
  case (6 depth path i v vs nodes)
  have "quiet (scanValue (depth + 1) (itemPath path i) v nodes) nodes (subvalues v) (Suc depth) (nesting v)"
    using "6.IH"(1) "6.prems" by simp
  moreover have "quiet (scanItems depth path (Suc i) vs k) k (subItems vs) (Suc depth) (nestItems vs)"
    if "scanValue (depth + 1) (itemPath path i) v nodes = (None, k)" for k
    using "6.IH"(2) [OF that [symmetric] refl] "6.prems" that calculation by (auto simp: quiet_def)
  ultimately show ?case
    by (simp, intro quiet_seq) (metis prod.collapse)+
next
  case (8 depth path key v kvs nodes)
  let ?r = "scanValue (depth + 1) (childPath path key) v nodes"
  show ?case
  proof (cases "forbiddenKey key")
    case True
    then show ?thesis by (simp add: keysAllowed_def)
  next
    case False
    have r: "quiet ?r nodes (subvalues v) (Suc depth) (nesting v)"
      using "8.IH"(1) [OF False] "8.prems" by simp
    have rest: "(keysAllowed kvs \<longrightarrow> quiet (scanFields depth path kvs k) k (subFields kvs) (Suc depth) (nestFields kvs))
        \<and> (\<not> keysAllowed kvs \<longrightarrow> fst (scanFields depth path kvs k) \<noteq> None)" if "?r = (None, k)" for k
      using "8.IH"(2) [OF False that [symmetric] refl] "8.prems" that r by (auto simp: quiet_def)
    have "quiet (case ?r of (Some f, k) \<Rightarrow> (Some f, k) | (None, k) \<Rightarrow> scanFields depth path kvs k)
        nodes (subvalues v @ subFields kvs) (Suc depth) (max (nesting v) (nestFields kvs))" if "keysAllowed kvs"
      by (rule quiet_seq [OF r]) (metis that rest prod.collapse)
    moreover have "fst (case ?r of (Some f, k) \<Rightarrow> (Some f, k) | (None, k) \<Rightarrow> scanFields depth path kvs k) \<noteq> None"
      if "\<not> keysAllowed kvs"
      using rest that by (cases ?r) (auto split: option.splits)
    ultimately show ?thesis using False by (simp add: keysAllowed_def)
  qed
qed (auto simp: quiet_def keysAllowed_def)

lemma scan_accepts_iff:
  "findForbiddenEnvelopeField v = None \<longleftrightarrow>
     list_all harmless (subvalues v) \<and> nesting v \<le> Suc FORBIDDEN_SCAN_MAX_DEPTH
     \<and> containers (subvalues v) \<le> FORBIDDEN_SCAN_MAX_NODES"
  using scan_quiet(1) [of 0 0 "[]" v] by (simp add: quiet_def findForbiddenEnvelopeField_def)

end
