(* ===== verification/WfValidators.thy ===== *)
theory WfValidators
  imports WfScript WfLogic WfScan
begin

text \<open>
  \<^verbatim>\<open>shared/p2p-workflow-validators.ts\<close>: the checks an untrusted launch envelope, draft, start
  context or projection passes before it is used. Each check is a function from a value and
  the path printed in its diagnostics to a list of diagnostics.
\<close>

definition P2P_WORKFLOW_SCHEMA_VERSION :: nat where "P2P_WORKFLOW_SCHEMA_VERSION = 1"

definition P2P_WORKFLOW_KNOWN_SCHEMA_MAX :: nat where "P2P_WORKFLOW_KNOWN_SCHEMA_MAX = 1"

definition P2P_WORKFLOW_PROJECTION_VERSION :: nat where "P2P_WORKFLOW_PROJECTION_VERSION = 1"

definition SHORT_TEXT_MAX_BYTES :: nat where "SHORT_TEXT_MAX_BYTES = 4 * 1024"

definition START_CONTEXT_SOURCE_MAX_BYTES :: nat where "START_CONTEXT_SOURCE_MAX_BYTES = 512 * 1024"

definition START_CONTEXT_TOTAL_MAX_BYTES :: nat where "START_CONTEXT_TOTAL_MAX_BYTES = 1024 * 1024"

section \<open>The interface of a check\<close>

text \<open>
  Callers rely on two laws: a check reports errors only, so that a value is rejected exactly
  when the list is not empty, and the path it is given only shows up in the diagnostics.
\<close>

locale field_check =
  fixes check :: "'a \<Rightarrow> string \<Rightarrow> workflowDiagnostic list"
  assumes only_errors: "allErrors (check x p)"
    and path_irrelevant: "check x p = [] \<longleftrightarrow> check x q = []"
begin

lemma rejects_iff: "hasError (check x p) \<longleftrightarrow> check x p \<noteq> []"
  by (rule allErrors_hasError [OF only_errors])

lemma items_errors: "allErrors (concatIndexed (\<lambda>i x. check x (itemPath p i)) k xs)"
  by (rule allErrors_concatIndexed) (rule only_errors)

lemma items_accepted: "concatIndexed (\<lambda>i x. check x (itemPath p i)) k xs = [] \<longleftrightarrow> list_all (\<lambda>x. check x [] = []) xs"
proof (induction xs arbitrary: k)
  case (Cons x xs)
  have "check x (itemPath p k) = [] \<longleftrightarrow> check x [] = []" by (rule path_irrelevant)
  with Cons show ?case by simp
qed simp

end

section \<open>Variables\<close>

definition isP2pWorkflowVariableValue :: "jsval \<Rightarrow> bool" where
  "isP2pWorkflowVariableValue v = (isString v \<or> isNumber v \<or> isBool v \<or> (isArray v \<and> list_all isString (arrItems v)))"

definition encodedJsonByteLength :: "jsHost \<Rightarrow> jsval \<Rightarrow> nat" where
  "encodedJsonByteLength h v = byteLength (jsonText (numDigits h) v)"

definition variableValueCheck :: "jsHost \<Rightarrow> jsval \<Rightarrow> string \<Rightarrow> workflowDiagnostic list" where
  "variableValueCheck h v path =
     (if \<not> isP2pWorkflowVariableValue v then [diag Dc_invalid_workflow_variable Dp_compile path]
      else pushIf (encodedJsonByteLength h v > P2P_WORKFLOW_MAX_VARIABLE_BYTES)
             (diag Dc_invalid_workflow_variable Dp_compile path))"

fun variablesFrom :: "jsHost \<Rightarrow> nat \<Rightarrow> string list \<Rightarrow> jsval list \<Rightarrow> workflowDiagnostic list" where
  "variablesFrom h i seen [] = []"
| "variablesFrom h i seen (raw # rest) =
     (let path = itemPath ''variables'' i in
      if \<not> isRecord raw then diag Dc_invalid_workflow_variable Dp_compile path # variablesFrom h (Suc i) seen rest
      else
        let name = fld raw ''name'';
            bad = (\<not> isString name \<or> \<not> isVariableName (strOf name));
            dup = (strOf name \<in> set seen)
        in pushIf (bad \<or> dup) (diag Dc_invalid_workflow_variable Dp_compile (memberPath path ''name''))
           @ variableValueCheck h (fld raw ''value'') (memberPath path ''value'')
           @ variablesFrom h (Suc i) (if bad \<or> dup then seen else strOf name # seen) rest)"

definition validateP2pWorkflowVariables :: "jsHost \<Rightarrow> jsval list \<Rightarrow> workflowDiagnostic list" where
  "validateP2pWorkflowVariables h input =
     pushIf (length input > P2P_WORKFLOW_MAX_VARIABLES) (diag0 Dc_invalid_workflow_variable Dp_compile)
     @ variablesFrom h 0 [] input"

section \<open>Artifact contracts\<close>

definition artifactPathCheck :: "jsval \<Rightarrow> string \<Rightarrow> workflowDiagnostic list" where
  "artifactPathCheck v path = pushIf (\<not> isString v \<or> \<not> isP2pArtifactRelativePath (strOf v)
       \<or> getP2pArtifactPathDepth (strOf v) > P2P_WORKFLOW_ARTIFACT_MAX_DEPTH)
     (diag Dc_unsafe_artifact_path Dp_compile path)"

definition validateP2pArtifactContract :: "jsval \<Rightarrow> string \<Rightarrow> workflowDiagnostic list" where
  "validateP2pArtifactContract input fieldPath =
     (if \<not> isRecord input then [diag Dc_unsafe_artifact_path Dp_compile fieldPath]
      else
        pushIf (\<not> isOneOf (fld input ''convention'') P2P_ARTIFACT_CONVENTIONS)
          (diag Dc_unsafe_artifact_path Dp_compile (memberPath fieldPath ''convention''))
        @ pushIf (fld input ''permissionScope'' \<noteq> Undef \<and> \<not> isOneOf (fld input ''permissionScope'') P2P_PERMISSION_SCOPES)
            (diag Dc_unsafe_artifact_path Dp_compile (memberPath fieldPath ''permissionScope''))
        @ pushIf (fld input ''symlinkPolicy'' \<noteq> Undef \<and> fld input ''symlinkPolicy'' \<noteq> Str ''reject_all''
              \<and> fld input ''symlinkPolicy'' \<noteq> Str ''allow_existing_under_root'')
            (diag Dc_unsafe_artifact_path Dp_compile (memberPath fieldPath ''symlinkPolicy''))
        @ (let paths = arrItems (fld input ''paths'') in
           if \<not> isArray (fld input ''paths'') \<or> length paths = 0 \<or> length paths > P2P_WORKFLOW_ARTIFACT_MAX_FILES
           then [diag Dc_unsafe_artifact_path Dp_compile (memberPath fieldPath ''paths'')]
           else concatIndexed (\<lambda>i p. artifactPathCheck p (itemPath (memberPath fieldPath ''paths'') i)) 0 paths))"

section \<open>Nodes\<close>

text \<open>
  The table of allowed node kind, preset and permission scope. It stays silent when one of
  the three is not even a known name: another check reports that.
\<close>

definition validateNodeCombination :: "jsval \<Rightarrow> string \<Rightarrow> workflowDiagnostic list" where
  "validateNodeCombination node fieldPath =
     (let kind = fld node ''nodeKind'';
          preset = fld node ''preset'';
          scope = (if fld node ''permissionScope'' = Undef \<or> fld node ''permissionScope'' = Null
                   then Str ''analysis_only'' else fld node ''permissionScope'');
          artifacts = arrItems (fld node ''artifacts'');
          make = (\<lambda>sub. diag Dc_invalid_workflow_graph Dp_compile (memberPath fieldPath sub))
      in
      if \<not> isOneOf kind P2P_NODE_KINDS \<or> \<not> isOneOf preset P2P_PRESET_KEYS then []
      else if \<not> isOneOf scope P2P_PERMISSION_SCOPES then []
      else if kind = Str ''logic'' then
        pushIf (preset \<noteq> Str ''custom'') (make ''preset'')
        @ pushIf (scope \<noteq> Str ''analysis_only'') (make ''permissionScope'')
      else if kind = Str ''script'' then pushIf (preset \<noteq> Str ''custom'') (make ''preset'')
      else if kind \<noteq> Str ''llm'' then []
      else if preset = Str ''audit'' \<or> preset = Str ''proposal_audit'' \<or> preset = Str ''implementation_audit'' then
        pushIf (scope \<noteq> Str ''analysis_only'') (make ''permissionScope'')
      else if preset = Str ''openspec_propose'' then
        (if scope \<noteq> Str ''artifact_generation'' then [make ''permissionScope'']
         else pushIf (\<not> list_ex (\<lambda>a. isRecord a \<and> fld a ''convention'' = Str ''openspec_convention'') artifacts)
                (make ''artifacts''))
      else if preset = Str ''implementation'' then pushIf (scope \<noteq> Str ''implementation'') (make ''permissionScope'')
      else if scope = Str ''analysis_only'' then []
      else if scope = Str ''artifact_generation'' then pushIf (length artifacts = 0) (make ''artifacts'')
      else [diag Dc_invalid_workflow_graph Dp_compile fieldPath])"

definition blankId :: "jsval \<Rightarrow> bool" where
  "blankId v = (\<not> isString v \<or> trim (strOf v) = [])"

definition validateP2pScriptNodeContract :: "jsval \<Rightarrow> string \<Rightarrow> workflowDiagnostic list" where
  "validateP2pScriptNodeContract input fieldPath =
     (case validateP2pScriptContract input fieldPath of Inl ds \<Rightarrow> ds | Inr _ \<Rightarrow> [])"

definition promptTooLong :: "jsval \<Rightarrow> bool" where
  "promptTooLong v = (isString v \<and> byteLength (strOf v) > P2P_WORKFLOW_MAX_PROMPT_APPEND_BYTES)"

definition validateNodeDraft :: "jsval \<Rightarrow> string \<Rightarrow> workflowDiagnostic list" where
  "validateNodeDraft node fieldPath =
     (if \<not> isRecord node then [diag Dc_invalid_workflow_graph Dp_compile fieldPath]
      else
        pushIf (blankId (fld node ''id'')) (diag Dc_invalid_workflow_graph Dp_compile (memberPath fieldPath ''id''))
        @ pushIf (\<not> isOneOf (fld node ''nodeKind'') P2P_NODE_KINDS)
            (diag Dc_invalid_workflow_graph Dp_compile (memberPath fieldPath ''nodeKind''))
        @ pushIf (\<not> isOneOf (fld node ''preset'') P2P_PRESET_KEYS)
            (diag Dc_invalid_workflow_graph Dp_compile (memberPath fieldPath ''preset''))
        @ pushIf (fld node ''dispatchStyle'' \<noteq> Undef \<and> \<not> isOneOf (fld node ''dispatchStyle'') P2P_NODE_DISPATCH_STYLES)
            (diag Dc_invalid_workflow_graph Dp_compile (memberPath fieldPath ''dispatchStyle''))
        @ pushIf (fld node ''permissionScope'' \<noteq> Undef \<and> \<not> isOneOf (fld node ''permissionScope'') P2P_PERMISSION_SCOPES)
            (diag Dc_invalid_workflow_graph Dp_compile (memberPath fieldPath ''permissionScope''))
        @ validateNodeCombination node fieldPath
        @ pushIf (promptTooLong (fld node ''promptAppend''))
            (diag Dc_invalid_prompt_append Dp_compile (memberPath fieldPath ''promptAppend''))
        @ pushIf (promptTooLong (fld node ''summaryPromptOverride''))
            (diag Dc_invalid_prompt_append Dp_compile (memberPath fieldPath ''summaryPromptOverride''))
        @ (if fld node ''nodeKind'' = Str ''script''
           then validateP2pScriptNodeContract (fld node ''script'') (memberPath fieldPath ''script'')
           else pushIf (fld node ''script'' \<noteq> Undef)
                  (diag Dc_invalid_script_contract Dp_compile (memberPath fieldPath ''script'')))
        @ (if fld node ''artifacts'' = Undef then []
           else if \<not> isArray (fld node ''artifacts'')
             then [diag Dc_unsafe_artifact_path Dp_compile (memberPath fieldPath ''artifacts'')]
           else concatIndexed (\<lambda>i a. validateP2pArtifactContract a (itemPath (memberPath fieldPath ''artifacts'') i)) 0
                  (arrItems (fld node ''artifacts''))))"

section \<open>Edges\<close>

definition validateEdgeCondition :: "jsval \<Rightarrow> string \<Rightarrow> workflowDiagnostic list" where
  "validateEdgeCondition input fieldPath =
     (if \<not> isRecord input then [diag Dc_invalid_edge_condition Dp_compile fieldPath]
      else if \<not> isOneOf (fld input ''kind'') P2P_EDGE_CONDITION_KINDS
        then [diag Dc_invalid_edge_condition Dp_compile (memberPath fieldPath ''kind'')]
      else pushIf (\<not> isString (fld input ''equals'') \<or> fld input ''equals'' = Str [])
             (diag Dc_invalid_edge_condition Dp_compile (memberPath fieldPath ''equals'')))"

definition validateEdgeDraft :: "jsval \<Rightarrow> string \<Rightarrow> workflowDiagnostic list" where
  "validateEdgeDraft edge fieldPath =
     (if \<not> isRecord edge then [diag Dc_invalid_workflow_graph Dp_compile fieldPath]
      else
        concat (map (\<lambda>key. pushIf (blankId (fld edge key)) (diag Dc_invalid_workflow_graph Dp_compile (memberPath fieldPath key)))
          [''id'', ''fromNodeId'', ''toNodeId''])
        @ pushIf (\<not> isOneOf (fld edge ''edgeKind'') P2P_EDGE_KINDS)
            (diag Dc_invalid_workflow_graph Dp_compile (memberPath fieldPath ''edgeKind''))
        @ (if fld edge ''edgeKind'' = Str ''conditional''
           then validateEdgeCondition (fld edge ''condition'') (memberPath fieldPath ''condition'') else []))"

section \<open>Start contexts\<close>

text \<open>\<^verbatim>\<open>/^[a-f0-9]{lo,hi}$/i\<close>.\<close>

definition isHexChar :: "char \<Rightarrow> bool" where
  "isHexChar c = (isDigitChar c \<or> (97 \<le> codeUnit c \<and> codeUnit c \<le> 102) \<or> (65 \<le> codeUnit c \<and> codeUnit c \<le> 70))"

definition isHexText :: "nat \<Rightarrow> nat \<Rightarrow> string \<Rightarrow> bool" where
  "isHexText lo hi s = (lo \<le> length s \<and> length s \<le> hi \<and> list_all isHexChar s)"

definition integerVal :: "jsval \<Rightarrow> bool" where
  "integerVal v = (case v of Number n \<Rightarrow> numInteger n | _ \<Rightarrow> False)"

definition validateDiscussionOffset :: "jsval \<Rightarrow> string \<Rightarrow> workflowDiagnostic list" where
  "validateDiscussionOffset input fieldPath =
     (if \<not> isRecord input then [diag Dc_missing_context_source Dp_bind fieldPath]
      else
        pushIf (\<not> nonNegInteger (fld input ''byteOffset''))
          (diag Dc_missing_context_source Dp_bind (memberPath fieldPath ''byteOffset''))
        @ pushIf (\<not> isString (fld input ''sha256Prefix'') \<or> \<not> isHexText 8 64 (strOf (fld input ''sha256Prefix'')))
            (diag Dc_missing_context_source Dp_bind (memberPath fieldPath ''sha256Prefix''))
        @ pushIf (\<not> nonNegInteger (fld input ''sizeAtOffset''))
            (diag Dc_missing_context_source Dp_bind (memberPath fieldPath ''sizeAtOffset'')))"

definition tooManyBytes :: "jsval \<Rightarrow> nat \<Rightarrow> bool" where
  "tooManyBytes v limit = (v \<noteq> Undef \<and> (\<not> nonNegInteger v \<or> numLess (Num (of_nat limit)) (numOfVal v)))"

definition failOrSkip :: "jsval \<Rightarrow> bool" where
  "failOrSkip v = (v = Undef \<or> v = Str ''fail'' \<or> v = Str ''skip'')"

definition badSourceId :: "string list \<Rightarrow> jsval \<Rightarrow> bool" where
  "badSourceId seen v = (\<not> isString v \<or> trim (strOf v) = [] \<or> byteLength (strOf v) > SHORT_TEXT_MAX_BYTES
     \<or> strOf v \<in> set seen)"

definition unsafePathVal :: "jsval \<Rightarrow> bool" where
  "unsafePathVal v = (\<not> isString v \<or> \<not> isP2pArtifactRelativePath (strOf v))"

fun sourcesFrom :: "string \<Rightarrow> nat \<Rightarrow> string list \<Rightarrow> jsval list \<Rightarrow> workflowDiagnostic list" where
  "sourcesFrom fieldPath i seen [] = []"
| "sourcesFrom fieldPath i seen (raw # rest) =
     (let path = itemPath (memberPath fieldPath ''sources'') i in
      if \<not> isRecord raw then diag Dc_missing_context_source Dp_bind path # sourcesFrom fieldPath (Suc i) seen rest
      else
        pushIf (\<not> isOneOf (fld raw ''kind'') P2P_START_CONTEXT_SOURCE_KINDS)
          (diag Dc_missing_context_source Dp_bind (memberPath path ''kind''))
        @ pushIf (badSourceId seen (fld raw ''id'')) (diag Dc_missing_context_source Dp_bind (memberPath path ''id''))
        @ pushIf (tooManyBytes (fld raw ''maxBytes'') START_CONTEXT_SOURCE_MAX_BYTES)
            (diag Dc_context_source_too_large Dp_bind (memberPath path ''maxBytes''))
        @ pushIf (\<not> failOrSkip (fld raw ''missingBehavior''))
            (diag Dc_missing_context_source Dp_bind (memberPath path ''missingBehavior''))
        @ pushIf (\<not> failOrSkip (fld raw ''binaryBehavior''))
            (diag Dc_missing_context_source Dp_bind (memberPath path ''binaryBehavior''))
        @ pushIf (fld raw ''order'' \<noteq> Undef \<and> \<not> integerVal (fld raw ''order''))
            (diag Dc_missing_context_source Dp_bind (memberPath path ''order''))
        @ pushIf (if fld raw ''kind'' = Str ''file_reference'' then unsafePathVal (fld raw ''path'')
                  else fld raw ''path'' \<noteq> Undef \<and> unsafePathVal (fld raw ''path''))
            (diag Dc_unsafe_artifact_path Dp_bind (memberPath path ''path''))
        @ (if fld raw ''discussionOffset'' \<noteq> Undef
           then validateDiscussionOffset (fld raw ''discussionOffset'') (memberPath path ''discussionOffset'') else [])
        @ sourcesFrom fieldPath (Suc i)
            (if badSourceId seen (fld raw ''id'') then seen else strOf (fld raw ''id'') # seen) rest)"

definition validateP2pWorkflowStartContext :: "jsval \<Rightarrow> string \<Rightarrow> workflowDiagnostic list" where
  "validateP2pWorkflowStartContext input fieldPath =
     (if \<not> isRecord input \<or> \<not> isArray (fld input ''sources'') then [diag Dc_missing_context_source Dp_bind fieldPath]
      else
        pushIf (tooManyBytes (fld input ''maxTotalBytes'') START_CONTEXT_TOTAL_MAX_BYTES)
          (diag Dc_context_source_too_large Dp_bind (memberPath fieldPath ''maxTotalBytes''))
        @ sourcesFrom fieldPath 0 [] (arrItems (fld input ''sources'')))"


section \<open>The rest of the module\<close>

definition coerceNodeKind :: "jsval \<Rightarrow> string option" where
  "coerceNodeKind v = (if isOneOf v P2P_NODE_KINDS then Some (strOf v) else None)"

definition coercePreset :: "jsval \<Rightarrow> string option" where
  "coercePreset v = (if isOneOf v P2P_PRESET_KEYS then Some (strOf v) else None)"

definition coercePermissionScope :: "jsval \<Rightarrow> string option" where
  "coercePermissionScope v = (if isOneOf v P2P_PERMISSION_SCOPES then Some (strOf v) else None)"

definition coerceEdgeConditionKind :: "jsval \<Rightarrow> string option" where
  "coerceEdgeConditionKind v = (if isOneOf v P2P_EDGE_CONDITION_KINDS then Some (strOf v) else None)"

record validation =
  va_ok :: bool
  va_diagnostics :: "workflowDiagnostic list"

definition verdict :: "workflowDiagnostic list \<Rightarrow> validation" where
  "verdict ds = \<lparr>va_ok = \<not> hasError ds, va_diagnostics = ds\<rparr>"

definition rejected :: "workflowDiagnostic list \<Rightarrow> validation" where
  "rejected ds = \<lparr>va_ok = False, va_diagnostics = ds\<rparr>"

definition validateP2pWorkflowDraft :: "jsHost \<Rightarrow> jsval \<Rightarrow> validation" where
  "validateP2pWorkflowDraft h input =
     (if \<not> isRecord input then rejected [diag0 Dc_invalid_workflow_graph Dp_compile]
      else if fld input ''schemaVersion'' \<noteq> Nat P2P_WORKFLOW_SCHEMA_VERSION
        then rejected [diag Dc_unsupported_schema_version Dp_compile ''schemaVersion'']
      else verdict (
        pushIf (blankId (fld input ''id'')) (diag Dc_invalid_workflow_graph Dp_compile ''id'')
        @ (if \<not> isArray (fld input ''nodes'') \<or> arrItems (fld input ''nodes'') = []
           then [diag Dc_invalid_workflow_graph Dp_compile ''nodes'']
           else concatIndexed (\<lambda>i n. validateNodeDraft n (itemPath ''nodes'' i)) 0 (arrItems (fld input ''nodes'')))
        @ (if \<not> isArray (fld input ''edges'') then [diag Dc_invalid_workflow_graph Dp_compile ''edges'']
           else concatIndexed (\<lambda>i e. validateEdgeDraft e (itemPath ''edges'' i)) 0 (arrItems (fld input ''edges'')))
        @ (if fld input ''variables'' = Undef then []
           else if \<not> isArray (fld input ''variables'') then [diag Dc_invalid_workflow_variable Dp_compile ''variables'']
           else validateP2pWorkflowVariables h (arrItems (fld input ''variables'')))
        @ (if fld input ''startContext'' = Undef then []
           else validateP2pWorkflowStartContext (fld input ''startContext'') ''startContext'')))"

fun capabilitiesFrom :: "string \<Rightarrow> nat \<Rightarrow> string list \<Rightarrow> jsval list \<Rightarrow> workflowDiagnostic list" where
  "capabilitiesFrom fieldPath i seen [] = []"
| "capabilitiesFrom fieldPath i seen (capability # rest) =
     (if \<not> isString capability \<or> strOf capability \<notin> set P2P_WORKFLOW_CAPABILITIES \<or> strOf capability \<in> set seen
      then diag Dc_missing_required_capability Dp_web_validate (itemPath fieldPath i)
        # capabilitiesFrom fieldPath (Suc i) seen rest
      else capabilitiesFrom fieldPath (Suc i) (strOf capability # seen) rest)"

definition validateP2pRequiredDaemonCapabilities :: "jsval \<Rightarrow> string \<Rightarrow> workflowDiagnostic list" where
  "validateP2pRequiredDaemonCapabilities input fieldPath =
     (if \<not> isArray input then [diag Dc_missing_required_capability Dp_web_validate fieldPath]
      else capabilitiesFrom fieldPath 0 [] (arrItems input))"

definition validateP2pWorkflowLaunchContext :: "jsval \<Rightarrow> string \<Rightarrow> workflowDiagnostic list" where
  "validateP2pWorkflowLaunchContext input fieldPath =
     (if \<not> isRecord input then [diag Dc_invalid_launch_envelope Dp_parse fieldPath]
      else
        pushIf (fld input ''requestId'' \<noteq> Undef
            \<and> (\<not> isString (fld input ''requestId'') \<or> \<not> requestIdText (strOf (fld input ''requestId''))))
          (diag Dc_invalid_launch_envelope Dp_parse (memberPath fieldPath ''requestId''))
        @ concat (map (\<lambda>key. pushIf (fld input key \<noteq> Undef
              \<and> (\<not> isString (fld input key) \<or> byteLength (strOf (fld input key)) > SHORT_TEXT_MAX_BYTES))
            (diag Dc_invalid_launch_envelope Dp_parse (memberPath fieldPath key)))
            [''runId'', ''sessionName'', ''projectRoot'', ''userText'', ''locale'']))"

fun executablesFrom :: "nat \<Rightarrow> string list \<Rightarrow> jsval list \<Rightarrow> workflowDiagnostic list" where
  "executablesFrom i seen [] = []"
| "executablesFrom i seen (entry # rest) =
     (if \<not> isString entry \<or> length (strOf entry) = 0 \<or> byteLength (strOf entry) > P2P_ALLOWED_EXECUTABLE_MAX_BYTES
         \<or> \<not> visibleAsciiText (strOf entry)
      then diag Dc_invalid_launch_envelope Dp_parse (itemPath ''allowedExecutables'' i) # executablesFrom (Suc i) seen rest
      else if strOf entry \<in> set seen
      then diag Dc_invalid_launch_envelope Dp_parse (itemPath ''allowedExecutables'' i) # executablesFrom (Suc i) seen rest
      else executablesFrom (Suc i) (strOf entry # seen) rest)"

definition OLD_ADVANCED_FIELDS :: "string list" where
  "OLD_ADVANCED_FIELDS = [''advancedPresetKey'', ''advancedRounds'', ''advancedRunTimeoutMinutes'', ''contextReducer'']"

definition hasOldAdvancedFields :: "jsval \<Rightarrow> bool" where
  "hasOldAdvancedFields v = (isRecord v \<and> hasAnyOwn v (OLD_ADVANCED_FIELDS @ [''oldAdvanced'']))"

definition hasNewWorkflowFields :: "jsval \<Rightarrow> bool" where
  "hasNewWorkflowFields v = (isRecord v \<and> hasAnyOwn v [''workflowSchemaVersion'', ''workflowKind'', ''advancedDraft'',
     ''launchContext'', ''requiredDaemonCapabilities'', ''expectedStaticPolicyHash''])"

definition badPolicyHash :: "jsval \<Rightarrow> bool" where
  "badPolicyHash hash = (\<not> isString hash \<or> length (strOf hash) = 0 \<or> length (strOf hash) > 128
     \<or> \<not> requestIdText (strOf hash) \<or> byteLength (strOf hash) > 128)"

text \<open>The checks of the envelope's own fields, in the order their diagnostics appear.\<close>

definition envelopeFields :: "jsval \<Rightarrow> workflowDiagnostic list" where
  "envelopeFields input =
     (if fld input ''requiredDaemonCapabilities'' = Undef then []
      else validateP2pRequiredDaemonCapabilities (fld input ''requiredDaemonCapabilities'') ''requiredDaemonCapabilities'')
     @ pushIf (fld input ''expectedStaticPolicyHash'' \<noteq> Undef \<and> badPolicyHash (fld input ''expectedStaticPolicyHash''))
         (diag Dc_invalid_launch_envelope Dp_parse ''expectedStaticPolicyHash'')
     @ (if fld input ''launchContext'' = Undef then []
        else validateP2pWorkflowLaunchContext (fld input ''launchContext'') ''launchContext'')
     @ pushIf (fld input ''migrationPolicy'' \<noteq> Undef \<and> (\<not> isRecord (fld input ''migrationPolicy'')
           \<or> fld (fld input ''migrationPolicy'') ''kind'' \<noteq> Str ''materialize_old_advanced''
           \<or> \<not> isRecord (fld input ''oldAdvanced'')))
         (diag Dc_invalid_launch_envelope Dp_parse ''migrationPolicy'')
     @ (if fld input ''allowedExecutables'' = Undef then []
        else if \<not> isArray (fld input ''allowedExecutables'') \<or> length (arrItems (fld input ''allowedExecutables'')) > 64
          then [diag Dc_invalid_launch_envelope Dp_parse ''allowedExecutables'']
        else executablesFrom 0 [] (arrItems (fld input ''allowedExecutables'')))"

definition validateP2pWorkflowLaunchEnvelope :: "jsHost \<Rightarrow> jsval \<Rightarrow> validation" where
  "validateP2pWorkflowLaunchEnvelope h input =
     (if \<not> isRecord input then rejected [diag0 Dc_invalid_launch_envelope Dp_parse]
      else (case findForbiddenEnvelopeField input of
        Some forbiddenField \<Rightarrow> rejected [diag Dc_forbidden_envelope_field Dp_parse forbiddenField]
      | None \<Rightarrow>
          let oldAdvancedAtTop = hasAnyOwn input OLD_ADVANCED_FIELDS;
              oldAdvancedNested = isRecord (fld input ''oldAdvanced'');
              newWorkflow = (hasNewWorkflowFields input \<or> isRecord (fld input ''advancedDraft''));
              hasOldOnlyInput = (oldAdvancedAtTop \<or> oldAdvancedNested);
              version = fld input ''workflowSchemaVersion''
          in
          if hasOldOnlyInput \<and> newWorkflow \<and> \<not> oldAdvancedNested
            then rejected [diag0 Dc_mixed_advanced_schema_fields Dp_parse]
          else if hasOldOnlyInput \<and> isRecord (fld input ''advancedDraft'')
            then rejected [diag0 Dc_mixed_advanced_schema_fields Dp_parse]
          else if version \<noteq> Nat P2P_WORKFLOW_SCHEMA_VERSION then
            (if isNumber version \<and> numLess (Num (of_nat P2P_WORKFLOW_KNOWN_SCHEMA_MAX)) (numOfVal version)
             then rejected [diag0 Dc_unsupported_schema_version Dp_parse]
             else rejected [diag0 Dc_invalid_launch_envelope Dp_parse])
          else if \<not> isOneOf (fld input ''workflowKind'') P2P_WORKFLOW_KINDS
            then rejected [diag Dc_invalid_launch_envelope Dp_parse ''workflowKind'']
          else
            let ds = envelopeFields input in
            if fld input ''advancedDraft'' = Undef then verdict ds
            else (let draft = validateP2pWorkflowDraft h (fld input ''advancedDraft'') in
              if \<not> va_ok draft then rejected (ds @ va_diagnostics draft)
              else verdict (ds @ va_diagnostics draft))))"

section \<open>Projections\<close>

text \<open>
  \<^verbatim>\<open>String(value)\<close>: an array joins its members, and converting an object whose own
  \<^verbatim>\<open>toString\<close> is not a function throws a TypeError (\<open>None\<close>).
\<close>

fun stringOf :: "jsHost \<Rightarrow> jsval \<Rightarrow> string option"
  and stringOfItems :: "jsHost \<Rightarrow> jsval list \<Rightarrow> string list option" where
  "stringOf h Undef = Some ''undefined''"
| "stringOf h Null = Some ''null''"
| "stringOf h (Bool b) = Some (if b then ''true'' else ''false'')"
| "stringOf h (Number n) = Some (numToString (numDigits h) n)"
| "stringOf h (Str s) = Some s"
| "stringOf h (Arr vs) = map_option (joinWith '','') (stringOfItems h vs)"
| "stringOf h (Obj kvs) = (if hasOwn (Obj kvs) ''toString'' then None else Some ''[object Object]'')"
| "stringOfItems h [] = Some []"
| "stringOfItems h (v # vs) =
     (case (if v = Undef \<or> v = Null then Some [] else stringOf h v) of
        None \<Rightarrow> None
      | Some s \<Rightarrow> map_option ((#) s) (stringOfItems h vs))"

definition PROJECTION_STATUSES :: "string list" where
  "PROJECTION_STATUSES = [''queued'', ''running'', ''blocked'', ''completed'', ''failed'', ''cancelled'', ''stale'']"

definition isWorkflowDiagnosticLike :: "jsval \<Rightarrow> bool" where
  "isWorkflowDiagnosticLike v = (isRecord v \<and> isString (fld v ''code'')
     \<and> (P2P_WORKFLOW_DIAGNOSTIC_CODES = []
        \<or> strOf (fld v ''code'') \<in> set (map diagnosticCodeText P2P_WORKFLOW_DIAGNOSTIC_CODES))
     \<and> isString (fld v ''phase'')
     \<and> (fld v ''severity'' = Str ''info'' \<or> fld v ''severity'' = Str ''warning'' \<or> fld v ''severity'' = Str ''error'')
     \<and> isString (fld v ''messageKey''))"

definition validateProjectionLike :: "jsHost \<Rightarrow> jsval \<Rightarrow> string \<Rightarrow> bool \<Rightarrow> workflowDiagnostic list option" where
  "validateProjectionLike h input fieldPath persisted =
     (if \<not> isRecord input then Some [diag Dc_invalid_launch_envelope Dp_parse fieldPath]
      else (case stringOf h (fld input ''status'') of
        None \<Rightarrow> None
      | Some status \<Rightarrow> Some (
          pushIf (fld input ''projectionVersion'' \<noteq> Nat P2P_WORKFLOW_PROJECTION_VERSION)
            (diag Dc_unsupported_schema_version Dp_web_validate (memberPath fieldPath ''projectionVersion''))
          @ concat (map (\<lambda>key. pushIf (\<not> isString (fld input key) \<or> fld input key = Str [])
              (diag Dc_invalid_launch_envelope Dp_parse (memberPath fieldPath key)))
              [''runId'', ''workflowId'', ''updatedAt''])
          @ pushIf (status \<notin> set PROJECTION_STATUSES)
              (diag Dc_invalid_launch_envelope Dp_parse (memberPath fieldPath ''status''))
          @ pushIf (fld input ''currentNodeId'' \<noteq> Undef \<and> \<not> isString (fld input ''currentNodeId''))
              (diag Dc_invalid_launch_envelope Dp_parse (memberPath fieldPath ''currentNodeId''))
          @ pushIf (\<not> isArray (fld input ''completedNodeIds'')
                \<or> list_ex (\<lambda>i. \<not> isString i \<or> i = Str []) (arrItems (fld input ''completedNodeIds'')))
              (diag Dc_invalid_launch_envelope Dp_parse (memberPath fieldPath ''completedNodeIds''))
          @ pushIf (\<not> isArray (fld input ''diagnostics'')
                \<or> list_ex (\<lambda>d. \<not> isWorkflowDiagnosticLike d) (arrItems (fld input ''diagnostics'')))
              (diag Dc_invalid_launch_envelope Dp_parse (memberPath fieldPath ''diagnostics''))
          @ pushIf (persisted \<and> (fld input ''capabilitySnapshot'' \<noteq> Undef \<or> fld input ''artifactSummaries'' \<noteq> Undef
                \<or> fld input ''nodeSummaries'' \<noteq> Undef))
              (diag Dc_forbidden_envelope_field Dp_parse fieldPath))))"

definition validateP2pWorkflowStatusProjection :: "jsHost \<Rightarrow> jsval \<Rightarrow> validation option" where
  "validateP2pWorkflowStatusProjection h input =
     map_option verdict (validateProjectionLike h input ''projection'' False)"

definition validateP2pPersistedWorkflowSnapshot :: "jsHost \<Rightarrow> jsval \<Rightarrow> validation option" where
  "validateP2pPersistedWorkflowSnapshot h input =
     map_option verdict (validateProjectionLike h input ''snapshot'' True)"

definition newerThan :: "nat \<Rightarrow> jsval \<Rightarrow> bool" where
  "newerThan k v = (isNumber v \<and> numFinite (numOfVal v) \<and> numLess (Num (of_nat k)) (numOfVal v))"

definition isFutureWorkflowSchema :: "jsval \<Rightarrow> bool" where
  "isFutureWorkflowSchema input =
     (if \<not> isRecord input then False
      else if newerThan P2P_WORKFLOW_KNOWN_SCHEMA_MAX (fld input ''schemaVersion'') then True
      else if newerThan P2P_WORKFLOW_KNOWN_SCHEMA_MAX (fld input ''workflowSchemaVersion'') then True
      else if newerThan P2P_WORKFLOW_PROJECTION_VERSION (fld input ''projectionVersion'') then True
      else isRecord (fld input ''advancedDraft'')
        \<and> newerThan P2P_WORKFLOW_KNOWN_SCHEMA_MAX (fld (fld input ''advancedDraft'') ''schemaVersion''))"

end
