(* ===== verification/WfChecks.thy ===== *)
theory WfChecks
  imports WfValidators
begin

text \<open>
  The checks of the workflow validators meet the interface \<open>field_check\<close>, and what it means
  for a node, an edge, a draft and an envelope to be accepted.
\<close>

lemmas error_simps = diag_simps WARNING_CODES_def

section \<open>The interface on each check\<close>

interpretation artifact_path: field_check artifactPathCheck
  by unfold_locales (simp_all add: artifactPathCheck_def error_simps)

interpretation artifact: field_check validateP2pArtifactContract
proof
  show "allErrors (validateP2pArtifactContract x p)" for x p
    using artifact_path.items_errors [of "memberPath p ''paths''" 0 "arrItems (fld x ''paths'')"]
    by (simp add: validateP2pArtifactContract_def Let_def error_simps)
  show "validateP2pArtifactContract x p = [] \<longleftrightarrow> validateP2pArtifactContract x q = []" for x p q
    by (simp add: validateP2pArtifactContract_def Let_def artifact_path.items_accepted)
qed

interpretation script_node: field_check validateP2pScriptNodeContract
proof
  show "allErrors (validateP2pScriptNodeContract x p)" for x p
    using validate_script_errors [of x p]
    by (simp add: validateP2pScriptNodeContract_def failsWithErrors_def split: sum.splits)
  have accepted: "validateP2pScriptNodeContract x p = [] \<longleftrightarrow> \<not> isl (validateP2pScriptContract x p)" for x p
    using validate_script_errors [of x p]
    by (auto simp: validateP2pScriptNodeContract_def failsWithErrors_def split: sum.splits)
  have isl_if: "isl (if c then a else b) = (if c then isl a else isl b)"
    "isl (case v of None \<Rightarrow> u | Some w \<Rightarrow> f w) = (case v of None \<Rightarrow> isl u | Some w \<Rightarrow> isl (f w))"
    "isl (case z of (s, t) \<Rightarrow> g s t) = (case z of (s, t) \<Rightarrow> isl (g s t))"
    for c a b v u f z g by (simp_all split: option.splits prod.splits)
  show "validateP2pScriptNodeContract x p = [] \<longleftrightarrow> validateP2pScriptNodeContract x q = []" for x p q
    unfolding accepted validateP2pScriptContract_def Let_def isl_if
    by (cases "normalizeScriptCaps (fld x ''caps'')") (simp_all split: prod.split)
qed

interpretation combination: field_check validateNodeCombination
  by unfold_locales (simp_all add: validateNodeCombination_def Let_def error_simps)

interpretation node: field_check validateNodeDraft
proof
  show "allErrors (validateNodeDraft x p)" for x p
    using artifact.items_errors [of "memberPath p ''artifacts''" 0 "arrItems (fld x ''artifacts'')"]
      combination.only_errors [of x p] script_node.only_errors [of "fld x ''script''" "memberPath p ''script''"]
    by (simp add: validateNodeDraft_def error_simps)
  show "validateNodeDraft x p = [] \<longleftrightarrow> validateNodeDraft x q = []" for x p q
    using combination.path_irrelevant [of x p q]
      script_node.path_irrelevant [of "fld x ''script''" "memberPath p ''script''" "memberPath q ''script''"]
    by (simp add: validateNodeDraft_def artifact.items_accepted)
qed

interpretation edge_condition: field_check validateEdgeCondition
  by unfold_locales (simp_all add: validateEdgeCondition_def error_simps)

interpretation edge: field_check validateEdgeDraft
proof
  show "allErrors (validateEdgeDraft x p)" for x p
    using edge_condition.only_errors [of "fld x ''condition''" "memberPath p ''condition''"]
    by (simp add: validateEdgeDraft_def error_simps)
  show "validateEdgeDraft x p = [] \<longleftrightarrow> validateEdgeDraft x q = []" for x p q
    using edge_condition.path_irrelevant [of "fld x ''condition''" "memberPath p ''condition''" "memberPath q ''condition''"]
    by (simp add: validateEdgeDraft_def)
qed

interpretation variable_value: field_check "variableValueCheck h" for h
  by unfold_locales (simp_all add: variableValueCheck_def error_simps)

interpretation discussion_offset: field_check validateDiscussionOffset
  by unfold_locales (simp_all add: validateDiscussionOffset_def error_simps)

lemma sourcesFrom_errors: "allErrors (sourcesFrom p i seen xs)"
  by (induction p i seen xs rule: sourcesFrom.induct) (simp_all add: Let_def error_simps discussion_offset.only_errors)

lemma sourcesFrom_path: "sourcesFrom p i seen xs = [] \<longleftrightarrow> sourcesFrom q j seen xs = []"
proof (induction xs arbitrary: i j seen)
  case (Cons x xs)
  have "validateDiscussionOffset (fld x ''discussionOffset'') (memberPath (itemPath (memberPath p ''sources'') i) ''discussionOffset'') = []
      \<longleftrightarrow> validateDiscussionOffset (fld x ''discussionOffset'') (memberPath (itemPath (memberPath q ''sources'') j) ''discussionOffset'') = []"
    by (rule discussion_offset.path_irrelevant)
  moreover have "sourcesFrom p (Suc i) s xs = [] \<longleftrightarrow> sourcesFrom q (Suc j) s xs = []" for s
    by (rule Cons.IH)
  ultimately show ?case by (simp add: Let_def)
qed simp

interpretation start_context: field_check validateP2pWorkflowStartContext
proof
  show "allErrors (validateP2pWorkflowStartContext x p)" for x p
    by (simp add: validateP2pWorkflowStartContext_def error_simps sourcesFrom_errors)
  show "validateP2pWorkflowStartContext x p = [] \<longleftrightarrow> validateP2pWorkflowStartContext x q = []" for x p q
    using sourcesFrom_path [of p 0 "[]" "arrItems (fld x ''sources'')" q 0]
    by (simp add: validateP2pWorkflowStartContext_def)
qed

interpretation launch_context: field_check validateP2pWorkflowLaunchContext
  by unfold_locales (simp_all add: validateP2pWorkflowLaunchContext_def error_simps)

text \<open>The loops that remember what they have seen accept exactly the lists without repetitions.\<close>

lemma capabilitiesFrom_errors: "allErrors (capabilitiesFrom p i seen xs)"
  by (induction p i seen xs rule: capabilitiesFrom.induct) (simp_all add: error_simps)

lemma capabilitiesFrom_accepts:
  "capabilitiesFrom p i seen xs = [] \<longleftrightarrow> list_all isString xs \<and> set (map strOf xs) \<subseteq> set P2P_WORKFLOW_CAPABILITIES
     \<and> distinct (map strOf xs) \<and> set (map strOf xs) \<inter> set seen = {}"
  by (induction p i seen xs rule: capabilitiesFrom.induct) auto

interpretation capabilities: field_check validateP2pRequiredDaemonCapabilities
  by unfold_locales (simp_all add: validateP2pRequiredDaemonCapabilities_def error_simps capabilitiesFrom_errors
      capabilitiesFrom_accepts)

lemma executablesFrom_errors: "allErrors (executablesFrom i seen xs)"
  by (induction i seen xs rule: executablesFrom.induct) (simp_all add: error_simps)

lemma executablesFrom_accepts:
  "executablesFrom i seen xs = [] \<longleftrightarrow> list_all (\<lambda>x. isString x \<and> visibleAsciiText (strOf x)
       \<and> byteLength (strOf x) \<le> P2P_ALLOWED_EXECUTABLE_MAX_BYTES) xs
     \<and> distinct (map strOf xs) \<and> set (map strOf xs) \<inter> set seen = {}"
  by (induction i seen xs rule: executablesFrom.induct) (auto simp: visibleAsciiText_def)

definition variableOk :: "jsHost \<Rightarrow> jsval \<Rightarrow> bool" where
  "variableOk h v = (isRecord v \<and> isString (fld v ''name'') \<and> isVariableName (strOf (fld v ''name''))
     \<and> isP2pWorkflowVariableValue (fld v ''value'')
     \<and> encodedJsonByteLength h (fld v ''value'') \<le> P2P_WORKFLOW_MAX_VARIABLE_BYTES)"

definition variableNames :: "jsval list \<Rightarrow> string list" where
  "variableNames vs = map (\<lambda>v. strOf (fld v ''name'')) vs"

lemma variableNames_simps [simp]: "variableNames [] = []" "variableNames (v # vs) = strOf (fld v ''name'') # variableNames vs"
  by (simp_all add: variableNames_def)

lemma variablesFrom_errors: "allErrors (variablesFrom h i seen xs)"
  by (induction h i seen xs rule: variablesFrom.induct) (simp_all add: Let_def error_simps variable_value.only_errors)

lemma variablesFrom_accepts:
  "variablesFrom h i seen xs = [] \<longleftrightarrow> list_all (variableOk h) xs \<and> distinct (variableNames xs)
     \<and> set (variableNames xs) \<inter> set seen = {}"
proof (induction xs arbitrary: i seen)
  case (Cons x xs)
  then show ?case
    by (cases "isRecord x"; cases "isString (fld x ''name'') \<and> isVariableName (strOf (fld x ''name''))
          \<and> strOf (fld x ''name'') \<notin> set seen")
      (auto simp: Let_def variableOk_def variableValueCheck_def not_less)
qed simp

lemma variables_errors: "allErrors (validateP2pWorkflowVariables h xs)"
  by (simp add: validateP2pWorkflowVariables_def error_simps variablesFrom_errors)

lemma variables_accepts:
  "validateP2pWorkflowVariables h xs = [] \<longleftrightarrow> length xs \<le> P2P_WORKFLOW_MAX_VARIABLES
     \<and> list_all (variableOk h) xs \<and> distinct (variableNames xs)"
  by (auto simp: validateP2pWorkflowVariables_def variablesFrom_accepts)

section \<open>Accepted drafts and envelopes\<close>

lemma hasError_pushIf [simp]: "hasError (pushIf c d) \<longleftrightarrow> c \<and> dg_severity d = Sv_error"
  by (cases c) simp_all

lemma verdict_ok: "allErrors ds \<Longrightarrow> va_ok (verdict ds) \<longleftrightarrow> ds = []"
  by (simp add: verdict_def allErrors_hasError)

lemma rejected_not_ok [simp]: "\<not> va_ok (rejected ds)" "va_diagnostics (rejected ds) = ds"
  by (simp_all add: rejected_def)

lemma verdict_diagnostics [simp]: "va_diagnostics (verdict ds) = ds"
  by (simp add: verdict_def)

definition draftAccepted :: "jsHost \<Rightarrow> jsval \<Rightarrow> bool" where
  "draftAccepted h d = (isRecord d \<and> fld d ''schemaVersion'' = Nat P2P_WORKFLOW_SCHEMA_VERSION
     \<and> \<not> blankId (fld d ''id'')
     \<and> isArray (fld d ''nodes'') \<and> arrItems (fld d ''nodes'') \<noteq> []
     \<and> list_all (\<lambda>n. validateNodeDraft n [] = []) (arrItems (fld d ''nodes''))
     \<and> isArray (fld d ''edges'') \<and> list_all (\<lambda>e. validateEdgeDraft e [] = []) (arrItems (fld d ''edges''))
     \<and> (fld d ''variables'' = Undef \<or> (isArray (fld d ''variables'')
          \<and> length (arrItems (fld d ''variables'')) \<le> P2P_WORKFLOW_MAX_VARIABLES
          \<and> list_all (variableOk h) (arrItems (fld d ''variables''))
          \<and> distinct (variableNames (arrItems (fld d ''variables'')))))
     \<and> (fld d ''startContext'' = Undef \<or> validateP2pWorkflowStartContext (fld d ''startContext'') [] = []))"

lemma validate_draft_accepts: "va_ok (validateP2pWorkflowDraft h d) \<longleftrightarrow> draftAccepted h d"
proof -
  have sc: "validateP2pWorkflowStartContext x p = [] \<longleftrightarrow> validateP2pWorkflowStartContext x [] = []" for x p
    by (rule start_context.path_irrelevant)
  show ?thesis
    unfolding validateP2pWorkflowDraft_def draftAccepted_def
    by (simp add: verdict_ok error_simps node.items_errors edge.items_errors variables_errors start_context.only_errors
        node.items_accepted edge.items_accepted variables_accepts sc [of _ "''startContext''"])
qed

lemma validate_draft_clean: "va_ok (validateP2pWorkflowDraft h d) \<Longrightarrow> va_diagnostics (validateP2pWorkflowDraft h d) = []"
  unfolding validateP2pWorkflowDraft_def
  by (simp add: verdict_ok error_simps node.items_errors edge.items_errors variables_errors start_context.only_errors
      split: if_splits)

lemma validate_draft_errors: "\<not> va_ok (validateP2pWorkflowDraft h d) \<Longrightarrow> va_diagnostics (validateP2pWorkflowDraft h d) \<noteq> []"
  by (auto simp: validateP2pWorkflowDraft_def verdict_def split: if_splits)

definition envelopeAccepted :: "jsHost \<Rightarrow> jsval \<Rightarrow> bool" where
  "envelopeAccepted h e = (isRecord e \<and> findForbiddenEnvelopeField e = None
     \<and> \<not> (hasAnyOwn e OLD_ADVANCED_FIELDS \<and> hasNewWorkflowFields e \<and> \<not> isRecord (fld e ''oldAdvanced''))
     \<and> \<not> ((hasAnyOwn e OLD_ADVANCED_FIELDS \<or> isRecord (fld e ''oldAdvanced'')) \<and> isRecord (fld e ''advancedDraft''))
     \<and> fld e ''workflowSchemaVersion'' = Nat P2P_WORKFLOW_SCHEMA_VERSION
     \<and> isOneOf (fld e ''workflowKind'') P2P_WORKFLOW_KINDS
     \<and> envelopeFields e = []
     \<and> (fld e ''advancedDraft'' = Undef \<or> draftAccepted h (fld e ''advancedDraft'')))"

lemma envelopeFields_errors: "allErrors (envelopeFields e)"
  by (simp add: envelopeFields_def error_simps capabilities.only_errors launch_context.only_errors executablesFrom_errors)

lemma hasOwn_record: "isRecord (fld v k) \<Longrightarrow> hasOwn v k"
  by (cases v) (auto simp: hasOwn_def rev_image_eqI split: option.splits dest!: map_of_SomeD)

lemma validate_envelope_accepts: "va_ok (validateP2pWorkflowLaunchEnvelope h e) \<longleftrightarrow> envelopeAccepted h e"
proof -
  have new: "isRecord e \<Longrightarrow> isRecord (fld e ''advancedDraft'') \<Longrightarrow> hasNewWorkflowFields e"
    by (simp add: hasNewWorkflowFields_def hasAnyOwn_def hasOwn_record)
  show ?thesis
  proof (cases "isRecord e \<and> findForbiddenEnvelopeField e = None")
    case False
    then show ?thesis
      by (auto simp: validateP2pWorkflowLaunchEnvelope_def envelopeAccepted_def split: option.splits)
  next
    case True
    then show ?thesis
      using new validate_draft_clean [of h "fld e ''advancedDraft''"] validate_draft_accepts [of h "fld e ''advancedDraft''"]
      by (auto simp: validateP2pWorkflowLaunchEnvelope_def envelopeAccepted_def Let_def verdict_ok envelopeFields_errors)
  qed
qed

lemma envelope_fields_accepted:
  assumes "envelopeFields e = []"
  shows "fld e ''requiredDaemonCapabilities'' \<noteq> Undef \<Longrightarrow>
      set (map strOf (arrItems (fld e ''requiredDaemonCapabilities''))) \<subseteq> set P2P_WORKFLOW_CAPABILITIES
      \<and> distinct (map strOf (arrItems (fld e ''requiredDaemonCapabilities'')))"
    and "fld e ''allowedExecutables'' \<noteq> Undef \<Longrightarrow>
      length (arrItems (fld e ''allowedExecutables'')) \<le> 64
      \<and> list_all (\<lambda>x. isString x \<and> visibleAsciiText (strOf x) \<and> byteLength (strOf x) \<le> P2P_ALLOWED_EXECUTABLE_MAX_BYTES)
          (arrItems (fld e ''allowedExecutables''))
      \<and> distinct (map strOf (arrItems (fld e ''allowedExecutables'')))"
    and "fld e ''expectedStaticPolicyHash'' \<noteq> Undef \<Longrightarrow> requestIdText (strOf (fld e ''expectedStaticPolicyHash''))"
  using assms
  by (auto simp: envelopeFields_def validateP2pRequiredDaemonCapabilities_def capabilitiesFrom_accepts
      executablesFrom_accepts badPolicyHash_def not_less split: if_splits)

section \<open>Accepted nodes\<close>

text \<open>The allowed combinations, as one table.\<close>

definition allowedCombination :: "string \<Rightarrow> string \<Rightarrow> string \<Rightarrow> jsval list \<Rightarrow> bool" where
  "allowedCombination kind preset scope artifacts =
     (if kind = ''logic'' then preset = ''custom'' \<and> scope = ''analysis_only''
      else if kind = ''script'' then preset = ''custom''
      else if preset \<in> {''audit'', ''proposal_audit'', ''implementation_audit''} then scope = ''analysis_only''
      else if preset = ''openspec_propose'' then scope = ''artifact_generation''
        \<and> list_ex (\<lambda>a. isRecord a \<and> fld a ''convention'' = Str ''openspec_convention'') artifacts
      else if preset = ''implementation'' then scope = ''implementation''
      else scope = ''analysis_only'' \<or> (scope = ''artifact_generation'' \<and> artifacts \<noteq> []))"

definition nodeScope :: "jsval \<Rightarrow> string" where
  "nodeScope n = (if fld n ''permissionScope'' = Undef then ''analysis_only'' else strOf (fld n ''permissionScope''))"

lemma accepted_node:
  assumes "validateNodeDraft n p = []"
  shows "isRecord n" "\<not> blankId (fld n ''id'')" "isOneOf (fld n ''nodeKind'') P2P_NODE_KINDS"
    "isOneOf (fld n ''preset'') P2P_PRESET_KEYS" "nodeScope n \<in> set P2P_PERMISSION_SCOPES"
    "fld n ''nodeKind'' = Str ''script'' \<Longrightarrow> validateP2pScriptNodeContract (fld n ''script'') (memberPath p ''script'') = []"
    "fld n ''nodeKind'' \<noteq> Str ''script'' \<Longrightarrow> fld n ''script'' = Undef"
    "list_all (\<lambda>a. validateP2pArtifactContract a [] = []) (arrItems (fld n ''artifacts''))"
  using assms
  by (auto simp: validateNodeDraft_def nodeScope_def artifact.items_accepted P2P_PERMISSION_SCOPES_def
      split: if_splits elim: isOneOfE)

lemma accepted_node_combination:
  assumes "validateNodeDraft n p = []"
  shows "allowedCombination (strOf (fld n ''nodeKind'')) (strOf (fld n ''preset'')) (nodeScope n)
    (arrItems (fld n ''artifacts''))"
proof -
  have comb: "validateNodeCombination n p = []" and "fld n ''permissionScope'' \<noteq> Null"
    using assms by (auto simp: validateNodeDraft_def split: if_splits)
  obtain k where k: "fld n ''nodeKind'' = Str k" "k \<in> set P2P_NODE_KINDS"
    using accepted_node(3) [OF assms] by (rule isOneOfE)
  obtain r where r: "fld n ''preset'' = Str r" "r \<in> set P2P_PRESET_KEYS"
    using accepted_node(4) [OF assms] by (rule isOneOfE)
  have scope: "fld n ''permissionScope'' = Undef \<or> fld n ''permissionScope'' = Str (nodeScope n)"
    using assms by (auto simp: validateNodeDraft_def nodeScope_def split: if_splits elim: isOneOfE)
  have s: "nodeScope n \<in> set P2P_PERMISSION_SCOPES" by (rule accepted_node(5) [OF assms])
  have scopeVal: "(if fld n ''permissionScope'' = Undef \<or> fld n ''permissionScope'' = Null then Str ''analysis_only''
      else fld n ''permissionScope'') = Str (nodeScope n)"
    using scope by (auto simp: nodeScope_def)
  show ?thesis
    using comb s r(2) k(2)
    unfolding validateNodeCombination_def Let_def scopeVal
    by (simp add: k(1) r(1) allowedCombination_def P2P_NODE_KINDS_def P2P_PERMISSION_SCOPES_def split: if_splits; blast)
qed

end
