(* ===== verification/WfCheckProps.thy ===== *)
theory WfCheckProps
  imports WfChecks "HOL-Library.Code_Target_Nat"
begin

text \<open>
  The properties of the checks untrusted workflow data passes: launch envelopes, nodes, script
  contracts and their output, logic contracts and artifact paths.
\<close>

section \<open>Launch envelopes\<close>

text \<open>C23: The scan for private fields finds nothing exactly when, at every depth of the value, no member has a
  forbidden name, no string exceeds 256 KiB and no array 1,000 items, containers nest at most 33 deep, and there are
  at most 5,000 of them.\<close>

theorem launch_scan_exact:
  "findForbiddenEnvelopeField v = None \<longleftrightarrow>
     list_all harmless (subvalues v) \<and> nesting v \<le> Suc FORBIDDEN_SCAN_MAX_DEPTH
     \<and> containers (subvalues v) \<le> FORBIDDEN_SCAN_MAX_NODES"
  by (rule scan_accepts_iff)

lemma harmless_keys: "harmless w \<Longrightarrow> hasOwn w k \<Longrightarrow> \<not> forbiddenKey k"
  by (cases w) (auto simp: hasOwn_def list_all_iff)

text \<open>In an accepted launch envelope no object at any depth has a member with a forbidden or secret-looking name.
  The envelope has schema version 1 and a known kind, its draft is accepted by the draft check, and old
  advanced fields never come together with a draft.\<close>

theorem accepted_envelope_guarantees:
  assumes ok: "va_ok (validateP2pWorkflowLaunchEnvelope h e)"
    and inside: "w \<in> set (subvalues e)" and member: "hasOwn w k"
  shows "\<not> forbiddenKey k \<and> fld e ''workflowSchemaVersion'' = JsValue.Nat 1
    \<and> isOneOf (fld e ''workflowKind'') P2P_WORKFLOW_KINDS
    \<and> (fld e ''advancedDraft'' = Undef \<or> va_ok (validateP2pWorkflowDraft h (fld e ''advancedDraft'')))
    \<and> \<not> (hasOldAdvancedFields e \<and> isRecord (fld e ''advancedDraft'')
         \<and> (hasAnyOwn e OLD_ADVANCED_FIELDS \<or> isRecord (fld e ''oldAdvanced'')))"
proof -
  have acc: "envelopeAccepted h e" using ok by (simp add: validate_envelope_accepts)
  then have "list_all harmless (subvalues e)" by (simp add: envelopeAccepted_def scan_accepts_iff)
  then have "harmless w" using inside by (simp add: list_all_iff)
  then have "\<not> forbiddenKey k" using member by (rule harmless_keys)
  then show ?thesis
    using acc by (auto simp: envelopeAccepted_def validate_draft_accepts P2P_WORKFLOW_SCHEMA_VERSION_def)
qed

definition sampleEnvelope :: jsval where
  "sampleEnvelope = Obj [(''workflowSchemaVersion'', JsValue.Nat 1), (''workflowKind'', Str ''advanced''),
     (''requiredDaemonCapabilities'', Arr [Str ''p2p.workflow.v1'']),
     (''advancedDraft'', Obj [(''schemaVersion'', JsValue.Nat 1), (''id'', Str ''wf''),
        (''nodes'', Arr [Obj [(''id'', Str ''a''), (''nodeKind'', Str ''llm''), (''preset'', Str ''discuss'')]]),
        (''edges'', Arr [])])]"

lemma sampleEnvelope_accepted: "va_ok (validateP2pWorkflowLaunchEnvelope codeUnitHost sampleEnvelope)"
  by code_simp

theorem accepted_envelope_guarantees_witness:
  "\<not> forbiddenKey ''nodes'' \<and> fld sampleEnvelope ''workflowSchemaVersion'' = JsValue.Nat 1"
  using accepted_envelope_guarantees [OF sampleEnvelope_accepted,
      of "fld sampleEnvelope ''advancedDraft''" "''nodes''"]
  by (simp add: sampleEnvelope_def hasOwn_def)

text \<open>An accepted envelope names distinct, known daemon capabilities and at most 64 distinct executables, each a
  visible-ASCII string of at most 256 bytes; its expected policy hash, when present, is visible ASCII.\<close>

theorem accepted_envelope_lists:
  assumes ok: "va_ok (validateP2pWorkflowLaunchEnvelope h e)"
    and caps: "fld e ''requiredDaemonCapabilities'' \<noteq> Undef" and execs: "fld e ''allowedExecutables'' \<noteq> Undef"
    and hash: "fld e ''expectedStaticPolicyHash'' \<noteq> Undef"
  shows "set (map strOf (arrItems (fld e ''requiredDaemonCapabilities''))) \<subseteq> set P2P_WORKFLOW_CAPABILITIES
    \<and> distinct (map strOf (arrItems (fld e ''requiredDaemonCapabilities'')))
    \<and> length (arrItems (fld e ''allowedExecutables'')) \<le> 64
    \<and> list_all (\<lambda>x. isString x \<and> visibleAsciiText (strOf x) \<and> byteLength (strOf x) \<le> 256) (arrItems (fld e ''allowedExecutables''))
    \<and> distinct (map strOf (arrItems (fld e ''allowedExecutables'')))
    \<and> requestIdText (strOf (fld e ''expectedStaticPolicyHash''))"
proof -
  have "envelopeFields e = []" using ok by (simp add: validate_envelope_accepts envelopeAccepted_def)
  note f = envelope_fields_accepted [OF this]
  show ?thesis using f(1) [OF caps] f(2) [OF execs] f(3) [OF hash] by (simp add: P2P_ALLOWED_EXECUTABLE_MAX_BYTES_def)
qed

definition sampleLists :: jsval where
  "sampleLists = Obj [(''workflowSchemaVersion'', JsValue.Nat 1), (''workflowKind'', Str ''advanced''),
     (''requiredDaemonCapabilities'', Arr [Str ''p2p.workflow.v1'', Str ''p2p.workflow.implementation.v1'']),
     (''allowedExecutables'', Arr [Str ''/usr/bin/node'', Str ''/bin/sh'']),
     (''expectedStaticPolicyHash'', Str ''fnv1a64:0123456789abcdef'')]"

theorem accepted_envelope_lists_witness:
  "distinct (map strOf (arrItems (fld sampleLists ''allowedExecutables'')))
   \<and> length (arrItems (fld sampleLists ''allowedExecutables'')) \<le> 64"
proof -
  have "va_ok (validateP2pWorkflowLaunchEnvelope codeUnitHost sampleLists)" by code_simp
  then show ?thesis using accepted_envelope_lists [of codeUnitHost sampleLists] by (simp add: sampleLists_def)
qed

section \<open>Drafts\<close>

text \<open>Every node of an accepted draft has an allowed combination of kind, preset and permission scope: logic and
  script nodes use the custom preset, audits only analyse, a proposal generates an openspec artifact, an implementation
  has implementation scope, and no other node has it.\<close>

theorem accepted_nodes_follow_table:
  assumes ok: "va_ok (validateP2pWorkflowDraft h d)" and n: "n \<in> set (arrItems (fld d ''nodes''))"
  shows "allowedCombination (strOf (fld n ''nodeKind'')) (strOf (fld n ''preset'')) (nodeScope n) (arrItems (fld n ''artifacts''))"
proof -
  have "validateNodeDraft n [] = []"
    using ok n by (auto simp: validate_draft_accepts draftAccepted_def list_all_iff)
  then show ?thesis by (rule accepted_node_combination)
qed

theorem accepted_nodes_follow_table_witness:
  "allowedCombination ''llm'' ''discuss'' ''analysis_only'' []"
proof -
  let ?d = "fld sampleEnvelope ''advancedDraft''"
  let ?n = "Obj [(''id'', Str ''a''), (''nodeKind'', Str ''llm''), (''preset'', Str ''discuss'')]"
  have "va_ok (validateP2pWorkflowDraft codeUnitHost ?d)" by code_simp
  moreover have "?n \<in> set (arrItems (fld ?d ''nodes''))" by (simp add: sampleEnvelope_def)
  ultimately have "allowedCombination (strOf (fld ?n ''nodeKind'')) (strOf (fld ?n ''preset'')) (nodeScope ?n)
      (arrItems (fld ?n ''artifacts''))"
    by (rule accepted_nodes_follow_table)
  then show ?thesis by (simp add: nodeScope_def)
qed

text \<open>The defaults the editor gives a preset pass the combination check: a node of kind llm with the preset's
  default permission scope and an openspec artifact is never reported.\<close>

theorem preset_defaults_allowed:
  "validateNodeCombination (Obj [(''nodeKind'', Str ''llm''), (''preset'', Str (presetText p)),
      (''permissionScope'', Str (scopeText (P2P_PRESET_DEFAULT_PERMISSION_SCOPE p))),
      (''artifacts'', Arr [Obj [(''convention'', Str ''openspec_convention'')]])]) path = []"
  by (cases p) (simp_all add: validateNodeCombination_def P2P_NODE_KINDS_def P2P_PRESET_KEYS_def P2P_PERMISSION_SCOPES_def)

text \<open>The variables of a draft are accepted exactly when there are at most 64, their names are distinct
  identifiers of the pattern, and every value is a string, number, boolean or list of strings of at most 8 KiB as JSON.\<close>

theorem variables_accepted_iff:
  "validateP2pWorkflowVariables h vs = [] \<longleftrightarrow> length vs \<le> 64 \<and> list_all (variableOk h) vs \<and> distinct (variableNames vs)"
  by (simp add: variables_accepts P2P_WORKFLOW_MAX_VARIABLES_def)

section \<open>Scripts\<close>

text \<open>A script contract that passes validation comes out in a normal form: its command line is not empty, its
  four caps are non-negative integers, its standard input fits its cap and its timeout is a positive integer; validating
  the result again returns it unchanged.\<close>

theorem script_contract_normal_form:
  assumes ok: "validateP2pScriptContract input path = Inr a"
  shows "scriptOk (sa_contract a)
    \<and> validateP2pScriptContract (scriptContract_js (sa_contract a)) path' = Inr \<lparr>sa_contract = sa_contract a, sa_strayCaps = []\<rparr>"
  using validate_script_ok [OF ok] scriptOk_validates by blast

definition sampleScript :: jsval where
  "sampleScript = Obj [(''argv'', Arr [Str ''node'', Str ''run.js'']), (''timeoutMs'', JsValue.Nat 5000),
     (''caps'', Obj [(''stdinBytes'', JsValue.Nat 4)]), (''stdin'', Str ''abc'')]"

theorem script_contract_normal_form_witness:
  "\<exists>a. validateP2pScriptContract sampleScript ''s'' = Inr a \<and> scriptOk (sa_contract a)"
proof -
  have "\<not> isl (validateP2pScriptContract sampleScript ''s'')" by code_simp
  then obtain a where "validateP2pScriptContract sampleScript ''s'' = Inr a" by (cases "validateP2pScriptContract sampleScript ''s''") auto
  then show ?thesis using script_contract_normal_form by blast
qed

text \<open>Names every object inherits pass as caps: the accepted contract carries a fifth property.\<close>

lemma stray_cap_accepted:
  "\<exists>a. validateP2pScriptContract (Obj [(''argv'', Arr [Str ''node'']), (''caps'', Obj [(''toString'', JsValue.Nat 7)])]) ''s'' = Inr a
     \<and> sa_strayCaps a = [(''toString'', Num 7)]"
  by (simp add: validateP2pScriptContract_def normalizeScriptCaps_def OBJECT_PROTOTYPE_MEMBERS_def CAP_KEYS_def
      nonNegInteger_def setCap_def DEFAULT_P2P_SCRIPT_CAPS_def)

text \<open>What the parser looks at: the input, or its part up to the last line feed within the byte limit.\<close>

definition consideredInput :: "string \<Rightarrow> nat \<Rightarrow> string" where
  "consideredInput input maxTotal =
     (if byteLength input > maxTotal then uptoLastNewline (byteSlice input maxTotal) else input)"

definition outputLines :: "string \<Rightarrow> string list" where
  "outputLines text_in = filter (\<lambda>line. trim line \<noteq> []) (splitLines text_in)"

lemma consideredInput_prefix: "byteLength (consideredInput input n) \<le> n \<and> (\<exists>rest. input = consideredInput input n @ rest)"
proof (cases "byteLength input > n")
  case True
  obtain r1 where r1: "input = byteSlice input n @ r1" using byteSlice_prefix by blast
  obtain r2 where r2: "byteSlice input n = uptoLastNewline (byteSlice input n) @ r2" using uptoLastNewline_prefix by blast
  have "byteLength (uptoLastNewline (byteSlice input n)) \<le> byteLength (byteSlice input n)"
    using arg_cong [OF r2, of byteLength] by simp
  then have "byteLength (uptoLastNewline (byteSlice input n)) \<le> n" using byteSlice_bound order_trans by blast
  moreover have "input = uptoLastNewline (byteSlice input n) @ r2 @ r1" using r1 r2 by (metis append.assoc)
  ultimately show ?thesis using True unfolding consideredInput_def by auto
qed (simp add: consideredInput_def)

text \<open>A lenient parse that succeeds returns, in order, exactly the frames of the valid lines of a prefix of the
  output that respects the byte limit and was cut at a line end; the final frame is the last of them.\<close>

theorem lenient_output_frames:
  assumes ok: "parseP2pScriptMachineOutput h jsonParse input
      \<lparr>po_mode = Some Lenient_last_valid, po_maxTotalBytes = Some n, po_maxFrameBytes = Some m, po_requiredFields = Some req\<rparr> = Inr out"
  shows "mo_frames out = List.map_filter (lineFrame h jsonParse m req) (outputLines (consideredInput input n))
    \<and> mo_finalFrame out = last (mo_frames out) \<and> mo_frames out \<noteq> []
    \<and> list_all (\<lambda>f. isP2pScriptMachineOutputFrame h f \<and> hasRequiredFields f req) (mo_frames out)
    \<and> byteLength (consideredInput input n) \<le> n \<and> (\<exists>rest. input = consideredInput input n @ rest)
    \<and> mo_truncated out = (byteLength input > n)"
proof -
  have frames: "mo_frames out = List.map_filter (lineFrame h jsonParse m req) (outputLines (consideredInput input n))"
    and rest: "mo_finalFrame out = last (mo_frames out)" "mo_frames out \<noteq> []" "mo_truncated out = (byteLength input > n)"
    using ok by (auto simp: parseP2pScriptMachineOutput_def Let_def parseLines_lenient consideredInput_def outputLines_def
        split: if_splits)
  have "list_all (\<lambda>f. isP2pScriptMachineOutputFrame h f \<and> hasRequiredFields f req) (List.map_filter (lineFrame h jsonParse m req) ls)" for ls
    by (induction ls) (auto simp: List.map_filter_simps dest: lineFrame_valid split: option.splits)
  then show ?thesis using frames rest consideredInput_prefix [of input n] by simp
qed

definition sampleFrame :: jsval where
  "sampleFrame = Obj [(''kind'', Str P2P_SCRIPT_MACHINE_OUTPUT_KIND), (''routingKey'', Str ''go'')]"

definition sampleDecoder :: "string \<Rightarrow> jsval option" where
  "sampleDecoder s = (if s = ''x'' then Some sampleFrame else None)"

theorem lenient_output_frames_witness:
  "\<exists>out. parseP2pScriptMachineOutput codeUnitHost sampleDecoder [CHR ''y'', CHR 0x0A, CHR ''x'']
      \<lparr>po_mode = Some Lenient_last_valid, po_maxTotalBytes = Some 100, po_maxFrameBytes = Some 100,
        po_requiredFields = Some [Rf_routingKey]\<rparr> = Inr out \<and> mo_finalFrame out = last (mo_frames out)"
proof -
  let ?r = "parseP2pScriptMachineOutput codeUnitHost sampleDecoder [CHR ''y'', CHR 0x0A, CHR ''x'']
      \<lparr>po_mode = Some Lenient_last_valid, po_maxTotalBytes = Some 100, po_maxFrameBytes = Some 100,
        po_requiredFields = Some [Rf_routingKey]\<rparr>"
  have "\<not> isl ?r" by code_simp
  then obtain out where "?r = Inr out" by (cases ?r) auto
  then show ?thesis using lenient_output_frames by blast
qed

text \<open>When the strict parser accepts an output, the lenient one returns the same result, so strictness only ever
  turns an answer into a failure.\<close>

theorem strict_output_is_lenient_output:
  assumes ok: "parseP2pScriptMachineOutput h jsonParse input (opts\<lparr>po_mode := Some Strict\<rparr>) = Inr out"
  shows "parseP2pScriptMachineOutput h jsonParse input (opts\<lparr>po_mode := Some Lenient_last_valid\<rparr>) = Inr out
    \<and> mo_diagnostics out = [] \<and> \<not> mo_truncated out"
  using ok
  by (auto simp: parseP2pScriptMachineOutput_def Let_def parseLines_strict parseLines_lenient map_filter_all filter_empty_conv
      list_all_iff split: if_splits)

theorem strict_output_is_lenient_output_witness:
  "\<exists>out. parseP2pScriptMachineOutput codeUnitHost sampleDecoder ''x''
      \<lparr>po_mode = Some Lenient_last_valid, po_maxTotalBytes = None, po_maxFrameBytes = None, po_requiredFields = None\<rparr> = Inr out"
proof -
  let ?o = "\<lparr>po_mode = None, po_maxTotalBytes = None, po_maxFrameBytes = None, po_requiredFields = None\<rparr>"
  have "\<not> isl (parseP2pScriptMachineOutput codeUnitHost sampleDecoder ''x'' (?o\<lparr>po_mode := Some Strict\<rparr>))" by code_simp
  then obtain out where "parseP2pScriptMachineOutput codeUnitHost sampleDecoder ''x'' (?o\<lparr>po_mode := Some Strict\<rparr>) = Inr out"
    by (cases "parseP2pScriptMachineOutput codeUnitHost sampleDecoder ''x'' (?o\<lparr>po_mode := Some Strict\<rparr>)") auto
  from strict_output_is_lenient_output [OF this] show ?thesis by auto
qed

section \<open>Logic nodes\<close>

definition ruleHolds :: "jsHost \<Rightarrow> (string \<Rightarrow> variableValue option) \<Rightarrow> logicRule \<Rightarrow> bool" where
  "ruleHolds h env r = (case lr_if r of None \<Rightarrow> True | Some c \<Rightarrow> conditionHolds h c env)"

text \<open>Evaluating a validated logic contract on an object without a prototype emits the marker of the first rule
  whose condition holds of the own variables, or the default when none does, and the marker is visible ASCII of at most
  128 characters.\<close>

theorem logic_first_match:
  assumes valid: "validateP2pLogicContract (logicContract_js c) path = []" and proto: "lv_nullPrototype vars"
  shows "evaluateP2pLogic h c vars =
      (case find (\<lambda>i. ruleHolds h (mapGet (lv_own vars)) (lc_rules c ! i)) [0..<length (lc_rules c)] of
         Some i \<Rightarrow> \<lparr>le_marker = lr_emit (lc_rules c ! i), le_matchedRuleIndex = int i\<rparr>
       | None \<Rightarrow> \<lparr>le_marker = lc_default c, le_matchedRuleIndex = -1\<rparr>)
    \<and> isValidMarker (le_marker (evaluateP2pLogic h c vars))"
proof -
  let ?P = "\<lambda>r. ruleHolds h (mapGet (lv_own vars)) r" and ?rs = "lc_rules c"
  have emit: "isValidMarker (lr_emit r)" if "r \<in> set ?rs" for r
    using valid_contract(3) [OF valid that] valid_rule_emit by blast
  have match: "matchRule h r vars = ?P r" if r: "r \<in> set ?rs" for r
  proof (cases "lr_if r")
    case None
    then show ?thesis by (simp add: matchRule_def ruleHolds_def)
  next
    case (Some cond)
    obtain p where "validateRule (logicRule_js r) p = []" using valid_contract(3) [OF valid r] by blast
    then have "validConditionName (Str (conditionName cond))" using Some by (rule valid_rule_name)
    then have "conditionName cond \<notin> set PROTOTYPE_POLLUTION_KEYS" by (simp add: validConditionName_def)
    then show ?thesis using matchRule_holds [OF proto Some] Some by (simp add: ruleHolds_def)
  qed
  consider (some) j where "j < length ?rs" "?P (?rs ! j)" "\<forall>k < j. \<not> ?P (?rs ! k)" | (none) "\<forall>k < length ?rs. \<not> ?P (?rs ! k)"
    using first_match [of ?rs ?P] by blast
  then show ?thesis
  proof cases
    case some
    have "find (\<lambda>i. ?P (?rs ! i)) [0..<length ?rs] = Some j"
      using some by (auto simp: find_Some_iff intro!: exI [of _ j])
    moreover have "evaluateP2pLogic h c vars = \<lparr>le_marker = lr_emit (?rs ! j), le_matchedRuleIndex = int (0 + j)\<rparr>"
      unfolding evaluateP2pLogic_def using some match by (intro evaluateFrom_match) auto
    ultimately show ?thesis using emit some(1) by simp
  next
    case none
    have "find (\<lambda>i. ?P (?rs ! i)) [0..<length ?rs] = None" using none by (simp add: find_None_iff)
    moreover have "evaluateP2pLogic h c vars = \<lparr>le_marker = lc_default c, le_matchedRuleIndex = -1\<rparr>"
      unfolding evaluateP2pLogic_def using none match by (intro evaluateFrom_default) auto
    ultimately show ?thesis using valid_contract(1) [OF valid] by simp
  qed
qed

definition sampleLogic :: logicContract where
  "sampleLogic = \<lparr>lc_rules = [\<lparr>lr_if = Some (VariableTruthy ''done_flag''), lr_emit = ''DONE''\<rparr>], lc_default = ''MORE''\<rparr>"

theorem logic_first_match_witness:
  "isValidMarker (le_marker (evaluateP2pLogic codeUnitHost sampleLogic
     \<lparr>lv_own = [(''done_flag'', Vv_bool True)], lv_nullPrototype = True\<rparr>))"
proof -
  have "validateP2pLogicContract (logicContract_js sampleLogic) ''logic'' = []" by code_simp
  note first = logic_first_match [OF this]
  show ?thesis by (rule first [THEN conjunct2]) simp
qed

text \<open>On an object with the usual prototype an unset variable named like an inherited member counts as present.\<close>

lemma inherited_member_is_present:
  "validateP2pLogicContract (logicContract_js \<lparr>lc_rules = [\<lparr>lr_if = Some (VariablePresent ''toString''), lr_emit = ''SET''\<rparr>],
      lc_default = ''UNSET''\<rparr>) ''logic'' = []
   \<and> le_marker (evaluateP2pLogic codeUnitHost \<lparr>lc_rules = [\<lparr>lr_if = Some (VariablePresent ''toString''), lr_emit = ''SET''\<rparr>],
      lc_default = ''UNSET''\<rparr> \<lparr>lv_own = [], lv_nullPrototype = False\<rparr>) = ''SET''"
  by code_simp

section \<open>Artifact paths\<close>

text \<open>An accepted artifact path, joined to any directory and normalized, names a place below that directory:
  the directory's segments followed by the path's own, as many as its depth. The older copy of the check accepts the same
  paths.\<close>

theorem artifact_paths_stay_below:
  assumes ok: "isSafeRelativeArtifactPath p"
  shows "resolvePath base p = base @ splitOn (CHR ''/'') p \<and> getP2pArtifactPathDepth p = length (splitOn (CHR ''/'') p)
    \<and> validateP2pArtifactRelativePath (Str p) path = Inr p"
proof -
  have "isP2pArtifactRelativePath p" using ok by (simp add: path_checks_agree)
  then show ?thesis by (simp add: relative_resolves_below relative_depth)
qed

theorem artifact_paths_stay_below_witness:
  "resolvePath [''repo''] ''openspec/changes'' = [''repo'', ''openspec'', ''changes'']"
proof -
  have "isSafeRelativeArtifactPath ''openspec/changes''" by code_simp
  from artifact_paths_stay_below [OF this, of "[''repo'']"] show ?thesis by simp
qed

section \<open>Projections\<close>

text \<open>The status of a projection is compared as a string, so a list with one status passes.\<close>

lemma listed_status_accepted:
  "map_option va_ok (validateP2pWorkflowStatusProjection codeUnitHost (Obj [(''projectionVersion'', JsValue.Nat 1), (''runId'', Str ''r''),
      (''workflowId'', Str ''w''), (''updatedAt'', Str ''t''), (''status'', Arr [Str ''queued'']),
      (''completedNodeIds'', Arr []), (''diagnostics'', Arr [])])) = Some True"
  by code_simp

end
