(* ===== verification/WfPolicy.thy ===== *)
theory WfPolicy
  imports WfData "HOL-Library.Word"
begin

text \<open>
  \<^verbatim>\<open>shared/p2p-workflow-policy.ts\<close>: the canonical form of JSON values, the 64-bit FNV-1a hash of
  their text, and the static policy a workflow is compiled against.
\<close>

unbundle bit_operations_syntax

section \<open>Canonical values\<close>

abbreviation keyLe :: "(string \<times> 'a) \<Rightarrow> (string \<times> 'a) \<Rightarrow> bool" where
  "keyLe a b \<equiv> codeUnitLe (fst a) (fst b)"

text \<open>
  The members are written to a fresh object in the order of their keys. Members that are
  undefined are left out; so is \<^verbatim>\<open>__proto__\<close>, since that assignment sets the prototype.
\<close>

fun canonicalize :: "jsval \<Rightarrow> jsval"
  and canonItems :: "jsval list \<Rightarrow> jsval list"
  and canonFields :: "(string \<times> jsval) list \<Rightarrow> (string \<times> jsval) list" where
  "canonicalize (Arr vs) = Arr (canonItems vs)"
| "canonicalize (Obj kvs) = Obj (sortBy keyLe (canonFields kvs))"
| "canonicalize Undef = Null"
| "canonicalize v = v"
| "canonItems [] = []"
| "canonItems (v # vs) = canonicalize v # canonItems vs"
| "canonFields [] = []"
| "canonFields ((key, entry) # rest) =
     (if entry \<noteq> Undef \<and> key \<noteq> ''__proto__'' then (key, canonicalize entry) # canonFields rest else canonFields rest)"

definition stableStringify :: "jsHost \<Rightarrow> jsval \<Rightarrow> string" where
  "stableStringify h v = jsonText (numDigits h) (canonicalize v)"

section \<open>Hashing\<close>

definition fnvStep :: "64 word \<Rightarrow> char \<Rightarrow> 64 word" where
  "fnvStep hash c = (hash XOR of_nat (codeUnit c)) * 0x100000001b3"

fun hexText :: "nat \<Rightarrow> string" where
  "hexText n = (if n < 16 then [hexDigit n] else hexText (n div 16) @ [hexDigit (n mod 16)])"

declare hexText.simps [simp del]

definition padStart :: "string \<Rightarrow> nat \<Rightarrow> char \<Rightarrow> string" where
  "padStart s n c = replicate (n - length s) c @ s"

definition stableHash :: "string \<Rightarrow> string" where
  "stableHash input = ''fnv1a64:''
     @ padStart (hexText (unat (foldl fnvStep (0xcbf29ce484222325 :: 64 word) input))) 16 (CHR ''0'')"

section \<open>Static policies\<close>

definition DEFAULT_P2P_STATIC_POLICY :: staticPolicy where
  "DEFAULT_P2P_STATIC_POLICY = \<lparr>
     pol_policyVersion = 1,
     pol_maxNodes = P2P_WORKFLOW_MAX_NODES,
     pol_maxEdges = P2P_WORKFLOW_MAX_EDGES,
     pol_maxLoopBudget = 8,
     pol_allowedExecutables = [],
     pol_allowInterpreterScripts = False,
     pol_allowOpenSpecArtifacts = False,
     pol_allowImplementationPermission = False,
     pol_maxPromptAppendBytes = P2P_WORKFLOW_MAX_PROMPT_APPEND_BYTES,
     pol_maxAdvancedRuns = P2P_WORKFLOW_MAX_ACTIVE_RUNS,
     pol_maxScripts = P2P_WORKFLOW_MAX_ACTIVE_SCRIPTS,
     pol_policyHash = None\<rparr>"

definition policy_js :: "staticPolicy \<Rightarrow> jsval" where
  "policy_js p = Obj (
     [(''policyVersion'', Nat (pol_policyVersion p)), (''maxNodes'', Nat (pol_maxNodes p)),
      (''maxEdges'', Nat (pol_maxEdges p)), (''maxLoopBudget'', Nat (pol_maxLoopBudget p)),
      (''allowedExecutables'', Arr (map Str (pol_allowedExecutables p))),
      (''allowInterpreterScripts'', Bool (pol_allowInterpreterScripts p)),
      (''allowOpenSpecArtifacts'', Bool (pol_allowOpenSpecArtifacts p)),
      (''allowImplementationPermission'', Bool (pol_allowImplementationPermission p)),
      (''maxPromptAppendBytes'', Nat (pol_maxPromptAppendBytes p)),
      (''concurrency'', Obj [(''maxAdvancedRuns'', Nat (pol_maxAdvancedRuns p)), (''maxScripts'', Nat (pol_maxScripts p))])]
     @ optField ''policyHash'' Str (pol_policyHash p))"

definition canonicalizeP2pStaticPolicy :: "staticPolicy \<Rightarrow> staticPolicy" where
  "canonicalizeP2pStaticPolicy policy =
     policy\<lparr>pol_policyHash := None, pol_allowedExecutables := sortStrings (pol_allowedExecutables policy)\<rparr>"

definition hashP2pStaticPolicy :: "jsHost \<Rightarrow> staticPolicy \<Rightarrow> string" where
  "hashP2pStaticPolicy h policy = stableHash (stableStringify h (policy_js (canonicalizeP2pStaticPolicy policy)))"

text \<open>\<^verbatim>\<open>Partial<P2pStaticPolicy>\<close>: the members that are present.\<close>

record policyOverrides =
  pv_policyVersion :: "nat option"
  pv_maxNodes :: "nat option"
  pv_maxEdges :: "nat option"
  pv_maxLoopBudget :: "nat option"
  pv_allowedExecutables :: "string list option"
  pv_allowInterpreterScripts :: "bool option"
  pv_allowOpenSpecArtifacts :: "bool option"
  pv_allowImplementationPermission :: "bool option"
  pv_maxPromptAppendBytes :: "nat option"
  pv_maxAdvancedRuns :: "nat option"
  pv_maxScripts :: "nat option"

definition buildDefaultP2pStaticPolicy :: "jsHost \<Rightarrow> policyOverrides \<Rightarrow> staticPolicy" where
  "buildDefaultP2pStaticPolicy h ov =
     (let d = DEFAULT_P2P_STATIC_POLICY;
          policy = \<lparr>
            pol_policyVersion = orElse (pv_policyVersion ov) (pol_policyVersion d),
            pol_maxNodes = orElse (pv_maxNodes ov) (pol_maxNodes d),
            pol_maxEdges = orElse (pv_maxEdges ov) (pol_maxEdges d),
            pol_maxLoopBudget = orElse (pv_maxLoopBudget ov) (pol_maxLoopBudget d),
            pol_allowedExecutables = orElse (pv_allowedExecutables ov) (pol_allowedExecutables d),
            pol_allowInterpreterScripts = orElse (pv_allowInterpreterScripts ov) (pol_allowInterpreterScripts d),
            pol_allowOpenSpecArtifacts = orElse (pv_allowOpenSpecArtifacts ov) (pol_allowOpenSpecArtifacts d),
            pol_allowImplementationPermission =
              orElse (pv_allowImplementationPermission ov) (pol_allowImplementationPermission d),
            pol_maxPromptAppendBytes = orElse (pv_maxPromptAppendBytes ov) (pol_maxPromptAppendBytes d),
            pol_maxAdvancedRuns = orElse (pv_maxAdvancedRuns ov) (pol_maxAdvancedRuns d),
            pol_maxScripts = orElse (pv_maxScripts ov) (pol_maxScripts d),
            pol_policyHash = None\<rparr>
      in policy\<lparr>pol_policyHash := Some (hashP2pStaticPolicy h policy)\<rparr>)"

definition getDefaultArtifactDepthLimit :: nat where
  "getDefaultArtifactDepthLimit = P2P_WORKFLOW_ARTIFACT_MAX_DEPTH"

section \<open>The canonical form does not depend on the order of members\<close>

interpretation key_order: comparator_order "keyLe :: (string \<times> 'a) \<Rightarrow> (string \<times> 'a) \<Rightarrow> bool"
  by unfold_locales (use codeUnitLe_total codeUnitLe_trans in blast)+

definition keptField :: "string \<times> jsval \<Rightarrow> bool" where
  "keptField kv = (snd kv \<noteq> Undef \<and> fst kv \<noteq> ''__proto__'')"

lemma canonItems_map: "canonItems vs = map canonicalize vs"
  by (induction vs) simp_all

lemma canonFields_map: "canonFields kvs = map (\<lambda>kv. (fst kv, canonicalize (snd kv))) (filter keptField kvs)"
  by (induction kvs) (auto simp: keptField_def)

lemma canonicalize_not_Undef [simp]: "canonicalize v \<noteq> Undef"
  by (cases v) simp_all

lemma canonFields_sort: "canonFields (sortBy keyLe xs) = sortBy keyLe (canonFields xs)"
  unfolding canonFields_map key_order.filter_sortBy
  by (rule sortBy_map [symmetric]) simp

lemma canonicalize_idem: "canonicalize (canonicalize v) = canonicalize v"
  and "canonItems (canonItems vs) = canonItems vs"
  and "canonFields (canonFields kvs) = canonFields kvs"
proof (induction v and vs and kvs rule: canonicalize_canonItems_canonFields.induct)
  case (2 kvs)
  then show ?case by (simp add: canonFields_sort key_order.sortBy_idem)
qed simp_all

text \<open>Two values that differ in the order of the members of objects, at any depth.\<close>

inductive reordered :: "jsval \<Rightarrow> jsval \<Rightarrow> bool" where
  same: "reordered v v"
| items: "list_all2 reordered vs ws \<Longrightarrow> reordered (Arr vs) (Arr ws)"
| members: "list_all2 (rel_prod (=) reordered) kvs kvs' \<Longrightarrow> mset kvs' = mset kws \<Longrightarrow> distinct (map fst kvs)
    \<Longrightarrow> reordered (Obj kvs) (Obj kws)"

inductive_cases reordered_ObjE: "reordered (Obj kvs) w"
inductive_cases reordered_UndefE: "reordered Undef w"
inductive_cases reordered_toUndefE: "reordered v Undef"

lemma sort_keyed_mset:
  fixes xs :: "(string \<times> 'a) list"
  assumes "mset xs = mset ys" and "distinct (map fst xs)"
  shows "sortBy keyLe xs = sortBy keyLe ys"
proof (rule sorted_wrt_mset_unique [where le = keyLe])
  show "a = b" if "a \<in> set (sortBy keyLe xs)" "b \<in> set (sortBy keyLe xs)" "keyLe a b" "keyLe b a" for a b
    using that assms(2) codeUnitLe_antisym [of "fst a" "fst b"]
    by (metis eq_key_imp_eq_value prod.collapse set_sortBy)
qed (simp_all add: key_order.sorted_sortBy assms(1))

lemma canonicalize_reordered: "reordered v w \<Longrightarrow> canonicalize v = canonicalize w"
proof (induction rule: reordered.induct)
  case (items vs ws)
  then have "canonItems vs = canonItems ws"
    by (induction rule: list_all2_induct) simp_all
  then show ?case by simp
next
  case (members kvs kvs' kws)
  have "canonFields kvs = canonFields kvs' \<and> map fst kvs = map fst kvs'"
    using members.IH(1)
    by (induction rule: list_all2_induct)
      (auto simp: rel_prod_sel elim: reordered_UndefE reordered_toUndefE)
  moreover have "mset (canonFields kvs') = mset (canonFields kws)"
    using members.hyps(1) by (simp add: canonFields_map)
  moreover have "distinct (map fst (canonFields kvs))"
    using members.hyps(2) by (induction kvs) (auto simp: canonFields_map)
  ultimately show ?case by (simp add: sort_keyed_mset)
qed simp

text \<open>Canonical values have sorted, distinct members and no undefined ones.\<close>

lemma canonFields_keys: "set (map fst (canonFields kvs)) \<subseteq> set (map fst kvs)"
  by (auto simp: canonFields_map)

section \<open>Policy hashes\<close>

lemma canonical_policy_idem: "canonicalizeP2pStaticPolicy (canonicalizeP2pStaticPolicy p) = canonicalizeP2pStaticPolicy p"
  by (simp add: canonicalizeP2pStaticPolicy_def)

lemma hash_policy_canonical: "hashP2pStaticPolicy h (canonicalizeP2pStaticPolicy p) = hashP2pStaticPolicy h p"
  by (simp add: hashP2pStaticPolicy_def canonical_policy_idem)

lemma canonical_policy_eq:
  assumes "mset (pol_allowedExecutables p) = mset (pol_allowedExecutables q)"
    and "p\<lparr>pol_policyHash := None, pol_allowedExecutables := []\<rparr> = q\<lparr>pol_policyHash := None, pol_allowedExecutables := []\<rparr>"
  shows "canonicalizeP2pStaticPolicy p = canonicalizeP2pStaticPolicy q"
  using assms sortStrings_mset [OF assms(1)]
  by (cases p; cases q) (simp add: canonicalizeP2pStaticPolicy_def)

lemma hexText_length: "n < 16 ^ k \<Longrightarrow> 0 < k \<Longrightarrow> length (hexText n) \<le> k"
proof (induction n arbitrary: k rule: hexText.induct)
  case (1 n)
  show ?case
  proof (cases "n < 16")
    case False
    then have k: "1 < k" using "1.prems" by (metis less_one linorder_neqE_nat not_less_zero power_one_right)
    then have "n div 16 < 16 ^ (k - 1)"
      using "1.prems" by (metis div_less_iff_less_mult less_numeral_extra(3) power_minus_mult zero_less_numeral)
    then have "length (hexText (n div 16)) \<le> k - 1"
      using "1.IH" [OF False] k by simp
    then show ?thesis using False k by (subst hexText.simps) simp
  qed (use "1.prems" in \<open>simp add: hexText.simps\<close>)
qed

lemma stableHash_length: "length (stableHash s) = 24"
proof -
  have "length (hexText (unat w)) \<le> 16" for w :: "64 word"
  proof (rule hexText_length)
    have "unat w < 2 ^ LENGTH(64)" by (rule unsigned_less)
    then show "unat w < 16 ^ 16" by simp
  qed simp
  then show ?thesis by (simp add: stableHash_def padStart_def)
qed

end
