(* ===== verification/WfCompiler.thy ===== *)
theory WfCompiler
  imports WfChecks WfPolicy
begin

text \<open>
  \<^verbatim>\<open>shared/p2p-workflow-compiler.ts\<close>: from a draft and a static policy to a compiled workflow
  with its contract hash, or to the diagnostics that say why not.
\<close>

section \<open>Routing and capabilities\<close>

definition isConditional :: "edgeDraft \<Rightarrow> bool" where
  "isConditional e = (ed_edgeKind e = Ek_conditional)"

definition conditionalFrom :: "string \<Rightarrow> edgeDraft list \<Rightarrow> edgeDraft list" where
  "conditionalFrom nodeId edges = filter (\<lambda>e. ed_fromNodeId e = nodeId \<and> isConditional e) edges"

definition defaultFrom :: "string \<Rightarrow> edgeDraft list \<Rightarrow> edgeDraft list" where
  "defaultFrom nodeId edges = filter (\<lambda>e. ed_fromNodeId e = nodeId \<and> ed_edgeKind e = Ek_default) edges"

text \<open>\<^verbatim>\<open>.map((edge) => edge.condition?.equals).filter((value) => !!value).sort()\<close>.\<close>

definition edgeMarkers :: "edgeDraft list \<Rightarrow> string list" where
  "edgeMarkers edges = sortStrings (filter (\<lambda>s. s \<noteq> [])
     (List.map_filter (\<lambda>e. map_option ec_equals (ed_condition e)) edges))"

definition deriveRoutingAuthority :: "nodeDraft \<Rightarrow> edgeDraft list \<Rightarrow> routingAuthority" where
  "deriveRoutingAuthority node edges =
     (let conditionalEdges = conditionalFrom (nd_id node) edges in
      if conditionalEdges = [] then Ra_none
      else if nd_nodeKind node = Nk_script then Ra_script_routing_key (edgeMarkers conditionalEdges)
      else if nd_nodeKind node = Nk_logic then Ra_logic_marker (edgeMarkers conditionalEdges)
      else Ra_audit_verdict_marker (edgeMarkers conditionalEdges))"

definition nonEmptyText :: "string option \<Rightarrow> string option" where
  "nonEmptyText v = (if v = Some [] then None else v)"

definition compileNode :: "nodeDraft \<Rightarrow> edgeDraft list \<Rightarrow> compiledNode" where
  "compileNode node edges = \<lparr>
     cn_id = nd_id node,
     cn_title = nonEmptyText (nd_title node),
     cn_nodeKind = nd_nodeKind node,
     cn_preset = nd_preset node,
     cn_dispatchStyle = nd_dispatchStyle node,
     cn_permissionScope = orElse (nd_permissionScope node) Ps_analysis_only,
     cn_promptAppend = nonEmptyText (nd_promptAppend node),
     cn_summaryPromptOverride = nonEmptyText (nd_summaryPromptOverride node),
     cn_routingAuthority = orElse (nd_routingAuthority node) (deriveRoutingAuthority node edges),
     cn_script = nd_script node,
     cn_logic = nd_logic node,
     cn_artifacts = orElse (nd_artifacts node) []\<rparr>"

definition isOpenspecArtifact :: "artifactContract \<Rightarrow> bool" where
  "isOpenspecArtifact a = (ac_convention a = Ac_openspec_convention)"

definition usesInterpreter :: "compiledNode \<Rightarrow> bool" where
  "usesInterpreter n = (cn_nodeKind n = Nk_script
     \<and> (case cn_script n of Some s \<Rightarrow> sp_commandKind s = Cm_interpreter | None \<Rightarrow> False))"

definition deriveRequiredCapabilities :: "compiledNode list \<Rightarrow> string list" where
  "deriveRequiredCapabilities nodes = sortStrings (
     [P2P_WORKFLOW_CAPABILITY_V1]
     @ pushIf (list_ex (\<lambda>n. cn_nodeKind n = Nk_script) nodes) P2P_WORKFLOW_SCRIPT_ARGV_CAPABILITY_V1
     @ pushIf (list_ex usesInterpreter nodes) P2P_WORKFLOW_SCRIPT_INTERPRETER_CAPABILITY_V1
     @ pushIf (list_ex (\<lambda>n. list_ex isOpenspecArtifact (cn_artifacts n)) nodes) P2P_WORKFLOW_OPENSPEC_ARTIFACTS_CAPABILITY_V1
     @ pushIf (list_ex (\<lambda>n. cn_permissionScope n = Ps_implementation) nodes) P2P_WORKFLOW_IMPLEMENTATION_CAPABILITY_V1)"

section \<open>Graph shape\<close>

definition graphError :: "string \<Rightarrow> workflowDiagnostic" where
  "graphError path = diag Dc_invalid_workflow_graph Dp_compile path"

definition findRootNodeId :: "workflowDraft \<Rightarrow> string option" where
  "findRootNodeId draft =
     (if wd_rootNodeId draft \<noteq> None \<and> wd_rootNodeId draft \<noteq> Some [] then wd_rootNodeId draft
      else (let targets = map ed_toNodeId (wd_edges draft);
                roots = filter (\<lambda>i. i \<notin> set targets) (map nd_id (wd_nodes draft))
            in if length roots = 1 then Some (hd roots) else None))"

text \<open>\<^verbatim>\<open>draft.rootNodeId ?? findRootNodeId(draft)\<close>.\<close>

definition draftRoot :: "workflowDraft \<Rightarrow> string option" where
  "draftRoot draft = (case wd_rootNodeId draft of Some r \<Rightarrow> Some r | None \<Rightarrow> findRootNodeId draft)"

text \<open>One turn of the loop of \<^verbatim>\<open>collectReachable\<close>, and the loop.\<close>

fun reachPass :: "string list \<Rightarrow> bool \<Rightarrow> edgeDraft list \<Rightarrow> string list \<times> bool" where
  "reachPass reachable changed [] = (reachable, changed)"
| "reachPass reachable changed (e # es) =
     (if ed_fromNodeId e \<in> set reachable \<and> ed_toNodeId e \<notin> set reachable
      then reachPass (reachable @ [ed_toNodeId e]) True es
      else reachPass reachable changed es)"

lemma reachPass_grows: "set reachable \<subseteq> set (fst (reachPass reachable c es))"
  by (induction reachable c es rule: reachPass.induct) auto

lemma reachPass_targets: "set (fst (reachPass reachable c es)) \<subseteq> set reachable \<union> set (map ed_toNodeId es)"
  by (induction reachable c es rule: reachPass.induct) auto

lemma reachPass_changed:
  "snd (reachPass reachable c es) \<Longrightarrow> \<not> c \<Longrightarrow> set reachable \<subset> set (fst (reachPass reachable c es))"
proof (induction reachable c es rule: reachPass.induct)
  case (2 reachable changed e es)
  show ?case
  proof (cases "ed_fromNodeId e \<in> set reachable \<and> ed_toNodeId e \<notin> set reachable")
    case True
    then show ?thesis using reachPass_grows [of "reachable @ [ed_toNodeId e]" True es] by auto
  qed (use 2 in auto)
qed simp

function collectReachableFrom :: "string list \<Rightarrow> edgeDraft list \<Rightarrow> string list" where
  "collectReachableFrom reachable edges =
     (let (reachable', changed) = reachPass reachable False edges in
      if changed then collectReachableFrom reachable' edges else reachable')"
  by pat_completeness auto

termination
proof (relation "measure (\<lambda>(reachable, edges). card (set (map ed_toNodeId edges) - set reachable))", goal_cases)
  case 1
  then show ?case by simp
next
  case (2 reachable edges p reachable' changed)
  then have "snd (reachPass reachable False edges)" and r: "reachable' = fst (reachPass reachable False edges)"
    by (metis snd_conv, metis fst_conv)
  then have "set reachable \<subset> set reachable'" and "set reachable' \<subseteq> set reachable \<union> set (map ed_toNodeId edges)"
    using reachPass_changed [of reachable False edges] reachPass_targets [of reachable False edges] by auto
  then have "set (map ed_toNodeId edges) - set reachable' \<subset> set (map ed_toNodeId edges) - set reachable"
    by auto
  then show ?case by (simp add: psubset_card_mono)
qed

definition collectReachable :: "string \<Rightarrow> edgeDraft list \<Rightarrow> string list" where
  "collectReachable rootNodeId edges = collectReachableFrom [rootNodeId] edges"

text \<open>The loops over nodes and edges that report what they have seen before.\<close>

fun duplicateNodes :: "string list \<Rightarrow> nodeDraft list \<Rightarrow> workflowDiagnostic list" where
  "duplicateNodes seen [] = []"
| "duplicateNodes seen (n # ns) =
     pushIf (nd_id n \<in> set seen) (graphError (memberPath ''nodes'' (nd_id n))) @ duplicateNodes (nd_id n # seen) ns"

fun edgeShape :: "string list \<Rightarrow> string list \<Rightarrow> edgeDraft list \<Rightarrow> workflowDiagnostic list" where
  "edgeShape nodeIds seen [] = []"
| "edgeShape nodeIds seen (e # es) =
     pushIf (ed_id e \<in> set seen) (graphError (memberPath ''edges'' (ed_id e)))
     @ pushIf (ed_fromNodeId e \<notin> set nodeIds \<or> ed_toNodeId e \<notin> set nodeIds) (graphError (memberPath ''edges'' (ed_id e)))
     @ edgeShape nodeIds (ed_id e # seen) es"

definition nodePath :: "nodeDraft \<Rightarrow> string" where
  "nodePath n = memberPath ''nodes'' (nd_id n)"

definition nodeShape :: "edgeDraft list \<Rightarrow> nodeDraft \<Rightarrow> workflowDiagnostic list" where
  "nodeShape edges node =
     (if nd_nodeKind node = Nk_logic then
        (case nd_logic node of
           None \<Rightarrow> [graphError (memberPath (nodePath node) ''logic'')]
         | Some l \<Rightarrow> map graphError (validateP2pLogicContract (logicContract_js l) (memberPath (nodePath node) ''logic'')))
      else pushIf (nd_logic node \<noteq> None) (graphError (memberPath (nodePath node) ''logic'')))
     @ pushIf (length (defaultFrom (nd_id node) edges) > 1) (graphError (nodePath node))
     @ (let conditionalOutgoing = conditionalFrom (nd_id node) edges in
        if conditionalOutgoing = [] then []
        else
          pushIf (length conditionalOutgoing > 1) (graphError (nodePath node))
          @ pushIf (orElse (nd_routingAuthority node) (deriveRoutingAuthority node edges) = Ra_none)
              (diag Dc_invalid_routing_authority Dp_compile (memberPath (nodePath node) ''routingAuthority''))
          @ concat (map (\<lambda>e. pushIf (ed_condition e = None)
              (diag Dc_invalid_edge_condition Dp_compile (memberPath (memberPath ''edges'' (ed_id e)) ''condition'')))
              conditionalOutgoing))"

definition declaresOpenspec :: "nodeDraft \<Rightarrow> bool" where
  "declaresOpenspec n = list_ex isOpenspecArtifact (orElse (nd_artifacts n) [])"

definition validateGraphShape :: "workflowDraft \<Rightarrow> workflowDiagnostic list" where
  "validateGraphShape draft =
     (let nodeIds = map nd_id (wd_nodes draft); rootNodeId = draftRoot draft in
      pushIf (length (filter declaresOpenspec (wd_nodes draft)) > 1) (diag0 Dc_invalid_workflow_graph Dp_compile)
      @ duplicateNodes [] (wd_nodes draft)
      @ edgeShape nodeIds [] (wd_edges draft)
      @ pushIf (case rootNodeId of None \<Rightarrow> True | Some r \<Rightarrow> r = [] \<or> r \<notin> set nodeIds) (graphError ''rootNodeId'')
      @ concat (map (nodeShape (wd_edges draft)) (wd_nodes draft))
      @ (case rootNodeId of
           None \<Rightarrow> []
         | Some r \<Rightarrow> if r = [] then []
             else (let reachable = collectReachable r (wd_edges draft) in
               concat (map (\<lambda>n. pushIf (nd_id n \<notin> set reachable) (graphError (nodePath n))) (wd_nodes draft)))))"

section \<open>Loop budgets\<close>

text \<open>\<^verbatim>\<open>new Map(nodes.map((node, index) => [node.id, index]))\<close>: a repeated id keeps its last index.\<close>

definition nodeOrder :: "nodeDraft list \<Rightarrow> (string, nat) jsmap" where
  "nodeOrder nodes = foldl (\<lambda>m (i, n). mapSet m (nd_id n) i) [] (enumerate 0 nodes)"

text \<open>
  \<^verbatim>\<open>draft.loopBudgets?.[edge.id]\<close>. An edge named like a member of every object finds that
  function, which is not an integer; NaN stands for it.
\<close>

definition budgetOf :: "workflowDraft \<Rightarrow> string \<Rightarrow> jsnum option" where
  "budgetOf draft edgeId = (case wd_loopBudgets draft of
     None \<Rightarrow> None
   | Some m \<Rightarrow> (case mapGet m edgeId of
       Some n \<Rightarrow> Some n
     | None \<Rightarrow> if edgeId \<in> set OBJECT_PROTOTYPE_MEMBERS then Some NaN else None))"

definition budgetPath :: "string \<Rightarrow> string" where
  "budgetPath key = memberPath ''loopBudgets'' key"

definition edgeBudget :: "workflowDraft \<Rightarrow> edgeDraft \<Rightarrow> workflowDiagnostic list" where
  "edgeBudget draft e =
     (case (mapGet (nodeOrder (wd_nodes draft)) (ed_fromNodeId e), mapGet (nodeOrder (wd_nodes draft)) (ed_toNodeId e)) of
        (Some fromIndex, Some toIndex) \<Rightarrow>
          pushIf (toIndex \<le> fromIndex \<and> budgetOf draft (ed_id e) = None) (graphError (budgetPath (ed_id e)))
          @ (case budgetOf draft (ed_id e) of
               None \<Rightarrow> []
             | Some b \<Rightarrow> pushIf (\<not> numInteger b \<or> numLess b (Num 0)) (graphError (budgetPath (ed_id e))))
      | _ \<Rightarrow> [])"

definition validateLoopBudgets :: "workflowDraft \<Rightarrow> workflowDiagnostic list" where
  "validateLoopBudgets draft =
     concat (map (edgeBudget draft) (wd_edges draft))
     @ concat (map (\<lambda>key. pushIf (\<not> list_ex (\<lambda>e. ed_id e = key) (wd_edges draft)) (graphError (budgetPath key)))
         (mapKeys (orElse (wd_loopBudgets draft) [])))"

definition sortedRecord :: "(string, jsnum) jsmap \<Rightarrow> (string, jsnum) jsmap" where
  "sortedRecord m = sortBy keyLe (filter (\<lambda>kv. fst kv \<noteq> ''__proto__'') m)"

section \<open>Compilation\<close>

definition contractInput_js :: "compiledWorkflow \<Rightarrow> jsval" where
  "contractInput_js w = Obj
     [(''schemaVersion'', Nat P2P_WORKFLOW_SCHEMA_VERSION), (''workflowId'', Str (cw_workflowId w)),
      (''rootNodeId'', Str (cw_rootNodeId w)), (''nodes'', Arr (map compiledNode_js (cw_nodes w))),
      (''edges'', Arr (map edgeDraft_js (cw_edges w))), (''variables'', Arr (map variable_js (cw_variables w))),
      (''loopBudgets'', numberRecord_js (cw_loopBudgets w)),
      (''derivedRequiredCapabilities'', Arr (map Str (cw_derivedRequiredCapabilities w))),
      (''staticPolicyHash'', Str (cw_staticPolicyHash w))]"

definition compileChecks :: "jsHost \<Rightarrow> workflowDraft \<Rightarrow> staticPolicy \<Rightarrow> workflowDiagnostic list" where
  "compileChecks h draft staticPolicy =
     va_diagnostics (validateP2pWorkflowDraft h (workflowDraft_js draft))
     @ pushIf (length (wd_nodes draft) > pol_maxNodes staticPolicy \<or> length (wd_edges draft) > pol_maxEdges staticPolicy)
         (diag0 Dc_invalid_workflow_graph Dp_compile)
     @ validateGraphShape draft
     @ validateP2pWorkflowVariables h (map variable_js (orElse (wd_variables draft) []))
     @ validateLoopBudgets draft"

definition byId :: "jsHost \<Rightarrow> ('a \<Rightarrow> string) \<Rightarrow> 'a list \<Rightarrow> 'a list" where
  "byId h f xs = sortBy (\<lambda>a b. collateLe h (f a) (f b)) xs"

definition compileP2pWorkflowDraft :: "jsHost \<Rightarrow> workflowDraft \<Rightarrow> staticPolicy
    \<Rightarrow> workflowDiagnostic list + compiledWorkflow \<times> workflowDiagnostic list" where
  "compileP2pWorkflowDraft h draft staticPolicy =
     (let draftValidation = validateP2pWorkflowDraft h (workflowDraft_js draft) in
      if \<not> va_ok draftValidation then Inl (va_diagnostics draftValidation)
      else
        let diagnostics = compileChecks h draft staticPolicy in
        if hasError diagnostics then Inl diagnostics
        else
          let nodes = map (\<lambda>n. compileNode n (wd_edges draft)) (byId h nd_id (wd_nodes draft));
              workflow = \<lparr>
                cw_workflowId = wd_id draft,
                cw_rootNodeId = (case draftRoot draft of Some r \<Rightarrow> r | None \<Rightarrow> []),
                cw_nodes = nodes,
                cw_edges = byId h ed_id (wd_edges draft),
                cw_variables = byId h vd_name (orElse (wd_variables draft) []),
                cw_loopBudgets = sortedRecord (orElse (wd_loopBudgets draft) []),
                cw_derivedRequiredCapabilities = deriveRequiredCapabilities nodes,
                cw_staticPolicyHash = hashP2pStaticPolicy h staticPolicy,
                cw_workflowContractHash = [],
                cw_diagnostics = []\<rparr>
          in Inr (workflow\<lparr>cw_workflowContractHash := stableHash (stableStringify h (contractInput_js workflow))\<rparr>,
                  diagnostics))"

end
