(* ===== verification/WfCompilerFacts.thy ===== *)
theory WfCompilerFacts
  imports WfCompiler
begin

text \<open>
  What the compiler of workflows accepts: reachability is the reflexive transitive closure of
  the edges, and a draft compiles exactly when its graph is sound. Compiling drafts whose
  lists are permuted gives the same workflow.
\<close>

section \<open>Reachability\<close>

definition edgeRel :: "edgeDraft list \<Rightarrow> (string \<times> string) set" where
  "edgeRel edges = (\<lambda>e. (ed_fromNodeId e, ed_toNodeId e)) ` set edges"

lemma reachPass_sound:
  "set es \<subseteq> set edges \<Longrightarrow> set reachable \<subseteq> {n. (r, n) \<in> (edgeRel edges)\<^sup>*}
    \<Longrightarrow> set (fst (reachPass reachable c es)) \<subseteq> {n. (r, n) \<in> (edgeRel edges)\<^sup>*}"
proof (induction reachable c es rule: reachPass.induct)
  case (2 reachable changed e es)
  have "(ed_fromNodeId e, ed_toNodeId e) \<in> edgeRel edges"
    using "2.prems"(1) by (auto simp: edgeRel_def)
  then have "(r, ed_toNodeId e) \<in> (edgeRel edges)\<^sup>*" if "ed_fromNodeId e \<in> set reachable"
    using that "2.prems"(2) by (auto intro: rtrancl_into_rtrancl)
  with 2 show ?case by auto
qed auto

lemma reachPass_flag: "snd (reachPass reachable True es)"
  by (induction es arbitrary: reachable) auto

lemma reachPass_unchanged:
  "\<not> snd (reachPass reachable False es) \<Longrightarrow> fst (reachPass reachable False es) = reachable
    \<and> (\<forall>e\<in>set es. ed_fromNodeId e \<in> set reachable \<longrightarrow> ed_toNodeId e \<in> set reachable)"
  by (induction es) (auto simp: reachPass_flag split: if_splits)

declare collectReachableFrom.simps [simp del]

lemma collectReachableFrom_spec:
  "set reachable \<subseteq> {n. (r, n) \<in> (edgeRel edges)\<^sup>*} \<Longrightarrow> r \<in> set reachable
    \<Longrightarrow> set (collectReachableFrom reachable edges) = {n. (r, n) \<in> (edgeRel edges)\<^sup>*}"
proof (induction reachable edges rule: collectReachableFrom.induct)
  case (1 reachable edges)
  let ?p = "reachPass reachable False edges"
  have sound: "set (fst ?p) \<subseteq> {n. (r, n) \<in> (edgeRel edges)\<^sup>*}"
    by (rule reachPass_sound [OF order_refl "1.prems"(1)])
  show ?case
  proof (cases "snd ?p")
    case True
    have "r \<in> set (fst ?p)" using reachPass_grows "1.prems"(2) by blast
    then show ?thesis
      using "1.IH" [OF refl] True sound
      by (subst collectReachableFrom.simps) (cases ?p; simp)
  next
    case False
    have "n \<in> set reachable" if "(r, n) \<in> (edgeRel edges)\<^sup>*" for n
      using that
    proof (induction rule: rtrancl_induct)
      case (step y z)
      then show ?case using reachPass_unchanged [OF False] by (auto simp: edgeRel_def)
    qed (rule "1.prems"(2))
    then show ?thesis
      using "1.prems"(1) False reachPass_unchanged [OF False]
      by (subst collectReachableFrom.simps) (auto simp: case_prod_beta)
  qed
qed

lemma collectReachable_spec: "set (collectReachable r edges) = {n. (r, n) \<in> (edgeRel edges)\<^sup>*}"
  unfolding collectReachable_def by (rule collectReachableFrom_spec) auto

section \<open>When each check is silent\<close>

lemma duplicateNodes_Nil:
  "duplicateNodes seen ns = [] \<longleftrightarrow> distinct (map nd_id ns) \<and> set (map nd_id ns) \<inter> set seen = {}"
  by (induction seen ns rule: duplicateNodes.induct) auto

lemma edgeShape_Nil:
  "edgeShape ids seen es = [] \<longleftrightarrow> distinct (map ed_id es) \<and> set (map ed_id es) \<inter> set seen = {}
     \<and> (\<forall>e\<in>set es. ed_fromNodeId e \<in> set ids \<and> ed_toNodeId e \<in> set ids)"
  by (induction ids seen es rule: edgeShape.induct) auto

lemma concat_Nil_iff: "concat xss = [] \<longleftrightarrow> (\<forall>xs\<in>set xss. xs = [])"
  by (induction xss) auto

definition nodeSound :: "edgeDraft list \<Rightarrow> nodeDraft \<Rightarrow> bool" where
  "nodeSound edges n \<longleftrightarrow>
     (nd_nodeKind n = Nk_logic \<longleftrightarrow> nd_logic n \<noteq> None)
     \<and> (\<forall>l. nd_logic n = Some l \<longrightarrow> validateP2pLogicContract (logicContract_js l) (memberPath (nodePath n) ''logic'') = [])
     \<and> length (defaultFrom (nd_id n) edges) \<le> 1 \<and> length (conditionalFrom (nd_id n) edges) \<le> 1
     \<and> (\<forall>e\<in>set (conditionalFrom (nd_id n) edges). ed_condition e \<noteq> None
          \<and> orElse (nd_routingAuthority n) (deriveRoutingAuthority n edges) \<noteq> Ra_none)"

lemma nodeShape_Nil: "nodeShape edges n = [] \<longleftrightarrow> nodeSound edges n"
proof -
  have "(if nd_nodeKind n = Nk_logic then
        (case nd_logic n of
           None \<Rightarrow> [graphError (memberPath (nodePath n) ''logic'')]
         | Some l \<Rightarrow> map graphError (validateP2pLogicContract (logicContract_js l) (memberPath (nodePath n) ''logic'')))
      else pushIf (nd_logic n \<noteq> None) (graphError (memberPath (nodePath n) ''logic''))) = []
     \<longleftrightarrow> (nd_nodeKind n = Nk_logic \<longleftrightarrow> nd_logic n \<noteq> None)
       \<and> (\<forall>l. nd_logic n = Some l \<longrightarrow> validateP2pLogicContract (logicContract_js l) (memberPath (nodePath n) ''logic'') = [])"
    by (auto split: option.splits)
  moreover have "(let conditionalOutgoing = conditionalFrom (nd_id n) edges in
        if conditionalOutgoing = [] then []
        else
          pushIf (length conditionalOutgoing > 1) (graphError (nodePath n))
          @ pushIf (orElse (nd_routingAuthority n) (deriveRoutingAuthority n edges) = Ra_none)
              (diag Dc_invalid_routing_authority Dp_compile (memberPath (nodePath n) ''routingAuthority''))
          @ concat (map (\<lambda>e. pushIf (ed_condition e = None)
              (diag Dc_invalid_edge_condition Dp_compile (memberPath (memberPath ''edges'' (ed_id e)) ''condition'')))
              conditionalOutgoing)) = []
     \<longleftrightarrow> length (conditionalFrom (nd_id n) edges) \<le> 1
       \<and> (\<forall>e\<in>set (conditionalFrom (nd_id n) edges). ed_condition e \<noteq> None
          \<and> orElse (nd_routingAuthority n) (deriveRoutingAuthority n edges) \<noteq> Ra_none)"
    by (cases "conditionalFrom (nd_id n) edges") (auto simp: concat_Nil_iff not_less)
  ultimately show ?thesis
    unfolding nodeShape_def nodeSound_def append_is_Nil_conv pushIf_Nil_iff not_less by blast
qed

text \<open>A draft whose graph is sound.\<close>

definition graphSound :: "workflowDraft \<Rightarrow> bool" where
  "graphSound d \<longleftrightarrow>
     distinct (map nd_id (wd_nodes d)) \<and> distinct (map ed_id (wd_edges d))
     \<and> (\<forall>e\<in>set (wd_edges d). ed_fromNodeId e \<in> nd_id ` set (wd_nodes d) \<and> ed_toNodeId e \<in> nd_id ` set (wd_nodes d))
     \<and> (\<exists>r. draftRoot d = Some r \<and> r \<noteq> [] \<and> r \<in> nd_id ` set (wd_nodes d)
          \<and> (\<forall>n\<in>set (wd_nodes d). (r, nd_id n) \<in> (edgeRel (wd_edges d))\<^sup>*))
     \<and> (\<forall>n\<in>set (wd_nodes d). nodeSound (wd_edges d) n)
     \<and> length (filter declaresOpenspec (wd_nodes d)) \<le> 1"

lemma validateGraphShape_Nil: "validateGraphShape d = [] \<longleftrightarrow> graphSound d"
  by (cases "draftRoot d")
    (auto simp: validateGraphShape_def graphSound_def Let_def duplicateNodes_Nil edgeShape_Nil concat_Nil_iff
      nodeShape_Nil collectReachable_spec not_less)

text \<open>Every edge that does not lead forward in the order of the nodes has a budget.\<close>

definition nodeAt :: "workflowDraft \<Rightarrow> nat \<Rightarrow> string \<Rightarrow> bool" where
  "nodeAt d i k \<longleftrightarrow> i < length (wd_nodes d) \<and> nd_id (wd_nodes d ! i) = k"

definition budgetsSound :: "workflowDraft \<Rightarrow> bool" where
  "budgetsSound d \<longleftrightarrow>
     (\<forall>e\<in>set (wd_edges d). \<forall>i j. nodeAt d i (ed_fromNodeId e) \<longrightarrow> nodeAt d j (ed_toNodeId e) \<longrightarrow>
        (j \<le> i \<longrightarrow> budgetOf d (ed_id e) \<noteq> None)
        \<and> (\<forall>b. budgetOf d (ed_id e) = Some b \<longrightarrow> numInteger b \<and> \<not> numLess b (Num 0)))
     \<and> set (mapKeys (orElse (wd_loopBudgets d) [])) \<subseteq> ed_id ` set (wd_edges d)"

lemma nodeOrder_Some:
  assumes "distinct (map nd_id ns)"
  shows "mapGet (foldl (\<lambda>m (i, n). mapSet m (nd_id n) i) m (enumerate s ns)) k = Some p \<longleftrightarrow>
    (\<exists>j < length ns. nd_id (ns ! j) = k \<and> p = s + j) \<or> (k \<notin> nd_id ` set ns \<and> mapGet m k = Some p)"
  using assms
proof (induction ns arbitrary: m s)
  case (Cons n ns)
  have "mapGet (foldl (\<lambda>m (i, n). mapSet m (nd_id n) i) m (enumerate s (n # ns))) k = Some p \<longleftrightarrow>
      (\<exists>j < length ns. nd_id (ns ! j) = k \<and> p = Suc s + j)
      \<or> (k \<notin> nd_id ` set ns \<and> mapGet (mapSet m (nd_id n) s) k = Some p)"
    using Cons.IH [of "mapSet m (nd_id n) s" "Suc s"] Cons.prems by simp
  also have "\<dots> \<longleftrightarrow> (\<exists>j < length (n # ns). nd_id ((n # ns) ! j) = k \<and> p = s + j)
      \<or> (k \<notin> nd_id ` set (n # ns) \<and> mapGet m k = Some p)"
  proof (cases "k = nd_id n")
    case True
    then have "k \<notin> nd_id ` set ns" using Cons.prems by auto
    moreover from this have "\<And>j. j < length ns \<Longrightarrow> nd_id (ns ! j) \<noteq> k" by (auto dest: nth_mem)
    ultimately show ?thesis using True by (auto simp: less_Suc_eq_0_disj)
  next
    case False
    then show ?thesis by (auto simp: less_Suc_eq_0_disj)
  qed
  finally show ?case .
qed simp

lemma nodeOrder_iff:
  assumes "distinct (map nd_id ns)"
  shows "mapGet (nodeOrder ns) k = Some i \<longleftrightarrow> i < length ns \<and> nd_id (ns ! i) = k"
  using nodeOrder_Some [OF assms, of "[]" 0 k i] by (auto simp: nodeOrder_def)

lemma unique_pair:
  "(\<And>i'. A i' \<longleftrightarrow> i' = i) \<Longrightarrow> (\<And>j'. B j' \<longleftrightarrow> j' = j) \<Longrightarrow> (\<forall>i' j'. A i' \<longrightarrow> B j' \<longrightarrow> P i' j') \<longleftrightarrow> P i j"
  by simp

lemma edgeBudget_Nil:
  assumes "distinct (map nd_id (wd_nodes d))"
  shows "edgeBudget d e = [] \<longleftrightarrow> (\<forall>i j. nodeAt d i (ed_fromNodeId e) \<longrightarrow> nodeAt d j (ed_toNodeId e) \<longrightarrow>
        (j \<le> i \<longrightarrow> budgetOf d (ed_id e) \<noteq> None)
        \<and> (\<forall>b. budgetOf d (ed_id e) = Some b \<longrightarrow> numInteger b \<and> \<not> numLess b (Num 0)))"
proof -
  have order: "mapGet (nodeOrder (wd_nodes d)) k = Some i \<longleftrightarrow> nodeAt d i k" for i k
    unfolding nodeAt_def by (rule nodeOrder_iff [OF assms])
  consider (none) "mapGet (nodeOrder (wd_nodes d)) (ed_fromNodeId e) = None \<or> mapGet (nodeOrder (wd_nodes d)) (ed_toNodeId e) = None"
    | (both) i j where "mapGet (nodeOrder (wd_nodes d)) (ed_fromNodeId e) = Some i"
        "mapGet (nodeOrder (wd_nodes d)) (ed_toNodeId e) = Some j" by fastforce
  then show ?thesis
  proof cases
    case none
    then have "(\<forall>i. \<not> nodeAt d i (ed_fromNodeId e)) \<or> (\<forall>j. \<not> nodeAt d j (ed_toNodeId e))"
      by (metis order option.distinct(1))
    moreover have "edgeBudget d e = []" using none by (auto simp: edgeBudget_def split: option.splits)
    ultimately show ?thesis by blast
  next
    case both
    have "edgeBudget d e = [] \<longleftrightarrow> (j \<le> i \<longrightarrow> budgetOf d (ed_id e) \<noteq> None)
        \<and> (\<forall>b. budgetOf d (ed_id e) = Some b \<longrightarrow> numInteger b \<and> \<not> numLess b (Num 0))"
      by (cases "budgetOf d (ed_id e)") (simp_all add: edgeBudget_def both)
    moreover have "nodeAt d i' (ed_fromNodeId e) \<longleftrightarrow> i' = i" "nodeAt d i' (ed_toNodeId e) \<longleftrightarrow> i' = j" for i'
      using order both by (metis option.inject)+
    ultimately show ?thesis by (simp add: unique_pair [of "\<lambda>i. nodeAt d i (ed_fromNodeId e)" i "\<lambda>j. nodeAt d j (ed_toNodeId e)" j])
  qed
qed

lemma budget_keys: "(\<forall>key\<in>set keys. list_ex (\<lambda>e. ed_id e = key) es) \<longleftrightarrow> set keys \<subseteq> ed_id ` set es"
  by (auto simp: list_ex_iff)

lemma validateLoopBudgets_Nil:
  assumes "distinct (map nd_id (wd_nodes d))"
  shows "validateLoopBudgets d = [] \<longleftrightarrow> budgetsSound d"
proof -
  have "concat (map (edgeBudget d) (wd_edges d)) = [] \<longleftrightarrow> (\<forall>e\<in>set (wd_edges d). edgeBudget d e = [])"
    by (auto simp: concat_Nil_iff)
  moreover have "concat (map (\<lambda>key. pushIf (\<not> list_ex (\<lambda>e. ed_id e = key) (wd_edges d)) (graphError (budgetPath key))) ks) = []
      \<longleftrightarrow> (\<forall>key\<in>set ks. list_ex (\<lambda>e. ed_id e = key) (wd_edges d))" for ks
    by (induction ks) auto
  ultimately show ?thesis
    unfolding validateLoopBudgets_def budgetsSound_def append_is_Nil_conv
    by (simp only: edgeBudget_Nil [OF assms] budget_keys)
qed

section \<open>The result\<close>

definition compiledOf :: "jsHost \<Rightarrow> workflowDraft \<Rightarrow> staticPolicy \<Rightarrow> compiledWorkflow" where
  "compiledOf h d pol =
     (let nodes = map (\<lambda>n. compileNode n (wd_edges d)) (byId h nd_id (wd_nodes d));
          w = \<lparr>
            cw_workflowId = wd_id d,
            cw_rootNodeId = (case draftRoot d of Some r \<Rightarrow> r | None \<Rightarrow> []),
            cw_nodes = nodes,
            cw_edges = byId h ed_id (wd_edges d),
            cw_variables = byId h vd_name (orElse (wd_variables d) []),
            cw_loopBudgets = sortedRecord (orElse (wd_loopBudgets d) []),
            cw_derivedRequiredCapabilities = deriveRequiredCapabilities nodes,
            cw_staticPolicyHash = hashP2pStaticPolicy h pol,
            cw_workflowContractHash = [],
            cw_diagnostics = []\<rparr>
      in w\<lparr>cw_workflowContractHash := stableHash (stableStringify h (contractInput_js w))\<rparr>)"

lemma allErrors_concat: "(\<And>x. x \<in> set xs \<Longrightarrow> allErrors (f x)) \<Longrightarrow> allErrors (concat (map f xs))"
  by (induction xs) simp_all

lemma graphError_error [simp]: "dg_severity (graphError p) = Sv_error"
  by (simp add: graphError_def error_simps)

lemma allErrors_map_graphError: "allErrors (map graphError ps)"
  by (induction ps) simp_all

lemma duplicateNodes_errors: "allErrors (duplicateNodes seen ns)"
  by (induction seen ns rule: duplicateNodes.induct) simp_all

lemma edgeShape_errors: "allErrors (edgeShape ids seen es)"
  by (induction ids seen es rule: edgeShape.induct) simp_all

lemma nodeShape_errors: "allErrors (nodeShape es n)"
  by (simp add: nodeShape_def Let_def allErrors_map_graphError error_simps allErrors_concat split: option.split)

lemma graphShape_errors: "allErrors (validateGraphShape d)"
  by (simp add: validateGraphShape_def Let_def duplicateNodes_errors edgeShape_errors nodeShape_errors
      allErrors_concat error_simps split: option.split)

lemma edgeBudget_errors: "allErrors (edgeBudget d e)"
  by (simp add: edgeBudget_def split: option.split)

lemma loopBudgets_errors: "allErrors (validateLoopBudgets d)"
  by (simp add: validateLoopBudgets_def allErrors_concat edgeBudget_errors)

lemma fld_draft:
  "fld (workflowDraft_js d) ''variables'' = optVal (\<lambda>vs. Arr (map variable_js vs)) (wd_variables d)"
  "fld (workflowDraft_js d) ''nodes'' = Arr (map nodeDraft_js (wd_nodes d))"
  "fld (workflowDraft_js d) ''edges'' = Arr (map edgeDraft_js (wd_edges d))"
  "fld (workflowDraft_js d) ''id'' = Str (wd_id d)"
  by (simp_all add: workflowDraft_js_def map_add_def split: option.splits)

lemma draft_variables_accepted:
  "draftAccepted h (workflowDraft_js d) \<Longrightarrow> validateP2pWorkflowVariables h (map variable_js (orElse (wd_variables d) [])) = []"
  by (cases "wd_variables d") (auto simp: draftAccepted_def fld_draft variables_accepts)

lemma compileChecks_errors: "va_ok (validateP2pWorkflowDraft h (workflowDraft_js d)) \<Longrightarrow> allErrors (compileChecks h d pol)"
  by (simp add: compileChecks_def validate_draft_clean graphShape_errors loopBudgets_errors variables_errors error_simps)

lemma compile_Inr_iff:
  "compileP2pWorkflowDraft h d pol = Inr (w, ds) \<longleftrightarrow>
     draftAccepted h (workflowDraft_js d)
     \<and> length (wd_nodes d) \<le> pol_maxNodes pol \<and> length (wd_edges d) \<le> pol_maxEdges pol
     \<and> graphSound d \<and> budgetsSound d \<and> w = compiledOf h d pol \<and> ds = []"
proof (cases "va_ok (validateP2pWorkflowDraft h (workflowDraft_js d))")
  case False
  then show ?thesis by (auto simp: compileP2pWorkflowDraft_def validate_draft_accepts Let_def)
next
  case True
  then have acc: "draftAccepted h (workflowDraft_js d)" by (simp add: validate_draft_accepts)
  have silent: "compileChecks h d pol = [] \<longleftrightarrow> length (wd_nodes d) \<le> pol_maxNodes pol
      \<and> length (wd_edges d) \<le> pol_maxEdges pol \<and> graphSound d \<and> budgetsSound d"
    by (cases "graphSound d")
      (auto simp: compileChecks_def validate_draft_clean [OF True] draft_variables_accepted [OF acc]
        validateGraphShape_Nil validateLoopBudgets_Nil graphSound_def not_less)
  have result: "compileP2pWorkflowDraft h d pol =
      (if compileChecks h d pol \<noteq> [] then Inl (compileChecks h d pol) else Inr (compiledOf h d pol, []))"
    using True allErrors_hasError [OF compileChecks_errors [OF True], of pol]
    by (simp add: compileP2pWorkflowDraft_def compiledOf_def Let_def)
  show ?thesis unfolding result using silent acc by auto
qed

section \<open>Independence of the order of the lists\<close>

text \<open>The host's comparison tells the ids apart.\<close>

definition tellsApart :: "jsHost \<Rightarrow> string list \<Rightarrow> bool" where
  "tellsApart h ids \<longleftrightarrow> (\<forall>a\<in>set ids. \<forall>b\<in>set ids. collateLe h a b \<and> collateLe h b a \<longrightarrow> a = b)"

lemma byId_mset:
  assumes "consistentHost h" and "tellsApart h (map f xs)" and "distinct (map f xs)" and "mset xs = mset ys"
  shows "byId h f xs = byId h f ys"
proof -
  have order: "comparator_order (\<lambda>a b. collateLe h (f a) (f b))"
    using assms(1) by (auto simp: consistentHost_def comparator_order_def)
  show ?thesis
    unfolding byId_def
  proof (rule sorted_wrt_mset_unique [where le = "\<lambda>a b. collateLe h (f a) (f b)"])
    show "a = b" if "a \<in> set (sortBy (\<lambda>a b. collateLe h (f a) (f b)) xs)"
      "b \<in> set (sortBy (\<lambda>a b. collateLe h (f a) (f b)) xs)" "collateLe h (f a) (f b)" "collateLe h (f b) (f a)" for a b
    proof -
      have "f a = f b" using that assms(2) by (auto simp: tellsApart_def)
      then show ?thesis using that assms(3) by (auto simp: distinct_map inj_on_def)
    qed
  qed (simp_all add: comparator_order.sorted_sortBy [OF order] assms(4))
qed

lemma conditionalFrom_mset: "mset es = mset es' \<Longrightarrow> mset (conditionalFrom k es) = mset (conditionalFrom k es')"
  by (simp add: conditionalFrom_def)

lemma map_filter_filter: "List.map_filter f xs = map (\<lambda>x. the (f x)) (filter (\<lambda>x. f x \<noteq> None) xs)"
  by (induction xs) (auto simp: List.map_filter_simps)

lemma edgeMarkers_mset: "mset es = mset es' \<Longrightarrow> edgeMarkers es = edgeMarkers es'"
  unfolding edgeMarkers_def by (rule sortStrings_mset) (simp add: map_filter_filter)

lemma compileNode_mset:
  assumes "mset es = mset es'"
  shows "compileNode n es = compileNode n es'"
proof -
  have m: "mset (conditionalFrom (nd_id n) es) = mset (conditionalFrom (nd_id n) es')"
    by (rule conditionalFrom_mset [OF assms])
  have "conditionalFrom (nd_id n) es = [] \<longleftrightarrow> conditionalFrom (nd_id n) es' = []"
    using m by (metis mset_zero_iff)
  then have "deriveRoutingAuthority n es = deriveRoutingAuthority n es'"
    unfolding deriveRoutingAuthority_def Let_def edgeMarkers_mset [OF m] by (rule if_cong) simp_all
  then show ?thesis by (simp add: compileNode_def)
qed

lemma mset_singleton_eq: "mset xs = mset ys \<Longrightarrow> length xs = 1 \<Longrightarrow> xs = ys"
  by (cases xs; cases ys) (auto dest: mset_eq_length)

lemma draftRoot_mset:
  assumes "wd_rootNodeId d = wd_rootNodeId d'" and "mset (wd_nodes d) = mset (wd_nodes d')"
    and "mset (wd_edges d) = mset (wd_edges d')"
  shows "draftRoot d = draftRoot d'"
proof -
  define roots where "roots d = filter (\<lambda>i. i \<notin> set (map ed_toNodeId (wd_edges d))) (map nd_id (wd_nodes d))"
    for d :: workflowDraft
  have "set (wd_edges d) = set (wd_edges d')" using assms(3) by (metis set_mset_mset)
  then have eq: "mset (roots d) = mset (roots d')" using assms(2) by (simp add: roots_def)
  then have "length (roots d) = length (roots d')" by (metis size_mset)
  moreover have "length (roots d) = 1 \<Longrightarrow> roots d = roots d'" by (rule mset_singleton_eq [OF eq])
  ultimately have "(if length (roots d) = 1 then Some (hd (roots d)) else None)
      = (if length (roots d') = 1 then Some (hd (roots d')) else None)" by simp
  moreover have "findRootNodeId x = (if wd_rootNodeId x \<noteq> None \<and> wd_rootNodeId x \<noteq> Some [] then wd_rootNodeId x
      else if length (roots x) = 1 then Some (hd (roots x)) else None)" for x
    by (simp only: findRootNodeId_def roots_def Let_def)
  ultimately show ?thesis
    using assms(1) by (simp only: draftRoot_def)
qed

section \<open>Capabilities\<close>

lemma set_capabilities:
  "set (deriveRequiredCapabilities nodes) =
     {P2P_WORKFLOW_CAPABILITY_V1}
     \<union> (if \<exists>n\<in>set nodes. cn_nodeKind n = Nk_script then {P2P_WORKFLOW_SCRIPT_ARGV_CAPABILITY_V1} else {})
     \<union> (if \<exists>n\<in>set nodes. usesInterpreter n then {P2P_WORKFLOW_SCRIPT_INTERPRETER_CAPABILITY_V1} else {})
     \<union> (if \<exists>n\<in>set nodes. \<exists>a\<in>set (cn_artifacts n). isOpenspecArtifact a
        then {P2P_WORKFLOW_OPENSPEC_ARTIFACTS_CAPABILITY_V1} else {})
     \<union> (if \<exists>n\<in>set nodes. cn_permissionScope n = Ps_implementation then {P2P_WORKFLOW_IMPLEMENTATION_CAPABILITY_V1} else {})"
  by (simp add: deriveRequiredCapabilities_def list_ex_iff pushIf_def insert_commute)

lemmas capability_names = P2P_WORKFLOW_CAPABILITY_V1_def P2P_WORKFLOW_SCRIPT_ARGV_CAPABILITY_V1_def
  P2P_WORKFLOW_SCRIPT_INTERPRETER_CAPABILITY_V1_def P2P_WORKFLOW_OPENSPEC_ARTIFACTS_CAPABILITY_V1_def
  P2P_WORKFLOW_IMPLEMENTATION_CAPABILITY_V1_def

lemma distinct_capabilities: "distinct (deriveRequiredCapabilities nodes)"
  by (simp add: deriveRequiredCapabilities_def pushIf_def capability_names)

lemma cw_compiledOf:
  "cw_nodes (compiledOf h d pol) = map (\<lambda>n. compileNode n (wd_edges d)) (byId h nd_id (wd_nodes d))"
  "cw_edges (compiledOf h d pol) = byId h ed_id (wd_edges d)"
  "cw_variables (compiledOf h d pol) = byId h vd_name (orElse (wd_variables d) [])"
  "cw_rootNodeId (compiledOf h d pol) = (case draftRoot d of Some r \<Rightarrow> r | None \<Rightarrow> [])"
  "cw_derivedRequiredCapabilities (compiledOf h d pol) = deriveRequiredCapabilities (cw_nodes (compiledOf h d pol))"
  "cw_loopBudgets (compiledOf h d pol) = sortedRecord (orElse (wd_loopBudgets d) [])"
  "cw_staticPolicyHash (compiledOf h d pol) = hashP2pStaticPolicy h pol"
  by (simp_all add: compiledOf_def Let_def)

end
