(* ===== verification/WfPlanProps.thy ===== *)
theory WfPlanProps
  imports WfCompilerFacts "HOL-Library.Code_Target_Nat"
begin

text \<open>
  The properties of compiled workflows and of the hashes of policies and contracts.
\<close>

section \<open>Compilation\<close>

text \<open>C4: A draft compiles exactly when the draft check accepts it, it fits the policy's size limits, its graph is sound
  (unique ids, edges between existing nodes, one root from which every node is reachable, at most one default and one
  conditional edge out of a node, conditions and routing for the latter, logic contracts on logic nodes only, at most one
  openspec node) and every edge that does not lead forward has an integer loop budget.\<close>

theorem compile_succeeds_iff:
  "\<not> isl (compileP2pWorkflowDraft h d pol) \<longleftrightarrow>
     va_ok (validateP2pWorkflowDraft h (workflowDraft_js d))
     \<and> length (wd_nodes d) \<le> pol_maxNodes pol \<and> length (wd_edges d) \<le> pol_maxEdges pol
     \<and> graphSound d \<and> budgetsSound d"
proof -
  have "\<not> isl (compileP2pWorkflowDraft h d pol) \<longleftrightarrow> (\<exists>w ds. compileP2pWorkflowDraft h d pol = Inr (w, ds))"
    by (cases "compileP2pWorkflowDraft h d pol") auto
  then show ?thesis by (simp add: compile_Inr_iff validate_draft_accepts)
qed

lemma byId_mset_eq: "mset (byId h f xs) = mset xs"
  by (simp add: byId_def)

lemma set_byId [simp]: "set (byId h f xs) = set xs"
  by (simp add: byId_def)

lemma edgeRel_byId [simp]: "edgeRel (byId h f es) = edgeRel es"
  by (simp add: edgeRel_def)

text \<open>C24: The executor can rely on a compiled workflow: node ids are distinct, the root is one of them, every node is
  reachable from it along the compiled edges, every edge joins compiled nodes, no node has two conditional edges, and
  there are no diagnostics left.\<close>

theorem compiled_workflow_sound:
  assumes ok: "compileP2pWorkflowDraft h d pol = Inr (w, ds)"
  shows "distinct (map cn_id (cw_nodes w)) \<and> cw_rootNodeId w \<in> set (map cn_id (cw_nodes w))
    \<and> set (map cn_id (cw_nodes w)) \<subseteq> {n. (cw_rootNodeId w, n) \<in> (edgeRel (cw_edges w))\<^sup>*}
    \<and> edgeRel (cw_edges w) \<subseteq> set (map cn_id (cw_nodes w)) \<times> set (map cn_id (cw_nodes w))
    \<and> list_all (\<lambda>n. length (conditionalFrom (cn_id n) (cw_edges w)) \<le> 1) (cw_nodes w)
    \<and> ds = []"
proof -
  have sound: "graphSound d" and w: "w = compiledOf h d pol" and ds: "ds = []"
    using ok by (simp_all add: compile_Inr_iff)
  have ids: "set (map cn_id (cw_nodes w)) = nd_id ` set (wd_nodes d)"
    by (simp add: w cw_compiledOf compileNode_def image_image)
  have "mset (map cn_id (cw_nodes w)) = mset (map nd_id (wd_nodes d))"
    by (simp add: w cw_compiledOf compileNode_def comp_def byId_mset_eq)
  then have dist: "distinct (map cn_id (cw_nodes w))"
    using sound by (metis graphSound_def mset_eq_imp_distinct_iff)
  obtain r where r: "draftRoot d = Some r" "r \<in> nd_id ` set (wd_nodes d)"
      "\<forall>n\<in>set (wd_nodes d). (r, nd_id n) \<in> (edgeRel (wd_edges d))\<^sup>*"
    using sound by (auto simp: graphSound_def)
  have cond: "length (conditionalFrom (cn_id n) (cw_edges w)) \<le> 1" if n: "n \<in> set (cw_nodes w)" for n
  proof -
    obtain m where m: "m \<in> set (wd_nodes d)" "cn_id n = nd_id m"
      using n by (auto simp: w cw_compiledOf compileNode_def)
    have "mset (conditionalFrom (nd_id m) (byId h ed_id (wd_edges d))) = mset (conditionalFrom (nd_id m) (wd_edges d))"
      by (rule conditionalFrom_mset) (rule byId_mset_eq)
    then have "length (conditionalFrom (nd_id m) (byId h ed_id (wd_edges d))) = length (conditionalFrom (nd_id m) (wd_edges d))"
      by (metis size_mset)
    moreover have "nodeSound (wd_edges d) m" using sound m(1) by (simp add: graphSound_def)
    ultimately show ?thesis by (simp add: m(2) w cw_compiledOf nodeSound_def)
  qed
  have "edgeRel (cw_edges w) \<subseteq> nd_id ` set (wd_nodes d) \<times> nd_id ` set (wd_nodes d)"
    using sound by (auto simp: w cw_compiledOf graphSound_def edgeRel_def)
  moreover have "cw_rootNodeId w = r" by (simp add: w cw_compiledOf r(1))
  moreover have "nd_id ` set (wd_nodes d) \<subseteq> {n. (r, n) \<in> (edgeRel (cw_edges w))\<^sup>*}"
    using r(3) by (auto simp: w cw_compiledOf)
  ultimately show ?thesis using dist r(2) cond ds unfolding ids by (simp add: list_all_iff)
qed

definition sampleNode :: "string \<Rightarrow> nodeDraft" where
  "sampleNode i = \<lparr>nd_id = i, nd_title = None, nd_nodeKind = Nk_llm, nd_preset = Pk_discuss, nd_dispatchStyle = None,
     nd_permissionScope = None, nd_promptAppend = None, nd_summaryPromptOverride = None, nd_timeoutMs = None,
     nd_routingAuthority = None, nd_script = None, nd_logic = None, nd_artifacts = None\<rparr>"

definition sampleDraft :: "nodeDraft list \<Rightarrow> workflowDraft" where
  "sampleDraft nodes = \<lparr>wd_id = ''wf'', wd_title = None, wd_nodes = nodes,
     wd_edges = [\<lparr>ed_id = ''e1'', ed_fromNodeId = ''a'', ed_toNodeId = ''b'', ed_edgeKind = Ek_default, ed_condition = None\<rparr>,
       \<lparr>ed_id = ''e2'', ed_fromNodeId = ''b'', ed_toNodeId = ''a'', ed_edgeKind = Ek_conditional,
         ed_condition = Some \<lparr>ec_kind = Ck_verdict_marker_equals, ec_equals = ''REWORK''\<rparr>\<rparr>],
     wd_rootNodeId = Some ''a'', wd_startContext = None, wd_variables = None,
     wd_loopBudgets = Some [(''e1'', Num 1000), (''e2'', Num 1000)]\<rparr>"

definition sampleAB :: workflowDraft where "sampleAB = sampleDraft [sampleNode ''a'', sampleNode ''b'']"

definition sampleBA :: workflowDraft where "sampleBA = sampleDraft [sampleNode ''b'', sampleNode ''a'']"

lemma sample_compiles:
  assumes "d = sampleAB \<or> d = sampleBA"
  shows "compileP2pWorkflowDraft codeUnitHost d DEFAULT_P2P_STATIC_POLICY
    = Inr (compiledOf codeUnitHost d DEFAULT_P2P_STATIC_POLICY, [])"
proof -
  have acc: "va_ok (validateP2pWorkflowDraft codeUnitHost (workflowDraft_js sampleAB))"
    "va_ok (validateP2pWorkflowDraft codeUnitHost (workflowDraft_js sampleBA))" by code_simp+
  have graph: "validateGraphShape sampleAB = []" "validateGraphShape sampleBA = []" by code_simp+
  have budgets: "validateLoopBudgets sampleAB = []" "validateLoopBudgets sampleBA = []" by code_simp+
  have ids: "distinct (map nd_id (wd_nodes sampleAB))" "distinct (map nd_id (wd_nodes sampleBA))" by code_simp+
  show ?thesis
    unfolding compile_Inr_iff
    using assms acc graph budgets ids validateLoopBudgets_Nil
    by (auto simp: validate_draft_accepts [symmetric] validateGraphShape_Nil [symmetric])
      (auto simp: sampleAB_def sampleBA_def sampleDraft_def DEFAULT_P2P_STATIC_POLICY_def
        P2P_WORKFLOW_MAX_NODES_def P2P_WORKFLOW_MAX_EDGES_def)
qed

theorem compiled_workflow_sound_witness:
  "distinct (map cn_id (cw_nodes (compiledOf codeUnitHost sampleAB DEFAULT_P2P_STATIC_POLICY)))"
  using compiled_workflow_sound [OF sample_compiles] by blast




text \<open>A compiled workflow asks for exactly the capabilities it needs: the base one always, scripts when it has a
  script node, the interpreter when a script uses one, openspec artifacts and implementation when a node has them; the list
  has no repetitions.\<close>

theorem compiled_capabilities:
  assumes ok: "compileP2pWorkflowDraft h d pol = Inr (w, ds)"
  shows "distinct (cw_derivedRequiredCapabilities w)
    \<and> P2P_WORKFLOW_CAPABILITY_V1 \<in> set (cw_derivedRequiredCapabilities w)
    \<and> (P2P_WORKFLOW_SCRIPT_ARGV_CAPABILITY_V1 \<in> set (cw_derivedRequiredCapabilities w)
        \<longleftrightarrow> (\<exists>n\<in>set (wd_nodes d). nd_nodeKind n = Nk_script))
    \<and> (P2P_WORKFLOW_SCRIPT_INTERPRETER_CAPABILITY_V1 \<in> set (cw_derivedRequiredCapabilities w)
        \<longleftrightarrow> (\<exists>n\<in>set (wd_nodes d). nd_nodeKind n = Nk_script
              \<and> (\<exists>s. nd_script n = Some s \<and> sp_commandKind s = Cm_interpreter)))
    \<and> (P2P_WORKFLOW_OPENSPEC_ARTIFACTS_CAPABILITY_V1 \<in> set (cw_derivedRequiredCapabilities w)
        \<longleftrightarrow> (\<exists>n\<in>set (wd_nodes d). declaresOpenspec n))
    \<and> (P2P_WORKFLOW_IMPLEMENTATION_CAPABILITY_V1 \<in> set (cw_derivedRequiredCapabilities w)
        \<longleftrightarrow> (\<exists>n\<in>set (wd_nodes d). nd_permissionScope n = Some Ps_implementation))"
proof -
  have w: "w = compiledOf h d pol" using ok by (simp add: compile_Inr_iff)
  have scope: "orElse s Ps_analysis_only = Ps_implementation \<longleftrightarrow> s = Some Ps_implementation" for s
    by (cases s) simp_all
  have nodes: "(\<exists>n\<in>set (cw_nodes w). P n) \<longleftrightarrow> (\<exists>n\<in>set (wd_nodes d). P (compileNode n (wd_edges d)))" for P
    by (simp add: w cw_compiledOf)
  have caps: "set (cw_derivedRequiredCapabilities w) = set (deriveRequiredCapabilities (cw_nodes w))"
    by (simp add: w cw_compiledOf)
  have inter: "usesInterpreter (compileNode n es) \<longleftrightarrow>
      nd_nodeKind n = Nk_script \<and> (\<exists>s. nd_script n = Some s \<and> sp_commandKind s = Cm_interpreter)" for n es
    by (simp add: usesInterpreter_def compileNode_def split: option.split)
  show ?thesis
    unfolding caps set_capabilities nodes inter
    by (simp add: capability_names compileNode_def scope declaresOpenspec_def list_ex_iff w cw_compiledOf distinct_capabilities)
qed

theorem compiled_capabilities_witness:
  "P2P_WORKFLOW_CAPABILITY_V1 \<in> set (cw_derivedRequiredCapabilities (compiledOf codeUnitHost sampleAB DEFAULT_P2P_STATIC_POLICY))"
  using compiled_capabilities [OF sample_compiles] by blast

text \<open>The policy's loop limit is not one of the conditions: a draft with a larger budget compiles.\<close>

lemma loop_limit_not_enforced:
  "\<not> isl (compileP2pWorkflowDraft codeUnitHost sampleAB DEFAULT_P2P_STATIC_POLICY)
   \<and> budgetOf sampleAB ''e2'' = Some (Num 1000) \<and> pol_maxLoopBudget DEFAULT_P2P_STATIC_POLICY = 8"
  using sample_compiles [of sampleAB]
  by (simp add: budgetOf_def sampleAB_def sampleDraft_def DEFAULT_P2P_STATIC_POLICY_def)

section \<open>Canonical text and policy hashes\<close>

text \<open>The canonical text of a value does not depend on the order of the members of its objects, at any depth, and
  canonicalizing twice changes nothing.\<close>

theorem canonical_text_ignores_member_order:
  assumes same: "reordered v w"
  shows "stableStringify h v = stableStringify h w \<and> canonicalize (canonicalize v) = canonicalize v"
  using canonicalize_reordered [OF same] by (simp add: stableStringify_def canonicalize_idem)

theorem canonical_text_ignores_member_order_witness:
  "stableStringify codeUnitHost (Obj [(''b'', Null), (''a'', Bool True)])
     = stableStringify codeUnitHost (Obj [(''a'', Bool True), (''b'', Null)])"
proof -
  have "reordered (Obj [(''b'', Null), (''a'', Bool True)]) (Obj [(''a'', Bool True), (''b'', Null)])"
    by (rule reordered.members [of _ "[(''b'', Null), (''a'', Bool True)]"]) (auto intro: reordered.same)
  then show ?thesis using canonical_text_ignores_member_order by blast
qed

text \<open>Two static policies with the same limits and flags and the same executables, in any order and whatever hash
  they carry, have the same hash; a hash is the prefix and 16 characters.\<close>

theorem policy_hash_identity:
  assumes execs: "mset (pol_allowedExecutables p) = mset (pol_allowedExecutables q)"
    and rest: "p\<lparr>pol_policyHash := None, pol_allowedExecutables := []\<rparr> = q\<lparr>pol_policyHash := None, pol_allowedExecutables := []\<rparr>"
  shows "hashP2pStaticPolicy h p = hashP2pStaticPolicy h q \<and> length (hashP2pStaticPolicy h p) = 24"
  using canonical_policy_eq [OF execs rest] by (simp add: hashP2pStaticPolicy_def stableHash_length)

theorem policy_hash_identity_witness:
  "hashP2pStaticPolicy codeUnitHost (DEFAULT_P2P_STATIC_POLICY\<lparr>pol_allowedExecutables := [''sh'', ''node'']\<rparr>)
   = hashP2pStaticPolicy codeUnitHost (DEFAULT_P2P_STATIC_POLICY\<lparr>pol_allowedExecutables := [''node'', ''sh''], pol_policyHash := Some ''x''\<rparr>)
"
  using policy_hash_identity [of "DEFAULT_P2P_STATIC_POLICY\<lparr>pol_allowedExecutables := [''sh'', ''node'']\<rparr>"
      "DEFAULT_P2P_STATIC_POLICY\<lparr>pol_allowedExecutables := [''node'', ''sh''], pol_policyHash := Some ''x''\<rparr>" codeUnitHost]
  by (simp add: DEFAULT_P2P_STATIC_POLICY_def)

end
