(* ===== verification/WfArtifacts.thy ===== *)
theory WfArtifacts
  imports WfCompilerFacts
begin

text \<open>
  \<^verbatim>\<open>shared/p2p-workflow-artifacts.ts\<close>: the list of files a round starts from, its checks and the
  hash two baselines are compared by. SHA-256 of \<^verbatim>\<open>node:crypto\<close> is an argument.
\<close>

record artifactFile =
  af_path :: string
  af_sha256 :: string
  af_sizeBytes :: "jsnum option"
  af_fileType :: "string option"
  af_metadata :: "(string \<times> jsval) list option"

definition isP2pArtifactFileType :: "jsval \<Rightarrow> bool" where
  "isP2pArtifactFileType v = isOneOf v [''file'', ''directory'', ''symlink'', ''other'']"

definition invalidArtifactBaseline :: "string \<Rightarrow> workflowDiagnostic list" where
  "invalidArtifactBaseline fieldPath = [diag Dc_artifact_baseline_mismatch Dp_execute fieldPath]"

fun ratOf :: "jsnum \<Rightarrow> rat" where
  "ratOf (Num r) = r"
| "ratOf _ = 0"

text \<open>One entry: its diagnostics, the file it adds, and the bytes it counts.\<close>

definition fileDiagnostics :: "string list \<Rightarrow> jsval \<Rightarrow> string \<Rightarrow> workflowDiagnostic list" where
  "fileDiagnostics seen raw fieldPath =
     (let path = fld raw ''path''; sizeBytes = fld raw ''sizeBytes'';
          validPath = (isString path \<and> isP2pArtifactRelativePath (strOf path))
      in
      (if \<not> validPath then [diag Dc_unsafe_artifact_path Dp_bind (memberPath fieldPath ''path'')]
       else pushIf (getP2pArtifactPathDepth (strOf path) > P2P_WORKFLOW_ARTIFACT_MAX_DEPTH)
              (diag Dc_unsafe_artifact_path Dp_bind (memberPath fieldPath ''path'')))
      @ pushIf (validPath \<and> strOf path \<in> set seen)
          (diag Dc_artifact_baseline_mismatch Dp_execute (memberPath fieldPath ''path''))
      @ pushIf (\<not> isString (fld raw ''sha256'') \<or> \<not> isHexText 64 64 (strOf (fld raw ''sha256'')))
          (diag Dc_artifact_baseline_mismatch Dp_execute (memberPath fieldPath ''sha256''))
      @ (if \<not> nonNegInteger sizeBytes
         then [diag Dc_artifact_baseline_mismatch Dp_execute (memberPath fieldPath ''sizeBytes'')]
         else pushIf (numLess (Num (of_nat P2P_WORKFLOW_ARTIFACT_MAX_FILE_BYTES)) (numOfVal sizeBytes))
                (diag Dc_artifact_baseline_too_large Dp_bind (memberPath fieldPath ''sizeBytes'')))
      @ pushIf (\<not> isP2pArtifactFileType (fld raw ''fileType''))
          (diag Dc_artifact_baseline_mismatch Dp_execute (memberPath fieldPath ''fileType'')))"

definition fileOf :: "jsval \<Rightarrow> artifactFile" where
  "fileOf raw = \<lparr>
     af_path = strOf (fld raw ''path''),
     af_sha256 = (case fld raw ''sha256'' of Str s \<Rightarrow> toLower s | _ \<Rightarrow> []),
     af_sizeBytes = (case fld raw ''sizeBytes'' of Number n \<Rightarrow> Some n | _ \<Rightarrow> None),
     af_fileType = (if isP2pArtifactFileType (fld raw ''fileType'') then Some (strOf (fld raw ''fileType'')) else None),
     af_metadata = (if isRecord (fld raw ''metadata'') then Some (objFields (fld raw ''metadata'')) else None)\<rparr>"

fun baselineFrom :: "nat \<Rightarrow> string list \<Rightarrow> jsval list \<Rightarrow> workflowDiagnostic list \<times> artifactFile list \<times> rat" where
  "baselineFrom i seen [] = ([], [], 0)"
| "baselineFrom i seen (raw # rest) =
     (let fieldPath = itemPath ''artifactBaseline.files'' i in
      if \<not> isRecord raw then
        (let (ds, fs, total) = baselineFrom (Suc i) seen rest
         in (diag Dc_artifact_baseline_mismatch Dp_execute fieldPath # ds, fs, total))
      else
        let path = fld raw ''path'';
            validPath = (isString path \<and> isP2pArtifactRelativePath (strOf path));
            (ds, fs, total) = baselineFrom (Suc i) (if validPath then strOf path # seen else seen) rest
        in (fileDiagnostics seen raw fieldPath @ ds,
            (if validPath then fileOf raw # fs else fs),
            (if nonNegInteger (fld raw ''sizeBytes'') then ratOf (numOfVal (fld raw ''sizeBytes'')) + total else total)))"

definition validateP2pArtifactBaseline :: "jsval \<Rightarrow> workflowDiagnostic list + artifactFile list \<times> workflowDiagnostic list" where
  "validateP2pArtifactBaseline input =
     (if \<not> isRecord input \<or> \<not> isArray (fld input ''files'')
      then Inl (invalidArtifactBaseline ''artifactBaseline.files'')
      else
        let raw = arrItems (fld input ''files'');
            (ds, files, totalBytes) = baselineFrom 0 [] raw;
            diagnostics =
              pushIf (length raw > P2P_WORKFLOW_ARTIFACT_MAX_FILES)
                (diag Dc_artifact_baseline_too_large Dp_bind ''artifactBaseline.files'')
              @ ds
              @ pushIf (totalBytes > of_nat P2P_WORKFLOW_ARTIFACT_MAX_TOTAL_BYTES)
                  (diag Dc_artifact_baseline_too_large Dp_bind ''artifactBaseline.files'')
        in if hasError diagnostics then Inl diagnostics else Inr (files, diagnostics))"

definition canonicalizeArtifactMetadata :: "(string \<times> jsval) list option \<Rightarrow> jsval" where
  "canonicalizeArtifactMetadata metadata = (case metadata of
     None \<Rightarrow> Obj []
   | Some kvs \<Rightarrow> canonicalize (Obj (filter (\<lambda>kv. fst kv \<noteq> ''capturedAt'') kvs)))"

definition baselineFile_js :: "artifactFile \<Rightarrow> jsval" where
  "baselineFile_js f = Obj
     [(''path'', Str (af_path f)), (''sha256'', Str (af_sha256 f)), (''sizeBytes'', optVal Number (af_sizeBytes f)),
      (''fileType'', optVal Str (af_fileType f)), (''metadata'', canonicalizeArtifactMetadata (af_metadata f))]"

definition canonicalizeP2pArtifactBaseline :: "jsHost \<Rightarrow> artifactFile list \<Rightarrow> jsval" where
  "canonicalizeP2pArtifactBaseline h files =
     canonicalize (Obj [(''files'', Arr (map baselineFile_js (byId h af_path files)))])"

definition hashP2pArtifactBaseline :: "jsHost \<Rightarrow> (string \<Rightarrow> string) \<Rightarrow> artifactFile list \<Rightarrow> string" where
  "hashP2pArtifactBaseline h sha256Hex files =
     ''sha256:'' @ sha256Hex (stableStringify h (canonicalizeP2pArtifactBaseline h files))"

definition areP2pArtifactBaselinesEqual :: "jsHost \<Rightarrow> (string \<Rightarrow> string) \<Rightarrow> artifactFile list \<Rightarrow> artifactFile list \<Rightarrow> bool" where
  "areP2pArtifactBaselinesEqual h sha256Hex left right =
     (hashP2pArtifactBaseline h sha256Hex left = hashP2pArtifactBaseline h sha256Hex right)"

section \<open>Accepted baselines\<close>

definition fileOk :: "artifactFile \<Rightarrow> bool" where
  "fileOk f = (isP2pArtifactRelativePath (af_path f) \<and> getP2pArtifactPathDepth (af_path f) \<le> P2P_WORKFLOW_ARTIFACT_MAX_DEPTH
     \<and> length (af_sha256 f) = 64 \<and> list_all (\<lambda>c. isDigitChar c \<or> (97 \<le> codeUnit c \<and> codeUnit c \<le> 102)) (af_sha256 f)
     \<and> (case af_sizeBytes f of None \<Rightarrow> False
        | Some n \<Rightarrow> numInteger n \<and> 0 \<le> ratOf n \<and> ratOf n \<le> of_nat P2P_WORKFLOW_ARTIFACT_MAX_FILE_BYTES)
     \<and> af_fileType f \<noteq> None)"

definition fileBytes :: "artifactFile \<Rightarrow> rat" where
  "fileBytes f = (case af_sizeBytes f of Some n \<Rightarrow> ratOf n | None \<Rightarrow> 0)"

lemma fileDiagnostics_errors: "allErrors (fileDiagnostics seen raw p)"
  by (simp add: fileDiagnostics_def Let_def error_simps)

lemma baselineFrom_errors: "allErrors (fst (baselineFrom i seen xs))"
  by (induction i seen xs rule: baselineFrom.induct)
    (auto simp: Let_def error_simps fileDiagnostics_errors case_prod_beta)

lemma lower_hex: "isHexChar c \<Longrightarrow> isDigitChar (lowerChar c) \<or> (97 \<le> codeUnit (lowerChar c) \<and> codeUnit (lowerChar c) \<le> 102)"
  by (auto simp: isHexChar_def lowerChar_def isDigitChar_def Let_def)

lemma fileOf_ok:
  assumes "fileDiagnostics seen raw p = []"
  shows "fileOk (fileOf raw)" and "af_path (fileOf raw) \<notin> set seen"
    and "isString (fld raw ''path'') \<and> isP2pArtifactRelativePath (strOf (fld raw ''path''))"
    and "nonNegInteger (fld raw ''sizeBytes'')" and "fileBytes (fileOf raw) = ratOf (numOfVal (fld raw ''sizeBytes''))"
proof -
  have silent: "isString (fld raw ''path'')" "isP2pArtifactRelativePath (strOf (fld raw ''path''))"
    "getP2pArtifactPathDepth (strOf (fld raw ''path'')) \<le> P2P_WORKFLOW_ARTIFACT_MAX_DEPTH"
    "strOf (fld raw ''path'') \<notin> set seen"
    "isString (fld raw ''sha256'')" "isHexText 64 64 (strOf (fld raw ''sha256''))"
    "nonNegInteger (fld raw ''sizeBytes'')"
    "\<not> numLess (Num (of_nat P2P_WORKFLOW_ARTIFACT_MAX_FILE_BYTES)) (numOfVal (fld raw ''sizeBytes''))"
    "isP2pArtifactFileType (fld raw ''fileType'')"
    using assms by (auto simp: fileDiagnostics_def Let_def not_less split: if_splits)
  obtain n where n: "fld raw ''sizeBytes'' = Number (Num n)" "numInteger (Num n)" "0 \<le> n"
  proof (cases "fld raw ''sizeBytes''")
    case (Number m)
    then have "numInteger m" "\<not> numLess m (Num 0)" using silent(7) by (simp_all add: nonNegInteger_def)
    then show ?thesis using Number that by (cases m) (simp_all del: numInteger_simps(1) add: not_less)
  qed (use silent(7) in \<open>simp_all add: nonNegInteger_def\<close>)
  obtain s where s: "fld raw ''sha256'' = Str s" using silent(5) by (rule isStringE)
  show "fileOk (fileOf raw)"
    using silent n s
    by (auto simp: fileOk_def fileOf_def isHexText_def toLower_def list_all_iff not_less dest: lower_hex)
  show "af_path (fileOf raw) \<notin> set seen" using silent(4) by (simp add: fileOf_def)
  show "isString (fld raw ''path'') \<and> isP2pArtifactRelativePath (strOf (fld raw ''path''))" using silent by simp
  show "nonNegInteger (fld raw ''sizeBytes'')" by (rule silent(7))
  show "fileBytes (fileOf raw) = ratOf (numOfVal (fld raw ''sizeBytes''))"
    using n by (simp add: fileBytes_def fileOf_def)
qed

lemma baselineFrom_ok:
  "fst (baselineFrom i seen xs) = [] \<Longrightarrow>
     fst (snd (baselineFrom i seen xs)) = map fileOf xs
     \<and> list_all fileOk (map fileOf xs) \<and> distinct (map af_path (map fileOf xs))
     \<and> set (map af_path (map fileOf xs)) \<inter> set seen = {}
     \<and> snd (snd (baselineFrom i seen xs)) = sum_list (map fileBytes (map fileOf xs))"
proof (induction xs arbitrary: i seen)
  case (Cons x xs)
  have rec: "isRecord x" using Cons.prems by (auto simp: Let_def case_prod_beta split: if_splits)
  have silent: "fileDiagnostics seen x (itemPath ''artifactBaseline.files'' i) = []"
    using Cons.prems rec by (auto simp: Let_def case_prod_beta split: if_splits)
  note ok = fileOf_ok [OF silent]
  have path: "af_path (fileOf x) = strOf (fld x ''path'')" by (simp add: fileOf_def)
  have "fst (baselineFrom (Suc i) (af_path (fileOf x) # seen) xs) = []"
    using Cons.prems rec ok(3) path by (simp add: Let_def case_prod_beta)
  from Cons.IH [OF this] show ?case
    using rec ok path by (auto simp: Let_def case_prod_beta)
qed simp

lemma validate_baseline_ok:
  assumes "validateP2pArtifactBaseline input = Inr (files, ds)"
  shows "ds = []" and "length files \<le> P2P_WORKFLOW_ARTIFACT_MAX_FILES" and "list_all fileOk files"
    and "distinct (map af_path files)" and "sum_list (map fileBytes files) \<le> of_nat P2P_WORKFLOW_ARTIFACT_MAX_TOTAL_BYTES"
proof -
  let ?raw = "arrItems (fld input ''files'')"
  obtain ds1 fs total where r: "baselineFrom 0 [] ?raw = (ds1, fs, total)" by (metis prod_cases3)
  let ?all = "pushIf (length ?raw > P2P_WORKFLOW_ARTIFACT_MAX_FILES)
      (diag Dc_artifact_baseline_too_large Dp_bind ''artifactBaseline.files'') @ ds1
    @ pushIf (total > of_nat P2P_WORKFLOW_ARTIFACT_MAX_TOTAL_BYTES)
      (diag Dc_artifact_baseline_too_large Dp_bind ''artifactBaseline.files'')"
  have "allErrors ?all" using baselineFrom_errors [of 0 "[]" ?raw] r by (simp add: error_simps)
  then have "hasError ?all \<longleftrightarrow> ?all \<noteq> []" by (rule allErrors_hasError)
  moreover have "\<not> hasError ?all" and out: "files = fs" "ds = ?all"
    using assms r by (simp_all add: validateP2pArtifactBaseline_def Let_def del: hasError_simps split: if_splits)
  ultimately have nil: "?all = []" by blast
  then show "ds = []" using out by simp
  have all: "length ?raw \<le> P2P_WORKFLOW_ARTIFACT_MAX_FILES" "fst (baselineFrom 0 [] ?raw) = []"
    "total \<le> of_nat P2P_WORKFLOW_ARTIFACT_MAX_TOTAL_BYTES"
    using nil r by (simp_all add: not_less)
  show "length files \<le> P2P_WORKFLOW_ARTIFACT_MAX_FILES" "list_all fileOk files" "distinct (map af_path files)"
    "sum_list (map fileBytes files) \<le> of_nat P2P_WORKFLOW_ARTIFACT_MAX_TOTAL_BYTES"
    using baselineFrom_ok [OF all(2)] all out r by auto
qed

section \<open>Equal baselines\<close>

text \<open>The same file as seen at another time: only the capture time may differ.\<close>

definition sameFile :: "artifactFile \<Rightarrow> artifactFile \<Rightarrow> bool" where
  "sameFile f g \<longleftrightarrow> af_path f = af_path g \<and> af_sha256 f = af_sha256 g \<and> af_sizeBytes f = af_sizeBytes g
     \<and> af_fileType f = af_fileType g
     \<and> canonicalizeArtifactMetadata (af_metadata f) = canonicalizeArtifactMetadata (af_metadata g)"

lemma sameFile_capturedAt:
  assumes "af_metadata f = Some kvs" and "distinct (map fst kvs)"
  shows "sameFile f (f\<lparr>af_metadata := Some (AList.update ''capturedAt'' v kvs)\<rparr>)"
proof -
  have "filter (\<lambda>kv. fst kv \<noteq> k) (AList.update k v xs) = filter (\<lambda>kv. fst kv \<noteq> k) xs" for k and xs :: "(string \<times> jsval) list"
    by (induction xs) auto
  then show ?thesis using assms by (simp add: sameFile_def canonicalizeArtifactMetadata_def)
qed

lemma sameFile_js: "sameFile f g \<Longrightarrow> baselineFile_js f = baselineFile_js g"
  by (simp add: sameFile_def baselineFile_js_def)

lemma insortBy_list_all2:
  "list_all2 R xs ys \<Longrightarrow> R x y \<Longrightarrow> (\<And>a b c d. R a b \<Longrightarrow> R c d \<Longrightarrow> le a c = le b d)
    \<Longrightarrow> list_all2 R (insortBy le x xs) (insortBy le y ys)"
  by (induction rule: list_all2_induct) auto

lemma sortBy_list_all2:
  "list_all2 R xs ys \<Longrightarrow> (\<And>a b c d. R a b \<Longrightarrow> R c d \<Longrightarrow> le a c = le b d) \<Longrightarrow> list_all2 R (sortBy le xs) (sortBy le ys)"
  by (induction rule: list_all2_induct) (auto simp: sortBy_Cons intro: insortBy_list_all2)

lemma baseline_hash_same:
  assumes "list_all2 sameFile xs ys"
  shows "hashP2pArtifactBaseline h sha xs = hashP2pArtifactBaseline h sha ys"
proof -
  have "list_all2 sameFile (byId h af_path xs) (byId h af_path ys)"
    unfolding byId_def by (rule sortBy_list_all2 [OF assms]) (simp add: sameFile_def)
  then have "map baselineFile_js (byId h af_path xs) = map baselineFile_js (byId h af_path ys)"
    by (induction rule: list_all2_induct) (auto dest: sameFile_js)
  then show ?thesis by (simp add: hashP2pArtifactBaseline_def canonicalizeP2pArtifactBaseline_def)
qed

end
