(* ===== verification/WfAdvanced.thy ===== *)
theory WfAdvanced
  imports WfData
begin

text \<open>
  \<^verbatim>\<open>shared/p2p-advanced.ts\<close>: the round plan of a P2P run, from a mode pipeline or from advanced
  rounds. A thrown \<^verbatim>\<open>Error\<close> is the left side of a sum. A \<^verbatim>\<open>JSON\<close> clone of a typed value is
  that value (its numbers are finite).
\<close>

section \<open>Rounds\<close>

datatype roundPreset =
    Rp_discussion | Rp_openspec_propose | Rp_proposal_audit | Rp_implementation
  | Rp_implementation_audit | Rp_custom

datatype verdictPolicy = Vp_none | Vp_smart_gate | Vp_forced_rework

datatype verdictMarker = Vm_PASS | Vm_REWORK

datatype roundArtifactConvention = Rc_none | Rc_explicit | Rc_openspec_convention

datatype roundDispatchStyle = Rd_initiator_only | Rd_worker_hops

datatype synthesisStyle = Sy_none | Sy_initiator_summary

datatype verdictWriter = Vw_initiator_summary | Vw_initiator_only

datatype reducerMode = Rm_reuse_existing_session | Rm_clone_sdk_session

fun roundPresetText :: "roundPreset \<Rightarrow> string" where
  "roundPresetText Rp_discussion = ''discussion''"
| "roundPresetText Rp_openspec_propose = ''openspec_propose''"
| "roundPresetText Rp_proposal_audit = ''proposal_audit''"
| "roundPresetText Rp_implementation = ''implementation''"
| "roundPresetText Rp_implementation_audit = ''implementation_audit''"
| "roundPresetText Rp_custom = ''custom''"

record jumpRule =
  jr_targetRoundId :: string
  jr_marker :: "verdictMarker option"
  jr_minTriggers :: jsnum
  jr_maxTriggers :: jsnum

record advancedRound =
  ar_id :: string
  ar_title :: string
  ar_preset :: roundPreset
  ar_executionMode :: dispatchStyle
  ar_permissionScope :: permissionScope
  ar_timeoutMinutes :: "jsnum option"
  ar_artifactOutputs :: "string list option"
  ar_promptAppend :: "string option"
  ar_verdictPolicy :: "verdictPolicy option"
  ar_jumpRule :: "jumpRule option"
  ar_nodeKind :: "nodeKind option"
  ar_script :: "scriptContract option"
  ar_routingAuthority :: "routingAuthority option"
  ar_artifactConvention :: "roundArtifactConvention option"
  ar_effectiveSummaryPrompt :: "string option"

record participantEntry =
  pe_sessionName :: string
  pe_agentType :: string
  pe_parentSession :: "string option"

record contextReducer =
  cr_mode :: reducerMode
  cr_sessionName :: "string option"
  cr_templateSession :: "string option"

record resolvedRound =
  rr_id :: string
  rr_title :: string
  rr_modeKey :: string
  rr_preset :: roundPreset
  rr_executionMode :: dispatchStyle
  rr_permissionScope :: permissionScope
  rr_timeoutMinutes :: jsnum
  rr_timeoutMs :: jsnum
  rr_promptAppend :: string
  rr_verdictPolicy :: verdictPolicy
  rr_jumpRule :: "jumpRule option"
  rr_dispatchStyle :: roundDispatchStyle
  rr_synthesisStyle :: synthesisStyle
  rr_requiresVerdict :: bool
  rr_presetPrompt :: string
  rr_summaryPrompt :: "string option"
  rr_authoritativeVerdictWriter :: "verdictWriter option"
  rr_allowRouting :: bool
  rr_artifactOutputs :: "string list"
  rr_artifactConvention :: roundArtifactConvention
  rr_nodeKind :: "nodeKind option"
  rr_script :: "scriptContract option"
  rr_routingAuthority :: "routingAuthority option"

record planOptions =
  rp_modeOverride :: "string option"
  rp_roundsOverride :: "rat option"
  rp_hopTimeoutMinutes :: "jsnum option"
  rp_advancedPresetKey :: "string option"
  rp_advancedRounds :: "advancedRound list option"
  rp_advancedRunTimeoutMinutes :: "jsnum option"
  rp_contextReducer :: "contextReducer option"
  rp_participants :: "participantEntry list option"

record resolvedPlan =
  pl_advanced :: bool
  pl_rounds :: "resolvedRound list"
  pl_overallRunTimeoutMinutes :: "jsnum option"
  pl_contextReducer :: "contextReducer option"
  pl_helperEligibleSnapshot :: "participantEntry list option"

datatype planError =
    Pe_InvalidMode string | Pe_EmptyRoundId | Pe_DuplicateRoundId string
  | Pe_ReducerSessionRequired | Pe_ReducerNotEligible string
  | Pe_TemplateRequired | Pe_TemplateNotEligible string
  | Pe_MissingOutputs string | Pe_NoJumpRule string | Pe_MinTriggers string | Pe_MaxTriggers string
  | Pe_UnknownTarget string string | Pe_ForwardJump string | Pe_AuditRouting
  | Pe_UnknownPreset string | Pe_NoRounds

section \<open>Mode pipelines\<close>

definition DEFAULT_HOP_TIMEOUT_MINUTES :: jsnum where "DEFAULT_HOP_TIMEOUT_MINUTES = Num 8"

definition DEFAULT_ADVANCED_RUN_TIMEOUT_MINUTES :: jsnum where "DEFAULT_ADVANCED_RUN_TIMEOUT_MINUTES = Num 30"

definition LEGACY_MODE_KEYS :: "string list" where
  "LEGACY_MODE_KEYS = [''audit'', ''review'', ''plan'', ''brainstorm'', ''discuss'']"

definition COMBO_SEPARATOR :: char where "COMBO_SEPARATOR = CHR ''>''"

definition parseModePipeline :: "string \<Rightarrow> string list" where
  "parseModePipeline mode =
     (if COMBO_SEPARATOR \<in> set mode then filter (\<lambda>e. e \<noteq> []) (map trim (splitOn COMBO_SEPARATOR mode)) else [mode])"

definition isValidLegacyMode :: "string \<Rightarrow> bool" where
  "isValidLegacyMode mode = (mode \<in> set LEGACY_MODE_KEYS)"

definition validateLegacyMode :: "string \<Rightarrow> planError option" where
  "validateLegacyMode mode =
     (let pipeline = parseModePipeline mode in
      if pipeline = [] \<or> list_ex (\<lambda>e. \<not> isValidLegacyMode e) pipeline then Some (Pe_InvalidMode mode) else None)"

text \<open>Multiplying a number by a positive constant.\<close>

fun timesNum :: "jsnum \<Rightarrow> rat \<Rightarrow> jsnum" where
  "timesNum (Num r) k = Num (r * k)"
| "timesNum n k = n"

fun PRESET_PROMPTS :: "roundPreset \<Rightarrow> string" where
  "PRESET_PROMPTS Rp_discussion =
     ''Clarify the request, collect missing constraints, and synthesize the strongest next-step ''
     @ ''understanding from the evidence in the discussion file and referenced code.''"
| "PRESET_PROMPTS Rp_openspec_propose =
     ''Produce an OpenSpec-ready proposal/design/tasks result from the discussion and code context. ''
     @ ''Write concrete artifacts, acceptance criteria, and implementation scope rather than broad ''
     @ ''notes.''"
| "PRESET_PROMPTS Rp_proposal_audit =
     ''Audit the proposal artifacts for missing scope, missing acceptance criteria, contradictions, ''
     @ ''and weak assumptions. Strengthen the proposal without changing the requested objective.''"
| "PRESET_PROMPTS Rp_implementation =
     ''Execute the implementation work required by the current round. Prefer concrete code and tests ''
     @ ''over commentary, while staying within the stated scope and artifact targets.''"
| "PRESET_PROMPTS Rp_implementation_audit =
     ''Audit the implementation result against the requested scope, artifact outputs, and acceptance ''
     @ ''criteria. End with an authoritative verdict marker.''"
| "PRESET_PROMPTS Rp_custom =
     ''Follow the configured round contract exactly. Stay within the declared permission scope and ''
     @ ''use the configured outputs and prompt append as the operative instruction.''"

fun SUMMARY_PROMPTS :: "roundPreset \<Rightarrow> string option" where
  "SUMMARY_PROMPTS Rp_discussion =
     Some (''Synthesize the key points, areas of agreement, and open questions from this round. Then assign ''
     @ ''concrete follow-up focus for the next round.'')"
| "SUMMARY_PROMPTS Rp_implementation =
     Some (''Synthesize the implementation outputs from the worker evidence. Produce one authoritative ''
     @ ''implementation summary that references the latest completed attempt.'')"
| "SUMMARY_PROMPTS Rp_implementation_audit =
     Some (''Write one authoritative audit synthesis and end with exactly one verdict marker line: ''
     @ [CHR 0x60]
     @ ''<!-- P2P_VERDICT: PASS -->''
     @ [CHR 0x60]
     @ '' or ''
     @ [CHR 0x60]
     @ ''<!-- P2P_VERDICT: REWORK -->''
     @ [CHR 0x60]
     @ ''.'')"
| "SUMMARY_PROMPTS _ = None"

definition GENERIC_ROUND_SUMMARY :: string where
  "GENERIC_ROUND_SUMMARY =
     ''Synthesize the key points, areas of agreement, and open questions from this round. ''
     @ ''Then assign concrete follow-up focus for the next round.''"

definition GENERIC_MULTI_DISPATCH_SUMMARY :: string where
  "GENERIC_MULTI_DISPATCH_SUMMARY =
     ''Synthesize the worker outputs above into one authoritative round summary. ''
     @ ''Highlight points of agreement, key disagreements, and concrete next-step focus.''"

definition buildLegacyResolvedRound :: "string \<Rightarrow> nat \<Rightarrow> nat \<Rightarrow> jsnum option \<Rightarrow> resolvedRound" where
  "buildLegacyResolvedRound mode roundIndex totalRounds hopTimeoutMinutes =
     (let pipeline = parseModePipeline mode;
          index = (max 1 roundIndex - 1) mod max 1 (length pipeline);
          modeKey = (if index < length pipeline then pipeline ! index else mode);
          timeout = orElse hopTimeoutMinutes DEFAULT_HOP_TIMEOUT_MINUTES
      in \<lparr>
        rr_id = ''legacy_'' @ showNat roundIndex,
        rr_title = ''Round '' @ showNat roundIndex,
        rr_modeKey = modeKey,
        rr_preset = Rp_custom,
        rr_executionMode = Ds_multi_dispatch,
        rr_permissionScope = Ps_analysis_only,
        rr_timeoutMinutes = timeout,
        rr_timeoutMs = timesNum timeout 60000,
        rr_promptAppend = [],
        rr_verdictPolicy = Vp_none,
        rr_jumpRule = None,
        rr_dispatchStyle = Rd_worker_hops,
        rr_synthesisStyle = Sy_initiator_summary,
        rr_requiresVerdict = False,
        rr_presetPrompt = [],
        rr_summaryPrompt = (if totalRounds = roundIndex then None else Some GENERIC_ROUND_SUMMARY),
        rr_authoritativeVerdictWriter = None,
        rr_allowRouting = False,
        rr_artifactOutputs = [],
        rr_artifactConvention = Rc_none,
        rr_nodeKind = None, rr_script = None, rr_routingAuthority = None\<rparr>)"

section \<open>Advanced rounds\<close>

definition basicRound :: "string \<Rightarrow> string \<Rightarrow> roundPreset \<Rightarrow> dispatchStyle \<Rightarrow> permissionScope \<Rightarrow> rat \<Rightarrow> verdictPolicy
    \<Rightarrow> advancedRound" where
  "basicRound i t p e s m v = \<lparr>
     ar_id = i, ar_title = t, ar_preset = p, ar_executionMode = e, ar_permissionScope = s,
     ar_timeoutMinutes = Some (Num m), ar_artifactOutputs = None, ar_promptAppend = None,
     ar_verdictPolicy = Some v, ar_jumpRule = None, ar_nodeKind = None, ar_script = None,
     ar_routingAuthority = None, ar_artifactConvention = None, ar_effectiveSummaryPrompt = None\<rparr>"

definition createOpenSpecPreset :: "advancedRound list" where
  "createOpenSpecPreset =
     [basicRound ''discussion'' ''Discussion'' Rp_discussion Ds_multi_dispatch Ps_analysis_only 5 Vp_none,
      basicRound ''openspec_propose'' ''OpenSpec Propose'' Rp_openspec_propose Ds_single_main Ps_artifact_generation 8 Vp_none,
      basicRound ''proposal_audit'' ''Proposal Audit'' Rp_proposal_audit Ds_single_main Ps_analysis_only 6 Vp_none,
      basicRound ''implementation'' ''Implementation'' Rp_implementation Ds_multi_dispatch Ps_implementation 8 Vp_none,
      (basicRound ''implementation_audit'' ''Implementation Audit'' Rp_implementation_audit Ds_single_main Ps_analysis_only 6
         Vp_smart_gate)\<lparr>ar_jumpRule := Some \<lparr>jr_targetRoundId = ''implementation'', jr_marker = Some Vm_REWORK,
           jr_minTriggers = Num 0, jr_maxTriggers = Num 2\<rparr>\<rparr>]"

definition noOutputs :: "advancedRound \<Rightarrow> bool" where
  "noOutputs r = (orElse (ar_artifactOutputs r) [] = [])"

definition defaultArtifactConvention :: "advancedRound \<Rightarrow> roundArtifactConvention" where
  "defaultArtifactConvention r =
     (if ar_preset r = Rp_openspec_propose \<and> noOutputs r then Rc_openspec_convention
      else if ar_permissionScope r = Ps_artifact_generation then Rc_explicit
      else Rc_none)"

text \<open>\<^verbatim>\<open>a || b\<close> on strings, with undefined for the empty one.\<close>

definition firstText :: "string \<Rightarrow> string option \<Rightarrow> string option" where
  "firstText a b = (if a \<noteq> [] then Some a else b)"

definition normalizeAdvancedRound :: "advancedRound \<Rightarrow> resolvedRound" where
  "normalizeAdvancedRound r =
     (let verdictPolicy = orElse (ar_verdictPolicy r) Vp_none;
          artifactConvention = orElse (ar_artifactConvention r) (defaultArtifactConvention r);
          artifactOutputs = (if artifactConvention = Rc_openspec_convention
            then (if \<not> noOutputs r then orElse (ar_artifactOutputs r) [] else [''openspec/changes''])
            else orElse (ar_artifactOutputs r) []);
          summaryFromOverride = trim (orElse (ar_effectiveSummaryPrompt r) []);
          summaryFromLegacyMap = SUMMARY_PROMPTS (ar_preset r);
          effectiveSummary = (if ar_executionMode r = Ds_multi_dispatch
            then firstText summaryFromOverride
              (case summaryFromLegacyMap of Some t \<Rightarrow> Some t | None \<Rightarrow> Some GENERIC_MULTI_DISPATCH_SUMMARY)
            else firstText summaryFromOverride summaryFromLegacyMap);
          requiresVerdict = (verdictPolicy \<noteq> Vp_none);
          timeout = orElse (ar_timeoutMinutes r) DEFAULT_HOP_TIMEOUT_MINUTES
      in \<lparr>
        rr_id = ar_id r,
        rr_title = ar_title r,
        rr_modeKey = roundPresetText (ar_preset r),
        rr_preset = ar_preset r,
        rr_executionMode = ar_executionMode r,
        rr_permissionScope = ar_permissionScope r,
        rr_timeoutMinutes = timeout,
        rr_timeoutMs = timesNum timeout 60000,
        rr_promptAppend = trim (orElse (ar_promptAppend r) []),
        rr_verdictPolicy = verdictPolicy,
        rr_jumpRule = ar_jumpRule r,
        rr_dispatchStyle = (if ar_executionMode r = Ds_single_main then Rd_initiator_only else Rd_worker_hops),
        rr_synthesisStyle = (if ar_executionMode r = Ds_multi_dispatch then Sy_initiator_summary else Sy_none),
        rr_requiresVerdict = requiresVerdict,
        rr_presetPrompt = PRESET_PROMPTS (ar_preset r),
        rr_summaryPrompt = effectiveSummary,
        rr_authoritativeVerdictWriter = (if requiresVerdict
          then Some (if ar_executionMode r = Ds_multi_dispatch then Vw_initiator_summary else Vw_initiator_only) else None),
        rr_allowRouting = (ar_preset r \<noteq> Rp_proposal_audit \<and> requiresVerdict \<and> ar_jumpRule r \<noteq> None),
        rr_artifactOutputs = artifactOutputs,
        rr_artifactConvention = artifactConvention,
        rr_nodeKind = ar_nodeKind r,
        rr_script = ar_script r,
        rr_routingAuthority = ar_routingAuthority r\<rparr>)"

fun validateAdvancedRoundIds :: "string list \<Rightarrow> advancedRound list \<Rightarrow> planError option" where
  "validateAdvancedRoundIds seen [] = None"
| "validateAdvancedRoundIds seen (r # rs) =
     (if trim (ar_id r) = [] then Some Pe_EmptyRoundId
      else if ar_id r \<in> set seen then Some (Pe_DuplicateRoundId (ar_id r))
      else validateAdvancedRoundIds (ar_id r # seen) rs)"

text \<open>\<^verbatim>\<open>rounds.findIndex((entry) => entry.id === id)\<close>, -1 when there is none.\<close>

fun findRoundIndex :: "advancedRound list \<Rightarrow> string \<Rightarrow> int" where
  "findRoundIndex [] i = -1"
| "findRoundIndex (r # rs) i = (if ar_id r = i then 0 else (let k = findRoundIndex rs i in if k = -1 then -1 else k + 1))"

definition checkRound :: "advancedRound list \<Rightarrow> advancedRound \<Rightarrow> planError option" where
  "checkRound rounds r =
     (let verdictPolicy = orElse (ar_verdictPolicy r) Vp_none;
          artifactConvention = orElse (ar_artifactConvention r) (defaultArtifactConvention r)
      in
      if ar_permissionScope r = Ps_artifact_generation \<and> artifactConvention = Rc_explicit \<and> noOutputs r
        then Some (Pe_MissingOutputs (ar_id r))
      else if verdictPolicy = Vp_forced_rework \<and> ar_jumpRule r = None then Some (Pe_NoJumpRule (ar_id r))
      else (case ar_jumpRule r of
        None \<Rightarrow> None
      | Some j \<Rightarrow>
          if verdictPolicy = Vp_forced_rework \<and> numLess (jr_minTriggers j) (Num 0) then Some (Pe_MinTriggers (ar_id r))
          else if verdictPolicy = Vp_forced_rework \<and> numLess (jr_maxTriggers j) (jr_minTriggers j)
            then Some (Pe_MaxTriggers (ar_id r))
          else if jr_targetRoundId j \<notin> set (map ar_id rounds) then Some (Pe_UnknownTarget (ar_id r) (jr_targetRoundId j))
          else if findRoundIndex rounds (jr_targetRoundId j) \<ge> findRoundIndex rounds (ar_id r)
            then Some (Pe_ForwardJump (ar_id r))
          else if ar_preset r = Rp_proposal_audit then Some Pe_AuditRouting
          else None))"

fun firstError :: "('a \<Rightarrow> planError option) \<Rightarrow> 'a list \<Rightarrow> planError option" where
  "firstError f [] = None"
| "firstError f (x # xs) = (case f x of Some e \<Rightarrow> Some e | None \<Rightarrow> firstError f xs)"

definition validateAdvancedRounds :: "advancedRound list \<Rightarrow> planError option" where
  "validateAdvancedRounds rounds = (case validateAdvancedRoundIds [] rounds of
     Some e \<Rightarrow> Some e
   | None \<Rightarrow> firstError (checkRound rounds) rounds)"

section \<open>Context reducers\<close>

definition TRANSPORT_SESSION_AGENT_TYPES :: "string list" where
  "TRANSPORT_SESSION_AGENT_TYPES = [''claude-code-sdk'', ''codex-sdk'', ''copilot-sdk'', ''cursor-headless'',
     ''gemini-sdk'', ''kimi-sdk'', ''qwen'', ''openclaw'']"

definition isTransportSessionAgentType :: "string \<Rightarrow> bool" where
  "isTransportSessionAgentType value = (value \<in> set TRANSPORT_SESSION_AGENT_TYPES)"

definition eligible :: "participantEntry list \<Rightarrow> string \<Rightarrow> bool" where
  "eligible snapshot name = (case mapGet (foldl (\<lambda>m e. mapSet m (pe_sessionName e) e) [] snapshot) name of
     None \<Rightarrow> False
   | Some e \<Rightarrow> isTransportSessionAgentType (pe_agentType e))"

definition validateContextReducer :: "contextReducer option \<Rightarrow> participantEntry list option
    \<Rightarrow> planError + contextReducer option" where
  "validateContextReducer reducer participants = (case reducer of
     None \<Rightarrow> Inr None
   | Some cr \<Rightarrow> (case cr_mode cr of
       Rm_reuse_existing_session \<Rightarrow>
         if orElse (cr_sessionName cr) [] = [] then Inl Pe_ReducerSessionRequired
         else if \<not> eligible (orElse participants []) (orElse (cr_sessionName cr) [])
           then Inl (Pe_ReducerNotEligible (orElse (cr_sessionName cr) []))
         else Inr (Some cr)
     | Rm_clone_sdk_session \<Rightarrow>
         if orElse (cr_templateSession cr) [] = [] then Inl Pe_TemplateRequired
         else if \<not> eligible (orElse participants []) (orElse (cr_templateSession cr) [])
           then Inl (Pe_TemplateNotEligible (orElse (cr_templateSession cr) []))
         else Inr (Some cr)))"

section \<open>The plan\<close>

definition resolveP2pRoundPlan :: "planOptions \<Rightarrow> planError + resolvedPlan" where
  "resolveP2pRoundPlan opts =
     (let presetKey = orElse (rp_advancedPresetKey opts) [];
          advancedRounds = orElse (rp_advancedRounds opts) []
      in
      if presetKey = [] \<and> advancedRounds = [] then
        (let mode = orElse (rp_modeOverride opts) ''discuss'' in
         case validateLegacyMode mode of
           Some e \<Rightarrow> Inl e
         | None \<Rightarrow>
             let pipelineRounds = max 1 (length (parseModePipeline mode));
                 cycleCount = nat (max 1 \<lfloor>orElse (rp_roundsOverride opts) 1\<rfloor>);
                 totalRounds = pipelineRounds * cycleCount
             in Inr \<lparr>
               pl_advanced = False,
               pl_rounds = map (\<lambda>index. buildLegacyResolvedRound mode (index + 1) totalRounds (rp_hopTimeoutMinutes opts))
                 [0..<totalRounds],
               pl_overallRunTimeoutMinutes = None, pl_contextReducer = None, pl_helperEligibleSnapshot = None\<rparr>)
      else if presetKey \<noteq> [] \<and> presetKey \<noteq> ''openspec'' \<and> advancedRounds = [] then Inl (Pe_UnknownPreset presetKey)
      else
        let presetRounds = (if presetKey = ''openspec'' then createOpenSpecPreset else []);
            rawRounds = (if advancedRounds \<noteq> [] then advancedRounds else presetRounds)
        in
        if rawRounds = [] then Inl Pe_NoRounds
        else (case validateAdvancedRounds rawRounds of
          Some e \<Rightarrow> Inl e
        | None \<Rightarrow> (case validateContextReducer (rp_contextReducer opts) (rp_participants opts) of
            Inl e \<Rightarrow> Inl e
          | Inr validatedReducer \<Rightarrow> Inr \<lparr>
              pl_advanced = True,
              pl_rounds = map normalizeAdvancedRound rawRounds,
              pl_overallRunTimeoutMinutes =
                Some (orElse (rp_advancedRunTimeoutMinutes opts) DEFAULT_ADVANCED_RUN_TIMEOUT_MINUTES),
              pl_contextReducer = validatedReducer,
              pl_helperEligibleSnapshot =
                Some (filter (\<lambda>e. isTransportSessionAgentType (pe_agentType e)) (orElse (rp_participants opts) []))\<rparr>)))"

section \<open>Validated rounds\<close>

lemma firstError_None: "firstError f xs = None \<longleftrightarrow> (\<forall>x\<in>set xs. f x = None)"
  by (induction xs) (auto split: option.splits)

lemma validateIds_None:
  "validateAdvancedRoundIds seen rs = None \<longleftrightarrow> (\<forall>r\<in>set rs. trim (ar_id r) \<noteq> []) \<and> distinct (map ar_id rs)
     \<and> set (map ar_id rs) \<inter> set seen = {}"
  by (induction seen rs rule: validateAdvancedRoundIds.induct) auto

lemma findRoundIndex_ge: "findRoundIndex rs i \<ge> -1"
  by (induction rs) (auto simp: Let_def)

lemma findRoundIndex_nth:
  "distinct (map ar_id rs) \<Longrightarrow> k < length rs \<Longrightarrow> findRoundIndex rs (ar_id (rs ! k)) = int k"
proof (induction rs arbitrary: k)
  case (Cons r rs)
  then show ?case by (cases k) (auto simp: Let_def)
qed simp

lemma validated_rounds:
  assumes "validateAdvancedRounds rounds = None"
  shows "distinct (map ar_id rounds)" and "r \<in> set rounds \<Longrightarrow> ar_id r \<noteq> []"
    and "k < length rounds \<Longrightarrow> ar_jumpRule (rounds ! k) = Some j \<Longrightarrow>
      \<exists>t < k. ar_id (rounds ! t) = jr_targetRoundId j"
    and "r \<in> set rounds \<Longrightarrow> ar_jumpRule r \<noteq> None \<Longrightarrow> ar_preset r \<noteq> Rp_proposal_audit"
proof -
  have ids: "validateAdvancedRoundIds [] rounds = None" and each: "\<And>r. r \<in> set rounds \<Longrightarrow> checkRound rounds r = None"
    using assms by (auto simp: validateAdvancedRounds_def firstError_None split: option.splits)
  show dist: "distinct (map ar_id rounds)" using ids by (simp add: validateIds_None)
  show "ar_id r \<noteq> []" if "r \<in> set rounds" using that ids by (auto simp: validateIds_None)
  show "ar_preset r \<noteq> Rp_proposal_audit" if "r \<in> set rounds" "ar_jumpRule r \<noteq> None"
    using each [OF that(1)] that(2) by (auto simp: checkRound_def Let_def split: if_splits)
  show "\<exists>t < k. ar_id (rounds ! t) = jr_targetRoundId j" if "k < length rounds" "ar_jumpRule (rounds ! k) = Some j"
  proof -
    have "checkRound rounds (rounds ! k) = None" using each that by simp
    then have known: "jr_targetRoundId j \<in> set (map ar_id rounds)"
      and less: "findRoundIndex rounds (jr_targetRoundId j) < findRoundIndex rounds (ar_id (rounds ! k))"
      using that(2) by (auto simp: checkRound_def Let_def not_le split: if_splits)
    then obtain t where t: "t < length rounds" "ar_id (rounds ! t) = jr_targetRoundId j"
      by (auto simp: in_set_conv_nth)
    then show ?thesis
      using less findRoundIndex_nth [OF dist t(1)] findRoundIndex_nth [OF dist that(1)] by auto
  qed
qed

end
