(* ===== verification/WfMaterialize.thy ===== *)
theory WfMaterialize
  imports WfAdvanced WfCompilerFacts
begin

text \<open>
  \<^verbatim>\<open>shared/p2p-workflow-materialize.ts\<close>: the draft an old advanced configuration becomes, a chain
  of nodes with one conditional edge back for each jump rule.
\<close>

record oldAdvancedInput =
  oa_advancedPresetKey :: "string option"
  oa_advancedRounds :: "advancedRound list option"

fun normalizeOldPreset :: "roundPreset \<Rightarrow> presetKey" where
  "normalizeOldPreset Rp_discussion = Pk_discuss"
| "normalizeOldPreset Rp_openspec_propose = Pk_openspec_propose"
| "normalizeOldPreset Rp_proposal_audit = Pk_proposal_audit"
| "normalizeOldPreset Rp_implementation = Pk_implementation"
| "normalizeOldPreset Rp_implementation_audit = Pk_implementation_audit"
| "normalizeOldPreset Rp_custom = Pk_custom"

definition nodeKindForRound :: "advancedRound \<Rightarrow> nodeKind" where
  "nodeKindForRound r = (if ar_permissionScope r = Ps_implementation \<and> ar_preset r = Rp_custom then Nk_script else Nk_llm)"

definition truthyNum :: "jsnum option \<Rightarrow> bool" where
  "truthyNum v = (case v of None \<Rightarrow> False | Some n \<Rightarrow> n \<noteq> NaN \<and> n \<noteq> Num 0)"

definition nodeForRound :: "advancedRound \<Rightarrow> nodeDraft" where
  "nodeForRound r = \<lparr>
     nd_id = ar_id r,
     nd_title = Some (ar_title r),
     nd_nodeKind = nodeKindForRound r,
     nd_preset = normalizeOldPreset (ar_preset r),
     nd_dispatchStyle = Some (if ar_executionMode r = Ds_single_main then Ds_single_main else Ds_multi_dispatch),
     nd_permissionScope = Some (ar_permissionScope r),
     nd_promptAppend = nonEmptyText (ar_promptAppend r),
     nd_summaryPromptOverride = None,
     nd_timeoutMs = (if truthyNum (ar_timeoutMinutes r) then map_option (\<lambda>m. timesNum m 60000) (ar_timeoutMinutes r) else None),
     nd_routingAuthority = None,
     nd_script = None,
     nd_logic = None,
     nd_artifacts = Some (if ar_permissionScope r = Ps_artifact_generation
       then [\<lparr>ac_convention = (if ar_preset r = Rp_openspec_propose then Ac_openspec_convention else Ac_explicit_paths),
              ac_paths = (if \<not> noOutputs r then sortStrings (orElse (ar_artifactOutputs r) []) else [''openspec/changes'']),
              ac_permissionScope = Some Ps_artifact_generation, ac_symlinkPolicy = Some Sp_reject_all\<rparr>]
       else [])\<rparr>"

definition chainEdge :: "advancedRound \<Rightarrow> advancedRound \<Rightarrow> edgeDraft" where
  "chainEdge a b = \<lparr>ed_id = ''edge_'' @ ar_id a @ ''_to_'' @ ar_id b, ed_fromNodeId = ar_id a, ed_toNodeId = ar_id b,
     ed_edgeKind = Ek_default, ed_condition = None\<rparr>"

definition chainEdges :: "advancedRound list \<Rightarrow> edgeDraft list" where
  "chainEdges rounds = map (\<lambda>i. chainEdge (rounds ! i) (rounds ! (i + 1))) [0..<length rounds - 1]"

fun markerText :: "verdictMarker \<Rightarrow> string" where
  "markerText Vm_PASS = ''PASS''"
| "markerText Vm_REWORK = ''REWORK''"

definition reworkEdgeId :: "advancedRound \<Rightarrow> jumpRule \<Rightarrow> string" where
  "reworkEdgeId r j = ''edge_'' @ ar_id r @ ''_to_'' @ jr_targetRoundId j @ ''_rework''"

definition reworkEdge :: "advancedRound \<Rightarrow> jumpRule \<Rightarrow> edgeDraft" where
  "reworkEdge r j = \<lparr>ed_id = reworkEdgeId r j, ed_fromNodeId = ar_id r, ed_toNodeId = jr_targetRoundId j,
     ed_edgeKind = Ek_conditional,
     ed_condition = Some \<lparr>ec_kind = Ck_verdict_marker_equals, ec_equals = markerText (orElse (jr_marker j) Vm_REWORK)\<rparr>\<rparr>"

fun reworkEdges :: "advancedRound list \<Rightarrow> edgeDraft list" where
  "reworkEdges [] = []"
| "reworkEdges (r # rs) = (case ar_jumpRule r of None \<Rightarrow> reworkEdges rs | Some j \<Rightarrow> reworkEdge r j # reworkEdges rs)"

fun reworkBudgets :: "(string, jsnum) jsmap \<Rightarrow> advancedRound list \<Rightarrow> (string, jsnum) jsmap" where
  "reworkBudgets m [] = m"
| "reworkBudgets m (r # rs) = (case ar_jumpRule r of
     None \<Rightarrow> reworkBudgets m rs
   | Some j \<Rightarrow> reworkBudgets (mapSet m (reworkEdgeId r j) (jr_maxTriggers j)) rs)"

definition materializedRounds :: "oldAdvancedInput \<Rightarrow> advancedRound list" where
  "materializedRounds input =
     (if orElse (oa_advancedRounds input) [] \<noteq> [] then orElse (oa_advancedRounds input) []
      else if oa_advancedPresetKey input = Some ''openspec'' then createOpenSpecPreset
      else [])"

text \<open>The left side is the thrown error: there is nothing to materialize.\<close>

definition materializeOldAdvancedConfigToWorkflowDraft :: "oldAdvancedInput \<Rightarrow> unit + workflowDraft" where
  "materializeOldAdvancedConfigToWorkflowDraft input =
     (let rounds = materializedRounds input; key = orElse (oa_advancedPresetKey input) [] in
      if rounds = [] then Inl ()
      else Inr \<lparr>
        wd_id = (if key \<noteq> [] then ''old_'' @ key else ''old_custom_advanced''),
        wd_title = Some (if key \<noteq> [] then ''Old advanced preset: '' @ key else ''Old advanced workflow''),
        wd_nodes = map nodeForRound rounds,
        wd_edges = chainEdges rounds @ reworkEdges rounds,
        wd_rootNodeId = Some (nd_id (hd (map nodeForRound rounds))),
        wd_startContext = None,
        wd_variables = Some [],
        wd_loopBudgets = Some (reworkBudgets [] rounds)\<rparr>)"

section \<open>The graph of a materialized draft\<close>

lemma length_filter_unique:
  "distinct (map f (filter P xs)) \<Longrightarrow> length (filter (\<lambda>x. f x = k \<and> P x) xs) \<le> 1"
proof (induction xs)
  case (Cons x xs)
  have none: "f x = k \<Longrightarrow> P x \<Longrightarrow> filter (\<lambda>y. f y = k \<and> P y) xs = []"
    using Cons.prems by (fastforce simp: filter_empty_conv image_iff)
  show ?case using Cons none by (auto split: if_splits)
qed simp

lemma chain_froms: "map ed_fromNodeId (chainEdges rounds) = take (length rounds - 1) (map ar_id rounds)"
  by (rule nth_equalityI) (auto simp: chainEdges_def chainEdge_def)

lemma chain_kind: "e \<in> set (chainEdges rounds) \<Longrightarrow> ed_edgeKind e = Ek_default"
  by (auto simp: chainEdges_def chainEdge_def)

lemma rework_mem: "e \<in> set (reworkEdges rounds) \<longleftrightarrow> (\<exists>r\<in>set rounds. \<exists>j. ar_jumpRule r = Some j \<and> e = reworkEdge r j)"
  by (induction rounds) (auto split: option.splits)

lemma rework_kind: "e \<in> set (reworkEdges rounds) \<Longrightarrow> ed_edgeKind e = Ek_conditional"
  by (auto simp: rework_mem reworkEdge_def)

lemma rework_froms: "distinct (map ar_id rounds) \<Longrightarrow> distinct (map ed_fromNodeId (reworkEdges rounds))"
proof (induction rounds)
  case (Cons r rs)
  then show ?case by (fastforce simp: rework_mem reworkEdge_def split: option.splits)
qed simp

lemma rework_budgets:
  "mapGet (reworkBudgets m rounds) k \<noteq> None \<longleftrightarrow>
     mapGet m k \<noteq> None \<or> (\<exists>r\<in>set rounds. \<exists>j. ar_jumpRule r = Some j \<and> reworkEdgeId r j = k)"
  by (induction m rounds rule: reworkBudgets.induct) (auto split: option.splits)

lemma rework_budget_value:
  "mapGet (reworkBudgets m rounds) k = Some b \<Longrightarrow>
     mapGet m k = Some b \<or> (\<exists>r\<in>set rounds. \<exists>j. ar_jumpRule r = Some j \<and> jr_maxTriggers j = b)"
  by (induction m rounds rule: reworkBudgets.induct) (auto split: option.splits if_splits)

lemma chain_reaches:
  assumes "k < length rounds" and "set (chainEdges rounds) \<subseteq> set edges"
  shows "(ar_id (rounds ! 0), ar_id (rounds ! k)) \<in> (edgeRel edges)\<^sup>*"
  using assms(1)
proof (induction k)
  case (Suc k)
  have "chainEdge (rounds ! k) (rounds ! (k + 1)) \<in> set (chainEdges rounds)"
    using Suc.prems by (auto simp: chainEdges_def)
  then have "(ar_id (rounds ! k), ar_id (rounds ! Suc k)) \<in> edgeRel edges"
    using assms(2) by (force simp: edgeRel_def chainEdge_def)
  with Suc show ?case by (auto intro: rtrancl_into_rtrancl)
qed simp

text \<open>Rounds whose rework limits can serve as loop budgets.\<close>

definition limitsOk :: "advancedRound list \<Rightarrow> bool" where
  "limitsOk rounds = list_all (\<lambda>r. case ar_jumpRule r of None \<Rightarrow> True
     | Some j \<Rightarrow> numInteger (jr_maxTriggers j) \<and> \<not> numLess (jr_maxTriggers j) (Num 0)) rounds"

lemma proto_not_edge: "x \<in> set OBJECT_PROTOTYPE_MEMBERS \<Longrightarrow> \<not> startsWith x ''edge_''"
  by (auto simp: OBJECT_PROTOTYPE_MEMBERS_def startsWith_def)

locale materialization =
  fixes d :: workflowDraft and rounds :: "advancedRound list" and input :: oldAdvancedInput
  assumes made: "materializeOldAdvancedConfigToWorkflowDraft input = Inr d"
    and rounds: "rounds = materializedRounds input"
    and valid: "validateAdvancedRounds rounds = None"
    and distinct_edges: "distinct (map ed_id (wd_edges d))"
begin

lemma materialized_fields:
  "rounds \<noteq> []" "wd_nodes d = map nodeForRound rounds" "wd_edges d = chainEdges rounds @ reworkEdges rounds"
  "wd_rootNodeId d = Some (ar_id (hd rounds))" "wd_loopBudgets d = Some (reworkBudgets [] rounds)"
  using made rounds
  by (auto simp: materializeOldAdvancedConfigToWorkflowDraft_def Let_def nodeForRound_def hd_map split: if_splits)

lemma materialized_ids: "map nd_id (wd_nodes d) = map ar_id rounds"
  by (simp add: materialized_fields nodeForRound_def)

lemma materialized_endpoints:
  "e \<in> set (wd_edges d) \<Longrightarrow> ed_fromNodeId e \<in> ar_id ` set rounds \<and> ed_toNodeId e \<in> ar_id ` set rounds"
proof (simp add: materialized_fields, elim disjE)
  assume "e \<in> set (chainEdges rounds)"
  then obtain i where "i < length rounds - 1" "e = chainEdge (rounds ! i) (rounds ! (i + 1))"
    by (auto simp: chainEdges_def)
  then show "ed_fromNodeId e \<in> ar_id ` set rounds \<and> ed_toNodeId e \<in> ar_id ` set rounds"
    by (auto simp: chainEdge_def)
next
  assume "e \<in> set (reworkEdges rounds)"
  then obtain r j where r: "r \<in> set rounds" "ar_jumpRule r = Some j" "e = reworkEdge r j" by (auto simp: rework_mem)
  then obtain k where "k < length rounds" "rounds ! k = r" by (metis in_set_conv_nth)
  then obtain t where "t < k" "ar_id (rounds ! t) = jr_targetRoundId j"
    using validated_rounds(3) [OF valid] r by blast
  then show "ed_fromNodeId e \<in> ar_id ` set rounds \<and> ed_toNodeId e \<in> ar_id ` set rounds"
    using r \<open>k < length rounds\<close> by (auto simp: reworkEdge_def intro!: image_eqI [of _ _ "rounds ! t"])
qed

lemma materialized_nodeSound:
  assumes "n \<in> set (wd_nodes d)"
  shows "nodeSound (wd_edges d) n"
proof -
  have dist: "distinct (map ar_id rounds)" by (rule validated_rounds(1) [OF valid])
  have "distinct (map ed_fromNodeId (filter (\<lambda>e. ed_edgeKind e = Ek_default) (wd_edges d)))"
  proof -
    have "filter (\<lambda>e. ed_edgeKind e = Ek_default) (wd_edges d) = chainEdges rounds"
      by (simp add: materialized_fields filter_id_conv filter_empty_conv chain_kind rework_kind)
    then show ?thesis using dist by (simp add: chain_froms)
  qed
  then have one_default: "length (defaultFrom (nd_id n) (wd_edges d)) \<le> 1"
    unfolding defaultFrom_def by (rule length_filter_unique)
  have "filter isConditional (wd_edges d) = reworkEdges rounds"
    by (simp add: materialized_fields filter_id_conv filter_empty_conv chain_kind rework_kind isConditional_def)
  then have one_cond: "length (conditionalFrom (nd_id n) (wd_edges d)) \<le> 1"
    unfolding conditionalFrom_def by (intro length_filter_unique) (simp add: rework_froms dist)
  have cond: "ed_condition e \<noteq> None" "orElse (nd_routingAuthority n) (deriveRoutingAuthority n (wd_edges d)) \<noteq> Ra_none"
    if "e \<in> set (conditionalFrom (nd_id n) (wd_edges d))" for e
  proof -
    have "e \<in> set (reworkEdges rounds)"
      using that by (auto simp: conditionalFrom_def materialized_fields isConditional_def chain_kind)
    then show "ed_condition e \<noteq> None" by (auto simp: rework_mem reworkEdge_def)
    have "nd_routingAuthority n = None" using assms by (auto simp: materialized_fields nodeForRound_def)
    then show "orElse (nd_routingAuthority n) (deriveRoutingAuthority n (wd_edges d)) \<noteq> Ra_none"
      using that by (auto simp: deriveRoutingAuthority_def Let_def)
  qed
  have "nd_logic n = None" "nd_nodeKind n \<noteq> Nk_logic"
    using assms by (auto simp: materialized_fields nodeForRound_def nodeKindForRound_def split: if_splits)
  then show ?thesis using one_default one_cond cond by (simp add: nodeSound_def)
qed

lemma materialized_graphSound:
  assumes "length (filter declaresOpenspec (wd_nodes d)) \<le> 1"
  shows "graphSound d"
proof -
  have ids: "nd_id ` set (wd_nodes d) = ar_id ` set rounds" using materialized_ids by (metis image_set)
  have root: "draftRoot d = Some (ar_id (hd rounds))" by (simp add: draftRoot_def materialized_fields)
  have "ar_id (hd rounds) \<noteq> []" "hd rounds \<in> set rounds"
    using validated_rounds(2) [OF valid] materialized_fields(1) by auto
  moreover have "(ar_id (hd rounds), nd_id n) \<in> (edgeRel (wd_edges d))\<^sup>*" if "n \<in> set (wd_nodes d)" for n
  proof -
    have "nd_id n \<in> ar_id ` set rounds" using that ids by blast
    then obtain k where "k < length rounds" "ar_id (rounds ! k) = nd_id n" by (auto simp: in_set_conv_nth)
    then show ?thesis
      using chain_reaches [of k rounds "wd_edges d"] materialized_fields(1,3) by (simp add: hd_conv_nth)
  qed
  ultimately show ?thesis
    using materialized_ids validated_rounds(1) [OF valid] distinct_edges materialized_endpoints materialized_nodeSound assms root
    unfolding graphSound_def ids by auto
qed

lemma materialized_budgetsSound:
  assumes "limitsOk rounds"
  shows "budgetsSound d"
proof -
  have dist: "distinct (map ar_id rounds)" by (rule validated_rounds(1) [OF valid])
  have at: "nodeAt d i k \<longleftrightarrow> i < length rounds \<and> ar_id (rounds ! i) = k" for i k
    by (auto simp: nodeAt_def materialized_fields nodeForRound_def)
  have budget_ok: "numInteger b \<and> \<not> numLess b (Num 0)" if "budgetOf d (ed_id e) = Some b" "e \<in> set (wd_edges d)" for b e
  proof -
    have "startsWith (ed_id e) ''edge_''"
      using that(2) by (auto simp: materialized_fields chainEdges_def chainEdge_def rework_mem reworkEdge_def reworkEdgeId_def startsWith_def)
    then have "ed_id e \<notin> set OBJECT_PROTOTYPE_MEMBERS" using proto_not_edge by blast
    then have "mapGet (reworkBudgets [] rounds) (ed_id e) = Some b"
      using that(1) by (simp add: budgetOf_def materialized_fields split: option.splits)
    then obtain r j where "r \<in> set rounds" "ar_jumpRule r = Some j" "jr_maxTriggers j = b"
      using rework_budget_value by force
    then show ?thesis using assms by (force simp: limitsOk_def list_all_iff)
  qed
  have backward: "budgetOf d (ed_id e) \<noteq> None"
    if "e \<in> set (wd_edges d)" "nodeAt d i (ed_fromNodeId e)" "nodeAt d j (ed_toNodeId e)" "j \<le> i" for e i j
  proof (cases "e \<in> set (reworkEdges rounds)")
    case True
    then obtain r t where "r \<in> set rounds" "ar_jumpRule r = Some t" "reworkEdgeId r t = ed_id e"
      by (auto simp: rework_mem reworkEdge_def)
    then have "mapGet (reworkBudgets [] rounds) (ed_id e) \<noteq> None" unfolding rework_budgets by blast
    then show ?thesis by (auto simp: budgetOf_def materialized_fields)
  next
    case False
    then have "e \<in> set (chainEdges rounds)" using that(1) by (simp add: materialized_fields)
    then obtain k where k: "k < length rounds - 1" "e = chainEdge (rounds ! k) (rounds ! (k + 1))"
      by (auto simp: chainEdges_def)
    have "i = k" "j = k + 1"
      using that(2,3) k nth_eq_iff_index_eq [OF dist, of i k] nth_eq_iff_index_eq [OF dist, of j "k + 1"]
      by (simp_all add: at chainEdge_def)
    then show ?thesis using that(4) by simp
  qed
  have keys: "set (mapKeys (orElse (wd_loopBudgets d) [])) \<subseteq> ed_id ` set (wd_edges d)"
  proof
    fix k assume "k \<in> set (mapKeys (orElse (wd_loopBudgets d) []))"
    then have "mapGet (reworkBudgets [] rounds) k \<noteq> None" by (simp add: materialized_fields map_of_eq_None_iff)
    then obtain r j where "r \<in> set rounds" "ar_jumpRule r = Some j" "reworkEdgeId r j = k"
      unfolding rework_budgets by auto
    then have "reworkEdge r j \<in> set (wd_edges d)" "ed_id (reworkEdge r j) = k"
      by (auto simp: materialized_fields rework_mem reworkEdge_def)
    then show "k \<in> ed_id ` set (wd_edges d)" by blast
  qed
  show ?thesis using budget_ok backward keys unfolding budgetsSound_def by blast
qed

end

section \<open>The built-in preset\<close>

definition openspecInput :: oldAdvancedInput where
  "openspecInput = \<lparr>oa_advancedPresetKey = Some ''openspec'', oa_advancedRounds = None\<rparr>"

definition openspecDraft :: workflowDraft where
  "openspecDraft = (case materializeOldAdvancedConfigToWorkflowDraft openspecInput of Inr d \<Rightarrow> d
     | Inl _ \<Rightarrow> \<lparr>wd_id = [], wd_title = None, wd_nodes = [], wd_edges = [], wd_rootNodeId = None, wd_startContext = None,
         wd_variables = None, wd_loopBudgets = None\<rparr>)"

lemma openspec_made: "materializeOldAdvancedConfigToWorkflowDraft openspecInput = Inr openspecDraft"
  by (simp add: openspecDraft_def openspecInput_def materializeOldAdvancedConfigToWorkflowDraft_def Let_def
      materializedRounds_def createOpenSpecPreset_def)

interpretation openspec: materialization openspecDraft createOpenSpecPreset openspecInput
proof
  show "materializeOldAdvancedConfigToWorkflowDraft openspecInput = Inr openspecDraft" by (rule openspec_made)
  show "createOpenSpecPreset = materializedRounds openspecInput"
    by (simp add: materializedRounds_def openspecInput_def)
  show "validateAdvancedRounds createOpenSpecPreset = None" by code_simp
  show "distinct (map ed_id (wd_edges openspecDraft))" by code_simp
qed

end
