(* ===== verification/WfRoundProps.thy ===== *)
theory WfRoundProps
  imports WfArtifacts WfMaterialize "HOL-Library.Code_Target_Nat"
begin

text \<open>
  The properties of artifact baselines, of round plans and of the drafts made from old advanced
  configurations, and the termination of the search for reachable nodes.
\<close>

section \<open>Artifact baselines\<close>

text \<open>An accepted artifact baseline stays within its limits: at most 200 files, no path twice, every path relative and
  at most eight levels deep, every hash 64 lower-case hexadecimal digits, every size a non-negative integer of at most
  8 MiB, and at most 64 MiB in all.\<close>

theorem accepted_baseline_bounds:
  assumes ok: "validateP2pArtifactBaseline input = Inr (files, ds)"
  shows "ds = [] \<and> length files \<le> 200 \<and> distinct (map af_path files) \<and> list_all fileOk files
    \<and> sum_list (map fileBytes files) \<le> 64 * 1024 * 1024"
  using validate_baseline_ok [OF ok]
  by (simp add: P2P_WORKFLOW_ARTIFACT_MAX_FILES_def P2P_WORKFLOW_ARTIFACT_MAX_TOTAL_BYTES_def)

definition sampleFile_js :: jsval where
  "sampleFile_js = Obj [(''path'', Str ''docs/a.md''), (''sha256'', Str (replicate 64 CHR ''A'')),
     (''sizeBytes'', Number (Num 12)), (''fileType'', Str ''file'')]"

definition sampleFile :: artifactFile where
  "sampleFile = \<lparr>af_path = ''docs/a.md'', af_sha256 = replicate 64 CHR ''a'', af_sizeBytes = Some (Num 12),
     af_fileType = Some ''file'', af_metadata = None\<rparr>"

lemma sample_baseline: "validateP2pArtifactBaseline (Obj [(''files'', Arr [sampleFile_js])]) = Inr ([sampleFile], [])"
  by code_simp

theorem accepted_baseline_bounds_witness: "list_all fileOk [sampleFile]"
  using accepted_baseline_bounds [OF sample_baseline] by blast

text \<open>Two baselines of the same files count as equal whatever the order the files are listed in and whenever they were
  captured, when the host's string comparison tells the paths apart.\<close>

theorem baselines_equal_up_to_order_and_time:
  assumes "list_all2 sameFile xs zs" and "mset zs = mset ys"
    and "distinct (map af_path zs)" and "consistentHost h" and "tellsApart h (map af_path zs)"
  shows "areP2pArtifactBaselinesEqual h sha256Hex xs ys"
proof -
  have "byId h af_path zs = byId h af_path ys"
    by (rule byId_mset) (use assms in auto)
  then have "hashP2pArtifactBaseline h sha256Hex zs = hashP2pArtifactBaseline h sha256Hex ys"
    by (simp add: hashP2pArtifactBaseline_def canonicalizeP2pArtifactBaseline_def)
  then show ?thesis using baseline_hash_same [OF assms(1)] by (simp add: areP2pArtifactBaselinesEqual_def)
qed

theorem baselines_equal_up_to_order_and_time_witness:
  "areP2pArtifactBaselinesEqual codeUnitHost id
     [sampleFile\<lparr>af_metadata := Some [(''capturedAt'', Number (Num 5))]\<rparr>, sampleFile\<lparr>af_path := ''b''\<rparr>]
     [sampleFile\<lparr>af_path := ''b''\<rparr>, sampleFile\<lparr>af_metadata := Some [(''capturedAt'', Number (Num 7))]\<rparr>]"
  by (rule baselines_equal_up_to_order_and_time
      [where zs = "[sampleFile\<lparr>af_metadata := Some [(''capturedAt'', Number (Num 7))]\<rparr>, sampleFile\<lparr>af_path := ''b''\<rparr>]"])
    (use codeUnitLe_antisym in \<open>auto simp: sameFile_def sampleFile_def canonicalizeArtifactMetadata_def
       tellsApart_def codeUnitHost_def consistent_codeUnitHost [unfolded codeUnitHost_def]\<close>)

section \<open>Round plans\<close>

text \<open>A resolved advanced plan cannot run away: its round ids are distinct, every jump goes to an earlier round, and
  only rounds with a verdict and a jump rule may route, a proposal audit never.\<close>

theorem advanced_plan_jumps_back:
  assumes ok: "resolveP2pRoundPlan opts = Inr p" and adv: "pl_advanced p"
  shows "pl_rounds p \<noteq> [] \<and> distinct (map rr_id (pl_rounds p))
    \<and> (\<forall>k < length (pl_rounds p). \<forall>j. rr_jumpRule (pl_rounds p ! k) = Some j \<longrightarrow>
        (\<exists>t < k. rr_id (pl_rounds p ! t) = jr_targetRoundId j))
    \<and> (\<forall>r\<in>set (pl_rounds p). rr_allowRouting r \<longleftrightarrow>
        rr_preset r \<noteq> Rp_proposal_audit \<and> rr_verdictPolicy r \<noteq> Vp_none \<and> rr_jumpRule r \<noteq> None)
    \<and> (\<forall>r\<in>set (pl_rounds p). rr_jumpRule r \<noteq> None \<longrightarrow> rr_preset r \<noteq> Rp_proposal_audit)"
proof -
  obtain rounds where r: "pl_rounds p = map normalizeAdvancedRound rounds" "rounds \<noteq> []" "validateAdvancedRounds rounds = None"
    using ok adv by (auto simp: resolveP2pRoundPlan_def Let_def split: if_splits option.splits sum.splits)
  have proj: "rr_id (normalizeAdvancedRound a) = ar_id a" "rr_jumpRule (normalizeAdvancedRound a) = ar_jumpRule a"
    "rr_preset (normalizeAdvancedRound a) = ar_preset a"
    "rr_allowRouting (normalizeAdvancedRound a) \<longleftrightarrow> ar_preset a \<noteq> Rp_proposal_audit
       \<and> rr_verdictPolicy (normalizeAdvancedRound a) \<noteq> Vp_none \<and> ar_jumpRule a \<noteq> None" for a
    by (auto simp: normalizeAdvancedRound_def Let_def)
  have "\<exists>t < k. rr_id (pl_rounds p ! t) = jr_targetRoundId j"
    if k: "k < length (pl_rounds p)" and j: "rr_jumpRule (pl_rounds p ! k) = Some j" for k j
  proof -
    have "k < length rounds" "ar_jumpRule (rounds ! k) = Some j" using k j by (simp_all add: r proj)
    from validated_rounds(3) [OF r(3) this] show ?thesis using \<open>k < length rounds\<close> by (auto simp: r proj)
  qed
  then show ?thesis
    using validated_rounds [OF r(3)] r(2) by (auto simp: r(1) proj comp_def)
qed

definition openspecOptions :: planOptions where
  "openspecOptions = \<lparr>rp_modeOverride = None, rp_roundsOverride = None, rp_hopTimeoutMinutes = None,
     rp_advancedPresetKey = Some ''openspec'', rp_advancedRounds = None, rp_advancedRunTimeoutMinutes = None,
     rp_contextReducer = None, rp_participants = None\<rparr>"

lemma openspec_plan:
  "resolveP2pRoundPlan openspecOptions = Inr \<lparr>pl_advanced = True,
     pl_rounds = map normalizeAdvancedRound createOpenSpecPreset,
     pl_overallRunTimeoutMinutes = Some DEFAULT_ADVANCED_RUN_TIMEOUT_MINUTES,
     pl_contextReducer = None, pl_helperEligibleSnapshot = Some []\<rparr>"
proof -
  have "validateAdvancedRounds createOpenSpecPreset = None" by code_simp
  then show ?thesis
    by (simp add: resolveP2pRoundPlan_def openspecOptions_def validateContextReducer_def createOpenSpecPreset_def)
qed

theorem advanced_plan_jumps_back_witness:
  "distinct (map rr_id (map normalizeAdvancedRound createOpenSpecPreset))"
  using advanced_plan_jumps_back [OF openspec_plan] by simp

text \<open>A round worked by the initiator alone has no summary hop, even with a summary prompt of its own.\<close>

lemma single_main_without_synthesis:
  "ar_executionMode r = Ds_single_main \<Longrightarrow> trim (orElse (ar_effectiveSummaryPrompt r) []) = t \<Longrightarrow> t \<noteq> []
    \<Longrightarrow> rr_synthesisStyle (normalizeAdvancedRound r) = Sy_none \<and> rr_summaryPrompt (normalizeAdvancedRound r) = Some t"
  by (simp add: normalizeAdvancedRound_def Let_def firstText_def)

text \<open>Without an advanced preset or rounds a plan is the mode pipeline, repeated: it resolves exactly when the pipeline
  has a mode and only known ones, it then has (stages times cycles) rounds, and only the last round has no summary
  prompt.\<close>

theorem legacy_plan_shape:
  assumes legacy: "orElse (rp_advancedPresetKey opts) [] = []" "orElse (rp_advancedRounds opts) [] = []"
  shows "(\<not> isl (resolveP2pRoundPlan opts) \<longleftrightarrow>
      parseModePipeline (orElse (rp_modeOverride opts) ''discuss'') \<noteq> []
      \<and> set (parseModePipeline (orElse (rp_modeOverride opts) ''discuss'')) \<subseteq> set LEGACY_MODE_KEYS)
    \<and> (\<forall>p. resolveP2pRoundPlan opts = Inr p \<longrightarrow>
      \<not> pl_advanced p
      \<and> length (pl_rounds p) = length (parseModePipeline (orElse (rp_modeOverride opts) ''discuss''))
          * nat (max 1 \<lfloor>orElse (rp_roundsOverride opts) 1\<rfloor>)
      \<and> (\<forall>k < length (pl_rounds p). rr_summaryPrompt (pl_rounds p ! k) = None \<longleftrightarrow> k + 1 = length (pl_rounds p)))"
  (is "?A \<and> ?B")
proof
  let ?m = "orElse (rp_modeOverride opts) ''discuss''"
  let ?n = "length (parseModePipeline ?m) * nat (max 1 \<lfloor>orElse (rp_roundsOverride opts) 1\<rfloor>)"
  have valid: "validateLegacyMode ?m = None \<longleftrightarrow> parseModePipeline ?m \<noteq> [] \<and> set (parseModePipeline ?m) \<subseteq> set LEGACY_MODE_KEYS"
    by (auto simp: validateLegacyMode_def Let_def isValidLegacyMode_def list_ex_iff)
  show ?A
    using valid by (cases "validateLegacyMode ?m") (auto simp: resolveP2pRoundPlan_def legacy Let_def)
  show ?B
  proof (intro allI impI)
    fix p assume p: "resolveP2pRoundPlan opts = Inr p"
    have none: "validateLegacyMode ?m = None"
      using p by (cases "validateLegacyMode ?m") (simp_all add: resolveP2pRoundPlan_def legacy Let_def)
    have "max 1 (length (parseModePipeline ?m)) = length (parseModePipeline ?m)"
      using none valid by (simp add: Suc_leI max.absorb2)
    then have r: "pl_rounds p = map (\<lambda>i. buildLegacyResolvedRound ?m (i + 1) ?n (rp_hopTimeoutMinutes opts)) [0..<?n]"
      and adv: "\<not> pl_advanced p"
      using p none by (auto simp: resolveP2pRoundPlan_def legacy Let_def)
    have "rr_summaryPrompt (buildLegacyResolvedRound m k n t) = None \<longleftrightarrow> n = k" for m k n t
      by (simp add: buildLegacyResolvedRound_def Let_def)
    then show "\<not> pl_advanced p \<and> length (pl_rounds p) = ?n
        \<and> (\<forall>k < length (pl_rounds p). rr_summaryPrompt (pl_rounds p ! k) = None \<longleftrightarrow> k + 1 = length (pl_rounds p))"
      using adv by (auto simp: r)
  qed
qed

lemma legacy_sample: "parseModePipeline ''audit>plan'' \<noteq> [] \<and> set (parseModePipeline ''audit>plan'') \<subseteq> set LEGACY_MODE_KEYS"
  by code_simp

theorem legacy_plan_shape_witness:
  "\<not> isl (resolveP2pRoundPlan (openspecOptions\<lparr>rp_advancedPresetKey := None, rp_modeOverride := Some ''audit>plan''\<rparr>))"
  using legacy_plan_shape [of "openspecOptions\<lparr>rp_advancedPresetKey := None, rp_modeOverride := Some ''audit>plan''\<rparr>"]
  by (simp add: openspecOptions_def legacy_sample)

section \<open>Materialized drafts\<close>



text \<open>The built-in openspec preset, materialized, passes the draft check and compiles under the default policy without
  diagnostics, to five nodes starting at the discussion.\<close>

theorem openspec_preset_compiles:
  "\<exists>w. compileP2pWorkflowDraft codeUnitHost openspecDraft DEFAULT_P2P_STATIC_POLICY = Inr (w, [])
     \<and> cw_rootNodeId w = ''discussion'' \<and> length (cw_nodes w) = 5"
proof -
  have "va_ok (validateP2pWorkflowDraft codeUnitHost (workflowDraft_js openspecDraft))" by code_simp
  then have acc: "draftAccepted codeUnitHost (workflowDraft_js openspecDraft)" by (simp add: validate_draft_accepts)
  have "length (filter declaresOpenspec (wd_nodes openspecDraft)) \<le> 1" by code_simp
  then have graph: "graphSound openspecDraft" by (rule openspec.materialized_graphSound)
  have "limitsOk createOpenSpecPreset" by code_simp
  then have budgets: "budgetsSound openspecDraft" by (rule openspec.materialized_budgetsSound)
  have sizes: "length (wd_nodes openspecDraft) = 5" "length (wd_edges openspecDraft) = 5"
    "draftRoot openspecDraft = Some ''discussion''" by code_simp+
  let ?w = "compiledOf codeUnitHost openspecDraft DEFAULT_P2P_STATIC_POLICY"
  have "compileP2pWorkflowDraft codeUnitHost openspecDraft DEFAULT_P2P_STATIC_POLICY = Inr (?w, [])"
    unfolding compile_Inr_iff using acc graph budgets sizes
    by (auto simp: DEFAULT_P2P_STATIC_POLICY_def P2P_WORKFLOW_MAX_NODES_def P2P_WORKFLOW_MAX_EDGES_def)
  moreover have "cw_rootNodeId ?w = ''discussion''" "length (cw_nodes ?w) = 5"
    using sizes size_mset [of "byId codeUnitHost nd_id (wd_nodes openspecDraft)"]
    by (simp_all add: cw_compiledOf byId_def)
  ultimately show ?thesis by blast
qed

text \<open>A custom round with the implementation scope becomes a script node without a contract, which the draft check refuses.\<close>

definition customImplementation :: oldAdvancedInput where
  "customImplementation = \<lparr>oa_advancedPresetKey = None, oa_advancedRounds =
     Some [basicRound ''build'' ''Build'' Rp_custom Ds_single_main Ps_implementation 5 Vp_none]\<rparr>"

lemma custom_implementation_refused:
  "validateAdvancedRounds (materializedRounds customImplementation) = None
   \<and> (case materializeOldAdvancedConfigToWorkflowDraft customImplementation of
        Inl _ \<Rightarrow> False | Inr d \<Rightarrow> \<not> va_ok (validateP2pWorkflowDraft codeUnitHost (workflowDraft_js d)))"
  by code_simp

section \<open>Reachable nodes\<close>

lemma reachPass_distinct: "distinct reachable \<Longrightarrow> distinct (fst (reachPass reachable c es))"
  by (induction reachable c es rule: reachPass.induct) auto

lemma collectReachableFrom_step:
  "collectReachableFrom reachable edges =
     (if snd (reachPass reachable False edges) then collectReachableFrom (fst (reachPass reachable False edges)) edges
      else reachable)"
  using reachPass_unchanged [of reachable edges]
  by (subst collectReachableFrom.simps) (auto simp: case_prod_beta Let_def)

lemma collectReachableFrom_passes:
  "distinct reachable \<Longrightarrow>
     distinct (collectReachableFrom reachable edges)
     \<and> (\<exists>n \<le> card (set (map ed_toNodeId edges) - set reachable).
         collectReachableFrom reachable edges = ((\<lambda>r. fst (reachPass r False edges)) ^^ n) reachable
         \<and> \<not> snd (reachPass (((\<lambda>r. fst (reachPass r False edges)) ^^ n) reachable) False edges))"
proof (induction "card (set (map ed_toNodeId edges) - set reachable)" arbitrary: reachable rule: less_induct)
  case less
  let ?pass = "\<lambda>r. fst (reachPass r False edges)"
  show ?case
  proof (cases "snd (reachPass reachable False edges)")
    case True
    have "set (map ed_toNodeId edges) - set (?pass reachable) \<subset> set (map ed_toNodeId edges) - set reachable"
      using reachPass_changed [OF True] reachPass_targets [of reachable False edges] by auto
    then have smaller: "card (set (map ed_toNodeId edges) - set (?pass reachable)) < card (set (map ed_toNodeId edges) - set reachable)"
      by (simp add: psubset_card_mono)
    obtain n where n: "n \<le> card (set (map ed_toNodeId edges) - set (?pass reachable))"
      "collectReachableFrom (?pass reachable) edges = (?pass ^^ n) (?pass reachable)"
      "\<not> snd (reachPass ((?pass ^^ n) (?pass reachable)) False edges)"
      and dist: "distinct (collectReachableFrom (?pass reachable) edges)"
      using less.hyps [OF smaller reachPass_distinct [OF less.prems]] by blast
    have "(?pass ^^ Suc n) reachable = (?pass ^^ n) (?pass reachable)" by (simp only: funpow_Suc_right comp_apply)
    moreover have "collectReachableFrom reachable edges = collectReachableFrom (?pass reachable) edges"
      using True by (subst collectReachableFrom_step) simp
    moreover have "Suc n \<le> card (set (map ed_toNodeId edges) - set reachable)" using n(1) smaller by linarith
    ultimately show ?thesis using n(2,3) dist by metis
  next
    case False
    then show ?thesis using less.prems by (subst (1 2) collectReachableFrom_step) (auto intro!: exI [of _ 0])
  qed
qed

text \<open>C26: The search for reachable nodes returns on every graph, cyclic ones included: after at most as many passes as the
  edges have different targets a pass changes nothing, the loop stops there, and it returns exactly the nodes that lie on a
  path of edges from the start, the start itself included, each of them once.\<close>

theorem reachable_search_ends:
  "distinct (collectReachable r edges)
   \<and> set (collectReachable r edges) = {n. (r, n) \<in> (edgeRel edges)\<^sup>*}
   \<and> (\<exists>n \<le> card (set (map ed_toNodeId edges)).
        collectReachable r edges = ((\<lambda>reachable. fst (reachPass reachable False edges)) ^^ n) [r]
        \<and> \<not> snd (reachPass (collectReachable r edges) False edges))"
proof -
  have card: "card (set (map ed_toNodeId edges) - set [r]) \<le> card (set (map ed_toNodeId edges))"
    by (rule card_mono) auto
  have passes: "distinct (collectReachable r edges)"
    "\<exists>n \<le> card (set (map ed_toNodeId edges) - set [r]).
       collectReachable r edges = ((\<lambda>reachable. fst (reachPass reachable False edges)) ^^ n) [r]
       \<and> \<not> snd (reachPass (((\<lambda>reachable. fst (reachPass reachable False edges)) ^^ n) [r]) False edges)"
    unfolding collectReachable_def by (rule conjunct1, rule collectReachableFrom_passes, simp)
      (rule conjunct2, rule collectReachableFrom_passes, simp)
  then obtain n where n: "n \<le> card (set (map ed_toNodeId edges) - set [r])"
    "collectReachable r edges = ((\<lambda>reachable. fst (reachPass reachable False edges)) ^^ n) [r]"
    "\<not> snd (reachPass (((\<lambda>reachable. fst (reachPass reachable False edges)) ^^ n) [r]) False edges)" by blast
  show ?thesis
    using passes(1) collectReachable_spec order_trans [OF n(1) card] n(2) n(3) [folded n(2)] by blast
qed

end
