(* ===== verification/WfLibrary.thy ===== *)
theory WfLibrary
  imports WfTypes
begin

text \<open>
  \<^verbatim>\<open>shared/p2p-workflow-library.ts\<close>: the saved workflows of a user and which one is active. The
  drafts in a saved configuration are untyped objects (they come from storage), so an entry is
  a value. The identifiers \<^verbatim>\<open>generateWorkflowDraftId\<close> draws from clock and randomness are an
  argument, a list consumed from the front; a result of None means the list ran out.
\<close>

section \<open>Titles\<close>

definition P2P_WORKFLOW_DEFAULT_TITLE :: string where
  "P2P_WORKFLOW_DEFAULT_TITLE = ''Untitled workflow''"

function clampLoop :: "string \<Rightarrow> string" where
  "clampLoop chars =
     (if chars = [] then P2P_WORKFLOW_DEFAULT_TITLE
      else if byteLength chars \<le> P2P_WORKFLOW_TITLE_MAX_BYTES then chars
      else clampLoop (butlast chars))"
  by pat_completeness auto

termination
  by (relation "measure length") auto

declare clampLoop.simps [simp del]

definition clampWorkflowTitle :: "jsval \<Rightarrow> string" where
  "clampWorkflowTitle input = (case input of
     Str s \<Rightarrow> (let trimmed = trim s in
       if length trimmed = 0 then P2P_WORKFLOW_DEFAULT_TITLE
       else if length trimmed \<le> P2P_WORKFLOW_TITLE_MAX_BYTES \<and> byteLength trimmed \<le> P2P_WORKFLOW_TITLE_MAX_BYTES
         then trimmed
       else clampLoop trimmed)
   | _ \<Rightarrow> P2P_WORKFLOW_DEFAULT_TITLE)"

section \<open>Entries\<close>

text \<open>
  \<^verbatim>\<open>JSON.parse(JSON.stringify(v))\<close>: undefined members vanish, undefined elements and non-finite
  numbers become null.
\<close>

fun cloneDraft :: "jsval \<Rightarrow> jsval"
  and cloneItems :: "jsval list \<Rightarrow> jsval list"
  and cloneFields :: "(string \<times> jsval) list \<Rightarrow> (string \<times> jsval) list" where
  "cloneDraft (Number n) = (if numFinite n then Number n else Null)"
| "cloneDraft (Arr vs) = Arr (cloneItems vs)"
| "cloneDraft (Obj kvs) = Obj (cloneFields kvs)"
| "cloneDraft Undef = Null"
| "cloneDraft v = v"
| "cloneItems [] = []"
| "cloneItems (v # vs) = cloneDraft v # cloneItems vs"
| "cloneFields [] = []"
| "cloneFields ((k, v) # kvs) = (if v = Undef then cloneFields kvs else (k, cloneDraft v) # cloneFields kvs)"

definition setField :: "string \<Rightarrow> jsval \<Rightarrow> jsval \<Rightarrow> jsval" where
  "setField k v obj = Obj (AList.update k v (objFields obj))"

definition withClampedTitle :: "jsval \<Rightarrow> jsval" where
  "withClampedTitle d = setField ''title'' (Str (clampWorkflowTitle (fld d ''title''))) d"

definition entryId :: "jsval \<Rightarrow> string" where
  "entryId d = strOf (fld d ''id'')"

definition isLibraryEntry :: "jsval \<Rightarrow> bool" where
  "isLibraryEntry raw = (isRecord raw \<and> isString (fld raw ''id'') \<and> strOf (fld raw ''id'') \<noteq> []
     \<and> isNumber (fld raw ''schemaVersion'') \<and> isArray (fld raw ''nodes'') \<and> isArray (fld raw ''edges''))"

fun normalizeEntries :: "(string, jsval) jsmap \<Rightarrow> jsval list \<Rightarrow> (string, jsval) jsmap" where
  "normalizeEntries seen [] = seen"
| "normalizeEntries seen (raw # rest) =
     (if \<not> isLibraryEntry raw then normalizeEntries seen rest
      else (let cloned = withClampedTitle (cloneDraft raw)
            in normalizeEntries (mapSet seen (entryId cloned) cloned) rest))"

definition normalizeWorkflowLibrary :: "jsval \<Rightarrow> jsval list" where
  "normalizeWorkflowLibrary input =
     (if \<not> isArray input then []
      else take P2P_WORKFLOW_LIBRARY_MAX_ENTRIES (map snd (normalizeEntries [] (arrItems input))))"

section \<open>Configurations\<close>

text \<open>
  The three fields the library reads and writes; \<open>Undef\<close> is an absent field. The title of an
  entry, where it has one, is a string.
\<close>

record savedConfig =
  cfg_workflowLibrary :: jsval
  cfg_activeWorkflowId :: "string option"
  cfg_workflowDraft :: jsval

definition migrateLegacyWorkflowDraft :: "savedConfig \<Rightarrow> savedConfig" where
  "migrateLegacyWorkflowDraft config =
     (if cfg_workflowLibrary config \<noteq> Undef then config
      else if \<not> truthy (cfg_workflowDraft config) then config
      else (let lifted = setField ''title'' (Str (clampWorkflowTitle (fld (cfg_workflowDraft config) ''title'')))
              (cloneDraft (cfg_workflowDraft config))
            in config\<lparr>cfg_workflowLibrary := Arr [lifted], cfg_activeWorkflowId := Some (entryId lifted)\<rparr>))"

definition findEntry :: "string \<Rightarrow> jsval list \<Rightarrow> jsval option" where
  "findEntry i library = find (\<lambda>e. entryId e = i) library"

definition getActiveWorkflowFromConfig :: "savedConfig \<Rightarrow> jsval option" where
  "getActiveWorkflowFromConfig config =
     (let library = arrItems (cfg_workflowLibrary config);
          legacy = (if cfg_workflowDraft config = Undef \<or> cfg_workflowDraft config = Null then None
                    else Some (cfg_workflowDraft config))
      in
      if isArray (cfg_workflowLibrary config) \<and> length library > 0 then
        (case cfg_activeWorkflowId config of
           None \<Rightarrow> Some (hd library)
         | Some i \<Rightarrow> if i = [] then Some (hd library)
             else (case findEntry i library of Some e \<Rightarrow> Some e | None \<Rightarrow> Some (hd library)))
      else legacy)"

text \<open>The library an update starts from: the saved one, or the legacy draft alone.\<close>

definition baseLibrary :: "savedConfig \<Rightarrow> jsval list" where
  "baseLibrary config =
     (if isArray (cfg_workflowLibrary config) then arrItems (cfg_workflowLibrary config)
      else if truthy (cfg_workflowDraft config) then [cfg_workflowDraft config] else [])"

definition replaceActiveWorkflowInConfig :: "savedConfig \<Rightarrow> jsval \<Rightarrow> savedConfig" where
  "replaceActiveWorkflowInConfig config next_draft =
     (let cloned = withClampedTitle (cloneDraft next_draft);
          base = baseLibrary config;
          activeId = (case cfg_activeWorkflowId config of Some i \<Rightarrow> i
            | None \<Rightarrow> (if base \<noteq> [] then entryId (hd base) else entryId cloned));
          placed = list_ex (\<lambda>e. entryId e = activeId) base;
          replaced = map (\<lambda>e. if entryId e = activeId then setField ''id'' (fld e ''id'') cloned else e) base;
          nextLibrary = (if \<not> placed then replaced @ [cloned] else replaced)
      in config\<lparr>cfg_workflowLibrary := Arr (normalizeWorkflowLibrary (Arr nextLibrary)),
                cfg_activeWorkflowId := Some (if placed then activeId else entryId cloned)\<rparr>)"

text \<open>The loop that draws identifiers until one is free.\<close>

fun freshId :: "string list \<Rightarrow> jsval list \<Rightarrow> string option" where
  "freshId [] library = None"
| "freshId (i # rest) library = (if list_ex (\<lambda>e. entryId e = i) library then freshId rest library else Some i)"

definition addWorkflowToLibrary :: "string list \<Rightarrow> savedConfig \<Rightarrow> jsval \<Rightarrow> bool \<Rightarrow> savedConfig option" where
  "addWorkflowToLibrary generated config draft activate =
     (let library = baseLibrary config in
      if length library \<ge> P2P_WORKFLOW_LIBRARY_MAX_ENTRIES then Some config
      else
        let cloned = withClampedTitle (cloneDraft draft);
            candidate = (if entryId cloned = [] \<or> list_ex (\<lambda>e. entryId e = entryId cloned) library
                         then freshId generated library else Some (entryId cloned))
        in (case candidate of
          None \<Rightarrow> None
        | Some candidateId \<Rightarrow>
            let entry = setField ''id'' (Str candidateId) cloned in
            Some (config\<lparr>cfg_workflowLibrary := Arr (normalizeWorkflowLibrary (Arr (library @ [entry]))),
              cfg_activeWorkflowId := (if activate then Some candidateId
                else (case cfg_activeWorkflowId config of Some i \<Rightarrow> Some i | None \<Rightarrow> Some candidateId))\<rparr>)))"

definition removeWorkflowFromLibrary :: "savedConfig \<Rightarrow> string \<Rightarrow> savedConfig" where
  "removeWorkflowFromLibrary config workflowId =
     (let library = (if isArray (cfg_workflowLibrary config)
            then filter (\<lambda>e. entryId e \<noteq> workflowId) (arrItems (cfg_workflowLibrary config)) else []);
          wasActive = (cfg_activeWorkflowId config = Some workflowId)
      in config\<lparr>cfg_workflowLibrary := Arr (normalizeWorkflowLibrary (Arr library)),
                cfg_activeWorkflowId := (if wasActive
                  then (if library \<noteq> [] then Some (entryId (hd library)) else None)
                  else cfg_activeWorkflowId config)\<rparr>)"

definition duplicateWorkflowInLibrary :: "string list \<Rightarrow> savedConfig \<Rightarrow> string \<Rightarrow> string \<Rightarrow> savedConfig option" where
  "duplicateWorkflowInLibrary generated config workflowId copySuffix =
     (let library = baseLibrary config in
      case findEntry workflowId library of
        None \<Rightarrow> Some config
      | Some source \<Rightarrow>
          if length library \<ge> P2P_WORKFLOW_LIBRARY_MAX_ENTRIES then Some config
          else (case generated of
            [] \<Rightarrow> None
          | newId # rest \<Rightarrow>
              let title = (if fld source ''title'' = Undef \<or> fld source ''title'' = Null
                    then P2P_WORKFLOW_DEFAULT_TITLE else strOf (fld source ''title''));
                  copy = setField ''title'' (Str (clampWorkflowTitle (Str (title @ copySuffix))))
                    (setField ''id'' (Str newId) (cloneDraft source))
              in addWorkflowToLibrary rest config copy True))"

section \<open>Titles fit\<close>

lemma default_title_fits: "P2P_WORKFLOW_DEFAULT_TITLE \<noteq> [] \<and> byteLength P2P_WORKFLOW_DEFAULT_TITLE \<le> P2P_WORKFLOW_TITLE_MAX_BYTES"
  by code_simp

lemma clampLoop_fits: "clampLoop s \<noteq> [] \<and> byteLength (clampLoop s) \<le> P2P_WORKFLOW_TITLE_MAX_BYTES"
proof (induction s rule: clampLoop.induct)
  case (1 chars)
  then show ?case
    using default_title_fits by (subst (1 2) clampLoop.simps) auto
qed

lemma clamp_fits:
  "clampWorkflowTitle v \<noteq> [] \<and> byteLength (clampWorkflowTitle v) \<le> P2P_WORKFLOW_TITLE_MAX_BYTES"
  using default_title_fits clampLoop_fits
  by (cases v) (auto simp: clampWorkflowTitle_def Let_def)

section \<open>Normalized libraries\<close>

lemma fld_setField [simp]: "isRecord d \<Longrightarrow> fld (setField k v d) j = (if j = k then v else fld d j)"
  by (cases d) (auto simp: setField_def)

lemma isRecord_setField [simp]: "isRecord (setField k v d)"
  by (simp add: setField_def)

lemma isRecord_clone [simp]: "isRecord (cloneDraft v) = isRecord v"
  by (cases v) simp_all

lemma map_of_cloneFields: "distinct (map fst kvs) \<Longrightarrow> map_of (cloneFields kvs) k =
    (case map_of kvs k of None \<Rightarrow> None | Some v \<Rightarrow> if v = Undef then None else Some (cloneDraft v))"
proof (induction kvs)
  case (Cons kv kvs)
  have "k \<notin> fst ` set kvs \<Longrightarrow> map_of kvs k = None" by (simp add: map_of_eq_None_iff)
  with Cons show ?case by (cases kv) auto
qed simp

text \<open>Objects have each member once.\<close>

definition wellFormed :: "jsval \<Rightarrow> bool" where
  "wellFormed v = distinct (map fst (objFields v))"

lemma fld_clone: "wellFormed v \<Longrightarrow> isRecord v \<Longrightarrow>
    fld (cloneDraft v) k = (if fld v k = Undef then Undef else cloneDraft (fld v k))"
  by (cases v) (auto simp: wellFormed_def map_of_cloneFields split: option.splits)

lemma isRecord_withTitle [simp]: "isRecord (withClampedTitle v)"
  by (simp add: withClampedTitle_def)

lemma fld_withTitle [simp]:
  "isRecord d \<Longrightarrow> fld (withClampedTitle d) j = (if j = ''title'' then Str (clampWorkflowTitle (fld d ''title'')) else fld d j)"
  by (simp add: withClampedTitle_def)

lemma entryId_withTitle [simp]: "isRecord d \<Longrightarrow> entryId (withClampedTitle d) = entryId d"
  by (simp add: entryId_def)

lemma entryId_clone: "wellFormed v \<Longrightarrow> isLibraryEntry v \<Longrightarrow> entryId (cloneDraft v) = entryId v"
  by (auto simp: entryId_def isLibraryEntry_def fld_clone elim: isStringE)

definition storedEntryOk :: "string \<times> jsval \<Rightarrow> bool" where
  "storedEntryOk kv = (entryId (snd kv) = fst kv \<and> isRecord (snd kv)
     \<and> (\<exists>t. fld (snd kv) ''title'' = Str t \<and> t \<noteq> [] \<and> byteLength t \<le> P2P_WORKFLOW_TITLE_MAX_BYTES))"

lemma normalized_entry_ok:
  "isLibraryEntry raw \<Longrightarrow> storedEntryOk (entryId (withClampedTitle (cloneDraft raw)), withClampedTitle (cloneDraft raw))"
  using clamp_fits [of "fld (cloneDraft raw) ''title''"]
  by (auto simp: storedEntryOk_def isLibraryEntry_def)

lemma set_update: "set (AList.update k v m) \<subseteq> insert (k, v) (set m)"
  by (induction m) auto

lemma normalizeEntries_ok:
  "distinct (mapKeys seen) \<Longrightarrow> list_all storedEntryOk seen \<Longrightarrow>
     distinct (mapKeys (normalizeEntries seen xs)) \<and> list_all storedEntryOk (normalizeEntries seen xs)"
proof (induction seen xs rule: normalizeEntries.induct)
  case (2 seen raw rest)
  show ?case
  proof (cases "isLibraryEntry raw")
    case True
    let ?c = "withClampedTitle (cloneDraft raw)"
    have "list_all storedEntryOk (mapSet seen (entryId ?c) ?c)"
      using set_update [of "entryId ?c" ?c seen] "2.prems"(2) normalized_entry_ok [OF True] by (auto simp: list_all_iff)
    then show ?thesis using 2 True by (simp add: Let_def)
  qed (use 2 in simp)
qed simp

lemma normalized_library:
  fixes input :: jsval
  defines "lib \<equiv> normalizeWorkflowLibrary input"
  shows "length lib \<le> P2P_WORKFLOW_LIBRARY_MAX_ENTRIES" and "distinct (map entryId lib)"
    and "e \<in> set lib \<Longrightarrow> \<exists>t. fld e ''title'' = Str t \<and> t \<noteq> [] \<and> byteLength t \<le> P2P_WORKFLOW_TITLE_MAX_BYTES"
proof -
  let ?m = "normalizeEntries [] (arrItems input)"
  have ok: "distinct (mapKeys ?m)" "list_all storedEntryOk ?m"
    using normalizeEntries_ok [of "[]" "arrItems input"] by auto
  have keys: "map entryId (map snd ?m) = mapKeys ?m"
    using ok(2) by (auto simp: list_all_iff storedEntryOk_def)
  have lib: "lib = (if isArray input then take P2P_WORKFLOW_LIBRARY_MAX_ENTRIES (map snd ?m) else [])"
    by (simp add: lib_def normalizeWorkflowLibrary_def)
  show "length lib \<le> P2P_WORKFLOW_LIBRARY_MAX_ENTRIES" by (simp add: lib)
  show "distinct (map entryId lib)"
    using ok(1) keys by (auto simp: lib take_map [symmetric] simp del: map_map)
  show "\<exists>t. fld e ''title'' = Str t \<and> t \<noteq> [] \<and> byteLength t \<le> P2P_WORKFLOW_TITLE_MAX_BYTES" if "e \<in> set lib"
  proof -
    have "e \<in> snd ` set ?m" using that by (auto simp: lib split: if_splits dest!: in_set_takeD)
    then show ?thesis using ok(2) by (auto simp: list_all_iff storedEntryOk_def)
  qed
qed

section \<open>Appending an entry\<close>

lemma normalizeEntries_append:
  "normalizeEntries seen (xs @ ys) = normalizeEntries (normalizeEntries seen xs) ys"
  by (induction seen xs rule: normalizeEntries.induct) (simp_all add: Let_def)

lemma normalizeEntries_size: "length (normalizeEntries seen xs) \<le> length seen + length xs"
proof (induction seen xs rule: normalizeEntries.induct)
  case (2 seen raw rest)
  have "length (AList.update k v m) \<le> Suc (length m)" for k v and m :: "(string \<times> jsval) list"
    by (induction m) auto
  then show ?case using 2 by (auto simp: Let_def intro: order_trans)
qed simp

lemma normalizeEntries_keys:
  "list_all wellFormed xs \<Longrightarrow> fst ` set (normalizeEntries seen xs) \<subseteq> fst ` set seen \<union> entryId ` set xs"
proof (induction seen xs rule: normalizeEntries.induct)
  case (2 seen raw rest)
  then show ?case
    by (auto simp: Let_def dom_update entryId_clone isLibraryEntry_def split: if_splits)
qed simp

lemma find_last: "\<forall>e\<in>set xs. \<not> P e \<Longrightarrow> P c \<Longrightarrow> find P (xs @ [c]) = Some c"
  by (induction xs) auto

text \<open>A fresh entry at the end of a library that is not full is kept, under its own id.\<close>

lemma normalize_append_fresh:
  assumes "length library < P2P_WORKFLOW_LIBRARY_MAX_ENTRIES" and "list_all wellFormed library"
    and "isLibraryEntry entry" and "wellFormed entry" and "entryId entry \<notin> entryId ` set library"
  shows "findEntry (entryId entry) (normalizeWorkflowLibrary (Arr (library @ [entry])))
    = Some (withClampedTitle (cloneDraft entry))"
proof -
  let ?m = "normalizeEntries [] library" and ?c = "withClampedTitle (cloneDraft entry)"
  have "isRecord entry" using assms(3) by (simp add: isLibraryEntry_def)
  then have i: "entryId ?c = entryId entry" using entryId_clone [OF assms(4,3)] by simp
  have fresh: "entryId entry \<notin> fst ` set ?m"
    using normalizeEntries_keys [OF assms(2), of "[]"] assms(5) by auto
  have "AList.update k v m = m @ [(k, v)]" if "k \<notin> fst ` set m" for k v and m :: "(string \<times> jsval) list"
    using that by (induction m) auto
  then have m: "normalizeEntries [] (library @ [entry]) = ?m @ [(entryId entry, ?c)]"
    using assms(3) i fresh by (simp add: normalizeEntries_append Let_def)
  have "length ?m < P2P_WORKFLOW_LIBRARY_MAX_ENTRIES"
    using normalizeEntries_size [of "[]" library] assms(1) by simp
  then have lib: "normalizeWorkflowLibrary (Arr (library @ [entry])) = map snd ?m @ [?c]"
    by (simp add: normalizeWorkflowLibrary_def m)
  have "list_all storedEntryOk ?m" using normalizeEntries_ok [of "[]" library] by simp
  then have "\<forall>e\<in>set (map snd ?m). entryId e \<noteq> entryId entry"
    using fresh by (force simp: list_all_iff storedEntryOk_def)
  then have "find (\<lambda>e. entryId e = entryId entry) (map snd ?m @ [?c]) = Some ?c"
    using i by (intro find_last) auto
  then show ?thesis by (simp add: findEntry_def lib)
qed

end
