(* ===== verification/WfLibraryProps.thy ===== *)
theory WfLibraryProps
  imports WfLibrary "HOL-Library.Code_Target_Nat"
begin

text \<open>
  The properties of the library of saved workflows: the bounds every saved library keeps through
  any history of operations, what adding a workflow shows, and what removing one does.
\<close>

section \<open>Histories of a saved configuration\<close>

definition libraryOk :: "jsval list \<Rightarrow> bool" where
  "libraryOk lib \<longleftrightarrow> length lib \<le> P2P_WORKFLOW_LIBRARY_MAX_ENTRIES \<and> distinct (map entryId lib)
     \<and> list_all (\<lambda>e. \<exists>t. fld e ''title'' = Str t \<and> t \<noteq> [] \<and> byteLength t \<le> P2P_WORKFLOW_TITLE_MAX_BYTES) lib"

inductive libraryStep :: "savedConfig \<Rightarrow> savedConfig \<Rightarrow> bool" where
  migrated: "libraryStep c (migrateLegacyWorkflowDraft c)"
| replaced: "libraryStep c (replaceActiveWorkflowInConfig c d)"
| added: "addWorkflowToLibrary generated c d activate = Some c' \<Longrightarrow> libraryStep c c'"
| removed: "libraryStep c (removeWorkflowFromLibrary c i)"
| duplicated: "duplicateWorkflowInLibrary generated c i suffix = Some c' \<Longrightarrow> libraryStep c c'"

text \<open>A configuration starts without a library, or with one that was normalized when it was loaded.\<close>

inductive libraryHistory :: "savedConfig \<Rightarrow> bool" where
  no_library: "\<not> isArray (cfg_workflowLibrary c) \<Longrightarrow> libraryHistory c"
| loaded: "cfg_workflowLibrary c = Arr (normalizeWorkflowLibrary input) \<Longrightarrow> libraryHistory c"
| step: "libraryHistory c \<Longrightarrow> libraryStep c c' \<Longrightarrow> libraryHistory c'"

inductive_cases libraryStepE: "libraryStep c c'"

lemma libraryOk_normalized [simp]: "libraryOk (normalizeWorkflowLibrary input)"
  using normalized_library by (simp add: libraryOk_def list_all_iff)

definition configOk :: "savedConfig \<Rightarrow> bool" where
  "configOk c \<longleftrightarrow> (isArray (cfg_workflowLibrary c) \<longrightarrow> libraryOk (arrItems (cfg_workflowLibrary c)))"

lemma fld_setField_same: "fld (setField k v d) k = v"
  by (simp add: setField_def)

lemma migrate_ok: "configOk c \<Longrightarrow> configOk (migrateLegacyWorkflowDraft c)"
  using clamp_fits [of "fld (cfg_workflowDraft c) ''title''"]
  by (auto simp: configOk_def libraryOk_def migrateLegacyWorkflowDraft_def Let_def fld_setField_same
      P2P_WORKFLOW_LIBRARY_MAX_ENTRIES_def)

lemma add_ok: "configOk c \<Longrightarrow> addWorkflowToLibrary generated c d activate = Some c' \<Longrightarrow> configOk c'"
  by (auto simp: configOk_def addWorkflowToLibrary_def Let_def split: if_splits option.splits)

lemma duplicate_ok: "configOk c \<Longrightarrow> duplicateWorkflowInLibrary generated c i suffix = Some c' \<Longrightarrow> configOk c'"
  using add_ok
  by (auto simp: duplicateWorkflowInLibrary_def Let_def split: if_splits option.splits list.splits)

lemma step_ok: "libraryStep c c' \<Longrightarrow> configOk c \<Longrightarrow> configOk c'"
  by (erule libraryStepE)
    (auto simp: migrate_ok dest: add_ok duplicate_ok,
     auto simp: configOk_def replaceActiveWorkflowInConfig_def removeWorkflowFromLibrary_def Let_def)

text \<open>Whatever sequence of migrating, replacing, adding, removing and duplicating a saved configuration goes through,
  its library holds at most 20 workflows with different ids, each with a title that is not empty and at most as many UTF-8
  bytes as the limit.\<close>

theorem library_bounds_kept:
  assumes "libraryHistory c" and "isArray (cfg_workflowLibrary c)"
  shows "length (arrItems (cfg_workflowLibrary c)) \<le> 20 \<and> libraryOk (arrItems (cfg_workflowLibrary c))"
proof -
  have "configOk c"
    using assms(1) by induction (auto simp: configOk_def dest: step_ok [unfolded configOk_def])
  then show ?thesis using assms(2) by (simp add: configOk_def libraryOk_def P2P_WORKFLOW_LIBRARY_MAX_ENTRIES_def)
qed

definition legacyDraft :: "string \<Rightarrow> jsval" where
  "legacyDraft i = Obj [(''id'', Str i), (''schemaVersion'', Number (Num 1)), (''title'', Str ''Flow''),
     (''nodes'', Arr []), (''edges'', Arr [])]"

definition legacyConfig :: savedConfig where
  "legacyConfig = \<lparr>cfg_workflowLibrary = Undef, cfg_activeWorkflowId = None, cfg_workflowDraft = legacyDraft ''a''\<rparr>"

theorem library_bounds_kept_witness:
  "libraryOk (arrItems (cfg_workflowLibrary (replaceActiveWorkflowInConfig legacyConfig (legacyDraft ''b''))))"
proof -
  have "libraryHistory legacyConfig" by (rule no_library) (simp add: legacyConfig_def)
  then have "libraryHistory (replaceActiveWorkflowInConfig legacyConfig (legacyDraft ''b''))"
    by (rule step) (rule replaced)
  then show ?thesis
    using library_bounds_kept by (auto simp: replaceActiveWorkflowInConfig_def Let_def)
qed

section \<open>Adding a workflow\<close>

lemma cloneDraft_idem:
  "cloneDraft (cloneDraft v) = cloneDraft v" "cloneItems (cloneItems vs) = cloneItems vs"
  "cloneFields (cloneFields kvs) = cloneFields kvs"
proof (induction v and vs and kvs rule: cloneDraft_cloneItems_cloneFields.induct)
  case (9 k v kvs)
  have "cloneDraft v \<noteq> Undef" by (cases v) simp_all
  with 9 show ?case by simp
qed simp_all

lemma keys_cloneFields: "fst ` set (cloneFields kvs) \<subseteq> fst ` set kvs"
proof (induction kvs)
  case (Cons kv kvs)
  then show ?case by (cases kv) auto
qed simp

lemma distinct_cloneFields: "distinct (map fst kvs) \<Longrightarrow> distinct (map fst (cloneFields kvs))"
proof (induction kvs)
  case (Cons kv kvs)
  then show ?case using keys_cloneFields [of kvs] by (cases kv) auto
qed simp

lemma wellFormed_clone: "wellFormed v \<Longrightarrow> wellFormed (cloneDraft v)"
  by (cases v) (auto simp: wellFormed_def distinct_cloneFields)

lemma wellFormed_setField: "wellFormed d \<Longrightarrow> wellFormed (setField k v d)"
  by (simp add: wellFormed_def setField_def distinct_update)

lemma wellFormed_withTitle: "wellFormed d \<Longrightarrow> wellFormed (withClampedTitle d)"
  by (simp add: withClampedTitle_def wellFormed_setField)

lemma freshId_free: "freshId generated library = Some i \<Longrightarrow> i \<in> set generated \<and> i \<notin> entryId ` set library"
  by (induction generated library rule: freshId.induct) (auto simp: list_ex_iff split: if_splits)

lemma freshId_found: "freshId generated library \<noteq> None \<longleftrightarrow> (\<exists>i\<in>set generated. i \<notin> entryId ` set library)"
  by (induction generated library rule: freshId.induct) (auto simp: list_ex_iff image_iff)

lemma findEntry_id: "findEntry i lib = Some e \<Longrightarrow> entryId e = i"
  by (induction lib) (auto simp: findEntry_def split: if_splits)

text \<open>The entry a draft is stored as under an id.\<close>

definition entryFor :: "string \<Rightarrow> jsval \<Rightarrow> jsval" where
  "entryFor i draft = setField ''id'' (Str i) (withClampedTitle (cloneDraft draft))"

lemma entryFor_facts:
  assumes "isLibraryEntry (setField ''id'' (Str ''x'') (cloneDraft draft))" and "wellFormed draft" and "i \<noteq> []"
    and "isRecord draft"
  shows "isLibraryEntry (entryFor i draft)" and "wellFormed (entryFor i draft)" and "entryId (entryFor i draft) = i"
    and "k \<notin> {''id'', ''title''} \<Longrightarrow>
      fld (withClampedTitle (cloneDraft (entryFor i draft))) k = fld (cloneDraft draft) k"
proof -
  show wf: "wellFormed (entryFor i draft)"
    using assms(2) by (simp add: entryFor_def wellFormed_setField wellFormed_withTitle wellFormed_clone)
  show "isLibraryEntry (entryFor i draft)" using assms by (simp add: isLibraryEntry_def entryFor_def)
  show "entryId (entryFor i draft) = i" by (simp add: entryFor_def entryId_def fld_setField_same)
  have rec: "isRecord (entryFor i draft)" by (simp add: entryFor_def)
  assume k: "k \<notin> {''id'', ''title''}"
  then have "fld (entryFor i draft) k = fld (cloneDraft draft) k" using assms(4) by (simp add: entryFor_def)
  moreover have "cloneDraft (fld (cloneDraft draft) k) = fld (cloneDraft draft) k" if "fld (cloneDraft draft) k \<noteq> Undef"
    using that assms(2,4) by (simp add: fld_clone cloneDraft_idem split: if_splits)
  ultimately show "fld (withClampedTitle (cloneDraft (entryFor i draft))) k = fld (cloneDraft draft) k"
    using k by (simp add: fld_clone [OF wf rec] rec)
qed

text \<open>Adding a workflow to a library that is not full and activating it makes it the active workflow: it is stored
  under an id no other workflow has (its own, when that is free), every member but the id and the title is the given one's
  JSON copy, and no stored workflow before it is lost from the list that is normalized.\<close>

theorem added_workflow_becomes_active:
  assumes add: "addWorkflowToLibrary generated c draft True = Some c'"
    and room: "length (baseLibrary c) < P2P_WORKFLOW_LIBRARY_MAX_ENTRIES" and wf: "list_all wellFormed (baseLibrary c)"
    and draft: "isRecord draft" "wellFormed draft" "isLibraryEntry (setField ''id'' (Str ''x'') (cloneDraft draft))"
    and ids: "[] \<notin> set generated"
  shows "\<exists>e i. getActiveWorkflowFromConfig c' = Some e \<and> cfg_activeWorkflowId c' = Some i \<and> entryId e = i
    \<and> i \<notin> entryId ` set (baseLibrary c)
    \<and> (entryId (cloneDraft draft) \<notin> insert [] (entryId ` set (baseLibrary c)) \<longrightarrow> i = entryId (cloneDraft draft))
    \<and> (\<forall>k. k \<notin> {''id'', ''title''} \<longrightarrow> fld e k = fld (cloneDraft draft) k)
    \<and> cfg_workflowLibrary c' = Arr (normalizeWorkflowLibrary (Arr (baseLibrary c @ [entryFor i draft])))"
proof -
  let ?own = "entryId (cloneDraft draft)" and ?lib = "baseLibrary c"
  obtain i where i: "(if ?own = [] \<or> list_ex (\<lambda>e. entryId e = ?own) ?lib then freshId generated ?lib else Some ?own) = Some i"
    and c': "c' = c\<lparr>cfg_workflowLibrary := Arr (normalizeWorkflowLibrary (Arr (?lib @ [entryFor i draft]))),
      cfg_activeWorkflowId := Some i\<rparr>"
  proof -
    have "entryId (withClampedTitle (cloneDraft draft)) = ?own" using draft(1) by simp
    then show thesis
      using add room that
      by (cases "if ?own = [] \<or> list_ex (\<lambda>e. entryId e = ?own) ?lib then freshId generated ?lib else Some ?own")
        (simp_all add: addWorkflowToLibrary_def entryFor_def Let_def cong: if_cong)
  qed
  have free: "i \<noteq> [] \<and> i \<notin> entryId ` set ?lib"
  proof (cases "?own = [] \<or> list_ex (\<lambda>e. entryId e = ?own) ?lib")
    case True
    then show ?thesis using i freshId_free [of generated ?lib i] ids by auto
  next
    case False
    then show ?thesis using i by (auto simp: list_ex_iff)
  qed
  have own: "?own \<notin> insert [] (entryId ` set ?lib) \<longrightarrow> i = ?own"
    using i by (auto simp: list_ex_iff image_iff split: if_splits)
  note facts = entryFor_facts [OF draft(3,2) conjunct1 [OF free] draft(1)]
  let ?e = "withClampedTitle (cloneDraft (entryFor i draft))"
  have found: "findEntry i (normalizeWorkflowLibrary (Arr (?lib @ [entryFor i draft]))) = Some ?e"
    using normalize_append_fresh [OF room wf facts(1,2)] free facts(3) by simp
  then have "normalizeWorkflowLibrary (Arr (?lib @ [entryFor i draft])) \<noteq> []" by (auto simp: findEntry_def)
  then have "getActiveWorkflowFromConfig c' = Some ?e"
    using found free by (simp add: getActiveWorkflowFromConfig_def c')
  then show ?thesis
    using findEntry_id [OF found] free own facts(4) by (intro exI [of _ ?e] exI [of _ i]) (simp add: c')
qed

lemma added_sample:
  "addWorkflowToLibrary [''n''] legacyConfig (legacyDraft ''a'') True = Some
     (legacyConfig\<lparr>cfg_workflowLibrary := Arr [legacyDraft ''a'', legacyDraft ''n''], cfg_activeWorkflowId := Some ''n''\<rparr>)"
  by code_simp

theorem added_workflow_becomes_active_witness:
  "\<exists>e. getActiveWorkflowFromConfig (legacyConfig\<lparr>cfg_workflowLibrary := Arr [legacyDraft ''a'', legacyDraft ''n''],
      cfg_activeWorkflowId := Some ''n''\<rparr>) = Some e \<and> entryId e = ''n''"
proof -
  have "length (baseLibrary legacyConfig) < P2P_WORKFLOW_LIBRARY_MAX_ENTRIES" "list_all wellFormed (baseLibrary legacyConfig)"
    "isRecord (legacyDraft ''a'')" "wellFormed (legacyDraft ''a'')"
    "isLibraryEntry (setField ''id'' (Str ''x'') (cloneDraft (legacyDraft ''a'')))" "[] \<notin> set [''n'']"
    by code_simp+
  from added_workflow_becomes_active [OF added_sample this] show ?thesis by auto
qed

section \<open>Removing workflows\<close>

text \<open>
  Removing the last workflow leaves an empty library, and then the legacy draft is shown again
  although an empty library means a cleared one. A replacement whose active id names no entry of a
  full library is dropped. Adding without activating still activates when nothing was active.
\<close>

lemma removed_last_shows_legacy:
  "getActiveWorkflowFromConfig (removeWorkflowFromLibrary (migrateLegacyWorkflowDraft legacyConfig) ''a'')
     = Some (legacyDraft ''a'')"
  by code_simp

definition fullConfig :: savedConfig where
  "fullConfig = \<lparr>cfg_workflowLibrary = Arr (map (\<lambda>i. legacyDraft (replicate (Suc i) CHR ''w'')) [0..<20]),
     cfg_activeWorkflowId = Some ''gone'', cfg_workflowDraft = Undef\<rparr>"

lemma replacement_dropped:
  "cfg_workflowLibrary (replaceActiveWorkflowInConfig fullConfig (legacyDraft ''new'')) = cfg_workflowLibrary fullConfig
   \<and> cfg_activeWorkflowId (replaceActiveWorkflowInConfig fullConfig (legacyDraft ''new'')) = Some ''new''"
  by code_simp

end
