(* ===== verification/EvoTypes.thy ===== *)
theory EvoTypes
  imports WfValidators
begin

text \<open>
  The vocabulary of the evolution pipeline, which takes a requirement file from the inbox to a
  delivered change: the enumerations, limits and the table of stage transitions of
  \<^verbatim>\<open>shared/evolution-pipeline-constants.ts\<close>, with the closed string unions that
  \<^verbatim>\<open>shared/evolution-pipeline-validators.ts\<close> declares. A union of string literals is a datatype;
  its text function gives the literal.
\<close>

section \<open>Enumerations\<close>

datatype evolutionStage = Es_detected | Es_intake_normalized | Es_product_discussion
    | Es_prd_ready | Es_design_lofi | Es_design_hifi | Es_architecture_baseline | Es_tasks_ready
    | Es_implementation_loop | Es_qa_completion | Es_delivery_ready | Es_deployed_staging
    | Es_human_release_gate | Es_deployed_production | Es_needs_human | Es_failed | Es_stopped

primrec stageText :: "evolutionStage \<Rightarrow> string" where
  "stageText Es_detected = ''detected''"
| "stageText Es_intake_normalized = ''intake_normalized''"
| "stageText Es_product_discussion = ''product_discussion''"
| "stageText Es_prd_ready = ''prd_ready''"
| "stageText Es_design_lofi = ''design_lofi''"
| "stageText Es_design_hifi = ''design_hifi''"
| "stageText Es_architecture_baseline = ''architecture_baseline''"
| "stageText Es_tasks_ready = ''tasks_ready''"
| "stageText Es_implementation_loop = ''implementation_loop''"
| "stageText Es_qa_completion = ''qa_completion''"
| "stageText Es_delivery_ready = ''delivery_ready''"
| "stageText Es_deployed_staging = ''deployed_staging''"
| "stageText Es_human_release_gate = ''human_release_gate''"
| "stageText Es_deployed_production = ''deployed_production''"
| "stageText Es_needs_human = ''needs_human''"
| "stageText Es_failed = ''failed''"
| "stageText Es_stopped = ''stopped''"

definition EVOLUTION_STAGES :: "evolutionStage list" where
  "EVOLUTION_STAGES =
     [Es_detected, Es_intake_normalized, Es_product_discussion, Es_prd_ready, Es_design_lofi,
      Es_design_hifi, Es_architecture_baseline, Es_tasks_ready, Es_implementation_loop,
      Es_qa_completion, Es_delivery_ready, Es_deployed_staging, Es_human_release_gate,
      Es_deployed_production, Es_needs_human, Es_failed, Es_stopped]"

lemma all_evolutionStage: "x \<in> set EVOLUTION_STAGES"
  by (cases x) (simp_all add: EVOLUTION_STAGES_def)

datatype evolutionRoleId = Er_loop_supervisor | Er_product_manager | Er_product_critic
    | Er_ux_designer | Er_visual_designer | Er_tech_director | Er_backend_developer
    | Er_frontend_developer | Er_qa_engineer | Er_security_reviewer | Er_ops_release_manager

primrec roleText :: "evolutionRoleId \<Rightarrow> string" where
  "roleText Er_loop_supervisor = ''loop_supervisor''"
| "roleText Er_product_manager = ''product_manager''"
| "roleText Er_product_critic = ''product_critic''"
| "roleText Er_ux_designer = ''ux_designer''"
| "roleText Er_visual_designer = ''visual_designer''"
| "roleText Er_tech_director = ''tech_director''"
| "roleText Er_backend_developer = ''backend_developer''"
| "roleText Er_frontend_developer = ''frontend_developer''"
| "roleText Er_qa_engineer = ''qa_engineer''"
| "roleText Er_security_reviewer = ''security_reviewer''"
| "roleText Er_ops_release_manager = ''ops_release_manager''"

definition EVOLUTION_ROLE_IDS :: "evolutionRoleId list" where
  "EVOLUTION_ROLE_IDS =
     [Er_loop_supervisor, Er_product_manager, Er_product_critic, Er_ux_designer,
      Er_visual_designer, Er_tech_director, Er_backend_developer, Er_frontend_developer,
      Er_qa_engineer, Er_security_reviewer, Er_ops_release_manager]"

lemma all_evolutionRoleId: "x \<in> set EVOLUTION_ROLE_IDS"
  by (cases x) (simp_all add: EVOLUTION_ROLE_IDS_def)

datatype evolutionRoleStatus = Ers_pending | Ers_running | Ers_waiting | Ers_blocked
    | Ers_complete | Ers_failed

primrec roleStatusText :: "evolutionRoleStatus \<Rightarrow> string" where
  "roleStatusText Ers_pending = ''pending''"
| "roleStatusText Ers_running = ''running''"
| "roleStatusText Ers_waiting = ''waiting''"
| "roleStatusText Ers_blocked = ''blocked''"
| "roleStatusText Ers_complete = ''complete''"
| "roleStatusText Ers_failed = ''failed''"

definition EVOLUTION_ROLE_STATUSES :: "evolutionRoleStatus list" where
  "EVOLUTION_ROLE_STATUSES =
     [Ers_pending, Ers_running, Ers_waiting, Ers_blocked, Ers_complete, Ers_failed]"

lemma all_evolutionRoleStatus: "x \<in> set EVOLUTION_ROLE_STATUSES"
  by (cases x) (simp_all add: EVOLUTION_ROLE_STATUSES_def)

datatype evolutionMessageKind = Emk_system | Emk_role_update | Emk_artifact_summary
    | Emk_user_message | Emk_gate

primrec messageKindText :: "evolutionMessageKind \<Rightarrow> string" where
  "messageKindText Emk_system = ''system''"
| "messageKindText Emk_role_update = ''role_update''"
| "messageKindText Emk_artifact_summary = ''artifact_summary''"
| "messageKindText Emk_user_message = ''user_message''"
| "messageKindText Emk_gate = ''gate''"

definition EVOLUTION_DISCUSSION_MESSAGE_KINDS :: "evolutionMessageKind list" where
  "EVOLUTION_DISCUSSION_MESSAGE_KINDS =
     [Emk_system, Emk_role_update, Emk_artifact_summary, Emk_user_message, Emk_gate]"

lemma all_evolutionMessageKind: "x \<in> set EVOLUTION_DISCUSSION_MESSAGE_KINDS"
  by (cases x) (simp_all add: EVOLUTION_DISCUSSION_MESSAGE_KINDS_def)

datatype evolutionRoundtableStatus = Ert_planned | Ert_running | Ert_complete | Ert_failed
    | Ert_skipped

primrec roundtableStatusText :: "evolutionRoundtableStatus \<Rightarrow> string" where
  "roundtableStatusText Ert_planned = ''planned''"
| "roundtableStatusText Ert_running = ''running''"
| "roundtableStatusText Ert_complete = ''complete''"
| "roundtableStatusText Ert_failed = ''failed''"
| "roundtableStatusText Ert_skipped = ''skipped''"

definition EVOLUTION_ROUNDTABLE_STATUSES :: "evolutionRoundtableStatus list" where
  "EVOLUTION_ROUNDTABLE_STATUSES =
     [Ert_planned, Ert_running, Ert_complete, Ert_failed, Ert_skipped]"

lemma all_evolutionRoundtableStatus: "x \<in> set EVOLUTION_ROUNDTABLE_STATUSES"
  by (cases x) (simp_all add: EVOLUTION_ROUNDTABLE_STATUSES_def)

datatype evolutionGateMode = Egm_planning | Egm_strict

primrec gateModeText :: "evolutionGateMode \<Rightarrow> string" where
  "gateModeText Egm_planning = ''planning''"
| "gateModeText Egm_strict = ''strict''"

definition EVOLUTION_ROUNDTABLE_GATE_MODES :: "evolutionGateMode list" where
  "EVOLUTION_ROUNDTABLE_GATE_MODES =
     [Egm_planning, Egm_strict]"

lemma all_evolutionGateMode: "x \<in> set EVOLUTION_ROUNDTABLE_GATE_MODES"
  by (cases x) (simp_all add: EVOLUTION_ROUNDTABLE_GATE_MODES_def)

datatype evolutionSurface = Eds_auto | Eds_mobile | Eds_pc | Eds_both

primrec surfaceText :: "evolutionSurface \<Rightarrow> string" where
  "surfaceText Eds_auto = ''auto''"
| "surfaceText Eds_mobile = ''mobile''"
| "surfaceText Eds_pc = ''pc''"
| "surfaceText Eds_both = ''both''"

definition EVOLUTION_DESIGN_TARGET_SURFACES :: "evolutionSurface list" where
  "EVOLUTION_DESIGN_TARGET_SURFACES =
     [Eds_auto, Eds_mobile, Eds_pc, Eds_both]"

lemma all_evolutionSurface: "x \<in> set EVOLUTION_DESIGN_TARGET_SURFACES"
  by (cases x) (simp_all add: EVOLUTION_DESIGN_TARGET_SURFACES_def)

datatype evolutionArtifactKind = Eak_input | Eak_normalized_requirement | Eak_prd
    | Eak_user_stories | Eak_acceptance_criteria | Eak_prd_review | Eak_ux_flow | Eak_wireframe
    | Eak_lofi_mockup | Eak_hifi_spec | Eak_hifi_mockup | Eak_taste_hifi_prompt
    | Eak_taste_hifi_output | Eak_taste_hifi_reference | Eak_taste_hifi_log
    | Eak_project_style_audit | Eak_design_reference_manifest | Eak_design_reference_image
    | Eak_design_handoff | Eak_architecture_baseline | Eak_adr | Eak_openspec_proposal
    | Eak_openspec_design | Eak_openspec_tasks | Eak_openspec_spec
    | Eak_implementation_task_matrix | Eak_test_plan | Eak_test_cases | Eak_test_evidence
    | Eak_deployment_plan | Eak_staging_setup | Eak_staging_config_example
    | Eak_staging_config_check | Eak_staging_deploy_log | Eak_rollback_plan | Eak_release_notes
    | Eak_release_gate | Eak_role_skill | Eak_role_skill_approval_record
    | Eak_role_skill_library | Eak_role_skill_release_candidate | Eak_role_skill_revision
    | Eak_role_instruction_response | Eak_roundtable_review | Eak_discussion | Eak_evidence

primrec artifactKindText :: "evolutionArtifactKind \<Rightarrow> string" where
  "artifactKindText Eak_input = ''input''"
| "artifactKindText Eak_normalized_requirement = ''normalized_requirement''"
| "artifactKindText Eak_prd = ''prd''"
| "artifactKindText Eak_user_stories = ''user_stories''"
| "artifactKindText Eak_acceptance_criteria = ''acceptance_criteria''"
| "artifactKindText Eak_prd_review = ''prd_review''"
| "artifactKindText Eak_ux_flow = ''ux_flow''"
| "artifactKindText Eak_wireframe = ''wireframe''"
| "artifactKindText Eak_lofi_mockup = ''lofi_mockup''"
| "artifactKindText Eak_hifi_spec = ''hifi_spec''"
| "artifactKindText Eak_hifi_mockup = ''hifi_mockup''"
| "artifactKindText Eak_taste_hifi_prompt = ''taste_hifi_prompt''"
| "artifactKindText Eak_taste_hifi_output = ''taste_hifi_output''"
| "artifactKindText Eak_taste_hifi_reference = ''taste_hifi_reference''"
| "artifactKindText Eak_taste_hifi_log = ''taste_hifi_log''"
| "artifactKindText Eak_project_style_audit = ''project_style_audit''"
| "artifactKindText Eak_design_reference_manifest = ''design_reference_manifest''"
| "artifactKindText Eak_design_reference_image = ''design_reference_image''"
| "artifactKindText Eak_design_handoff = ''design_handoff''"
| "artifactKindText Eak_architecture_baseline = ''architecture_baseline''"
| "artifactKindText Eak_adr = ''adr''"
| "artifactKindText Eak_openspec_proposal = ''openspec_proposal''"
| "artifactKindText Eak_openspec_design = ''openspec_design''"
| "artifactKindText Eak_openspec_tasks = ''openspec_tasks''"
| "artifactKindText Eak_openspec_spec = ''openspec_spec''"
| "artifactKindText Eak_implementation_task_matrix = ''implementation_task_matrix''"
| "artifactKindText Eak_test_plan = ''test_plan''"
| "artifactKindText Eak_test_cases = ''test_cases''"
| "artifactKindText Eak_test_evidence = ''test_evidence''"
| "artifactKindText Eak_deployment_plan = ''deployment_plan''"
| "artifactKindText Eak_staging_setup = ''staging_setup''"
| "artifactKindText Eak_staging_config_example = ''staging_config_example''"
| "artifactKindText Eak_staging_config_check = ''staging_config_check''"
| "artifactKindText Eak_staging_deploy_log = ''staging_deploy_log''"
| "artifactKindText Eak_rollback_plan = ''rollback_plan''"
| "artifactKindText Eak_release_notes = ''release_notes''"
| "artifactKindText Eak_release_gate = ''release_gate''"
| "artifactKindText Eak_role_skill = ''role_skill''"
| "artifactKindText Eak_role_skill_approval_record = ''role_skill_approval_record''"
| "artifactKindText Eak_role_skill_library = ''role_skill_library''"
| "artifactKindText Eak_role_skill_release_candidate = ''role_skill_release_candidate''"
| "artifactKindText Eak_role_skill_revision = ''role_skill_revision''"
| "artifactKindText Eak_role_instruction_response = ''role_instruction_response''"
| "artifactKindText Eak_roundtable_review = ''roundtable_review''"
| "artifactKindText Eak_discussion = ''discussion''"
| "artifactKindText Eak_evidence = ''evidence''"

definition EVOLUTION_ARTIFACT_KINDS :: "evolutionArtifactKind list" where
  "EVOLUTION_ARTIFACT_KINDS =
     [Eak_input, Eak_normalized_requirement, Eak_prd, Eak_user_stories, Eak_acceptance_criteria,
      Eak_prd_review, Eak_ux_flow, Eak_wireframe, Eak_lofi_mockup, Eak_hifi_spec,
      Eak_hifi_mockup, Eak_taste_hifi_prompt, Eak_taste_hifi_output, Eak_taste_hifi_reference,
      Eak_taste_hifi_log, Eak_project_style_audit, Eak_design_reference_manifest,
      Eak_design_reference_image, Eak_design_handoff, Eak_architecture_baseline, Eak_adr,
      Eak_openspec_proposal, Eak_openspec_design, Eak_openspec_tasks, Eak_openspec_spec,
      Eak_implementation_task_matrix, Eak_test_plan, Eak_test_cases, Eak_test_evidence,
      Eak_deployment_plan, Eak_staging_setup, Eak_staging_config_example,
      Eak_staging_config_check, Eak_staging_deploy_log, Eak_rollback_plan, Eak_release_notes,
      Eak_release_gate, Eak_role_skill, Eak_role_skill_approval_record, Eak_role_skill_library,
      Eak_role_skill_release_candidate, Eak_role_skill_revision, Eak_role_instruction_response,
      Eak_roundtable_review, Eak_discussion, Eak_evidence]"

lemma all_evolutionArtifactKind: "x \<in> set EVOLUTION_ARTIFACT_KINDS"
  by (cases x) (simp_all add: EVOLUTION_ARTIFACT_KINDS_def)

datatype evolutionPreviewType = Ept_markdown | Ept_text | Ept_svg | Ept_image

primrec previewTypeText :: "evolutionPreviewType \<Rightarrow> string" where
  "previewTypeText Ept_markdown = ''markdown''"
| "previewTypeText Ept_text = ''text''"
| "previewTypeText Ept_svg = ''svg''"
| "previewTypeText Ept_image = ''image''"

definition EVOLUTION_ARTIFACT_PREVIEW_TYPES :: "evolutionPreviewType list" where
  "EVOLUTION_ARTIFACT_PREVIEW_TYPES =
     [Ept_markdown, Ept_text, Ept_svg, Ept_image]"

lemma all_evolutionPreviewType: "x \<in> set EVOLUTION_ARTIFACT_PREVIEW_TYPES"
  by (cases x) (simp_all add: EVOLUTION_ARTIFACT_PREVIEW_TYPES_def)

datatype evolutionStagingStatus = Esd_not_configured | Esd_disabled | Esd_ready | Esd_running
    | Esd_passed | Esd_failed

primrec stagingStatusText :: "evolutionStagingStatus \<Rightarrow> string" where
  "stagingStatusText Esd_not_configured = ''not_configured''"
| "stagingStatusText Esd_disabled = ''disabled''"
| "stagingStatusText Esd_ready = ''ready''"
| "stagingStatusText Esd_running = ''running''"
| "stagingStatusText Esd_passed = ''passed''"
| "stagingStatusText Esd_failed = ''failed''"

definition EVOLUTION_STAGING_DELIVERY_STATUSES :: "evolutionStagingStatus list" where
  "EVOLUTION_STAGING_DELIVERY_STATUSES =
     [Esd_not_configured, Esd_disabled, Esd_ready, Esd_running, Esd_passed, Esd_failed]"

lemma all_evolutionStagingStatus: "x \<in> set EVOLUTION_STAGING_DELIVERY_STATUSES"
  by (cases x) (simp_all add: EVOLUTION_STAGING_DELIVERY_STATUSES_def)

datatype evolutionScoreModule = Esm_product | Esm_design | Esm_architecture | Esm_tasks
    | Esm_implementation | Esm_tests | Esm_delivery | Esm_risk

primrec scoreModuleText :: "evolutionScoreModule \<Rightarrow> string" where
  "scoreModuleText Esm_product = ''product''"
| "scoreModuleText Esm_design = ''design''"
| "scoreModuleText Esm_architecture = ''architecture''"
| "scoreModuleText Esm_tasks = ''tasks''"
| "scoreModuleText Esm_implementation = ''implementation''"
| "scoreModuleText Esm_tests = ''tests''"
| "scoreModuleText Esm_delivery = ''delivery''"
| "scoreModuleText Esm_risk = ''risk''"

definition EVOLUTION_SCORE_MODULE_IDS :: "evolutionScoreModule list" where
  "EVOLUTION_SCORE_MODULE_IDS =
     [Esm_product, Esm_design, Esm_architecture, Esm_tasks, Esm_implementation, Esm_tests,
      Esm_delivery, Esm_risk]"

lemma all_evolutionScoreModule: "x \<in> set EVOLUTION_SCORE_MODULE_IDS"
  by (cases x) (simp_all add: EVOLUTION_SCORE_MODULE_IDS_def)

datatype evolutionVerdict = Ev_PASS | Ev_REWORK | Ev_BLOCKED

primrec evolutionVerdictText :: "evolutionVerdict \<Rightarrow> string" where
  "evolutionVerdictText Ev_PASS = ''PASS''"
| "evolutionVerdictText Ev_REWORK = ''REWORK''"
| "evolutionVerdictText Ev_BLOCKED = ''BLOCKED''"

definition EVOLUTION_VERDICTS :: "evolutionVerdict list" where
  "EVOLUTION_VERDICTS =
     [Ev_PASS, Ev_REWORK, Ev_BLOCKED]"

lemma all_evolutionVerdict: "x \<in> set EVOLUTION_VERDICTS"
  by (cases x) (simp_all add: EVOLUTION_VERDICTS_def)

datatype evolutionPreset = Eap_fast | Eap_standard | Eap_strict | Eap_deep

primrec evolutionPresetText :: "evolutionPreset \<Rightarrow> string" where
  "evolutionPresetText Eap_fast = ''fast''"
| "evolutionPresetText Eap_standard = ''standard''"
| "evolutionPresetText Eap_strict = ''strict''"
| "evolutionPresetText Eap_deep = ''deep''"

definition EVOLUTION_AUTO_DELIVER_PRESET_IDS :: "evolutionPreset list" where
  "EVOLUTION_AUTO_DELIVER_PRESET_IDS =
     [Eap_fast, Eap_standard, Eap_strict, Eap_deep]"

lemma all_evolutionPreset: "x \<in> set EVOLUTION_AUTO_DELIVER_PRESET_IDS"
  by (cases x) (simp_all add: EVOLUTION_AUTO_DELIVER_PRESET_IDS_def)

datatype evolutionRequestedBy = Erb_user | Erb_watcher | Erb_api | Erb_cron | Erb_demo

primrec requestedByText :: "evolutionRequestedBy \<Rightarrow> string" where
  "requestedByText Erb_user = ''user''"
| "requestedByText Erb_watcher = ''watcher''"
| "requestedByText Erb_api = ''api''"
| "requestedByText Erb_cron = ''cron''"
| "requestedByText Erb_demo = ''demo''"

definition REQUESTED_BY_VALUES :: "evolutionRequestedBy list" where
  "REQUESTED_BY_VALUES =
     [Erb_user, Erb_watcher, Erb_api, Erb_cron, Erb_demo]"

lemma all_evolutionRequestedBy: "x \<in> set REQUESTED_BY_VALUES"
  by (cases x) (simp_all add: REQUESTED_BY_VALUES_def)

datatype timelineSource = Ets_role | Ets_discussion | Ets_artifact | Ets_evidence
    | Ets_roundtable

primrec timelineSourceText :: "timelineSource \<Rightarrow> string" where
  "timelineSourceText Ets_role = ''role''"
| "timelineSourceText Ets_discussion = ''discussion''"
| "timelineSourceText Ets_artifact = ''artifact''"
| "timelineSourceText Ets_evidence = ''evidence''"
| "timelineSourceText Ets_roundtable = ''roundtable''"

definition EXECUTION_TIMELINE_SOURCES :: "timelineSource list" where
  "EXECUTION_TIMELINE_SOURCES =
     [Ets_role, Ets_discussion, Ets_artifact, Ets_evidence, Ets_roundtable]"

lemma all_timelineSource: "x \<in> set EXECUTION_TIMELINE_SOURCES"
  by (cases x) (simp_all add: EXECUTION_TIMELINE_SOURCES_def)

datatype liveEventSource = Els_system | Els_war_room | Els_p2p_roundtable
    | Els_openspec_auto_deliver | Els_staging_delivery | Els_taste_skill | Els_role_skill

primrec liveEventSourceText :: "liveEventSource \<Rightarrow> string" where
  "liveEventSourceText Els_system = ''system''"
| "liveEventSourceText Els_war_room = ''war_room''"
| "liveEventSourceText Els_p2p_roundtable = ''p2p_roundtable''"
| "liveEventSourceText Els_openspec_auto_deliver = ''openspec_auto_deliver''"
| "liveEventSourceText Els_staging_delivery = ''staging_delivery''"
| "liveEventSourceText Els_taste_skill = ''taste_skill''"
| "liveEventSourceText Els_role_skill = ''role_skill''"

definition LIVE_EVENT_SOURCES :: "liveEventSource list" where
  "LIVE_EVENT_SOURCES =
     [Els_system, Els_war_room, Els_p2p_roundtable, Els_openspec_auto_deliver,
      Els_staging_delivery, Els_taste_skill, Els_role_skill]"

lemma all_liveEventSource: "x \<in> set LIVE_EVENT_SOURCES"
  by (cases x) (simp_all add: LIVE_EVENT_SOURCES_def)

datatype liveEventKind = Elk_status | Elk_message | Elk_task_progress | Elk_prompt | Elk_score
    | Elk_command | Elk_stdout | Elk_stderr | Elk_artifact | Elk_gate

primrec liveEventKindText :: "liveEventKind \<Rightarrow> string" where
  "liveEventKindText Elk_status = ''status''"
| "liveEventKindText Elk_message = ''message''"
| "liveEventKindText Elk_task_progress = ''task_progress''"
| "liveEventKindText Elk_prompt = ''prompt''"
| "liveEventKindText Elk_score = ''score''"
| "liveEventKindText Elk_command = ''command''"
| "liveEventKindText Elk_stdout = ''stdout''"
| "liveEventKindText Elk_stderr = ''stderr''"
| "liveEventKindText Elk_artifact = ''artifact''"
| "liveEventKindText Elk_gate = ''gate''"

definition LIVE_EVENT_KINDS :: "liveEventKind list" where
  "LIVE_EVENT_KINDS =
     [Elk_status, Elk_message, Elk_task_progress, Elk_prompt, Elk_score, Elk_command,
      Elk_stdout, Elk_stderr, Elk_artifact, Elk_gate]"

lemma all_liveEventKind: "x \<in> set LIVE_EVENT_KINDS"
  by (cases x) (simp_all add: LIVE_EVENT_KINDS_def)

datatype liveEventSeverity = Elv_info | Elv_success | Elv_warning | Elv_error

primrec liveEventSeverityText :: "liveEventSeverity \<Rightarrow> string" where
  "liveEventSeverityText Elv_info = ''info''"
| "liveEventSeverityText Elv_success = ''success''"
| "liveEventSeverityText Elv_warning = ''warning''"
| "liveEventSeverityText Elv_error = ''error''"

definition LIVE_EVENT_SEVERITIES :: "liveEventSeverity list" where
  "LIVE_EVENT_SEVERITIES =
     [Elv_info, Elv_success, Elv_warning, Elv_error]"

lemma all_liveEventSeverity: "x \<in> set LIVE_EVENT_SEVERITIES"
  by (cases x) (simp_all add: LIVE_EVENT_SEVERITIES_def)

datatype loopControlMode = Elm_planning_only | Elm_auto_implementation | Elm_human_gate
    | Elm_terminal

primrec loopControlModeText :: "loopControlMode \<Rightarrow> string" where
  "loopControlModeText Elm_planning_only = ''planning_only''"
| "loopControlModeText Elm_auto_implementation = ''auto_implementation''"
| "loopControlModeText Elm_human_gate = ''human_gate''"
| "loopControlModeText Elm_terminal = ''terminal''"

definition LOOP_CONTROL_MODES :: "loopControlMode list" where
  "LOOP_CONTROL_MODES =
     [Elm_planning_only, Elm_auto_implementation, Elm_human_gate, Elm_terminal]"

lemma all_loopControlMode: "x \<in> set LOOP_CONTROL_MODES"
  by (cases x) (simp_all add: LOOP_CONTROL_MODES_def)

datatype loopSignalStatus = Ess_missing | Ess_ready | Ess_running | Ess_blocked | Ess_complete

primrec loopSignalStatusText :: "loopSignalStatus \<Rightarrow> string" where
  "loopSignalStatusText Ess_missing = ''missing''"
| "loopSignalStatusText Ess_ready = ''ready''"
| "loopSignalStatusText Ess_running = ''running''"
| "loopSignalStatusText Ess_blocked = ''blocked''"
| "loopSignalStatusText Ess_complete = ''complete''"

definition LOOP_CONTROL_SIGNAL_STATUSES :: "loopSignalStatus list" where
  "LOOP_CONTROL_SIGNAL_STATUSES =
     [Ess_missing, Ess_ready, Ess_running, Ess_blocked, Ess_complete]"

lemma all_loopSignalStatus: "x \<in> set LOOP_CONTROL_SIGNAL_STATUSES"
  by (cases x) (simp_all add: LOOP_CONTROL_SIGNAL_STATUSES_def)

section \<open>Limits and locations\<close>

definition EVOLUTION_REQUEST_ID_MAX_BYTES :: nat where
  "EVOLUTION_REQUEST_ID_MAX_BYTES = 128"

definition EVOLUTION_RUN_ID_MAX_BYTES :: nat where
  "EVOLUTION_RUN_ID_MAX_BYTES = 128"

definition EVOLUTION_SOURCE_PATH_MAX_BYTES :: nat where
  "EVOLUTION_SOURCE_PATH_MAX_BYTES = 512"

definition EVOLUTION_ARTIFACT_PATH_MAX_BYTES :: nat where
  "EVOLUTION_ARTIFACT_PATH_MAX_BYTES = 1024"

definition EVOLUTION_ARTIFACT_PREVIEW_MAX_CHARS :: nat where
  "EVOLUTION_ARTIFACT_PREVIEW_MAX_CHARS = 256 * 1024"

definition EVOLUTION_REQUIREMENT_FILE_MAX_BYTES :: nat where
  "EVOLUTION_REQUIREMENT_FILE_MAX_BYTES = 8 * 1024 * 1024"

definition EVOLUTION_BLOCKING_QUESTIONS_MAX :: nat where
  "EVOLUTION_BLOCKING_QUESTIONS_MAX = 50"

definition EVOLUTION_EVIDENCE_ITEMS_MAX :: nat where
  "EVOLUTION_EVIDENCE_ITEMS_MAX = 200"

definition EVOLUTION_DISCUSSION_ITEMS_MAX :: nat where
  "EVOLUTION_DISCUSSION_ITEMS_MAX = 300"

definition EVOLUTION_ARTIFACTS_MAX :: nat where
  "EVOLUTION_ARTIFACTS_MAX = 200"

definition EVOLUTION_SCORE_MAX :: nat where
  "EVOLUTION_SCORE_MAX = 10"

definition EVOLUTION_REQUIREMENT_INBOX_DIR :: string where
  "EVOLUTION_REQUIREMENT_INBOX_DIR = ''.imcodes/inbox/requirements''"

definition EVOLUTION_RUN_ROOT_DIR :: string where
  "EVOLUTION_RUN_ROOT_DIR = ''.imc/evolution''"

definition EVOLUTION_REQUIREMENT_FILE_EXTENSIONS :: "string list" where
  "EVOLUTION_REQUIREMENT_FILE_EXTENSIONS = [''.md'', ''.txt'', ''.json'']"

section \<open>The table of transitions\<close>

definition EVOLUTION_TERMINAL_STAGES :: "evolutionStage list" where
  "EVOLUTION_TERMINAL_STAGES = [Es_deployed_production, Es_failed, Es_stopped]"

definition EVOLUTION_HUMAN_GATE_STAGES :: "evolutionStage list" where
  "EVOLUTION_HUMAN_GATE_STAGES = [Es_needs_human, Es_human_release_gate]"

primrec EVOLUTION_STAGE_TRANSITIONS :: "evolutionStage \<Rightarrow> evolutionStage list" where
  "EVOLUTION_STAGE_TRANSITIONS Es_detected =
     [Es_intake_normalized, Es_needs_human, Es_failed, Es_stopped]"
| "EVOLUTION_STAGE_TRANSITIONS Es_intake_normalized =
     [Es_product_discussion, Es_needs_human, Es_failed, Es_stopped]"
| "EVOLUTION_STAGE_TRANSITIONS Es_product_discussion =
     [Es_prd_ready, Es_needs_human, Es_failed, Es_stopped]"
| "EVOLUTION_STAGE_TRANSITIONS Es_prd_ready =
     [Es_design_lofi, Es_needs_human, Es_failed, Es_stopped]"
| "EVOLUTION_STAGE_TRANSITIONS Es_design_lofi =
     [Es_design_hifi, Es_needs_human, Es_failed, Es_stopped]"
| "EVOLUTION_STAGE_TRANSITIONS Es_design_hifi =
     [Es_architecture_baseline, Es_needs_human, Es_failed, Es_stopped]"
| "EVOLUTION_STAGE_TRANSITIONS Es_architecture_baseline =
     [Es_tasks_ready, Es_needs_human, Es_failed, Es_stopped]"
| "EVOLUTION_STAGE_TRANSITIONS Es_tasks_ready =
     [Es_implementation_loop, Es_needs_human, Es_failed, Es_stopped]"
| "EVOLUTION_STAGE_TRANSITIONS Es_implementation_loop =
     [Es_qa_completion, Es_tasks_ready, Es_needs_human, Es_failed, Es_stopped]"
| "EVOLUTION_STAGE_TRANSITIONS Es_qa_completion =
     [Es_delivery_ready, Es_implementation_loop, Es_needs_human, Es_failed, Es_stopped]"
| "EVOLUTION_STAGE_TRANSITIONS Es_delivery_ready =
     [Es_deployed_staging, Es_human_release_gate, Es_needs_human, Es_failed, Es_stopped]"
| "EVOLUTION_STAGE_TRANSITIONS Es_deployed_staging =
     [Es_human_release_gate, Es_needs_human, Es_failed, Es_stopped]"
| "EVOLUTION_STAGE_TRANSITIONS Es_human_release_gate =
     [Es_deployed_production, Es_needs_human, Es_failed, Es_stopped]"
| "EVOLUTION_STAGE_TRANSITIONS Es_deployed_production = []"
| "EVOLUTION_STAGE_TRANSITIONS Es_needs_human =
     [Es_intake_normalized, Es_product_discussion, Es_prd_ready, Es_design_lofi, Es_design_hifi,
      Es_architecture_baseline, Es_tasks_ready, Es_implementation_loop, Es_qa_completion,
      Es_delivery_ready, Es_stopped]"
| "EVOLUTION_STAGE_TRANSITIONS Es_failed = []"
| "EVOLUTION_STAGE_TRANSITIONS Es_stopped = []"

definition isEvolutionStage :: "jsval \<Rightarrow> bool" where
  "isEvolutionStage v = isOneOf v (map stageText EVOLUTION_STAGES)"

definition isEvolutionTerminalStage :: "jsval \<Rightarrow> bool" where
  "isEvolutionTerminalStage v = isOneOf v (map stageText EVOLUTION_TERMINAL_STAGES)"

definition canTransitionEvolutionStage :: "evolutionStage \<Rightarrow> evolutionStage \<Rightarrow> bool" where
  "canTransitionEvolutionStage s t = (t \<in> set (EVOLUTION_STAGE_TRANSITIONS s))"

abbreviation terminalStage :: "evolutionStage \<Rightarrow> bool" where
  "terminalStage s \<equiv> s \<in> set EVOLUTION_TERMINAL_STAGES"

lemma text_inj:
  assumes "\<And>x. x \<in> set xs" and "distinct (map f xs)"
  shows "f x = f y \<longleftrightarrow> x = y"
  using assms by (metis distinct_map inj_onD)

lemma stageText_inj [simp]: "stageText s = stageText t \<longleftrightarrow> s = t"
  by (rule text_inj [OF all_evolutionStage]) (simp add: EVOLUTION_STAGES_def)

lemma roleText_inj [simp]: "roleText s = roleText t \<longleftrightarrow> s = t"
  by (rule text_inj [OF all_evolutionRoleId]) (simp add: EVOLUTION_ROLE_IDS_def)

end
