(* ===== verification/EvoData.thy ===== *)
theory EvoData
  imports EvoTypes
begin

text \<open>
  The records of \<^verbatim>\<open>shared/evolution-pipeline-types.ts\<close>. A record of the sources that crosses the
  wire has a \<^verbatim>\<open>_js\<close> encoding as the object the code builds for it, members in declaration order;
  an absent optional member is left out. Points in time and exit codes are integers, sizes and
  counts natural numbers, scores numbers of any kind. A member whose type is a single literal
  (\<^verbatim>\<open>maxScore\<close>, \<^verbatim>\<open>source\<close> of a loop control, \<^verbatim>\<open>projectionVersion\<close>) appears in the encoding only.
\<close>

datatype autoDeployStage = Emd_none | Emd_staging

primrec autoDeployStageText :: "autoDeployStage \<Rightarrow> string" where
  "autoDeployStageText Emd_none = ''none''"
| "autoDeployStageText Emd_staging = ''staging''"

definition strs_js :: "string list \<Rightarrow> jsval" where
  "strs_js xs = Arr (map Str xs)"

lemma strs_js_simps [simp]: "arrItems (strs_js xs) = map Str xs" "isArray (strs_js xs)"
  "strs_js xs \<noteq> Undef"
  by (simp_all add: strs_js_def)

record sourceDocument =
  sd_relativePath :: string
  sd_fileName :: string
  sd_requestedBy :: "evolutionRequestedBy option"
  sd_sizeBytes :: "nat option"
  sd_sha256 :: "string option"
  sd_ingestedAt :: int

definition sourceDocument_js :: "sourceDocument \<Rightarrow> jsval" where
  "sourceDocument_js x = Obj (
      [(''relativePath'', Str (sd_relativePath x)), (''fileName'', Str (sd_fileName x))]
      @ optField ''requestedBy'' (\<lambda>x. Str (requestedByText x)) (sd_requestedBy x)
      @ optField ''sizeBytes'' (\<lambda>n. Nat n) (sd_sizeBytes x)
      @ optField ''sha256'' Str (sd_sha256 x)
      @ [(''ingestedAt'', Number (numOf (sd_ingestedAt x)))])"

record roleState =
  ro_roleId :: evolutionRoleId
  ro_label :: "string option"
  ro_skillName :: "string option"
  ro_skillSummary :: "string option"
  ro_responsibilities :: "string list option"
  ro_status :: evolutionRoleStatus
  ro_stage :: "evolutionStage option"
  ro_currentAction :: "string option"
  ro_sessionName :: "string option"
  ro_updatedAt :: int

definition roleState_js :: "roleState \<Rightarrow> jsval" where
  "roleState_js x = Obj (
      [(''roleId'', Str (roleText (ro_roleId x)))]
      @ optField ''label'' Str (ro_label x)
      @ optField ''skillName'' Str (ro_skillName x)
      @ optField ''skillSummary'' Str (ro_skillSummary x)
      @ optField ''responsibilities'' strs_js (ro_responsibilities x)
      @ [(''status'', Str (roleStatusText (ro_status x)))]
      @ optField ''stage'' (\<lambda>x. Str (stageText x)) (ro_stage x)
      @ optField ''currentAction'' Str (ro_currentAction x)
      @ optField ''sessionName'' Str (ro_sessionName x)
      @ [(''updatedAt'', Number (numOf (ro_updatedAt x)))])"

record artifactPreview =
  pv_previewType :: evolutionPreviewType
  pv_content :: string
  pv_language :: "string option"
  pv_truncated :: "bool option"

definition artifactPreview_js :: "artifactPreview \<Rightarrow> jsval" where
  "artifactPreview_js x = Obj (
      [(''previewType'', Str (previewTypeText (pv_previewType x))),
        (''content'', Str (pv_content x))]
      @ optField ''language'' Str (pv_language x)
      @ optField ''truncated'' Bool (pv_truncated x))"

record artifactRef =
  ar_id :: string
  ar_kind :: evolutionArtifactKind
  ar_path :: string
  ar_title :: "string option"
  ar_preview :: "artifactPreview option"
  ar_roleId :: "evolutionRoleId option"
  ar_stage :: "evolutionStage option"
  ar_sha256 :: "string option"
  ar_bytes :: "nat option"
  ar_createdAt :: int

definition artifactRef_js :: "artifactRef \<Rightarrow> jsval" where
  "artifactRef_js x = Obj (
      [(''id'', Str (ar_id x)), (''kind'', Str (artifactKindText (ar_kind x))),
        (''path'', Str (ar_path x))]
      @ optField ''title'' Str (ar_title x)
      @ optField ''preview'' artifactPreview_js (ar_preview x)
      @ optField ''roleId'' (\<lambda>x. Str (roleText x)) (ar_roleId x)
      @ optField ''stage'' (\<lambda>x. Str (stageText x)) (ar_stage x)
      @ optField ''sha256'' Str (ar_sha256 x)
      @ optField ''bytes'' (\<lambda>n. Nat n) (ar_bytes x)
      @ [(''createdAt'', Number (numOf (ar_createdAt x)))])"

record evolutionScore =
  sc_module :: evolutionScoreModule
  sc_score :: jsnum
  sc_summary :: string

definition evolutionScore_js :: "evolutionScore \<Rightarrow> jsval" where
  "evolutionScore_js x = Obj (
      [(''module'', Str (scoreModuleText (sc_module x))), (''score'', Number (sc_score x)),
        (''maxScore'', Nat 10), (''summary'', Str (sc_summary x))])"

record blockingQuestion =
  bq_id :: string
  bq_stage :: evolutionStage
  bq_roleId :: "evolutionRoleId option"
  bq_question :: string
  bq_createdAt :: int

definition blockingQuestion_js :: "blockingQuestion \<Rightarrow> jsval" where
  "blockingQuestion_js x = Obj (
      [(''id'', Str (bq_id x)), (''stage'', Str (stageText (bq_stage x)))]
      @ optField ''roleId'' (\<lambda>x. Str (roleText x)) (bq_roleId x)
      @ [(''question'', Str (bq_question x)), (''createdAt'', Number (numOf (bq_createdAt x)))])"

record evolutionEvidence =
  ev_source :: string
  ev_summary :: string
  ev_command :: "string option"
  ev_exitCode :: "int option"
  ev_artifactId :: "string option"
  ev_createdAt :: int

definition evolutionEvidence_js :: "evolutionEvidence \<Rightarrow> jsval" where
  "evolutionEvidence_js x = Obj (
      [(''source'', Str (ev_source x)), (''summary'', Str (ev_summary x))]
      @ optField ''command'' Str (ev_command x)
      @ optField ''exitCode'' (\<lambda>i. Number (numOf i)) (ev_exitCode x)
      @ optField ''artifactId'' Str (ev_artifactId x)
      @ [(''createdAt'', Number (numOf (ev_createdAt x)))])"

record discussionMessage =
  dm_id :: string
  dm_kind :: evolutionMessageKind
  dm_stage :: evolutionStage
  dm_roleId :: "evolutionRoleId option"
  dm_author :: string
  dm_text :: string
  dm_artifactIds :: "string list option"
  dm_createdAt :: int

definition discussionMessage_js :: "discussionMessage \<Rightarrow> jsval" where
  "discussionMessage_js x = Obj (
      [(''id'', Str (dm_id x)), (''kind'', Str (messageKindText (dm_kind x))),
        (''stage'', Str (stageText (dm_stage x)))]
      @ optField ''roleId'' (\<lambda>x. Str (roleText x)) (dm_roleId x)
      @ [(''author'', Str (dm_author x)), (''text'', Str (dm_text x))]
      @ optField ''artifactIds'' strs_js (dm_artifactIds x)
      @ [(''createdAt'', Number (numOf (dm_createdAt x)))])"

record roundtableRef =
  rt_id :: string
  rt_stage :: evolutionStage
  rt_topic :: string
  rt_roles :: "evolutionRoleId list"
  rt_status :: evolutionRoundtableStatus
  rt_p2pRunId :: "string option"
  rt_discussionId :: "string option"
  rt_contextPath :: "string option"
  rt_currentTargetSession :: "string option"
  rt_summary :: "string option"
  rt_error :: "string option"
  rt_completedAt :: "string option"
  rt_createdAt :: int
  rt_updatedAt :: int

definition roundtableRef_js :: "roundtableRef \<Rightarrow> jsval" where
  "roundtableRef_js x = Obj (
      [(''id'', Str (rt_id x)), (''stage'', Str (stageText (rt_stage x))),
        (''topic'', Str (rt_topic x)),
        (''roles'', Arr (map (\<lambda>r. Str (roleText r)) (rt_roles x))),
        (''status'', Str (roundtableStatusText (rt_status x)))]
      @ optField ''p2pRunId'' Str (rt_p2pRunId x)
      @ optField ''discussionId'' Str (rt_discussionId x)
      @ optField ''contextPath'' Str (rt_contextPath x)
      @ optField ''currentTargetSession'' Str (rt_currentTargetSession x)
      @ optField ''summary'' Str (rt_summary x)
      @ optField ''error'' Str (rt_error x)
      @ optField ''completedAt'' Str (rt_completedAt x)
      @ [(''createdAt'', Number (numOf (rt_createdAt x))),
        (''updatedAt'', Number (numOf (rt_updatedAt x)))])"

record evolutionBudget =
  bu_maxRoleTurns :: nat
  bu_maxElapsedMinutes :: nat
  bu_maxImplementationAttempts :: nat
  bu_maxAutoDeployStage :: autoDeployStage

definition evolutionBudget_js :: "evolutionBudget \<Rightarrow> jsval" where
  "evolutionBudget_js x = Obj (
      [(''maxRoleTurns'', Nat (bu_maxRoleTurns x)),
        (''maxElapsedMinutes'', Nat (bu_maxElapsedMinutes x)),
        (''maxImplementationAttempts'', Nat (bu_maxImplementationAttempts x)),
        (''maxAutoDeployStage'', Str (autoDeployStageText (bu_maxAutoDeployStage x)))])"

record loopControlUsage =
  lu_elapsedMinutes :: int
  lu_roleTurns :: nat
  lu_implementationAttempts :: nat
  lu_artifactCount :: nat
  lu_evidenceCount :: nat
  lu_discussionCount :: nat

definition loopControlUsage_js :: "loopControlUsage \<Rightarrow> jsval" where
  "loopControlUsage_js x = Obj (
      [(''elapsedMinutes'', Number (numOf (lu_elapsedMinutes x))),
        (''roleTurns'', Nat (lu_roleTurns x)),
        (''implementationAttempts'', Nat (lu_implementationAttempts x)),
        (''artifactCount'', Nat (lu_artifactCount x)),
        (''evidenceCount'', Nat (lu_evidenceCount x)),
        (''discussionCount'', Nat (lu_discussionCount x))])"

record loopControlSignal =
  ls_id :: string
  ls_label :: string
  ls_status :: loopSignalStatus
  ls_detail :: string
  ls_artifactIds :: "string list option"

definition loopControlSignal_js :: "loopControlSignal \<Rightarrow> jsval" where
  "loopControlSignal_js x = Obj (
      [(''id'', Str (ls_id x)), (''label'', Str (ls_label x)),
        (''status'', Str (loopSignalStatusText (ls_status x))),
        (''detail'', Str (ls_detail x))]
      @ optField ''artifactIds'' strs_js (ls_artifactIds x))"

record loopControl =
  lc_mode :: loopControlMode
  lc_readinessScore :: nat
  lc_canAutonomouslyContinue :: bool
  lc_currentGate :: string
  lc_budget :: evolutionBudget
  lc_usage :: loopControlUsage
  lc_signals :: "loopControlSignal list"
  lc_updatedAt :: int

definition loopControl_js :: "loopControl \<Rightarrow> jsval" where
  "loopControl_js x = Obj (
      [(''source'', Str ''loop_engineering''),
        (''mode'', Str (loopControlModeText (lc_mode x))),
        (''readinessScore'', Nat (lc_readinessScore x)),
        (''canAutonomouslyContinue'', Bool (lc_canAutonomouslyContinue x)),
        (''currentGate'', Str (lc_currentGate x)),
        (''budget'', evolutionBudget_js (lc_budget x)),
        (''usage'', loopControlUsage_js (lc_usage x)),
        (''signals'', Arr (map loopControlSignal_js (lc_signals x))),
        (''updatedAt'', Number (numOf (lc_updatedAt x)))])"

record autoDeliveryPolicy =
  ad_enabled :: bool
  ad_presetId :: evolutionPreset
  ad_autoCommitPush :: bool
  ad_requestedBy :: "evolutionRequestedBy option"
  ad_launchedAt :: "int option"
  ad_lastError :: "string option"

definition autoDeliveryPolicy_js :: "autoDeliveryPolicy \<Rightarrow> jsval" where
  "autoDeliveryPolicy_js x = Obj (
      [(''enabled'', Bool (ad_enabled x)),
        (''presetId'', Str (evolutionPresetText (ad_presetId x))),
        (''autoCommitPush'', Bool (ad_autoCommitPush x))]
      @ optField ''requestedBy'' (\<lambda>x. Str (requestedByText x)) (ad_requestedBy x)
      @ optField ''launchedAt'' (\<lambda>i. Number (numOf i)) (ad_launchedAt x)
      @ optField ''lastError'' Str (ad_lastError x))"

record stagingDeliveryState =
  sg_status :: evolutionStagingStatus
  sg_configPath :: "string option"
  sg_command :: "string option"
  sg_logArtifactId :: "string option"
  sg_exitCode :: "int option"
  sg_summary :: "string option"
  sg_startedAt :: "int option"
  sg_completedAt :: "int option"
  sg_lastError :: "string option"

definition stagingDeliveryState_js :: "stagingDeliveryState \<Rightarrow> jsval" where
  "stagingDeliveryState_js x = Obj (
      [(''status'', Str (stagingStatusText (sg_status x)))]
      @ optField ''configPath'' Str (sg_configPath x)
      @ optField ''command'' Str (sg_command x)
      @ optField ''logArtifactId'' Str (sg_logArtifactId x)
      @ optField ''exitCode'' (\<lambda>i. Number (numOf i)) (sg_exitCode x)
      @ optField ''summary'' Str (sg_summary x)
      @ optField ''startedAt'' (\<lambda>i. Number (numOf i)) (sg_startedAt x)
      @ optField ''completedAt'' (\<lambda>i. Number (numOf i)) (sg_completedAt x)
      @ optField ''lastError'' Str (sg_lastError x))"

record timelineItem =
  ti_id :: string
  ti_roleId :: evolutionRoleId
  ti_stage :: evolutionStage
  ti_status :: evolutionRoleStatus
  ti_title :: string
  ti_detail :: string
  ti_artifactIds :: "string list option"
  ti_source :: timelineSource
  ti_createdAt :: int

definition timelineItem_js :: "timelineItem \<Rightarrow> jsval" where
  "timelineItem_js x = Obj (
      [(''id'', Str (ti_id x)), (''roleId'', Str (roleText (ti_roleId x))),
        (''stage'', Str (stageText (ti_stage x))),
        (''status'', Str (roleStatusText (ti_status x))), (''title'', Str (ti_title x)),
        (''detail'', Str (ti_detail x))]
      @ optField ''artifactIds'' strs_js (ti_artifactIds x)
      @ [(''source'', Str (timelineSourceText (ti_source x))),
        (''createdAt'', Number (numOf (ti_createdAt x)))])"

record liveEventProgress =
  lp_current :: jsnum
  lp_total :: nat
  lp_label :: "string option"

definition liveEventProgress_js :: "liveEventProgress \<Rightarrow> jsval" where
  "liveEventProgress_js x = Obj (
      [(''current'', Number (lp_current x)), (''total'', Nat (lp_total x))]
      @ optField ''label'' Str (lp_label x))"

record liveEvent =
  le_id :: string
  le_source :: liveEventSource
  le_kind :: liveEventKind
  le_severity :: liveEventSeverity
  le_roleId :: "evolutionRoleId option"
  le_stage :: evolutionStage
  le_title :: string
  le_detail :: string
  le_progress :: "liveEventProgress option"
  le_command :: "string option"
  le_exitCode :: "int option"
  le_artifactIds :: "string list option"
  le_createdAt :: int

definition liveEvent_js :: "liveEvent \<Rightarrow> jsval" where
  "liveEvent_js x = Obj (
      [(''id'', Str (le_id x)), (''source'', Str (liveEventSourceText (le_source x))),
        (''kind'', Str (liveEventKindText (le_kind x))),
        (''severity'', Str (liveEventSeverityText (le_severity x)))]
      @ optField ''roleId'' (\<lambda>x. Str (roleText x)) (le_roleId x)
      @ [(''stage'', Str (stageText (le_stage x))), (''title'', Str (le_title x)),
        (''detail'', Str (le_detail x))]
      @ optField ''progress'' liveEventProgress_js (le_progress x)
      @ optField ''command'' Str (le_command x)
      @ optField ''exitCode'' (\<lambda>i. Number (numOf i)) (le_exitCode x)
      @ optField ''artifactIds'' strs_js (le_artifactIds x)
      @ [(''createdAt'', Number (numOf (le_createdAt x)))])"

record evolutionRun =
  run_runId :: string
  run_requestId :: string
  run_stage :: evolutionStage
  run_verdict :: "evolutionVerdict option"
  run_serverId :: "string option"
  run_sessionName :: string
  run_projectName :: "string option"
  run_projectRoot :: "string option"
  run_source :: sourceDocument
  run_roles :: "roleState list"
  run_artifacts :: "artifactRef list"
  run_scores :: "evolutionScore list"
  run_blockingQuestions :: "blockingQuestion list"
  run_discussion :: "discussionMessage list"
  run_roundtables :: "roundtableRef list"
  run_roundtableGateMode :: evolutionGateMode
  run_designTargetSurface :: "evolutionSurface option"
  run_evidence :: "evolutionEvidence list"
  run_executionTimeline :: "timelineItem list option"
  run_liveEvents :: "liveEvent list option"
  run_budget :: evolutionBudget
  run_autoDelivery :: "autoDeliveryPolicy option"
  run_stagingDelivery :: "stagingDeliveryState option"
  run_linkedOpenSpecChange :: "string option"
  run_linkedAutoDeliverRunId :: "string option"
  run_latestMessage :: "string option"
  run_terminalReason :: "string option"
  run_createdAt :: int
  run_updatedAt :: int

record evolutionProjection =
  pj_runId :: string
  pj_requestId :: string
  pj_stage :: evolutionStage
  pj_verdict :: "evolutionVerdict option"
  pj_sessionName :: string
  pj_projectName :: "string option"
  pj_source :: sourceDocument
  pj_roles :: "roleState list"
  pj_artifacts :: "artifactRef list"
  pj_scores :: "evolutionScore list"
  pj_blockingQuestions :: "blockingQuestion list"
  pj_discussion :: "discussionMessage list"
  pj_roundtables :: "roundtableRef list"
  pj_roundtableGateMode :: evolutionGateMode
  pj_designTargetSurface :: "evolutionSurface option"
  pj_evidence :: "evolutionEvidence list"
  pj_executionTimeline :: "timelineItem list"
  pj_liveEvents :: "liveEvent list"
  pj_loopControl :: loopControl
  pj_autoDelivery :: "autoDeliveryPolicy option"
  pj_stagingDelivery :: "stagingDeliveryState option"
  pj_linkedOpenSpecChange :: "string option"
  pj_linkedAutoDeliverRunId :: "string option"
  pj_latestMessage :: "string option"
  pj_terminalReason :: "string option"
  pj_elapsedMs :: int
  pj_updatedAt :: int

definition evolutionProjection_js :: "evolutionProjection \<Rightarrow> jsval" where
  "evolutionProjection_js x = Obj (
      [(''projectionVersion'', Nat 1), (''runId'', Str (pj_runId x)),
        (''requestId'', Str (pj_requestId x)), (''stage'', Str (stageText (pj_stage x)))]
      @ optField ''verdict'' (\<lambda>x. Str (evolutionVerdictText x)) (pj_verdict x)
      @ [(''sessionName'', Str (pj_sessionName x))]
      @ optField ''projectName'' Str (pj_projectName x)
      @ [(''source'', sourceDocument_js (pj_source x)),
        (''roles'', Arr (map roleState_js (pj_roles x))),
        (''artifacts'', Arr (map artifactRef_js (pj_artifacts x))),
        (''scores'', Arr (map evolutionScore_js (pj_scores x))),
        (''blockingQuestions'', Arr (map blockingQuestion_js (pj_blockingQuestions x))),
        (''discussion'', Arr (map discussionMessage_js (pj_discussion x))),
        (''roundtables'', Arr (map roundtableRef_js (pj_roundtables x))),
        (''roundtableGateMode'', Str (gateModeText (pj_roundtableGateMode x)))]
      @ optField ''designTargetSurface'' (\<lambda>x. Str (surfaceText x)) (pj_designTargetSurface x)
      @ [(''evidence'', Arr (map evolutionEvidence_js (pj_evidence x))),
        (''executionTimeline'', Arr (map timelineItem_js (pj_executionTimeline x))),
        (''liveEvents'', Arr (map liveEvent_js (pj_liveEvents x))),
        (''loopControl'', loopControl_js (pj_loopControl x))]
      @ optField ''autoDelivery'' autoDeliveryPolicy_js (pj_autoDelivery x)
      @ optField ''stagingDelivery'' stagingDeliveryState_js (pj_stagingDelivery x)
      @ optField ''linkedOpenSpecChange'' Str (pj_linkedOpenSpecChange x)
      @ optField ''linkedAutoDeliverRunId'' Str (pj_linkedAutoDeliverRunId x)
      @ optField ''latestMessage'' Str (pj_latestMessage x)
      @ optField ''terminalReason'' Str (pj_terminalReason x)
      @ [(''elapsedMs'', Number (numOf (pj_elapsedMs x))),
        (''updatedAt'', Number (numOf (pj_updatedAt x)))])"

record evolutionLaunchRequest =
  lq_requestId :: string
  lq_serverId :: "string option"
  lq_sessionName :: string
  lq_projectName :: "string option"
  lq_sourceRelativePath :: string
  lq_sourceSizeBytes :: "nat option"
  lq_sourceSha256 :: "string option"
  lq_locale :: "string option"
  lq_requestedBy :: "evolutionRequestedBy option"
  lq_autoStart :: "bool option"
  lq_autoStartImplementation :: "bool option"
  lq_autoDeliverPresetId :: "evolutionPreset option"
  lq_autoCommitPush :: "bool option"
  lq_roundtableGateMode :: "evolutionGateMode option"
  lq_designTargetSurface :: "evolutionSurface option"

end
