(* ===== verification/EvoValidators.thy ===== *)
theory EvoValidators
  imports EvoData
begin

text \<open>
  The checks of \<^verbatim>\<open>shared/evolution-pipeline-validators.ts\<close>: identifiers, paths, launch requests and
  the projection the daemon sends. A check is a function from an untyped value to its list of
  issues; a normalization builds a fresh object of the known members. The English message of an
  issue is display text and left out; every issue has severity \<^verbatim>\<open>error\<close>.
\<close>

record evolutionIssue =
  is_code :: string
  is_path :: "string option"

definition issueAt :: "string \<Rightarrow> string \<Rightarrow> evolutionIssue" where
  "issueAt code path = \<lparr>is_code = code, is_path = Some path\<rparr>"

definition issueOf :: "string \<Rightarrow> evolutionIssue" where
  "issueOf code = \<lparr>is_code = code, is_path = None\<rparr>"

text \<open>One check: the issue is reported unless the condition holds.\<close>

definition need :: "bool \<Rightarrow> string \<Rightarrow> string \<Rightarrow> evolutionIssue list" where
  "need ok code path = (if ok then [] else [issueAt code path])"

lemma need_Nil_iff [simp]: "need ok code path = [] \<longleftrightarrow> ok"
  by (simp add: need_def)

section \<open>Conditions on untyped values\<close>

definition nonEmptyStr :: "jsval \<Rightarrow> bool" where
  "nonEmptyStr v = (isString v \<and> length (strOf v) \<noteq> 0)"

definition nonBlankStr :: "jsval \<Rightarrow> bool" where
  "nonBlankStr v = (isString v \<and> length (trim (strOf v)) \<noteq> 0)"

definition finiteVal :: "jsval \<Rightarrow> bool" where
  "finiteVal v = (case v of Number n \<Rightarrow> numFinite n | _ \<Rightarrow> False)"

definition nonNegFinite :: "jsval \<Rightarrow> bool" where
  "nonNegFinite v = (finiteVal v \<and> \<not> numLess (numOfVal v) (Num 0))"

definition nonNegInt :: "jsval \<Rightarrow> bool" where
  "nonNegInt v = (integerVal v \<and> \<not> numLess (numOfVal v) (Num 0))"

definition finiteUpTo :: "nat \<Rightarrow> jsval \<Rightarrow> bool" where
  "finiteUpTo hi v = (nonNegFinite v \<and> \<not> numLess (Num (of_nat hi)) (numOfVal v))"

definition stringArr :: "jsval \<Rightarrow> bool" where
  "stringArr v = (isArray v \<and> list_all isString (arrItems v))"

definition absentOr :: "(jsval \<Rightarrow> bool) \<Rightarrow> jsval \<Rightarrow> bool" where
  "absentOr P v = (v = Undef \<or> P v)"

abbreviation isRole :: "jsval \<Rightarrow> bool" where
  "isRole v \<equiv> isOneOf v (map roleText EVOLUTION_ROLE_IDS)"

abbreviation isStage :: "jsval \<Rightarrow> bool" where
  "isStage v \<equiv> isOneOf v (map stageText EVOLUTION_STAGES)"

abbreviation isRequestedBy :: "jsval \<Rightarrow> bool" where
  "isRequestedBy v \<equiv> isOneOf v (map requestedByText REQUESTED_BY_VALUES)"

text \<open>\<^verbatim>\<open>/^[a-fA-F0-9]{64}$/\<close>.\<close>

definition isSha256 :: "jsval \<Rightarrow> bool" where
  "isSha256 v = (isString v \<and> isHexText 64 64 (strOf v))"

section \<open>Identifiers and paths\<close>

definition isVisibleAscii :: "char \<Rightarrow> bool" where
  "isVisibleAscii c = (33 \<le> codeUnit c \<and> codeUnit c \<le> 126)"

text \<open>\<^verbatim>\<open>/^[A-Za-z0-9][A-Za-z0-9_.:-]*$/\<close>.\<close>

definition isAlphaNum :: "char \<Rightarrow> bool" where
  "isAlphaNum c = (isLowerAz c \<or> isUpperAz c \<or> isDigitChar c)"

definition isSafeSegmentId :: "string \<Rightarrow> bool" where
  "isSafeSegmentId s = (case s of [] \<Rightarrow> False
     | c # cs \<Rightarrow> isAlphaNum c \<and> list_all (\<lambda>d. isAlphaNum d \<or> d \<in> set ''_.:-'') cs)"

text \<open>\<^verbatim>\<open>value.includes('..')\<close>.\<close>

fun hasTwoDots :: "string \<Rightarrow> bool" where
  "hasTwoDots (c # d # cs) = (c = CHR ''.'' \<and> d = CHR ''.'' \<or> hasTwoDots (d # cs))"
| "hasTwoDots _ = False"

definition validateEvolutionRequestId :: "jsval \<Rightarrow> evolutionIssue list + string" where
  "validateEvolutionRequestId v =
     (if \<not> isString v \<or> length (strOf v) = 0 \<or> byteLength (strOf v) > EVOLUTION_REQUEST_ID_MAX_BYTES
         \<or> \<not> list_all isVisibleAscii (strOf v)
      then Inl [issueOf ''invalid_request_id''] else Inr (strOf v))"

definition validateEvolutionRunId :: "jsval \<Rightarrow> evolutionIssue list + string" where
  "validateEvolutionRunId v =
     (if \<not> isString v \<or> length (strOf v) = 0 \<or> byteLength (strOf v) > EVOLUTION_RUN_ID_MAX_BYTES
         \<or> \<not> isSafeSegmentId (strOf v) \<or> hasTwoDots (strOf v)
      then Inl [issueOf ''invalid_run_id''] else Inr (strOf v))"

text \<open>\<^verbatim>\<open>/^[a-zA-Z]:[\\/]/\<close> and \<^verbatim>\<open>/^(?:\\\\|\/\/)[^\\/]+[\\/][^\\/]+/\<close>.\<close>

definition isSlash :: "char \<Rightarrow> bool" where
  "isSlash c = (c = CHR ''/'' \<or> c = CHR 0x5C)"

definition isWindowsDrive :: "string \<Rightarrow> bool" where
  "isWindowsDrive p = (case p of
     c # d # e # _ \<Rightarrow> (isLowerAz c \<or> isUpperAz c) \<and> d = CHR '':'' \<and> isSlash e | _ \<Rightarrow> False)"

definition isWindowsUnc :: "string \<Rightarrow> bool" where
  "isWindowsUnc p = (case p of
     c # d # rest \<Rightarrow> isSlash c \<and> d = c \<and> takeWhile (Not \<circ> isSlash) rest \<noteq> []
       \<and> (case dropWhile (Not \<circ> isSlash) rest of s # e # _ \<Rightarrow> \<not> isSlash e | _ \<Rightarrow> False)
   | _ \<Rightarrow> False)"

definition isEvolutionSafeRelativePath :: "string \<Rightarrow> bool" where
  "isEvolutionSafeRelativePath p =
     (if p = [] \<or> CHR 0x00 \<in> set p then False
      else if startsWith p ''/'' \<or> startsWith p ''~'' \<or> CHR 0x5C \<in> set p then False
      else if isWindowsDrive p \<or> isWindowsUnc p then False
      else list_all (\<lambda>s. s \<noteq> [] \<and> s \<noteq> ''.'' \<and> s \<noteq> ''..'') (splitOn (CHR ''/'') p))"

definition fileNameFromRelativePath :: "string \<Rightarrow> string" where
  "fileNameFromRelativePath p = (let segments = filter (\<lambda>s. s \<noteq> []) (splitOn (CHR ''/'') p) in
     if 0 < length segments then last segments else p)"

definition extensionOf :: "string \<Rightarrow> string" where
  "extensionOf p = (let fileName = toLower (fileNameFromRelativePath p) in
     if CHR ''.'' \<in> set fileName then CHR ''.'' # rev (takeWhile (\<lambda>c. c \<noteq> CHR ''.'') (rev fileName))
     else [])"

definition inboxPrefix :: string where
  "inboxPrefix = EVOLUTION_REQUIREMENT_INBOX_DIR @ ''/''"

definition sourcePathIssues :: "string \<Rightarrow> evolutionIssue list" where
  "sourcePathIssues v = (let sourcePath = trim v in
     pushIf (sourcePath \<noteq> v) (issueOf ''source_path_whitespace'')
     @ pushIf (byteLength sourcePath > EVOLUTION_SOURCE_PATH_MAX_BYTES) (issueOf ''source_path_too_large'')
     @ pushIf (\<not> isEvolutionSafeRelativePath sourcePath) (issueOf ''unsafe_source_path'')
     @ pushIf (\<not> startsWith sourcePath inboxPrefix) (issueOf ''source_path_outside_inbox'')
     @ pushIf (extensionOf sourcePath \<notin> set EVOLUTION_REQUIREMENT_FILE_EXTENSIONS)
         (issueOf ''unsupported_requirement_extension''))"

definition validateEvolutionRequirementSourcePath :: "jsval \<Rightarrow> evolutionIssue list + string" where
  "validateEvolutionRequirementSourcePath v =
     (if \<not> isString v then Inl [issueOf ''invalid_source_path'']
      else let issues = sourcePathIssues (strOf v) in
        if issues \<noteq> [] then Inl issues else Inr (trim (strOf v)))"

definition validateEvolutionArtifactRelativePath :: "jsval \<Rightarrow> string \<Rightarrow> evolutionIssue list + string" where
  "validateEvolutionArtifactRelativePath v path =
     (if \<not> isString v then Inl [issueAt ''invalid_artifact_path'' path]
      else if byteLength (strOf v) > EVOLUTION_ARTIFACT_PATH_MAX_BYTES
              \<or> \<not> isEvolutionSafeRelativePath (strOf v)
      then Inl [issueAt ''unsafe_artifact_path'' path] else Inr (strOf v))"

definition validateEvolutionStageTransition ::
    "evolutionStage \<Rightarrow> evolutionStage \<Rightarrow> evolutionIssue list + evolutionStage \<times> evolutionStage" where
  "validateEvolutionStageTransition s t =
     (if \<not> canTransitionEvolutionStage s t then Inl [issueOf ''invalid_stage_transition''] else Inr (s, t))"

text \<open>\<^verbatim>\<open>if (!r.ok) issues.push(...r.issues)\<close>, plain or with a path set on each issue.\<close>

fun issuesOf :: "evolutionIssue list + 'a \<Rightarrow> evolutionIssue list" where
  "issuesOf (Inl issues) = issues"
| "issuesOf (Inr _) = []"

definition withPath :: "string \<Rightarrow> evolutionIssue list \<Rightarrow> evolutionIssue list" where
  "withPath path issues = map (\<lambda>e. e\<lparr>is_path := Some path\<rparr>) issues"

text \<open>\<^verbatim>\<open>path: prefix + (entry.path ?? fallback)\<close>.\<close>

definition withPathOr :: "string \<Rightarrow> string \<Rightarrow> evolutionIssue list \<Rightarrow> evolutionIssue list" where
  "withPathOr prefix fallback issues = map (\<lambda>e. e\<lparr>is_path :=
     Some (prefix @ (case is_path e of Some p \<Rightarrow> p | None \<Rightarrow> fallback))\<rparr>) issues"

section \<open>Launch requests\<close>

text \<open>The member of a closed union behind a value: \<^verbatim>\<open>isOneOf(v, XS) ? v : ...\<close>.\<close>

definition readEnum :: "('a \<Rightarrow> string) \<Rightarrow> 'a list \<Rightarrow> jsval \<Rightarrow> 'a option" where
  "readEnum txt xs v = List.find (\<lambda>x. v = Str (txt x)) xs"

definition readStr :: "jsval \<Rightarrow> string option" where
  "readStr v = (case v of Str s \<Rightarrow> Some s | _ \<Rightarrow> None)"

definition readNat :: "jsval \<Rightarrow> nat option" where
  "readNat v = (case v of Number (Num r) \<Rightarrow> Some (nat \<lfloor>r\<rfloor>) | _ \<Rightarrow> None)"

definition launchRequestIssues :: "jsval \<Rightarrow> evolutionIssue list" where
  "launchRequestIssues input =
     withPath ''requestId'' (issuesOf (validateEvolutionRequestId (fld input ''requestId'')))
     @ need (absentOr nonEmptyStr (fld input ''serverId'')) ''invalid_server_id'' ''serverId''
     @ need (nonEmptyStr (fld input ''sessionName'')) ''invalid_session_name'' ''sessionName''
     @ need (absentOr isString (fld input ''projectName'')) ''invalid_project_name'' ''projectName''
     @ withPathOr [] ''sourceRelativePath''
         (issuesOf (validateEvolutionRequirementSourcePath (fld input ''sourceRelativePath'')))
     @ need (absentOr (\<lambda>v. nonNegInt v
           \<and> \<not> numLess (Num (of_nat EVOLUTION_REQUIREMENT_FILE_MAX_BYTES)) (numOfVal v))
         (fld input ''sourceSizeBytes'')) ''invalid_source_size'' ''sourceSizeBytes''
     @ need (absentOr isSha256 (fld input ''sourceSha256'')) ''invalid_source_sha256'' ''sourceSha256''
     @ need (absentOr nonBlankStr (fld input ''locale'')) ''invalid_locale'' ''locale''
     @ need (absentOr isRequestedBy (fld input ''requestedBy'')) ''invalid_requested_by'' ''requestedBy''
     @ need (absentOr isBool (fld input ''autoStart'')) ''invalid_auto_start'' ''autoStart''
     @ need (absentOr isBool (fld input ''autoStartImplementation''))
         ''invalid_auto_start_implementation'' ''autoStartImplementation''
     @ need (absentOr (\<lambda>v. isOneOf v (map evolutionPresetText EVOLUTION_AUTO_DELIVER_PRESET_IDS))
         (fld input ''autoDeliverPresetId'')) ''invalid_auto_deliver_preset_id'' ''autoDeliverPresetId''
     @ need (absentOr isBool (fld input ''autoCommitPush'')) ''invalid_auto_commit_push'' ''autoCommitPush''
     @ need (absentOr (\<lambda>v. isOneOf v (map gateModeText EVOLUTION_ROUNDTABLE_GATE_MODES))
         (fld input ''roundtableGateMode'')) ''invalid_roundtable_gate_mode'' ''roundtableGateMode''
     @ need (absentOr (\<lambda>v. isOneOf v (map surfaceText EVOLUTION_DESIGN_TARGET_SURFACES))
         (fld input ''designTargetSurface'')) ''invalid_design_target_surface'' ''designTargetSurface''"

definition validateEvolutionLaunchRequest ::
    "jsval \<Rightarrow> evolutionIssue list + evolutionLaunchRequest" where
  "validateEvolutionLaunchRequest input =
     (if \<not> isRecord input then Inl [issueOf ''invalid_launch_request'']
      else let issues = launchRequestIssues input in
        if issues \<noteq> [] then Inl issues
        else Inr \<lparr>
          lq_requestId = (case validateEvolutionRequestId (fld input ''requestId'') of
             Inr s \<Rightarrow> s | Inl _ \<Rightarrow> []),
          lq_serverId = readStr (fld input ''serverId''),
          lq_sessionName = strOf (fld input ''sessionName''),
          lq_projectName = readStr (fld input ''projectName''),
          lq_sourceRelativePath =
            (case validateEvolutionRequirementSourcePath (fld input ''sourceRelativePath'') of
               Inr s \<Rightarrow> s | Inl _ \<Rightarrow> []),
          lq_sourceSizeBytes = readNat (fld input ''sourceSizeBytes''),
          lq_sourceSha256 = map_option toLower (readStr (fld input ''sourceSha256'')),
          lq_locale = map_option trim (readStr (fld input ''locale'')),
          lq_requestedBy = Some (case readEnum requestedByText REQUESTED_BY_VALUES
             (fld input ''requestedBy'') of Some r \<Rightarrow> r | None \<Rightarrow> Erb_user),
          lq_autoStart = Some (fld input ''autoStart'' = Bool True),
          lq_autoStartImplementation = Some (fld input ''autoStartImplementation'' = Bool True),
          lq_autoDeliverPresetId = Some (case readEnum evolutionPresetText
             EVOLUTION_AUTO_DELIVER_PRESET_IDS (fld input ''autoDeliverPresetId'') of
               Some p \<Rightarrow> p | None \<Rightarrow> Eap_standard),
          lq_autoCommitPush = Some (fld input ''autoCommitPush'' = Bool True),
          lq_roundtableGateMode = Some (case readEnum gateModeText EVOLUTION_ROUNDTABLE_GATE_MODES
             (fld input ''roundtableGateMode'') of Some m \<Rightarrow> m | None \<Rightarrow> Egm_planning),
          lq_designTargetSurface = Some (case readEnum surfaceText EVOLUTION_DESIGN_TARGET_SURFACES
             (fld input ''designTargetSurface'') of Some d \<Rightarrow> d | None \<Rightarrow> Eds_auto)\<rparr>)"

end
