(* ===== verification/EvoChecks.thy ===== *)
theory EvoChecks
  imports EvoValidators
begin

text \<open>
  The parts of a projection in \<^verbatim>\<open>shared/evolution-pipeline-validators.ts\<close>: one check and one
  normalization per record, then the check of the whole projection. A normalization keeps the
  members of the record's type and drops every other member of the value.
\<close>

text \<open>The spread \<^verbatim>\<open>...(P(v) ? { k: v } : {})\<close>, plain or with the value converted.\<close>

definition keep :: "string \<Rightarrow> (jsval \<Rightarrow> bool) \<Rightarrow> jsval \<Rightarrow> (string \<times> jsval) list" where
  "keep k P v = (if P v then [(k, v)] else [])"

definition keepAs :: "string \<Rightarrow> (jsval \<Rightarrow> bool) \<Rightarrow> (jsval \<Rightarrow> jsval) \<Rightarrow> jsval \<Rightarrow> (string \<times> jsval) list" where
  "keepAs k P f v = (if P v then [(k, f v)] else [])"

text \<open>The string elements of an array, and a digest in lower case.\<close>

definition stringsOf :: "jsval \<Rightarrow> jsval" where
  "stringsOf v = Arr (filter isString (arrItems v))"

definition lowerVal :: "jsval \<Rightarrow> jsval" where
  "lowerVal v = Str (toLower (strOf v))"

definition atIndex :: "string \<Rightarrow> nat \<Rightarrow> string" where
  "atIndex path i = path @ ''['' @ showNat i @ '']''"

definition eachIssue :: "(jsval \<Rightarrow> string \<Rightarrow> evolutionIssue list) \<Rightarrow> jsval \<Rightarrow> string \<Rightarrow> evolutionIssue list" where
  "eachIssue check v path = concatIndexed (\<lambda>i x. check x (atIndex path i)) 0 (arrItems v)"

section \<open>Delivery policy and state\<close>

definition validateAutoDeliveryPolicy :: "jsval \<Rightarrow> string \<Rightarrow> evolutionIssue list" where
  "validateAutoDeliveryPolicy input path =
     (if input = Undef then []
      else if \<not> isRecord input then [issueAt ''invalid_auto_delivery_policy'' path]
      else
        need (isBool (fld input ''enabled'')) ''invalid_auto_delivery_enabled'' (path @ ''.enabled'')
        @ need (isOneOf (fld input ''presetId'') (map evolutionPresetText EVOLUTION_AUTO_DELIVER_PRESET_IDS))
            ''invalid_auto_delivery_preset'' (path @ ''.presetId'')
        @ need (isBool (fld input ''autoCommitPush''))
            ''invalid_auto_delivery_auto_commit_push'' (path @ ''.autoCommitPush'')
        @ need (absentOr isRequestedBy (fld input ''requestedBy''))
            ''invalid_auto_delivery_requested_by'' (path @ ''.requestedBy'')
        @ need (absentOr finiteVal (fld input ''launchedAt''))
            ''invalid_auto_delivery_launched_at'' (path @ ''.launchedAt'')
        @ need (absentOr isString (fld input ''lastError''))
            ''invalid_auto_delivery_last_error'' (path @ ''.lastError''))"

definition normalizeAutoDeliveryPolicy :: "jsval \<Rightarrow> jsval" where
  "normalizeAutoDeliveryPolicy input = Obj (
     [(''enabled'', Bool (fld input ''enabled'' = Bool True)),
      (''presetId'', fld input ''presetId''),
      (''autoCommitPush'', Bool (fld input ''autoCommitPush'' = Bool True))]
     @ keep ''requestedBy'' isRequestedBy (fld input ''requestedBy'')
     @ keep ''launchedAt'' isNumber (fld input ''launchedAt'')
     @ keep ''lastError'' isString (fld input ''lastError''))"

definition validateStagingDeliveryState :: "jsval \<Rightarrow> string \<Rightarrow> evolutionIssue list" where
  "validateStagingDeliveryState input path =
     (if input = Undef then []
      else if \<not> isRecord input then [issueAt ''invalid_staging_delivery_state'' path]
      else
        need (isOneOf (fld input ''status'') (map stagingStatusText EVOLUTION_STAGING_DELIVERY_STATUSES))
          ''invalid_staging_delivery_status'' (path @ ''.status'')
        @ (if fld input ''configPath'' \<noteq> Undef
           then issuesOf (validateEvolutionArtifactRelativePath (fld input ''configPath'') (path @ ''.configPath''))
           else [])
        @ need (absentOr isString (fld input ''command''))
            ''invalid_staging_delivery_command'' (path @ ''.command'')
        @ need (absentOr isString (fld input ''logArtifactId''))
            ''invalid_staging_delivery_log_artifact'' (path @ ''.logArtifactId'')
        @ need (absentOr integerVal (fld input ''exitCode''))
            ''invalid_staging_delivery_exit_code'' (path @ ''.exitCode'')
        @ need (absentOr isString (fld input ''summary''))
            ''invalid_staging_delivery_summary'' (path @ ''.summary'')
        @ need (absentOr finiteVal (fld input ''startedAt''))
            ''invalid_staging_delivery_started_at'' (path @ ''.startedAt'')
        @ need (absentOr finiteVal (fld input ''completedAt''))
            ''invalid_staging_delivery_completed_at'' (path @ ''.completedAt'')
        @ need (absentOr isString (fld input ''lastError''))
            ''invalid_staging_delivery_last_error'' (path @ ''.lastError''))"

definition normalizeStagingDeliveryState :: "jsval \<Rightarrow> jsval" where
  "normalizeStagingDeliveryState input = Obj (
     [(''status'', fld input ''status'')]
     @ keep ''configPath'' isString (fld input ''configPath'')
     @ keep ''command'' isString (fld input ''command'')
     @ keep ''logArtifactId'' isString (fld input ''logArtifactId'')
     @ keep ''exitCode'' isNumber (fld input ''exitCode'')
     @ keep ''summary'' isString (fld input ''summary'')
     @ keep ''startedAt'' isNumber (fld input ''startedAt'')
     @ keep ''completedAt'' isNumber (fld input ''completedAt'')
     @ keep ''lastError'' isString (fld input ''lastError''))"

section \<open>Roles and artifacts\<close>

definition validateRoleState :: "jsval \<Rightarrow> string \<Rightarrow> evolutionIssue list" where
  "validateRoleState input path =
     (if \<not> isRecord input then [issueAt ''invalid_role_state'' path]
      else
        need (isRole (fld input ''roleId'')) ''invalid_role_id'' (path @ ''.roleId'')
        @ need (isOneOf (fld input ''status'') (map roleStatusText EVOLUTION_ROLE_STATUSES))
            ''invalid_role_status'' (path @ ''.status'')
        @ need (absentOr isString (fld input ''label'')) ''invalid_role_label'' (path @ ''.label'')
        @ need (absentOr isString (fld input ''skillName'')) ''invalid_role_skill_name'' (path @ ''.skillName'')
        @ need (absentOr isString (fld input ''skillSummary''))
            ''invalid_role_skill_summary'' (path @ ''.skillSummary'')
        @ need (absentOr stringArr (fld input ''responsibilities''))
            ''invalid_role_responsibilities'' (path @ ''.responsibilities'')
        @ need (absentOr isStage (fld input ''stage'')) ''invalid_role_stage'' (path @ ''.stage'')
        @ need (absentOr isString (fld input ''currentAction''))
            ''invalid_role_current_action'' (path @ ''.currentAction'')
        @ need (absentOr isString (fld input ''sessionName''))
            ''invalid_role_session_name'' (path @ ''.sessionName'')
        @ need (absentOr finiteVal (fld input ''updatedAt''))
            ''invalid_role_updated_at'' (path @ ''.updatedAt''))"

text \<open>\<open>nowMs\<close> is the value of \<^verbatim>\<open>Date.now()\<close>, used for a role without a time.\<close>

definition normalizeRoleState :: "int \<Rightarrow> jsval \<Rightarrow> jsval" where
  "normalizeRoleState nowMs input = Obj (
     [(''roleId'', fld input ''roleId'')]
     @ keep ''label'' isString (fld input ''label'')
     @ keep ''skillName'' isString (fld input ''skillName'')
     @ keep ''skillSummary'' isString (fld input ''skillSummary'')
     @ keepAs ''responsibilities'' isArray stringsOf (fld input ''responsibilities'')
     @ [(''status'', fld input ''status'')]
     @ keep ''stage'' isEvolutionStage (fld input ''stage'')
     @ keep ''currentAction'' isString (fld input ''currentAction'')
     @ keep ''sessionName'' isString (fld input ''sessionName'')
     @ [(''updatedAt'', if isNumber (fld input ''updatedAt'') then fld input ''updatedAt''
          else Number (numOf nowMs))])"

definition validateArtifactPreview :: "jsval \<Rightarrow> string \<Rightarrow> evolutionIssue list" where
  "validateArtifactPreview input path =
     (if \<not> isRecord input then [issueAt ''invalid_artifact_preview'' path]
      else
        need (isOneOf (fld input ''previewType'') (map previewTypeText EVOLUTION_ARTIFACT_PREVIEW_TYPES))
          ''invalid_artifact_preview_type'' (path @ ''.previewType'')
        @ (if \<not> isString (fld input ''content'')
           then [issueAt ''invalid_artifact_preview_content'' (path @ ''.content'')]
           else need (length (strOf (fld input ''content'')) \<le> EVOLUTION_ARTIFACT_PREVIEW_MAX_CHARS)
             ''artifact_preview_too_large'' (path @ ''.content''))
        @ need (absentOr isString (fld input ''language''))
            ''invalid_artifact_preview_language'' (path @ ''.language'')
        @ need (absentOr isBool (fld input ''truncated''))
            ''invalid_artifact_preview_truncated'' (path @ ''.truncated''))"

definition normalizeArtifactPreview :: "jsval \<Rightarrow> jsval" where
  "normalizeArtifactPreview input = Obj (
     [(''previewType'', fld input ''previewType''), (''content'', fld input ''content'')]
     @ keep ''language'' isString (fld input ''language'')
     @ keep ''truncated'' isBool (fld input ''truncated''))"

definition validateArtifactRef :: "jsval \<Rightarrow> string \<Rightarrow> evolutionIssue list" where
  "validateArtifactRef input path =
     (if \<not> isRecord input then [issueAt ''invalid_artifact_ref'' path]
      else
        need (nonEmptyStr (fld input ''id'')) ''invalid_artifact_id'' (path @ ''.id'')
        @ need (isOneOf (fld input ''kind'') (map artifactKindText EVOLUTION_ARTIFACT_KINDS))
            ''invalid_artifact_kind'' (path @ ''.kind'')
        @ (if fld input ''preview'' \<noteq> Undef
           then validateArtifactPreview (fld input ''preview'') (path @ ''.preview'') else [])
        @ issuesOf (validateEvolutionArtifactRelativePath (fld input ''path'') (path @ ''.path''))
        @ need (absentOr isRole (fld input ''roleId'')) ''invalid_artifact_role_id'' (path @ ''.roleId'')
        @ need (absentOr isStage (fld input ''stage'')) ''invalid_artifact_stage'' (path @ ''.stage'')
        @ need (absentOr isSha256 (fld input ''sha256'')) ''invalid_artifact_sha256'' (path @ ''.sha256'')
        @ need (absentOr nonNegInt (fld input ''bytes'')) ''invalid_artifact_bytes'' (path @ ''.bytes'')
        @ need (finiteVal (fld input ''createdAt''))
            ''invalid_artifact_created_at'' (path @ ''.createdAt''))"

definition normalizeArtifactRef :: "jsval \<Rightarrow> jsval" where
  "normalizeArtifactRef input = Obj (
     [(''id'', fld input ''id''), (''kind'', fld input ''kind''), (''path'', fld input ''path'')]
     @ keep ''title'' isString (fld input ''title'')
     @ keepAs ''preview'' isRecord normalizeArtifactPreview (fld input ''preview'')
     @ keep ''roleId'' isRole (fld input ''roleId'')
     @ keep ''stage'' isEvolutionStage (fld input ''stage'')
     @ keepAs ''sha256'' isString lowerVal (fld input ''sha256'')
     @ keep ''bytes'' isNumber (fld input ''bytes'')
     @ [(''createdAt'', fld input ''createdAt'')])"

section \<open>Scores, questions and discussion\<close>

definition validateScore :: "jsval \<Rightarrow> string \<Rightarrow> evolutionIssue list" where
  "validateScore input path =
     (if \<not> isRecord input then [issueAt ''invalid_score'' path]
      else
        need (isOneOf (fld input ''module'') (map scoreModuleText EVOLUTION_SCORE_MODULE_IDS))
          ''invalid_score_module'' (path @ ''.module'')
        @ need (finiteUpTo EVOLUTION_SCORE_MAX (fld input ''score''))
            ''invalid_score_value'' (path @ ''.score'')
        @ need (fld input ''maxScore'' = Nat EVOLUTION_SCORE_MAX) ''invalid_score_max'' (path @ ''.maxScore'')
        @ need (nonBlankStr (fld input ''summary'')) ''invalid_score_summary'' (path @ ''.summary''))"

definition normalizeScore :: "jsval \<Rightarrow> jsval" where
  "normalizeScore input = Obj
     [(''module'', fld input ''module''), (''score'', fld input ''score''),
      (''maxScore'', Nat 10), (''summary'', fld input ''summary'')]"

definition validateBlockingQuestion :: "jsval \<Rightarrow> string \<Rightarrow> evolutionIssue list" where
  "validateBlockingQuestion input path =
     (if \<not> isRecord input then [issueAt ''invalid_blocking_question'' path]
      else
        need (nonEmptyStr (fld input ''id'')) ''invalid_blocking_question_id'' (path @ ''.id'')
        @ need (isStage (fld input ''stage'')) ''invalid_blocking_question_stage'' (path @ ''.stage'')
        @ need (absentOr isRole (fld input ''roleId''))
            ''invalid_blocking_question_role_id'' (path @ ''.roleId'')
        @ need (nonBlankStr (fld input ''question''))
            ''invalid_blocking_question_text'' (path @ ''.question'')
        @ need (finiteVal (fld input ''createdAt''))
            ''invalid_blocking_question_created_at'' (path @ ''.createdAt''))"

definition normalizeBlockingQuestion :: "jsval \<Rightarrow> jsval" where
  "normalizeBlockingQuestion input = Obj (
     [(''id'', fld input ''id''), (''stage'', fld input ''stage'')]
     @ keep ''roleId'' isRole (fld input ''roleId'')
     @ [(''question'', fld input ''question''), (''createdAt'', fld input ''createdAt'')])"

definition validateDiscussionMessage :: "jsval \<Rightarrow> string \<Rightarrow> evolutionIssue list" where
  "validateDiscussionMessage input path =
     (if \<not> isRecord input then [issueAt ''invalid_discussion_message'' path]
      else
        need (nonEmptyStr (fld input ''id'')) ''invalid_discussion_id'' (path @ ''.id'')
        @ need (isOneOf (fld input ''kind'') (map messageKindText EVOLUTION_DISCUSSION_MESSAGE_KINDS))
            ''invalid_discussion_kind'' (path @ ''.kind'')
        @ need (isStage (fld input ''stage'')) ''invalid_discussion_stage'' (path @ ''.stage'')
        @ need (absentOr isRole (fld input ''roleId'')) ''invalid_discussion_role_id'' (path @ ''.roleId'')
        @ need (nonBlankStr (fld input ''author'')) ''invalid_discussion_author'' (path @ ''.author'')
        @ need (nonBlankStr (fld input ''text'')) ''invalid_discussion_text'' (path @ ''.text'')
        @ need (absentOr stringArr (fld input ''artifactIds''))
            ''invalid_discussion_artifact_ids'' (path @ ''.artifactIds'')
        @ need (finiteVal (fld input ''createdAt''))
            ''invalid_discussion_created_at'' (path @ ''.createdAt''))"

definition normalizeDiscussionMessage :: "jsval \<Rightarrow> jsval" where
  "normalizeDiscussionMessage input = Obj (
     [(''id'', fld input ''id''), (''kind'', fld input ''kind''), (''stage'', fld input ''stage'')]
     @ keep ''roleId'' isRole (fld input ''roleId'')
     @ [(''author'', fld input ''author''), (''text'', fld input ''text'')]
     @ keepAs ''artifactIds'' isArray stringsOf (fld input ''artifactIds'')
     @ [(''createdAt'', fld input ''createdAt'')])"

definition validateRoundtableRef :: "jsval \<Rightarrow> string \<Rightarrow> evolutionIssue list" where
  "validateRoundtableRef input path =
     (if \<not> isRecord input then [issueAt ''invalid_roundtable'' path]
      else
        need (nonEmptyStr (fld input ''id'')) ''invalid_roundtable_id'' (path @ ''.id'')
        @ need (isStage (fld input ''stage'')) ''invalid_roundtable_stage'' (path @ ''.stage'')
        @ need (nonBlankStr (fld input ''topic'')) ''invalid_roundtable_topic'' (path @ ''.topic'')
        @ need (isArray (fld input ''roles'') \<and> list_all isRole (arrItems (fld input ''roles'')))
            ''invalid_roundtable_roles'' (path @ ''.roles'')
        @ need (isOneOf (fld input ''status'') (map roundtableStatusText EVOLUTION_ROUNDTABLE_STATUSES))
            ''invalid_roundtable_status'' (path @ ''.status'')
        @ need (absentOr isString (fld input ''p2pRunId''))
            ''invalid_roundtable_p2p_run_id'' (path @ ''.p2pRunId'')
        @ need (absentOr isString (fld input ''discussionId''))
            ''invalid_roundtable_discussion_id'' (path @ ''.discussionId'')
        @ (if fld input ''contextPath'' \<noteq> Undef
           then issuesOf (validateEvolutionArtifactRelativePath (fld input ''contextPath'') (path @ ''.contextPath''))
           else [])
        @ need (absentOr isString (fld input ''currentTargetSession''))
            ''invalid_roundtable_current_target'' (path @ ''.currentTargetSession'')
        @ need (absentOr isString (fld input ''summary''))
            ''invalid_roundtable_summary'' (path @ ''.summary'')
        @ need (absentOr isString (fld input ''error'')) ''invalid_roundtable_error'' (path @ ''.error'')
        @ need (absentOr isString (fld input ''completedAt''))
            ''invalid_roundtable_completed_at'' (path @ ''.completedAt'')
        @ need (finiteVal (fld input ''createdAt''))
            ''invalid_roundtable_created_at'' (path @ ''.createdAt'')
        @ need (finiteVal (fld input ''updatedAt''))
            ''invalid_roundtable_updated_at'' (path @ ''.updatedAt''))"

definition normalizeRoundtableRef :: "jsval \<Rightarrow> jsval" where
  "normalizeRoundtableRef input = Obj (
     [(''id'', fld input ''id''), (''stage'', fld input ''stage''), (''topic'', fld input ''topic''),
      (''roles'', Arr (filter isRole (arrItems (fld input ''roles'')))),
      (''status'', fld input ''status'')]
     @ keep ''p2pRunId'' isString (fld input ''p2pRunId'')
     @ keep ''discussionId'' isString (fld input ''discussionId'')
     @ keep ''contextPath'' isString (fld input ''contextPath'')
     @ keep ''currentTargetSession'' isString (fld input ''currentTargetSession'')
     @ keep ''summary'' isString (fld input ''summary'')
     @ keep ''error'' isString (fld input ''error'')
     @ keep ''completedAt'' isString (fld input ''completedAt'')
     @ [(''createdAt'', fld input ''createdAt''), (''updatedAt'', fld input ''updatedAt'')])"

definition validateEvidence :: "jsval \<Rightarrow> string \<Rightarrow> evolutionIssue list" where
  "validateEvidence input path =
     (if \<not> isRecord input then [issueAt ''invalid_evidence'' path]
      else
        need (nonBlankStr (fld input ''source'')) ''invalid_evidence_source'' (path @ ''.source'')
        @ need (nonBlankStr (fld input ''summary'')) ''invalid_evidence_summary'' (path @ ''.summary'')
        @ need (absentOr integerVal (fld input ''exitCode''))
            ''invalid_evidence_exit_code'' (path @ ''.exitCode'')
        @ need (finiteVal (fld input ''createdAt''))
            ''invalid_evidence_created_at'' (path @ ''.createdAt''))"

definition normalizeEvidence :: "jsval \<Rightarrow> jsval" where
  "normalizeEvidence input = Obj (
     [(''source'', fld input ''source''), (''summary'', fld input ''summary'')]
     @ keep ''command'' isString (fld input ''command'')
     @ keep ''exitCode'' isNumber (fld input ''exitCode'')
     @ keep ''artifactId'' isString (fld input ''artifactId'')
     @ [(''createdAt'', fld input ''createdAt'')])"

section \<open>Timeline and live events\<close>

definition validateExecutionTimelineItem :: "jsval \<Rightarrow> string \<Rightarrow> evolutionIssue list" where
  "validateExecutionTimelineItem input path =
     (if \<not> isRecord input then [issueAt ''invalid_execution_timeline_item'' path]
      else
        need (nonEmptyStr (fld input ''id'')) ''invalid_execution_timeline_id'' (path @ ''.id'')
        @ need (isRole (fld input ''roleId'')) ''invalid_execution_timeline_role_id'' (path @ ''.roleId'')
        @ need (isStage (fld input ''stage'')) ''invalid_execution_timeline_stage'' (path @ ''.stage'')
        @ need (isOneOf (fld input ''status'') (map roleStatusText EVOLUTION_ROLE_STATUSES))
            ''invalid_execution_timeline_status'' (path @ ''.status'')
        @ need (nonBlankStr (fld input ''title'')) ''invalid_execution_timeline_title'' (path @ ''.title'')
        @ need (nonBlankStr (fld input ''detail'')) ''invalid_execution_timeline_detail'' (path @ ''.detail'')
        @ need (absentOr stringArr (fld input ''artifactIds''))
            ''invalid_execution_timeline_artifact_ids'' (path @ ''.artifactIds'')
        @ need (isOneOf (fld input ''source'') (map timelineSourceText EXECUTION_TIMELINE_SOURCES))
            ''invalid_execution_timeline_source'' (path @ ''.source'')
        @ need (finiteVal (fld input ''createdAt''))
            ''invalid_execution_timeline_created_at'' (path @ ''.createdAt''))"

definition normalizeExecutionTimelineItem :: "jsval \<Rightarrow> jsval" where
  "normalizeExecutionTimelineItem input = Obj (
     [(''id'', fld input ''id''), (''roleId'', fld input ''roleId''), (''stage'', fld input ''stage''),
      (''status'', fld input ''status''), (''title'', fld input ''title''),
      (''detail'', fld input ''detail'')]
     @ keepAs ''artifactIds'' isArray stringsOf (fld input ''artifactIds'')
     @ [(''source'', fld input ''source''), (''createdAt'', fld input ''createdAt'')])"

definition validateLiveEventProgress :: "jsval \<Rightarrow> string \<Rightarrow> evolutionIssue list" where
  "validateLiveEventProgress input path =
     (if \<not> isRecord input then [issueAt ''invalid_live_event_progress'' path]
      else
        concat (map (\<lambda>key. need (nonNegFinite (fld input key))
            ''invalid_live_event_progress_value'' (path @ ''.'' @ key)) [''current'', ''total''])
        @ pushIf (isNumber (fld input ''current'') \<and> isNumber (fld input ''total'')
              \<and> numLess (numOfVal (fld input ''total'')) (numOfVal (fld input ''current'')))
            (issueAt ''invalid_live_event_progress_bounds'' path)
        @ need (absentOr isString (fld input ''label''))
            ''invalid_live_event_progress_label'' (path @ ''.label''))"

definition normalizeLiveEventProgress :: "jsval \<Rightarrow> jsval" where
  "normalizeLiveEventProgress input = Obj (
     [(''current'', fld input ''current''), (''total'', fld input ''total'')]
     @ keep ''label'' isString (fld input ''label''))"

definition validateLiveEvent :: "jsval \<Rightarrow> string \<Rightarrow> evolutionIssue list" where
  "validateLiveEvent input path =
     (if \<not> isRecord input then [issueAt ''invalid_live_event'' path]
      else
        need (nonEmptyStr (fld input ''id'')) ''invalid_live_event_id'' (path @ ''.id'')
        @ need (isOneOf (fld input ''source'') (map liveEventSourceText LIVE_EVENT_SOURCES))
            ''invalid_live_event_source'' (path @ ''.source'')
        @ need (isOneOf (fld input ''kind'') (map liveEventKindText LIVE_EVENT_KINDS))
            ''invalid_live_event_kind'' (path @ ''.kind'')
        @ need (isOneOf (fld input ''severity'') (map liveEventSeverityText LIVE_EVENT_SEVERITIES))
            ''invalid_live_event_severity'' (path @ ''.severity'')
        @ need (absentOr isRole (fld input ''roleId'')) ''invalid_live_event_role_id'' (path @ ''.roleId'')
        @ need (isStage (fld input ''stage'')) ''invalid_live_event_stage'' (path @ ''.stage'')
        @ need (nonBlankStr (fld input ''title'')) ''invalid_live_event_title'' (path @ ''.title'')
        @ need (nonBlankStr (fld input ''detail'')) ''invalid_live_event_detail'' (path @ ''.detail'')
        @ (if fld input ''progress'' \<noteq> Undef
           then validateLiveEventProgress (fld input ''progress'') (path @ ''.progress'') else [])
        @ need (absentOr isString (fld input ''command''))
            ''invalid_live_event_command'' (path @ ''.command'')
        @ need (absentOr integerVal (fld input ''exitCode''))
            ''invalid_live_event_exit_code'' (path @ ''.exitCode'')
        @ need (absentOr stringArr (fld input ''artifactIds''))
            ''invalid_live_event_artifact_ids'' (path @ ''.artifactIds'')
        @ need (finiteVal (fld input ''createdAt''))
            ''invalid_live_event_created_at'' (path @ ''.createdAt''))"

definition normalizeLiveEvent :: "jsval \<Rightarrow> jsval" where
  "normalizeLiveEvent input = Obj (
     [(''id'', fld input ''id''), (''source'', fld input ''source''), (''kind'', fld input ''kind''),
      (''severity'', fld input ''severity'')]
     @ keep ''roleId'' isRole (fld input ''roleId'')
     @ [(''stage'', fld input ''stage''), (''title'', fld input ''title''),
        (''detail'', fld input ''detail'')]
     @ keepAs ''progress'' isRecord normalizeLiveEventProgress (fld input ''progress'')
     @ keep ''command'' isString (fld input ''command'')
     @ keep ''exitCode'' isNumber (fld input ''exitCode'')
     @ keepAs ''artifactIds'' isArray stringsOf (fld input ''artifactIds'')
     @ [(''createdAt'', fld input ''createdAt'')])"

section \<open>Loop control\<close>

definition validateBudget :: "jsval \<Rightarrow> string \<Rightarrow> evolutionIssue list" where
  "validateBudget input path =
     (if \<not> isRecord input then [issueAt ''invalid_budget'' path]
      else
        concat (map (\<lambda>key. need (nonNegInt (fld input key)) ''invalid_budget_value'' (path @ ''.'' @ key))
          [''maxRoleTurns'', ''maxElapsedMinutes'', ''maxImplementationAttempts''])
        @ need (fld input ''maxAutoDeployStage'' = Str ''none''
              \<or> fld input ''maxAutoDeployStage'' = Str ''staging'')
            ''invalid_budget_auto_deploy_stage'' (path @ ''.maxAutoDeployStage''))"

definition normalizeBudget :: "jsval \<Rightarrow> jsval" where
  "normalizeBudget input = Obj
     [(''maxRoleTurns'', fld input ''maxRoleTurns''),
      (''maxElapsedMinutes'', fld input ''maxElapsedMinutes''),
      (''maxImplementationAttempts'', fld input ''maxImplementationAttempts''),
      (''maxAutoDeployStage'', fld input ''maxAutoDeployStage'')]"

definition USAGE_KEYS :: "string list" where
  "USAGE_KEYS = [''elapsedMinutes'', ''roleTurns'', ''implementationAttempts'', ''artifactCount'',
     ''evidenceCount'', ''discussionCount'']"

definition validateLoopControlUsage :: "jsval \<Rightarrow> string \<Rightarrow> evolutionIssue list" where
  "validateLoopControlUsage input path =
     (if \<not> isRecord input then [issueAt ''invalid_loop_control_usage'' path]
      else concat (map (\<lambda>key. need (nonNegFinite (fld input key))
        ''invalid_loop_control_usage_value'' (path @ ''.'' @ key)) USAGE_KEYS))"

definition normalizeLoopControlUsage :: "jsval \<Rightarrow> jsval" where
  "normalizeLoopControlUsage input = Obj
     [(''elapsedMinutes'', fld input ''elapsedMinutes''), (''roleTurns'', fld input ''roleTurns''),
      (''implementationAttempts'', fld input ''implementationAttempts''),
      (''artifactCount'', fld input ''artifactCount''), (''evidenceCount'', fld input ''evidenceCount''),
      (''discussionCount'', fld input ''discussionCount'')]"

definition validateLoopControlSignal :: "jsval \<Rightarrow> string \<Rightarrow> evolutionIssue list" where
  "validateLoopControlSignal input path =
     (if \<not> isRecord input then [issueAt ''invalid_loop_control_signal'' path]
      else
        need (nonBlankStr (fld input ''id'')) ''invalid_loop_control_signal_id'' (path @ ''.id'')
        @ need (nonBlankStr (fld input ''label'')) ''invalid_loop_control_signal_label'' (path @ ''.label'')
        @ need (isOneOf (fld input ''status'') (map loopSignalStatusText LOOP_CONTROL_SIGNAL_STATUSES))
            ''invalid_loop_control_signal_status'' (path @ ''.status'')
        @ need (nonBlankStr (fld input ''detail'')) ''invalid_loop_control_signal_detail'' (path @ ''.detail'')
        @ need (absentOr stringArr (fld input ''artifactIds''))
            ''invalid_loop_control_signal_artifact_ids'' (path @ ''.artifactIds''))"

definition normalizeLoopControlSignal :: "jsval \<Rightarrow> jsval" where
  "normalizeLoopControlSignal input = Obj (
     [(''id'', fld input ''id''), (''label'', fld input ''label''), (''status'', fld input ''status''),
      (''detail'', fld input ''detail'')]
     @ keepAs ''artifactIds'' isArray stringsOf (fld input ''artifactIds''))"

definition validateLoopControl :: "jsval \<Rightarrow> string \<Rightarrow> evolutionIssue list" where
  "validateLoopControl input path =
     (if \<not> isRecord input then [issueAt ''invalid_loop_control'' path]
      else
        need (fld input ''source'' = Str ''loop_engineering'')
          ''invalid_loop_control_source'' (path @ ''.source'')
        @ need (isOneOf (fld input ''mode'') (map loopControlModeText LOOP_CONTROL_MODES))
            ''invalid_loop_control_mode'' (path @ ''.mode'')
        @ need (finiteUpTo 100 (fld input ''readinessScore''))
            ''invalid_loop_control_readiness'' (path @ ''.readinessScore'')
        @ need (isBool (fld input ''canAutonomouslyContinue''))
            ''invalid_loop_control_can_continue'' (path @ ''.canAutonomouslyContinue'')
        @ need (nonBlankStr (fld input ''currentGate''))
            ''invalid_loop_control_gate'' (path @ ''.currentGate'')
        @ validateBudget (fld input ''budget'') (path @ ''.budget'')
        @ validateLoopControlUsage (fld input ''usage'') (path @ ''.usage'')
        @ need (isArray (fld input ''signals'')) ''invalid_loop_control_signals'' (path @ ''.signals'')
        @ eachIssue validateLoopControlSignal (fld input ''signals'') (path @ ''.signals'')
        @ need (finiteVal (fld input ''updatedAt''))
            ''invalid_loop_control_updated_at'' (path @ ''.updatedAt''))"

definition normalizeLoopControl :: "jsval \<Rightarrow> jsval" where
  "normalizeLoopControl input = Obj
     [(''source'', Str ''loop_engineering''), (''mode'', fld input ''mode''),
      (''readinessScore'', fld input ''readinessScore''),
      (''canAutonomouslyContinue'', fld input ''canAutonomouslyContinue''),
      (''currentGate'', fld input ''currentGate''),
      (''budget'', normalizeBudget (fld input ''budget'')),
      (''usage'', normalizeLoopControlUsage (fld input ''usage'')),
      (''signals'', Arr (map normalizeLoopControlSignal (arrItems (fld input ''signals'')))),
      (''updatedAt'', fld input ''updatedAt'')]"

section \<open>The projection\<close>

definition sourceIssues :: "jsval \<Rightarrow> evolutionIssue list" where
  "sourceIssues source =
     (if \<not> isRecord source then [issueAt ''invalid_source'' ''source'']
      else
        withPathOr ''source.'' ''relativePath''
          (issuesOf (validateEvolutionRequirementSourcePath (fld source ''relativePath'')))
        @ need (nonEmptyStr (fld source ''fileName'')) ''invalid_source_file_name'' ''source.fileName''
        @ need (absentOr isRequestedBy (fld source ''requestedBy''))
            ''invalid_source_requested_by'' ''source.requestedBy''
        @ need (absentOr nonNegInt (fld source ''sizeBytes'')) ''invalid_source_size'' ''source.sizeBytes''
        @ need (absentOr isSha256 (fld source ''sha256'')) ''invalid_source_sha256'' ''source.sha256''
        @ need (finiteVal (fld source ''ingestedAt''))
            ''invalid_source_ingested_at'' ''source.ingestedAt'')"

definition normalizeSource :: "jsval \<Rightarrow> jsval" where
  "normalizeSource source = Obj (
     [(''relativePath'', fld source ''relativePath''), (''fileName'', fld source ''fileName'')]
     @ keep ''requestedBy'' isRequestedBy (fld source ''requestedBy'')
     @ keep ''sizeBytes'' isNumber (fld source ''sizeBytes'')
     @ keepAs ''sha256'' isString lowerVal (fld source ''sha256'')
     @ [(''ingestedAt'', fld source ''ingestedAt'')])"

text \<open>A list member: it must be an array, may be bounded, and each element is checked.\<close>

definition listIssues :: "string \<Rightarrow> (string \<times> nat) option \<Rightarrow> (jsval \<Rightarrow> string \<Rightarrow> evolutionIssue list)
    \<Rightarrow> jsval \<Rightarrow> string \<Rightarrow> evolutionIssue list" where
  "listIssues code bound check v path =
     need (isArray v) code path
     @ (case bound of None \<Rightarrow> []
        | Some (tooMany, hi) \<Rightarrow> need (length (arrItems v) \<le> hi) tooMany path)
     @ eachIssue check v path"

definition projectionIssues :: "jsval \<Rightarrow> evolutionIssue list" where
  "projectionIssues input =
     need (fld input ''projectionVersion'' = Nat 1) ''invalid_projection_version'' ''projectionVersion''
     @ withPath ''runId'' (issuesOf (validateEvolutionRunId (fld input ''runId'')))
     @ withPath ''requestId'' (issuesOf (validateEvolutionRequestId (fld input ''requestId'')))
     @ need (isStage (fld input ''stage'')) ''invalid_stage'' ''stage''
     @ need (absentOr (\<lambda>v. isOneOf v (map evolutionVerdictText EVOLUTION_VERDICTS)) (fld input ''verdict''))
         ''invalid_verdict'' ''verdict''
     @ need (nonEmptyStr (fld input ''sessionName'')) ''invalid_session_name'' ''sessionName''
     @ sourceIssues (fld input ''source'')
     @ listIssues ''invalid_roles'' None validateRoleState (fld input ''roles'') ''roles''
     @ listIssues ''invalid_artifacts'' (Some (''too_many_artifacts'', EVOLUTION_ARTIFACTS_MAX))
         validateArtifactRef (fld input ''artifacts'') ''artifacts''
     @ listIssues ''invalid_scores'' None validateScore (fld input ''scores'') ''scores''
     @ listIssues ''invalid_blocking_questions''
         (Some (''too_many_blocking_questions'', EVOLUTION_BLOCKING_QUESTIONS_MAX))
         validateBlockingQuestion (fld input ''blockingQuestions'') ''blockingQuestions''
     @ listIssues ''invalid_discussion_list''
         (Some (''too_many_discussion_items'', EVOLUTION_DISCUSSION_ITEMS_MAX))
         validateDiscussionMessage (fld input ''discussion'') ''discussion''
     @ listIssues ''invalid_roundtables_list'' None validateRoundtableRef (fld input ''roundtables'') ''roundtables''
     @ need (isOneOf (fld input ''roundtableGateMode'') (map gateModeText EVOLUTION_ROUNDTABLE_GATE_MODES))
         ''invalid_roundtable_gate_mode'' ''roundtableGateMode''
     @ need (absentOr (\<lambda>v. isOneOf v (map surfaceText EVOLUTION_DESIGN_TARGET_SURFACES))
         (fld input ''designTargetSurface'')) ''invalid_design_target_surface'' ''designTargetSurface''
     @ listIssues ''invalid_evidence_list'' (Some (''too_many_evidence_items'', EVOLUTION_EVIDENCE_ITEMS_MAX))
         validateEvidence (fld input ''evidence'') ''evidence''
     @ listIssues ''invalid_execution_timeline'' None validateExecutionTimelineItem
         (fld input ''executionTimeline'') ''executionTimeline''
     @ listIssues ''invalid_live_events'' None validateLiveEvent (fld input ''liveEvents'') ''liveEvents''
     @ validateLoopControl (fld input ''loopControl'') ''loopControl''
     @ validateAutoDeliveryPolicy (fld input ''autoDelivery'') ''autoDelivery''
     @ validateStagingDeliveryState (fld input ''stagingDelivery'') ''stagingDelivery''
     @ need (nonNegFinite (fld input ''elapsedMs'')) ''invalid_elapsed_ms'' ''elapsedMs''
     @ need (finiteVal (fld input ''updatedAt'')) ''invalid_updated_at'' ''updatedAt''"

definition mapItems :: "(jsval \<Rightarrow> jsval) \<Rightarrow> jsval \<Rightarrow> jsval" where
  "mapItems f v = Arr (map f (arrItems v))"

definition normalizeProjection :: "int \<Rightarrow> jsval \<Rightarrow> jsval" where
  "normalizeProjection nowMs input = Obj (
     [(''projectionVersion'', Nat 1), (''runId'', fld input ''runId''),
      (''requestId'', fld input ''requestId''), (''stage'', fld input ''stage'')]
     @ keep ''verdict'' (\<lambda>v. isOneOf v (map evolutionVerdictText EVOLUTION_VERDICTS)) (fld input ''verdict'')
     @ [(''sessionName'', fld input ''sessionName'')]
     @ keep ''projectName'' isString (fld input ''projectName'')
     @ [(''source'', normalizeSource (fld input ''source'')),
        (''roles'', mapItems (normalizeRoleState nowMs) (fld input ''roles'')),
        (''artifacts'', mapItems normalizeArtifactRef (fld input ''artifacts'')),
        (''scores'', mapItems normalizeScore (fld input ''scores'')),
        (''blockingQuestions'', mapItems normalizeBlockingQuestion (fld input ''blockingQuestions'')),
        (''discussion'', mapItems normalizeDiscussionMessage (fld input ''discussion'')),
        (''roundtables'', mapItems normalizeRoundtableRef (fld input ''roundtables'')),
        (''roundtableGateMode'', fld input ''roundtableGateMode'')]
     @ keep ''designTargetSurface'' (\<lambda>v. isOneOf v (map surfaceText EVOLUTION_DESIGN_TARGET_SURFACES))
         (fld input ''designTargetSurface'')
     @ [(''evidence'', mapItems normalizeEvidence (fld input ''evidence'')),
        (''executionTimeline'', mapItems normalizeExecutionTimelineItem (fld input ''executionTimeline'')),
        (''liveEvents'', mapItems normalizeLiveEvent (fld input ''liveEvents'')),
        (''loopControl'', normalizeLoopControl (fld input ''loopControl''))]
     @ keepAs ''autoDelivery'' isRecord normalizeAutoDeliveryPolicy (fld input ''autoDelivery'')
     @ keepAs ''stagingDelivery'' isRecord normalizeStagingDeliveryState (fld input ''stagingDelivery'')
     @ keep ''linkedOpenSpecChange'' isString (fld input ''linkedOpenSpecChange'')
     @ keep ''linkedAutoDeliverRunId'' isString (fld input ''linkedAutoDeliverRunId'')
     @ keep ''latestMessage'' isString (fld input ''latestMessage'')
     @ keep ''terminalReason'' isString (fld input ''terminalReason'')
     @ [(''elapsedMs'', fld input ''elapsedMs''), (''updatedAt'', fld input ''updatedAt'')])"

definition validateEvolutionProjection :: "int \<Rightarrow> jsval \<Rightarrow> evolutionIssue list + jsval" where
  "validateEvolutionProjection nowMs input =
     (if \<not> isRecord input then Inl [issueOf ''invalid_projection'']
      else let issues = projectionIssues input in
        if issues \<noteq> [] then Inl issues else Inr (normalizeProjection nowMs input))"

end
