(* ===== verification/EvoRun.thy ===== *)
theory EvoRun
  imports EvoChecks
begin

text \<open>
  One run of the evolution pipeline, \<^verbatim>\<open>src/daemon/evolution-orchestrator.ts\<close>: role states, the
  append and upsert helpers with their bounds, the questions of a paused run, the verdict of a
  roundtable and the gates that rest on it.

  The daemon's texts are partly Chinese, outside the modelled character range. Such a text is a
  constructor of \<open>evoText\<close>, with what the code interpolates as its arguments, and is rendered by
  an argument \<open>en_text\<close>; texts within the range are written out. \<open>en_sha256\<close> is the hexadecimal
  SHA-256 digest, \<open>en_iso\<close> the text of \<^verbatim>\<open>new Date(ms).toISOString()\<close> and \<open>en_host\<close> the host of
  JsValue, with its locale comparison and the digits of numbers.
\<close>

datatype evoText =
    Tx_action evolutionRoleId evolutionStage
  | Tx_author_supervisor | Tx_author_ops | Tx_author_qa
  | Tx_dash | Tx_ellipsis | Tx_all_roles
  | Tx_topic string
  | Tx_title string string
  | Tx_resumed evolutionStage "string option"
  | Tx_gate_released string evolutionStage "string option"
  | Tx_pause_question evolutionStage
  | Tx_paused evolutionStage
  | Tx_release_approved string
  | Tx_detected string
  | Tx_user_to string
  | Tx_acknowledged "evolutionRoleId option" string
  | Tx_instruction_document string evolutionStage string string string
  | Tx_response_document string evolutionStage string string string
  | Tx_injected string "string option"
  | Tx_staging_budget | Tx_staging_started | Tx_staging_missing | Tx_staging_off
  | Tx_staging_passed "string option"
  | Tx_staging_failed string
  | Tx_config_ready string
  | Tx_config_result string
  | Tx_production_gate
  | Tx_qa_document string
  | Tx_qa_evidence string
  | Tx_role_label evolutionRoleId | Tx_role_summary evolutionRoleId | Tx_role_duty evolutionRoleId nat
  | Tx_semicolon
  | Tx_loop_round string string bool string
  | Tx_audit_round string string string
  | Tx_linked_p2p string "string option"
  | Tx_score_summary string string string
  | Tx_repair_summary string
  | Tx_delivery_waits | Tx_delivery_no_link
  | Tx_delivery_started string string bool
  | Tx_planning_blocked string
  | Tx_strict_blocked string string
  | Tx_strict_passed string
  | Tx_roundtable_done string
  | Tx_roundtable_failed string
  | Tx_roundtable_running string
  | Tx_roundtable_synced string
  | Tx_roundtable_started string string string
  | Tx_roundtable_not_started string string
  | Tx_author evolutionRoleId
  | Tx_planning evolutionStage | Tx_planning_step evolutionStage nat "string list"
  | Tx_local_light string string | Tx_local_unavailable string string | Tx_local_skipped string string

record evoEnv =
  en_sha256 :: "string \<Rightarrow> string"
  en_iso :: "int \<Rightarrow> string"
  en_text :: "evoText \<Rightarrow> string"
  en_host :: jsHost

text \<open>The last elements of a list: \<^verbatim>\<open>xs.slice(-n)\<close>.\<close>

definition lastN :: "nat \<Rightarrow> 'a list \<Rightarrow> 'a list" where
  "lastN n xs = drop (length xs - n) xs"

definition shortSha256 :: "evoEnv \<Rightarrow> string \<Rightarrow> string" where
  "shortSha256 env s = take 16 (en_sha256 env s)"

section \<open>Role states\<close>

primrec runningByStage :: "evolutionStage \<Rightarrow> evolutionRoleId list" where
  "runningByStage Es_detected = [Er_loop_supervisor]"
| "runningByStage Es_intake_normalized = [Er_loop_supervisor, Er_product_manager]"
| "runningByStage Es_product_discussion = [Er_product_manager, Er_product_critic]"
| "runningByStage Es_prd_ready = [Er_product_manager, Er_product_critic]"
| "runningByStage Es_design_lofi = [Er_ux_designer]"
| "runningByStage Es_design_hifi = [Er_ux_designer, Er_visual_designer]"
| "runningByStage Es_architecture_baseline = [Er_tech_director, Er_security_reviewer]"
| "runningByStage Es_tasks_ready =
     [Er_tech_director, Er_backend_developer, Er_frontend_developer, Er_qa_engineer]"
| "runningByStage Es_implementation_loop =
     [Er_backend_developer, Er_frontend_developer, Er_tech_director]"
| "runningByStage Es_qa_completion = [Er_qa_engineer, Er_security_reviewer]"
| "runningByStage Es_delivery_ready = [Er_ops_release_manager, Er_qa_engineer]"
| "runningByStage Es_deployed_staging = [Er_ops_release_manager, Er_qa_engineer]"
| "runningByStage Es_human_release_gate = [Er_loop_supervisor, Er_ops_release_manager]"
| "runningByStage Es_deployed_production = []"
| "runningByStage Es_needs_human = [Er_loop_supervisor]"
| "runningByStage Es_failed = []"
| "runningByStage Es_stopped = []"

definition roleStatusForStage :: "evolutionRoleId \<Rightarrow> evolutionStage \<Rightarrow> evolutionRoleStatus" where
  "roleStatusForStage roleId stage =
     (if stage = Es_failed then (if roleId = Er_loop_supervisor then Ers_failed else Ers_pending)
      else if stage = Es_stopped then (if roleId = Er_loop_supervisor then Ers_complete else Ers_pending)
      else if stage = Es_deployed_production then Ers_complete
      else if roleId \<in> set (runningByStage stage)
      then (if stage = Es_needs_human \<or> stage = Es_human_release_gate then Ers_waiting else Ers_running)
      else Ers_pending)"

text \<open>The stages for which the table of actions has a text for a role.\<close>

primrec actionStages :: "evolutionRoleId \<Rightarrow> evolutionStage list" where
  "actionStages Er_loop_supervisor = [Es_intake_normalized, Es_tasks_ready, Es_needs_human]"
| "actionStages Er_product_manager = [Es_intake_normalized, Es_product_discussion, Es_prd_ready]"
| "actionStages Er_product_critic = [Es_product_discussion, Es_prd_ready]"
| "actionStages Er_ux_designer = [Es_design_lofi, Es_design_hifi]"
| "actionStages Er_visual_designer = [Es_design_hifi]"
| "actionStages Er_tech_director = [Es_architecture_baseline, Es_tasks_ready, Es_implementation_loop]"
| "actionStages Er_backend_developer = [Es_tasks_ready, Es_implementation_loop]"
| "actionStages Er_frontend_developer = [Es_tasks_ready, Es_implementation_loop]"
| "actionStages Er_qa_engineer = [Es_tasks_ready, Es_qa_completion, Es_delivery_ready]"
| "actionStages Er_security_reviewer = [Es_architecture_baseline, Es_qa_completion]"
| "actionStages Er_ops_release_manager =
     [Es_delivery_ready, Es_deployed_staging, Es_human_release_gate]"

definition currentActionForRole ::
    "evoEnv \<Rightarrow> evolutionRoleId \<Rightarrow> evolutionStage \<Rightarrow> string option" where
  "currentActionForRole env roleId stage =
     (if stage \<in> set (actionStages roleId) then Some (en_text env (Tx_action roleId stage)) else None)"

definition truthyStr :: "string option \<Rightarrow> string option" where
  "truthyStr s = (case s of Some t \<Rightarrow> if t = [] then None else Some t | None \<Rightarrow> None)"

definition applyRoleStatesForStage ::
    "evoEnv \<Rightarrow> evolutionStage \<Rightarrow> int \<Rightarrow> evolutionRun \<Rightarrow> evolutionRun" where
  "applyRoleStatesForStage env stage nowMs run = run\<lparr>run_roles := map (\<lambda>role. role\<lparr>
     ro_status := roleStatusForStage (ro_roleId role) stage, ro_stage := Some stage,
     ro_currentAction := truthyStr (currentActionForRole env (ro_roleId role) stage),
     ro_updatedAt := nowMs\<rparr>) (run_roles run)\<rparr>"

section \<open>Bounded lists\<close>

definition appendEvidence :: "evolutionEvidence \<Rightarrow> evolutionRun \<Rightarrow> evolutionRun" where
  "appendEvidence evidence run = run\<lparr>run_evidence := lastN 200 (run_evidence run @ [evidence])\<rparr>"

definition evidenceOf :: "string \<Rightarrow> string \<Rightarrow> int \<Rightarrow> evolutionEvidence" where
  "evidenceOf source summary createdAt = \<lparr>ev_source = source, ev_summary = summary,
     ev_command = None, ev_exitCode = None, ev_artifactId = None, ev_createdAt = createdAt\<rparr>"

definition roleOrSystem :: "evolutionRoleId option \<Rightarrow> string" where
  "roleOrSystem r = (case r of Some roleId \<Rightarrow> roleText roleId | None \<Rightarrow> ''system'')"

text \<open>An event or a message comes without its id, which is derived from its contents.\<close>

definition liveEventId :: "evoEnv \<Rightarrow> liveEvent \<Rightarrow> string" where
  "liveEventId env e = ''live-'' @ shortSha256 env (joinWith '':''
     [liveEventSourceText (le_source e), liveEventKindText (le_kind e), stageText (le_stage e),
      roleOrSystem (le_roleId e), le_title e, le_detail e, showInt (le_createdAt e)])"

definition appendLiveEvent :: "evoEnv \<Rightarrow> liveEvent \<Rightarrow> evolutionRun \<Rightarrow> evolutionRun" where
  "appendLiveEvent env event run =
     (let newId = liveEventId env event;
          existing = (case run_liveEvents run of Some es \<Rightarrow> es | None \<Rightarrow> []) in
      if newId \<in> le_id ` set existing then run
      else run\<lparr>run_liveEvents := Some (lastN 160 (existing @ [event\<lparr>le_id := newId\<rparr>]))\<rparr>)"

text \<open>\<^verbatim>\<open>findIndex\<close>, then replace in place or push.\<close>

fun replaceFirst :: "('a \<Rightarrow> bool) \<Rightarrow> 'a \<Rightarrow> 'a list \<Rightarrow> 'a list" where
  "replaceFirst P x [] = [x]"
| "replaceFirst P x (y # ys) = (if P y then x # ys else y # replaceFirst P x ys)"

definition upsertArtifact :: "artifactRef \<Rightarrow> evolutionRun \<Rightarrow> evolutionRun" where
  "upsertArtifact artifact run = run\<lparr>run_artifacts := lastN EVOLUTION_ARTIFACTS_MAX
     (replaceFirst (\<lambda>e. ar_id e = ar_id artifact \<or> ar_path e = ar_path artifact) artifact
       (run_artifacts run))\<rparr>"

definition discussionId :: "evoEnv \<Rightarrow> discussionMessage \<Rightarrow> string" where
  "discussionId env m = ''discussion-'' @ shortSha256 env (joinWith '':''
     [messageKindText (dm_kind m), stageText (dm_stage m), roleOrSystem (dm_roleId m), dm_text m,
      showInt (dm_createdAt m)])"

definition appendDiscussion :: "evoEnv \<Rightarrow> discussionMessage \<Rightarrow> evolutionRun \<Rightarrow> evolutionRun" where
  "appendDiscussion env message run =
     (let newId = discussionId env message in
      if newId \<in> dm_id ` set (run_discussion run) then run
      else run\<lparr>run_discussion := lastN EVOLUTION_DISCUSSION_ITEMS_MAX
        (run_discussion run @ [message\<lparr>dm_id := newId\<rparr>])\<rparr>)"

definition messageOf :: "evolutionMessageKind \<Rightarrow> evolutionStage \<Rightarrow> evolutionRoleId option
    \<Rightarrow> string \<Rightarrow> string \<Rightarrow> string list option \<Rightarrow> int \<Rightarrow> discussionMessage" where
  "messageOf kind stage roleId author txt artifactIds createdAt = \<lparr>dm_id = [], dm_kind = kind,
     dm_stage = stage, dm_roleId = roleId, dm_author = author, dm_text = txt,
     dm_artifactIds = artifactIds, dm_createdAt = createdAt\<rparr>"

definition upsertRoundtable :: "roundtableRef \<Rightarrow> evolutionRun \<Rightarrow> evolutionRun" where
  "upsertRoundtable roundtable run = run\<lparr>run_roundtables :=
     replaceFirst (\<lambda>e. rt_id e = rt_id roundtable) roundtable (run_roundtables run)\<rparr>"

definition upsertScore :: "evolutionScore \<Rightarrow> evolutionRun \<Rightarrow> evolutionRun" where
  "upsertScore score run = run\<lparr>run_scores :=
     replaceFirst (\<lambda>e. sc_module e = sc_module score) score (run_scores run)\<rparr>"

definition roundtableMatchesRole :: "roundtableRef \<Rightarrow> evolutionRoleId option \<Rightarrow> bool" where
  "roundtableMatchesRole roundtable roleId =
     (case roleId of None \<Rightarrow> True | Some r \<Rightarrow> r \<in> set (rt_roles roundtable))"

definition runningRoundtablesForUserMessage ::
    "evolutionRun \<Rightarrow> evolutionRoleId option \<Rightarrow> roundtableRef list" where
  "runningRoundtablesForUserMessage run roleId =
     (let running = filter (\<lambda>r. rt_status r = Ert_running \<and> truthyStr (rt_p2pRunId r) \<noteq> None
            \<and> roundtableMatchesRole r roleId) (run_roundtables run);
          currentStage = filter (\<lambda>r. rt_stage r = run_stage run) running in
      if currentStage \<noteq> [] then currentStage else running)"

end
