(* ===== verification/EvoGates.thy ===== *)
theory EvoGates
  imports EvoRun
begin

text \<open>
  The gates of a run: the question a user's pause leaves behind and where a continue goes from
  there, the verdict read from the summary of a roundtable, and the decision whether planning and
  automatic delivery may go on (\<^verbatim>\<open>src/daemon/evolution-orchestrator.ts\<close>).
\<close>

section \<open>Pauses\<close>

definition pauseQuestionId :: "string \<Rightarrow> evolutionStage \<Rightarrow> string" where
  "pauseQuestionId runId stage = ''user-pause-'' @ runId @ ''-'' @ stageText stage"

definition stageOfText :: "string \<Rightarrow> evolutionStage option" where
  "stageOfText s = readEnum stageText EVOLUTION_STAGES (Str s)"

definition pauseQuestionStage :: "evolutionRun \<Rightarrow> string \<Rightarrow> evolutionStage option" where
  "pauseQuestionStage run questionId =
     (let prefix = ''user-pause-'' @ run_runId run @ ''-'' in
      if \<not> startsWith questionId prefix then None else stageOfText (drop (length prefix) questionId))"

fun firstPause :: "evolutionRun \<Rightarrow> blockingQuestion list \<Rightarrow> (string \<times> evolutionStage) option" where
  "firstPause run [] = None"
| "firstPause run (q # qs) = (case pauseQuestionStage run (bq_id q) of
     Some stage \<Rightarrow> Some (bq_id q, stage) | None \<Rightarrow> firstPause run qs)"

definition findUserPauseQuestion :: "evolutionRun \<Rightarrow> (string \<times> evolutionStage) option" where
  "findUserPauseQuestion run = firstPause run (rev (run_blockingQuestions run))"

text \<open>
  \<^verbatim>\<open>new RegExp(`^strict-roundtable-${runId}-(.+)-blocked$`)\<close>. The run id is not quoted: a dot in
  it matches any character but a line terminator, its other characters match themselves.
\<close>

definition isLineEnd :: "char \<Rightarrow> bool" where
  "isLineEnd c = (codeUnit c = 10 \<or> codeUnit c = 13)"

fun afterPattern :: "string \<Rightarrow> string \<Rightarrow> string option" where
  "afterPattern [] s = Some s"
| "afterPattern (p # ps) [] = None"
| "afterPattern (p # ps) (c # cs) =
     (if p = c \<or> p = CHR ''.'' \<and> \<not> isLineEnd c then afterPattern ps cs else None)"

definition strictQuestionRoundtable :: "string \<Rightarrow> string \<Rightarrow> string option" where
  "strictQuestionRoundtable runId questionId =
     (case afterPattern (''strict-roundtable-'' @ runId @ ''-'') questionId of
        None \<Rightarrow> None
      | Some rest \<Rightarrow> (let name = take (length rest - 8) rest in
          if endsWith rest ''-blocked'' \<and> name \<noteq> [] \<and> list_all (\<lambda>c. \<not> isLineEnd c) name
          then Some name else None))"

definition PLANNING_ROUNDTABLE_ID :: string where
  "PLANNING_ROUNDTABLE_ID = ''planning-review''"

definition planningQuestionId :: "evolutionRun \<Rightarrow> string" where
  "planningQuestionId run = ''planning-roundtable-'' @ run_runId run @ ''-blocked''"

definition deliveryQuestionId :: "evolutionRun \<Rightarrow> string" where
  "deliveryQuestionId run = ''auto-delivery-'' @ run_runId run @ ''-blocked''"

definition strictQuestionId :: "evolutionRun \<Rightarrow> string \<Rightarrow> string" where
  "strictQuestionId run roundtableId = ''strict-roundtable-'' @ run_runId run @ ''-'' @ roundtableId @ ''-blocked''"

definition strictQuestionStage :: "evolutionRun \<Rightarrow> string \<Rightarrow> evolutionStage option" where
  "strictQuestionStage run questionId = (case strictQuestionRoundtable (run_runId run) questionId of
     None \<Rightarrow> None
   | Some name \<Rightarrow> map_option rt_stage (List.find (\<lambda>r. rt_id r = name) (run_roundtables run)))"

fun targetFromQuestions :: "evolutionRun \<Rightarrow> blockingQuestion list \<Rightarrow> evolutionStage" where
  "targetFromQuestions run [] = Es_implementation_loop"
| "targetFromQuestions run (q # qs) = (case strictQuestionStage run (bq_id q) of
     Some stage \<Rightarrow> stage
   | None \<Rightarrow>
      if bq_id q = planningQuestionId run then Es_tasks_ready
      else if bq_id q = deliveryQuestionId run then Es_tasks_ready
      else if startsWith (bq_id q) (''staging-delivery-'' @ run_runId run @ ''-'') then Es_delivery_ready
      else if startsWith (bq_id q) ''openspec-'' then Es_implementation_loop
      else targetFromQuestions run qs)"

definition inferHumanContinueTargetStage :: "evolutionRun \<Rightarrow> evolutionStage" where
  "inferHumanContinueTargetStage run = (case findUserPauseQuestion run of
     Some (_, stage) \<Rightarrow> stage
   | None \<Rightarrow> targetFromQuestions run (rev (run_blockingQuestions run)))"

section \<open>Verdicts of roundtables\<close>

datatype roundtableVerdict = Rv_pass | Rv_rework | Rv_unknown

text \<open>
  \<^verbatim>\<open>trim().replace(/\s+/g, ' ')\<close> and \<^verbatim>\<open>toUpperCase()\<close>. The two letters whose upper case lies
  outside the range (U+00B5 and U+00FF) stay as they are: neither is a word character before or
  after, and only words of plain letters are looked for.
\<close>

declare length_dropWhile_le [termination_simp]

fun collapseSpace :: "string \<Rightarrow> string" where
  "collapseSpace [] = []"
| "collapseSpace (c # cs) = (if isSpace c then CHR '' '' # collapseSpace (dropWhile isSpace cs)
     else c # collapseSpace cs)"

definition upperChar :: "char \<Rightarrow> string" where
  "upperChar c = (let n = codeUnit c in
     if (97 \<le> n \<and> n \<le> 122) \<or> (224 \<le> n \<and> n \<le> 254 \<and> n \<noteq> 247) then [char_of (n - 32)]
     else if n = 223 then ''SS'' else [c])"

definition toUpper :: "string \<Rightarrow> string" where
  "toUpper s = concat (map upperChar s)"

text \<open>\<^verbatim>\<open>^WORD\b\<close> and \<^verbatim>\<open>\bWORD\b\<close> for a word of letters.\<close>

definition isWordChar :: "char \<Rightarrow> bool" where
  "isWordChar c = (isAlphaNum c \<or> c = CHR ''_'')"

definition startsWithWord :: "string \<Rightarrow> string \<Rightarrow> bool" where
  "startsWithWord w s = (startsWith s w \<and> (case drop (length w) s of [] \<Rightarrow> True | c # _ \<Rightarrow> \<not> isWordChar c))"

fun wordFrom :: "bool \<Rightarrow> string \<Rightarrow> string \<Rightarrow> bool" where
  "wordFrom inWord w [] = False"
| "wordFrom inWord w (c # cs) =
     (\<not> inWord \<and> startsWithWord w (c # cs) \<or> wordFrom (isWordChar c) w cs)"

definition hasWord :: "string \<Rightarrow> string \<Rightarrow> bool" where
  "hasWord w s = wordFrom False w s"

text \<open>The pattern \<^verbatim>\<open>\bFAILED?\b\<close> is the words FAILE and FAILED.\<close>

definition planningRoundtableVerdict :: "string option \<Rightarrow> roundtableVerdict" where
  "planningRoundtableVerdict summary =
     (let normalized = collapseSpace (trim (case summary of Some s \<Rightarrow> s | None \<Rightarrow> []));
          upper = toUpper normalized in
      if normalized = [] then Rv_unknown
      else if list_ex (\<lambda>w. startsWithWord w upper) [''REWORK'', ''BLOCKED'', ''FAIL'', ''FAILED'']
      then Rv_rework
      else if startsWithWord ''PASS'' upper \<and> \<not> hasWord ''REWORK'' upper then Rv_pass
      else if list_ex (\<lambda>w. hasWord w upper) [''REWORK'', ''BLOCKED'', ''FAILE'', ''FAILED'']
      then Rv_rework
      else if hasWord ''PASS'' upper then Rv_pass
      else Rv_unknown)"

section \<open>Gates\<close>

datatype gateDisposition = Gd_allow | Gd_defer | Gd_block

definition orText :: "string option \<Rightarrow> string \<Rightarrow> string" where
  "orText s t = (case s of Some x \<Rightarrow> x | None \<Rightarrow> t)"

definition orElseText :: "string option \<Rightarrow> string option \<Rightarrow> string option" where
  "orElseText s t = (case s of Some x \<Rightarrow> Some x | None \<Rightarrow> t)"

definition planningRoundtableGateDecision :: "evolutionRun \<Rightarrow> gateDisposition \<times> string" where
  "planningRoundtableGateDecision run =
     (case List.find (\<lambda>r. rt_id r = PLANNING_ROUNDTABLE_ID) (run_roundtables run) of
        None \<Rightarrow> (Gd_allow, ''planning_roundtable_not_started'')
      | Some r \<Rightarrow>
         if rt_status r = Ert_skipped then (Gd_allow, orText (rt_error r) ''planning_roundtable_skipped'')
         else if rt_status r = Ert_planned \<or> rt_status r = Ert_running
         then (Gd_defer, ''waiting_for_'' @ PLANNING_ROUNDTABLE_ID)
         else if rt_status r = Ert_failed
         then (Gd_block, ''planning_roundtable_failed: ''
            @ orText (orElseText (rt_error r) (rt_summary r)) ''unknown_error'')
         else (case planningRoundtableVerdict (rt_summary r) of
            Rv_pass \<Rightarrow> (Gd_allow, ''planning_roundtable_passed'')
          | Rv_rework \<Rightarrow> (Gd_block, ''planning_roundtable_requires_rework: '' @ orText (rt_summary r) ''REWORK'')
          | Rv_unknown \<Rightarrow> (Gd_block, ''planning_roundtable_missing_pass_verdict: ''
              @ orText (rt_summary r) ''missing_summary'')))"

definition roundtableGateDecision :: "roundtableRef \<Rightarrow> gateDisposition \<times> string" where
  "roundtableGateDecision r =
     (if rt_status r = Ert_skipped then (Gd_allow, orText (rt_error r) (rt_id r @ ''_skipped''))
      else if rt_status r = Ert_planned \<or> rt_status r = Ert_running then (Gd_defer, ''waiting_for_'' @ rt_id r)
      else if rt_status r = Ert_failed
      then (Gd_block, rt_id r @ ''_failed: ''
         @ orText (orElseText (rt_error r) (rt_summary r)) ''unknown_error'')
      else (case planningRoundtableVerdict (rt_summary r) of
         Rv_pass \<Rightarrow> (Gd_allow, rt_id r @ ''_passed'')
       | Rv_rework \<Rightarrow> (Gd_block, rt_id r @ ''_requires_rework: '' @ orText (rt_summary r) ''REWORK'')
       | Rv_unknown \<Rightarrow> (Gd_block, rt_id r @ ''_missing_pass_verdict: ''
           @ orText (rt_summary r) ''missing_summary'')))"

record roundtableSpec =
  rp_id :: string
  rp_stage :: evolutionStage
  rp_topic :: string
  rp_roles :: "evolutionRoleId list"
  rp_artifactKinds :: "evolutionArtifactKind list"
  rp_gatesAutoDelivery :: bool

definition EVOLUTION_ROUNDTABLE_SPECS :: "evoEnv \<Rightarrow> roundtableSpec list" where
  "EVOLUTION_ROUNDTABLE_SPECS env =
     [\<lparr>rp_id = ''product-review'', rp_stage = Es_product_discussion,
        rp_topic = en_text env (Tx_topic ''product-review''),
        rp_roles = [Er_product_manager, Er_product_critic, Er_loop_supervisor],
        rp_artifactKinds = [Eak_normalized_requirement, Eak_discussion, Eak_role_skill],
        rp_gatesAutoDelivery = False\<rparr>,
      \<lparr>rp_id = ''design-review'', rp_stage = Es_design_hifi,
        rp_topic = en_text env (Tx_topic ''design-review''),
        rp_roles = [Er_ux_designer, Er_visual_designer, Er_frontend_developer, Er_product_manager],
        rp_artifactKinds = [Eak_prd, Eak_prd_review, Eak_ux_flow, Eak_wireframe, Eak_lofi_mockup,
          Eak_hifi_spec, Eak_hifi_mockup, Eak_taste_hifi_prompt, Eak_taste_hifi_output,
          Eak_design_handoff, Eak_role_skill],
        rp_gatesAutoDelivery = False\<rparr>,
      \<lparr>rp_id = ''architecture-review'', rp_stage = Es_architecture_baseline,
        rp_topic = en_text env (Tx_topic ''architecture-review''),
        rp_roles = [Er_tech_director, Er_backend_developer, Er_frontend_developer, Er_qa_engineer,
          Er_security_reviewer],
        rp_artifactKinds = [Eak_prd, Eak_hifi_spec, Eak_hifi_mockup, Eak_taste_hifi_prompt,
          Eak_taste_hifi_output, Eak_architecture_baseline, Eak_adr, Eak_role_skill],
        rp_gatesAutoDelivery = False\<rparr>,
      \<lparr>rp_id = PLANNING_ROUNDTABLE_ID, rp_stage = Es_tasks_ready,
        rp_topic = en_text env (Tx_topic PLANNING_ROUNDTABLE_ID),
        rp_roles = [Er_product_manager, Er_product_critic, Er_ux_designer, Er_visual_designer,
          Er_tech_director, Er_qa_engineer, Er_security_reviewer, Er_ops_release_manager],
        rp_artifactKinds = [Eak_prd, Eak_prd_review, Eak_hifi_spec, Eak_lofi_mockup, Eak_hifi_mockup,
          Eak_taste_hifi_prompt, Eak_taste_hifi_output, Eak_design_handoff,
          Eak_architecture_baseline, Eak_openspec_tasks, Eak_implementation_task_matrix,
          Eak_test_plan, Eak_test_cases, Eak_deployment_plan, Eak_role_skill],
        rp_gatesAutoDelivery = True\<rparr>]"

definition strictGateSpecsForStage :: "evoEnv \<Rightarrow> evolutionStage \<Rightarrow> roundtableSpec list" where
  "strictGateSpecsForStage env stage = filter (\<lambda>spec. rp_stage spec = stage \<and> \<not> rp_gatesAutoDelivery spec)
     (EVOLUTION_ROUNDTABLE_SPECS env)"

fun strictDecision :: "evolutionRun \<Rightarrow> roundtableSpec list \<Rightarrow> gateDisposition \<times> string" where
  "strictDecision run [] = (Gd_allow, ''strict_roundtables_passed_or_skipped'')"
| "strictDecision run (spec # specs) =
     (case List.find (\<lambda>r. rt_id r = rp_id spec) (run_roundtables run) of
        None \<Rightarrow> (Gd_allow, rp_id spec @ ''_not_started'')
      | Some r \<Rightarrow> (let d = roundtableGateDecision r in
          if fst d \<noteq> Gd_allow then d else strictDecision run specs))"

definition strictRoundtableGateDecisionForStage ::
    "evoEnv \<Rightarrow> evolutionRun \<Rightarrow> evolutionStage \<Rightarrow> gateDisposition \<times> string" where
  "strictRoundtableGateDecisionForStage env run stage =
     (if run_roundtableGateMode run \<noteq> Egm_strict then (Gd_allow, ''strict_roundtable_gate_disabled'')
      else let specs = strictGateSpecsForStage env stage in
        if specs = [] then (Gd_allow, ''no_strict_roundtable_for_stage'') else strictDecision run specs)"

fun strictBlock :: "evolutionRun \<Rightarrow> roundtableSpec list \<Rightarrow> (roundtableRef \<times> string) option" where
  "strictBlock run [] = None"
| "strictBlock run (spec # specs) =
     (case List.find (\<lambda>r. rt_id r = rp_id spec) (run_roundtables run) of
        None \<Rightarrow> strictBlock run specs
      | Some r \<Rightarrow> (let d = roundtableGateDecision r in
          if fst d = Gd_block then Some (r, snd d) else strictBlock run specs))"

definition strictRoundtableGateBlockForStage ::
    "evoEnv \<Rightarrow> evolutionRun \<Rightarrow> evolutionStage \<Rightarrow> (roundtableRef \<times> string) option" where
  "strictRoundtableGateBlockForStage env run stage =
     (if run_roundtableGateMode run \<noteq> Egm_strict then None
      else strictBlock run (strictGateSpecsForStage env stage))"

definition shouldPauseForStrictRoundtableGate :: "evoEnv \<Rightarrow> evolutionRun \<Rightarrow> bool" where
  "shouldPauseForStrictRoundtableGate env run =
     (fst (strictRoundtableGateDecisionForStage env run (run_stage run)) = Gd_defer)"

section \<open>Release by a human\<close>

definition releaseUserPauseGateForHumanContinue ::
    "evoEnv \<Rightarrow> evolutionStage \<Rightarrow> string option \<Rightarrow> int \<Rightarrow> evolutionRun \<Rightarrow> evolutionRun" where
  "releaseUserPauseGateForHumanContinue env targetStage message nowMs run =
     (case findUserPauseQuestion run of
        None \<Rightarrow> run
      | Some _ \<Rightarrow>
         (let run1 = run\<lparr>run_blockingQuestions := filter
                (\<lambda>q. pauseQuestionStage run (bq_id q) = None) (run_blockingQuestions run)\<rparr>;
              run2 = appendDiscussion env (messageOf Emk_gate targetStage (Some Er_loop_supervisor)
                (en_text env Tx_author_supervisor)
                (en_text env (Tx_resumed targetStage (truthyStr message))) None nowMs) run1 in
          appendEvidence (evidenceOf ''user_pause_gate''
            (''Released user pause gate and resumed at '' @ stageText targetStage @ ''.'') nowMs) run2))"

definition overrideSummary :: "evoEnv \<Rightarrow> string \<Rightarrow> string option \<Rightarrow> string" where
  "overrideSummary env topic message = ''PASS: human override resolved '' @ topic
     @ (case truthyStr message of Some m \<Rightarrow> en_text env Tx_dash @ take 500 m | None \<Rightarrow> [])"

definition releasesRoundtable :: "evolutionRun \<Rightarrow> evolutionStage \<Rightarrow> roundtableRef \<Rightarrow> bool" where
  "releasesRoundtable run targetStage r =
     (if rt_stage r \<noteq> targetStage then False
      else if rt_id r = PLANNING_ROUNDTABLE_ID then fst (planningRoundtableGateDecision run) = Gd_block
      else if run_roundtableGateMode run \<noteq> Egm_strict then False
      else fst (roundtableGateDecision r) = Gd_block)"

definition releaseRoundtable :: "evoEnv \<Rightarrow> evolutionStage \<Rightarrow> string option \<Rightarrow> int
    \<Rightarrow> roundtableRef \<Rightarrow> evolutionRun \<Rightarrow> evolutionRun" where
  "releaseRoundtable env targetStage message nowMs r run =
     (let released = r\<lparr>rt_status := Ert_complete,
            rt_summary := Some (overrideSummary env (rt_topic r) message),
            rt_completedAt := Some (en_iso env nowMs), rt_updatedAt := nowMs, rt_error := None\<rparr>;
          run1 = upsertRoundtable released run;
          run2 = appendDiscussion env (messageOf Emk_gate targetStage (Some Er_loop_supervisor)
            (en_text env Tx_author_supervisor)
            (en_text env (Tx_gate_released (rt_topic r) targetStage (truthyStr message))) None nowMs) run1;
          run3 = appendEvidence (evidenceOf ''human_gate_override''
            (''Released '' @ rt_id r @ '' gate at '' @ stageText targetStage @ ''.'') nowMs) run2 in
      run3\<lparr>run_blockingQuestions := filter (\<lambda>q. bq_id q \<noteq> strictQuestionId run (rt_id r)
        \<and> bq_id q \<noteq> planningQuestionId run) (run_blockingQuestions run3)\<rparr>)"

definition releaseRoundtableGateForHumanContinue ::
    "evoEnv \<Rightarrow> evolutionStage \<Rightarrow> string option \<Rightarrow> int \<Rightarrow> evolutionRun \<Rightarrow> evolutionRun" where
  "releaseRoundtableGateForHumanContinue env targetStage message nowMs run =
     foldl (\<lambda>s r. releaseRoundtable env targetStage message nowMs r s) run
       (filter (releasesRoundtable run targetStage) (run_roundtables run))"

end
