(* ===== verification/EvoProjection.thy ===== *)
theory EvoProjection
  imports EvoGates
begin

text \<open>
  What the daemon shows of a run: the execution timeline, the loop control and the projection that
  \<^verbatim>\<open>buildEvolutionProjection\<close> of \<^verbatim>\<open>src/daemon/evolution-orchestrator.ts\<close> sends to the browser.
\<close>

section \<open>The execution timeline\<close>

fun includesText :: "string \<Rightarrow> string \<Rightarrow> bool" where
  "includesText sub [] = (sub = [])"
| "includesText sub (c # cs) = (startsWith (c # cs) sub \<or> includesText sub cs)"

definition executionTimelineId :: "evoEnv \<Rightarrow> string \<Rightarrow> string \<Rightarrow> int \<Rightarrow> string" where
  "executionTimelineId env source v createdAt =
     ''exec-'' @ shortSha256 env (joinWith '':'' [source, v, showInt createdAt])"

definition truncateDetail :: "evoEnv \<Rightarrow> nat \<Rightarrow> string \<Rightarrow> string" where
  "truncateDetail env hi v = (let normalized = trim (collapseSpace v) in
     if length normalized > hi then take (hi - 1) normalized @ en_text env Tx_ellipsis else normalized)"

abbreviation truncateTimelineDetail :: "evoEnv \<Rightarrow> string \<Rightarrow> string" where
  "truncateTimelineDetail env v \<equiv> truncateDetail env 180 v"

definition nthPart :: "nat \<Rightarrow> string \<Rightarrow> string option" where
  "nthPart i source = (let parts = splitOn (CHR '':'') source in
     if i < length parts then Some (parts ! i) else None)"

definition parseRoleIdFromEvidenceSource :: "string \<Rightarrow> evolutionRoleId option" where
  "parseRoleIdFromEvidenceSource source = (case nthPart 1 source of
     Some part \<Rightarrow> readEnum roleText EVOLUTION_ROLE_IDS (Str part) | None \<Rightarrow> None)"

definition openSpecModuleRole :: "string \<Rightarrow> evolutionRoleId" where
  "openSpecModuleRole modul =
     (if modul = ''tests'' then Er_qa_engineer
      else if modul = ''risk'' \<or> modul = ''spec'' \<or> modul = ''tasks'' then Er_tech_director
      else Er_backend_developer)"

definition timelineRoleForEvidence :: "evolutionEvidence \<Rightarrow> evolutionRoleId" where
  "timelineRoleForEvidence e =
     (let source = toLower (ev_source e); summary = toLower (ev_summary e);
          src = (\<lambda>w. includesText w source); says = (\<lambda>w. includesText w summary);
          explicitRole = (if startsWith source ''user:'' then parseRoleIdFromEvidenceSource source else None) in
      case explicitRole of Some r \<Rightarrow> r
      | None \<Rightarrow>
        if src ''release_gate'' \<or> says ''production release'' then Er_ops_release_manager
        else if startsWith source ''openspec_score:''
        then openSpecModuleRole (orText (nthPart 1 source) ''implementation'')
        else if source = ''openspec_task_board'' then Er_tech_director
        else if src ''taste'' \<or> src ''hifi'' \<or> says ''taste-skill'' \<or> says ''high-fidelity''
        then Er_visual_designer
        else if src ''staging'' \<or> src ''delivery'' \<or> says ''staging'' \<or> says ''deployment''
        then Er_ops_release_manager
        else if src ''p2p'' \<or> src ''roundtable'' then Er_tech_director
        else if src ''human'' \<or> says ''needs human'' \<or> says ''gate'' then Er_loop_supervisor
        else if src ''openspec'' \<or> says ''openspec''
        then (if says ''implementation_audit'' \<or> says ''audit'' \<or> says ''test'' \<or> says ''passed'' then Er_qa_engineer
              else if says ''frontend'' \<or> says ''ui'' then Er_frontend_developer
              else Er_backend_developer)
        else if says ''security'' then Er_security_reviewer
        else if says ''frontend'' \<or> says ''ui'' then Er_frontend_developer
        else if says ''implementation'' \<or> says ''task'' \<or> says ''prompt'' \<or> says ''build''
        then Er_backend_developer
        else if says ''test'' \<or> says ''qa'' \<or> says ''audit'' then Er_qa_engineer
        else if says ''prd'' \<or> says ''product'' then Er_product_manager
        else Er_loop_supervisor)"

definition timelineStageForEvidence :: "evolutionEvidence \<Rightarrow> evolutionStage \<Rightarrow> evolutionStage" where
  "timelineStageForEvidence e fallback =
     (let source = toLower (ev_source e); summary = toLower (ev_summary e);
          src = (\<lambda>w. includesText w source); says = (\<lambda>w. includesText w summary) in
      if src ''release_gate'' \<or> says ''production release'' then Es_human_release_gate
      else if src ''taste'' \<or> src ''hifi'' \<or> says ''taste-skill'' \<or> says ''high-fidelity'' then Es_design_hifi
      else if src ''staging'' \<or> says ''staging delivery''
      then (if says ''failed'' \<or> says ''invalid'' then Es_needs_human
            else if says ''passed'' then Es_deployed_staging else Es_delivery_ready)
      else if src ''openspec'' \<or> says ''openspec auto deliver''
      then (if says ''needs_human'' \<or> says ''needs human'' then Es_needs_human
            else if says ''failed'' then Es_failed
            else if says ''stopped'' then Es_stopped
            else if says ''implementation_audit'' then Es_qa_completion
            else if says ''passed'' then Es_delivery_ready
            else if says ''implementation'' \<or> says ''task'' then Es_implementation_loop
            else fallback)
      else fallback)"

definition timelineStatusForEvidence :: "evolutionEvidence \<Rightarrow> evolutionStage \<Rightarrow> evolutionRoleStatus" where
  "timelineStatusForEvidence e stage =
     (let source = toLower (ev_source e); says = (\<lambda>w. includesText w (toLower (ev_summary e))) in
      case ev_exitCode e of
        Some code \<Rightarrow> if code = 0 then Ers_complete else Ers_failed
      | None \<Rightarrow>
        if startsWith source ''user:'' \<or> source = ''user'' then Ers_waiting
        else if stage = Es_failed then Ers_failed
        else if stage = Es_needs_human \<or> says ''failed'' \<or> says ''blocked'' \<or> says ''could not'' \<or> says ''invalid''
        then Ers_blocked
        else if says ''starting'' \<or> says ''running'' \<or> says ''dispatched'' then Ers_running
        else if says ''waiting'' \<or> says ''disabled'' \<or> says ''not_configured'' \<or> says ''not configured''
          \<or> says ''gate'' then Ers_waiting
        else Ers_complete)"

definition roleStatusOf :: "evolutionRun \<Rightarrow> evolutionRoleId \<Rightarrow> evolutionRoleStatus" where
  "roleStatusOf run roleId = (case List.find (\<lambda>r. ro_roleId r = roleId) (run_roles run) of
     Some r \<Rightarrow> ro_status r | None \<Rightarrow> Ers_pending)"

definition orStage :: "evolutionStage option \<Rightarrow> evolutionStage \<Rightarrow> evolutionStage" where
  "orStage s t = (case s of Some x \<Rightarrow> x | None \<Rightarrow> t)"

definition timelineOfRole :: "evoEnv \<Rightarrow> evolutionRun \<Rightarrow> roleState \<Rightarrow> timelineItem list" where
  "timelineOfRole env run r = (case truthyStr (ro_currentAction r) of None \<Rightarrow> []
     | Some action \<Rightarrow>
        [\<lparr>ti_id = executionTimelineId env ''role'' (roleText (ro_roleId r)) (ro_updatedAt r),
          ti_roleId = ro_roleId r, ti_stage = orStage (ro_stage r) (run_stage run),
          ti_status = ro_status r,
          ti_title = en_text env (Tx_title ''role'' (orText (ro_label r) (roleText (ro_roleId r)))),
          ti_detail = action, ti_artifactIds = None, ti_source = Ets_role,
          ti_createdAt = ro_updatedAt r\<rparr>])"

definition timelineOfMessage :: "evoEnv \<Rightarrow> evolutionRun \<Rightarrow> discussionMessage \<Rightarrow> timelineItem list" where
  "timelineOfMessage env run m = (case dm_roleId m of None \<Rightarrow> []
     | Some roleId \<Rightarrow>
        [\<lparr>ti_id = executionTimelineId env ''discussion'' (dm_id m) (dm_createdAt m),
          ti_roleId = roleId, ti_stage = dm_stage m, ti_status = roleStatusOf run roleId,
          ti_title = dm_author m @ [CHR '' '', CHR 0xB7, CHR '' ''] @ messageKindText (dm_kind m),
          ti_detail = truncateTimelineDetail env (dm_text m), ti_artifactIds = dm_artifactIds m,
          ti_source = Ets_discussion, ti_createdAt = dm_createdAt m\<rparr>])"

definition timelineOfArtifact :: "evoEnv \<Rightarrow> evolutionRun \<Rightarrow> artifactRef \<Rightarrow> timelineItem list" where
  "timelineOfArtifact env run a = (case ar_roleId a of None \<Rightarrow> []
     | Some roleId \<Rightarrow>
        [\<lparr>ti_id = executionTimelineId env ''artifact'' (ar_id a) (ar_createdAt a),
          ti_roleId = roleId, ti_stage = orStage (ar_stage a) (run_stage run),
          ti_status = roleStatusOf run roleId,
          ti_title = en_text env (Tx_title ''artifact'' (orText (ar_title a) (artifactKindText (ar_kind a)))),
          ti_detail = ar_path a, ti_artifactIds = Some [ar_id a], ti_source = Ets_artifact,
          ti_createdAt = ar_createdAt a\<rparr>])"

definition timelineOfEvidence :: "evoEnv \<Rightarrow> evolutionRun \<Rightarrow> nat \<Rightarrow> evolutionEvidence \<Rightarrow> timelineItem list" where
  "timelineOfEvidence env run i e = (let stage = timelineStageForEvidence e (run_stage run) in
     [\<lparr>ti_id = executionTimelineId env ''evidence'' (ev_source e @ '':'' @ showNat i) (ev_createdAt e),
       ti_roleId = timelineRoleForEvidence e, ti_stage = stage,
       ti_status = timelineStatusForEvidence e stage,
       ti_title = en_text env (Tx_title ''evidence'' (ev_source e)),
       ti_detail = truncateTimelineDetail env (case truthyStr (ev_command e) of
          Some c \<Rightarrow> ev_summary e @ [CHR '' '', CHR 0xB7, CHR '' ''] @ c | None \<Rightarrow> ev_summary e),
       ti_artifactIds = map_option (\<lambda>i. [i]) (truthyStr (ev_artifactId e)),
       ti_source = Ets_evidence, ti_createdAt = ev_createdAt e\<rparr>])"

definition roundtableRoleStatus :: "evolutionRoundtableStatus \<Rightarrow> evolutionRoleStatus" where
  "roundtableRoleStatus s = (if s = Ert_failed then Ers_blocked else if s = Ert_running then Ers_running
     else if s = Ert_complete then Ers_complete else Ers_waiting)"

definition timelineOfRoundtable :: "evoEnv \<Rightarrow> roundtableRef \<Rightarrow> timelineItem list" where
  "timelineOfRoundtable env r = map (\<lambda>roleId.
     \<lparr>ti_id = executionTimelineId env ''roundtable'' (rt_id r @ '':'' @ roleText roleId) (rt_updatedAt r),
       ti_roleId = roleId, ti_stage = rt_stage r, ti_status = roundtableRoleStatus (rt_status r),
       ti_title = en_text env (Tx_title ''roundtable'' (rt_topic r)),
       ti_detail = truncateTimelineDetail env (orText (orElseText (rt_summary r) (rt_error r))
          (roundtableStatusText (rt_status r) @ (case truthyStr (rt_p2pRunId r) of
             Some i \<Rightarrow> [CHR '' '', CHR 0xB7, CHR '' ''] @ i | None \<Rightarrow> []))),
       ti_artifactIds = None, ti_source = Ets_roundtable, ti_createdAt = rt_updatedAt r\<rparr>) (rt_roles r)"

definition timelineLe :: "jsHost \<Rightarrow> timelineItem \<Rightarrow> timelineItem \<Rightarrow> bool" where
  "timelineLe h a b = (ti_createdAt b < ti_createdAt a \<or> ti_createdAt a = ti_createdAt b
     \<and> collateLe h (roleText (ti_roleId a)) (roleText (ti_roleId b)))"

definition buildExecutionTimeline :: "evoEnv \<Rightarrow> evolutionRun \<Rightarrow> timelineItem list" where
  "buildExecutionTimeline env run = take 80 (sortBy (timelineLe (en_host env))
     (concat (map (timelineOfRole env run) (run_roles run))
      @ concat (map (timelineOfMessage env run) (run_discussion run))
      @ concat (map (timelineOfArtifact env run) (run_artifacts run))
      @ concatIndexed (timelineOfEvidence env run) 0 (run_evidence run)
      @ concat (map (timelineOfRoundtable env) (run_roundtables run))))"

section \<open>Loop control\<close>

definition STAGE_ORDER :: "evolutionStage list" where
  "STAGE_ORDER = [Es_detected, Es_intake_normalized, Es_product_discussion, Es_prd_ready,
     Es_design_lofi, Es_design_hifi, Es_architecture_baseline, Es_tasks_ready,
     Es_implementation_loop, Es_qa_completion, Es_delivery_ready, Es_deployed_staging,
     Es_human_release_gate, Es_deployed_production]"

text \<open>\<^verbatim>\<open>xs.indexOf(x)\<close>, absent as \<open>None\<close>.\<close>

fun indexOf :: "'a \<Rightarrow> 'a list \<Rightarrow> nat option" where
  "indexOf x [] = None"
| "indexOf x (y # ys) = (if x = y then Some 0 else map_option Suc (indexOf x ys))"

definition stageOrderIndex :: "evolutionStage \<Rightarrow> nat" where
  "stageOrderIndex stage = (case indexOf stage STAGE_ORDER of Some i \<Rightarrow> i | None \<Rightarrow> length STAGE_ORDER)"

definition artifactIdsForKinds :: "evolutionRun \<Rightarrow> evolutionArtifactKind list \<Rightarrow> string list" where
  "artifactIdsForKinds run kinds = map ar_id (filter (\<lambda>a. ar_kind a \<in> set kinds) (run_artifacts run))"

primrec loopSignalWeight :: "loopSignalStatus \<Rightarrow> rat" where
  "loopSignalWeight Ess_missing = 0"
| "loopSignalWeight Ess_ready = 3 / 4"
| "loopSignalWeight Ess_running = 3 / 5"
| "loopSignalWeight Ess_blocked = 1 / 5"
| "loopSignalWeight Ess_complete = 1"

definition autoEnabled :: "evolutionRun \<Rightarrow> bool" where
  "autoEnabled run = (case run_autoDelivery run of Some p \<Rightarrow> ad_enabled p | None \<Rightarrow> False)"

definition buildLoopControlMode :: "evolutionRun \<Rightarrow> loopControlMode" where
  "buildLoopControlMode run =
     (if terminalStage (run_stage run) then Elm_terminal
      else if run_stage run = Es_needs_human \<or> run_stage run = Es_human_release_gate then Elm_human_gate
      else if autoEnabled run then Elm_auto_implementation else Elm_planning_only)"

definition signalOf :: "string \<Rightarrow> string \<Rightarrow> loopSignalStatus \<Rightarrow> string \<Rightarrow> string list option \<Rightarrow> loopControlSignal" where
  "signalOf i label status detail artifactIds = \<lparr>ls_id = i, ls_label = label, ls_status = status,
     ls_detail = detail, ls_artifactIds = artifactIds\<rparr>"

definition roundtableSignal :: "evolutionRun \<Rightarrow> loopControlSignal" where
  "roundtableSignal run =
     (let rts = run_roundtables run; signal = signalOf ''p2p_roundtables'' ''P2P roundtables'' in
      case List.find (\<lambda>r. rt_status r = Ert_failed) rts of
        Some r \<Rightarrow> signal Ess_blocked (rt_topic r @ '' blocked: ''
          @ orText (orElseText (rt_error r) (rt_summary r)) ''unknown failure'') None
      | None \<Rightarrow>
      (case List.find (\<lambda>r. rt_status r = Ert_running) rts of
        Some r \<Rightarrow> signal Ess_running (rt_topic r @ '' is running''
          @ (case truthyStr (rt_currentTargetSession r) of Some t \<Rightarrow> '' with '' @ t | None \<Rightarrow> []) @ ''.'') None
      | None \<Rightarrow>
      (case List.find (\<lambda>r. rt_status r = Ert_planned) rts of
        Some r \<Rightarrow> signal Ess_ready (rt_topic r @ '' is planned and waiting for worker dispatch.'') None
      | None \<Rightarrow>
        if 0 < length rts
        then signal Ess_complete (showNat (length rts) @ '' roundtable checkpoints recorded (''
          @ joinWith '', '' (map (\<lambda>r. roundtableStatusText (rt_status r)) rts) @ '').'') None
        else signal Ess_ready
          ''Roundtable checkpoints are registered for product, design, architecture, and planning review stages.''
          None)))"

text \<open>\<^verbatim>\<open>...(ids.length > 0 ? { artifactIds: ids.slice(0, n) } : {})\<close>.\<close>

definition someIds :: "nat \<Rightarrow> string list \<Rightarrow> string list option" where
  "someIds n ids = (if 0 < length ids then Some (take n ids) else None)"

definition buildLoopControlSignals :: "evoEnv \<Rightarrow> evolutionRun \<Rightarrow> loopControlSignal list" where
  "buildLoopControlSignals env run =
     (let roleSkillArtifacts = filter (\<lambda>a. ar_kind a = Eak_role_skill) (run_artifacts run);
          makerChecker = artifactIdsForKinds run [Eak_implementation_task_matrix, Eak_openspec_tasks];
          hifi = artifactIdsForKinds run
            [Eak_hifi_mockup, Eak_taste_hifi_prompt, Eak_taste_hifi_output, Eak_design_handoff];
          qa = artifactIdsForKinds run [Eak_test_plan, Eak_test_cases, Eak_test_evidence];
          delivery = artifactIdsForKinds run [Eak_deployment_plan, Eak_staging_setup,
            Eak_staging_config_example, Eak_staging_deploy_log, Eak_release_gate];
          implementationBlocked = list_ex (\<lambda>q. startsWith (bq_id q) ''openspec-'') (run_blockingQuestions run);
          reached = (\<lambda>s. stageOrderIndex s \<le> stageOrderIndex (run_stage run));
          deliveryBlocked = (case run_stagingDelivery run of
            Some d \<Rightarrow> sg_status d = Esd_failed | None \<Rightarrow> False);
          scoreCount = length (run_scores run);
          lowScore = List.find (\<lambda>s. numLess (sc_score s) (Num 5)) (run_scores run);
          linkedRun = truthyStr (run_linkedAutoDeliverRunId run);
          linkedChange = truthyStr (run_linkedOpenSpecChange run) in
      [signalOf ''state_memory'' ''State + memory'' Ess_complete
         (''run.json keeps stage, artifacts, scores, discussion, evidence, and gates durable for ''
           @ run_runId run @ ''.'') None,
       signalOf ''role_skills'' ''Role skills''
         (if length (run_roles run) \<le> length roleSkillArtifacts then Ess_complete else Ess_missing)
         (showNat (length roleSkillArtifacts) @ ''/'' @ showNat (length (run_roles run))
           @ '' project-level evolution skills are materialized under .imc/skills/evolution/.'')
         (Some (map ar_id (take 6 roleSkillArtifacts))),
       roundtableSignal run,
       signalOf ''high_fidelity_design'' ''High-fidelity design''
         (if 0 < length hifi then if reached Es_design_hifi then Ess_complete else Ess_running else Ess_missing)
         (if 0 < length hifi
          then ''Taste-skill prompt/output, high-fidelity SVG, or design handoff is available for frontend agents.''
          else ''Waiting for design_hifi stage to create taste-skill/high-fidelity handoff.'')
         (someIds 6 hifi),
       signalOf ''maker_checker_tasks'' ''Maker/checker tasks''
         (if 0 < length makerChecker then Ess_complete
          else if reached Es_architecture_baseline then Ess_ready else Ess_missing)
         (if 0 < length makerChecker
          then ''OpenSpec tasks and implementation matrix assign maker/checker ownership across frontend, backend, QA, security, and ops.''
          else ''Task matrix is generated after architecture baseline.'')
         (someIds 4 makerChecker),
       signalOf ''quality_scores'' ''Quality scores''
         (if lowScore \<noteq> None then Ess_blocked else if 6 \<le> scoreCount then Ess_complete
          else if 0 < scoreCount then Ess_running else Ess_missing)
         (case lowScore of
            Some s \<Rightarrow> scoreModuleText (sc_module s) @ '' score is ''
              @ numToString (numDigits (en_host env)) (sc_score s) @ ''/10 and requires repair.''
          | None \<Rightarrow> showNat scoreCount
              @ '' quality score modules recorded for product/design/architecture/tasks/tests/delivery/risk.'')
         (someIds 4 qa),
       signalOf ''implementation_loop'' ''Implementation loop''
         (if implementationBlocked then Ess_blocked else if reached Es_qa_completion then Ess_complete
          else if linkedRun \<noteq> None \<or> run_stage run = Es_implementation_loop then Ess_running
          else if linkedChange \<noteq> None then Ess_ready else Ess_missing)
         (case linkedRun of
            Some r \<Rightarrow> ''OpenSpec Auto Deliver run '' @ r @ '' is linked back into this Evolution run.''
          | None \<Rightarrow> (case linkedChange of
              Some c \<Rightarrow> ''OpenSpec change '' @ c @ '' is ready for multi-agent development.''
            | None \<Rightarrow> ''Implementation loop starts after tasks_ready and planning gate.''))
         None,
       signalOf ''delivery_gate'' ''Delivery + release gate''
         (if deliveryBlocked then Ess_blocked
          else if run_stage run = Es_deployed_production then Ess_complete
          else if run_stage run = Es_human_release_gate \<or> run_stage run = Es_deployed_staging then Ess_ready
          else if reached Es_delivery_ready then Ess_running else Ess_missing)
         (if deliveryBlocked
          then ''Staging failed: '' @ orText (case run_stagingDelivery run of
             Some d \<Rightarrow> orElseText (sg_lastError d) (sg_summary d) | None \<Rightarrow> None) ''unknown error''
          else if run_stage run = Es_human_release_gate
          then ''Staging is complete or bypassed; production remains a human gate.''
          else ''Staging can be automated, while production execution remains manually approved.'')
         (someIds 5 delivery)])"

definition buildCurrentLoopGate :: "evolutionRun \<Rightarrow> string" where
  "buildCurrentLoopGate run =
     (case rev (run_blockingQuestions run) of
        q # _ \<Rightarrow> bq_question q
      | [] \<Rightarrow>
        if run_stage run = Es_human_release_gate
        then ''Production release requires explicit human approval.''
        else if run_stage run = Es_needs_human
        then ''Human input is required before the loop can continue.''
        else if run_stage run = Es_tasks_ready \<and> \<not> autoEnabled run
        then ''Planning complete; auto implementation is disabled until manually started.''
        else (case List.find (\<lambda>r. rt_status r = Ert_running \<or> rt_status r = Ert_planned) (run_roundtables run) of
           Some r \<Rightarrow> rt_topic r @ '' is '' @ roundtableStatusText (rt_status r) @ ''.''
         | None \<Rightarrow>
           if terminalStage (run_stage run)
           then orText (run_terminalReason run) (''Terminal stage: '' @ stageText (run_stage run) @ ''.'')
           else ''No blocking gate; loop may continue within configured budget and safety policy.''))"

text \<open>
  \<^verbatim>\<open>Math.round(sum / max(1, n) * 100)\<close> in exact arithmetic; where the exact value ends in one half,
  the sum of binary fractions may fall just below it and round down instead.
\<close>

definition readinessScoreOf :: "loopControlSignal list \<Rightarrow> nat" where
  "readinessScoreOf signals = nat \<lfloor>sum_list (map (\<lambda>s. loopSignalWeight (ls_status s)) signals)
     / of_nat (max 1 (length signals)) * 100 + 1 / 2\<rfloor>"

definition buildLoopControl :: "evoEnv \<Rightarrow> evolutionRun \<Rightarrow> int \<Rightarrow> loopControl" where
  "buildLoopControl env run nowMs =
     (let signals = buildLoopControlSignals env run;
          mode = buildLoopControlMode run;
          blocking = run_blockingQuestions run \<noteq> [] \<or> list_ex (\<lambda>s. ls_status s = Ess_blocked) signals;
          manualImplementationGate = run_stage run = Es_tasks_ready \<and> \<not> autoEnabled run;
          elapsedMinutes = max 0 \<lceil>(of_int (nowMs - run_createdAt run) :: rat) / 60000\<rceil> in
      \<lparr>lc_mode = mode, lc_readinessScore = readinessScoreOf signals,
        lc_canAutonomouslyContinue = (mode \<noteq> Elm_terminal \<and> mode \<noteq> Elm_human_gate \<and> \<not> blocking
          \<and> \<not> manualImplementationGate \<and> elapsedMinutes \<le> int (bu_maxElapsedMinutes (run_budget run))),
        lc_currentGate = buildCurrentLoopGate run, lc_budget = run_budget run,
        lc_usage = \<lparr>lu_elapsedMinutes = elapsedMinutes,
          lu_roleTurns = length (filter (\<lambda>m. dm_kind m = Emk_role_update
            \<or> dm_kind m = Emk_artifact_summary) (run_discussion run)),
          lu_implementationAttempts = length (filter (\<lambda>e. includesText ''openspec'' (toLower (ev_source e))
            \<or> includesText ''auto_deliver'' (toLower (ev_source e))) (run_evidence run)),
          lu_artifactCount = length (run_artifacts run), lu_evidenceCount = length (run_evidence run),
          lu_discussionCount = length (run_discussion run)\<rparr>,
        lc_signals = signals, lc_updatedAt = nowMs\<rparr>)"

section \<open>The projection\<close>

definition buildEvolutionProjection :: "evoEnv \<Rightarrow> evolutionRun \<Rightarrow> int \<Rightarrow> evolutionProjection" where
  "buildEvolutionProjection env run nowMs =
     \<lparr>pj_runId = run_runId run, pj_requestId = run_requestId run, pj_stage = run_stage run,
       pj_verdict = run_verdict run, pj_sessionName = run_sessionName run,
       pj_projectName = truthyStr (run_projectName run), pj_source = run_source run,
       pj_roles = run_roles run, pj_artifacts = run_artifacts run, pj_scores = run_scores run,
       pj_blockingQuestions = run_blockingQuestions run, pj_discussion = run_discussion run,
       pj_roundtables = run_roundtables run, pj_roundtableGateMode = run_roundtableGateMode run,
       pj_designTargetSurface = Some (case run_designTargetSurface run of Some d \<Rightarrow> d | None \<Rightarrow> Eds_auto),
       pj_evidence = run_evidence run,
       pj_executionTimeline = (case run_executionTimeline run of
          Some t \<Rightarrow> t | None \<Rightarrow> buildExecutionTimeline env run),
       pj_liveEvents = (case run_liveEvents run of Some es \<Rightarrow> es | None \<Rightarrow> []),
       pj_loopControl = buildLoopControl env run nowMs,
       pj_autoDelivery = run_autoDelivery run, pj_stagingDelivery = run_stagingDelivery run,
       pj_linkedOpenSpecChange = truthyStr (run_linkedOpenSpecChange run),
       pj_linkedAutoDeliverRunId = truthyStr (run_linkedAutoDeliverRunId run),
       pj_latestMessage = truthyStr (run_latestMessage run),
       pj_terminalReason = truthyStr (run_terminalReason run),
       pj_elapsedMs = max 0 (nowMs - run_createdAt run), pj_updatedAt = run_updatedAt run\<rparr>"

end
