(* ===== verification/EvoStages.thy ===== *)
theory EvoStages
  imports EvoProjection
begin

text \<open>
  The operations a user has on a run, \<^verbatim>\<open>src/daemon/evolution-orchestrator.ts\<close>: advance, stop, pause,
  continue and a message to a role, with the table of runs in memory and the \<^verbatim>\<open>run.json\<close> files.

  An operation is a function of the world. \<open>fs\<close> says of each file the call writes whether the
  write succeeds; a failed one makes the call throw, with the run changed in memory but not on
  disk. \<open>nowMs\<close> is the time of the call.
\<close>

record runtimeEntry =
  rn_projectRoot :: string
  rn_run :: evolutionRun

record evoWorld =
  ew_runs :: "(string, runtimeEntry) jsmap"
  ew_launched :: "(string, evolutionProjection) jsmap"
  ew_disk :: "(string \<times> string, evolutionRun) jsmap"

datatype evoOutcome = Evo_ok evolutionProjection | Evo_failed "evolutionIssue list" | Evo_threw

type_synonym evoCall = "evoOutcome \<times> evoWorld"

definition upsertRuntime :: "string \<Rightarrow> evolutionRun \<Rightarrow> evoWorld \<Rightarrow> evoWorld" where
  "upsertRuntime projectRoot run w = w\<lparr>ew_runs := mapSet (ew_runs w) (run_runId run)
     \<lparr>rn_projectRoot = projectRoot, rn_run = run\<rparr>\<rparr>"

definition getRuntimeEntry :: "string \<Rightarrow> evoWorld \<Rightarrow> runtimeEntry option" where
  "getRuntimeEntry runId w = mapGet (ew_runs w) runId"

text \<open>The entry of a run is mutated in place: the map keeps its key and position.\<close>

definition setRun :: "string \<Rightarrow> evolutionRun \<Rightarrow> evoWorld \<Rightarrow> evoWorld" where
  "setRun runId run w = (case mapGet (ew_runs w) runId of None \<Rightarrow> w
     | Some entry \<Rightarrow> w\<lparr>ew_runs := mapSet (ew_runs w) runId (entry\<lparr>rn_run := run\<rparr>)\<rparr>)"

text \<open>How every operation starts: a valid id of a known run.\<close>

definition onRun :: "string \<Rightarrow> evoWorld \<Rightarrow> (string \<Rightarrow> runtimeEntry \<Rightarrow> evoCall) \<Rightarrow> evoCall" where
  "onRun runId w body = (case validateEvolutionRunId (Str runId) of
     Inl issues \<Rightarrow> (Evo_failed issues, w)
   | Inr rid \<Rightarrow> (case getRuntimeEntry rid w of
       None \<Rightarrow> (Evo_failed [issueAt ''evolution_run_not_found'' ''runId''], w)
     | Some entry \<Rightarrow> body rid entry))"

definition persistAndProject :: "evoEnv \<Rightarrow> (string \<Rightarrow> bool) \<Rightarrow> string \<Rightarrow> evolutionRun \<Rightarrow> int \<Rightarrow> evoWorld \<Rightarrow> evoCall" where
  "persistAndProject env fs runId run nowMs w = (case getRuntimeEntry runId w of
     None \<Rightarrow> (Evo_threw, w)
   | Some entry \<Rightarrow>
      (let saved = run\<lparr>run_updatedAt := nowMs\<rparr>; w1 = setRun runId saved w in
       if fs ''run.json''
       then (Evo_ok (buildEvolutionProjection env saved nowMs),
             w1\<lparr>ew_disk := mapSet (ew_disk w1) (rn_projectRoot entry, run_runId run) saved\<rparr>)
       else (Evo_threw, w1)))"

section \<open>Reading\<close>

definition getEvolutionRun :: "evoEnv \<Rightarrow> string \<Rightarrow> int \<Rightarrow> evoWorld \<Rightarrow> evoOutcome" where
  "getEvolutionRun env runId nowMs w = fst (onRun runId w
     (\<lambda>rid entry. (Evo_ok (buildEvolutionProjection env (rn_run entry) nowMs), w)))"

definition projectionLe :: "jsHost \<Rightarrow> evolutionProjection \<Rightarrow> evolutionProjection \<Rightarrow> bool" where
  "projectionLe h a b = (pj_updatedAt b < pj_updatedAt a \<or> pj_updatedAt a = pj_updatedAt b
     \<and> collateLe h (pj_runId a) (pj_runId b))"

definition listEvolutionRuns :: "evoEnv \<Rightarrow> int \<Rightarrow> evoWorld \<Rightarrow> evolutionProjection list" where
  "listEvolutionRuns env nowMs w = sortBy (projectionLe (en_host env))
     (map (\<lambda>(_, entry). buildEvolutionProjection env (rn_run entry) nowMs) (ew_runs w))"

section \<open>Advance and stop\<close>

definition advancedRun :: "evoEnv \<Rightarrow> evolutionStage \<Rightarrow> string option \<Rightarrow> int \<Rightarrow> evolutionRun \<Rightarrow> evolutionRun" where
  "advancedRun env nextStage reason nowMs run =
     (let message = orText reason (''Evolution stage advanced to '' @ stageText nextStage @ ''.'');
          run1 = (applyRoleStatesForStage env nextStage nowMs (run\<lparr>run_stage := nextStage\<rparr>))
            \<lparr>run_latestMessage := Some message\<rparr>;
          run2 =
            (if nextStage = Es_needs_human then run1\<lparr>run_verdict := Some Ev_BLOCKED\<rparr>
             else if terminalStage nextStage
             then run1\<lparr>run_verdict := Some (if nextStage = Es_deployed_production then Ev_PASS
                    else if nextStage = Es_failed then Ev_BLOCKED else Ev_REWORK),
                  run_terminalReason := Some (orText reason (stageText nextStage))\<rparr>
             else run1\<lparr>run_verdict := None, run_terminalReason := None\<rparr>) in
      appendEvidence (evidenceOf ''orchestrator'' message nowMs) run2)"

definition advanceEvolutionRunStage :: "evoEnv \<Rightarrow> (string \<Rightarrow> bool) \<Rightarrow> string \<Rightarrow> evolutionStage
    \<Rightarrow> string option \<Rightarrow> int \<Rightarrow> evoWorld \<Rightarrow> evoCall" where
  "advanceEvolutionRunStage env fs runId nextStage reason nowMs w = onRun runId w (\<lambda>rid entry.
     if run_stage (rn_run entry) = nextStage
     then (Evo_ok (buildEvolutionProjection env (rn_run entry) nowMs), w)
     else (case validateEvolutionStageTransition (run_stage (rn_run entry)) nextStage of
        Inl issues \<Rightarrow> (Evo_failed issues, w)
      | Inr _ \<Rightarrow> persistAndProject env fs rid (advancedRun env nextStage reason nowMs (rn_run entry)) nowMs w))"

definition stopEvolutionRun :: "evoEnv \<Rightarrow> (string \<Rightarrow> bool) \<Rightarrow> string \<Rightarrow> string option \<Rightarrow> int \<Rightarrow> evoWorld \<Rightarrow> evoCall" where
  "stopEvolutionRun env fs runId reason nowMs w = onRun runId w (\<lambda>rid entry.
     if terminalStage (run_stage (rn_run entry))
     then (Evo_ok (buildEvolutionProjection env (rn_run entry) nowMs), w)
     else advanceEvolutionRunStage env fs rid Es_stopped
       (Some (orText reason ''Evolution run stopped by request.'')) nowMs w)"

section \<open>Pause and continue\<close>

definition pausedRun :: "evoEnv \<Rightarrow> string option \<Rightarrow> int \<Rightarrow> evolutionRun \<Rightarrow> evolutionRun" where
  "pausedRun env reason nowMs run =
     (let pausedFromStage = run_stage run;
          message = orText reason (''Paused from Evolution War Room at '' @ stageText pausedFromStage @ ''.'');
          run1 = (applyRoleStatesForStage env Es_needs_human nowMs (run\<lparr>run_stage := Es_needs_human\<rparr>))
            \<lparr>run_verdict := Some Ev_BLOCKED, run_terminalReason := None, run_latestMessage := Some message\<rparr>;
          run2 = run1\<lparr>run_blockingQuestions :=
            filter (\<lambda>q. pauseQuestionStage run (bq_id q) = None) (run_blockingQuestions run)
            @ [\<lparr>bq_id = pauseQuestionId (run_runId run) pausedFromStage, bq_stage = pausedFromStage,
                 bq_roleId = Some Er_loop_supervisor,
                 bq_question = en_text env (Tx_pause_question pausedFromStage), bq_createdAt = nowMs\<rparr>]\<rparr>;
          run3 = appendDiscussion env (messageOf Emk_gate Es_needs_human (Some Er_loop_supervisor)
            (en_text env Tx_author_supervisor) (en_text env (Tx_paused pausedFromStage)) None nowMs) run2 in
      appendEvidence (evidenceOf ''user_pause_gate''
        (''User paused Evolution run at '' @ stageText pausedFromStage @ ''.'') nowMs) run3)"

definition pauseEvolutionRun :: "evoEnv \<Rightarrow> (string \<Rightarrow> bool) \<Rightarrow> string \<Rightarrow> string option \<Rightarrow> int \<Rightarrow> evoWorld \<Rightarrow> evoCall" where
  "pauseEvolutionRun env fs runId reason nowMs w = onRun runId w (\<lambda>rid entry.
     (let run = rn_run entry in
      if terminalStage (run_stage run) then (Evo_ok (buildEvolutionProjection env run nowMs), w)
      else if findUserPauseQuestion run \<noteq> None \<and> run_stage run = Es_needs_human
      then (Evo_ok (buildEvolutionProjection env run nowMs), w)
      else persistAndProject env fs rid (pausedRun env reason nowMs run) nowMs w))"

text \<open>The record of an approved production release: a file of the run and its reference.\<close>

definition markdownPreview :: "string \<Rightarrow> artifactPreview" where
  "markdownPreview content = (let truncated = length content > EVOLUTION_ARTIFACT_PREVIEW_MAX_CHARS in
     \<lparr>pv_previewType = Ept_markdown,
       pv_content = (if truncated then take EVOLUTION_ARTIFACT_PREVIEW_MAX_CHARS content else content),
       pv_language = None, pv_truncated = (if truncated then Some True else None)\<rparr>)"

definition fileArtifact :: "evoEnv \<Rightarrow> string \<Rightarrow> evolutionArtifactKind \<Rightarrow> string \<Rightarrow> string
    \<Rightarrow> evolutionRoleId \<Rightarrow> evolutionStage \<Rightarrow> string \<Rightarrow> int \<Rightarrow> artifactRef" where
  "fileArtifact env i kind path title roleId stage content nowMs =
     \<lparr>ar_id = i, ar_kind = kind, ar_path = path, ar_title = Some title,
       ar_preview = Some (markdownPreview content), ar_roleId = Some roleId, ar_stage = Some stage,
       ar_sha256 = Some (en_sha256 env content), ar_bytes = Some (byteLength content),
       ar_createdAt = nowMs\<rparr>"

definition defaultApproval :: string where
  "defaultApproval = ''Production release gate approved from Evolution War Room.''"

definition orBlank :: "string \<Rightarrow> string \<Rightarrow> string" where
  "orBlank s t = (if trim s = [] then t else trim s)"

definition releaseGateContent :: "evoEnv \<Rightarrow> evolutionRun \<Rightarrow> string \<Rightarrow> int \<Rightarrow> string" where
  "releaseGateContent env run approvalMessage nowMs = joinWith [CHR 0x0A]
     [''# Production Release Gate'', [],
      ''- Run: `'' @ run_runId run @ ''`'',
      ''- Stage before approval: `'' @ stageText (run_stage run) @ ''`'',
      ''- Approved at: '' @ en_iso env nowMs,
      ''- Approved by: War Room human operator'',
      ''- Requirement: `'' @ sd_relativePath (run_source run) @ ''`'',
      ''- Staging status: '' @ (case run_stagingDelivery run of
         Some d \<Rightarrow> stagingStatusText (sg_status d) | None \<Rightarrow> ''not_recorded''),
      (case truthyStr (case run_stagingDelivery run of Some d \<Rightarrow> sg_logArtifactId d | None \<Rightarrow> None) of
         Some i \<Rightarrow> ''- Staging log: `'' @ i @ ''`'' | None \<Rightarrow> ''- Staging log: not recorded''),
      [], ''## Approval Message'', [], orBlank approvalMessage defaultApproval, [],
      ''## Safety Boundary'', [],
      ''- This gate records human approval and completes the Evolution run ledger.'',
      ''- IM.codes does not execute any production deployment command from this gate.'',
      ''- Production execution remains an external/manual action or a separately audited workflow.'', []]"

definition releaseGateArtifact :: "evoEnv \<Rightarrow> evolutionRun \<Rightarrow> string \<Rightarrow> int \<Rightarrow> artifactRef" where
  "releaseGateArtifact env run approvalMessage nowMs =
     fileArtifact env ''release_gate:release/release-gate.md'' Eak_release_gate ''release/release-gate.md''
       ''Production Release Gate'' Er_ops_release_manager Es_human_release_gate
       (releaseGateContent env run approvalMessage nowMs) nowMs"

text \<open>After the file is written the approval is recorded on the run, whatever its stage is by then.\<close>

definition approvedRun :: "evoEnv \<Rightarrow> string \<Rightarrow> artifactRef \<Rightarrow> int \<Rightarrow> evolutionRun \<Rightarrow> evolutionRun" where
  "approvedRun env approvalMessage artifact nowMs run =
     (let run1 = upsertArtifact artifact run;
          run2 = appendDiscussion env (messageOf Emk_gate Es_human_release_gate (Some Er_ops_release_manager)
            (en_text env Tx_author_ops) (en_text env (Tx_release_approved approvalMessage))
            (Some [ar_id artifact]) nowMs) run1 in
      appendEvidence ((evidenceOf ''human_release_gate''
        ''Production release gate approved by War Room human operator; no production command executed by Evolution.''
        nowMs)\<lparr>ev_artifactId := Some (ar_id artifact)\<rparr>) run2)"

definition continueRelease :: "evoEnv \<Rightarrow> (string \<Rightarrow> bool) \<Rightarrow> string \<Rightarrow> string \<Rightarrow> artifactRef \<Rightarrow> int
    \<Rightarrow> evoWorld \<Rightarrow> evoCall" where
  "continueRelease env fs rid approvalMessage artifact nowMs w = (case getRuntimeEntry rid w of
     None \<Rightarrow> (Evo_threw, w)
   | Some entry \<Rightarrow> advanceEvolutionRunStage env fs rid Es_deployed_production
       (Some ''Human production release gate approved; production execution remains manual/audited.'') nowMs
       (setRun rid (approvedRun env approvalMessage artifact nowMs (rn_run entry)) w))"

definition notWaitingRun :: "string option \<Rightarrow> int \<Rightarrow> evolutionRun \<Rightarrow> evolutionRun" where
  "notWaitingRun message nowMs run = (appendEvidence (evidenceOf ''orchestrator''
     (orText message ''Continue requested; run is not waiting for human input.'') nowMs) run)
     \<lparr>run_latestMessage := Some (orText message ''Continue requested.'')\<rparr>"

definition releasedRun :: "evoEnv \<Rightarrow> evolutionStage \<Rightarrow> string option \<Rightarrow> int \<Rightarrow> evolutionRun \<Rightarrow> evolutionRun" where
  "releasedRun env targetStage message nowMs run =
     releaseRoundtableGateForHumanContinue env targetStage message nowMs
       (releaseUserPauseGateForHumanContinue env targetStage message nowMs run)"

definition continueEvolutionRun :: "evoEnv \<Rightarrow> (string \<Rightarrow> bool) \<Rightarrow> string \<Rightarrow> evolutionStage option
    \<Rightarrow> string option \<Rightarrow> int \<Rightarrow> evoWorld \<Rightarrow> evoCall" where
  "continueEvolutionRun env fs runId targetStage message nowMs w = onRun runId w (\<lambda>rid entry.
     (let run = rn_run entry in
      if run_stage run = Es_human_release_gate
      then (let approvalMessage = orBlank (orText message []) defaultApproval;
                artifact = releaseGateArtifact env run approvalMessage nowMs in
            if fs (ar_path artifact) then continueRelease env fs rid approvalMessage artifact nowMs w
            else (Evo_threw, w))
      else if run_stage run \<noteq> Es_needs_human
      then persistAndProject env fs rid (notWaitingRun message nowMs run) nowMs w
      else (let target = (case targetStage of Some t \<Rightarrow> t | None \<Rightarrow> inferHumanContinueTargetStage run) in
            advanceEvolutionRunStage env fs rid target
              (Some (orText message (''Human gate resolved; continuing at '' @ stageText target @ ''.''))) nowMs
              (setRun rid (releasedRun env target message nowMs run) w))))"

section \<open>Messages to a role\<close>

definition roleLabelOf :: "evolutionRun \<Rightarrow> evolutionRoleId \<Rightarrow> string option" where
  "roleLabelOf run roleId = (case List.find (\<lambda>r. ro_roleId r = roleId) (run_roles run) of
     Some r \<Rightarrow> ro_label r | None \<Rightarrow> None)"

definition roleInstructionTargetLabel :: "evoEnv \<Rightarrow> evolutionRun \<Rightarrow> evolutionRoleId option \<Rightarrow> string" where
  "roleInstructionTargetLabel env run roleId = (case roleId of
     None \<Rightarrow> en_text env Tx_all_roles
   | Some r \<Rightarrow> orText (roleLabelOf run r) (roleText r))"

text \<open>Role, author and text of the acknowledgement.\<close>

definition roleInstructionAcknowledgement ::
    "evoEnv \<Rightarrow> evolutionRun \<Rightarrow> evolutionRoleId option \<Rightarrow> string \<Rightarrow> evolutionRoleId \<times> string \<times> string" where
  "roleInstructionAcknowledgement env run roleId txt =
     (let target = (case roleId of Some r \<Rightarrow> r | None \<Rightarrow> Er_loop_supervisor) in
      (target, orText (roleLabelOf run target) (roleText target),
       en_text env (Tx_acknowledged roleId (truncateDetail env 120 txt))))"

definition writeWarRoomInstructionArtifact ::
    "evoEnv \<Rightarrow> evolutionRun \<Rightarrow> evolutionRoleId option \<Rightarrow> string \<Rightarrow> int \<Rightarrow> artifactRef" where
  "writeWarRoomInstructionArtifact env run roleId txt nowMs =
     (let target = (case roleId of Some r \<Rightarrow> roleText r | None \<Rightarrow> ''all_roles'');
          path = ''discussions/user-instructions/'' @ showInt nowMs @ ''-'' @ target @ ''-''
            @ shortSha256 env txt @ ''.md'';
          label = roleInstructionTargetLabel env run roleId;
          (ackRole, _, ackText) = roleInstructionAcknowledgement env run roleId txt in
      fileArtifact env (''war_room_instruction:'' @ shortSha256 env (path @ '':'' @ txt)) Eak_discussion path
        (''War Room Instruction '' @ [CHR 0xB7] @ '' '' @ label) ackRole (run_stage run)
        (en_text env (Tx_instruction_document (run_runId run) (run_stage run) label txt ackText)) nowMs)"

definition writeRoleInstructionResponseArtifact ::
    "evoEnv \<Rightarrow> evolutionRun \<Rightarrow> evolutionRoleId option \<Rightarrow> string \<Rightarrow> artifactRef \<Rightarrow> int \<Rightarrow> artifactRef" where
  "writeRoleInstructionResponseArtifact env run roleId txt instruction nowMs =
     (let (ackRole, _, ackText) = roleInstructionAcknowledgement env run roleId txt;
          path = ''discussions/role-responses/'' @ showInt nowMs @ ''-'' @ roleText ackRole @ ''-''
            @ shortSha256 env txt @ ''.md'';
          label = roleInstructionTargetLabel env run roleId in
      fileArtifact env (''role_instruction_response:'' @ shortSha256 env (path @ '':'' @ txt))
        Eak_role_instruction_response path (''Role Response '' @ [CHR 0xB7] @ '' '' @ label) ackRole (run_stage run)
        (en_text env (Tx_response_document (run_runId run) (run_stage run) label (ar_path instruction) ackText)) nowMs)"

record sinkResult =
  sk_ok :: bool
  sk_contextPath :: "string option"
  sk_currentTargetSession :: "string option"
  sk_error :: "string option"

definition recordDelivered :: "evoEnv \<Rightarrow> int \<Rightarrow> roundtableRef \<Rightarrow> sinkResult \<Rightarrow> evolutionRun \<Rightarrow> evolutionRun" where
  "recordDelivered env nowMs r result run =
     (if sk_ok result
      then appendEvidence (evidenceOf ''p2p_roundtable_user_message''
          (''User message delivered to '' @ rt_topic r @ (case truthyStr (sk_contextPath result) of
             Some p \<Rightarrow> '' ('' @ p @ '')'' | None \<Rightarrow> []) @ ''.'') nowMs)
        (appendDiscussion env (messageOf Emk_role_update (run_stage run) (Some Er_loop_supervisor)
          (en_text env Tx_author_supervisor)
          (en_text env (Tx_injected (rt_topic r) (truthyStr (sk_currentTargetSession result)))) None nowMs) run)
      else appendEvidence (evidenceOf ''p2p_roundtable_user_message''
          (''User message could not be delivered to '' @ rt_topic r @ '': ''
            @ orText (sk_error result) ''unknown_error'') nowMs) run)"

text \<open>
  \<open>sink\<close> is the registered sink of user messages with its answer per roundtable, if there is one.
  \<open>messageRun\<close> is what the call does to the run once both files are written.
\<close>

definition midDot :: string where
  "midDot = [CHR '' '', CHR 0xB7, CHR '' '']"

definition userAuthor :: "evoEnv \<Rightarrow> evolutionRun \<Rightarrow> evolutionRoleId option \<Rightarrow> string" where
  "userAuthor env run roleId = (case roleId of None \<Rightarrow> ''User''
     | Some r \<Rightarrow> en_text env (Tx_user_to (orText (truthyStr (roleLabelOf run r)) (roleText r))))"

definition messageRun :: "evoEnv \<Rightarrow> (roundtableRef \<Rightarrow> sinkResult) option \<Rightarrow> evolutionRoleId option \<Rightarrow> string
    \<Rightarrow> int \<Rightarrow> artifactRef \<Rightarrow> artifactRef \<Rightarrow> evolutionRun \<Rightarrow> evolutionRun" where
  "messageRun env sink roleId txt nowMs instruction response run =
     (let run1 = appendDiscussion env (messageOf Emk_user_message (run_stage run) roleId
            (userAuthor env run roleId) (take 2000 txt) (Some [ar_id instruction]) nowMs) run;
          (ackRole, ackAuthor, ackText) = roleInstructionAcknowledgement env run roleId txt;
          run2 = appendDiscussion env (messageOf Emk_role_update (run_stage run) (Some ackRole) ackAuthor ackText
            (Some [ar_id instruction, ar_id response]) nowMs) run1;
          run3 = appendEvidence ((evidenceOf
              (case roleId of Some r \<Rightarrow> ''user:'' @ roleText r | None \<Rightarrow> ''user'')
              (take 1000 txt @ midDot @ ''instruction='' @ ar_path instruction @ midDot @ ''response=''
                @ ar_path response) nowMs)\<lparr>ev_artifactId := Some (ar_id response)\<rparr>) run2;
          run4 = appendLiveEvent env \<lparr>le_id = [], le_source = Els_war_room, le_kind = Elk_message,
              le_severity = Elv_info, le_roleId = ar_roleId response, le_stage = run_stage run,
              le_title = ''Role response'' @ midDot
                @ orText (ar_title response) (case ar_roleId response of Some r \<Rightarrow> roleText r | None \<Rightarrow> ''role''),
              le_detail = ackText, le_progress = None, le_command = None, le_exitCode = None,
              le_artifactIds = Some [ar_id instruction, ar_id response], le_createdAt = nowMs\<rparr> run3 in
      case sink of None \<Rightarrow> run4
      | Some answer \<Rightarrow> foldl (\<lambda>s r. recordDelivered env nowMs r (answer r) s) run4
          (runningRoundtablesForUserMessage run4 roleId))"

definition recordEvolutionUserMessage :: "evoEnv \<Rightarrow> (string \<Rightarrow> bool) \<Rightarrow> (roundtableRef \<Rightarrow> sinkResult) option
    \<Rightarrow> string \<Rightarrow> evolutionRoleId option \<Rightarrow> string \<Rightarrow> int \<Rightarrow> evoWorld \<Rightarrow> evoCall" where
  "recordEvolutionUserMessage env fs sink runId roleId messageText nowMs w = onRun runId w (\<lambda>rid entry.
     (let txt = trim messageText in
      if txt = [] then (Evo_failed [issueAt ''empty_user_message'' ''text''], w)
      else
       (let run0 = (rn_run entry)\<lparr>run_latestMessage := Some (case roleId of
              Some r \<Rightarrow> ''User to '' @ roleText r @ '': '' @ txt | None \<Rightarrow> ''User: '' @ txt)\<rparr>;
            instruction = writeWarRoomInstructionArtifact env run0 roleId txt nowMs in
        if \<not> fs (ar_path instruction) then (Evo_threw, setRun rid run0 w)
        else
         (let run1 = upsertArtifact instruction run0;
              response = writeRoleInstructionResponseArtifact env run1 roleId txt instruction nowMs in
          if \<not> fs (ar_path response) then (Evo_threw, setRun rid run1 w)
          else
           persistAndProject env fs rid
             (messageRun env sink roleId txt nowMs instruction response (upsertArtifact response run1)) nowMs w))))"

section \<open>Runs on disk\<close>

text \<open>
  \<^verbatim>\<open>/.../i.test(reason)\<close>; the patterns' Chinese alternative needs characters outside the range.
\<close>

definition isManualWarRoomStopReason :: "string option \<Rightarrow> bool" where
  "isManualWarRoomStopReason reason = (case reason of None \<Rightarrow> False
     | Some r \<Rightarrow> list_ex (\<lambda>p. includesText p (toLower r))
         [''stopped from evolution war room'', ''stopped by request'', ''manual stop''])"

definition normalizeHydratedEvolutionRun :: "int \<Rightarrow> evolutionRun \<Rightarrow> bool \<times> evolutionRun" where
  "normalizeHydratedEvolutionRun nowMs run =
     (let changed = run_stage run = Es_stopped \<and> isManualWarRoomStopReason (run_terminalReason run)
            \<and> run_latestMessage run \<noteq> run_terminalReason run;
          run1 = (if changed then run\<lparr>run_latestMessage := run_terminalReason run\<rparr> else run);
          run2 = (if changed \<and> run_updatedAt run1 < nowMs then run1\<lparr>run_updatedAt := nowMs\<rparr> else run1) in
      (changed, run2))"

definition readEvolutionRun :: "string \<Rightarrow> string \<Rightarrow> evoWorld \<Rightarrow> evolutionRun option" where
  "readEvolutionRun dir runId w = mapGet (ew_disk w) (dir, runId)"

text \<open>
  \<open>reconcile\<close> is the reading of roundtable files that follows a load; \<open>dir\<close> is the resolved project directory.
\<close>

definition hydrateEvolutionRun :: "evoEnv \<Rightarrow> (string \<Rightarrow> bool) \<Rightarrow> (string \<Rightarrow> evoWorld \<Rightarrow> evoWorld) \<Rightarrow> string
    \<Rightarrow> string \<Rightarrow> int \<Rightarrow> evoWorld \<Rightarrow> evoCall" where
  "hydrateEvolutionRun env fs reconcile dir runId nowMs w = (case validateEvolutionRunId (Str runId) of
     Inl issues \<Rightarrow> (Evo_failed issues, w)
   | Inr rid \<Rightarrow> (case readEvolutionRun dir rid w of
       None \<Rightarrow> (Evo_failed [issueOf ''evolution_hydrate_failed''], w)
     | Some run \<Rightarrow>
        if truthyStr (run_projectRoot run) \<noteq> None \<and> run_projectRoot run \<noteq> Some dir
        then (Evo_failed [issueOf ''evolution_project_root_mismatch''], w)
        else
         (let (changed, run1) = normalizeHydratedEvolutionRun nowMs run in
          if changed \<and> \<not> fs ''run.json'' then (Evo_failed [issueOf ''evolution_hydrate_failed''], w)
          else
           (let w1 = (if changed then w\<lparr>ew_disk := mapSet (ew_disk w) (dir, run_runId run1) run1\<rparr> else w);
                w2 = reconcile (run_runId run1) (upsertRuntime dir run1 w1) in
            (Evo_ok (buildEvolutionProjection env (case getRuntimeEntry (run_runId run1) w2 of
                Some entry \<Rightarrow> rn_run entry | None \<Rightarrow> run1) nowMs), w2)))))"

end
