(* ===== verification/EvoLaunch.thy ===== *)
theory EvoLaunch
  imports EvoStages WfPaths
begin

text \<open>
  How a run comes into being: \<^verbatim>\<open>createEvolutionRunFromRequirement\<close> of
  \<^verbatim>\<open>src/daemon/evolution-artifact-store.ts\<close> and \<^verbatim>\<open>launchEvolutionRun\<close> of
  \<^verbatim>\<open>src/daemon/evolution-orchestrator.ts\<close>.

  A resolved absolute path is the list of its segments. The requirement file is an argument: what
  \<^verbatim>\<open>stat\<close> and \<^verbatim>\<open>readFile\<close> say of the resolved path. The files of the role skills are the argument
  \<open>skills\<close>, \<open>None\<close> when writing them fails.
\<close>

section \<open>Paths\<close>

definition pathText :: "string list \<Rightarrow> string" where
  "pathText segments = ''/'' @ joinWith ''/'' segments"

text \<open>\<^verbatim>\<open>path.relative(from, to)\<close> of two resolved paths.\<close>

fun relativePath :: "string list \<Rightarrow> string list \<Rightarrow> string list" where
  "relativePath (x # xs) (y # ys) =
     (if x = y then relativePath xs ys else replicate (Suc (length xs)) ''..'' @ y # ys)"
| "relativePath xs ys = replicate (length xs) ''..'' @ ys"

text \<open>\<^verbatim>\<open>safeJoin\<close>: \<open>None\<close> when the joined path leaves the root, or seems to.\<close>

definition safeJoin :: "string list \<Rightarrow> string \<Rightarrow> string list option" where
  "safeJoin dir p = (let resolved = resolvePath dir p; rel = joinWith ''/'' (relativePath dir resolved) in
     if startsWith rel ''..'' \<or> startsWith rel ''/'' then None else Some resolved)"

definition basename :: "string \<Rightarrow> string" where
  "basename p = (let segments = filter (\<lambda>s. s \<noteq> []) (splitOn (CHR ''/'') p) in
     if segments = [] then [] else last segments)"

definition slashed :: "string \<Rightarrow> string" where
  "slashed s = map (\<lambda>c. if c = CHR 0x5C then CHR ''/'' else c) s"

definition normalizeEvolutionLaunchSourcePath :: "string list \<Rightarrow> string \<Rightarrow> string" where
  "normalizeEvolutionLaunchSourcePath dir sourceRelativePath =
     (let trimmed = trim sourceRelativePath; normalizedSeparators = slashed trimmed in
      if \<not> startsWith trimmed ''/'' then normalizedSeparators
      else
       (let relativeSource = slashed (joinWith ''/'' (relativePath dir (resolvePath [] trimmed))) in
        if relativeSource = [] \<or> startsWith relativeSource ''..'' \<or> startsWith relativeSource ''/''
        then normalizedSeparators else relativeSource))"

text \<open>\<^verbatim>\<open>{ ...request, sourceRelativePath }\<close> of an object that has the member.\<close>

definition normalizeEvolutionLaunchRequest :: "string list \<Rightarrow> jsval \<Rightarrow> jsval" where
  "normalizeEvolutionLaunchRequest dir request = (case fld request ''sourceRelativePath'' of
     Str p \<Rightarrow> (let q = normalizeEvolutionLaunchSourcePath dir p in
       if q = p then request
       else Obj (map (\<lambda>(k, v). if k = ''sourceRelativePath'' then (k, Str q) else (k, v)) (objFields request)))
   | _ \<Rightarrow> request)"

section \<open>A new run\<close>

definition DEFAULT_EVOLUTION_BUDGET :: evolutionBudget where
  "DEFAULT_EVOLUTION_BUDGET = \<lparr>bu_maxRoleTurns = 40, bu_maxElapsedMinutes = 480,
     bu_maxImplementationAttempts = 3, bu_maxAutoDeployStage = Emd_staging\<rparr>"

primrec roleSkillName :: "evolutionRoleId \<Rightarrow> string" where
  "roleSkillName Er_loop_supervisor = ''evolution-loop-supervisor''"
| "roleSkillName Er_product_manager = ''product-prd''"
| "roleSkillName Er_product_critic = ''product-critic''"
| "roleSkillName Er_ux_designer = ''ux-flow-wireframe''"
| "roleSkillName Er_visual_designer = ''visual-hifi''"
| "roleSkillName Er_tech_director = ''tech-baseline-adr''"
| "roleSkillName Er_backend_developer = ''backend-implementation''"
| "roleSkillName Er_frontend_developer = ''frontend-implementation''"
| "roleSkillName Er_qa_engineer = ''qa-acceptance''"
| "roleSkillName Er_security_reviewer = ''security-risk-review''"
| "roleSkillName Er_ops_release_manager = ''ops-release''"

text \<open>The order of the definitions of the roles; each has four responsibilities.\<close>

definition roleSkillOrder :: "evolutionRoleId list" where
  "roleSkillOrder = [Er_loop_supervisor, Er_product_manager, Er_product_critic, Er_ux_designer,
     Er_visual_designer, Er_tech_director, Er_backend_developer, Er_frontend_developer,
     Er_qa_engineer, Er_security_reviewer, Er_ops_release_manager]"

definition buildDefaultEvolutionRoles :: "evoEnv \<Rightarrow> int \<Rightarrow> roleState list" where
  "buildDefaultEvolutionRoles env nowMs = map (\<lambda>r. \<lparr>ro_roleId = r,
     ro_label = Some (en_text env (Tx_role_label r)), ro_skillName = Some (roleSkillName r),
     ro_skillSummary = Some (en_text env (Tx_role_summary r)),
     ro_responsibilities = Some (map (\<lambda>i. en_text env (Tx_role_duty r i)) [0..<4]),
     ro_status = (if r = Er_loop_supervisor then Ers_running else Ers_pending),
     ro_stage = None, ro_currentAction = None, ro_sessionName = None, ro_updatedAt = nowMs\<rparr>) roleSkillOrder"

definition formatRunIdTimestamp :: "evoEnv \<Rightarrow> int \<Rightarrow> string" where
  "formatRunIdTimestamp env nowMs = filter (\<lambda>c. c \<notin> set ''-:.'') (en_iso env nowMs)"

definition buildEvolutionRunId :: "evoEnv \<Rightarrow> int \<Rightarrow> string \<Rightarrow> string" where
  "buildEvolutionRunId env nowMs sourceSha256 =
     ''evo-'' @ formatRunIdTimestamp env nowMs @ ''-'' @ take 12 sourceSha256"

record sourceFile =
  sf_isFile :: bool
  sf_size :: nat
  sf_byteLength :: nat
  sf_sha256 :: string

definition inputArtifactOf :: "string \<Rightarrow> sourceFile \<Rightarrow> int \<Rightarrow> artifactRef" where
  "inputArtifactOf sourceFileName src nowMs = \<lparr>ar_id = ''input'', ar_kind = Eak_input,
     ar_path = ''input/'' @ sourceFileName, ar_title = Some sourceFileName, ar_preview = None,
     ar_roleId = None, ar_stage = None, ar_sha256 = Some (sf_sha256 src),
     ar_bytes = Some (sf_byteLength src), ar_createdAt = nowMs\<rparr>"

definition newRun :: "evoEnv \<Rightarrow> string \<Rightarrow> string \<Rightarrow> evolutionLaunchRequest \<Rightarrow> sourceFile
    \<Rightarrow> artifactRef list \<Rightarrow> int \<Rightarrow> evolutionRun" where
  "newRun env projectRoot runId request src skills nowMs =
     (let sourceFileName = basename (lq_sourceRelativePath request);
          inputArtifact = inputArtifactOf sourceFileName src nowMs in
      \<lparr>run_runId = runId, run_requestId = lq_requestId request, run_stage = Es_detected,
        run_verdict = None, run_serverId = truthyStr (lq_serverId request),
        run_sessionName = lq_sessionName request,
        run_projectName = truthyStr (lq_projectName request), run_projectRoot = Some projectRoot,
        run_source = \<lparr>sd_relativePath = lq_sourceRelativePath request, sd_fileName = sourceFileName,
          sd_requestedBy = lq_requestedBy request, sd_sizeBytes = Some (sf_byteLength src),
          sd_sha256 = Some (sf_sha256 src), sd_ingestedAt = nowMs\<rparr>,
        run_roles = buildDefaultEvolutionRoles env nowMs,
        run_artifacts = inputArtifact # skills, run_scores = [], run_blockingQuestions = [],
        run_discussion = [\<lparr>dm_id = ''discussion-'' @ runId @ ''-detected'', dm_kind = Emk_system,
          dm_stage = Es_detected, dm_roleId = Some Er_loop_supervisor,
          dm_author = en_text env Tx_author_supervisor,
          dm_text = en_text env (Tx_detected (lq_sourceRelativePath request)),
          dm_artifactIds = Some [ar_id inputArtifact], dm_createdAt = nowMs\<rparr>],
        run_roundtables = [],
        run_roundtableGateMode = (case lq_roundtableGateMode request of Some m \<Rightarrow> m | None \<Rightarrow> Egm_planning),
        run_designTargetSurface = Some (case lq_designTargetSurface request of Some d \<Rightarrow> d | None \<Rightarrow> Eds_auto),
        run_evidence = [(evidenceOf ''daemon''
          (''Requirement file ingested from '' @ lq_sourceRelativePath request @ ''.'') nowMs)
            \<lparr>ev_artifactId := Some (ar_id inputArtifact)\<rparr>],
        run_executionTimeline = None, run_liveEvents = None, run_budget = DEFAULT_EVOLUTION_BUDGET,
        run_autoDelivery = Some \<lparr>ad_enabled = (lq_autoStartImplementation request = Some True),
          ad_presetId = (case lq_autoDeliverPresetId request of Some p \<Rightarrow> p | None \<Rightarrow> Eap_standard),
          ad_autoCommitPush = (lq_autoCommitPush request = Some True),
          ad_requestedBy = lq_requestedBy request, ad_launchedAt = None, ad_lastError = None\<rparr>,
        run_stagingDelivery = None, run_linkedOpenSpecChange = None,
        run_linkedAutoDeliverRunId = None,
        run_latestMessage = Some ''Requirement detected and Evolution Run created.'',
        run_terminalReason = None, run_createdAt = nowMs, run_updatedAt = nowMs\<rparr>)"

text \<open>A validated request as the object it is; \<^verbatim>\<open>createEvolutionRunFromRequirement\<close> validates it again.\<close>

definition evolutionLaunchRequest_js :: "evolutionLaunchRequest \<Rightarrow> jsval" where
  "evolutionLaunchRequest_js r = Obj (
      [(''requestId'', Str (lq_requestId r))]
      @ optField ''serverId'' Str (lq_serverId r)
      @ [(''sessionName'', Str (lq_sessionName r))]
      @ optField ''projectName'' Str (lq_projectName r)
      @ [(''sourceRelativePath'', Str (lq_sourceRelativePath r))]
      @ optField ''sourceSizeBytes'' (\<lambda>n. Nat n) (lq_sourceSizeBytes r)
      @ optField ''sourceSha256'' Str (lq_sourceSha256 r)
      @ optField ''locale'' Str (lq_locale r)
      @ optField ''requestedBy'' (\<lambda>x. Str (requestedByText x)) (lq_requestedBy r)
      @ optField ''autoStart'' Bool (lq_autoStart r)
      @ optField ''autoStartImplementation'' Bool (lq_autoStartImplementation r)
      @ optField ''autoDeliverPresetId'' (\<lambda>x. Str (evolutionPresetText x)) (lq_autoDeliverPresetId r)
      @ optField ''autoCommitPush'' Bool (lq_autoCommitPush r)
      @ optField ''roundtableGateMode'' (\<lambda>x. Str (gateModeText x)) (lq_roundtableGateMode r)
      @ optField ''designTargetSurface'' (\<lambda>x. Str (surfaceText x)) (lq_designTargetSurface r))"

text \<open>\<open>fs\<close> says whether the file of a path below the run's directory can be written.\<close>

definition createEvolutionRunFromRequirement :: "evoEnv \<Rightarrow> (string \<Rightarrow> bool) \<Rightarrow> (string list \<Rightarrow> sourceFile option)
    \<Rightarrow> artifactRef list option \<Rightarrow> string list \<Rightarrow> evolutionLaunchRequest \<Rightarrow> string option \<Rightarrow> int
    \<Rightarrow> string + evolutionRun" where
  "createEvolutionRunFromRequirement env fs files skills dir given runId nowMs =
     (case validateEvolutionLaunchRequest (evolutionLaunchRequest_js given) of
        Inl _ \<Rightarrow> Inl ''invalid_evolution_launch_request''
      | Inr request \<Rightarrow>
     (case safeJoin dir (lq_sourceRelativePath request) of
        None \<Rightarrow> Inl ''evolution_path_outside_project''
      | Some sourcePath \<Rightarrow>
     (case files sourcePath of
        None \<Rightarrow> Inl ''source_unreadable''
      | Some src \<Rightarrow>
        if \<not> sf_isFile src then Inl ''evolution_source_not_file''
        else if sf_size src > EVOLUTION_REQUIREMENT_FILE_MAX_BYTES then Inl ''evolution_source_too_large''
        else if truthyStr (lq_sourceSha256 request) \<noteq> None \<and> lq_sourceSha256 request \<noteq> Some (sf_sha256 src)
        then Inl ''evolution_source_sha256_mismatch''
        else
         (let rid = (case runId of Some r \<Rightarrow> r
              | None \<Rightarrow> buildEvolutionRunId env nowMs (sf_sha256 src)) in
          case validateEvolutionRunId (Str rid) of
            Inl _ \<Rightarrow> Inl ''invalid_evolution_run_id''
          | Inr _ \<Rightarrow>
             if \<not> fs (''input/'' @ basename (lq_sourceRelativePath request)) then Inl ''write_failed''
             else (case skills of None \<Rightarrow> Inl ''write_failed''
               | Some refs \<Rightarrow>
                  if \<not> fs ''run.json'' then Inl ''write_failed''
                  else Inr (newRun env (pathText dir) rid request src refs nowMs))))))"

section \<open>Launching\<close>

definition launchFingerprint :: "evoEnv \<Rightarrow> evolutionLaunchRequest \<Rightarrow> string" where
  "launchFingerprint env r = jsonText (numDigits (en_host env)) (Obj
     [(''requestId'', Str (lq_requestId r)), (''sessionName'', Str (lq_sessionName r)),
      (''sourceRelativePath'', Str (lq_sourceRelativePath r)),
      (''sourceSha256'', (case lq_sourceSha256 r of Some s \<Rightarrow> Str s | None \<Rightarrow> Null)),
      (''sourceSizeBytes'', (case lq_sourceSizeBytes r of Some n \<Rightarrow> Nat n | None \<Rightarrow> Null)),
      (''autoStartImplementation'', Bool (lq_autoStartImplementation r = Some True)),
      (''autoDeliverPresetId'', Str (evolutionPresetText
         (case lq_autoDeliverPresetId r of Some p \<Rightarrow> p | None \<Rightarrow> Eap_standard))),
      (''autoCommitPush'', Bool (lq_autoCommitPush r = Some True)),
      (''roundtableGateMode'', Str (gateModeText
         (case lq_roundtableGateMode r of Some m \<Rightarrow> m | None \<Rightarrow> Egm_planning))),
      (''designTargetSurface'', Str (surfaceText
         (case lq_designTargetSurface r of Some d \<Rightarrow> d | None \<Rightarrow> Eds_auto)))])"

text \<open>\<open>runId\<close> is the id a caller may choose; an empty one counts as absent.\<close>

definition launchEvolutionRun :: "evoEnv \<Rightarrow> (string \<Rightarrow> bool) \<Rightarrow> (string list \<Rightarrow> sourceFile option)
    \<Rightarrow> artifactRef list option \<Rightarrow> string list \<Rightarrow> jsval \<Rightarrow> string option \<Rightarrow> int \<Rightarrow> evoWorld \<Rightarrow> evoCall" where
  "launchEvolutionRun env fs files skills dir input runId nowMs w =
     (case validateEvolutionLaunchRequest (normalizeEvolutionLaunchRequest dir input) of
        Inl issues \<Rightarrow> (Evo_failed issues, w)
      | Inr request \<Rightarrow>
         (let fingerprint = launchFingerprint env request in
          case mapGet (ew_launched w) fingerprint of
            Some cached \<Rightarrow> (Evo_ok cached, w)
          | None \<Rightarrow>
             (case createEvolutionRunFromRequirement env fs files skills dir request (truthyStr runId) nowMs of
                Inl _ \<Rightarrow> (Evo_failed [issueOf ''evolution_launch_failed''], w)
              | Inr run \<Rightarrow>
                 (let w1 = upsertRuntime (pathText dir) run
                        (w\<lparr>ew_disk := mapSet (ew_disk w) (pathText dir, run_runId run) run\<rparr>);
                      projection = buildEvolutionProjection env run nowMs in
                  (Evo_ok projection,
                   w1\<lparr>ew_launched := mapSet (ew_launched w1) fingerprint projection\<rparr>)))))"

end
