(* ===== verification/EvoDelivery.thy ===== *)
theory EvoDelivery
  imports EvoLaunch
begin

text \<open>
  The staging delivery of \<^verbatim>\<open>src/daemon/evolution-delivery-runner.ts\<close>: the check of the project's
  delivery configuration, the command it may run and the result it records. The file system and
  the process are arguments: what reading the configuration gives, whether a directory exists,
  whether the log can be written and the outcome of \<^verbatim>\<open>execFile\<close>.
\<close>

definition EVOLUTION_DELIVERY_CONFIG_RELATIVE_PATH :: string where
  "EVOLUTION_DELIVERY_CONFIG_RELATIVE_PATH = ''.imc/evolution/delivery.json''"

definition DEFAULT_STAGING_TIMEOUT_MS :: nat where "DEFAULT_STAGING_TIMEOUT_MS = 10 * 60 * 1000"

definition MAX_STAGING_TIMEOUT_MS :: nat where "MAX_STAGING_TIMEOUT_MS = 60 * 60 * 1000"

definition BLOCKED_COMMAND_BASENAMES :: "string list" where
  "BLOCKED_COMMAND_BASENAMES = [''sh'', ''bash'', ''zsh'', ''fish'', ''cmd'', ''cmd.exe'', ''powershell'',
     ''powershell.exe'', ''pwsh'', ''sudo'']"

section \<open>The configuration\<close>

record stagingConfig =
  cf_enabled :: bool
  cf_command :: string
  cf_args :: "string list"
  cf_cwd :: "string list"
  cf_timeoutMs :: nat

definition safeRelativePath :: "string \<Rightarrow> bool" where
  "safeRelativePath p =
     (if p = [] \<or> CHR 0x00 \<in> set p \<or> startsWith p ''~'' \<or> CHR 0x5C \<in> set p then False
      else if startsWith p ''/'' then False
      else list_all (\<lambda>s. s \<noteq> [] \<and> s \<noteq> ''.'' \<and> s \<noteq> ''..'') (splitOn (CHR ''/'') p))"

definition deliveryJoin :: "string list \<Rightarrow> string \<Rightarrow> string + string list" where
  "deliveryJoin dir p = (if \<not> safeRelativePath p then Inl ''unsafe_relative_path''
     else (case safeJoin dir p of None \<Rightarrow> Inl ''path_outside_project'' | Some q \<Rightarrow> Inr q))"

text \<open>\<^verbatim>\<open>/^[A-Za-z0-9_./:=@+-]+$/\<close>.\<close>

definition displayArg :: "string \<Rightarrow> string" where
  "displayArg v = (if v \<noteq> [] \<and> list_all (\<lambda>c. isAlphaNum c \<or> c \<in> set ''_./:=@+-'') v then v
     else jsonString v)"

definition commandLine :: "string \<Rightarrow> string list \<Rightarrow> string" where
  "commandLine command args = joinWith '' '' (map displayArg (command # args))"

text \<open>\<^verbatim>\<open>/(^|[^a-z0-9])(prod|production)([^a-z0-9]|$)/i\<close>: one of the words with no letter or digit beside it.\<close>

definition startsWithToken :: "string \<Rightarrow> string \<Rightarrow> bool" where
  "startsWithToken w s = (startsWith s w \<and> (case drop (length w) s of [] \<Rightarrow> True | c # _ \<Rightarrow> \<not> isAlphaNum c))"

fun tokenFrom :: "bool \<Rightarrow> string list \<Rightarrow> string \<Rightarrow> bool" where
  "tokenFrom inWord ws [] = False"
| "tokenFrom inWord ws (c # cs) =
     (\<not> inWord \<and> list_ex (\<lambda>w. startsWithToken w (c # cs)) ws \<or> tokenFrom (isAlphaNum c) ws cs)"

definition hasProductionToken :: "string list \<Rightarrow> bool" where
  "hasProductionToken parts = list_ex (\<lambda>p. tokenFrom False [''prod'', ''production''] (toLower p)) parts"

definition normalizeTimeoutMs :: "jsval \<Rightarrow> string + nat" where
  "normalizeTimeoutMs v =
     (if v = Undef then Inr DEFAULT_STAGING_TIMEOUT_MS
      else if \<not> integerVal v \<or> numLeq (numOfVal v) (Num 0)
         \<or> numLess (Num (of_nat MAX_STAGING_TIMEOUT_MS)) (numOfVal v)
      then Inl (''staging.timeoutMs must be an integer between 1 and '' @ showNat MAX_STAGING_TIMEOUT_MS)
      else (case numOfVal v of Num r \<Rightarrow> Inr (nat \<lfloor>r\<rfloor>) | _ \<Rightarrow> Inl []))"

text \<open>\<^verbatim>\<open>value.replace(/^\.\//, '')\<close>.\<close>

definition dropDotSlash :: "string \<Rightarrow> string" where
  "dropDotSlash s = (if startsWith s ''./'' then drop 2 s else s)"

definition resolveCommand :: "string list \<Rightarrow> string \<Rightarrow> string + string" where
  "resolveCommand dir command =
     (if command = [] \<or> CHR 0x00 \<in> set command \<or> length command > 512 then Inl ''staging.command is invalid''
      else
       (let base = toLower (basename command) in
        if base \<in> set BLOCKED_COMMAND_BASENAMES
        then Inl (''staging.command must not invoke an interactive shell or privileged wrapper: '' @ base)
        else if \<not> startsWith command ''/'' \<and> CHR ''/'' \<in> set command
        then (case deliveryJoin dir (dropDotSlash command) of Inl e \<Rightarrow> Inl e | Inr q \<Rightarrow> Inr (pathText q))
        else Inr command))"

fun normalizeArgItems :: "nat \<Rightarrow> jsval list \<Rightarrow> string + string list" where
  "normalizeArgItems i [] = Inr []"
| "normalizeArgItems i (v # vs) =
     (if \<not> isString v \<or> CHR 0x00 \<in> set (strOf v) \<or> length (strOf v) > 2048
      then Inl (''staging.args['' @ showNat i @ ''] is invalid'')
      else (case normalizeArgItems (Suc i) vs of Inl e \<Rightarrow> Inl e | Inr rest \<Rightarrow> Inr (strOf v # rest)))"

definition normalizeArgs :: "jsval \<Rightarrow> string + string list" where
  "normalizeArgs v =
     (if v = Undef then Inr []
      else if \<not> isArray v then Inl ''staging.args must be an array of strings''
      else if length (arrItems v) > 64 then Inl ''staging.args is too large''
      else normalizeArgItems 0 (arrItems v))"

definition normalizeCwd :: "string list \<Rightarrow> jsval \<Rightarrow> string + string list" where
  "normalizeCwd dir v =
     (if v = Undef then Inr dir
      else if \<not> isString v then Inl ''staging.cwd must be a relative string''
      else
       (let normalized = (if strOf v = ''.'' then [] else dropDotSlash (strOf v)) in
        if normalized = [] then Inr dir else deliveryJoin dir normalized))"

definition parseStagingDeliveryConfig :: "string list \<Rightarrow> jsval \<Rightarrow> string + stagingConfig" where
  "parseStagingDeliveryConfig dir raw =
     (let staging = fld raw ''staging'' in
      if \<not> isRecord raw then Inl ''delivery config must be an object''
      else if \<not> isRecord staging then Inl ''delivery config must contain a staging object''
      else if fld staging ''enabled'' \<noteq> Bool True
      then Inr \<lparr>cf_enabled = False, cf_command = [], cf_args = [], cf_cwd = dir,
        cf_timeoutMs = DEFAULT_STAGING_TIMEOUT_MS\<rparr>
      else if \<not> isString (fld staging ''command'') then Inl ''staging.command is required''
      else (case normalizeArgs (fld staging ''args'') of Inl e \<Rightarrow> Inl e
        | Inr args \<Rightarrow>
           if hasProductionToken (strOf (fld staging ''command'') # args)
           then Inl ''staging delivery command must not target production; production stays behind the human release gate''
           else (case resolveCommand dir (strOf (fld staging ''command'')) of Inl e \<Rightarrow> Inl e
             | Inr command \<Rightarrow>
               (case normalizeCwd dir (fld staging ''cwd'') of Inl e \<Rightarrow> Inl e
                | Inr cwd \<Rightarrow>
                  (case normalizeTimeoutMs (fld staging ''timeoutMs'') of Inl e \<Rightarrow> Inl e
                   | Inr timeoutMs \<Rightarrow> Inr \<lparr>cf_enabled = True, cf_command = command, cf_args = args,
                       cf_cwd = cwd, cf_timeoutMs = timeoutMs\<rparr>)))))"

section \<open>Running it\<close>

text \<open>What \<^verbatim>\<open>readConfig\<close> finds: no file, an unreadable or malformed one, or its value.\<close>

datatype configRead = Cr_absent | Cr_error string | Cr_value jsval

record execOutcome =
  xo_exitCode :: int
  xo_stdout :: string
  xo_stderr :: string
  xo_timedOut :: bool
  xo_signal :: "string option"
  xo_errorMessage :: "string option"

record stagingResult =
  sr_status :: evolutionStagingStatus
  sr_commandLine :: "string option"
  sr_exitCode :: "int option"
  sr_summary :: string
  sr_startedAt :: int
  sr_completedAt :: int
  sr_durationMs :: int
  sr_artifact :: "artifactRef option"
  sr_stdoutTail :: "string option"
  sr_stderrTail :: "string option"
  sr_timedOut :: "bool option"
  sr_error :: "string option"

definition runDeliveryDir :: "string \<Rightarrow> string" where
  "runDeliveryDir runId = EVOLUTION_RUN_ROOT_DIR @ ''/'' @ runId @ ''/delivery''"

text \<open>The preview of this module names its language.\<close>

definition deliveryPreview :: "string \<Rightarrow> artifactPreview" where
  "deliveryPreview content = (let truncated = length content > EVOLUTION_ARTIFACT_PREVIEW_MAX_CHARS in
     \<lparr>pv_previewType = Ept_markdown,
       pv_content = (if truncated then take EVOLUTION_ARTIFACT_PREVIEW_MAX_CHARS content else content),
       pv_language = Some ''markdown'', pv_truncated = (if truncated then Some True else None)\<rparr>)"

definition boolText :: "bool \<Rightarrow> string" where
  "boolText b = (if b then ''true'' else ''false'')"

definition orEmptyText :: "string \<Rightarrow> string option \<Rightarrow> string" where
  "orEmptyText s e = (if s \<noteq> [] then s else orText e [])"

definition deliveryLogContent :: "string \<Rightarrow> string list \<Rightarrow> nat \<Rightarrow> execOutcome \<Rightarrow> int \<Rightarrow> string" where
  "deliveryLogContent line cwd timeoutMs outcome durationMs =
     joinWith [CHR 0x0A] (filter (\<lambda>l. l \<noteq> [])
      [''# IM.codes Evolution Staging Delivery Log'', [], ''command: '' @ line, ''cwd: '' @ pathText cwd,
       ''timeoutMs: '' @ showNat timeoutMs, ''exitCode: '' @ showInt (xo_exitCode outcome),
       ''timedOut: '' @ boolText (xo_timedOut outcome),
       (case truthyStr (xo_signal outcome) of Some s \<Rightarrow> ''signal: '' @ s | None \<Rightarrow> []),
       ''durationMs: '' @ showInt durationMs, [], ''## stdout'', ''```'',
       lastN 12000 (xo_stdout outcome), ''```'', [], ''## stderr'', ''```'',
       lastN 12000 (orEmptyText (xo_stderr outcome) (xo_errorMessage outcome)), ''```'', []])"

definition outcomePassed :: "execOutcome \<Rightarrow> bool" where
  "outcomePassed outcome = (xo_exitCode outcome = 0 \<and> \<not> xo_timedOut outcome)"

definition writeDeliveryLog :: "evoEnv \<Rightarrow> string \<Rightarrow> int \<Rightarrow> string \<Rightarrow> string list \<Rightarrow> nat \<Rightarrow> execOutcome
    \<Rightarrow> int \<Rightarrow> artifactRef" where
  "writeDeliveryLog env runId nowMs line cwd timeoutMs outcome durationMs =
     (let relativePath = runDeliveryDir runId @ ''/staging-'' @ formatRunIdTimestamp env nowMs @ ''.log'';
          content = deliveryLogContent line cwd timeoutMs outcome durationMs in
      \<lparr>ar_id = ''staging_deploy_log:'' @ relativePath, ar_kind = Eak_staging_deploy_log,
        ar_path = relativePath, ar_title = Some ''Staging delivery log'',
        ar_preview = Some (deliveryPreview content), ar_roleId = Some Er_ops_release_manager,
        ar_stage = Some (if outcomePassed outcome then Es_deployed_staging else Es_needs_human),
        ar_sha256 = Some (en_sha256 env content), ar_bytes = Some (byteLength content),
        ar_createdAt = nowMs\<rparr>)"

definition stagingFailure :: "string \<Rightarrow> string \<Rightarrow> int \<Rightarrow> int \<Rightarrow> stagingResult" where
  "stagingFailure summary message startedAt completedAt =
     \<lparr>sr_status = Esd_failed, sr_commandLine = None, sr_exitCode = None, sr_summary = summary,
       sr_startedAt = startedAt, sr_completedAt = completedAt,
       sr_durationMs = max 0 (completedAt - startedAt), sr_artifact = None, sr_stdoutTail = None,
       sr_stderrTail = None, sr_timedOut = None, sr_error = Some message\<rparr>"

definition stagingIdle :: "evolutionStagingStatus \<Rightarrow> string \<Rightarrow> int \<Rightarrow> stagingResult" where
  "stagingIdle status summary startedAt = \<lparr>sr_status = status, sr_commandLine = None,
     sr_exitCode = None, sr_summary = summary, sr_startedAt = startedAt, sr_completedAt = startedAt,
     sr_durationMs = 0, sr_artifact = None, sr_stdoutTail = None, sr_stderrTail = None,
     sr_timedOut = None, sr_error = None\<rparr>"

definition stagingOutcome :: "evoEnv \<Rightarrow> string \<Rightarrow> stagingConfig \<Rightarrow> execOutcome \<Rightarrow> int \<Rightarrow> int \<Rightarrow> stagingResult" where
  "stagingOutcome env runId config outcome startedAt completedAt =
     (let line = commandLine (cf_command config) (cf_args config);
          durationMs = max 0 (completedAt - startedAt); success = outcomePassed outcome in
      \<lparr>sr_status = (if success then Esd_passed else Esd_failed), sr_commandLine = Some line,
        sr_exitCode = Some (xo_exitCode outcome),
        sr_summary = (if success then ''Staging delivery passed: '' @ line
          else ''Staging delivery failed with exit code '' @ showInt (xo_exitCode outcome) @ '': '' @ line),
        sr_startedAt = startedAt, sr_completedAt = completedAt, sr_durationMs = durationMs,
        sr_artifact = Some (writeDeliveryLog env runId completedAt line (cf_cwd config)
          (cf_timeoutMs config) outcome durationMs),
        sr_stdoutTail = truthyStr (Some (trim (lastN 2000 (xo_stdout outcome)))),
        sr_stderrTail = truthyStr (Some (trim (lastN 2000
          (orEmptyText (xo_stderr outcome) (xo_errorMessage outcome))))),
        sr_timedOut = Some (xo_timedOut outcome),
        sr_error = (if success then None else Some (orText (xo_errorMessage outcome)
          (if xo_timedOut outcome then ''staging delivery timed out'' else ''staging delivery failed'')))\<rparr>)"

text \<open>
  \<open>exec\<close> is \<^verbatim>\<open>execFile\<close> of a configuration, \<open>logged\<close> whether the log can be written; a log that
  cannot makes the call throw (\<open>None\<close>). \<open>completedAt\<close> is the time the call ends.
\<close>

definition runEvolutionStagingDelivery :: "evoEnv \<Rightarrow> string list \<Rightarrow> string \<Rightarrow> configRead
    \<Rightarrow> (stagingConfig \<Rightarrow> execOutcome) \<Rightarrow> bool \<Rightarrow> int \<Rightarrow> int \<Rightarrow> stagingResult option" where
  "runEvolutionStagingDelivery env dir runId config exec logged startedAt completedAt = (case config of
     Cr_error message \<Rightarrow> Some (stagingFailure
       (''Could not read staging delivery config: '' @ message) message startedAt completedAt)
   | Cr_absent \<Rightarrow> Some (stagingIdle Esd_not_configured
       (''No staging delivery config found at '' @ EVOLUTION_DELIVERY_CONFIG_RELATIVE_PATH @ ''.'') startedAt)
   | Cr_value raw \<Rightarrow> (case parseStagingDeliveryConfig dir raw of
       Inl message \<Rightarrow> Some (stagingFailure (''Invalid staging delivery config: '' @ message) message
         startedAt completedAt)
     | Inr c \<Rightarrow>
        if \<not> cf_enabled c
        then Some (stagingIdle Esd_disabled ''Staging delivery is disabled in delivery.json.'' startedAt)
        else if logged then Some (stagingOutcome env runId c (exec c) startedAt completedAt) else None))"

end
