(* ===== verification/EvoOpenSpec.thy ===== *)
theory EvoOpenSpec
  imports EvoDelivery
begin

text \<open>
  What a report of the OpenSpec delivery does to the runs linked to it:
  \<^verbatim>\<open>recordEvolutionOpenSpecProjection\<close> of \<^verbatim>\<open>src/daemon/evolution-orchestrator.ts\<close> and its helpers.
  The report is the projection of \<^verbatim>\<open>shared/openspec-auto-deliver-types.ts\<close>, with the members read here.
\<close>

datatype openSpecStage = Os_proposed | Os_spec_audit_repair | Os_implementation_task_loop
    | Os_implementation_audit_repair | Os_commit_push | Os_stopping | Os_passed | Os_needs_human
    | Os_failed | Os_stopped

primrec openSpecStageText :: "openSpecStage \<Rightarrow> string" where
  "openSpecStageText Os_proposed = ''proposed''"
| "openSpecStageText Os_spec_audit_repair = ''spec_audit_repair''"
| "openSpecStageText Os_implementation_task_loop = ''implementation_task_loop''"
| "openSpecStageText Os_implementation_audit_repair = ''implementation_audit_repair''"
| "openSpecStageText Os_commit_push = ''commit_push''"
| "openSpecStageText Os_stopping = ''stopping''"
| "openSpecStageText Os_passed = ''passed''"
| "openSpecStageText Os_needs_human = ''needs_human''"
| "openSpecStageText Os_failed = ''failed''"
| "openSpecStageText Os_stopped = ''stopped''"

record openSpecTask =
  ot_checked :: bool
  ot_label :: string

record openSpecScore =
  om_module :: string
  om_score :: jsnum
  om_summary :: string

record openSpecEvidence =
  oe_source :: string
  oe_summary :: string
  oe_command :: "string option"
  oe_exitCode :: "int option"

record openSpecProjection =
  os_runId :: string
  os_changeName :: string
  os_status :: openSpecStage
  os_maxImplementationPrompts :: nat
  os_owningMainSessionName :: string
  os_launchedFromSessionName :: string
  os_targetImplementationSessionName :: string
  os_generation :: nat
  os_implementationPromptCount :: nat
  os_total :: nat
  os_checked :: nat
  os_unchecked :: nat
  os_items :: "openSpecTask list"
  os_specAuditRound :: "(nat \<times> nat) option"
  os_implementationAuditRound :: "(nat \<times> nat) option"
  os_activeP2pRunId :: "string option"
  os_selectedTeamComboId :: "string option"
  os_activeOpenSpecPromptId :: "string option"
  os_latestVerdict :: "string option"
  os_moduleScores :: "openSpecScore list"
  os_latestRepairSummary :: "string option"
  os_evidence :: "openSpecEvidence list"
  os_lastMessage :: "string option"
  os_terminalReason :: "string option"

section \<open>Stages\<close>

definition EVOLUTION_STAGE_ORDER :: "evolutionStage list" where
  "EVOLUTION_STAGE_ORDER = [Es_detected, Es_intake_normalized, Es_product_discussion, Es_prd_ready,
     Es_design_lofi, Es_design_hifi, Es_architecture_baseline, Es_tasks_ready,
     Es_implementation_loop, Es_qa_completion, Es_delivery_ready, Es_deployed_staging,
     Es_human_release_gate, Es_deployed_production]"

primrec targetEvolutionStageForOpenSpec :: "openSpecStage \<Rightarrow> evolutionStage option" where
  "targetEvolutionStageForOpenSpec Os_proposed = Some Es_implementation_loop"
| "targetEvolutionStageForOpenSpec Os_spec_audit_repair = Some Es_implementation_loop"
| "targetEvolutionStageForOpenSpec Os_implementation_task_loop = Some Es_implementation_loop"
| "targetEvolutionStageForOpenSpec Os_commit_push = Some Es_implementation_loop"
| "targetEvolutionStageForOpenSpec Os_implementation_audit_repair = Some Es_qa_completion"
| "targetEvolutionStageForOpenSpec Os_passed = Some Es_delivery_ready"
| "targetEvolutionStageForOpenSpec Os_needs_human = Some Es_needs_human"
| "targetEvolutionStageForOpenSpec Os_failed = Some Es_failed"
| "targetEvolutionStageForOpenSpec Os_stopped = Some Es_stopped"
| "targetEvolutionStageForOpenSpec Os_stopping = None"

text \<open>The loop over the steps of a path: every step is allowed from the one before.\<close>

fun allowedPath :: "evolutionStage \<Rightarrow> evolutionStage list \<Rightarrow> bool" where
  "allowedPath cursor [] = True"
| "allowedPath cursor (step # steps) = (canTransitionEvolutionStage cursor step \<and> allowedPath step steps)"

definition pathToEvolutionStage :: "evolutionStage \<Rightarrow> evolutionStage \<Rightarrow> evolutionStage list" where
  "pathToEvolutionStage s t =
     (if s = t then []
      else if canTransitionEvolutionStage s t then [t]
      else (case (indexOf s EVOLUTION_STAGE_ORDER, indexOf t EVOLUTION_STAGE_ORDER) of
        (Some fromIndex, Some toIndex) \<Rightarrow>
          (if toIndex \<le> fromIndex then []
           else (let path = take (toIndex - fromIndex) (drop (fromIndex + 1) EVOLUTION_STAGE_ORDER) in
             if allowedPath s path then path else []))
      | _ \<Rightarrow> []))"

definition openSpecProjectionMatchesRun :: "openSpecProjection \<Rightarrow> evolutionRun \<Rightarrow> bool" where
  "openSpecProjectionMatchesRun p run =
     (if truthyStr (run_linkedOpenSpecChange run) = None
         \<or> run_linkedOpenSpecChange run \<noteq> Some (os_changeName p) then False
      else (let aliases = filter (\<lambda>v. v \<noteq> []) [os_owningMainSessionName p,
              os_launchedFromSessionName p, os_targetImplementationSessionName p] in
        aliases = [] \<or> run_sessionName run \<in> set aliases))"

section \<open>Scores and questions\<close>

definition evolutionScoreModuleForOpenSpec :: "string \<Rightarrow> evolutionScoreModule option" where
  "evolutionScoreModuleForOpenSpec m =
     (if m = ''spec'' then Some Esm_architecture
      else if m = ''tasks'' then Some Esm_tasks
      else if m = ''implementation'' then Some Esm_implementation
      else if m = ''tests'' then Some Esm_tests
      else if m = ''risk'' then Some Esm_risk
      else None)"

definition scoreOf :: "evolutionScoreModule \<Rightarrow> jsnum \<Rightarrow> string \<Rightarrow> evolutionScore" where
  "scoreOf m n summary = \<lparr>sc_module = m, sc_score = n, sc_summary = summary\<rparr>"

definition syncOpenSpecScores :: "openSpecProjection \<Rightarrow> evolutionRun \<Rightarrow> evolutionRun" where
  "syncOpenSpecScores p run = foldl (\<lambda>s score. case evolutionScoreModuleForOpenSpec (om_module score) of
       None \<Rightarrow> s
     | Some m \<Rightarrow> upsertScore (scoreOf m (om_score score)
         (''OpenSpec Auto Deliver: '' @ om_summary score)) s) run (os_moduleScores p)"

text \<open>The guarded push every blocking question goes through.\<close>

definition pushQuestion :: "blockingQuestion \<Rightarrow> evolutionRun \<Rightarrow> evolutionRun" where
  "pushQuestion q run = (if bq_id q \<in> bq_id ` set (run_blockingQuestions run) then run
     else run\<lparr>run_blockingQuestions := run_blockingQuestions run @ [q]\<rparr>)"

definition questionOf :: "string \<Rightarrow> evolutionStage \<Rightarrow> evolutionRoleId \<Rightarrow> string \<Rightarrow> int \<Rightarrow> blockingQuestion" where
  "questionOf i stage roleId question nowMs = \<lparr>bq_id = i, bq_stage = stage, bq_roleId = Some roleId,
     bq_question = question, bq_createdAt = nowMs\<rparr>"

definition syncOpenSpecBlockingQuestion :: "openSpecProjection \<Rightarrow> int \<Rightarrow> evolutionRun \<Rightarrow> evolutionRun" where
  "syncOpenSpecBlockingQuestion p nowMs run =
     (if os_status p \<noteq> Os_needs_human then run
      else pushQuestion (questionOf (''openspec-'' @ os_runId p @ ''-needs-human'') Es_needs_human
        Er_loop_supervisor (case truthyStr (os_terminalReason p) of
           Some r \<Rightarrow> ''OpenSpec Auto Deliver needs human input: '' @ r
         | None \<Rightarrow> ''OpenSpec Auto Deliver needs human input.'') nowMs) run)"

section \<open>The detail of a report\<close>

definition ratioText :: "nat \<Rightarrow> nat \<Rightarrow> string" where
  "ratioText a b = showNat a @ ''/'' @ showNat b"

definition tasksText :: "openSpecProjection \<Rightarrow> string" where
  "tasksText p = ratioText (os_checked p) (os_total p)"

definition promptsText :: "openSpecProjection \<Rightarrow> string" where
  "promptsText p = ratioText (os_implementationPromptCount p) (os_maxImplementationPrompts p)"

definition latestOpenSpecEvidenceSummary :: "openSpecProjection \<Rightarrow> string" where
  "latestOpenSpecEvidenceSummary p = ''OpenSpec Auto Deliver '' @ os_runId p @ '' is ''
     @ openSpecStageText (os_status p) @ '' (tasks '' @ tasksText p @ '' checked).''"

definition discussionRoleForOpenSpecStatus :: "openSpecStage \<Rightarrow> evolutionRoleId" where
  "discussionRoleForOpenSpecStatus s =
     (if s = Os_implementation_audit_repair \<or> s = Os_passed then Er_qa_engineer
      else if s = Os_needs_human then Er_loop_supervisor
      else if s = Os_failed \<or> s = Os_stopped then Er_tech_director
      else Er_backend_developer)"

definition hasAnyWord :: "string list \<Rightarrow> string \<Rightarrow> bool" where
  "hasAnyWord ws s = list_ex (\<lambda>w. hasWord w s) ws"

definition taskLabelRole :: "string \<Rightarrow> evolutionRoleId" where
  "taskLabelRole label = (let normalized = toLower label in
     if hasAnyWord [''ui'', ''ux'', ''frontend'', ''front-end'', ''react'', ''component'', ''screen'',
         ''css'', ''style'', ''visual'', ''mobile''] normalized then Er_frontend_developer
     else if hasAnyWord [''test'', ''qa'', ''spec'', ''coverage'', ''regression'', ''e2e'', ''unit'']
         normalized then Er_qa_engineer
     else if hasAnyWord [''deploy'', ''release'', ''staging'', ''rollback'', ''ops'', ''env''] normalized
     then Er_ops_release_manager
     else if hasAnyWord [''security'', ''auth'', ''permission'', ''privacy'', ''secret''] normalized
     then Er_security_reviewer
     else Er_backend_developer)"

definition summarizeTaskLabels :: "evoEnv \<Rightarrow> string list \<Rightarrow> string" where
  "summarizeTaskLabels env labels =
     (if labels = [] then ''none''
      else (let shown = joinWith (en_text env Tx_semicolon) (take 3 labels) in
        if length labels > 3
        then shown @ en_text env Tx_semicolon @ ''+'' @ showNat (length labels - 3) @ '' more''
        else shown))"

definition labelsByRole :: "openSpecProjection \<Rightarrow> (evolutionRoleId, string list) jsmap" where
  "labelsByRole p =
     (let uncheckedItems = filter (\<lambda>i. \<not> ot_checked i) (os_items p);
          items = (if uncheckedItems \<noteq> [] then uncheckedItems else filter ot_checked (os_items p));
          groups = foldl (\<lambda>m i. let r = taskLabelRole (ot_label i) in
            mapSet m r ((case mapGet m r of Some ls \<Rightarrow> ls | None \<Rightarrow> []) @ [ot_label i])) [] items in
      if groups = [] then [(Er_backend_developer, [])] else groups)"

text \<open>An event with the members most events share.\<close>

definition eventOf :: "liveEventSource \<Rightarrow> liveEventKind \<Rightarrow> liveEventSeverity \<Rightarrow> evolutionRoleId
    \<Rightarrow> evolutionStage \<Rightarrow> string \<Rightarrow> string \<Rightarrow> int \<Rightarrow> liveEvent" where
  "eventOf source kind severity roleId stage title detail nowMs = \<lparr>le_id = [], le_source = source,
     le_kind = kind, le_severity = severity, le_roleId = Some roleId, le_stage = stage,
     le_title = title, le_detail = detail, le_progress = None, le_command = None,
     le_exitCode = None, le_artifactIds = None, le_createdAt = nowMs\<rparr>"

definition progressOf :: "jsnum \<Rightarrow> nat \<Rightarrow> string \<Rightarrow> liveEventProgress" where
  "progressOf current hi label = \<lparr>lp_current = current, lp_total = hi, lp_label = Some label\<rparr>"

definition openSpecRoleOfPrompt :: "openSpecStage \<Rightarrow> evolutionRoleId" where
  "openSpecRoleOfPrompt s = (if s = Os_spec_audit_repair then Er_tech_director
     else if s = Os_implementation_audit_repair then Er_qa_engineer else Er_backend_developer)"

definition openSpecEvents :: "evoEnv \<Rightarrow> openSpecProjection \<Rightarrow> evolutionStage \<Rightarrow> int \<Rightarrow> evolutionRun \<Rightarrow> evolutionRun" where
  "openSpecEvents env p stage nowMs run =
     (let run1 = appendLiveEvent env ((eventOf Els_openspec_auto_deliver Elk_status
            (if os_status p = Os_needs_human \<or> os_status p = Os_failed then Elv_warning
             else if os_status p = Os_passed then Elv_success else Elv_info)
            (discussionRoleForOpenSpecStatus (os_status p)) stage
            (''OpenSpec'' @ midDot @ openSpecStageText (os_status p))
            (orText (os_lastMessage p) (latestOpenSpecEvidenceSummary p)) nowMs)
            \<lparr>le_progress := Some (progressOf (numOf (int (os_checked p))) (max 1 (os_total p))
               (tasksText p @ '' tasks''))\<rparr>) run;
          run2 = appendLiveEvent env ((eventOf Els_openspec_auto_deliver Elk_task_progress
            (if os_unchecked p > 0 then Elv_info else Elv_success) Er_tech_director stage
            ''OpenSpec task board''
            (''checked='' @ showNat (os_checked p) @ ''; unchecked='' @ showNat (os_unchecked p)
              @ ''; prompts='' @ promptsText p) nowMs)
            \<lparr>le_progress := Some (progressOf (numOf (int (os_checked p))) (max 1 (os_total p))
               (tasksText p @ '' checked''))\<rparr>) run1 in
      case truthyStr (os_activeOpenSpecPromptId p) of None \<Rightarrow> run2
      | Some promptId \<Rightarrow> appendLiveEvent env (eventOf Els_openspec_auto_deliver Elk_prompt Elv_info
          (openSpecRoleOfPrompt (os_status p)) stage (''Active prompt'' @ midDot @ promptId)
          (''generation='' @ showNat (os_generation p) @ ''; implementationPrompt=''
            @ showNat (os_implementationPromptCount p) @ ''; p2p='' @ orText (os_activeP2pRunId p) ''none'')
          nowMs) run2)"

definition openSpecAuthor :: string where
  "openSpecAuthor = ''OpenSpec Auto Deliver''"

definition openSpecUpdate :: "evoEnv \<Rightarrow> evolutionStage \<Rightarrow> evolutionRoleId \<Rightarrow> evoText \<Rightarrow> int
    \<Rightarrow> evolutionRun \<Rightarrow> evolutionRun" where
  "openSpecUpdate env stage roleId txt nowMs run = appendDiscussion env
     (messageOf Emk_role_update stage (Some roleId) openSpecAuthor (en_text env txt) None nowMs) run"

definition openSpecDiscussions :: "evoEnv \<Rightarrow> openSpecProjection \<Rightarrow> evolutionStage \<Rightarrow> int
    \<Rightarrow> evolutionRun \<Rightarrow> evolutionRun" where
  "openSpecDiscussions env p stage nowMs run =
     (let run1 = (if os_status p = Os_implementation_task_loop \<or> os_status p = Os_commit_push
            then foldl (\<lambda>s (roleId, labels). openSpecUpdate env Es_implementation_loop roleId
              (Tx_loop_round (promptsText p) (tasksText p)
                (filter (\<lambda>i. \<not> ot_checked i) (os_items p) \<noteq> []) (summarizeTaskLabels env labels)) nowMs s)
              run (labelsByRole p)
            else run);
          spec = (os_status p = Os_spec_audit_repair);
          run2 = (if spec \<or> os_status p = Os_implementation_audit_repair
            then openSpecUpdate env (if spec then Es_architecture_baseline else Es_qa_completion)
              (if spec then Er_tech_director else Er_qa_engineer)
              (Tx_audit_round (case (if spec then os_specAuditRound p else os_implementationAuditRound p) of
                  Some (current, hi) \<Rightarrow> ratioText current hi | None \<Rightarrow> ''unknown'')
                (orText (os_activeOpenSpecPromptId p) ''n/a'') (orText (os_latestVerdict p) ''pending'')) nowMs run1
            else run1) in
      case truthyStr (os_activeP2pRunId p) of None \<Rightarrow> run2
      | Some p2p \<Rightarrow> openSpecUpdate env stage Er_tech_director
          (Tx_linked_p2p p2p (truthyStr (os_selectedTeamComboId p))) nowMs run2)"

definition scoreText :: "evoEnv \<Rightarrow> openSpecScore \<Rightarrow> string" where
  "scoreText env score = numToString (numDigits (en_host env)) (om_score score)"

definition openSpecScoreEvent :: "evoEnv \<Rightarrow> evolutionStage \<Rightarrow> int \<Rightarrow> openSpecScore \<Rightarrow> evolutionRun \<Rightarrow> evolutionRun" where
  "openSpecScoreEvent env stage nowMs score run =
     appendEvidence (evidenceOf (''openspec_score:'' @ om_module score)
       (om_module score @ '' score '' @ scoreText env score @ ''/10'' @ en_text env Tx_dash @ om_summary score) nowMs)
     (appendLiveEvent env ((eventOf Els_openspec_auto_deliver Elk_score
         (if \<not> numLess (om_score score) (Num 8) then Elv_success
          else if \<not> numLess (om_score score) (Num 5) then Elv_warning else Elv_error)
         (openSpecModuleRole (om_module score)) stage
         (''Score'' @ midDot @ om_module score @ '' '' @ scoreText env score @ ''/10'') (om_summary score) nowMs)
         \<lparr>le_progress := Some (progressOf (om_score score) 10 (scoreText env score @ ''/10''))\<rparr>) run)"

definition appendOpenSpecDetailEvents :: "evoEnv \<Rightarrow> openSpecProjection \<Rightarrow> int \<Rightarrow> evolutionRun \<Rightarrow> evolutionRun" where
  "appendOpenSpecDetailEvents env p nowMs run =
     (let stage = orStage (targetEvolutionStageForOpenSpec (os_status p)) (run_stage run);
          run1 = openSpecEvents env p stage nowMs run;
          run2 = appendEvidence (evidenceOf ''openspec_task_board''
            (''Task board '' @ tasksText p @ '' checked; unchecked='' @ showNat (os_unchecked p)
              @ ''; implementation prompts='' @ promptsText p @ ''.'') nowMs) run1;
          run3 = openSpecDiscussions env p stage nowMs run2;
          run4 = foldl (\<lambda>s score. openSpecScoreEvent env stage nowMs score s) run3 (os_moduleScores p) in
      case truthyStr (os_latestRepairSummary p) of None \<Rightarrow> run4
      | Some r \<Rightarrow> openSpecUpdate env stage Er_qa_engineer (Tx_repair_summary r) nowMs run4)"

section \<open>The QA evidence of a passed delivery\<close>

definition openSpecTestEvidence :: "evoEnv \<Rightarrow> evolutionRun \<Rightarrow> openSpecProjection \<Rightarrow> int \<Rightarrow> string" where
  "openSpecTestEvidence env run p nowMs =
     (let scoreLines = map (\<lambda>s. ''- '' @ om_module s @ '': '' @ scoreText env s @ ''/10''
            @ en_text env Tx_dash @ om_summary s) (os_moduleScores p);
          evidenceLines = map (\<lambda>e. ''- '' @ (if oe_source e = [] then ''openspec_auto_deliver'' else oe_source e)
              @ '': '' @ oe_summary e
              @ (case truthyStr (oe_command e) of Some c \<Rightarrow> midDot @ ''command=`'' @ c @ ''`'' | None \<Rightarrow> [])
              @ (case oe_exitCode e of Some i \<Rightarrow> midDot @ ''exit='' @ showInt i | None \<Rightarrow> []))
            (take 20 (filter (\<lambda>e. oe_summary e \<noteq> []) (os_evidence p))) in
      joinWith [CHR 0x0A]
       ([''# QA Completion Evidence'', [], ''- Run: `'' @ run_runId run @ ''`'',
         ''- OpenSpec change: `'' @ os_changeName p @ ''`'', ''- Auto Deliver run: `'' @ os_runId p @ ''`'',
         ''- Status: `'' @ openSpecStageText (os_status p) @ ''`'', ''- Captured at: '' @ en_iso env nowMs, [],
         ''## Task Completion'', [], ''- Checked tasks: '' @ tasksText p,
         ''- Unchecked tasks: '' @ showNat (os_unchecked p),
         ''- Implementation prompts: '' @ promptsText p, [], ''## Module Scores'', []]
        @ (if scoreLines \<noteq> [] then scoreLines
           else [''- No module scores were provided by OpenSpec Auto Deliver.''])
        @ [[], ''## Evidence'', []]
        @ (if evidenceLines \<noteq> [] then evidenceLines
           else [''- No detailed evidence entries were provided by OpenSpec Auto Deliver.''])
        @ [[], ''## Release Boundary'', [],
         ''- This artifact proves the implementation loop reached the OpenSpec passed state for this Evolution run.'',
         ''- Staging may run automatically only when `.imc/evolution/delivery.json` explicitly enables staging.'',
         ''- Production remains behind `human_release_gate`; this evidence does not authorize production execution.'',
         []]))"

definition openSpecTestArtifact :: "evoEnv \<Rightarrow> evolutionRun \<Rightarrow> openSpecProjection \<Rightarrow> int \<Rightarrow> artifactRef" where
  "openSpecTestArtifact env run p nowMs =
     fileArtifact env ''test_evidence:artifacts/test-evidence.md'' Eak_test_evidence
       ''artifacts/test-evidence.md'' ''QA Completion Evidence'' Er_qa_engineer Es_qa_completion
       (openSpecTestEvidence env run p nowMs) nowMs"

definition openSpecPassed :: "evoEnv \<Rightarrow> openSpecProjection \<Rightarrow> int \<Rightarrow> evolutionRun \<Rightarrow> evolutionRun" where
  "openSpecPassed env p nowMs run =
     (let artifact = openSpecTestArtifact env run p nowMs;
          run1 = upsertArtifact artifact run;
          run2 = appendDiscussion env (messageOf Emk_artifact_summary Es_qa_completion (Some Er_qa_engineer)
            (en_text env Tx_author_qa) (en_text env (Tx_qa_document (ar_path artifact)))
            (Some [ar_id artifact]) nowMs) run1;
          run3 = appendEvidence ((evidenceOf ''test_evidence''
            (''QA completion evidence captured for OpenSpec Auto Deliver run '' @ os_runId p @ ''.'') nowMs)
            \<lparr>ev_artifactId := Some (ar_id artifact)\<rparr>) run2 in
      appendLiveEvent env ((eventOf Els_openspec_auto_deliver Elk_artifact Elv_success Er_qa_engineer
        Es_qa_completion ''QA completion evidence''
        (''OpenSpec passed with '' @ tasksText p @ '' tasks checked.'') nowMs)
        \<lparr>le_artifactIds := Some [ar_id artifact]\<rparr>) run3)"

section \<open>One run\<close>

text \<open>The walk along a path: each step becomes the stage and sets the role states.\<close>

definition walkStages :: "evoEnv \<Rightarrow> int \<Rightarrow> evolutionStage list \<Rightarrow> evolutionRun \<Rightarrow> evolutionRun" where
  "walkStages env nowMs path run =
     foldl (\<lambda>s step. applyRoleStatesForStage env step nowMs (s\<lparr>run_stage := step\<rparr>)) run path"

definition openSpecMove :: "evoEnv \<Rightarrow> openSpecProjection \<Rightarrow> int \<Rightarrow> evolutionRun \<Rightarrow> evolutionRun" where
  "openSpecMove env p nowMs run = (case targetEvolutionStageForOpenSpec (os_status p) of
     Some t \<Rightarrow>
       if run_stage run \<noteq> t
       then (let run1 = walkStages env nowMs (pathToEvolutionStage (run_stage run) t) run in
         if t = Es_failed \<or> t = Es_stopped
         then run1\<lparr>run_verdict := Some (if t = Es_failed then Ev_BLOCKED else Ev_REWORK),
           run_terminalReason := Some (orText (os_terminalReason p)
             (''openspec_'' @ openSpecStageText (os_status p)))\<rparr>
         else run1)
       else applyRoleStatesForStage env (run_stage run) nowMs run
   | None \<Rightarrow> applyRoleStatesForStage env (run_stage run) nowMs run)"

definition openSpecEvidenceItem :: "int \<Rightarrow> openSpecEvidence \<Rightarrow> evolutionRun \<Rightarrow> evolutionRun" where
  "openSpecEvidenceItem nowMs e run =
     (if oe_summary e = [] then run
      else appendEvidence \<lparr>ev_source = (if oe_source e = [] then ''openspec_auto_deliver'' else oe_source e),
        ev_summary = oe_summary e, ev_command = truthyStr (oe_command e), ev_exitCode = oe_exitCode e,
        ev_artifactId = None, ev_createdAt = nowMs\<rparr> run)"

definition openSpecRun :: "evoEnv \<Rightarrow> openSpecProjection \<Rightarrow> int \<Rightarrow> evolutionRun \<Rightarrow> evolutionRun" where
  "openSpecRun env p nowMs run =
     (let message = latestOpenSpecEvidenceSummary p;
          run1 = run\<lparr>run_linkedAutoDeliverRunId := Some (os_runId p), run_latestMessage := Some message\<rparr>;
          run2 = appendDiscussion env (messageOf
            (if os_status p = Os_needs_human then Emk_gate else Emk_role_update)
            (orStage (targetEvolutionStageForOpenSpec (os_status p)) (run_stage run1))
            (Some (discussionRoleForOpenSpecStatus (os_status p))) openSpecAuthor message None nowMs) run1;
          run3 = appendEvidence (evidenceOf ''openspec_auto_deliver'' message nowMs) run2;
          run4 = foldl (\<lambda>s e. openSpecEvidenceItem nowMs e s) run3 (os_evidence p);
          run5 = appendOpenSpecDetailEvents env p nowMs run4;
          run6 = syncOpenSpecBlockingQuestion p nowMs (syncOpenSpecScores p run5) in
      openSpecMove env p nowMs run6)"

text \<open>
  One turn: a matching run that is not terminal takes the report and is saved. The result is
  \<open>None\<close> for a run the report does not concern; a staging delivery may follow.
\<close>

definition recordOpenSpecForRun :: "evoEnv \<Rightarrow> (string \<Rightarrow> bool) \<Rightarrow> openSpecProjection \<Rightarrow> string \<Rightarrow> int
    \<Rightarrow> evoWorld \<Rightarrow> evoCall option" where
  "recordOpenSpecForRun env fs p rid nowMs w = (case getRuntimeEntry rid w of
     None \<Rightarrow> None
   | Some entry \<Rightarrow>
      if \<not> openSpecProjectionMatchesRun p (rn_run entry) \<or> terminalStage (run_stage (rn_run entry)) then None
      else
       (let run1 = openSpecRun env p nowMs (rn_run entry) in
        if os_status p \<noteq> Os_passed then Some (persistAndProject env fs rid run1 nowMs w)
        else if \<not> fs ''artifacts/test-evidence.md'' then Some (Evo_threw, setRun rid run1 w)
        else Some (persistAndProject env fs rid (openSpecPassed env p nowMs run1) nowMs w)))"

end
