(* ===== verification/EvoStaging.thy ===== *)
theory EvoStaging
  imports EvoOpenSpec
begin

text \<open>
  Staging in \<^verbatim>\<open>src/daemon/evolution-orchestrator.ts\<close>: the check of the configuration a user asks
  for and the delivery that follows a passed implementation. The delivery spans the run of an
  external command, so it is two turns, \<open>startStagingDelivery\<close> and \<open>finishStagingDelivery\<close>:
  other operations may change the run in between.
\<close>

section \<open>The check of the configuration\<close>

record configCheck =
  cc_status :: evolutionStagingStatus
  cc_commandLine :: "string option"
  cc_cwd :: "string list option"
  cc_timeoutMs :: "nat option"
  cc_summary :: string
  cc_error :: "string option"

definition checkFailure :: "string \<Rightarrow> string \<Rightarrow> configCheck" where
  "checkFailure summary message = \<lparr>cc_status = Esd_failed, cc_commandLine = None, cc_cwd = None,
     cc_timeoutMs = None, cc_summary = summary, cc_error = Some message\<rparr>"

definition checkIdle :: "evolutionStagingStatus \<Rightarrow> string \<Rightarrow> configCheck" where
  "checkIdle status summary = \<lparr>cc_status = status, cc_commandLine = None, cc_cwd = None,
     cc_timeoutMs = None, cc_summary = summary, cc_error = None\<rparr>"

text \<open>\<open>stat\<close> of the working directory: an error, or whether it is a directory.\<close>

definition configCheckOf :: "string list \<Rightarrow> configRead \<Rightarrow> (string list \<Rightarrow> string + bool) \<Rightarrow> configCheck" where
  "configCheckOf dir config stat = (case config of
     Cr_error message \<Rightarrow> checkFailure (''Could not read staging delivery config: '' @ message) message
   | Cr_absent \<Rightarrow> checkIdle Esd_not_configured
       (''No staging delivery config found at '' @ EVOLUTION_DELIVERY_CONFIG_RELATIVE_PATH @ ''.'')
   | Cr_value raw \<Rightarrow> (case parseStagingDeliveryConfig dir raw of
       Inl message \<Rightarrow> checkFailure (''Invalid staging delivery config: '' @ message) message
     | Inr c \<Rightarrow>
        if \<not> cf_enabled c then checkIdle Esd_disabled ''Staging delivery is disabled in delivery.json.''
        else
         (let line = commandLine (cf_command c) (cf_args c);
              problem = (case stat (cf_cwd c) of Inl e \<Rightarrow> Some e
                | Inr isDir \<Rightarrow> if isDir then None else Some ''staging.cwd must resolve to a directory'') in
          \<lparr>cc_status = (if problem = None then Esd_ready else Esd_failed), cc_commandLine = Some line,
            cc_cwd = Some (cf_cwd c), cc_timeoutMs = Some (cf_timeoutMs c),
            cc_summary = (case problem of None \<Rightarrow> ''Staging delivery config is ready: '' @ line
              | Some e \<Rightarrow> ''Invalid staging delivery cwd: '' @ e),
            cc_error = problem\<rparr>)))"

definition checkNextStep :: "evolutionStagingStatus \<Rightarrow> string" where
  "checkNextStep s =
     (if s = Esd_ready then ''- Let OpenSpec Auto Deliver finish; staging will run automatically at `delivery_ready` if the run budget allows staging.''
      else if s = Esd_not_configured then ''- Copy the run artifact `delivery/delivery.example.json` to project root `.imc/evolution/delivery.json`, then edit it for staging only.''
      else if s = Esd_disabled then ''- Set `staging.enabled` to `true` only when you have a real staging command and rollback path.''
      else ''- Fix `.imc/evolution/delivery.json`, then re-run the War Room staging check.'')"

definition configCheckContent :: "evoEnv \<Rightarrow> configCheck \<Rightarrow> int \<Rightarrow> string" where
  "configCheckContent env c checkedAt = joinWith [CHR 0x0A] (filter (\<lambda>l. l \<noteq> [])
     [''# IM.codes Evolution Staging Config Check'', [],
      ''status: '' @ stagingStatusText (cc_status c),
      ''configPath: '' @ EVOLUTION_DELIVERY_CONFIG_RELATIVE_PATH,
      ''checkedAt: '' @ en_iso env checkedAt,
      (case truthyStr (cc_commandLine c) of Some l \<Rightarrow> ''command: '' @ l | None \<Rightarrow> []),
      (case cc_cwd c of Some d \<Rightarrow> ''cwd: '' @ pathText d | None \<Rightarrow> []),
      (case cc_timeoutMs c of Some n \<Rightarrow> ''timeoutMs: '' @ showNat n | None \<Rightarrow> []),
      [], ''## Result'', [], cc_summary c, [],
      (case truthyStr (cc_error c) of Some _ \<Rightarrow> ''## Error'' | None \<Rightarrow> []),
      orText (cc_error c) [],
      ''## Safety Contract'', [], ''- This check does not execute the staging command.'',
      ''- The command must not route to production; production remains behind the War Room human release gate.'',
      ''- Shell wrappers and privileged wrappers are rejected; staging runs through `execFile` with `shell: false`.'',
      ''- Secrets should come from the deployment environment, never from committed config.'',
      [], ''## Next Steps'', [], checkNextStep (cc_status c), []])"

definition writeDeliveryConfigCheck :: "evoEnv \<Rightarrow> string \<Rightarrow> configCheck \<Rightarrow> int \<Rightarrow> artifactRef" where
  "writeDeliveryConfigCheck env runId c checkedAt =
     (let relativePath = runDeliveryDir runId @ ''/staging-config-check-''
            @ formatRunIdTimestamp env checkedAt @ ''.md'';
          content = configCheckContent env c checkedAt in
      \<lparr>ar_id = ''staging_config_check:'' @ relativePath, ar_kind = Eak_staging_config_check,
        ar_path = relativePath, ar_title = Some ''Staging config check'',
        ar_preview = Some (deliveryPreview content), ar_roleId = Some Er_ops_release_manager,
        ar_stage = Some (if cc_status c = Esd_failed then Es_needs_human else Es_delivery_ready),
        ar_sha256 = Some (en_sha256 env content), ar_bytes = Some (byteLength content),
        ar_createdAt = checkedAt\<rparr>)"

definition checkedRun :: "evoEnv \<Rightarrow> configCheck \<Rightarrow> artifactRef \<Rightarrow> int \<Rightarrow> evolutionRun \<Rightarrow> evolutionRun" where
  "checkedRun env c artifact checkedAt run =
     (let blockerPrefix = ''staging-config-'' @ run_runId run @ ''-'';
          run1 = (upsertArtifact artifact run)\<lparr>
            run_stagingDelivery := Some \<lparr>sg_status = cc_status c,
              sg_configPath = Some EVOLUTION_DELIVERY_CONFIG_RELATIVE_PATH,
              sg_command = truthyStr (cc_commandLine c), sg_logArtifactId = Some (ar_id artifact),
              sg_exitCode = None, sg_summary = Some (cc_summary c), sg_startedAt = Some checkedAt,
              sg_completedAt = Some checkedAt, sg_lastError = truthyStr (cc_error c)\<rparr>,
            run_latestMessage := Some (cc_summary c),
            run_blockingQuestions := filter (\<lambda>q. \<not> startsWith (bq_id q) blockerPrefix)
                (run_blockingQuestions run)
              @ (if cc_status c = Esd_failed
                 then [questionOf (blockerPrefix @ ''blocked'') (run_stage run) Er_ops_release_manager
                   (''Fix .imc/evolution/delivery.json before staging delivery can run: ''
                     @ orText (cc_error c) (cc_summary c)) checkedAt] else [])\<rparr>;
          run2 = appendDiscussion env (messageOf
            (if cc_status c = Esd_ready then Emk_role_update else Emk_gate) (run_stage run)
            (Some Er_ops_release_manager) (en_text env Tx_author_ops)
            (en_text env (if cc_status c = Esd_ready
               then Tx_config_ready (orText (cc_commandLine c) (cc_summary c))
               else Tx_config_result (cc_summary c)))
            (Some [ar_id artifact]) checkedAt) run1;
          run3 = appendEvidence ((evidenceOf ''staging_config_check'' (cc_summary c) checkedAt)
            \<lparr>ev_command := truthyStr (cc_commandLine c), ev_artifactId := Some (ar_id artifact)\<rparr>) run2;
          run4 = appendLiveEvent env ((eventOf Els_staging_delivery Elk_gate
            (if cc_status c = Esd_ready then Elv_success
             else if cc_status c = Esd_failed then Elv_error else Elv_warning) Er_ops_release_manager
            (if cc_status c = Esd_failed then Es_needs_human else Es_delivery_ready)
            ''Staging config check'' (cc_summary c) checkedAt)
            \<lparr>le_command := truthyStr (cc_commandLine c), le_artifactIds := Some [ar_id artifact]\<rparr>) run3 in
      upsertScore (scoreOf Esm_delivery (numOf (if cc_status c = Esd_ready then 7
         else if cc_status c = Esd_disabled then 6
         else if cc_status c = Esd_not_configured then 5 else 3)) (cc_summary c)) run4)"

text \<open>The report of the check is a file of the run; if it cannot be written the call throws.\<close>

definition checkEvolutionStagingConfig :: "evoEnv \<Rightarrow> (string \<Rightarrow> bool) \<Rightarrow> string list \<Rightarrow> configRead
    \<Rightarrow> (string list \<Rightarrow> string + bool) \<Rightarrow> string \<Rightarrow> int \<Rightarrow> evoWorld \<Rightarrow> evoCall" where
  "checkEvolutionStagingConfig env fs dir config stat runId nowMs w = onRun runId w (\<lambda>rid entry.
     (let c = configCheckOf dir config stat;
          artifact = writeDeliveryConfigCheck env (run_runId (rn_run entry)) c nowMs in
      if \<not> fs (ar_path artifact) then (Evo_threw, w)
      else persistAndProject env fs rid (checkedRun env c artifact nowMs (rn_run entry)) nowMs w))"

section \<open>The delivery\<close>

definition stagingState :: "evolutionStagingStatus \<Rightarrow> string option \<Rightarrow> string \<Rightarrow> int option \<Rightarrow> int option
    \<Rightarrow> stagingDeliveryState" where
  "stagingState status configPath summary startedAt completedAt = \<lparr>sg_status = status,
     sg_configPath = configPath, sg_command = None, sg_logArtifactId = None, sg_exitCode = None,
     sg_summary = Some summary, sg_startedAt = startedAt, sg_completedAt = completedAt,
     sg_lastError = None\<rparr>"

definition opsMessage :: "evoEnv \<Rightarrow> evolutionMessageKind \<Rightarrow> evolutionStage \<Rightarrow> evoText \<Rightarrow> int
    \<Rightarrow> evolutionRun \<Rightarrow> evolutionRun" where
  "opsMessage env kind stage txt nowMs run = appendDiscussion env (messageOf kind stage
     (Some Er_ops_release_manager) (en_text env Tx_author_ops) (en_text env txt) None nowMs) run"

definition stagingDisabledByBudget :: "evoEnv \<Rightarrow> int \<Rightarrow> evolutionRun \<Rightarrow> evolutionRun" where
  "stagingDisabledByBudget env nowMs run =
     (let summary = ''Staging auto deployment is disabled by this run budget.'' in
      appendEvidence (evidenceOf ''staging_delivery'' summary nowMs)
      (opsMessage env Emk_gate Es_delivery_ready Tx_staging_budget nowMs
       (run\<lparr>run_stagingDelivery := Some (stagingState Esd_disabled None summary None (Some nowMs)),
         run_latestMessage := Some summary\<rparr>)))"

definition stagingStarted :: "evoEnv \<Rightarrow> int \<Rightarrow> evolutionRun \<Rightarrow> evolutionRun" where
  "stagingStarted env nowMs run =
     appendEvidence (evidenceOf ''staging_delivery'' ''Starting configured staging delivery command.'' nowMs)
     (opsMessage env Emk_role_update Es_delivery_ready Tx_staging_started nowMs
      (run\<lparr>run_stagingDelivery := Some (stagingState Esd_running
           (Some EVOLUTION_DELIVERY_CONFIG_RELATIVE_PATH)
           ''Starting configured staging delivery command.'' (Some nowMs) None),
         run_latestMessage := Some ''Starting staging delivery.''\<rparr>))"

text \<open>What the first turn does: nothing, the end of the delivery by the budget, or its start.\<close>

datatype stagingTurn = St_none | St_disabled | St_started

definition stagingTurnOf :: "evolutionRun \<Rightarrow> stagingTurn" where
  "stagingTurnOf run =
     (if run_stage run \<noteq> Es_delivery_ready then St_none
      else if (case run_stagingDelivery run of
          Some d \<Rightarrow> sg_status d = Esd_passed \<or> sg_status d = Esd_running | None \<Rightarrow> False) then St_none
      else if bu_maxAutoDeployStage (run_budget run) \<noteq> Emd_staging then St_disabled
      else St_started)"

definition startStagingDelivery :: "evoEnv \<Rightarrow> (string \<Rightarrow> bool) \<Rightarrow> string \<Rightarrow> int \<Rightarrow> evoWorld
    \<Rightarrow> stagingTurn \<times> evoCall" where
  "startStagingDelivery env fs rid nowMs w = (case getRuntimeEntry rid w of
     None \<Rightarrow> (St_none, (Evo_threw, w))
   | Some entry \<Rightarrow> (let run = rn_run entry in case stagingTurnOf run of
       St_none \<Rightarrow> (St_none, (Evo_ok (buildEvolutionProjection env run nowMs), w))
     | St_disabled \<Rightarrow> (St_disabled,
         persistAndProject env fs rid (stagingDisabledByBudget env nowMs run) nowMs w)
     | St_started \<Rightarrow> (St_started, persistAndProject env fs rid (stagingStarted env nowMs run) nowMs w)))"

definition withArtifact :: "artifactRef option \<Rightarrow> evolutionEvidence \<Rightarrow> evolutionEvidence" where
  "withArtifact a e = e\<lparr>ev_artifactId := map_option ar_id a\<rparr>"

definition stagingEvent :: "stagingResult \<Rightarrow> liveEventKind \<Rightarrow> liveEventSeverity \<Rightarrow> evolutionStage
    \<Rightarrow> string \<Rightarrow> string \<Rightarrow> int \<Rightarrow> liveEvent" where
  "stagingEvent r kind severity stage title detail completedAt =
     (eventOf Els_staging_delivery kind severity Er_ops_release_manager stage title detail completedAt)
       \<lparr>le_artifactIds := map_option (\<lambda>a. [ar_id a]) (sr_artifact r)\<rparr>"

definition stagingEvidence :: "stagingResult \<Rightarrow> int \<Rightarrow> evolutionRun \<Rightarrow> evolutionRun" where
  "stagingEvidence r completedAt run =
     appendEvidence (withArtifact (sr_artifact r)
       ((evidenceOf ''staging_delivery'' (sr_summary r) completedAt)
         \<lparr>ev_command := truthyStr (sr_commandLine r), ev_exitCode := sr_exitCode r\<rparr>)) run"

definition timedOutText :: "stagingResult \<Rightarrow> string \<Rightarrow> string" where
  "timedOutText r t = (if sr_timedOut r = Some True then t else [])"

definition stagingCommand :: "evoEnv \<Rightarrow> stagingResult \<Rightarrow> int \<Rightarrow> evolutionRun \<Rightarrow> evolutionRun" where
  "stagingCommand env r completedAt run = (case truthyStr (sr_commandLine r) of None \<Rightarrow> run
     | Some line \<Rightarrow>
        appendEvidence (withArtifact (sr_artifact r) ((evidenceOf ''staging_delivery_command''
          (''Executed staging command in '' @ showInt (sr_durationMs r) @ ''ms''
            @ timedOutText r '' (timed out)'' @ ''.'') completedAt)
          \<lparr>ev_command := Some line, ev_exitCode := sr_exitCode r\<rparr>))
        (appendLiveEvent env ((stagingEvent r Elk_command
          (if sr_status r = Esd_failed then Elv_error
           else if sr_status r = Esd_passed then Elv_success else Elv_info)
          (if sr_status r = Esd_failed then Es_needs_human
           else if sr_status r = Esd_passed then Es_deployed_staging else Es_delivery_ready)
          ''Staging command''
          (''duration='' @ showInt (sr_durationMs r) @ ''ms'' @ timedOutText r ''; timed out'') completedAt)
          \<lparr>le_command := Some line, le_exitCode := sr_exitCode r\<rparr>) run))"

definition stagingStdout :: "evoEnv \<Rightarrow> stagingResult \<Rightarrow> int \<Rightarrow> evolutionRun \<Rightarrow> evolutionRun" where
  "stagingStdout env r completedAt run = (case truthyStr (sr_stdoutTail r) of None \<Rightarrow> run
     | Some out \<Rightarrow>
        appendEvidence (withArtifact (sr_artifact r)
          (evidenceOf ''staging_delivery_stdout'' (''stdout: '' @ out) completedAt))
        (appendLiveEvent env (stagingEvent r Elk_stdout Elv_info
          (if sr_status r = Esd_passed then Es_deployed_staging else Es_delivery_ready)
          ''Staging stdout'' out completedAt) run))"

definition stagingStderr :: "evoEnv \<Rightarrow> stagingResult \<Rightarrow> int \<Rightarrow> evolutionRun \<Rightarrow> evolutionRun" where
  "stagingStderr env r completedAt run = (case truthyStr (sr_stderrTail r) of None \<Rightarrow> run
     | Some err \<Rightarrow>
        appendEvidence (withArtifact (sr_artifact r)
          ((evidenceOf ''staging_delivery_stderr'' (''stderr: '' @ err) completedAt)
            \<lparr>ev_exitCode := sr_exitCode r\<rparr>))
        (appendLiveEvent env ((stagingEvent r Elk_stderr
          (if sr_status r = Esd_failed then Elv_error else Elv_warning)
          (if sr_status r = Esd_failed then Es_needs_human else Es_delivery_ready)
          ''Staging stderr'' err completedAt)\<lparr>le_exitCode := sr_exitCode r\<rparr>) run))"

definition stagingPassedStep :: "evoEnv \<Rightarrow> stagingResult \<Rightarrow> int \<Rightarrow> evolutionStage \<Rightarrow> evolutionRun \<Rightarrow> evolutionRun" where
  "stagingPassedStep env r completedAt step run =
     (let run1 = applyRoleStatesForStage env step completedAt (run\<lparr>run_stage := step\<rparr>) in
      if step = Es_deployed_staging
      then opsMessage env Emk_role_update step (Tx_staging_passed (map_option ar_path (sr_artifact r))) completedAt run1
      else run1)"

definition stagingPassed :: "evoEnv \<Rightarrow> stagingResult \<Rightarrow> int \<Rightarrow> evolutionRun \<Rightarrow> evolutionRun" where
  "stagingPassed env r completedAt run =
     (let run1 = foldl (\<lambda>s step. stagingPassedStep env r completedAt step s) run
            (pathToEvolutionStage (run_stage run) Es_human_release_gate);
          run2 = upsertScore (scoreOf Esm_delivery (numOf 8)
            ''Staging deployment completed; production is waiting for human release approval.'')
            (run1\<lparr>run_verdict := None, run_terminalReason := None\<rparr>) in
      opsMessage env Emk_gate Es_human_release_gate Tx_production_gate completedAt run2)"

definition stagingFailed :: "evoEnv \<Rightarrow> stagingResult \<Rightarrow> int \<Rightarrow> evolutionRun \<Rightarrow> evolutionRun" where
  "stagingFailed env r completedAt run =
     (let run1 = (applyRoleStatesForStage env Es_needs_human completedAt
            (run\<lparr>run_stage := Es_needs_human\<rparr>))\<lparr>run_verdict := Some Ev_BLOCKED\<rparr>;
          run2 = pushQuestion (questionOf (''staging-delivery-'' @ run_runId run @ ''-blocked'') Es_needs_human
            Er_ops_release_manager (''Staging delivery failed: '' @ orText (sr_error r) (sr_summary r))
            completedAt) run1;
          run3 = opsMessage env Emk_gate Es_needs_human (Tx_staging_failed (sr_summary r)) completedAt run2 in
      upsertScore (scoreOf Esm_delivery (numOf 3) (sr_summary r)) run3)"

definition stagingNotRun :: "evoEnv \<Rightarrow> stagingResult \<Rightarrow> int \<Rightarrow> evolutionRun \<Rightarrow> evolutionRun" where
  "stagingNotRun env r completedAt run =
     (let run1 = (if sr_status r = Esd_not_configured
            then pushQuestion (questionOf (''staging-delivery-'' @ run_runId run @ ''-''
                @ stagingStatusText (sr_status r)) Es_delivery_ready Er_ops_release_manager
              ''Add .imc/evolution/delivery.json with a staging command to enable automatic staging delivery.''
              completedAt) run
            else run);
          run2 = opsMessage env Emk_gate Es_delivery_ready
            (if sr_status r = Esd_not_configured then Tx_staging_missing else Tx_staging_off) completedAt run1 in
      upsertScore (scoreOf Esm_delivery (numOf (if sr_status r = Esd_disabled then 6 else 5)) (sr_summary r)) run2)"

definition stagingFinished :: "evoEnv \<Rightarrow> stagingResult \<Rightarrow> int \<Rightarrow> evolutionRun \<Rightarrow> evolutionRun" where
  "stagingFinished env r completedAt run =
     (let run1 = (case sr_artifact r of Some a \<Rightarrow> upsertArtifact a run | None \<Rightarrow> run);
          run2 = run1\<lparr>run_stagingDelivery := Some \<lparr>sg_status = sr_status r,
              sg_configPath = Some EVOLUTION_DELIVERY_CONFIG_RELATIVE_PATH,
              sg_command = truthyStr (sr_commandLine r),
              sg_logArtifactId = map_option ar_id (sr_artifact r), sg_exitCode = sr_exitCode r,
              sg_summary = Some (sr_summary r), sg_startedAt = Some (sr_startedAt r),
              sg_completedAt = Some completedAt, sg_lastError = truthyStr (sr_error r)\<rparr>,
            run_latestMessage := Some (sr_summary r)\<rparr>;
          run3 = stagingStderr env r completedAt (stagingStdout env r completedAt
            (stagingCommand env r completedAt (stagingEvidence r completedAt run2))) in
      if sr_status r = Esd_passed then stagingPassed env r completedAt run3
      else if sr_status r = Esd_failed then stagingFailed env r completedAt run3
      else stagingNotRun env r completedAt run3)"

text \<open>
  The second turn, with the result of the command (\<open>None\<close> when the delivery threw). It works on
  the run as it is by then. A completion time of zero counts as absent.
\<close>

definition finishStagingDelivery :: "evoEnv \<Rightarrow> (string \<Rightarrow> bool) \<Rightarrow> stagingResult option \<Rightarrow> string \<Rightarrow> int
    \<Rightarrow> evoWorld \<Rightarrow> evoCall" where
  "finishStagingDelivery env fs result rid nowMs w = (case (getRuntimeEntry rid w, result) of
     (Some entry, Some r) \<Rightarrow>
       (let completedAt = (if sr_completedAt r = 0 then nowMs else sr_completedAt r) in
        persistAndProject env fs rid (stagingFinished env r completedAt (rn_run entry)) completedAt w)
   | _ \<Rightarrow> (Evo_threw, w))"

section \<open>A report and the delivery it starts\<close>

text \<open>The turns of one report for one run, with nothing in between.\<close>

definition openSpecTurns :: "evoEnv \<Rightarrow> (string \<Rightarrow> bool) \<Rightarrow> (string \<Rightarrow> stagingResult option)
    \<Rightarrow> openSpecProjection \<Rightarrow> string \<Rightarrow> int \<Rightarrow> evoWorld \<Rightarrow> evoCall option" where
  "openSpecTurns env fs staging p rid nowMs w = (case recordOpenSpecForRun env fs p rid nowMs w of
     None \<Rightarrow> None
   | Some (Evo_ok next, w1) \<Rightarrow>
      if os_status p \<noteq> Os_passed then Some (Evo_ok next, w1)
      else (case startStagingDelivery env fs rid nowMs w1 of
          (St_none, _) \<Rightarrow> Some (Evo_ok next, w1)
        | (St_disabled, c) \<Rightarrow> Some c
        | (St_started, (Evo_ok _, w2)) \<Rightarrow> Some (finishStagingDelivery env fs (staging rid) rid nowMs w2)
        | (St_started, c) \<Rightarrow> Some c)
   | Some c \<Rightarrow> Some c)"

text \<open>The loop over the runs; a call that throws ends it. The result lists the updated projections.\<close>

fun recordOpenSpecLoop :: "evoEnv \<Rightarrow> (string \<Rightarrow> bool) \<Rightarrow> (string \<Rightarrow> stagingResult option)
    \<Rightarrow> openSpecProjection \<Rightarrow> string list \<Rightarrow> int \<Rightarrow> evoWorld \<Rightarrow> evolutionProjection list option \<times> evoWorld" where
  "recordOpenSpecLoop env fs staging p [] nowMs w = (Some [], w)"
| "recordOpenSpecLoop env fs staging p (rid # rids) nowMs w =
     (case openSpecTurns env fs staging p rid nowMs w of
        None \<Rightarrow> recordOpenSpecLoop env fs staging p rids nowMs w
      | Some (Evo_ok next, w1) \<Rightarrow> (let (rest, w2) = recordOpenSpecLoop env fs staging p rids nowMs w1 in
          (map_option ((#) next) rest, w2))
      | Some (_, w1) \<Rightarrow> (None, w1))"

definition recordEvolutionOpenSpecProjection :: "evoEnv \<Rightarrow> (string \<Rightarrow> bool)
    \<Rightarrow> (string \<Rightarrow> stagingResult option) \<Rightarrow> openSpecProjection \<Rightarrow> int \<Rightarrow> evoWorld
    \<Rightarrow> evolutionProjection list option \<times> evoWorld" where
  "recordEvolutionOpenSpecProjection env fs staging p nowMs w =
     recordOpenSpecLoop env fs staging p (mapKeys (ew_runs w)) nowMs w"

end
