(* ===== verification/EvoRoundtables.thy ===== *)
theory EvoRoundtables
  imports EvoStaging
begin

text \<open>
  Roundtables and the automatic delivery, \<^verbatim>\<open>src/daemon/evolution-orchestrator.ts\<close>: how a gate blocks
  or defers a run, how a roundtable starts or falls back to a local review, how the report of a
  P2P run closes it, and how the OpenSpec delivery is launched. A call to a launcher is awaited,
  so what follows its answer is a turn of its own.
\<close>

section \<open>Blocking and deferring\<close>

definition supervisorMessage :: "evoEnv \<Rightarrow> evolutionMessageKind \<Rightarrow> evolutionStage \<Rightarrow> string \<Rightarrow> int
    \<Rightarrow> evolutionRun \<Rightarrow> evolutionRun" where
  "supervisorMessage env kind stage txt nowMs run = appendDiscussion env (messageOf kind stage
     (Some Er_loop_supervisor) (en_text env Tx_author_supervisor) txt None nowMs) run"

definition setLastError :: "string \<Rightarrow> evolutionRun \<Rightarrow> evolutionRun" where
  "setLastError reason run = run\<lparr>run_autoDelivery :=
     map_option (\<lambda>p. p\<lparr>ad_lastError := Some reason\<rparr>) (run_autoDelivery run)\<rparr>"

definition enterNeedsHuman :: "evoEnv \<Rightarrow> int \<Rightarrow> evolutionRun \<Rightarrow> evolutionRun" where
  "enterNeedsHuman env nowMs run =
     applyRoleStatesForStage env Es_needs_human nowMs (run\<lparr>run_stage := Es_needs_human\<rparr>)"

definition autoDeliveryBlocked :: "evoEnv \<Rightarrow> string \<Rightarrow> int \<Rightarrow> evolutionRun \<Rightarrow> evolutionRun" where
  "autoDeliveryBlocked env reason nowMs run =
     (let message = ''Auto delivery launch blocked: '' @ reason;
          run1 = setLastError reason ((enterNeedsHuman env nowMs run)
            \<lparr>run_verdict := Some Ev_BLOCKED, run_latestMessage := Some message\<rparr>);
          run2 = supervisorMessage env Emk_gate Es_needs_human message nowMs run1;
          run3 = pushQuestion (questionOf (deliveryQuestionId run) Es_needs_human Er_loop_supervisor
            (''Auto delivery could not start: '' @ reason) nowMs) run2 in
      appendEvidence (evidenceOf ''evolution_loop'' message nowMs) run3)"

definition planningGateBlocked :: "evoEnv \<Rightarrow> string \<Rightarrow> int \<Rightarrow> evolutionRun \<Rightarrow> evolutionRun" where
  "planningGateBlocked env reason nowMs run =
     (let message = ''Planning roundtable gate blocked auto delivery: '' @ reason;
          run1 = (if run_stage run \<noteq> Es_needs_human then enterNeedsHuman env nowMs run else run);
          run2 = setLastError reason (run1\<lparr>run_verdict := Some Ev_BLOCKED, run_latestMessage := Some message\<rparr>);
          run3 = supervisorMessage env Emk_gate Es_needs_human (en_text env (Tx_planning_blocked reason)) nowMs run2;
          run4 = pushQuestion (questionOf (planningQuestionId run) Es_needs_human Er_loop_supervisor
            (''Resolve planning roundtable gate before implementation: '' @ reason) nowMs) run3 in
      appendEvidence (evidenceOf ''p2p_roundtable_gate'' message nowMs) run4)"

definition strictGateBlocked :: "evoEnv \<Rightarrow> roundtableRef \<Rightarrow> string \<Rightarrow> int \<Rightarrow> evolutionRun \<Rightarrow> evolutionRun" where
  "strictGateBlocked env r reason nowMs run =
     (let message = ''Strict roundtable gate blocked planning: '' @ rt_topic r @ '': '' @ reason;
          run1 = (if run_stage run \<noteq> Es_needs_human then enterNeedsHuman env nowMs run else run);
          run2 = run1\<lparr>run_verdict := Some Ev_BLOCKED, run_latestMessage := Some message\<rparr>;
          run3 = supervisorMessage env Emk_gate Es_needs_human
            (en_text env (Tx_strict_blocked (rt_topic r) reason)) nowMs run2;
          run4 = pushQuestion (questionOf (strictQuestionId run (rt_id r)) Es_needs_human Er_loop_supervisor
            (''Resolve strict roundtable gate '' @ rt_topic r @ '': '' @ reason) nowMs) run3 in
      appendEvidence (evidenceOf ''p2p_roundtable_gate'' message nowMs) run4)"

definition lastErrorIs :: "evolutionRun \<Rightarrow> string \<Rightarrow> bool" where
  "lastErrorIs run reason = (case run_autoDelivery run of
     Some p \<Rightarrow> ad_lastError p = Some reason | None \<Rightarrow> False)"

definition deferredForGate :: "evoEnv \<Rightarrow> string \<Rightarrow> int \<Rightarrow> evolutionRun \<Rightarrow> evolutionRun" where
  "deferredForGate env reason nowMs run =
     (let message = ''Auto delivery waiting for planning roundtable gate: '' @ reason;
          run1 = setLastError reason (run\<lparr>run_latestMessage := Some message\<rparr>) in
      if lastErrorIs run reason then run1
      else appendEvidence (evidenceOf ''evolution_loop'' message nowMs)
        (supervisorMessage env Emk_gate Es_tasks_ready (en_text env Tx_delivery_waits) nowMs run1))"

definition missingServerLink :: string where
  "missingServerLink = ''missing_server_link''"

definition deferredForLink :: "evoEnv \<Rightarrow> int \<Rightarrow> evolutionRun \<Rightarrow> evolutionRun" where
  "deferredForLink env nowMs run =
     (let message = ''Auto delivery waiting for daemon/server link before launching OpenSpec Auto Deliver.'';
          run1 = setLastError missingServerLink (run\<lparr>run_latestMessage := Some message\<rparr>) in
      if lastErrorIs run missingServerLink then run1
      else appendLiveEvent env (eventOf Els_system Elk_gate Elv_warning Er_loop_supervisor Es_tasks_ready
          ''Auto delivery waiting for server link'' message nowMs)
        (appendEvidence (evidenceOf ''evolution_loop'' message nowMs)
        (supervisorMessage env Emk_gate Es_tasks_ready (en_text env Tx_delivery_no_link) nowMs run1)))"

text \<open>A change of the run followed by a save: how the four operations above end.\<close>

definition onEntry :: "string \<Rightarrow> evoWorld \<Rightarrow> (runtimeEntry \<Rightarrow> evoCall) \<Rightarrow> evoCall" where
  "onEntry rid w body = (case getRuntimeEntry rid w of None \<Rightarrow> (Evo_threw, w) | Some entry \<Rightarrow> body entry)"

definition changeAndSave :: "evoEnv \<Rightarrow> (string \<Rightarrow> bool) \<Rightarrow> (evolutionRun \<Rightarrow> evolutionRun) \<Rightarrow> string \<Rightarrow> int
    \<Rightarrow> evoWorld \<Rightarrow> evoCall" where
  "changeAndSave env fs f rid nowMs w =
     onEntry rid w (\<lambda>entry. persistAndProject env fs rid (f (rn_run entry)) nowMs w)"

section \<open>Starting the delivery\<close>

datatype deliveryTurn = Dt_none | Dt_defer_gate string | Dt_block_gate string | Dt_block string
    | Dt_defer_link | Dt_launch

definition deliveryTurnOf :: "bool \<Rightarrow> bool \<Rightarrow> evolutionRun \<Rightarrow> deliveryTurn" where
  "deliveryTurnOf linked launcher run =
     (if \<not> autoEnabled run then Dt_none
      else if truthyStr (run_linkedAutoDeliverRunId run) \<noteq> None then Dt_none
      else if run_stage run \<noteq> Es_tasks_ready then Dt_none
      else (case planningRoundtableGateDecision run of
          (Gd_defer, reason) \<Rightarrow> Dt_defer_gate reason
        | (Gd_block, reason) \<Rightarrow> Dt_block_gate reason
        | (Gd_allow, _) \<Rightarrow>
           if truthyStr (run_linkedOpenSpecChange run) = None then Dt_block ''missing_linked_openspec_change''
           else if \<not> linked then Dt_defer_link
           else if \<not> launcher then Dt_block ''openspec_auto_deliver_launcher_unavailable''
           else Dt_launch))"

definition deliveryLaunched :: "evoEnv \<Rightarrow> int \<Rightarrow> evolutionRun \<Rightarrow> evolutionRun" where
  "deliveryLaunched env nowMs run = (case run_autoDelivery run of None \<Rightarrow> run
     | Some p \<Rightarrow>
        (let change = orText (run_linkedOpenSpecChange run) [];
             message = ''Auto-starting OpenSpec Auto Deliver for '' @ change @ ''.'';
             run1 = run\<lparr>run_autoDelivery := Some (p\<lparr>ad_launchedAt := Some nowMs, ad_lastError := None\<rparr>),
               run_latestMessage := Some message\<rparr> in
         appendEvidence (evidenceOf ''evolution_loop'' message nowMs)
         (supervisorMessage env Emk_role_update Es_tasks_ready (en_text env
            (Tx_delivery_started change (evolutionPresetText (ad_presetId p)) (ad_autoCommitPush p))) nowMs run1)))"

definition startAutoDelivery :: "evoEnv \<Rightarrow> (string \<Rightarrow> bool) \<Rightarrow> bool \<Rightarrow> bool \<Rightarrow> string \<Rightarrow> int \<Rightarrow> evoWorld
    \<Rightarrow> deliveryTurn \<times> evoCall" where
  "startAutoDelivery env fs linked launcher rid nowMs w = (case getRuntimeEntry rid w of
     None \<Rightarrow> (Dt_none, (Evo_threw, w))
   | Some entry \<Rightarrow> (let run = rn_run entry; turn = deliveryTurnOf linked launcher run;
         save = (\<lambda>f. persistAndProject env fs rid (f run) nowMs w) in
      (turn, case turn of
         Dt_none \<Rightarrow> (Evo_ok (buildEvolutionProjection env run nowMs), w)
       | Dt_defer_gate reason \<Rightarrow> save (deferredForGate env reason nowMs)
       | Dt_block_gate reason \<Rightarrow> save (planningGateBlocked env reason nowMs)
       | Dt_block reason \<Rightarrow> save (autoDeliveryBlocked env reason nowMs)
       | Dt_defer_link \<Rightarrow> save (deferredForLink env nowMs)
       | Dt_launch \<Rightarrow> save (deliveryLaunched env nowMs))))"

text \<open>The answer of the launcher: an error or success, perhaps with a first report.\<close>

record launcherResult =
  la_ok :: bool
  la_error :: "string option"
  la_projection :: "openSpecProjection option"

definition finishAutoDelivery :: "evoEnv \<Rightarrow> (string \<Rightarrow> bool) \<Rightarrow> (string \<Rightarrow> stagingResult option)
    \<Rightarrow> launcherResult \<Rightarrow> string \<Rightarrow> int \<Rightarrow> evoWorld \<Rightarrow> evoCall" where
  "finishAutoDelivery env fs staging result rid nowMs w = onEntry rid w (\<lambda>entry.
     if \<not> la_ok result
     then persistAndProject env fs rid (autoDeliveryBlocked env
       (orText (la_error result) ''openspec_auto_deliver_launch_failed'') nowMs (rn_run entry)) nowMs w
     else (case la_projection result of
         None \<Rightarrow> (Evo_ok (buildEvolutionProjection env (rn_run entry) nowMs), w)
       | Some p \<Rightarrow>
          (let (updates, w1) = recordEvolutionOpenSpecProjection env fs staging p nowMs w in
           case updates of None \<Rightarrow> (Evo_threw, w1)
           | Some ps \<Rightarrow> (Evo_ok (case List.find (\<lambda>q. pj_runId q = run_runId (rn_run entry)) ps of
                 Some q \<Rightarrow> q | None \<Rightarrow> buildEvolutionProjection env (rn_run entry) nowMs), w1))))"

section \<open>Starting a roundtable\<close>

definition roundtablePrimaryRole :: "roundtableSpec \<Rightarrow> evolutionRoleId" where
  "roundtablePrimaryRole spec =
     (if rp_gatesAutoDelivery spec then Er_tech_director
      else if rp_id spec = ''product-review'' then Er_product_critic
      else if rp_id spec = ''design-review'' then Er_visual_designer
      else if rp_id spec = ''architecture-review'' then Er_tech_director
      else (case rp_roles spec of [] \<Rightarrow> Er_loop_supervisor | r # _ \<Rightarrow> r))"

definition roundtablePrimaryRoleByRoles :: "evolutionRoleId list \<Rightarrow> evolutionRoleId" where
  "roundtablePrimaryRoleByRoles roles = (case roles of [] \<Rightarrow> Er_loop_supervisor | r # _ \<Rightarrow> r)"

definition roundtableArtifactPaths :: "evolutionRun \<Rightarrow> roundtableSpec \<Rightarrow> string list" where
  "roundtableArtifactPaths run spec =
     map ar_path (filter (\<lambda>a. ar_kind a \<in> set (rp_artifactKinds spec)) (run_artifacts run))"

definition lightModeRoundtableFallbackReason :: "evolutionRun \<Rightarrow> roundtableSpec \<Rightarrow> string option" where
  "lightModeRoundtableFallbackReason run spec =
     (if run_roundtableGateMode run = Egm_strict then None
      else if rp_gatesAutoDelivery spec
      then (if autoEnabled run then None else Some ''planning_roundtable_not_needed_without_auto_delivery'')
      else Some ''planning_light_mode_non_gate_roundtable'')"

definition baseRoundtable :: "roundtableSpec \<Rightarrow> int \<Rightarrow> roundtableRef" where
  "baseRoundtable spec nowMs = \<lparr>rt_id = rp_id spec, rt_stage = rp_stage spec, rt_topic = rp_topic spec,
     rt_roles = rp_roles spec, rt_status = Ert_planned, rt_p2pRunId = None, rt_discussionId = None,
     rt_contextPath = None, rt_currentTargetSession = None, rt_summary = None, rt_error = None,
     rt_completedAt = None, rt_createdAt = nowMs, rt_updatedAt = nowMs\<rparr>"

definition localRoundtableSummary :: "roundtableSpec \<Rightarrow> string \<Rightarrow> string" where
  "localRoundtableSummary spec reason = ''PASS: local deterministic '' @ rp_topic spec
     @ '' fallback completed because '' @ reason
     @ ''; no blocking issues were found in the available stage artifacts.''"

definition localReviewPath :: "roundtableSpec \<Rightarrow> string" where
  "localReviewPath spec = ''discussions/roundtables/'' @ rp_id spec @ ''-local-review.md''"

text \<open>The text of the review is Chinese in parts: \<open>content\<close> is the whole file.\<close>

definition writeLocalRoundtableReviewArtifact :: "evoEnv \<Rightarrow> roundtableSpec \<Rightarrow> string \<Rightarrow> int \<Rightarrow> artifactRef" where
  "writeLocalRoundtableReviewArtifact env spec content nowMs =
     fileArtifact env (''roundtable_review:'' @ rp_id spec) Eak_roundtable_review (localReviewPath spec)
       (''Local Roundtable Review'' @ midDot @ rp_topic spec) (roundtablePrimaryRole spec) (rp_stage spec)
       content nowMs"

definition localFallback :: "evoEnv \<Rightarrow> roundtableSpec \<Rightarrow> roundtableRef \<Rightarrow> string \<Rightarrow> evoText \<Rightarrow> string
    \<Rightarrow> int \<Rightarrow> evolutionRun \<Rightarrow> evolutionRun" where
  "localFallback env spec base reason txt content nowMs run =
     (let summary = localRoundtableSummary spec reason;
          artifact = writeLocalRoundtableReviewArtifact env spec content nowMs;
          run1 = upsertRoundtable (base\<lparr>rt_status := Ert_complete, rt_summary := Some summary,
            rt_contextPath := Some (ar_path artifact), rt_completedAt := Some (en_iso env nowMs)\<rparr>)
            (upsertArtifact artifact run);
          run2 = appendDiscussion env (messageOf Emk_role_update (rp_stage spec)
            (Some (roundtablePrimaryRole spec)) (''Local '' @ rp_topic spec) (en_text env txt)
            (Some [ar_id artifact]) nowMs) run1;
          run3 = appendEvidence ((evidenceOf ''local_roundtable_review'' summary nowMs)
            \<lparr>ev_artifactId := Some (ar_id artifact)\<rparr>) run2 in
      appendLiveEvent env ((eventOf Els_p2p_roundtable Elk_artifact Elv_success (roundtablePrimaryRole spec)
        (rp_stage spec) (rp_topic spec @ '' local fallback PASS'') summary nowMs)
        \<lparr>le_artifactIds := Some [ar_id artifact]\<rparr>) run3)"

text \<open>
  The first turn either does nothing, falls back to a local review or asks the launcher. \<open>content\<close>
  gives the review's text for the run, spec and reason.
\<close>

type_synonym reviewText = "evolutionRun \<Rightarrow> roundtableSpec \<Rightarrow> string \<Rightarrow> string"

definition localFallbackCall :: "evoEnv \<Rightarrow> (string \<Rightarrow> bool) \<Rightarrow> reviewText \<Rightarrow> roundtableSpec
    \<Rightarrow> roundtableRef \<Rightarrow> string \<Rightarrow> evoText \<Rightarrow> string \<Rightarrow> int \<Rightarrow> evoWorld \<Rightarrow> evoCall" where
  "localFallbackCall env fs content spec base reason txt rid nowMs w = onEntry rid w (\<lambda>entry.
     if \<not> fs (localReviewPath spec) then (Evo_threw, w)
     else persistAndProject env fs rid (localFallback env spec base reason txt
       (content (rn_run entry) spec reason) nowMs (rn_run entry)) nowMs w)"

datatype roundtableTurn = Rt_none | Rt_local | Rt_launch

definition startRoundtable :: "evoEnv \<Rightarrow> (string \<Rightarrow> bool) \<Rightarrow> reviewText \<Rightarrow> bool \<Rightarrow> roundtableSpec
    \<Rightarrow> string \<Rightarrow> int \<Rightarrow> evoWorld \<Rightarrow> roundtableTurn \<times> evoCall" where
  "startRoundtable env fs content launcher spec rid nowMs w = (case getRuntimeEntry rid w of
     None \<Rightarrow> (Rt_none, (Evo_threw, w))
   | Some entry \<Rightarrow>
      (let run = rn_run entry; unchanged = (Evo_ok (buildEvolutionProjection env run nowMs), w);
           base = baseRoundtable spec nowMs in
       if run_stage run \<noteq> rp_stage spec \<or> rp_id spec \<in> rt_id ` set (run_roundtables run)
       then (Rt_none, unchanged)
       else (case lightModeRoundtableFallbackReason run spec of
           Some reason \<Rightarrow> (Rt_local, localFallbackCall env fs content spec base reason
             (Tx_local_light (rp_topic spec) reason) rid nowMs w)
         | None \<Rightarrow>
            if \<not> launcher
            then (let reason = ''roundtable_launcher_unavailable'' in
              (Rt_local, localFallbackCall env fs content spec base reason
                (Tx_local_unavailable (rp_topic spec) reason) rid nowMs w))
            else (Rt_launch, unchanged))))"

record roundtableLaunch =
  rl_ok :: bool
  rl_p2pRunId :: "string option"
  rl_discussionId :: "string option"
  rl_contextPath :: "string option"
  rl_skippedReason :: "string option"
  rl_error :: "string option"

definition launchedRoundtable :: "roundtableLaunch \<Rightarrow> roundtableRef \<Rightarrow> roundtableRef" where
  "launchedRoundtable result base =
     (if rl_ok result
      then base\<lparr>rt_status := Ert_running, rt_p2pRunId := truthyStr (rl_p2pRunId result),
        rt_discussionId := truthyStr (rl_discussionId result),
        rt_contextPath := truthyStr (rl_contextPath result)\<rparr>
      else base\<lparr>rt_status := (if truthyStr (rl_skippedReason result) \<noteq> None then Ert_skipped else Ert_failed),
        rt_error := Some (orText (orElseText (rl_skippedReason result) (rl_error result))
          ''roundtable_launch_failed'')\<rparr>)"

definition roundtableStarted :: "evoEnv \<Rightarrow> roundtableSpec \<Rightarrow> roundtableLaunch \<Rightarrow> roundtableRef \<Rightarrow> int
    \<Rightarrow> evolutionRun \<Rightarrow> evolutionRun" where
  "roundtableStarted env spec result base nowMs run =
     (let next = launchedRoundtable result base in
      supervisorMessage env (if rl_ok result then Emk_role_update else Emk_gate) (rp_stage spec)
        (en_text env (if rl_ok result
           then Tx_roundtable_started (rp_topic spec) (orText (rl_p2pRunId result) ''unknown'')
             (orText (rl_discussionId result) ''unknown'')
           else Tx_roundtable_not_started (rp_topic spec) (orText (rt_error next) []))) nowMs
        (upsertRoundtable next run))"

text \<open>The second turn, with the launcher's answer; \<open>base\<close> is the reference made in the first.\<close>

definition finishRoundtable :: "evoEnv \<Rightarrow> (string \<Rightarrow> bool) \<Rightarrow> reviewText \<Rightarrow> roundtableSpec
    \<Rightarrow> roundtableRef \<Rightarrow> roundtableLaunch \<Rightarrow> string \<Rightarrow> int \<Rightarrow> evoWorld \<Rightarrow> evoCall" where
  "finishRoundtable env fs content spec base result rid nowMs w =
     (case (rl_ok result, truthyStr (rl_skippedReason result)) of
        (False, Some reason) \<Rightarrow> localFallbackCall env fs content spec base reason
          (Tx_local_skipped (rp_topic spec) reason) rid nowMs w
      | _ \<Rightarrow> changeAndSave env fs (roundtableStarted env spec result base nowMs) rid nowMs w)"

section \<open>Reports of P2P runs\<close>

text \<open>The member \<^verbatim>\<open>current_target_session\<close> may be absent, null or a string.\<close>

datatype sessionField = Sf_absent | Sf_null | Sf_session string

record p2pRunUpdate =
  pu_id :: string
  pu_discussionId :: string
  pu_status :: string
  pu_session :: sessionField
  pu_resultSummary :: "string option"
  pu_error :: "string option"
  pu_completedAt :: "string option"

definition roundtableStatusForP2p :: "string \<Rightarrow> evolutionRoundtableStatus" where
  "roundtableStatusForP2p status =
     (if status = ''completed'' then Ert_complete
      else if status \<in> {''failed'', ''timed_out'', ''cancelled'', ''interrupted''} then Ert_failed
      else Ert_running)"

definition sessionOf :: "sessionField \<Rightarrow> string option" where
  "sessionOf s = (case s of Sf_session t \<Rightarrow> truthyStr (Some t) | _ \<Rightarrow> None)"

definition summarizeP2pRoundtable :: "p2pRunUpdate \<Rightarrow> string" where
  "summarizeP2pRoundtable p =
     (let result = take 500 (collapseSpace (trim (orText (pu_resultSummary p) []))) in
      if result \<noteq> [] then result
      else (case truthyStr (pu_error p) of Some e \<Rightarrow> e
        | None \<Rightarrow> ''P2P roundtable '' @ pu_id p @ '' is '' @ pu_status p @ '' (''
            @ (case sessionOf (pu_session p) of Some t \<Rightarrow> ''current target '' @ t
               | None \<Rightarrow> ''no active target'') @ '').''))"

definition reportedRoundtable :: "p2pRunUpdate \<Rightarrow> int \<Rightarrow> roundtableRef \<Rightarrow> roundtableRef" where
  "reportedRoundtable p nowMs r =
     (let status = roundtableStatusForP2p (pu_status p) in
      r\<lparr>rt_status := status, rt_discussionId := Some (pu_discussionId p),
        rt_currentTargetSession := (if pu_session p = Sf_null \<or> status \<noteq> Ert_running then None
          else orElseText (sessionOf (pu_session p)) (rt_currentTargetSession r)),
        rt_summary := Some (summarizeP2pRoundtable p),
        rt_error := (case truthyStr (pu_error p) of Some e \<Rightarrow> Some e
          | None \<Rightarrow> if status = Ert_complete then None else rt_error r),
        rt_completedAt := orElseText (truthyStr (pu_completedAt p)) (rt_completedAt r),
        rt_updatedAt := nowMs\<rparr>)"

definition p2pReported :: "evoEnv \<Rightarrow> p2pRunUpdate \<Rightarrow> roundtableRef \<Rightarrow> int \<Rightarrow> evolutionRun \<Rightarrow> evolutionRun" where
  "p2pReported env p r nowMs run =
     (let next = reportedRoundtable p nowMs r; status = rt_status next; summary = summarizeP2pRoundtable p;
          message = ''P2P roundtable '' @ rt_topic r @ '' is '' @ roundtableStatusText status @ ''.'';
          run1 = (upsertRoundtable next run)\<lparr>run_latestMessage := Some message\<rparr>;
          run2 = appendEvidence (evidenceOf ''p2p_roundtable'' message nowMs) run1 in
      if rt_status r \<noteq> status \<or> status = Ert_complete \<or> status = Ert_failed
      then appendDiscussion env (messageOf (if status = Ert_failed then Emk_gate else Emk_role_update)
        (rt_stage r) (Some (if status = Ert_failed then Er_loop_supervisor else Er_tech_director))
        (''P2P '' @ rt_topic r) (en_text env (if status = Ert_complete then Tx_roundtable_done summary
          else if status = Ert_failed then Tx_roundtable_failed summary
          else Tx_roundtable_running summary)) None nowMs) run2
      else run2)"

text \<open>
  One turn per run of the loop: the roundtable with this P2P run takes the report and the run is
  saved. The result names the roundtable for the turn that follows.
\<close>

definition recordP2pForRun :: "evoEnv \<Rightarrow> (string \<Rightarrow> bool) \<Rightarrow> p2pRunUpdate \<Rightarrow> string \<Rightarrow> int
    \<Rightarrow> evoWorld \<Rightarrow> (roundtableRef \<times> evoCall) option" where
  "recordP2pForRun env fs p rid nowMs w = (case getRuntimeEntry rid w of
     None \<Rightarrow> None
   | Some entry \<Rightarrow>
      (let run = rn_run entry in
       if terminalStage (run_stage run) then None
       else (case List.find (\<lambda>r. rt_p2pRunId r = Some (pu_id p)) (run_roundtables run) of
           None \<Rightarrow> None
         | Some r \<Rightarrow> Some (reportedRoundtable p nowMs r,
             persistAndProject env fs rid (p2pReported env p r nowMs run) nowMs w))))"

text \<open>What follows a report, decided on the run as it is after the save.\<close>

datatype p2pFollowUp = Pf_none | Pf_planning_blocked string | Pf_delivery
    | Pf_strict_blocked string | Pf_resume

definition p2pFollowUpOf :: "evoEnv \<Rightarrow> roundtableRef \<Rightarrow> evolutionRun \<Rightarrow> p2pFollowUp" where
  "p2pFollowUpOf env next run =
     (let status = rt_status next; closed = (status = Ert_complete \<or> status = Ert_failed) in
      if rt_id next = PLANNING_ROUNDTABLE_ID \<and> closed
      then (case planningRoundtableGateDecision run of
          (Gd_block, reason) \<Rightarrow> Pf_planning_blocked reason
        | (Gd_allow, _) \<Rightarrow> if status = Ert_complete \<and> autoEnabled run
            \<and> truthyStr (run_linkedAutoDeliverRunId run) = None then Pf_delivery else Pf_none
        | _ \<Rightarrow> Pf_none)
      else if run_roundtableGateMode run = Egm_strict \<and> closed
      then (case List.find (\<lambda>s. rp_id s = rt_id next \<and> \<not> rp_gatesAutoDelivery s)
              (EVOLUTION_ROUNDTABLE_SPECS env) of
          None \<Rightarrow> Pf_none
        | Some spec \<Rightarrow> (case roundtableGateDecision next of
            (Gd_block, reason) \<Rightarrow> Pf_strict_blocked reason
          | (Gd_allow, _) \<Rightarrow> if status = Ert_complete \<and> run_stage run = rp_stage spec
              then Pf_resume else Pf_none
          | _ \<Rightarrow> Pf_none))
      else Pf_none)"

text \<open>The first turn of the follow-up; a delivery or the planning stages may go on after it.\<close>

definition followUpP2p :: "evoEnv \<Rightarrow> (string \<Rightarrow> bool) \<Rightarrow> bool \<Rightarrow> bool \<Rightarrow> roundtableRef \<Rightarrow> string \<Rightarrow> int
    \<Rightarrow> evoWorld \<Rightarrow> p2pFollowUp \<times> evoCall" where
  "followUpP2p env fs linked launcher next rid nowMs w = (case getRuntimeEntry rid w of
     None \<Rightarrow> (Pf_none, (Evo_threw, w))
   | Some entry \<Rightarrow> (let run = rn_run entry; f = p2pFollowUpOf env next run in
      (f, case f of
         Pf_none \<Rightarrow> (Evo_ok (buildEvolutionProjection env run nowMs), w)
       | Pf_planning_blocked reason \<Rightarrow>
           persistAndProject env fs rid (planningGateBlocked env reason nowMs run) nowMs w
       | Pf_strict_blocked reason \<Rightarrow>
           persistAndProject env fs rid (strictGateBlocked env next reason nowMs run) nowMs w
       | Pf_delivery \<Rightarrow> snd (startAutoDelivery env fs linked launcher rid nowMs w)
       | Pf_resume \<Rightarrow>
           (let run1 = supervisorMessage env Emk_role_update (run_stage run)
              (en_text env (Tx_strict_passed (rt_topic next))) nowMs run in
            (Evo_ok (buildEvolutionProjection env run1 nowMs), setRun rid run1 w)))))"

section \<open>The end of the planning stages\<close>

text \<open>
  How \<^verbatim>\<open>runEvolutionAutopilot\<close> leaves the planning stages: at a strict gate it reports the pause,
  on any other error it ends the run. It acts on the run as it is by then.
\<close>

definition planningPaused :: "evoEnv \<Rightarrow> evolutionStage \<Rightarrow> int \<Rightarrow> evolutionRun \<Rightarrow> evolutionRun" where
  "planningPaused env pausedAt nowMs run = (case strictRoundtableGateDecisionForStage env run pausedAt of
     (Gd_defer, reason) \<Rightarrow>
       (let message = ''Evolution planning paused at '' @ stageText pausedAt @ '': '' @ reason @ ''.'' in
        if run_latestMessage run = Some message then run
        else appendEvidence (evidenceOf ''p2p_roundtable_gate'' message nowMs)
          (run\<lparr>run_latestMessage := Some message\<rparr>))
   | _ \<Rightarrow> run)"

definition autopilotFailed :: "evoEnv \<Rightarrow> string \<Rightarrow> int \<Rightarrow> evolutionRun \<Rightarrow> evolutionRun" where
  "autopilotFailed env message nowMs run =
     appendEvidence (evidenceOf ''evolution_loop'' (''Autopilot failed: '' @ message) nowMs)
      ((applyRoleStatesForStage env Es_failed nowMs (run\<lparr>run_stage := Es_failed\<rparr>))
        \<lparr>run_verdict := Some Ev_BLOCKED, run_latestMessage := Some message,
         run_terminalReason := Some ''evolution_autopilot_failed''\<rparr>)"

text \<open>
  A roundtable read back from its discussion file: \<open>contextSummary\<close> is the verdict line found there.
\<close>

definition isRecoverablePostSummaryRoundtableFailure :: "roundtableRef \<Rightarrow> bool" where
  "isRecoverablePostSummaryRoundtableFailure r =
     (if rt_status r \<noteq> Ert_failed then False
      else (let reason = toLower (orText (rt_error r) [] @ '' '' @ orText (rt_summary r) []) in
        includesText ''post_summary_execution_timeout'' reason
        \<or> includesText ''post_summary_execution_confirmation_timeout'' reason))"

definition reconcileRoundtable :: "evoEnv \<Rightarrow> (roundtableRef \<Rightarrow> string option) \<Rightarrow> int \<Rightarrow> roundtableRef
    \<Rightarrow> evolutionRun \<Rightarrow> evolutionRun" where
  "reconcileRoundtable env contextSummary nowMs r run =
     (if \<not> (rt_status r = Ert_running \<or> rt_status r = Ert_planned
          \<or> isRecoverablePostSummaryRoundtableFailure r) then run
      else (case truthyStr (contextSummary r) of None \<Rightarrow> run
        | Some summary \<Rightarrow>
           (let run1 = upsertRoundtable (r\<lparr>rt_status := Ert_complete, rt_summary := Some summary,
                  rt_completedAt := Some (orText (rt_completedAt r) (en_iso env nowMs)),
                  rt_updatedAt := nowMs, rt_currentTargetSession := None, rt_error := None\<rparr>) run;
                stale = strictQuestionId run (rt_id r)
                  # (if rt_id r = PLANNING_ROUNDTABLE_ID then [planningQuestionId run] else []);
                run2 = run1\<lparr>run_blockingQuestions := filter (\<lambda>q. bq_id q \<notin> set stale) (run_blockingQuestions run1),
                  run_latestMessage := Some (''P2P roundtable '' @ rt_topic r @ '' completed from discussion context.'')\<rparr>;
                run3 = appendDiscussion env (messageOf Emk_role_update (rt_stage r)
                  (Some (roundtablePrimaryRoleByRoles (rt_roles r))) (''P2P '' @ rt_topic r)
                  (en_text env (Tx_roundtable_synced summary)) None nowMs) run2 in
            appendEvidence (evidenceOf ''p2p_roundtable_context'' (rt_topic r @ '': '' @ summary) nowMs) run3)))"

definition reconcileRoundtables :: "evoEnv \<Rightarrow> (roundtableRef \<Rightarrow> string option) \<Rightarrow> int
    \<Rightarrow> evolutionRun \<Rightarrow> evolutionRun" where
  "reconcileRoundtables env contextSummary nowMs run =
     foldl (\<lambda>s r. reconcileRoundtable env contextSummary nowMs r s) run (run_roundtables run)"

text \<open>
  Reading the roundtable files of a run: the roundtables that change, the first turn, and the two
  that follow when any did. The answers of a turn that changes nothing are not used by the callers.
\<close>

definition reconcilable :: "roundtableRef \<Rightarrow> bool" where
  "reconcilable r = (rt_status r = Ert_running \<or> rt_status r = Ert_planned \<or> isRecoverablePostSummaryRoundtableFailure r)"

definition changedRoundtableIds :: "(roundtableRef \<Rightarrow> string option) \<Rightarrow> evolutionRun \<Rightarrow> string list" where
  "changedRoundtableIds contextSummary run =
     map rt_id (filter (\<lambda>r. reconcilable r \<and> truthyStr (contextSummary r) \<noteq> None) (run_roundtables run))"

definition lostPlanningQuestion :: "evolutionRun \<Rightarrow> bool" where
  "lostPlanningQuestion run =
     (let lastError = (case run_autoDelivery run of Some p \<Rightarrow> orText (ad_lastError p) [] | None \<Rightarrow> []);
          context = lastError @ '' '' @ orText (run_latestMessage run) [] in
      run_stage run = Es_needs_human \<and> includesText ''planning_roundtable'' context
      \<and> \<not> list_ex (\<lambda>q. bq_id q = planningQuestionId run) (run_blockingQuestions run))"

definition startReconcile :: "evoEnv \<Rightarrow> (string \<Rightarrow> bool) \<Rightarrow> (roundtableRef \<Rightarrow> string option) \<Rightarrow> string \<Rightarrow> int
    \<Rightarrow> evoWorld \<Rightarrow> string list \<times> evoCall" where
  "startReconcile env fs contextSummary rid nowMs w = (case getRuntimeEntry rid w of
     None \<Rightarrow> ([], (Evo_threw, w))
   | Some entry \<Rightarrow> (let run = rn_run entry; changed = changedRoundtableIds contextSummary run;
         nothing = (Evo_ok (buildEvolutionProjection env run nowMs), w) in
      if terminalStage (run_stage run) then ([], nothing)
      else if changed \<noteq> [] then (changed, persistAndProject env fs rid (reconcileRoundtables env contextSummary nowMs run) nowMs w)
      else ([], if lostPlanningQuestion run
        then (case planningRoundtableGateDecision run of
            (Gd_block, reason) \<Rightarrow> persistAndProject env fs rid (planningGateBlocked env reason nowMs run) nowMs w
          | _ \<Rightarrow> nothing)
        else nothing)))"

definition reconcilePlanning :: "evoEnv \<Rightarrow> (string \<Rightarrow> bool) \<Rightarrow> bool \<Rightarrow> bool \<Rightarrow> string \<Rightarrow> int \<Rightarrow> evoWorld
    \<Rightarrow> deliveryTurn \<times> evoCall" where
  "reconcilePlanning env fs linked launcher rid nowMs w = (case getRuntimeEntry rid w of
     None \<Rightarrow> (Dt_none, (Evo_threw, w))
   | Some entry \<Rightarrow> (let run = rn_run entry in case planningRoundtableGateDecision run of
       (Gd_block, reason) \<Rightarrow>
         (Dt_none, persistAndProject env fs rid (planningGateBlocked env reason nowMs run) nowMs w)
     | (Gd_allow, _) \<Rightarrow>
         if run_stage run = Es_tasks_ready \<and> autoEnabled run \<and> truthyStr (run_linkedAutoDeliverRunId run) = None
         then startAutoDelivery env fs linked launcher rid nowMs w
         else (Dt_none, (Evo_ok (buildEvolutionProjection env run nowMs), w))
     | _ \<Rightarrow> (Dt_none, (Evo_ok (buildEvolutionProjection env run nowMs), w))))"

fun firstStrictBlock :: "evolutionRun \<Rightarrow> string list \<Rightarrow> (roundtableRef \<times> string) option" where
  "firstStrictBlock run [] = None"
| "firstStrictBlock run (i # is) =
     (if i = PLANNING_ROUNDTABLE_ID then firstStrictBlock run is
      else (case List.find (\<lambda>r. rt_id r = i) (run_roundtables run) of
          None \<Rightarrow> firstStrictBlock run is
        | Some r \<Rightarrow> (case roundtableGateDecision r of
            (Gd_block, reason) \<Rightarrow> Some (r, reason)
          | _ \<Rightarrow> firstStrictBlock run is)))"

definition reconcileStrict :: "evoEnv \<Rightarrow> (string \<Rightarrow> bool) \<Rightarrow> string list \<Rightarrow> string \<Rightarrow> int \<Rightarrow> evoWorld \<Rightarrow> evoCall" where
  "reconcileStrict env fs changed rid nowMs w = onEntry rid w (\<lambda>entry.
     let run = rn_run entry; nothing = (Evo_ok (buildEvolutionProjection env run nowMs), w) in
     if run_roundtableGateMode run \<noteq> Egm_strict then nothing
     else (case firstStrictBlock run changed of
         None \<Rightarrow> nothing
       | Some (r, reason) \<Rightarrow> persistAndProject env fs rid (strictGateBlocked env r reason nowMs run) nowMs w))"

end
