(* ===== verification/EvoPlanning.thy ===== *)
theory EvoPlanning
  imports EvoRoundtables
begin

text \<open>
  The planning stages, \<^verbatim>\<open>src/daemon/evolution-stage-runner.ts\<close>: what \<^verbatim>\<open>runEvolutionPlanningStages\<close>
  adds to the run at each stage and how it moves from one to the next. The documents' texts come
  from the reading of the requirement and are an argument, by path; so are the reference images
  that were found and the result of the design generation.
\<close>

section \<open>Role states, a second copy\<close>

text \<open>
  This module has its own \<^verbatim>\<open>applyRoleStates\<close>. It rebuilds the list over all roles, and its table of
  current actions lacks three entries of the orchestrator's.
\<close>

definition planActionStages :: "evolutionRoleId \<Rightarrow> evolutionStage list" where
  "planActionStages r =
     (if r = Er_loop_supervisor then [Es_intake_normalized, Es_tasks_ready]
      else if r = Er_tech_director then [Es_architecture_baseline, Es_tasks_ready]
      else if r = Er_qa_engineer then [Es_tasks_ready, Es_qa_completion]
      else actionStages r)"

definition planActionForRole :: "evoEnv \<Rightarrow> evolutionRoleId \<Rightarrow> evolutionStage \<Rightarrow> string option" where
  "planActionForRole env r stage =
     (if stage \<in> set (planActionStages r) then Some (en_text env (Tx_action r stage)) else None)"

definition emptyRole :: "evolutionRoleId \<Rightarrow> roleState" where
  "emptyRole r = \<lparr>ro_roleId = r, ro_label = None, ro_skillName = None, ro_skillSummary = None,
     ro_responsibilities = None, ro_status = Ers_pending, ro_stage = None, ro_currentAction = None,
     ro_sessionName = None, ro_updatedAt = 0\<rparr>"

definition applyRoleStates :: "evoEnv \<Rightarrow> evolutionStage \<Rightarrow> int \<Rightarrow> evolutionRun \<Rightarrow> evolutionRun" where
  "applyRoleStates env stage nowMs run = run\<lparr>run_roles := map (\<lambda>r.
     (case List.find (\<lambda>p. ro_roleId p = r) (rev (run_roles run)) of Some p \<Rightarrow> p | None \<Rightarrow> emptyRole r)
       \<lparr>ro_roleId := r, ro_status := roleStatusForStage r stage, ro_stage := Some stage,
        ro_currentAction := truthyStr (planActionForRole env r stage), ro_updatedAt := nowMs\<rparr>)
     EVOLUTION_ROLE_IDS\<rparr>"

section \<open>Entering a stage\<close>

definition planningMessage :: "evoEnv \<Rightarrow> evolutionStage \<Rightarrow> string option \<Rightarrow> string" where
  "planningMessage env stage summary = (case summary of Some s \<Rightarrow> s
     | None \<Rightarrow> if stage \<in> set [Es_intake_normalized, Es_product_discussion, Es_prd_ready, Es_design_lofi,
           Es_design_hifi, Es_architecture_baseline, Es_tasks_ready]
         then en_text env (Tx_planning stage)
         else ''Evolution stage advanced to '' @ stageText stage @ ''.'')"

text \<open>A user's pause stops the planning, a step that the table does not allow is an error.\<close>

datatype transitionResult = Tr_entered evolutionRun | Tr_paused | Tr_invalid

definition transitionRun :: "evoEnv \<Rightarrow> evolutionStage \<Rightarrow> string option \<Rightarrow> int \<Rightarrow> evolutionRun \<Rightarrow> transitionResult" where
  "transitionRun env stage summary nowMs run =
     (if stage \<noteq> Es_needs_human \<and> run_stage run = Es_needs_human
         \<and> list_ex (\<lambda>q. startsWith (bq_id q) ''user-pause-'') (run_blockingQuestions run)
      then Tr_paused
      else if run_stage run \<noteq> stage \<and> \<not> canTransitionEvolutionStage (run_stage run) stage then Tr_invalid
      else
       (let message = planningMessage env stage summary;
            run1 = (applyRoleStates env stage nowMs (run\<lparr>run_stage := stage\<rparr>))
              \<lparr>run_latestMessage := Some message\<rparr> in
        Tr_entered ((appendEvidence (evidenceOf ''evolution_loop'' message nowMs) run1)
          \<lparr>run_updatedAt := nowMs\<rparr>)))"

section \<open>The edits of a stage\<close>

datatype runEdit =
    Re_artifact artifactRef | Re_score evolutionScore | Re_message discussionMessage
  | Re_question blockingQuestion | Re_evidence evolutionEvidence | Re_change string

primrec applyEdit :: "evoEnv \<Rightarrow> runEdit \<Rightarrow> evolutionRun \<Rightarrow> evolutionRun" where
  "applyEdit env (Re_artifact a) run = upsertArtifact a run"
| "applyEdit env (Re_score s) run = upsertScore s run"
| "applyEdit env (Re_message m) run = appendDiscussion env m run"
| "applyEdit env (Re_question q) run = pushQuestion q run"
| "applyEdit env (Re_evidence e) run = appendEvidence e run"
| "applyEdit env (Re_change slug) run = run\<lparr>run_linkedOpenSpecChange := Some slug\<rparr>"

definition applyEdits :: "evoEnv \<Rightarrow> runEdit list \<Rightarrow> evolutionRun \<Rightarrow> evolutionRun" where
  "applyEdits env edits run = foldl (\<lambda>s e. applyEdit env e s) run edits"

definition artifactId :: "evolutionArtifactKind \<Rightarrow> string \<Rightarrow> string" where
  "artifactId kind path = artifactKindText kind @ '':'' @ path"

definition previewTypeForPath :: "string \<Rightarrow> evolutionPreviewType option" where
  "previewTypeForPath path = (let lower = toLower path in
     if endsWith lower ''.svg'' then Some Ept_svg
     else if endsWith lower ''.md'' \<or> endsWith lower ''.mdx'' then Some Ept_markdown
     else if list_ex (endsWith lower) [''.txt'', ''.json'', ''.yaml'', ''.yml'', ''.log''] then Some Ept_text
     else None)"

definition languageForPath :: "string \<Rightarrow> string option" where
  "languageForPath path = (let lower = toLower path in
     if endsWith lower ''.json'' then Some ''json''
     else if endsWith lower ''.yaml'' \<or> endsWith lower ''.yml'' then Some ''yaml''
     else if endsWith lower ''.log'' then Some ''log''
     else if endsWith lower ''.svg'' then Some ''svg''
     else None)"

definition buildArtifactPreview :: "string \<Rightarrow> string \<Rightarrow> artifactPreview option" where
  "buildArtifactPreview path content = (case previewTypeForPath path of None \<Rightarrow> None
     | Some previewType \<Rightarrow>
        (let truncated = length content > EVOLUTION_ARTIFACT_PREVIEW_MAX_CHARS in
         Some \<lparr>pv_previewType = previewType,
           pv_content = (if truncated then take EVOLUTION_ARTIFACT_PREVIEW_MAX_CHARS content else content),
           pv_language = languageForPath path, pv_truncated = (if truncated then Some True else None)\<rparr>))"

definition planArtifact :: "evoEnv \<Rightarrow> evolutionArtifactKind \<Rightarrow> string \<Rightarrow> string \<Rightarrow> evolutionRoleId
    \<Rightarrow> evolutionStage \<Rightarrow> string \<Rightarrow> int \<Rightarrow> runEdit" where
  "planArtifact env kind path title roleId stage content nowMs = Re_artifact
     \<lparr>ar_id = artifactId kind path, ar_kind = kind, ar_path = path, ar_title = Some title,
       ar_preview = buildArtifactPreview path content, ar_roleId = Some roleId, ar_stage = Some stage,
       ar_sha256 = Some (en_sha256 env content), ar_bytes = Some (byteLength content),
       ar_createdAt = nowMs\<rparr>"

text \<open>A file that exists already: its preview, digest and size are read from it.\<close>

record existingFile =
  xf_path :: string
  xf_fileName :: string
  xf_preview :: "artifactPreview option"
  xf_sha256 :: string
  xf_bytes :: nat

definition existingArtifact :: "evolutionArtifactKind \<Rightarrow> string \<Rightarrow> evolutionRoleId \<Rightarrow> evolutionStage
    \<Rightarrow> int \<Rightarrow> existingFile \<Rightarrow> runEdit" where
  "existingArtifact kind title roleId stage nowMs f = Re_artifact
     \<lparr>ar_id = artifactId kind (xf_path f), ar_kind = kind, ar_path = xf_path f, ar_title = Some title,
       ar_preview = xf_preview f, ar_roleId = Some roleId, ar_stage = Some stage,
       ar_sha256 = Some (xf_sha256 f), ar_bytes = Some (xf_bytes f), ar_createdAt = nowMs\<rparr>"

text \<open>The result of the design generation.\<close>

record tasteResult =
  ts_status :: evolutionStagingStatus
  ts_required :: bool
  ts_log :: "(string \<times> string) option"
  ts_audit :: "(string \<times> string) option"
  ts_output :: "(string \<times> string) option"
  ts_reference :: "existingFile option"
  ts_summary :: string
  ts_completedAt :: int
  ts_error :: "string option"

record planInput =
  pl_text :: "string \<Rightarrow> string"
  pl_title :: string
  pl_sourceDir :: string
  pl_changeSlug :: string
  pl_references :: "existingFile list"
  pl_missingReferences :: bool
  pl_targets :: "string list"
  pl_taste :: tasteResult

definition planMessage :: "evoEnv \<Rightarrow> evolutionMessageKind \<Rightarrow> evolutionStage \<Rightarrow> evolutionRoleId \<Rightarrow> nat
    \<Rightarrow> string list \<Rightarrow> string list \<Rightarrow> int \<Rightarrow> runEdit" where
  "planMessage env kind stage roleId i args ids nowMs = Re_message (messageOf kind stage (Some roleId)
     (en_text env (Tx_author roleId)) (en_text env (Tx_planning_step stage i args)) (Some ids) nowMs)"

definition planScore :: "evolutionScoreModule \<Rightarrow> int \<Rightarrow> string \<Rightarrow> runEdit" where
  "planScore m n summary = Re_score (scoreOf m (numOf n) summary)"

section \<open>Intake, product and low fidelity\<close>

definition intakeEdits :: "evoEnv \<Rightarrow> planInput \<Rightarrow> int \<Rightarrow> runEdit list" where
  "intakeEdits env inp nowMs = (let doc = ''artifacts/normalized-requirement.md'' in
     [planArtifact env Eak_normalized_requirement doc ''Normalized Requirement'' Er_loop_supervisor
        Es_intake_normalized (pl_text inp doc) nowMs,
      planScore Esm_product 7 ''Requirement normalized with assumptions for missing details.'',
      planMessage env Emk_role_update Es_intake_normalized Er_product_manager 0 []
        [artifactId Eak_normalized_requirement doc] nowMs])"

definition discussionEdits :: "evoEnv \<Rightarrow> planInput \<Rightarrow> int \<Rightarrow> runEdit list" where
  "discussionEdits env inp nowMs = (let doc = ''discussions/product-discussion.md'' in
     [planArtifact env Eak_discussion doc ''Product Discussion'' Er_product_manager
        Es_product_discussion (pl_text inp doc) nowMs,
      planMessage env Emk_role_update Es_product_discussion Er_product_manager 0 [pl_title inp]
        [artifactId Eak_discussion doc] nowMs,
      planMessage env Emk_role_update Es_product_discussion Er_product_critic 1 []
        [artifactId Eak_discussion doc] nowMs])"

definition prdEdits :: "evoEnv \<Rightarrow> planInput \<Rightarrow> int \<Rightarrow> runEdit list" where
  "prdEdits env inp nowMs = (let prd = ''artifacts/prd.md''; review = ''artifacts/prd-review.md'' in
     [planArtifact env Eak_prd prd ''PRD'' Er_product_manager Es_prd_ready (pl_text inp prd) nowMs,
      planArtifact env Eak_prd_review review ''PRD Review'' Er_product_critic Es_prd_ready
        (pl_text inp review) nowMs,
      planScore Esm_product 8 ''PRD includes goals, non-goals, user stories, acceptance criteria, and explicit assumptions.'',
      planMessage env Emk_artifact_summary Es_prd_ready Er_product_manager 0 []
        [artifactId Eak_prd prd] nowMs,
      planMessage env Emk_artifact_summary Es_prd_ready Er_product_critic 1 []
        [artifactId Eak_prd_review review] nowMs])"

definition DESIGN_REFERENCE_MANIFEST_RELATIVE_PATH :: string where
  "DESIGN_REFERENCE_MANIFEST_RELATIVE_PATH = ''design/reference-images.md''"

definition manifestId :: string where
  "manifestId = artifactId Eak_design_reference_manifest DESIGN_REFERENCE_MANIFEST_RELATIVE_PATH"

definition referenceIds :: "planInput \<Rightarrow> string list" where
  "referenceIds inp = map (\<lambda>f. artifactId Eak_design_reference_image (xf_path f)) (pl_references inp)"

definition referenceEdits :: "evoEnv \<Rightarrow> planInput \<Rightarrow> int \<Rightarrow> runEdit list" where
  "referenceEdits env inp nowMs =
     planArtifact env Eak_design_reference_manifest DESIGN_REFERENCE_MANIFEST_RELATIVE_PATH
       ''Design Reference Image Manifest'' Er_visual_designer Es_design_lofi
       (pl_text inp DESIGN_REFERENCE_MANIFEST_RELATIVE_PATH) nowMs
     # map (\<lambda>f. existingArtifact Eak_design_reference_image
         (''Design Reference Image'' @ midDot @ xf_fileName f) Er_visual_designer Es_design_lofi nowMs f)
         (pl_references inp)"

definition missingReferenceQuestionId :: "string \<Rightarrow> string" where
  "missingReferenceQuestionId runId = ''design-reference-images-missing-'' @ runId"

definition missingReferenceEdits :: "evoEnv \<Rightarrow> planInput \<Rightarrow> string \<Rightarrow> int \<Rightarrow> runEdit list" where
  "missingReferenceEdits env inp runId nowMs =
     [Re_question (questionOf (missingReferenceQuestionId runId) Es_needs_human Er_visual_designer
        (en_text env (Tx_planning_step Es_needs_human 0 [pl_sourceDir inp])) nowMs),
      planMessage env Emk_gate Es_needs_human Er_visual_designer 1 [] [manifestId] nowMs,
      planScore Esm_design 4 ''Strict reference-image requirement is unresolved; design generation paused before hallucinating UI.'']"

definition lofiEdits :: "evoEnv \<Rightarrow> planInput \<Rightarrow> int \<Rightarrow> runEdit list" where
  "lofiEdits env inp nowMs =
     (let flow = ''design/ux-flow.md''; wire = ''design/wireframe.md''; svg = ''design/wireframe.svg'' in
     [planArtifact env Eak_ux_flow flow ''UX Flow'' Er_ux_designer Es_design_lofi (pl_text inp flow) nowMs,
      planArtifact env Eak_wireframe wire ''Low-Fidelity Wireframe'' Er_ux_designer Es_design_lofi
        (pl_text inp wire) nowMs,
      planArtifact env Eak_lofi_mockup svg ''Low-Fidelity Wireframe SVG'' Er_ux_designer Es_design_lofi
        (pl_text inp svg) nowMs,
      planScore Esm_design 7 ''UX flow, low-fidelity structure, and SVG wireframe are available for review.'',
      planMessage env Emk_artifact_summary Es_design_lofi Er_ux_designer 0 []
        (manifestId # referenceIds inp @ [artifactId Eak_ux_flow flow, artifactId Eak_wireframe wire,
          artifactId Eak_lofi_mockup svg]) nowMs])"

section \<open>High fidelity\<close>

definition filled :: "(string \<times> string) option \<Rightarrow> (string \<times> string) option" where
  "filled x = (case x of Some (path, content) \<Rightarrow> if path = [] \<or> content = [] then None else Some (path, content)
     | None \<Rightarrow> None)"

definition twoDigits :: "nat \<Rightarrow> string" where
  "twoDigits n = (if n < 10 then ''0'' @ showNat n else showNat n)"

definition screenPath :: "nat \<Rightarrow> string" where
  "screenPath i = ''design/hifi-screens/screen-'' @ twoDigits (i + 1) @ ''.svg''"

definition screenEdits :: "evoEnv \<Rightarrow> planInput \<Rightarrow> int \<Rightarrow> runEdit list" where
  "screenEdits env inp nowMs = map (\<lambda>(i, name). planArtifact env Eak_hifi_mockup (screenPath i)
     (''High-Fidelity Screen '' @ showNat (i + 1) @ midDot @ name) Er_visual_designer Es_design_hifi
     (pl_text inp (screenPath i)) nowMs) (enumerate 0 (pl_targets inp))"

definition hifiDocuments :: "evoEnv \<Rightarrow> planInput \<Rightarrow> int \<Rightarrow> runEdit list" where
  "hifiDocuments env inp nowMs =
     [planArtifact env Eak_hifi_spec ''design/hifi-spec.md'' ''High-Fidelity Design Spec''
        Er_visual_designer Es_design_hifi (pl_text inp ''design/hifi-spec.md'') nowMs,
      planArtifact env Eak_hifi_mockup ''design/hifi-mockup.svg'' ''High-Fidelity Mockup SVG''
        Er_visual_designer Es_design_hifi (pl_text inp ''design/hifi-mockup.svg'') nowMs]
     @ screenEdits env inp nowMs
     @ [planArtifact env Eak_taste_hifi_prompt ''design/taste-hifi-prompt.md''
          ''taste-skill High-Fidelity Prompt'' Er_visual_designer Es_design_hifi
          (pl_text inp ''design/taste-hifi-prompt.md'') nowMs,
        planArtifact env Eak_design_handoff ''design/design-handoff.json'' ''Design Handoff Package''
          Er_visual_designer Es_design_hifi (pl_text inp ''design/design-handoff.json'') nowMs]"

definition tasteStage :: "tasteResult \<Rightarrow> evolutionStage" where
  "tasteStage t = (if ts_status t = Esd_passed then Es_design_hifi else Es_needs_human)"

text \<open>The optional files of the generation: each with its edit and its id.\<close>

definition tasteFile :: "evoEnv \<Rightarrow> tasteResult \<Rightarrow> evolutionArtifactKind \<Rightarrow> string \<Rightarrow> evolutionStage
    \<Rightarrow> (string \<times> string) option \<Rightarrow> runEdit list \<times> string list" where
  "tasteFile env t kind title stage content = (case filled content of None \<Rightarrow> ([], [])
     | Some (path, txt) \<Rightarrow> ([planArtifact env kind path title Er_visual_designer stage txt (ts_completedAt t)],
         [artifactId kind path]))"

definition referenceTitleForPath :: "string \<Rightarrow> string" where
  "referenceTitleForPath path = (let lower = toLower path in
     if endsWith lower ''.svg'' then ''taste-skill High-Fidelity SVG Reference''
     else if endsWith lower ''.png'' then ''taste-skill High-Fidelity PNG Reference''
     else if endsWith lower ''.jpg'' \<or> endsWith lower ''.jpeg'' then ''taste-skill High-Fidelity JPG Reference''
     else if endsWith lower ''.webp'' then ''taste-skill High-Fidelity WebP Reference''
     else ''taste-skill High-Fidelity Visual Reference'')"

definition tasteReference :: "tasteResult \<Rightarrow> string \<Rightarrow> runEdit list \<times> string list" where
  "tasteReference t outputPath = (case ts_reference t of None \<Rightarrow> ([], [])
     | Some f \<Rightarrow> if xf_path f = [] \<or> xf_path f = outputPath then ([], [])
         else ([existingArtifact Eak_taste_hifi_reference (referenceTitleForPath (xf_path f))
             Er_visual_designer Es_design_hifi (ts_completedAt t) f],
           [artifactId Eak_taste_hifi_reference (xf_path f)]))"

definition tasteEvidence :: "string \<Rightarrow> string option \<Rightarrow> int \<Rightarrow> runEdit" where
  "tasteEvidence summary artifact nowMs = Re_evidence
     ((evidenceOf ''taste_skill_hifi_generation'' summary nowMs)\<lparr>ev_artifactId := artifact\<rparr>)"

definition BUILT_IN_TASTE_OUTPUT_RELATIVE_PATH :: string where
  "BUILT_IN_TASTE_OUTPUT_RELATIVE_PATH = ''design/taste-hifi-output.md''"

text \<open>Edits, ids and whether an output is available, by the outcome of the generation.\<close>

definition tasteOutcome :: "evoEnv \<Rightarrow> planInput \<Rightarrow> int \<Rightarrow> runEdit list \<times> string list \<times> bool" where
  "tasteOutcome env inp nowMs = (let t = pl_taste inp in
     case (ts_status t, filled (ts_output t)) of
       (Esd_passed, Some (path, _)) \<Rightarrow>
         (let (outEdits, outIds) = tasteFile env t Eak_taste_hifi_output
                ''taste-skill High-Fidelity Output'' Es_design_hifi (ts_output t);
              (refEdits, refIds) = tasteReference t path in
          (outEdits @ refEdits @ [tasteEvidence (ts_summary t)
             (Some (artifactId Eak_taste_hifi_output path)) (ts_completedAt t)], outIds @ refIds, True))
     | (Esd_not_configured, _) \<Rightarrow>
         (let out = BUILT_IN_TASTE_OUTPUT_RELATIVE_PATH in
          ([planArtifact env Eak_taste_hifi_output out ''Built-in taste-skill High-Fidelity Output''
              Er_visual_designer Es_design_hifi (pl_text inp out) nowMs,
            tasteEvidence ''Built-in taste-skill high-fidelity output generated; no external design runner configured.''
              (Some (artifactId Eak_taste_hifi_output out)) nowMs],
           [artifactId Eak_taste_hifi_output out], True))
     | (Esd_failed, _) \<Rightarrow>
         ([tasteEvidence (ts_summary t) (map_option (\<lambda>(path, _). artifactId Eak_taste_hifi_log path) (ts_log t))
             (ts_completedAt t)], [], False)
     | _ \<Rightarrow> ([], [], False))"

definition requiredTasteFailed :: "planInput \<Rightarrow> bool" where
  "requiredTasteFailed inp = (ts_status (pl_taste inp) = Esd_failed \<and> ts_required (pl_taste inp))"

definition tasteRequiredQuestionId :: "string \<Rightarrow> string" where
  "tasteRequiredQuestionId runId = ''taste-skill-required-'' @ runId"

definition requiredTasteEdits :: "evoEnv \<Rightarrow> planInput \<Rightarrow> string \<Rightarrow> runEdit list" where
  "requiredTasteEdits env inp runId =
     (let t = pl_taste inp; reason = orText (ts_error t) (ts_summary t) in
     [Re_question (questionOf (tasteRequiredQuestionId runId) Es_needs_human Er_visual_designer
        (''Required taste-skill high-fidelity generation failed: '' @ reason) (ts_completedAt t)),
      Re_message (messageOf Emk_gate Es_needs_human (Some Er_visual_designer)
        (en_text env (Tx_author Er_visual_designer)) (en_text env (Tx_planning_step Es_needs_human 2 [reason]))
        (map_option (\<lambda>(path, _). [artifactId Eak_taste_hifi_log path]) (ts_log t)) (ts_completedAt t)),
      planScore Esm_design 5 ''Required taste-skill high-fidelity generation failed; human intervention is needed.''])"

definition hifiFiles :: "evoEnv \<Rightarrow> planInput \<Rightarrow> runEdit list \<times> string list" where
  "hifiFiles env inp = (let t = pl_taste inp;
       (logEdits, logIds) = tasteFile env t Eak_taste_hifi_log ''taste-skill High-Fidelity Generation Log''
         (tasteStage t) (ts_log t);
       (auditEdits, auditIds) = tasteFile env t Eak_project_style_audit ''Existing Project Style Audit''
         (tasteStage t) (ts_audit t) in
     (logEdits @ auditEdits, logIds @ auditIds))"

definition hifiIds :: "planInput \<Rightarrow> string list" where
  "hifiIds inp = manifestId # referenceIds inp
     @ [artifactId Eak_hifi_spec ''design/hifi-spec.md'', artifactId Eak_hifi_mockup ''design/hifi-mockup.svg'',
        artifactId Eak_taste_hifi_prompt ''design/taste-hifi-prompt.md'',
        artifactId Eak_design_handoff ''design/design-handoff.json'']
     @ map (\<lambda>i. artifactId Eak_hifi_mockup (screenPath i)) [0..<length (pl_targets inp)]"

definition hifiEdits :: "evoEnv \<Rightarrow> planInput \<Rightarrow> string \<Rightarrow> int \<Rightarrow> runEdit list" where
  "hifiEdits env inp runId nowMs =
     (let (fileEdits, fileIds) = hifiFiles env inp;
          (outEdits, outIds, available) = tasteOutcome env inp nowMs;
          shared = hifiDocuments env inp nowMs @ fileEdits @ outEdits in
      if requiredTasteFailed inp then shared @ requiredTasteEdits env inp runId
      else shared
        @ [planScore Esm_design (if available then 9 else 8)
             (if available
              then ''High-fidelity design direction, taste-skill generated output, component inventory, and SVG mockup are ready.''
              else ''High-fidelity design direction, taste-skill prompt, component inventory, and SVG mockup are ready.''),
           planMessage env Emk_artifact_summary Es_design_hifi Er_visual_designer
             (if available then 0 else 1) [] (hifiIds inp @ fileIds @ outIds) nowMs])"

section \<open>Architecture and tasks\<close>

definition architectureEdits :: "evoEnv \<Rightarrow> planInput \<Rightarrow> int \<Rightarrow> runEdit list" where
  "architectureEdits env inp nowMs =
     (let base = ''artifacts/architecture-baseline.md''; adr = ''artifacts/adr-0001-evolution-pipeline.md'' in
     [planArtifact env Eak_architecture_baseline base ''Architecture Baseline'' Er_tech_director
        Es_architecture_baseline (pl_text inp base) nowMs,
      planArtifact env Eak_adr adr ''ADR-0001 Evolution Pipeline'' Er_tech_director
        Es_architecture_baseline (pl_text inp adr) nowMs,
      planScore Esm_architecture 8 ''Architecture baseline chooses a thin loop layer over existing IM.codes primitives.'',
      planScore Esm_risk 7 ''Production deploy, auth, payments, secrets, migrations, and infra remain human-gated.'',
      planMessage env Emk_artifact_summary Es_architecture_baseline Er_tech_director 0 []
        [artifactId Eak_architecture_baseline base, artifactId Eak_adr adr] nowMs,
      planMessage env Emk_role_update Es_architecture_baseline Er_security_reviewer 1 []
        [artifactId Eak_architecture_baseline base] nowMs])"

definition changeRoot :: "planInput \<Rightarrow> string" where
  "changeRoot inp = ''openspec/changes/'' @ pl_changeSlug inp"

text \<open>The documents of the last stage: kind, path, title and role.\<close>

definition taskDocuments :: "planInput \<Rightarrow> (evolutionArtifactKind \<times> string \<times> string \<times> evolutionRoleId) list" where
  "taskDocuments inp =
     [(Eak_openspec_proposal, changeRoot inp @ ''/proposal.md'', ''OpenSpec Proposal'', Er_tech_director),
      (Eak_openspec_design, changeRoot inp @ ''/design.md'', ''OpenSpec Design'', Er_tech_director),
      (Eak_openspec_tasks, changeRoot inp @ ''/tasks.md'', ''OpenSpec Tasks'', Er_tech_director),
      (Eak_openspec_spec, changeRoot inp @ ''/specs/evolution-factory/spec.md'', ''OpenSpec Spec Delta'',
        Er_tech_director),
      (Eak_implementation_task_matrix, ''implementation/agent-task-matrix.md'',
        ''Multi-Agent Implementation Task Matrix'', Er_tech_director),
      (Eak_test_plan, ''artifacts/test-plan.md'', ''Test Plan'', Er_qa_engineer),
      (Eak_test_cases, ''artifacts/test-cases.md'', ''QA Test Cases'', Er_qa_engineer),
      (Eak_deployment_plan, ''delivery/deployment-plan.md'', ''Deployment Plan'', Er_ops_release_manager),
      (Eak_staging_setup, ''delivery/staging-setup.md'', ''Staging Delivery Setup'', Er_ops_release_manager),
      (Eak_staging_config_example, ''delivery/delivery.example.json'', ''Staging delivery.json Example'',
        Er_ops_release_manager)]"

definition taskEdits :: "evoEnv \<Rightarrow> planInput \<Rightarrow> int \<Rightarrow> runEdit list" where
  "taskEdits env inp nowMs =
     map (\<lambda>(kind, path, title, role). planArtifact env kind path title role Es_tasks_ready (pl_text inp path) nowMs)
       (taskDocuments inp)
     @ [Re_change (pl_changeSlug inp),
        planScore Esm_tasks 8 ''OpenSpec tasks and multi-agent ownership matrix are materialized for Auto Deliver.'',
        planScore Esm_tests 8 ''Initial test plan and detailed QA test cases cover acceptance, loop, design, and delivery checks.'',
        planScore Esm_delivery 7 ''Staging is allowed after validation; production remains gated.'',
        planMessage env Emk_artifact_summary Es_tasks_ready Er_tech_director 0 [pl_changeSlug inp]
          [artifactId Eak_openspec_proposal (changeRoot inp @ ''/proposal.md''),
           artifactId Eak_openspec_design (changeRoot inp @ ''/design.md''),
           artifactId Eak_openspec_tasks (changeRoot inp @ ''/tasks.md''),
           artifactId Eak_implementation_task_matrix ''implementation/agent-task-matrix.md''] nowMs,
        planMessage env Emk_role_update Es_tasks_ready Er_qa_engineer 1 []
          [artifactId Eak_test_plan ''artifacts/test-plan.md'', artifactId Eak_test_cases ''artifacts/test-cases.md''] nowMs,
        planMessage env Emk_gate Es_tasks_ready Er_ops_release_manager 2 []
          [artifactId Eak_deployment_plan ''delivery/deployment-plan.md'',
           artifactId Eak_staging_setup ''delivery/staging-setup.md'',
           artifactId Eak_staging_config_example ''delivery/delivery.example.json''] nowMs]"

section \<open>The stages in order\<close>

text \<open>What a stage adds, the stage it moves to, the message of that move and whether planning ends there.\<close>

definition planStage :: "evoEnv \<Rightarrow> planInput \<Rightarrow> string \<Rightarrow> int \<Rightarrow> evolutionStage
    \<Rightarrow> (runEdit list \<times> evolutionStage \<times> string option \<times> bool) option" where
  "planStage env inp runId nowMs stage =
     (if stage = Es_detected then Some (intakeEdits env inp nowMs, Es_intake_normalized, None, False)
      else if stage = Es_intake_normalized
      then Some (discussionEdits env inp nowMs, Es_product_discussion, None, False)
      else if stage = Es_product_discussion then Some (prdEdits env inp nowMs, Es_prd_ready, None, False)
      else if stage = Es_prd_ready
      then (if pl_missingReferences inp
        then Some (referenceEdits env inp nowMs @ missingReferenceEdits env inp runId nowMs, Es_needs_human,
          Some (en_text env (Tx_planning Es_needs_human)), True)
        else Some (referenceEdits env inp nowMs @ lofiEdits env inp nowMs, Es_design_lofi, None, False))
      else if stage = Es_design_lofi
      then (if requiredTasteFailed inp
        then Some (hifiEdits env inp runId nowMs, Es_needs_human, Some (ts_summary (pl_taste inp)), True)
        else Some (hifiEdits env inp runId nowMs, Es_design_hifi, None, False))
      else if stage = Es_design_hifi
      then Some (architectureEdits env inp nowMs, Es_architecture_baseline, None, False)
      else if stage = Es_architecture_baseline then Some (taskEdits env inp nowMs, Es_tasks_ready, None, False)
      else None)"

definition PLANNING_STAGES :: "evolutionStage list" where
  "PLANNING_STAGES = [Es_detected, Es_intake_normalized, Es_product_discussion, Es_prd_ready,
     Es_design_lofi, Es_design_hifi, Es_architecture_baseline]"

text \<open>
  \<open>after\<close> is what follows the entry of a stage, the callback \<^verbatim>\<open>onStage\<close> and the test of
  \<^verbatim>\<open>shouldPauseAfterStage\<close>: the run as they leave it and whether planning pauses.
\<close>

datatype planResult = Pl_done evolutionRun | Pl_paused evolutionStage evolutionRun | Pl_failed evolutionRun

fun planLoop :: "evoEnv \<Rightarrow> planInput \<Rightarrow> (evolutionStage \<Rightarrow> evolutionRun \<Rightarrow> evolutionRun \<times> bool) \<Rightarrow> int
    \<Rightarrow> evolutionStage list \<Rightarrow> evolutionRun \<Rightarrow> planResult" where
  "planLoop env inp after nowMs [] run = Pl_done run"
| "planLoop env inp after nowMs (s # ss) run =
     (if run_stage run \<noteq> s then planLoop env inp after nowMs ss run
      else (case planStage env inp (run_runId run) nowMs s of
          None \<Rightarrow> planLoop env inp after nowMs ss run
        | Some (edits, next, summary, stop) \<Rightarrow>
           (let edited = applyEdits env edits run in
            case transitionRun env next summary nowMs edited of
              Tr_paused \<Rightarrow> Pl_paused next edited
            | Tr_invalid \<Rightarrow> Pl_failed edited
            | Tr_entered entered \<Rightarrow>
               (let (run1, pause) = after next entered in
                if pause then Pl_paused next run1
                else if stop then Pl_done run1
                else planLoop env inp after nowMs ss run1))))"

definition runEvolutionPlanningStages :: "evoEnv \<Rightarrow> planInput
    \<Rightarrow> (evolutionStage \<Rightarrow> evolutionRun \<Rightarrow> evolutionRun \<times> bool) \<Rightarrow> int \<Rightarrow> evolutionRun \<Rightarrow> planResult" where
  "runEvolutionPlanningStages env inp after nowMs run =
     (if terminalStage (run_stage run) \<or> run_stage run = Es_needs_human \<or> run_stage run = Es_tasks_ready
        \<or> run_stage run = Es_implementation_loop then Pl_done run
      else planLoop env inp after nowMs PLANNING_STAGES run)"

end
