(* ===== verification/EvoMachine.thy ===== *)
theory EvoMachine
  imports EvoPlanning
begin

text \<open>
  The daemon as a machine: the world of EvoStages and the calls that are waiting for a launcher, a
  command or a file. Every rule is one uninterrupted turn of the program, so the turns of
  different calls interleave freely. The planning of a run is its turns too: edits of the run,
  the entry of a stage, or the error that ends it.
\<close>

datatype evoFlight = Fl_staging string int | Fl_delivery string int
  | Fl_roundtable string roundtableSpec roundtableRef int | Fl_followup string roundtableRef int
  | Fl_planning string | Fl_reconcile string "string list" int | Fl_strict string "string list" int

record evoState =
  es_world :: evoWorld
  es_flights :: "evoFlight list"

text \<open>Who acts on which run: the label of a turn.\<close>

datatype evoLabel = Lb_launch | Lb_stop string | Lb_pause string | Lb_continue string
  | Lb_message string | Lb_check string | Lb_openspec string | Lb_staging_start string
  | Lb_staging_done string | Lb_delivery_start string | Lb_delivery_done string
  | Lb_roundtable_start string | Lb_roundtable_done string | Lb_p2p string | Lb_followup string
  | Lb_reconcile string | Lb_reconciled string | Lb_plan_start string | Lb_plan_edit string | Lb_plan_enter string
  | Lb_plan_blocked string | Lb_plan_paused string | Lb_plan_failed string | Lb_plan_done string
  | Lb_hydrate string | Lb_restart

definition stayPut :: "evoFlight list \<Rightarrow> evoCall \<Rightarrow> evoState" where
  "stayPut fl c = \<lparr>es_world = snd c, es_flights = fl\<rparr>"

definition takeOff :: "bool \<Rightarrow> evoFlight \<Rightarrow> evoFlight list \<Rightarrow> evoCall \<Rightarrow> evoState" where
  "takeOff b f fl c = stayPut (if b then f # fl else fl) c"

text \<open>A change of a run in memory that is not saved by this turn.\<close>

definition changeInMemory :: "(evolutionRun \<Rightarrow> evolutionRun) \<Rightarrow> string \<Rightarrow> evoWorld \<Rightarrow> evoCall" where
  "changeInMemory f rid w = onEntry rid w (\<lambda>entry. (Evo_threw, setRun rid (f (rn_run entry)) w))"

text \<open>Whether a start of the automatic delivery hands the run to the launcher.\<close>

definition launches :: "bool \<Rightarrow> bool \<Rightarrow> string \<Rightarrow> evoWorld \<Rightarrow> bool" where
  "launches linked launcher rid w = (case getRuntimeEntry rid w of
     None \<Rightarrow> False | Some entry \<Rightarrow> deliveryTurnOf linked launcher (rn_run entry) = Dt_launch)"

text \<open>
  A report that comes with the answer of the launcher is turns of its own, those of \<open>openspec\<close>.
  The role skills are eleven files. Everything else a rule
  leaves open is the environment's choice.
\<close>

inductive evoStep :: "evoEnv \<Rightarrow> evoState \<Rightarrow> evoLabel \<Rightarrow> evoState \<Rightarrow> bool" for env where
  launch: "length skills \<le> 11 \<Longrightarrow> evoStep env \<lparr>es_world = w, es_flights = fl\<rparr> Lb_launch
     (stayPut fl (launchEvolutionRun env fs files (Some skills) dir input runId now w))"
| stop: "evoStep env \<lparr>es_world = w, es_flights = fl\<rparr> (Lb_stop rid)
     (stayPut fl (stopEvolutionRun env fs rid reason now w))"
| pause: "evoStep env \<lparr>es_world = w, es_flights = fl\<rparr> (Lb_pause rid)
     (stayPut fl (pauseEvolutionRun env fs rid reason now w))"
| cont: "evoStep env \<lparr>es_world = w, es_flights = fl\<rparr> (Lb_continue rid)
     (stayPut fl (continueEvolutionRun env fs rid targetStage message now w))"
| user_message: "evoStep env \<lparr>es_world = w, es_flights = fl\<rparr> (Lb_message rid)
     (stayPut fl (recordEvolutionUserMessage env fs sink rid roleId txt now w))"
| check: "evoStep env \<lparr>es_world = w, es_flights = fl\<rparr> (Lb_check rid)
     (stayPut fl (checkEvolutionStagingConfig env fs dir config stat rid now w))"
| openspec: "recordOpenSpecForRun env fs p rid now w = Some c
   \<Longrightarrow> evoStep env \<lparr>es_world = w, es_flights = fl\<rparr> (Lb_openspec rid) (stayPut fl c)"
| staging_start: "startStagingDelivery env fs rid now w = (turn, c)
   \<Longrightarrow> evoStep env \<lparr>es_world = w, es_flights = fl\<rparr> (Lb_staging_start rid)
     (takeOff (turn = St_started) (Fl_staging rid now) fl c)"
| staging_done: "Fl_staging rid now \<in> set fl
   \<Longrightarrow> evoStep env \<lparr>es_world = w, es_flights = fl\<rparr> (Lb_staging_done rid)
     (stayPut (remove1 (Fl_staging rid now) fl) (finishStagingDelivery env fs result rid now w))"
| delivery_start: "startAutoDelivery env fs linked launcher rid now w = (turn, c)
   \<Longrightarrow> evoStep env \<lparr>es_world = w, es_flights = fl\<rparr> (Lb_delivery_start rid)
     (takeOff (turn = Dt_launch) (Fl_delivery rid now) fl c)"
| delivery_done: "Fl_delivery rid now \<in> set fl \<Longrightarrow> la_projection result = None
   \<Longrightarrow> evoStep env \<lparr>es_world = w, es_flights = fl\<rparr> (Lb_delivery_done rid)
     (stayPut (remove1 (Fl_delivery rid now) fl) (finishAutoDelivery env fs staging result rid now w))"
| roundtable_start: "startRoundtable env fs content launcher spec rid now w = (turn, c)
   \<Longrightarrow> evoStep env \<lparr>es_world = w, es_flights = fl\<rparr> (Lb_roundtable_start rid)
     (takeOff (turn = Rt_launch) (Fl_roundtable rid spec (baseRoundtable spec now) now) fl c)"
| roundtable_done: "Fl_roundtable rid spec base now \<in> set fl
   \<Longrightarrow> evoStep env \<lparr>es_world = w, es_flights = fl\<rparr> (Lb_roundtable_done rid)
     (stayPut (remove1 (Fl_roundtable rid spec base now) fl)
       (finishRoundtable env fs content spec base answer rid now w))"
| p2p: "recordP2pForRun env fs p rid now w = Some (next, c)
   \<Longrightarrow> evoStep env \<lparr>es_world = w, es_flights = fl\<rparr> (Lb_p2p rid)
     (takeOff True (Fl_followup rid next now) fl c)"
| followup: "Fl_followup rid next now \<in> set fl \<Longrightarrow> followUpP2p env fs linked launcher next rid now w = (turn, c)
   \<Longrightarrow> evoStep env \<lparr>es_world = w, es_flights = fl\<rparr> (Lb_followup rid)
     (takeOff (turn = Pf_delivery \<and> launches linked launcher rid w) (Fl_delivery rid now)
       (remove1 (Fl_followup rid next now) fl) c)"
| reconcile: "startReconcile env fs summaries rid now w = (changed, c)
   \<Longrightarrow> evoStep env \<lparr>es_world = w, es_flights = fl\<rparr> (Lb_reconcile rid)
     (takeOff (changed \<noteq> []) (Fl_reconcile rid changed now) fl c)"
| reconcile_planning: "Fl_reconcile rid changed now \<in> set fl \<Longrightarrow> PLANNING_ROUNDTABLE_ID \<in> set changed
   \<Longrightarrow> reconcilePlanning env fs linked launcher rid now w = (turn, c)
   \<Longrightarrow> evoStep env \<lparr>es_world = w, es_flights = fl\<rparr> (Lb_reconciled rid)
     (takeOff (turn = Dt_launch) (Fl_delivery rid now)
       (Fl_strict rid changed now # remove1 (Fl_reconcile rid changed now) fl) c)"
| reconcile_strict: "Fl_strict rid changed now \<in> set fl
     \<or> Fl_reconcile rid changed now \<in> set fl \<and> PLANNING_ROUNDTABLE_ID \<notin> set changed
   \<Longrightarrow> evoStep env \<lparr>es_world = w, es_flights = fl\<rparr> (Lb_reconciled rid)
     (stayPut (remove1 (Fl_strict rid changed now) (remove1 (Fl_reconcile rid changed now) fl))
       (reconcileStrict env fs changed rid now w))"
| plan_start: "getRuntimeEntry rid w = Some entry \<Longrightarrow> run_stage (rn_run entry) \<in> set PLANNING_STAGES
   \<Longrightarrow> evoStep env \<lparr>es_world = w, es_flights = fl\<rparr> (Lb_plan_start rid)
     \<lparr>es_world = w, es_flights = Fl_planning rid # fl\<rparr>"
| plan_edit: "Fl_planning rid \<in> set fl
   \<Longrightarrow> evoStep env \<lparr>es_world = w, es_flights = fl\<rparr> (Lb_plan_edit rid)
     (stayPut fl (changeInMemory (applyEdit env edit) rid w))"
| plan_enter: "Fl_planning rid \<in> set fl \<Longrightarrow> getRuntimeEntry rid w = Some entry
   \<Longrightarrow> next \<in> insert Es_needs_human (set [Es_intake_normalized, Es_product_discussion,
         Es_prd_ready, Es_design_lofi, Es_design_hifi, Es_architecture_baseline, Es_tasks_ready])
   \<Longrightarrow> transitionRun env next summary now (rn_run entry) = Tr_entered run
   \<Longrightarrow> evoStep env \<lparr>es_world = w, es_flights = fl\<rparr> (Lb_plan_enter rid)
     (stayPut fl (persistAndProject env fs rid run now w))"
| plan_blocked: "Fl_planning rid \<in> set fl \<Longrightarrow> getRuntimeEntry rid w = Some entry
   \<Longrightarrow> strictRoundtableGateBlockForStage env (rn_run entry) stage = Some (r, reason)
   \<Longrightarrow> evoStep env \<lparr>es_world = w, es_flights = fl\<rparr> (Lb_plan_blocked rid)
     (stayPut fl (changeAndSave env fs (strictGateBlocked env r reason now) rid now w))"
| plan_paused: "Fl_planning rid \<in> set fl
   \<Longrightarrow> evoStep env \<lparr>es_world = w, es_flights = fl\<rparr> (Lb_plan_paused rid)
     (stayPut (remove1 (Fl_planning rid) fl) (changeAndSave env fs (planningPaused env stage now) rid now w))"
| plan_failed: "Fl_planning rid \<in> set fl
   \<Longrightarrow> evoStep env \<lparr>es_world = w, es_flights = fl\<rparr> (Lb_plan_failed rid)
     (stayPut (remove1 (Fl_planning rid) fl) (changeAndSave env fs (autopilotFailed env problem now) rid now w))"
| plan_done: "Fl_planning rid \<in> set fl
   \<Longrightarrow> evoStep env \<lparr>es_world = w, es_flights = fl\<rparr> (Lb_plan_done rid)
     (stayPut (remove1 (Fl_planning rid) fl) (changeAndSave env fs (\<lambda>run. run) rid now w))"
| hydrate: "evoStep env \<lparr>es_world = w, es_flights = fl\<rparr> (Lb_hydrate rid)
     (stayPut fl (hydrateEvolutionRun env fs (\<lambda>_ w. w) dir rid now w))"
| restart: "evoStep env \<lparr>es_world = w, es_flights = fl\<rparr> Lb_restart
     \<lparr>es_world = w\<lparr>ew_runs := [], ew_launched := []\<rparr>, es_flights = []\<rparr>"

definition emptyState :: evoState where
  "emptyState = \<lparr>es_world = \<lparr>ew_runs = [], ew_launched = [], ew_disk = []\<rparr>, es_flights = []\<rparr>"

inductive evoReachable :: "evoEnv \<Rightarrow> evoState \<Rightarrow> bool" for env where
  start: "evoReachable env emptyState"
| step: "evoReachable env s \<Longrightarrow> evoStep env s l s' \<Longrightarrow> evoReachable env s'"

section \<open>Every run of the world\<close>

definition everyRun :: "(evolutionRun \<Rightarrow> bool) \<Rightarrow> evoWorld \<Rightarrow> bool" where
  "everyRun P w = ((\<forall>x \<in> set (ew_runs w). P (rn_run (snd x))) \<and> (\<forall>x \<in> set (ew_disk w). P (snd x)))"

lemma every_entry: "everyRun P w \<Longrightarrow> getRuntimeEntry rid w = Some e \<Longrightarrow> P (rn_run e)"
  by (force simp: everyRun_def getRuntimeEntry_def dest: map_of_SomeD)

lemma every_disk: "everyRun P w \<Longrightarrow> mapGet (ew_disk w) k = Some r \<Longrightarrow> P r"
  by (force simp: everyRun_def dest: map_of_SomeD)

lemma every_update:
  assumes "\<forall>x \<in> set m. Q (snd x)" and "Q v"
  shows "\<forall>x \<in> set (mapSet m k v). Q (snd x)"
  using assms set_AList_update [of k v m] by force

lemma every_setRun:
  assumes "everyRun P w" and "P run"
  shows "everyRun P (setRun rid run w)"
proof (cases "mapGet (ew_runs w) rid")
  case (Some e)
  have "\<forall>x \<in> set (mapSet (ew_runs w) rid (e\<lparr>rn_run := run\<rparr>)). P (rn_run (snd x))"
    using assms by (intro every_update [where Q = "\<lambda>v. P (rn_run v)"]) (auto simp: everyRun_def)
  then show ?thesis using assms Some by (simp add: setRun_def everyRun_def)
qed (use assms in \<open>simp add: setRun_def\<close>)

lemma every_upsertRuntime:
  assumes "everyRun P w" and "P run"
  shows "everyRun P (upsertRuntime dir run w)"
proof -
  have "\<forall>x \<in> set (mapSet (ew_runs w) (run_runId run) \<lparr>rn_projectRoot = dir, rn_run = run\<rparr>). P (rn_run (snd x))"
    using assms by (intro every_update [where Q = "\<lambda>v. P (rn_run v)"]) (auto simp: everyRun_def)
  then show ?thesis using assms by (simp add: upsertRuntime_def everyRun_def)
qed

lemma every_save:
  assumes "everyRun P w" and "P run"
  shows "everyRun P (w\<lparr>ew_disk := mapSet (ew_disk w) k run\<rparr>)"
proof -
  have "\<forall>x \<in> set (mapSet (ew_disk w) k run). P (snd x)"
    using assms by (intro every_update) (auto simp: everyRun_def)
  then show ?thesis using assms by (simp add: everyRun_def)
qed

lemma every_onEntry:
  assumes "everyRun P w" and "\<And>e. getRuntimeEntry rid w = Some e \<Longrightarrow> everyRun P (snd (body e))"
  shows "everyRun P (snd (onEntry rid w body))"
  using assms by (auto simp: onEntry_def split: option.split)

lemma every_onRun:
  assumes "everyRun P w" and "\<And>rid e. getRuntimeEntry rid w = Some e \<Longrightarrow> everyRun P (snd (body rid e))"
  shows "everyRun P (snd (onRun runId w body))"
  using assms by (auto simp: onRun_def split: sum.split option.split)

lemma every_restart: "everyRun P w \<Longrightarrow> everyRun P (w\<lparr>ew_runs := [], ew_launched := []\<rparr>)"
  by (simp add: everyRun_def)

lemma every_empty [simp]: "everyRun P (es_world emptyState)"
  by (simp add: everyRun_def emptyState_def)

end
