(* ===== verification/EvoLaws.thy ===== *)
theory EvoLaws
  imports EvoMachine
begin

text \<open>
  Invariants of runs. Every operation on a run is a composition of a few edits; a property kept by
  the edits is kept by every operation, and by every turn of the machine. The locale \<open>run_law\<close>
  is the contract: its assumptions are the edits, its lemmas the operations and the machine.
\<close>

lemma pause_question_stage [simp]: "stageOfText (stageText s) = Some s"
  by (cases s) (simp_all add: stageOfText_def readEnum_def EVOLUTION_STAGES_def)

lemma startsWith_append_prefix [simp]: "startsWith (p @ s) p"
  by (simp add: startsWith_def)

lemma startsWith_simps [simp]: "startsWith s []" "startsWith (c # s) (d # p) \<longleftrightarrow> c = d \<and> startsWith s p"
  "startsWith (q @ s) (q @ p) \<longleftrightarrow> startsWith s p"
  by (simp_all add: startsWith_def)

lemma pauseQuestionStage_self [simp]:
  "pauseQuestionStage run (pauseQuestionId (run_runId run) s) = Some s"
proof -
  let ?p = "''user-pause-'' @ run_runId run @ ''-''"
  have split: "pauseQuestionId (run_runId run) s = ?p @ stageText s" by (simp add: pauseQuestionId_def)
  have "startsWith (?p @ stageText s) ?p" by (rule startsWith_append_prefix)
  moreover have "drop (length ?p) (?p @ stageText s) = stageText s" by (rule append_eq_conv_conj [THEN iffD1, THEN conjunct2, symmetric, OF refl])
  ultimately show ?thesis unfolding pauseQuestionStage_def Let_def split by (simp only: simp_thms if_False pause_question_stage)
qed

text \<open>A question pushed after every question with its id has been filtered out.\<close>

lemma append_is_push:
  assumes "\<And>x. x \<in> set qs \<Longrightarrow> bq_id x \<noteq> bq_id q"
  shows "run\<lparr>run_blockingQuestions := qs @ [q]\<rparr> = pushQuestion q (run\<lparr>run_blockingQuestions := qs\<rparr>)"
  using assms by (force simp: pushQuestion_def)

lemma applyRoleStatesForStage_frame [simp]:
  "run_runId (applyRoleStatesForStage env s n r) = run_runId r"
  "run_stage (applyRoleStatesForStage env s n r) = run_stage r"
  "run_blockingQuestions (applyRoleStatesForStage env s n r) = run_blockingQuestions r"
  "run_roundtables (applyRoleStatesForStage env s n r) = run_roundtables r"
  by (simp_all add: applyRoleStatesForStage_def)

lemma applyRoleStates_here: "applyRoleStatesForStage env (run_stage run) nowMs run
    = applyRoleStatesForStage env (run_stage run) nowMs (run\<lparr>run_stage := run_stage run\<rparr>)"
  by simp

locale run_law =
  fixes env :: evoEnv and P :: "evolutionRun \<Rightarrow> bool"
  assumes add_evidence: "P r \<Longrightarrow> P (appendEvidence e r)"
    and add_event: "P r \<Longrightarrow> P (appendLiveEvent env v r)"
    and add_artifact: "P r \<Longrightarrow> P (upsertArtifact a r)"
    and add_message: "P r \<Longrightarrow> P (appendDiscussion env m r)"
    and add_roundtable: "P r \<Longrightarrow> P (upsertRoundtable x r)"
    and add_score: "P r \<Longrightarrow> P (upsertScore s r)"
    and add_question: "P r \<Longrightarrow> P (pushQuestion q r)"
    and drop_questions: "P r \<Longrightarrow> P (r\<lparr>run_blockingQuestions := filter keep_it (run_blockingQuestions r)\<rparr>)"
    and move: "P r \<Longrightarrow> P (applyRoleStatesForStage env stage now (r\<lparr>run_stage := stage\<rparr>))"
    and plan_move: "P r \<Longrightarrow> P (applyRoleStates env stage now (r\<lparr>run_stage := stage\<rparr>))"
    and set_verdict: "P r \<Longrightarrow> P (r\<lparr>run_verdict := vd\<rparr>)"
    and set_reason: "P r \<Longrightarrow> P (r\<lparr>run_terminalReason := text\<rparr>)"
    and set_message: "P r \<Longrightarrow> P (r\<lparr>run_latestMessage := text\<rparr>)"
    and set_staging: "P r \<Longrightarrow> P (r\<lparr>run_stagingDelivery := sg\<rparr>)"
    and set_delivery: "P r \<Longrightarrow> P (r\<lparr>run_autoDelivery := ad\<rparr>)"
    and set_change: "P r \<Longrightarrow> P (r\<lparr>run_linkedOpenSpecChange := text\<rparr>)"
    and set_link: "P r \<Longrightarrow> P (r\<lparr>run_linkedAutoDeliverRunId := text\<rparr>)"
    and set_updated: "P r \<Longrightarrow> P (r\<lparr>run_updatedAt := now\<rparr>)"
begin

lemmas edits = add_evidence add_event add_artifact add_message add_roundtable add_score add_question
  drop_questions move plan_move set_verdict set_reason set_message set_staging set_delivery
  set_change set_link set_updated

lemma foldl_law: "P r \<Longrightarrow> (\<And>s x. P s \<Longrightarrow> P (f s x)) \<Longrightarrow> P (foldl f r xs)"
  by (induction xs arbitrary: r) auto

section \<open>Operations of the user\<close>

lemma advanced: "P r \<Longrightarrow> P (advancedRun env stage reason now r)"
  unfolding advancedRun_def Let_def by (auto intro!: edits)

lemma paused:
  assumes "P r"
  shows "P (pausedRun env reason now r)"
proof -
  let ?keep = "\<lambda>q. pauseQuestionStage r (bq_id q) = None"
  have key: "P (s\<lparr>run_blockingQuestions := filter ?keep (run_blockingQuestions r) @ [q]\<rparr>)"
    if "P s" and "run_blockingQuestions s = run_blockingQuestions r" and "\<not> ?keep q" for s q
  proof -
    have "P (pushQuestion q (s\<lparr>run_blockingQuestions := filter ?keep (run_blockingQuestions s)\<rparr>))"
      using that by (intro edits)
    then show ?thesis using that by (subst append_is_push) auto
  qed
  show ?thesis unfolding pausedRun_def Let_def
    by (intro add_evidence add_message key set_message set_reason set_verdict move assms) simp_all
qed

lemma approved: "P r \<Longrightarrow> P (approvedRun env message a now r)"
  unfolding approvedRun_def Let_def by (intro edits)

lemma not_waiting: "P r \<Longrightarrow> P (notWaitingRun message now r)"
  unfolding notWaitingRun_def by (intro edits)

lemma pause_released: "P r \<Longrightarrow> P (releaseUserPauseGateForHumanContinue env t message now r)"
  unfolding releaseUserPauseGateForHumanContinue_def Let_def
  by (auto split: option.split intro!: add_evidence add_message drop_questions)

lemma roundtable_released:
  assumes "P s"
  shows "P (releaseRoundtable env t message now x s)"
  unfolding releaseRoundtable_def Let_def by (intro drop_questions add_evidence add_message add_roundtable assms)

lemma released: "P r \<Longrightarrow> P (releasedRun env t message now r)"
  unfolding releasedRun_def releaseRoundtableGateForHumanContinue_def
  by (intro foldl_law pause_released roundtable_released)

lemma delivered: "P r \<Longrightarrow> P (recordDelivered env now x answer r)"
  unfolding recordDelivered_def by (auto intro!: add_evidence add_message)

lemma messaged: "P r \<Longrightarrow> P (messageRun env sink roleId txt now i a r)"
  unfolding messageRun_def Let_def
  by (auto split: prod.split option.split intro!: add_evidence add_message add_event foldl_law delivered)

section \<open>Staging\<close>

lemma replace_questions:
  assumes "P s" and "run_blockingQuestions s = run_blockingQuestions r"
    and "\<And>x. x \<in> set (run_blockingQuestions r) \<Longrightarrow> keep_it x \<Longrightarrow> bq_id x \<noteq> bq_id q"
  shows "P (s\<lparr>run_blockingQuestions := filter keep_it (run_blockingQuestions r) @ (if b then [q] else [])\<rparr>)"
proof -
  have "P (s\<lparr>run_blockingQuestions := filter keep_it (run_blockingQuestions s)\<rparr>)"
    by (intro drop_questions assms(1))
  moreover from this have "P (pushQuestion q (s\<lparr>run_blockingQuestions := filter keep_it (run_blockingQuestions s)\<rparr>))"
    by (rule add_question)
  moreover have "pushQuestion q (s\<lparr>run_blockingQuestions := filter keep_it (run_blockingQuestions s)\<rparr>)
      = s\<lparr>run_blockingQuestions := filter keep_it (run_blockingQuestions s) @ [q]\<rparr>"
    using assms by (subst append_is_push) auto
  ultimately show ?thesis using assms(2) by (cases b) simp_all
qed

lemma checked:
  assumes "P r"
  shows "P (checkedRun env c a now r)"
  unfolding checkedRun_def Let_def
  by (intro add_score add_event add_evidence add_message replace_questions set_message set_staging
      add_artifact assms) (auto simp: upsertArtifact_def questionOf_def)

lemma disabled_by_budget: "P r \<Longrightarrow> P (stagingDisabledByBudget env now r)"
  unfolding stagingDisabledByBudget_def Let_def opsMessage_def by (intro edits)

lemma staging_started: "P r \<Longrightarrow> P (stagingStarted env now r)"
  unfolding stagingStarted_def opsMessage_def by (intro edits)

lemma staging_reported:
  "P r \<Longrightarrow> P (stagingEvidence x now r)" "P r \<Longrightarrow> P (stagingCommand env x now r)"
  "P r \<Longrightarrow> P (stagingStdout env x now r)" "P r \<Longrightarrow> P (stagingStderr env x now r)"
  unfolding stagingEvidence_def stagingCommand_def stagingStdout_def stagingStderr_def
  by (auto split: option.split intro!: add_evidence add_event)

lemma staging_step: "P r \<Longrightarrow> P (stagingPassedStep env x now s r)"
  unfolding stagingPassedStep_def Let_def opsMessage_def by (auto intro!: add_message move)

lemma staging_passed: "P r \<Longrightarrow> P (stagingPassed env x now r)"
  unfolding stagingPassed_def Let_def opsMessage_def
  by (intro add_message add_score set_reason set_verdict foldl_law staging_step)

lemma staging_failed: "P r \<Longrightarrow> P (stagingFailed env x now r)"
  unfolding stagingFailed_def Let_def opsMessage_def
  by (intro add_message add_score add_question set_verdict move)

lemma staging_not_run: "P r \<Longrightarrow> P (stagingNotRun env x now r)"
  unfolding stagingNotRun_def Let_def opsMessage_def by (auto intro!: add_message add_score add_question)

lemma staging_finished:
  assumes "P r"
  shows "P (stagingFinished env x now r)"
proof -
  have "P (case sr_artifact x of Some a \<Rightarrow> upsertArtifact a r | None \<Rightarrow> r)"
    using assms by (auto split: option.split intro: add_artifact)
  then show ?thesis unfolding stagingFinished_def Let_def
    by (auto intro!: staging_passed staging_failed staging_not_run staging_reported set_message set_staging)
qed

section \<open>Reports of the OpenSpec delivery\<close>

lemma openspec_message: "P r \<Longrightarrow> P (openSpecUpdate env s role t now r)"
  unfolding openSpecUpdate_def by (rule add_message)

lemma openspec_events: "P r \<Longrightarrow> P (openSpecEvents env p s now r)"
  unfolding openSpecEvents_def Let_def by (auto split: option.split intro!: add_event)

lemma openspec_discussions: "P r \<Longrightarrow> P (openSpecDiscussions env p s now r)"
  unfolding openSpecDiscussions_def Let_def
  by (auto split: option.split prod.split intro!: openspec_message foldl_law)

lemma openspec_score: "P r \<Longrightarrow> P (openSpecScoreEvent env s now x r)"
  unfolding openSpecScoreEvent_def by (intro add_evidence add_event)

lemma openspec_details: "P r \<Longrightarrow> P (appendOpenSpecDetailEvents env p now r)"
  unfolding appendOpenSpecDetailEvents_def Let_def
  by (auto split: option.split intro!: openspec_message foldl_law openspec_score openspec_discussions
      add_evidence openspec_events)

lemma openspec_synced: "P r \<Longrightarrow> P (syncOpenSpecBlockingQuestion p now (syncOpenSpecScores p r))"
  unfolding syncOpenSpecBlockingQuestion_def syncOpenSpecScores_def
  by (auto split: option.split intro!: add_question foldl_law add_score)

lemma roles_here: "P r \<Longrightarrow> run_stage r = s \<Longrightarrow> P (applyRoleStatesForStage env s now r)"
  using move [of r s now] by (cases r) simp

lemma walked: "P r \<Longrightarrow> P (walkStages env now path r)"
  unfolding walkStages_def by (intro foldl_law move)

lemma openspec_moved: "P r \<Longrightarrow> P (openSpecMove env p now r)"
  unfolding openSpecMove_def Let_def
  by (auto split: option.split intro!: roles_here set_reason set_verdict walked)

lemma openspec_item: "P r \<Longrightarrow> P (openSpecEvidenceItem now e r)"
  unfolding openSpecEvidenceItem_def by (auto intro: add_evidence)

lemma openspec_run: "P r \<Longrightarrow> P (openSpecRun env p now r)"
  unfolding openSpecRun_def Let_def
  by (intro openspec_moved openspec_synced openspec_details foldl_law openspec_item add_evidence
      add_message set_message set_link)

lemma openspec_passed: "P r \<Longrightarrow> P (openSpecPassed env p now r)"
  unfolding openSpecPassed_def Let_def by (intro edits)

section \<open>Gates, roundtables and planning\<close>

lemma last_error: "P r \<Longrightarrow> P (setLastError e r)"
  unfolding setLastError_def by (rule set_delivery)

lemma entered_human: "P r \<Longrightarrow> P (enterNeedsHuman env now r)"
  unfolding enterNeedsHuman_def by (rule move)

lemma delivery_blocked: "P r \<Longrightarrow> P (autoDeliveryBlocked env e now r)"
  unfolding autoDeliveryBlocked_def Let_def supervisorMessage_def
  by (intro edits last_error entered_human)

lemma planning_blocked: "P r \<Longrightarrow> P (planningGateBlocked env e now r)"
  unfolding planningGateBlocked_def Let_def supervisorMessage_def
  by (auto intro!: add_evidence add_message add_question last_error set_message set_verdict entered_human)

lemma strict_blocked: "P r \<Longrightarrow> P (strictGateBlocked env x e now r)"
  unfolding strictGateBlocked_def Let_def supervisorMessage_def
  by (auto intro!: add_evidence add_message add_question set_message set_verdict entered_human)

lemma gate_deferred: "P r \<Longrightarrow> P (deferredForGate env e now r)"
  unfolding deferredForGate_def Let_def supervisorMessage_def
  by (auto intro!: add_evidence add_message last_error set_message)

lemma link_deferred: "P r \<Longrightarrow> P (deferredForLink env now r)"
  unfolding deferredForLink_def Let_def supervisorMessage_def
  by (auto intro!: add_evidence add_event add_message last_error set_message)

lemma delivery_launched: "P r \<Longrightarrow> P (deliveryLaunched env now r)"
  unfolding deliveryLaunched_def Let_def supervisorMessage_def
  by (auto split: option.split intro!: add_evidence add_message set_message set_delivery)

lemma local_fallback: "P r \<Longrightarrow> P (localFallback env spec base e t c now r)"
  unfolding localFallback_def Let_def by (intro edits)

lemma roundtable_started: "P r \<Longrightarrow> P (roundtableStarted env spec answer base now r)"
  unfolding roundtableStarted_def Let_def supervisorMessage_def by (intro edits)

lemma p2p_reported: "P r \<Longrightarrow> P (p2pReported env p x now r)"
  unfolding p2pReported_def Let_def by (auto intro!: add_evidence add_message set_message add_roundtable)

lemma roundtable_reconciled:
  assumes "P s"
  shows "P (reconcileRoundtable env f now x s)"
proof -
  have "P (y\<lparr>run_blockingQuestions := filter k (run_blockingQuestions y), run_latestMessage := m\<rparr>)"
    if "P y" for y k m using that by (intro set_message drop_questions)
  then show ?thesis using assms unfolding reconcileRoundtable_def Let_def
    by (auto split: option.split simp del: set_simps intro!: add_evidence add_message add_roundtable)
qed

lemma reconciled: "P r \<Longrightarrow> P (reconcileRoundtables env f now r)"
  unfolding reconcileRoundtables_def by (intro foldl_law roundtable_reconciled)

lemma planning_entered: "P r \<Longrightarrow> transitionRun env s m now r = Tr_entered r' \<Longrightarrow> P r'"
  unfolding transitionRun_def Let_def
  by (auto split: if_split_asm intro!: set_updated add_evidence set_message plan_move)

lemma planning_paused: "P r \<Longrightarrow> P (planningPaused env s now r)"
  unfolding planningPaused_def Let_def
  by (auto split: prod.split gateDisposition.split intro!: add_evidence set_message)

lemma autopilot_failed: "P r \<Longrightarrow> P (autopilotFailed env e now r)"
  unfolding autopilotFailed_def by (intro edits)

lemma edited: "P r \<Longrightarrow> P (applyEdit env e r)"
  by (cases e) (simp_all add: edits)

section \<open>Turns\<close>

abbreviation kept :: "evoCall \<Rightarrow> bool" where
  "kept c \<equiv> everyRun P (snd c)"

lemma persisted:
  assumes "everyRun P w" and "P run"
  shows "kept (persistAndProject env fs rid run now w)"
  using assms unfolding persistAndProject_def Let_def
  by (auto split: option.split intro!: every_save every_setRun set_updated)

lemma change_saved:
  assumes "everyRun P w" and "\<And>r. P r \<Longrightarrow> P (f r)"
  shows "kept (changeAndSave env fs f rid now w)"
  unfolding changeAndSave_def
  by (auto intro!: every_onEntry persisted assms dest: every_entry [OF assms(1)])

lemma change_unsaved:
  assumes "everyRun P w" and "\<And>r. P r \<Longrightarrow> P (f r)"
  shows "kept (changeInMemory f rid w)"
  unfolding changeInMemory_def
  by (auto intro!: every_onEntry every_setRun assms dest: every_entry [OF assms(1)])

lemma advance_kept:
  assumes "everyRun P w"
  shows "kept (advanceEvolutionRunStage env fs rid t reason now w)"
  unfolding advanceEvolutionRunStage_def
  by (rule every_onRun [OF assms])
    (auto split: sum.split intro!: persisted advanced assms dest: every_entry [OF assms])

lemma stop_kept:
  assumes "everyRun P w"
  shows "kept (stopEvolutionRun env fs rid reason now w)"
  unfolding stopEvolutionRun_def
  by (rule every_onRun [OF assms]) (auto intro!: advance_kept assms)

lemma pause_kept:
  assumes "everyRun P w"
  shows "kept (pauseEvolutionRun env fs rid reason now w)"
  unfolding pauseEvolutionRun_def Let_def
  by (rule every_onRun [OF assms]) (auto intro!: persisted paused assms dest: every_entry [OF assms])

lemma release_kept:
  assumes "everyRun P w"
  shows "kept (continueRelease env fs rid message a now w)"
  unfolding continueRelease_def
  by (auto split: option.split intro!: advance_kept every_setRun approved assms dest: every_entry [OF assms])

lemma continue_kept:
  assumes "everyRun P w"
  shows "kept (continueEvolutionRun env fs rid t message now w)"
  unfolding continueEvolutionRun_def Let_def
  by (rule every_onRun [OF assms])
    (auto intro!: release_kept persisted not_waiting advance_kept every_setRun released assms
      dest: every_entry [OF assms])

lemma message_kept:
  assumes "everyRun P w"
  shows "kept (recordEvolutionUserMessage env fs sink rid roleId txt now w)"
  unfolding recordEvolutionUserMessage_def Let_def
  by (rule every_onRun [OF assms])
    (auto intro!: persisted messaged every_setRun add_artifact set_message assms dest: every_entry [OF assms])

lemma check_kept:
  assumes "everyRun P w"
  shows "kept (checkEvolutionStagingConfig env fs dir config stat rid now w)"
  unfolding checkEvolutionStagingConfig_def Let_def
  by (rule every_onRun [OF assms]) (auto intro!: persisted checked assms dest: every_entry [OF assms])

lemma openspec_kept:
  assumes "everyRun P w" and "recordOpenSpecForRun env fs p rid now w = Some c"
  shows "kept c"
  using assms(2) unfolding recordOpenSpecForRun_def Let_def
  by (auto split: option.splits if_split_asm
      intro!: persisted openspec_passed openspec_run every_setRun assms(1) dest!: every_entry [OF assms(1)])

lemma staging_start_kept:
  assumes "everyRun P w"
  shows "kept (snd (startStagingDelivery env fs rid now w))"
  unfolding startStagingDelivery_def Let_def
  by (auto split: option.split stagingTurn.split
      intro!: persisted disabled_by_budget staging_started assms dest: every_entry [OF assms])

lemma staging_done_kept:
  assumes "everyRun P w"
  shows "kept (finishStagingDelivery env fs x rid now w)"
  unfolding finishStagingDelivery_def Let_def
  by (auto split: option.split intro!: persisted staging_finished assms dest: every_entry [OF assms])

lemma delivery_start_kept:
  assumes "everyRun P w"
  shows "kept (snd (startAutoDelivery env fs linked launcher rid now w))"
  unfolding startAutoDelivery_def Let_def
  by (auto split: option.split deliveryTurn.split
      intro!: persisted gate_deferred planning_blocked delivery_blocked link_deferred delivery_launched assms
      dest: every_entry [OF assms])

lemma delivery_done_kept:
  assumes "everyRun P w" and "la_projection x = None"
  shows "kept (finishAutoDelivery env fs staging x rid now w)"
  using assms(2) unfolding finishAutoDelivery_def
  by (intro every_onEntry assms(1))
    (auto intro!: persisted delivery_blocked assms(1) dest: every_entry [OF assms(1)])

lemma local_fallback_kept:
  assumes "everyRun P w"
  shows "kept (localFallbackCall env fs content spec base e t rid now w)"
  unfolding localFallbackCall_def
  by (intro every_onEntry assms) (auto intro!: persisted local_fallback assms dest: every_entry [OF assms])

lemma roundtable_start_kept:
  assumes "everyRun P w"
  shows "kept (snd (startRoundtable env fs content launcher spec rid now w))"
  unfolding startRoundtable_def Let_def
  by (auto split: option.split intro!: local_fallback_kept assms)

lemma roundtable_done_kept:
  assumes "everyRun P w"
  shows "kept (finishRoundtable env fs content spec base answer rid now w)"
  unfolding finishRoundtable_def
  by (auto split: prod.split bool.split option.split
      intro!: local_fallback_kept change_saved roundtable_started assms)

lemma p2p_kept:
  assumes "everyRun P w" and "recordP2pForRun env fs p rid now w = Some (x, c)"
  shows "kept c"
  using assms(2) unfolding recordP2pForRun_def Let_def
  by (auto split: option.splits if_split_asm intro!: persisted p2p_reported assms(1)
      dest!: every_entry [OF assms(1)])

lemma followup_kept:
  assumes "everyRun P w"
  shows "kept (snd (followUpP2p env fs linked launcher x rid now w))"
  unfolding followUpP2p_def Let_def supervisorMessage_def
  by (auto split: option.split p2pFollowUp.split
      intro!: persisted planning_blocked strict_blocked delivery_start_kept every_setRun add_message assms
      dest: every_entry [OF assms])

lemma reconcile_start_kept:
  assumes "everyRun P w"
  shows "kept (snd (startReconcile env fs summaries rid now w))"
  unfolding startReconcile_def Let_def
  by (auto split: option.split prod.split gateDisposition.split
      intro!: persisted planning_blocked reconciled assms dest: every_entry [OF assms])

lemma reconcile_planning_kept:
  assumes "everyRun P w"
  shows "kept (snd (reconcilePlanning env fs linked launcher rid now w))"
  unfolding reconcilePlanning_def Let_def
  by (auto split: option.split prod.split gateDisposition.split
      intro!: persisted planning_blocked delivery_start_kept assms dest: every_entry [OF assms])

lemma reconcile_strict_kept:
  assumes "everyRun P w"
  shows "kept (reconcileStrict env fs changed rid now w)"
  unfolding reconcileStrict_def Let_def
  by (intro every_onEntry assms)
    (auto split: option.split intro!: persisted strict_blocked assms dest: every_entry [OF assms])

lemma hydrate_kept:
  assumes "everyRun P w"
  shows "kept (hydrateEvolutionRun env fs (\<lambda>_ w. w) dir rid now w)"
proof -
  have normal: "P (snd (normalizeHydratedEvolutionRun now r))" if "P r" for r
    using that unfolding normalizeHydratedEvolutionRun_def Let_def by (auto intro: set_message set_updated)
  have read: "P r" if "readEvolutionRun dir i w = Some r" for i r
    using that every_disk [OF assms] by (simp add: readEvolutionRun_def)
  show ?thesis unfolding hydrateEvolutionRun_def Let_def
    by (auto split: sum.split option.split prod.split intro!: every_upsertRuntime every_save assms
        dest!: read dest: normal)
qed

end

text \<open>With the law for new runs, the property holds of every run of every reachable state.\<close>

lemma created_is_new:
  assumes "createEvolutionRunFromRequirement env fs files (Some skills) dir given runId now = Inr run"
  obtains request i src where "validateEvolutionLaunchRequest (evolutionLaunchRequest_js given) = Inr request"
    "validateEvolutionRunId (Str i) = Inr i" "run = newRun env (pathText dir) i request src skills now"
proof -
  let ?i = "\<lambda>src. case runId of Some r \<Rightarrow> r | None \<Rightarrow> buildEvolutionRunId env now (sf_sha256 src)"
  obtain request where 1: "validateEvolutionLaunchRequest (evolutionLaunchRequest_js given) = Inr request"
    using assms by (cases "validateEvolutionLaunchRequest (evolutionLaunchRequest_js given)")
      (simp_all add: createEvolutionRunFromRequirement_def)
  obtain path where 2: "safeJoin dir (lq_sourceRelativePath request) = Some path"
    using assms 1 by (cases "safeJoin dir (lq_sourceRelativePath request)")
      (simp_all add: createEvolutionRunFromRequirement_def)
  obtain src where 3: "files path = Some src"
    using assms 1 2 by (cases "files path") (simp_all add: createEvolutionRunFromRequirement_def)
  obtain j where 4: "validateEvolutionRunId (Str (?i src)) = Inr j"
    using assms 1 2 3 by (cases "validateEvolutionRunId (Str (?i src))")
      (simp_all add: createEvolutionRunFromRequirement_def Let_def split: if_split_asm)
  have "j = ?i src" using 4 by (auto simp: validateEvolutionRunId_def split: if_split_asm)
  moreover have "run = newRun env (pathText dir) (?i src) request src skills now"
    using assms 1 2 3 4 by (simp add: createEvolutionRunFromRequirement_def Let_def split: if_split_asm)
  ultimately show thesis using 1 4 that by blast
qed

locale run_invariant = run_law +
  assumes fresh: "length skills \<le> 11 \<Longrightarrow> validateEvolutionRunId (Str i) = Inr i
      \<Longrightarrow> validateEvolutionLaunchRequest v = Inr request
      \<Longrightarrow> P (newRun env dir i request src skills now)"
begin

lemma launch_kept:
  assumes "everyRun P w" and "length skills \<le> 11"
  shows "kept (launchEvolutionRun env fs files (Some skills) dir input runId now w)"
proof -
  have "P run" if "createEvolutionRunFromRequirement env fs files (Some skills) dir given r now = Inr run" for given r run
    using created_is_new [OF that] fresh assms(2) by metis
  then show ?thesis using assms unfolding launchEvolutionRun_def Let_def
    by (auto split: sum.split option.split simp: everyRun_def [where w = "_\<lparr>ew_launched := _\<rparr>"]
        everyRun_def [symmetric] intro!: every_upsertRuntime every_save)
qed

lemma step_kept:
  assumes "evoStep env s l s'" and "everyRun P (es_world s)"
  shows "everyRun P (es_world s')"
  using assms
proof (induction rule: evoStep.induct)
  case (staging_start fs rid now w turn c fl)
  then show ?case using staging_start_kept [of w fs rid now] by (simp add: takeOff_def stayPut_def)
next
  case (delivery_start fs linked launcher rid now w turn c fl)
  then show ?case using delivery_start_kept [of w fs linked launcher rid now]
    by (simp add: takeOff_def stayPut_def)
next
  case (roundtable_start fs content launcher spec rid now w turn c fl)
  then show ?case using roundtable_start_kept [of w fs content launcher spec rid now]
    by (simp add: takeOff_def stayPut_def)
next
  case (followup rid "next" now fl fs linked launcher w turn c)
  then show ?case using followup_kept [of w fs linked launcher "next" rid now]
    by (simp add: takeOff_def stayPut_def)
next
  case (reconcile fs summaries rid now w changed c fl)
  then show ?case using reconcile_start_kept [of w fs summaries rid now] by (simp add: takeOff_def stayPut_def)
next
  case (reconcile_planning rid changed now fl fs linked launcher w turn c)
  then show ?case using reconcile_planning_kept [of w fs linked launcher rid now]
    by (simp add: takeOff_def stayPut_def)
next
  case (plan_enter rid fl w entry "next" summary now run fs)
  then have "P run" using planning_entered every_entry by (metis evoState.select_convs(1))
  then show ?case using plan_enter by (simp add: stayPut_def persisted)
qed (simp_all add: stayPut_def takeOff_def launch_kept stop_kept pause_kept continue_kept message_kept check_kept
    openspec_kept staging_done_kept delivery_done_kept roundtable_done_kept p2p_kept change_saved
    change_unsaved reconcile_strict_kept edited strict_blocked planning_paused autopilot_failed hydrate_kept every_restart)

lemma reachable_kept: "evoReachable env s \<Longrightarrow> everyRun P (es_world s)"
  by (induction rule: evoReachable.induct) (auto intro: step_kept)

end

end
