(* ===== verification/EvoInvariants.thy ===== *)
theory EvoInvariants
  imports EvoLaws
begin

text \<open>
  Three invariants of every run, in memory or on disk, in every reachable state: its lists stay
  within their bounds and hold no id twice, its role states are those of its stage, and its
  identity is an accepted one.
\<close>

section \<open>Bounded lists without duplicates\<close>

definition eventsOf :: "evolutionRun \<Rightarrow> liveEvent list" where
  "eventsOf r = (case run_liveEvents r of Some es \<Rightarrow> es | None \<Rightarrow> [])"

definition boundedRun :: "evolutionRun \<Rightarrow> bool" where
  "boundedRun r = (length (run_evidence r) \<le> 200 \<and> length (run_discussion r) \<le> 300
     \<and> length (run_artifacts r) \<le> 200 \<and> length (eventsOf r) \<le> 160)"

definition uniqueRun :: "evolutionRun \<Rightarrow> bool" where
  "uniqueRun r = (distinct (map dm_id (run_discussion r)) \<and> distinct (map le_id (eventsOf r))
     \<and> distinct (map rt_id (run_roundtables r)) \<and> distinct (map sc_module (run_scores r))
     \<and> distinct (map bq_id (run_blockingQuestions r)))"

lemma length_lastN: "length (lastN n xs) \<le> n"
  by (simp add: lastN_def)

lemma lastN_map: "map f (lastN n xs) = lastN n (map f xs)"
  by (simp add: lastN_def drop_map)

lemma distinct_lastN: "distinct xs \<Longrightarrow> distinct (lastN n xs)"
  by (simp add: lastN_def distinct_drop)

lemma replaceFirst_ids: "map f (replaceFirst (\<lambda>e. f e = f x) x xs)
    = (if f x \<in> set (map f xs) then map f xs else map f xs @ [f x])"
  by (induction xs) auto

lemma replaceFirst_distinct:
  "distinct (map f xs) \<Longrightarrow> distinct (map f (replaceFirst (\<lambda>e. f e = f x) x xs))"
  by (simp add: replaceFirst_ids)

lemma eventsOf_live: "eventsOf (appendLiveEvent env v r) =
    (if liveEventId env v \<in> le_id ` set (eventsOf r) then eventsOf r
     else lastN 160 (eventsOf r @ [v\<lparr>le_id := liveEventId env v\<rparr>]))"
  by (simp add: appendLiveEvent_def eventsOf_def Let_def)

lemma eventsOf_frame [simp]:
  "eventsOf (r\<lparr>run_evidence := a\<rparr>) = eventsOf r" "eventsOf (r\<lparr>run_artifacts := b\<rparr>) = eventsOf r"
  "eventsOf (r\<lparr>run_discussion := c\<rparr>) = eventsOf r" "eventsOf (r\<lparr>run_roundtables := d\<rparr>) = eventsOf r"
  "eventsOf (r\<lparr>run_scores := e\<rparr>) = eventsOf r" "eventsOf (r\<lparr>run_blockingQuestions := g\<rparr>) = eventsOf r"
  "eventsOf (r\<lparr>run_roles := h\<rparr>) = eventsOf r" "eventsOf (r\<lparr>run_stage := i\<rparr>) = eventsOf r"
  "eventsOf (r\<lparr>run_verdict := j\<rparr>) = eventsOf r" "eventsOf (r\<lparr>run_terminalReason := k\<rparr>) = eventsOf r"
  "eventsOf (r\<lparr>run_latestMessage := k\<rparr>) = eventsOf r" "eventsOf (r\<lparr>run_stagingDelivery := l\<rparr>) = eventsOf r"
  "eventsOf (r\<lparr>run_autoDelivery := m\<rparr>) = eventsOf r" "eventsOf (r\<lparr>run_linkedOpenSpecChange := k\<rparr>) = eventsOf r"
  "eventsOf (r\<lparr>run_linkedAutoDeliverRunId := k\<rparr>) = eventsOf r" "eventsOf (r\<lparr>run_updatedAt := n\<rparr>) = eventsOf r"
  by (simp_all add: eventsOf_def)

lemmas edit_defs = appendEvidence_def upsertArtifact_def appendDiscussion_def upsertRoundtable_def
  upsertScore_def pushQuestion_def applyRoleStatesForStage_def applyRoleStates_def Let_def

lemma evidence_frame [simp]: "run_evidence (appendLiveEvent env v r) = run_evidence r"
  "run_discussion (appendLiveEvent env v r) = run_discussion r"
  "run_artifacts (appendLiveEvent env v r) = run_artifacts r"
  "run_roundtables (appendLiveEvent env v r) = run_roundtables r"
  "run_scores (appendLiveEvent env v r) = run_scores r"
  "run_blockingQuestions (appendLiveEvent env v r) = run_blockingQuestions r"
  "run_roles (appendLiveEvent env v r) = run_roles r" "run_stage (appendLiveEvent env v r) = run_stage r"
  "run_runId (appendLiveEvent env v r) = run_runId r" "run_source (appendLiveEvent env v r) = run_source r"
  by (simp_all add: appendLiveEvent_def Let_def)

interpretation bounded: run_invariant env boundedRun for env
proof unfold_locales
  fix r e a m x s q k stage now vd t sg ad v skills i request dir src val
  assume "length (skills :: artifactRef list) \<le> 11"
  then show "boundedRun (newRun env dir i request src skills now)"
    by (simp add: boundedRun_def newRun_def Let_def eventsOf_def)
qed (auto simp: boundedRun_def edit_defs eventsOf_live length_lastN EVOLUTION_ARTIFACTS_MAX_def
    EVOLUTION_DISCUSSION_ITEMS_MAX_def)

interpretation unique: run_invariant env uniqueRun for env
proof unfold_locales
  fix skills i request dir src now
  show "uniqueRun (newRun env dir i request src skills now)"
    by (simp add: uniqueRun_def newRun_def Let_def eventsOf_def)
qed (auto simp: uniqueRun_def edit_defs eventsOf_live lastN_map replaceFirst_distinct distinct_map_filter
    intro!: distinct_lastN)

section \<open>The role board\<close>

definition rolesAgree :: "evolutionRun \<Rightarrow> bool" where
  "rolesAgree r = (map ro_roleId (run_roles r) = EVOLUTION_ROLE_IDS
     \<and> (\<forall>x \<in> set (run_roles r). ro_status x = roleStatusForStage (ro_roleId x) (run_stage r)))"

interpretation agree: run_invariant env rolesAgree for env
proof unfold_locales
  fix skills i request dir src now
  show "rolesAgree (newRun env dir i request src skills now)"
    by (simp add: rolesAgree_def newRun_def Let_def buildDefaultEvolutionRoles_def roleSkillOrder_def
        EVOLUTION_ROLE_IDS_def roleStatusForStage_def)
qed (auto simp: rolesAgree_def edit_defs comp_def)

section \<open>Identity\<close>

definition acceptedIdentity :: "evolutionRun \<Rightarrow> bool" where
  "acceptedIdentity r = (validateEvolutionRunId (Str (run_runId r)) = Inr (run_runId r)
     \<and> sourcePathIssues (sd_relativePath (run_source r)) = [])"

lemma accepted_source:
  assumes "validateEvolutionLaunchRequest v = Inr request"
  shows "sourcePathIssues (lq_sourceRelativePath request) = []"
proof -
  let ?f = "fld v ''sourceRelativePath''"
  have "launchRequestIssues v = []" and
    path: "lq_sourceRelativePath request = (case validateEvolutionRequirementSourcePath ?f of Inr s \<Rightarrow> s | Inl _ \<Rightarrow> [])"
    using assms by (auto simp: validateEvolutionLaunchRequest_def Let_def split: if_split_asm)
  then have "issuesOf (validateEvolutionRequirementSourcePath ?f) = []"
    by (simp add: launchRequestIssues_def withPathOr_def)
  moreover have "trim s = s" if "sourcePathIssues s = []" for s
    using that by (simp add: sourcePathIssues_def Let_def pushIf_def split: if_split_asm)
  ultimately show ?thesis using path
    by (auto simp: validateEvolutionRequirementSourcePath_def Let_def split: if_split_asm)
qed

interpretation identity: run_invariant env acceptedIdentity for env
proof unfold_locales
  fix skills :: "artifactRef list" and i v request dir src now
  assume "validateEvolutionRunId (Str i) = Inr i" and "validateEvolutionLaunchRequest v = Inr request"
  then show "acceptedIdentity (newRun env dir i request src skills now)"
    by (simp add: acceptedIdentity_def newRun_def Let_def accepted_source)
qed (auto simp: acceptedIdentity_def edit_defs)

end
