(* ===== verification/EvoStageFacts.thy ===== *)
theory EvoStageFacts
  imports EvoInvariants
begin

text \<open>
  Where an operation leaves the stage of a run. Every operation either keeps the stage, sets one
  stage or walks an allowed path; the world's operations change one run and no other.
\<close>

section \<open>The edits keep stage and identity\<close>

named_theorems frame_simps

lemma appendEvidence_frame [frame_simps]: "run_stage (appendEvidence e r) = run_stage r"
  "run_runId (appendEvidence e r) = run_runId r" "run_artifacts (appendEvidence e r) = run_artifacts r"
  "run_blockingQuestions (appendEvidence e r) = run_blockingQuestions r"
  "run_roundtables (appendEvidence e r) = run_roundtables r"
  "run_terminalReason (appendEvidence e r) = run_terminalReason r" "run_verdict (appendEvidence e r) = run_verdict r"
  "run_linkedOpenSpecChange (appendEvidence e r) = run_linkedOpenSpecChange r"
  by (simp_all add: appendEvidence_def)

lemma appendLiveEvent_frame [frame_simps]: "run_stage (appendLiveEvent env v r) = run_stage r"
  "run_runId (appendLiveEvent env v r) = run_runId r" "run_artifacts (appendLiveEvent env v r) = run_artifacts r"
  "run_blockingQuestions (appendLiveEvent env v r) = run_blockingQuestions r"
  "run_roundtables (appendLiveEvent env v r) = run_roundtables r"
  "run_terminalReason (appendLiveEvent env v r) = run_terminalReason r"
  "run_verdict (appendLiveEvent env v r) = run_verdict r"
  "run_linkedOpenSpecChange (appendLiveEvent env v r) = run_linkedOpenSpecChange r"
  by (simp_all add: appendLiveEvent_def Let_def)

lemma upsertArtifact_frame [frame_simps]: "run_stage (upsertArtifact a r) = run_stage r"
  "run_runId (upsertArtifact a r) = run_runId r"
  "run_blockingQuestions (upsertArtifact a r) = run_blockingQuestions r"
  "run_roundtables (upsertArtifact a r) = run_roundtables r"
  "run_terminalReason (upsertArtifact a r) = run_terminalReason r" "run_verdict (upsertArtifact a r) = run_verdict r"
  "run_linkedOpenSpecChange (upsertArtifact a r) = run_linkedOpenSpecChange r"
  by (simp_all add: upsertArtifact_def)

lemma appendDiscussion_frame [frame_simps]: "run_stage (appendDiscussion env m r) = run_stage r"
  "run_runId (appendDiscussion env m r) = run_runId r" "run_artifacts (appendDiscussion env m r) = run_artifacts r"
  "run_blockingQuestions (appendDiscussion env m r) = run_blockingQuestions r"
  "run_roundtables (appendDiscussion env m r) = run_roundtables r" "run_evidence (appendDiscussion env m r) = run_evidence r"
  "run_terminalReason (appendDiscussion env m r) = run_terminalReason r"
  "run_verdict (appendDiscussion env m r) = run_verdict r"
  "run_linkedOpenSpecChange (appendDiscussion env m r) = run_linkedOpenSpecChange r"
  by (simp_all add: appendDiscussion_def Let_def)

lemma upsertRoundtable_frame [frame_simps]: "run_stage (upsertRoundtable x r) = run_stage r"
  "run_runId (upsertRoundtable x r) = run_runId r" "run_artifacts (upsertRoundtable x r) = run_artifacts r"
  "run_blockingQuestions (upsertRoundtable x r) = run_blockingQuestions r"
  "run_roundtableGateMode (upsertRoundtable x r) = run_roundtableGateMode r"
  "run_linkedOpenSpecChange (upsertRoundtable x r) = run_linkedOpenSpecChange r"
  by (simp_all add: upsertRoundtable_def)

lemma upsertScore_frame [frame_simps]: "run_stage (upsertScore x r) = run_stage r"
  "run_runId (upsertScore x r) = run_runId r" "run_artifacts (upsertScore x r) = run_artifacts r"
  "run_blockingQuestions (upsertScore x r) = run_blockingQuestions r"
  "run_terminalReason (upsertScore x r) = run_terminalReason r" "run_verdict (upsertScore x r) = run_verdict r"
  "run_linkedOpenSpecChange (upsertScore x r) = run_linkedOpenSpecChange r"
  by (simp_all add: upsertScore_def)

lemma pushQuestion_frame [frame_simps]: "run_stage (pushQuestion q r) = run_stage r"
  "run_runId (pushQuestion q r) = run_runId r" "run_artifacts (pushQuestion q r) = run_artifacts r"
  "run_verdict (pushQuestion q r) = run_verdict r"
  "run_linkedOpenSpecChange (pushQuestion q r) = run_linkedOpenSpecChange r"
  by (simp_all add: pushQuestion_def)

lemma applyRoleStates_frame [frame_simps]: "run_stage (applyRoleStates env s n r) = run_stage r"
  "run_runId (applyRoleStates env s n r) = run_runId r"
  "run_linkedOpenSpecChange (applyRoleStates env s n r) = run_linkedOpenSpecChange r"
  "run_blockingQuestions (applyRoleStates env s n r) = run_blockingQuestions r"
  by (simp_all add: applyRoleStates_def)

lemma foldl_stage: "(\<And>s x. run_stage (f s x) = run_stage s) \<Longrightarrow> run_stage (foldl f r xs) = run_stage r"
  by (induction xs arbitrary: r) auto

section \<open>The stage after an operation on a run\<close>

named_theorems stage_simps

lemma stage_advanced [stage_simps]: "run_stage (advancedRun env t reason now r) = t"
  by (simp add: advancedRun_def Let_def frame_simps)

lemma stage_paused [stage_simps]: "run_stage (pausedRun env reason now r) = Es_needs_human"
  by (simp add: pausedRun_def Let_def frame_simps)

lemma stage_approved [stage_simps]: "run_stage (approvedRun env m a now r) = run_stage r"
  by (simp add: approvedRun_def Let_def frame_simps)

lemma stage_notWaiting [stage_simps]: "run_stage (notWaitingRun m now r) = run_stage r"
  by (simp add: notWaitingRun_def frame_simps)

lemma stage_released [stage_simps]: "run_stage (releasedRun env t m now r) = run_stage r"
proof -
  have "run_stage (releaseUserPauseGateForHumanContinue env t m now r) = run_stage r" for r
    by (simp add: releaseUserPauseGateForHumanContinue_def Let_def frame_simps split: option.split)
  then show ?thesis unfolding releasedRun_def releaseRoundtableGateForHumanContinue_def
    by (subst foldl_stage) (simp_all add: releaseRoundtable_def Let_def frame_simps)
qed

lemma stage_messaged [stage_simps]: "run_stage (messageRun env sink roleId txt now i a r) = run_stage r"
proof -
  have "run_stage (recordDelivered env now x y r) = run_stage r" for x y r
    by (simp add: recordDelivered_def frame_simps split: option.split)
  then show ?thesis unfolding messageRun_def Let_def
    by (simp add: frame_simps foldl_stage split: prod.split option.split)
qed

lemma stage_checked [stage_simps]: "run_stage (checkedRun env c a now r) = run_stage r"
  by (simp add: checkedRun_def Let_def frame_simps)

lemma stage_staging_turns [stage_simps]:
  "run_stage (stagingDisabledByBudget env now r) = run_stage r"
  "run_stage (stagingStarted env now r) = run_stage r"
  by (simp_all add: stagingDisabledByBudget_def stagingStarted_def opsMessage_def Let_def frame_simps)

lemma walk_end: "run_stage (walkStages env now path r) = last (run_stage r # path)"
  by (induction path arbitrary: r) (simp_all add: walkStages_def)

lemma staging_walk_end:
  "run_stage (foldl (\<lambda>s step. stagingPassedStep env x now step s) r path) = last (run_stage r # path)"
proof (induction path arbitrary: r)
  case (Cons step path)
  have "run_stage (stagingPassedStep env x now step r) = step"
    by (simp add: stagingPassedStep_def Let_def opsMessage_def frame_simps)
  then show ?case using Cons by simp
qed simp

lemma stage_staging_finished [stage_simps]: "run_stage (stagingFinished env x now r) =
    (if sr_status x = Esd_passed then last (run_stage r # pathToEvolutionStage (run_stage r) Es_human_release_gate)
     else if sr_status x = Esd_failed then Es_needs_human else run_stage r)"
proof -
  have reports: "run_stage (stagingEvidence x now r) = run_stage r" "run_stage (stagingCommand env x now r) = run_stage r"
    "run_stage (stagingStdout env x now r) = run_stage r" "run_stage (stagingStderr env x now r) = run_stage r" for r
    by (simp_all add: stagingEvidence_def stagingCommand_def stagingStdout_def stagingStderr_def frame_simps
        split: option.split)
  show ?thesis
    by (simp add: stagingFinished_def stagingPassed_def stagingFailed_def stagingNotRun_def Let_def reports
        opsMessage_def staging_walk_end frame_simps split: option.split)
qed

lemma stage_openSpecRun: "run_stage (openSpecRun env p now r) = (case targetEvolutionStageForOpenSpec (os_status p) of
    Some t \<Rightarrow> last (run_stage r # pathToEvolutionStage (run_stage r) t) | None \<Rightarrow> run_stage r)"
proof -
  have update: "run_stage (openSpecUpdate env s role t now r) = run_stage r" for s role t r
    by (simp add: openSpecUpdate_def frame_simps)
  have events: "run_stage (openSpecEvents env p s now r) = run_stage r" for s r
    by (simp add: openSpecEvents_def Let_def frame_simps split: option.split)
  have discussions: "run_stage (openSpecDiscussions env p s now r) = run_stage r" for s r
  proof -
    have "run_stage (foldl (\<lambda>a (x, y). openSpecUpdate env k x (g y) now a) r xs) = run_stage r" 
      for k g r and xs :: "(evolutionRoleId \<times> string list) list"
      by (rule foldl_stage) (simp add: update split: prod.split)
    then show ?thesis by (simp add: openSpecDiscussions_def Let_def update split: option.split)
  qed
  have scores: "run_stage (foldl (\<lambda>a x. openSpecScoreEvent env s now x a) r xs) = run_stage r" for s r xs
    by (rule foldl_stage) (simp add: openSpecScoreEvent_def frame_simps)
  have details: "run_stage (appendOpenSpecDetailEvents env p now r) = run_stage r" for r
    by (simp add: appendOpenSpecDetailEvents_def Let_def update discussions scores events frame_simps split: option.split)
  have synced: "run_stage (syncOpenSpecBlockingQuestion p now (syncOpenSpecScores p r)) = run_stage r" for r
  proof -
    have "run_stage (syncOpenSpecScores p r) = run_stage r"
      unfolding syncOpenSpecScores_def by (rule foldl_stage) (simp add: frame_simps split: option.split)
    then show ?thesis by (simp add: syncOpenSpecBlockingQuestion_def frame_simps)
  qed
  have items: "run_stage (foldl (\<lambda>a e. openSpecEvidenceItem now e a) r xs) = run_stage r" for r xs
    by (rule foldl_stage) (simp add: openSpecEvidenceItem_def frame_simps)
  have moved: "run_stage (openSpecMove env p now r) = (case targetEvolutionStageForOpenSpec (os_status p) of
    Some t \<Rightarrow> last (run_stage r # pathToEvolutionStage (run_stage r) t) | None \<Rightarrow> run_stage r)" for r
    by (simp add: openSpecMove_def Let_def walk_end pathToEvolutionStage_def [of t t for t] split: option.split)
  show ?thesis
    by (simp add: openSpecRun_def Let_def moved synced details items frame_simps split: option.split)
qed

lemma stage_openSpecPassed [stage_simps]: "run_stage (openSpecPassed env p now r) = run_stage r"
  by (simp add: openSpecPassed_def Let_def frame_simps)

lemma stage_lastError [frame_simps]: "run_stage (setLastError e r) = run_stage r"
  by (simp add: setLastError_def)

lemma stage_blocked [stage_simps]: "run_stage (autoDeliveryBlocked env e now r) = Es_needs_human"
  "run_stage (planningGateBlocked env e now r) = Es_needs_human"
  "run_stage (strictGateBlocked env x e now r) = Es_needs_human"
  by (simp_all add: autoDeliveryBlocked_def planningGateBlocked_def strictGateBlocked_def supervisorMessage_def
      enterNeedsHuman_def Let_def frame_simps)

lemma stage_deferred [stage_simps]: "run_stage (deferredForGate env e now r) = run_stage r"
  "run_stage (deferredForLink env now r) = run_stage r" "run_stage (deliveryLaunched env now r) = run_stage r"
  by (simp_all add: deferredForGate_def deferredForLink_def deliveryLaunched_def supervisorMessage_def Let_def
      frame_simps split: option.split)

lemma stage_roundtables [stage_simps]: "run_stage (localFallback env spec base e t c now r) = run_stage r"
  "run_stage (roundtableStarted env spec answer base now r) = run_stage r"
  "run_stage (p2pReported env p x now r) = run_stage r"
  "run_stage (reconcileRoundtables env f now r) = run_stage r"
proof -
  have "run_stage (reconcileRoundtable env f now x r) = run_stage r" for x r
    by (simp add: reconcileRoundtable_def Let_def frame_simps split: option.split)
  then show "run_stage (reconcileRoundtables env f now r) = run_stage r"
    unfolding reconcileRoundtables_def by (rule foldl_stage)
qed (simp_all add: localFallback_def roundtableStarted_def p2pReported_def supervisorMessage_def Let_def frame_simps)

lemma stage_planning [stage_simps]: "run_stage (planningPaused env s now r) = run_stage r"
  "run_stage (autopilotFailed env e now r) = Es_failed" "run_stage (applyEdit env x r) = run_stage r"
proof -
  show "run_stage (applyEdit env x r) = run_stage r" by (cases x) (simp_all add: frame_simps)
qed (simp_all add: planningPaused_def autopilotFailed_def Let_def frame_simps split: prod.split gateDisposition.split)

lemma stage_entered: "transitionRun env t summary now r = Tr_entered r' \<Longrightarrow> run_stage r' = t
    \<and> (run_stage r = t \<or> canTransitionEvolutionStage (run_stage r) t)"
  by (auto simp: transitionRun_def Let_def frame_simps split: if_split_asm)

end
