(* ===== verification/EvoTurns.thy ===== *)
theory EvoTurns
  imports EvoStageFacts
begin

text \<open>
  What a turn of the machine does to the table of runs: it changes the run it is about, keeps every
  other one, and moves the stage as its operation says.
\<close>

definition runTurn :: "(evolutionRun \<Rightarrow> evolutionRun \<Rightarrow> bool) \<Rightarrow> string \<Rightarrow> evoWorld \<Rightarrow> evoWorld \<Rightarrow> bool" where
  "runTurn Q rid w w' = (\<forall>i. case getRuntimeEntry i w of None \<Rightarrow> getRuntimeEntry i w' = None
     | Some e \<Rightarrow> (\<exists>e'. getRuntimeEntry i w' = Some e'
         \<and> (e' = e \<or> i = rid \<and> rn_projectRoot e' = rn_projectRoot e \<and> Q (rn_run e) (rn_run e'))))"

lemma turnD: "runTurn Q rid w w' \<Longrightarrow> getRuntimeEntry i w = Some e
    \<Longrightarrow> \<exists>e'. getRuntimeEntry i w' = Some e' \<and> (e' = e \<or> i = rid \<and> Q (rn_run e) (rn_run e'))"
  unfolding runTurn_def by (elim allE [of _ i]) auto

lemma turn_refl [simp]: "runTurn Q rid w w"
  by (simp add: runTurn_def split: option.split)

lemma turn_mono:
  assumes "runTurn Q rid w w'" and "\<And>r r'. Q r r' \<Longrightarrow> Q' r r'"
  shows "runTurn Q' rid w w'"
  unfolding runTurn_def
proof (intro allI)
  fix i
  show "case getRuntimeEntry i w of None \<Rightarrow> getRuntimeEntry i w' = None
    | Some e \<Rightarrow> (\<exists>e'. getRuntimeEntry i w' = Some e'
        \<and> (e' = e \<or> i = rid \<and> rn_projectRoot e' = rn_projectRoot e \<and> Q' (rn_run e) (rn_run e')))"
    using assms(1) [unfolded runTurn_def, rule_format, of i]
    by (cases "getRuntimeEntry i w") (auto intro: assms(2))
qed

lemma turn_trans:
  assumes "runTurn Q1 rid w w1" and "runTurn Q2 rid w1 w2"
    and "\<And>a b c. Q1 a b \<Longrightarrow> Q2 b c \<Longrightarrow> Q a c" and "\<And>a b. Q1 a b \<Longrightarrow> Q a b" and "\<And>a b. Q2 a b \<Longrightarrow> Q a b"
  shows "runTurn Q rid w w2"
  unfolding runTurn_def
proof (intro allI)
  fix i
  note one = assms(1) [unfolded runTurn_def, rule_format, of i]
    and two = assms(2) [unfolded runTurn_def, rule_format, of i]
  show "case getRuntimeEntry i w of None \<Rightarrow> getRuntimeEntry i w2 = None
    | Some e \<Rightarrow> (\<exists>e'. getRuntimeEntry i w2 = Some e'
        \<and> (e' = e \<or> i = rid \<and> rn_projectRoot e' = rn_projectRoot e \<and> Q (rn_run e) (rn_run e')))"
  proof (cases "getRuntimeEntry i w")
    case (Some e)
    then obtain e1 where 1: "getRuntimeEntry i w1 = Some e1"
      "e1 = e \<or> i = rid \<and> rn_projectRoot e1 = rn_projectRoot e \<and> Q1 (rn_run e) (rn_run e1)" using one by auto
    then obtain e2 where 2: "getRuntimeEntry i w2 = Some e2"
      "e2 = e1 \<or> i = rid \<and> rn_projectRoot e2 = rn_projectRoot e1 \<and> Q2 (rn_run e1) (rn_run e2)" using two by auto
    have "e2 = e \<or> i = rid \<and> rn_projectRoot e2 = rn_projectRoot e \<and> Q (rn_run e) (rn_run e2)"
      using 1(2) 2(2) assms(3-5) by metis
    with Some 2(1) show ?thesis by simp
  qed (use one two in simp)
qed

lemma entry_setRun: "getRuntimeEntry i (setRun rid run w) = (if i = rid
    then map_option (\<lambda>e. e\<lparr>rn_run := run\<rparr>) (getRuntimeEntry rid w) else getRuntimeEntry i w)"
  by (auto simp: setRun_def getRuntimeEntry_def update_conv split: option.split)

lemma entry_disk [simp]: "getRuntimeEntry i (w\<lparr>ew_disk := d\<rparr>) = getRuntimeEntry i w"
  by (simp add: getRuntimeEntry_def)

lemma turn_setRun:
  assumes "getRuntimeEntry rid w = Some e" and "Q (rn_run e) run"
  shows "runTurn Q rid w (setRun rid run w)"
  using assms by (auto simp: runTurn_def entry_setRun split: option.split)

lemma turn_persist:
  assumes "getRuntimeEntry rid w = Some e" and "Q (rn_run e) (run\<lparr>run_updatedAt := now\<rparr>)"
  shows "runTurn Q rid w (snd (persistAndProject env fs rid run now w))"
  using assms by (auto simp: persistAndProject_def Let_def runTurn_def entry_setRun split: option.split)

lemma turn_onRun:
  assumes "\<And>e. getRuntimeEntry rid w = Some e \<Longrightarrow> runTurn Q rid w (snd (body rid e))"
  shows "runTurn Q rid w (snd (onRun rid w body))"
proof -
  have "validateEvolutionRunId (Str rid) = Inr i \<Longrightarrow> i = rid" for i
    by (auto simp: validateEvolutionRunId_def split: if_split_asm)
  then show ?thesis using assms by (auto simp: onRun_def split: sum.split option.split)
qed

lemma turn_onEntry:
  assumes "\<And>e. getRuntimeEntry rid w = Some e \<Longrightarrow> runTurn Q rid w (snd (body e))"
  shows "runTurn Q rid w (snd (onEntry rid w body))"
  using assms by (auto simp: onEntry_def split: option.split)

lemma turn_change:
  assumes "\<And>r. Q r ((f r)\<lparr>run_updatedAt := now\<rparr>)"
  shows "runTurn Q rid w (snd (changeAndSave env fs f rid now w))"
  unfolding changeAndSave_def by (rule turn_onEntry, rule turn_persist, assumption, rule assms)

section \<open>Moves of the stage\<close>

definition sameStage :: "evolutionRun \<Rightarrow> evolutionRun \<Rightarrow> bool" where
  "sameStage r r' = (run_stage r' = run_stage r)"

definition tableMove :: "evolutionRun \<Rightarrow> evolutionRun \<Rightarrow> bool" where
  "tableMove r r' = (run_stage r' = run_stage r \<or> canTransitionEvolutionStage (run_stage r) (run_stage r'))"

definition blockMove :: "evolutionRun \<Rightarrow> evolutionRun \<Rightarrow> bool" where
  "blockMove r r' = (run_stage r' = run_stage r \<or> run_stage r' = Es_needs_human)"

lemmas move_defs = sameStage_def tableMove_def blockMove_def

lemma same_is_table: "sameStage r r' \<Longrightarrow> tableMove r r'"
  by (simp add: move_defs)

lemma advance_turn: "runTurn (\<lambda>r r'. run_stage r' = t \<and> canTransitionEvolutionStage (run_stage r) t) rid w
    (snd (advanceEvolutionRunStage env fs rid t reason now w))"
  unfolding advanceEvolutionRunStage_def
  by (rule turn_onRun) (auto simp: validateEvolutionStageTransition_def stage_simps intro!: turn_persist split: sum.split)

lemma human_from_anywhere: "\<not> terminalStage s \<Longrightarrow> s \<noteq> Es_needs_human \<Longrightarrow> canTransitionEvolutionStage s Es_needs_human"
  by (cases s) (simp_all add: canTransitionEvolutionStage_def EVOLUTION_TERMINAL_STAGES_def isEvolutionTerminalStage_def)

lemma human_is_table: "\<not> terminalStage (run_stage r) \<Longrightarrow> run_stage r' = Es_needs_human \<Longrightarrow> tableMove r r'"
  using human_from_anywhere [of "run_stage r"] unfolding tableMove_def by metis

lemma stop_turn: "runTurn tableMove rid w (snd (stopEvolutionRun env fs rid reason now w))"
  unfolding stopEvolutionRun_def
  by (rule turn_onRun) (auto intro: turn_mono [OF advance_turn] simp: tableMove_def)

lemma pause_turn: "runTurn tableMove rid w (snd (pauseEvolutionRun env fs rid reason now w))"
  unfolding pauseEvolutionRun_def Let_def
  by (rule turn_onRun) (auto intro!: turn_persist human_is_table simp: stage_simps)

lemma advance_after:
  assumes "runTurn sameStage rid w w1"
  shows "runTurn tableMove rid w (snd (advanceEvolutionRunStage env fs rid t reason now w1))"
  by (rule turn_trans [OF assms advance_turn]) (auto simp: move_defs)

lemma continue_turn: "runTurn tableMove rid w (snd (continueEvolutionRun env fs rid t m now w))"
  unfolding continueEvolutionRun_def Let_def
  by (rule turn_onRun)
    (auto simp: continueRelease_def stage_simps sameStage_def tableMove_def
      intro!: advance_after turn_setRun turn_persist split: option.split)

lemma message_turn: "runTurn sameStage rid w (snd (recordEvolutionUserMessage env fs sink rid roleId txt now w))"
  unfolding recordEvolutionUserMessage_def Let_def
  by (rule turn_onRun)
    (auto simp: stage_simps frame_simps sameStage_def intro!: turn_setRun turn_persist)

lemma check_turn: "runTurn sameStage rid w (snd (checkEvolutionStagingConfig env fs dir config stat rid now w))"
  unfolding checkEvolutionStagingConfig_def Let_def
  by (rule turn_onRun) (auto simp: stage_simps sameStage_def intro!: turn_persist)

section \<open>Reports and launches\<close>

lemma allowed_append:
  "allowedPath s path \<Longrightarrow> canTransitionEvolutionStage\<^sup>*\<^sup>* s (last (s # path))"
  by (induction path arbitrary: s) (auto intro: converse_rtranclp_into_rtranclp)

lemma path_allowed: "allowedPath s (pathToEvolutionStage s t)"
  by (simp add: pathToEvolutionStage_def Let_def split: option.split)

lemma indexOf_nth: "indexOf x xs = Some i \<Longrightarrow> i < length xs \<and> xs ! i = x"
  by (induction x xs arbitrary: i rule: indexOf.induct) (auto split: if_split_asm)

lemma path_ends:
  assumes "pathToEvolutionStage s t \<noteq> []"
  shows "last (pathToEvolutionStage s t) = t"
proof (cases "canTransitionEvolutionStage s t \<or> s = t")
  case False
  then obtain i j where i: "indexOf s EVOLUTION_STAGE_ORDER = Some i" and j: "indexOf t EVOLUTION_STAGE_ORDER = Some j"
    and lt: "i < j" and eq: "pathToEvolutionStage s t = take (j - i) (drop (i + 1) EVOLUTION_STAGE_ORDER)"
    using assms by (auto simp: pathToEvolutionStage_def Let_def split: option.splits if_split_asm)
  let ?xs = "EVOLUTION_STAGE_ORDER"
  have "j < length ?xs" and "?xs ! j = t" using indexOf_nth [OF j] by auto
  moreover have len: "length (take (j - i) (drop (i + 1) ?xs)) = j - i" using lt \<open>j < length ?xs\<close> by simp
  then have "last (take (j - i) (drop (i + 1) ?xs)) = take (j - i) (drop (i + 1) ?xs) ! (j - i - 1)"
    using lt by (subst last_conv_nth) auto
  ultimately show ?thesis using lt by (simp add: eq)
qed (use assms in \<open>auto simp: pathToEvolutionStage_def\<close>)

definition reportMove :: "openSpecProjection \<Rightarrow> evolutionRun \<Rightarrow> evolutionRun \<Rightarrow> bool" where
  "reportMove p r r' = (\<not> terminalStage (run_stage r) \<and> (\<exists>path. allowedPath (run_stage r) path
     \<and> run_stage r' = last (run_stage r # path)
     \<and> (path \<noteq> [] \<longrightarrow> Some (run_stage r') = targetEvolutionStageForOpenSpec (os_status p))))"

lemma openspec_turn:
  assumes "recordOpenSpecForRun env fs p rid now w = Some c"
  shows "runTurn (reportMove p) rid w (snd c)"
proof -
  have "\<exists>path. allowedPath (run_stage r) path \<and> run_stage (openSpecRun env p now r) = last (run_stage r # path)
     \<and> (path \<noteq> [] \<longrightarrow> Some (run_stage (openSpecRun env p now r)) = targetEvolutionStageForOpenSpec (os_status p))" for r
  proof (cases "targetEvolutionStageForOpenSpec (os_status p)")
    case (Some t)
    then show ?thesis using path_allowed [of "run_stage r" t] path_ends [of "run_stage r" t]
      by (intro exI [of _ "pathToEvolutionStage (run_stage r) t"]) (auto simp: stage_openSpecRun)
  qed (auto simp: stage_openSpecRun intro: exI [of _ "[]"])
  then show ?thesis using assms unfolding recordOpenSpecForRun_def Let_def
    by (auto split: option.splits if_split_asm simp: reportMove_def stage_simps intro!: turn_persist turn_setRun)
qed

lemma staging_start_turn: "runTurn sameStage rid w (snd (snd (startStagingDelivery env fs rid now w)))"
  unfolding startStagingDelivery_def Let_def
  by (auto simp: stage_simps sameStage_def split: option.split stagingTurn.split intro!: turn_persist)

definition stagingMove :: "evolutionRun \<Rightarrow> evolutionRun \<Rightarrow> bool" where
  "stagingMove r r' = (run_stage r' = Es_needs_human \<or> run_stage r' = run_stage r
     \<or> (\<not> terminalStage (run_stage r) \<and> run_stage r' = Es_human_release_gate))"

lemma staging_done_turn: "runTurn stagingMove rid w (snd (finishStagingDelivery env fs x rid now w))"
proof -
  have "pathToEvolutionStage s Es_human_release_gate = [] \<or> \<not> terminalStage s" for s
    by (cases s) (simp_all add: pathToEvolutionStage_def EVOLUTION_STAGE_ORDER_def canTransitionEvolutionStage_def
        EVOLUTION_TERMINAL_STAGES_def)
  then have walk: "last (s # pathToEvolutionStage s Es_human_release_gate) = s
      \<or> (\<not> terminalStage s \<and> last (s # pathToEvolutionStage s Es_human_release_gate) = Es_human_release_gate)" for s
    using path_ends by (metis last.simps)
  have "stagingMove r (stagingFinished env y t r)" for r y t
    unfolding stagingMove_def stage_staging_finished using walk [of "run_stage r"] by auto
  then have "stagingMove r ((stagingFinished env y t r)\<lparr>run_updatedAt := u\<rparr>)" for r y t u
    by (simp add: stagingMove_def)
  then show ?thesis unfolding finishStagingDelivery_def Let_def
    by (auto split: option.split intro!: turn_persist)
qed

lemma delivery_start_turn: "runTurn blockMove rid w (snd (snd (startAutoDelivery env fs linked launcher rid now w)))"
  unfolding startAutoDelivery_def Let_def
  by (auto simp: stage_simps blockMove_def split: option.split deliveryTurn.split intro!: turn_persist)

lemma delivery_done_turn: "la_projection x = None
    \<Longrightarrow> runTurn blockMove rid w (snd (finishAutoDelivery env fs staging x rid now w))"
  unfolding finishAutoDelivery_def
  by (rule turn_onEntry) (auto simp: stage_simps blockMove_def intro!: turn_persist)

lemma local_fallback_turn: "runTurn sameStage rid w (snd (localFallbackCall env fs content spec base e t rid now w))"
  unfolding localFallbackCall_def by (rule turn_onEntry) (auto simp: stage_simps sameStage_def intro!: turn_persist)

lemma roundtable_start_turn:
  "runTurn sameStage rid w (snd (snd (startRoundtable env fs content launcher spec rid now w)))"
  unfolding startRoundtable_def Let_def
  by (auto split: option.split intro!: local_fallback_turn)

lemma roundtable_done_turn:
  "runTurn sameStage rid w (snd (finishRoundtable env fs content spec base answer rid now w))"
  unfolding finishRoundtable_def
  by (auto split: prod.split bool.split option.split simp: sameStage_def stage_simps
      intro!: local_fallback_turn turn_change)

lemma p2p_turn: "recordP2pForRun env fs p rid now w = Some (x, c) \<Longrightarrow> runTurn sameStage rid w (snd c)"
  unfolding recordP2pForRun_def Let_def
  by (auto split: option.splits if_split_asm simp: stage_simps sameStage_def intro!: turn_persist)

lemma followup_turn: "runTurn blockMove rid w (snd (snd (followUpP2p env fs linked launcher x rid now w)))"
  unfolding followUpP2p_def Let_def supervisorMessage_def
  by (auto simp: stage_simps frame_simps blockMove_def split: option.split p2pFollowUp.split
      intro!: turn_persist turn_setRun delivery_start_turn)

lemma reconcile_start_turn: "runTurn sameStage rid w (snd (snd (startReconcile env fs summaries rid now w)))"
  unfolding startReconcile_def Let_def
  by (auto simp: stage_simps sameStage_def lostPlanningQuestion_def split: option.split prod.split gateDisposition.split
      intro!: turn_persist)

lemma reconcile_planning_turn:
  "runTurn blockMove rid w (snd (snd (reconcilePlanning env fs linked launcher rid now w)))"
  unfolding reconcilePlanning_def Let_def
  by (auto simp: stage_simps blockMove_def split: option.split prod.split gateDisposition.split
      intro!: turn_persist delivery_start_turn)

lemma reconcile_strict_turn: "runTurn blockMove rid w (snd (reconcileStrict env fs changed rid now w))"
  unfolding reconcileStrict_def Let_def
  by (rule turn_onEntry) (auto simp: stage_simps blockMove_def split: option.split intro!: turn_persist)

end
