(* ===== verification/EvoSteps.thy ===== *)
theory EvoSteps
  imports EvoTurns
begin

text \<open>
  Every turn of the machine as a move of one run: the run its label names, and how the label lets the
  stage of that run change.
\<close>

primrec labelRun :: "evoLabel \<Rightarrow> string" where
  "labelRun Lb_launch = []" | "labelRun (Lb_stop i) = i" | "labelRun (Lb_pause i) = i"
| "labelRun (Lb_continue i) = i" | "labelRun (Lb_message i) = i" | "labelRun (Lb_check i) = i"
| "labelRun (Lb_openspec i) = i" | "labelRun (Lb_staging_start i) = i" | "labelRun (Lb_staging_done i) = i"
| "labelRun (Lb_delivery_start i) = i" | "labelRun (Lb_delivery_done i) = i"
| "labelRun (Lb_roundtable_start i) = i" | "labelRun (Lb_roundtable_done i) = i" | "labelRun (Lb_p2p i) = i"
| "labelRun (Lb_followup i) = i" | "labelRun (Lb_reconcile i) = i" | "labelRun (Lb_reconciled i) = i"
| "labelRun (Lb_plan_start i) = i"
| "labelRun (Lb_plan_edit i) = i" | "labelRun (Lb_plan_enter i) = i" | "labelRun (Lb_plan_blocked i) = i"
| "labelRun (Lb_plan_paused i) = i" | "labelRun (Lb_plan_failed i) = i" | "labelRun (Lb_plan_done i) = i"
| "labelRun (Lb_hydrate i) = i" | "labelRun Lb_restart = []"

text \<open>The turns that put runs into memory or take them out of it.\<close>

definition loads :: "evoLabel \<Rightarrow> bool" where
  "loads l = (case l of Lb_launch \<Rightarrow> True | Lb_hydrate _ \<Rightarrow> True | Lb_restart \<Rightarrow> True | _ \<Rightarrow> False)"

text \<open>Any report may have come: what a report of OpenSpec can do to the stage.\<close>

definition anyReport :: "evolutionRun \<Rightarrow> evolutionRun \<Rightarrow> bool" where
  "anyReport r r' = (\<exists>p. reportMove p r r')"

definition failMove :: "evolutionRun \<Rightarrow> evolutionRun \<Rightarrow> bool" where
  "failMove r r' = (run_stage r' = run_stage r \<or> run_stage r' = Es_failed)"

definition tableTo :: "evolutionStage set \<Rightarrow> evolutionRun \<Rightarrow> evolutionRun \<Rightarrow> bool" where
  "tableTo T r r' = (run_stage r' = run_stage r
     \<or> run_stage r' \<in> T \<and> canTransitionEvolutionStage (run_stage r) (run_stage r'))"

text \<open>The stages the planning may enter.\<close>

abbreviation plannedStages :: "evolutionStage set" where
  "plannedStages \<equiv> insert Es_needs_human (set [Es_intake_normalized, Es_product_discussion,
     Es_prd_ready, Es_design_lofi, Es_design_hifi, Es_architecture_baseline, Es_tasks_ready])"

definition labelMove :: "evoLabel \<Rightarrow> evolutionRun \<Rightarrow> evolutionRun \<Rightarrow> bool" where
  "labelMove l = (case l of
     Lb_stop _ \<Rightarrow> tableTo {Es_stopped} | Lb_pause _ \<Rightarrow> tableTo {Es_needs_human} | Lb_continue _ \<Rightarrow> tableTo UNIV
   | Lb_plan_enter _ \<Rightarrow> tableTo plannedStages | Lb_delivery_start _ \<Rightarrow> tableTo {Es_needs_human}
   | Lb_openspec _ \<Rightarrow> anyReport
   | Lb_staging_done _ \<Rightarrow> stagingMove | Lb_delivery_done _ \<Rightarrow> blockMove | Lb_followup _ \<Rightarrow> blockMove
   | Lb_reconciled _ \<Rightarrow> blockMove | Lb_plan_blocked _ \<Rightarrow> blockMove | Lb_plan_failed _ \<Rightarrow> failMove | _ \<Rightarrow> sameStage)"

lemma delivery_starts_at_tasks:
  "deliveryTurnOf linked launcher r \<noteq> Dt_none \<Longrightarrow> run_stage r = Es_tasks_ready"
  by (auto simp: deliveryTurnOf_def split: if_split_asm)

lemma stop_turn_to: "runTurn (tableTo {Es_stopped}) rid w (snd (stopEvolutionRun env fs rid reason now w))"
  unfolding stopEvolutionRun_def
  by (rule turn_onRun) (auto intro!: turn_mono [OF advance_turn] simp: tableTo_def)

lemma human_move: "\<not> terminalStage (run_stage r) \<Longrightarrow> run_stage r' = Es_needs_human \<Longrightarrow> tableTo {Es_needs_human} r r'"
  using human_is_table [of r r'] by (auto simp: tableTo_def tableMove_def)

lemma pause_turn_to: "runTurn (tableTo {Es_needs_human}) rid w (snd (pauseEvolutionRun env fs rid reason now w))"
  unfolding pauseEvolutionRun_def Let_def
  by (rule turn_onRun) (auto intro!: turn_persist human_move simp: stage_simps)

lemma continue_turn_to: "runTurn (tableTo UNIV) rid w (snd (continueEvolutionRun env fs rid t m now w))"
  by (rule turn_mono [OF continue_turn]) (simp add: tableTo_def tableMove_def)

lemma delivery_start_to: "runTurn (tableTo {Es_needs_human}) rid w (snd (snd (startAutoDelivery env fs linked launcher rid now w)))"
proof (cases "getRuntimeEntry rid w")
  case (Some e)
  have move: "tableTo {Es_needs_human} (rn_run e) r'" if "deliveryTurnOf linked launcher (rn_run e) \<noteq> Dt_none"
    "run_stage r' = run_stage (rn_run e) \<or> run_stage r' = Es_needs_human" for r'
    using that delivery_starts_at_tasks [OF that(1)] by (auto simp: tableTo_def canTransitionEvolutionStage_def)
  show ?thesis unfolding startAutoDelivery_def Let_def
    by (auto simp: Some stage_simps split: deliveryTurn.split intro!: turn_persist move)
qed (simp add: startAutoDelivery_def)

lemma change_in_memory_turn: "(\<And>r. Q r (f r)) \<Longrightarrow> runTurn Q rid w (snd (changeInMemory f rid w))"
  unfolding changeInMemory_def by (rule turn_onEntry) (auto intro: turn_setRun)

lemma world_of_turn [simp]: "es_world (stayPut fl c) = snd c" "es_world (takeOff b f fl c) = snd c"
  by (simp_all add: stayPut_def takeOff_def)

lemma step_turn:
  assumes "evoStep env s l s'" and "\<not> loads l"
  shows "runTurn (labelMove l) (labelRun l) (es_world s) (es_world s')"
  using assms
proof cases
  case (openspec fs p rid now w c fl)
  then have "runTurn (reportMove p) rid w (snd c)" by (intro openspec_turn)
  then have "runTurn anyReport rid w (snd c)" by (rule turn_mono) (auto simp: anyReport_def)
  with openspec show ?thesis by (simp add: labelMove_def)
next
  case (staging_start fs rid now w turn c fl)
  then show ?thesis using staging_start_turn [where env = env and fs = fs and rid = rid and now = now and w = w]
    by (simp add: labelMove_def)
next
  case (delivery_start fs linked launcher rid now w turn c fl)
  then show ?thesis using delivery_start_to [of rid w env fs linked launcher now] by (simp add: labelMove_def)
next
  case (roundtable_start fs content launcher spec rid now w turn c fl)
  then show ?thesis using roundtable_start_turn [of rid w env fs content launcher spec now] by (simp add: labelMove_def)
next
  case (p2p fs p rid now w nxt c fl)
  then show ?thesis using p2p_turn [of env fs p rid now w nxt c] by (simp add: labelMove_def)
next
  case (followup rid nxt now fl fs linked launcher w turn c)
  then show ?thesis using followup_turn [of rid w env fs linked launcher nxt now] by (simp add: labelMove_def)
next
  case (reconcile fs summaries rid now w changed c fl)
  then show ?thesis using reconcile_start_turn [of rid w env fs summaries now] by (simp add: labelMove_def)
next
  case (reconcile_planning rid changed now fl fs linked launcher w turn c)
  then show ?thesis using reconcile_planning_turn [of rid w env fs linked launcher now] by (simp add: labelMove_def)
next
  case (plan_enter rid fl w entry nxt summary now run fs)
  then show ?thesis using stage_entered [OF plan_enter(7)]
    by (auto simp: labelMove_def tableTo_def intro!: turn_persist)
qed (auto simp: labelMove_def loads_def failMove_def blockMove_def sameStage_def stage_simps
    stop_turn_to pause_turn_to continue_turn_to message_turn check_turn staging_done_turn delivery_done_turn
    roundtable_done_turn reconcile_strict_turn
    intro!: turn_change change_in_memory_turn)

section \<open>Terminal runs\<close>

text \<open>The turns that resume after waiting and do not look at the stage again.\<close>

definition resumes :: "evoLabel \<Rightarrow> bool" where
  "resumes l = (case l of Lb_staging_done _ \<Rightarrow> True | Lb_delivery_done _ \<Rightarrow> True | Lb_followup _ \<Rightarrow> True
     | Lb_reconciled _ \<Rightarrow> True | Lb_plan_blocked _ \<Rightarrow> True | _ \<Rightarrow> False)"

lemma terminal_no_move: "terminalStage s \<Longrightarrow> \<not> canTransitionEvolutionStage s t"
  by (auto simp: EVOLUTION_TERMINAL_STAGES_def canTransitionEvolutionStage_def)

lemma terminal_move:
  assumes "labelMove l r r'" and "terminalStage (run_stage r)"
  shows "run_stage r' = run_stage r \<or> resumes l \<and> run_stage r' = Es_needs_human
    \<or> l = Lb_plan_failed (labelRun l) \<and> run_stage r' = Es_failed"
  using assms terminal_no_move [OF assms(2)]
  by (cases l) (auto simp: labelMove_def resumes_def tableTo_def anyReport_def reportMove_def
      stagingMove_def blockMove_def failMove_def sameStage_def)

section \<open>The release\<close>

lemma report_to:
  assumes "anyReport r r'"
  shows "run_stage r' = run_stage r \<or> run_stage r' \<in> {Es_implementation_loop, Es_qa_completion,
    Es_delivery_ready, Es_needs_human, Es_failed, Es_stopped}"
proof -
  obtain p :: openSpecProjection and path where ends: "run_stage r' = last (run_stage r # path)"
    and to: "path \<noteq> [] \<longrightarrow> Some (run_stage r') = targetEvolutionStageForOpenSpec (os_status p)"
    using assms unfolding anyReport_def reportMove_def by blast
  show ?thesis
  proof (cases "path = []")
    case False
    then show ?thesis using to by (cases "os_status p") auto
  qed (use ends in simp)
qed

lemma production_move:
  assumes "labelMove l r r'" and "run_stage r' = Es_deployed_production" and "run_stage r \<noteq> Es_deployed_production"
  shows "l = Lb_continue (labelRun l) \<and> run_stage r = Es_human_release_gate"
proof -
  have "canTransitionEvolutionStage s Es_deployed_production \<Longrightarrow> s = Es_human_release_gate" for s
    by (cases s) (simp_all add: canTransitionEvolutionStage_def)
  then show ?thesis using assms report_to [of r r']
    by (cases l) (auto simp: labelMove_def tableTo_def stagingMove_def blockMove_def failMove_def sameStage_def)
qed

definition releaseRecorded :: "evolutionRun \<Rightarrow> bool" where
  "releaseRecorded r = ((\<exists>a \<in> set (run_artifacts r). ar_kind a = Eak_release_gate
       \<and> ar_path a = ''release/release-gate.md'')
     \<and> (\<exists>e \<in> set (run_evidence r). ev_source e = ''human_release_gate''
       \<and> ev_artifactId e = Some ''release_gate:release/release-gate.md''))"

lemma in_lastN: "0 < n \<Longrightarrow> x \<in> set (lastN n (xs @ [x]))" "1 < n \<Longrightarrow> x \<in> set (lastN n (xs @ [x, y]))"
  by (simp_all add: lastN_def)

lemma in_lastN_short: "length xs \<le> n \<Longrightarrow> set (lastN n xs) = set xs"
  by (simp add: lastN_def)

lemma replaceFirst_cases: "(\<exists>ys. replaceFirst P x xs = xs @ [x] \<and> ys = xs)
    \<or> x \<in> set (replaceFirst P x xs) \<and> length (replaceFirst P x xs) = length xs"
  by (induction xs) auto

lemma upserted_artifact:
  assumes "length (run_artifacts r) \<le> EVOLUTION_ARTIFACTS_MAX"
  shows "a \<in> set (run_artifacts (upsertArtifact a r))"
  using assms replaceFirst_cases [of "\<lambda>e. ar_id e = ar_id a \<or> ar_path e = ar_path a" a "run_artifacts r"]
  by (auto simp: upsertArtifact_def in_lastN in_lastN_short EVOLUTION_ARTIFACTS_MAX_def)

lemma approved_recorded:
  assumes "length (run_artifacts r) \<le> EVOLUTION_ARTIFACTS_MAX"
  shows "releaseRecorded (advancedRun env Es_deployed_production reason now
    (approvedRun env m (releaseGateArtifact env r m now) now r))"
proof -
  let ?a = "releaseGateArtifact env r m now"
  have kind: "ar_kind ?a = Eak_release_gate" "ar_path ?a = ''release/release-gate.md''"
    "ar_id ?a = ''release_gate:release/release-gate.md''"
    by (simp_all add: releaseGateArtifact_def fileArtifact_def)
  let ?e = "(evidenceOf ''human_release_gate''
    ''Production release gate approved by War Room human operator; no production command executed by Evolution.''
    now)\<lparr>ev_artifactId := Some (ar_id ?a)\<rparr>"
  obtain xs y where ev: "run_evidence (advancedRun env Es_deployed_production reason now (approvedRun env m ?a now r))
      = lastN 200 (lastN 200 (xs @ [?e]) @ [y])"
    by (simp add: advancedRun_def approvedRun_def appendEvidence_def applyRoleStatesForStage_def Let_def
        EVOLUTION_TERMINAL_STAGES_def frame_simps)
  moreover have "lastN 200 (lastN 200 (xs @ [?e]) @ [y]) = lastN 200 (xs @ [?e, y])"
    by (cases "length xs \<le> 198") (auto simp: lastN_def intro!: arg_cong2 [where f = drop])
  ultimately have "?e \<in> set (run_evidence (advancedRun env Es_deployed_production reason now (approvedRun env m ?a now r)))"
    by (simp add: in_lastN)
  moreover have "?a \<in> set (run_artifacts (advancedRun env Es_deployed_production reason now (approvedRun env m ?a now r)))"
    using upserted_artifact [OF assms, of ?a]
    by (simp add: advancedRun_def approvedRun_def applyRoleStatesForStage_def Let_def frame_simps)
  moreover have "ev_source ?e = ''human_release_gate''" "ev_artifactId ?e = Some ''release_gate:release/release-gate.md''"
    by (simp_all add: kind evidenceOf_def)
  ultimately show ?thesis using kind unfolding releaseRecorded_def by blast
qed

lemma valid_id: "validateEvolutionRunId (Str rid) = Inr i \<Longrightarrow> i = rid"
  by (auto simp: validateEvolutionRunId_def split: if_split_asm)

lemma advanced_entry:
  assumes "getRuntimeEntry rid w = Some e"
  shows "(\<exists>e'. getRuntimeEntry rid (snd (advanceEvolutionRunStage env fs rid t reason now w)) = Some e'
    \<and> (rn_run e' = rn_run e \<or> rn_run e' = (advancedRun env t reason now (rn_run e))\<lparr>run_updatedAt := now\<rparr>))"
  using assms by (auto simp: advanceEvolutionRunStage_def onRun_def persistAndProject_def Let_def entry_setRun
      dest!: valid_id split: sum.split option.split)

lemma release_entry:
  assumes "getRuntimeEntry rid w = Some e" and "run_stage (rn_run e) = Es_human_release_gate"
    and "length (run_artifacts (rn_run e)) \<le> EVOLUTION_ARTIFACTS_MAX"
    and "getRuntimeEntry rid (snd (continueEvolutionRun env fs rid t m now w)) = Some e'"
    and "run_stage (rn_run e') = Es_deployed_production"
  shows "releaseRecorded (rn_run e')"
proof -
  let ?m = "orBlank (orText m []) defaultApproval"
  let ?a = "releaseGateArtifact env (rn_run e) ?m now"
  let ?w = "setRun rid (approvedRun env ?m ?a now (rn_run e)) w"
  let ?why = "Some ''Human production release gate approved; production execution remains manual/audited.''"
  have "snd (continueEvolutionRun env fs rid t m now w)
      \<in> {w, snd (advanceEvolutionRunStage env fs rid Es_deployed_production ?why now ?w)}"
    using assms(1,2) by (auto simp: continueEvolutionRun_def onRun_def Let_def continueRelease_def
        dest!: valid_id split: sum.split)
  moreover have "getRuntimeEntry rid ?w = Some (e\<lparr>rn_run := approvedRun env ?m ?a now (rn_run e)\<rparr>)"
    using assms(1) by (simp add: entry_setRun)
  ultimately have "rn_run e' \<in> {rn_run e, approvedRun env ?m ?a now (rn_run e),
      (advancedRun env Es_deployed_production ?why now (approvedRun env ?m ?a now (rn_run e)))\<lparr>run_updatedAt := now\<rparr>}"
    using assms(1,4) advanced_entry [of rid ?w _ env fs Es_deployed_production ?why now] by fastforce
  then show ?thesis using assms(2,5) approved_recorded [OF assms(3)]
    by (auto simp: stage_simps releaseRecorded_def)
qed

lemma continue_step:
  assumes "evoStep env s (Lb_continue rid) s'"
  shows "\<exists>fs t m now. es_world s' = snd (continueEvolutionRun env fs rid t m now (es_world s))"
  using assms by cases auto

section \<open>Reachability in the table\<close>

lemma gate_reachable:
  assumes "\<not> terminalStage s"
  shows "canTransitionEvolutionStage\<^sup>*\<^sup>* s Es_human_release_gate"
proof (cases "s = Es_needs_human")
  case True
  have "allowedPath s [Es_delivery_ready, Es_human_release_gate]"
    by (simp add: True canTransitionEvolutionStage_def)
  from allowed_append [OF this] show ?thesis by simp
next
  case False
  let ?path = "pathToEvolutionStage s Es_human_release_gate"
  have "s = Es_human_release_gate \<or> ?path \<noteq> []"
    using assms False by (cases s) (simp_all add: pathToEvolutionStage_def EVOLUTION_STAGE_ORDER_def
        canTransitionEvolutionStage_def EVOLUTION_TERMINAL_STAGES_def)
  then show ?thesis using allowed_append [OF path_allowed, of s Es_human_release_gate] path_ends [of s Es_human_release_gate]
    by auto
qed

lemma move_in_table:
  assumes "labelMove l r r'"
  shows "canTransitionEvolutionStage\<^sup>*\<^sup>* (run_stage r) (run_stage r')
    \<or> resumes l \<and> run_stage r' = Es_needs_human
    \<or> l = Lb_plan_failed (labelRun l) \<and> run_stage r' = Es_failed"
proof -
  have report: "canTransitionEvolutionStage\<^sup>*\<^sup>* (run_stage r) (run_stage r')" if "anyReport r r'"
    using that allowed_append unfolding anyReport_def reportMove_def by metis
  show ?thesis using assms report gate_reachable [of "run_stage r"]
    by (cases l) (auto simp: labelMove_def resumes_def tableTo_def stagingMove_def blockMove_def failMove_def sameStage_def)
qed

end
