(* ===== verification/EvoExample.thy ===== *)
theory EvoExample
  imports EvoSteps "HOL-Library.Code_Target_Nat"
begin

text \<open>
  A small world that the machine reaches: one run, launched from a valid request. The properties of
  the evolution pipeline are applied to it.
\<close>

definition demoEnv :: evoEnv where
  "demoEnv = \<lparr>en_sha256 = (\<lambda>s. replicate 64 (CHR ''a'')), en_iso = (\<lambda>t. ''2026-01-01T00:00:00.000Z''),
     en_text = (\<lambda>t. ''text''), en_host = codeUnitHost\<rparr>"

definition demoInput :: jsval where
  "demoInput = Obj [(''requestId'', Str ''req-1''), (''sessionName'', Str ''deck''),
     (''sourceRelativePath'', Str ''.imcodes/inbox/requirements/idea.md'')]"

definition demoFile :: sourceFile where
  "demoFile = \<lparr>sf_isFile = True, sf_size = 12, sf_byteLength = 12, sf_sha256 = replicate 64 (CHR ''b'')\<rparr>"

definition demoWorld :: evoWorld where
  "demoWorld = snd (launchEvolutionRun demoEnv (\<lambda>_. True) (\<lambda>_. Some demoFile) (Some []) [''p''] demoInput
     (Some ''evo-1'') 100 (es_world emptyState))"

definition demoState :: evoState where
  "demoState = \<lparr>es_world = demoWorld, es_flights = []\<rparr>"

lemma demo_reachable: "evoReachable demoEnv demoState"
proof -
  have "evoStep demoEnv \<lparr>es_world = es_world emptyState, es_flights = []\<rparr> Lb_launch
      (stayPut [] (launchEvolutionRun demoEnv (\<lambda>_. True) (\<lambda>_. Some demoFile) (Some []) [''p''] demoInput
        (Some ''evo-1'') 100 (es_world emptyState)))"
    by (rule evoStep.launch) simp
  then have "evoStep demoEnv emptyState Lb_launch demoState"
    by (simp add: stayPut_def demoState_def demoWorld_def emptyState_def)
  then show ?thesis by (rule evoReachable.step [OF evoReachable.start])
qed

lemma launched_entry:
  assumes "validateEvolutionLaunchRequest (normalizeEvolutionLaunchRequest dir input) = Inr request"
    and "mapGet (ew_launched w) (launchFingerprint env request) = None"
    and "createEvolutionRunFromRequirement env fs files skills dir request (truthyStr runId) now = Inr run"
  shows "getRuntimeEntry (run_runId run) (snd (launchEvolutionRun env fs files skills dir input runId now w))
    = Some \<lparr>rn_projectRoot = pathText dir, rn_run = run\<rparr>"
  using assms by (simp add: launchEvolutionRun_def Let_def getRuntimeEntry_def upsertRuntime_def update_conv')

definition demoRequest :: evolutionLaunchRequest where
  "demoRequest = \<lparr>lq_requestId = ''req-1'', lq_serverId = None, lq_sessionName = ''deck'', lq_projectName = None,
     lq_sourceRelativePath = ''.imcodes/inbox/requirements/idea.md'', lq_sourceSizeBytes = None, lq_sourceSha256 = None,
     lq_locale = None, lq_requestedBy = Some Erb_user, lq_autoStart = Some False,
     lq_autoStartImplementation = Some False, lq_autoDeliverPresetId = Some Eap_standard,
     lq_autoCommitPush = Some False, lq_roundtableGateMode = Some Egm_planning,
     lq_designTargetSurface = Some Eds_auto\<rparr>"

definition demoRun :: evolutionRun where
  "demoRun = newRun demoEnv ''/p'' ''evo-1'' demoRequest demoFile [] 100"

lemma demo_request: "validateEvolutionLaunchRequest demoInput = Inr demoRequest"
  by code_simp

lemma demo_created: "createEvolutionRunFromRequirement demoEnv (\<lambda>_. True) (\<lambda>_. Some demoFile) (Some []) [''p'']
    demoRequest (truthyStr (Some ''evo-1'')) 100 = Inr demoRun"
proof -
  have "validateEvolutionLaunchRequest (evolutionLaunchRequest_js demoRequest) = Inr demoRequest"
    and "safeJoin [''p''] (lq_sourceRelativePath demoRequest) \<noteq> None"
    and "validateEvolutionRunId (Str ''evo-1'') = Inr ''evo-1''" and "pathText [''p''] = ''/p''"
    by code_simp+
  then show ?thesis
    by (auto simp: createEvolutionRunFromRequirement_def demoFile_def demoRun_def truthyStr_def demoRequest_def
        EVOLUTION_REQUIREMENT_FILE_MAX_BYTES_def)
qed

lemma demo_run: "getRuntimeEntry ''evo-1'' (es_world demoState) = Some \<lparr>rn_projectRoot = ''/p'', rn_run = demoRun\<rparr>"
proof -
  have same: "normalizeEvolutionLaunchRequest [''p''] demoInput = demoInput" and "pathText [''p''] = ''/p''" by code_simp+
  moreover have "run_runId demoRun = ''evo-1''" by (simp add: demoRun_def newRun_def Let_def)
  ultimately show ?thesis
    using launched_entry [where dir = "[''p'']" and w = "es_world emptyState", OF _ _ demo_created]
    by (simp add: demoState_def demoWorld_def demo_request emptyState_def)
qed

section \<open>The run on its way to production\<close>

text \<open>
  Its planning links a change, OpenSpec reports that the change passed, the staging delivery runs and
  passes, and a human continues at the release gate. No write fails.
\<close>

abbreviation holds :: "evolutionRun \<Rightarrow> evoState \<Rightarrow> bool" where
  "holds run s \<equiv> evoReachable demoEnv s \<and> getRuntimeEntry ''evo-1'' (es_world s) = Some \<lparr>rn_projectRoot = ''/p'', rn_run = run\<rparr>"

lemma persisted_entry:
  assumes "getRuntimeEntry rid w = Some e"
  shows "getRuntimeEntry rid (snd (persistAndProject env fs rid run now w))
    = Some (e\<lparr>rn_run := run\<lparr>run_updatedAt := now\<rparr>\<rparr>)"
  using assms by (simp add: persistAndProject_def Let_def entry_setRun)

lemma reach_step:
  assumes "evoReachable env s" and "evoStep env \<lparr>es_world = es_world s, es_flights = es_flights s\<rparr> l s'"
  shows "evoReachable env s'"
  using assms by (cases s) (auto intro: evoReachable.step)

definition demoLinked :: evolutionRun where
  "demoLinked = demoRun\<lparr>run_linkedOpenSpecChange := Some ''idea''\<rparr>"

definition demoReport :: openSpecProjection where
  "demoReport = \<lparr>os_runId = ''auto-1'', os_changeName = ''idea'', os_status = Os_passed,
     os_maxImplementationPrompts = 3, os_owningMainSessionName = ''deck'', os_launchedFromSessionName = [],
     os_targetImplementationSessionName = [], os_generation = 1, os_implementationPromptCount = 1, os_total = 1,
     os_checked = 1, os_unchecked = 0, os_items = [], os_specAuditRound = None, os_implementationAuditRound = None,
     os_activeP2pRunId = None, os_selectedTeamComboId = None, os_activeOpenSpecPromptId = None,
     os_latestVerdict = None, os_moduleScores = [], os_latestRepairSummary = None, os_evidence = [],
     os_lastMessage = None, os_terminalReason = None\<rparr>"

definition demoReported :: evolutionRun where
  "demoReported = (openSpecPassed demoEnv demoReport 200 (openSpecRun demoEnv demoReport 200 demoLinked))
     \<lparr>run_updatedAt := 200\<rparr>"

definition demoStarted :: evolutionRun where
  "demoStarted = (stagingStarted demoEnv 300 demoReported)\<lparr>run_updatedAt := 300\<rparr>"

definition demoResult :: stagingResult where
  "demoResult = \<lparr>sr_status = Esd_passed, sr_commandLine = Some ''deploy staging'', sr_exitCode = Some 0,
     sr_summary = ''Staging delivery passed.'', sr_startedAt = 300, sr_completedAt = 400, sr_durationMs = 100,
     sr_artifact = None, sr_stdoutTail = None, sr_stderrTail = None, sr_timedOut = None, sr_error = None\<rparr>"

definition demoGate :: evolutionRun where
  "demoGate = (stagingFinished demoEnv demoResult 400 demoStarted)\<lparr>run_updatedAt := 400\<rparr>"

lemma linked_reached: "\<exists>s. holds demoLinked s"
proof -
  let ?s = "\<lparr>es_world = demoWorld, es_flights = [Fl_planning ''evo-1'']\<rparr>"
  have entry: "getRuntimeEntry ''evo-1'' demoWorld = Some \<lparr>rn_projectRoot = ''/p'', rn_run = demoRun\<rparr>"
    using demo_run by (simp add: demoState_def)
  have "evoStep demoEnv demoState (Lb_plan_start ''evo-1'') ?s"
    unfolding demoState_def by (rule evoStep.plan_start [OF entry])
      (simp add: demoRun_def newRun_def Let_def PLANNING_STAGES_def)
  moreover have "evoStep demoEnv ?s (Lb_plan_edit ''evo-1'') (stayPut [Fl_planning ''evo-1'']
      (changeInMemory (applyEdit demoEnv (Re_change ''idea'')) ''evo-1'' demoWorld))"
    by (rule evoStep.plan_edit) simp
  ultimately have "evoReachable demoEnv (stayPut [Fl_planning ''evo-1'']
      (changeInMemory (applyEdit demoEnv (Re_change ''idea'')) ''evo-1'' demoWorld))"
    using demo_reachable by (meson evoReachable.step)
  then show ?thesis using entry
    by (intro exI [of _ "stayPut [Fl_planning ''evo-1'']
      (changeInMemory (applyEdit demoEnv (Re_change ''idea'')) ''evo-1'' demoWorld)"])
      (simp add: changeInMemory_def onEntry_def entry_setRun demoLinked_def)
qed

lemma demo_matches: "openSpecProjectionMatchesRun demoReport demoLinked" "\<not> terminalStage (run_stage demoLinked)"
  by (simp_all add: demoLinked_def demoRun_def newRun_def Let_def demoReport_def openSpecProjectionMatchesRun_def
      truthyStr_def demoRequest_def EVOLUTION_TERMINAL_STAGES_def)

lemma reported_reached: "\<exists>s. holds demoReported s"
proof -
  obtain s where s: "holds demoLinked s" using linked_reached ..
  let ?c = "persistAndProject demoEnv (\<lambda>_. True) ''evo-1''
    (openSpecPassed demoEnv demoReport 200 (openSpecRun demoEnv demoReport 200 demoLinked)) 200 (es_world s)"
  have "recordOpenSpecForRun demoEnv (\<lambda>_. True) demoReport ''evo-1'' 200 (es_world s) = Some ?c"
    using s demo_matches by (simp add: recordOpenSpecForRun_def Let_def demoReport_def)
  then have "evoStep demoEnv \<lparr>es_world = es_world s, es_flights = es_flights s\<rparr> (Lb_openspec ''evo-1'') (stayPut (es_flights s) ?c)"
    by (rule evoStep.openspec)
  with s have "evoReachable demoEnv (stayPut (es_flights s) ?c)" by (blast intro: reach_step)
  then show ?thesis using s persisted_entry [of "''evo-1''" "es_world s"]
    by (intro exI [of _ "stayPut (es_flights s) ?c"]) (simp add: demoReported_def)
qed

lemma demo_turn: "stagingTurnOf demoReported = St_started"
proof -
  have "stagingTurnOf (openSpecPassed demoEnv demoReport 200 (openSpecRun demoEnv demoReport 200 demoLinked)) = St_started"
    by code_simp
  moreover have "stagingTurnOf (r\<lparr>run_updatedAt := t\<rparr>) = stagingTurnOf r" for r t by (simp add: stagingTurnOf_def)
  ultimately show ?thesis by (simp only: demoReported_def)
qed

lemma gate_reached: "\<exists>s. holds demoGate s"
proof -
  obtain s where s: "holds demoReported s" using reported_reached ..
  let ?c = "persistAndProject demoEnv (\<lambda>_. True) ''evo-1'' (stagingStarted demoEnv 300 demoReported) 300 (es_world s)"
  have "startStagingDelivery demoEnv (\<lambda>_. True) ''evo-1'' 300 (es_world s) = (St_started, ?c)"
    using s by (simp add: startStagingDelivery_def Let_def demo_turn)
  then have "evoStep demoEnv \<lparr>es_world = es_world s, es_flights = es_flights s\<rparr> (Lb_staging_start ''evo-1'')
      (takeOff (St_started = St_started) (Fl_staging ''evo-1'' 300) (es_flights s) ?c)"
    by (rule evoStep.staging_start)
  with s have "evoReachable demoEnv (takeOff (St_started = St_started) (Fl_staging ''evo-1'' 300) (es_flights s) ?c)"
    by (blast intro: reach_step)
  then obtain s2 where s2: "evoReachable demoEnv s2" "es_world s2 = snd ?c" "Fl_staging ''evo-1'' 300 \<in> set (es_flights s2)"
    by (auto simp: takeOff_def stayPut_def)
  then have entry: "getRuntimeEntry ''evo-1'' (es_world s2) = Some \<lparr>rn_projectRoot = ''/p'', rn_run = demoStarted\<rparr>"
    using s persisted_entry [of "''evo-1''" "es_world s"] by (simp add: demoStarted_def)
  let ?d = "finishStagingDelivery demoEnv (\<lambda>_. True) (Some demoResult) ''evo-1'' 300 (es_world s2)"
  have "evoStep demoEnv \<lparr>es_world = es_world s2, es_flights = es_flights s2\<rparr> (Lb_staging_done ''evo-1'')
      (stayPut (remove1 (Fl_staging ''evo-1'' 300) (es_flights s2)) ?d)"
    using s2(3) by (rule evoStep.staging_done)
  with s2(1) have "evoReachable demoEnv (stayPut (remove1 (Fl_staging ''evo-1'' 300) (es_flights s2)) ?d)"
    by (rule reach_step)
  moreover have "getRuntimeEntry ''evo-1'' (snd ?d) = Some \<lparr>rn_projectRoot = ''/p'', rn_run = demoGate\<rparr>"
    using entry persisted_entry [OF entry] by (simp add: finishStagingDelivery_def Let_def demoResult_def demoGate_def)
  ultimately show ?thesis by (metis world_of_turn(1))
qed

lemma stage_gate: "run_stage demoGate = Es_human_release_gate"
proof -
  have "run_stage demoReported = Es_delivery_ready"
    using demo_turn by (simp add: stagingTurnOf_def split: if_split_asm)
  then have "run_stage demoStarted = Es_delivery_ready" by (simp add: demoStarted_def stage_simps)
  moreover have "last (Es_delivery_ready # pathToEvolutionStage Es_delivery_ready Es_human_release_gate) = Es_human_release_gate"
    by code_simp
  ultimately show ?thesis by (simp add: demoGate_def stage_simps demoResult_def)
qed

end
