(* ===== verification/EvoCheckFacts.thy ===== *)
theory EvoCheckFacts
  imports EvoChecks
begin

text \<open>
  What the checks of the projection have in common: a verdict does not depend on the path given
  for display, a normalized value passes its check again, and normalizing twice changes nothing.
  The locale \<open>normal_check\<close> states this contract once and lifts it to lists; every check of the
  file is an interpretation.
\<close>

named_theorems fld_simps "reading a member of an object literal"
named_theorems keep_simps "what a normalization keeps of a member that passed its check"

lemma fld_Nil [fld_simps]: "fld (Obj []) k = Undef"
  by simp

lemma fld_Cons [fld_simps]: "fld (Obj ((k, v) # r)) k' = (if k = k' then v else fld (Obj r) k')"
  by simp

lemma fld_keep_append [fld_simps]:
  "fld (Obj (keep k P v @ r)) k' = (if k = k' \<and> P v then v else fld (Obj r) k')"
  by (simp add: keep_def)

lemma fld_keep [fld_simps]:
  "fld (Obj (keep k P v)) k' = (if k = k' \<and> P v then v else Undef)"
  by (simp add: keep_def)

lemma fld_keepAs_append [fld_simps]:
  "fld (Obj (keepAs k P f v @ r)) k' = (if k = k' \<and> P v then f v else fld (Obj r) k')"
  by (simp add: keepAs_def)

lemma fld_keepAs [fld_simps]:
  "fld (Obj (keepAs k P f v)) k' = (if k = k' \<and> P v then f v else Undef)"
  by (simp add: keepAs_def)

lemma fld_optField_append [fld_simps]:
  "fld (Obj (optField k f x @ r)) k'
     = (if k = k' then (case x of None \<Rightarrow> fld (Obj r) k' | Some y \<Rightarrow> f y) else fld (Obj r) k')"
  by (cases x) simp_all

lemma fld_optField [fld_simps]:
  "fld (Obj (optField k f x)) k' = (if k = k' then optVal f x else Undef)"
  by (cases x) simp_all

section \<open>Members that passed\<close>

lemma absentOr_simps [simp]: "absentOr P Undef"
  by (simp add: absentOr_def)

lemma absentOr_keep: "absentOr Q x \<Longrightarrow> (\<And>y. Q y \<Longrightarrow> P y) \<Longrightarrow> (if P x then x else Undef) = x"
  by (auto simp: absentOr_def)

lemma finiteVal_isNumber: "finiteVal v \<Longrightarrow> isNumber v"
  by (cases v) (simp_all add: finiteVal_def)

lemma integerVal_isNumber: "integerVal v \<Longrightarrow> isNumber v"
  by (cases v) (simp_all add: integerVal_def)

lemma nonNegInt_isNumber: "nonNegInt v \<Longrightarrow> isNumber v"
  by (simp add: nonNegInt_def integerVal_isNumber)

lemma stringArr_stringsOf: "stringArr v \<Longrightarrow> stringsOf v = v"
  by (cases v) (auto simp: stringArr_def stringsOf_def list_all_iff)

lemma keep_str [keep_simps]: "absentOr isString x \<Longrightarrow> (if isString x then x else Undef) = x"
  by (rule absentOr_keep)

lemma keep_bool [keep_simps]: "absentOr isBool x \<Longrightarrow> (if isBool x then x else Undef) = x"
  by (rule absentOr_keep)

lemma keep_oneOf [keep_simps]:
  "absentOr (\<lambda>v. isOneOf v xs) x \<Longrightarrow> (if isOneOf x xs then x else Undef) = x"
  by (rule absentOr_keep)

lemma keep_stage [keep_simps]: "absentOr isStage x \<Longrightarrow> (if isEvolutionStage x then x else Undef) = x"
  by (rule absentOr_keep) (auto simp: isEvolutionStage_def)

lemma keep_finite [keep_simps]: "absentOr finiteVal x \<Longrightarrow> (if isNumber x then x else Undef) = x"
  by (rule absentOr_keep [OF _ finiteVal_isNumber])

lemma keep_integer [keep_simps]: "absentOr integerVal x \<Longrightarrow> (if isNumber x then x else Undef) = x"
  by (rule absentOr_keep [OF _ integerVal_isNumber])

lemma keep_nonNegInt [keep_simps]: "absentOr nonNegInt x \<Longrightarrow> (if isNumber x then x else Undef) = x"
  by (rule absentOr_keep [OF _ nonNegInt_isNumber])

lemma keep_strings [keep_simps]:
  "absentOr stringArr x \<Longrightarrow> (if isArray x then stringsOf x else Undef) = x"
  by (auto simp: absentOr_def stringArr_stringsOf) (simp add: stringArr_def)

lemma keep_roles [keep_simps]:
  "isArray x \<Longrightarrow> list_all P (arrItems x) \<Longrightarrow> Arr (filter P (arrItems x)) = x"
  by (cases x) (auto simp: list_all_iff)

lemma toLower_idem [simp]: "toLower (toLower s) = toLower s"
proof -
  have "lowerChar (lowerChar c) = lowerChar c" for c
  proof -
    have "codeUnit (char_of n :: char) = n mod 256" for n :: nat by simp
    then show ?thesis unfolding lowerChar_def Let_def by (auto split: if_splits)
  qed
  then show ?thesis by (simp add: toLower_def)
qed

lemma isHexText_toLower: "isHexText lo hi s \<Longrightarrow> isHexText lo hi (toLower s)"
proof -
  have hex: "isHexChar (lowerChar c)" if "isHexChar c" for c
    using that unfolding isHexChar_def lowerChar_def Let_def by (auto simp: isDigitChar_def)
  show "isHexText lo hi s \<Longrightarrow> isHexText lo hi (toLower s)"
    using hex by (auto simp: isHexText_def toLower_def list_all_iff)
qed

lemma sha_lower [keep_simps]:
  "absentOr isSha256 x \<Longrightarrow> absentOr isSha256 (if isString x then lowerVal x else Undef)"
  by (auto simp: absentOr_def isSha256_def lowerVal_def isHexText_toLower)

lemma keepAs_lower [keep_simps]:
  "keepAs k isString lowerVal (if isString x then lowerVal x else Undef) = keepAs k isString lowerVal x"
  by (simp add: keepAs_def lowerVal_def)

lemma issuesOf_path [simp]:
  "issuesOf (validateEvolutionArtifactRelativePath v p) = []
     \<longleftrightarrow> isString v \<and> byteLength (strOf v) \<le> EVOLUTION_ARTIFACT_PATH_MAX_BYTES
         \<and> isEvolutionSafeRelativePath (strOf v)"
  by (auto simp: validateEvolutionArtifactRelativePath_def)

section \<open>The contract of a check and its normalization\<close>

locale normal_check =
  fixes check :: "jsval \<Rightarrow> string \<Rightarrow> evolutionIssue list"
    and norm :: "jsval \<Rightarrow> jsval"
  assumes path_free: "check v p = [] \<Longrightarrow> check v q = []"
    and normal_passes: "check v p = [] \<Longrightarrow> v \<noteq> Undef \<Longrightarrow> check (norm v) p = []"
    and normal_idem: "check v p = [] \<Longrightarrow> v \<noteq> Undef \<Longrightarrow> norm (norm v) = norm v"
    and passed_record: "check v p = [] \<Longrightarrow> v \<noteq> Undef \<Longrightarrow> isRecord v"
    and normal_record: "isRecord (norm v)"
begin

lemma path_irrelevant: "check v p = [] \<longleftrightarrow> check v q = []"
  using path_free by blast

lemma norm_not_Undef [simp]: "norm v \<noteq> Undef"
  using normal_record [of v] by auto

lemma each_iff: "eachIssue check v p = [] \<longleftrightarrow> (\<forall>x\<in>set (arrItems v). check x q = [])"
  unfolding eachIssue_def concatIndexed_Nil_iff all_set_conv_all_nth
  by (auto intro: path_free)

lemma each_normal:
  assumes "eachIssue check v p = []" and "Undef \<notin> set (arrItems v)"
  shows "eachIssue check (mapItems norm v) p' = []"
proof -
  have "\<forall>x\<in>set (arrItems v). check x [] = [] \<and> x \<noteq> Undef"
    using assms each_iff [of v p "[]"] by auto
  then show ?thesis
    unfolding each_iff [of "mapItems norm v" p' "[]"] by (auto simp: mapItems_def normal_passes)
qed

lemma each_idem:
  assumes "eachIssue check v p = []" and "Undef \<notin> set (arrItems v)"
  shows "mapItems norm (mapItems norm v) = mapItems norm v"
proof -
  have "\<forall>x\<in>set (arrItems v). check x [] = [] \<and> x \<noteq> Undef"
    using assms each_iff [of v p "[]"] by auto
  then show ?thesis by (auto simp: mapItems_def normal_idem)
qed

text \<open>An optional member: checked when present, normalized when it is an object.\<close>

lemma optional_normal:
  assumes "v \<noteq> Undef \<Longrightarrow> check v p = []"
  shows "(if isRecord v then norm v else Undef) \<noteq> Undef
    \<Longrightarrow> check (if isRecord v then norm v else Undef) q = []"
  using assms normal_passes path_free [of "norm v" p q] by (cases "isRecord v"; cases v) auto

lemma optional_idem:
  assumes "v \<noteq> Undef \<Longrightarrow> check v p = []"
  shows "keepAs k isRecord norm (if isRecord v then norm v else Undef) = keepAs k isRecord norm v"
  using assms normal_idem [of v p] by (cases "isRecord v"; cases v) (simp_all add: keepAs_def normal_record)

lemma list_normal:
  assumes "listIssues code bound check v p = []" and "Undef \<notin> set (arrItems v)"
  shows "listIssues code bound check (mapItems norm v) p' = []"
  using assms each_normal [of v p p'] by (auto simp: listIssues_def mapItems_def split: option.splits)

lemma list_idem:
  assumes "listIssues code bound check v p = []" and "Undef \<notin> set (arrItems v)"
  shows "mapItems norm (mapItems norm v) = mapItems norm v"
  using assms each_idem [of v p] by (auto simp: listIssues_def)

end

text \<open>A check that also rejects the undefined value.\<close>

locale strict_check = normal_check +
  assumes undefined_fails: "check Undef p \<noteq> []"
begin

lemma no_undefined:
  assumes "eachIssue check v p = []"
  shows "Undef \<notin> set (arrItems v)"
  using assms undefined_fails unfolding each_iff [of v p "[]"] by auto

lemma strict_list_normal:
  "listIssues code bound check v p = [] \<Longrightarrow> listIssues code bound check (mapItems norm v) p = []"
  using list_normal no_undefined by (auto simp: listIssues_def)

lemma strict_list_idem:
  "listIssues code bound check v p = [] \<Longrightarrow> mapItems norm (mapItems norm v) = mapItems norm v"
  using list_idem no_undefined by (auto simp: listIssues_def)

end

lemma keep_unchecked [keep_simps]:
  "keep k isString (if isString x then x else Undef) = keep k isString x"
  by (simp add: keep_def)

lemma defaulted_time [keep_simps]:
  "absentOr finiteVal x \<Longrightarrow> absentOr finiteVal (if isNumber x then x else Number (numOf i))"
  "(if isNumber (if isNumber x then x else Number n) then (if isNumber x then x else Number n)
    else Number m) = (if isNumber x then x else Number n)"
  by (simp_all add: absentOr_def finiteVal_def)

lemma list_all_filter [keep_simps]: "list_all P (filter P xs)"
  by (simp add: list_all_iff)

lemma bool_again [keep_simps]: "isBool x \<Longrightarrow> Bool (x = Bool True) = x"
  by (cases x) auto

interpretation auto_delivery: normal_check validateAutoDeliveryPolicy normalizeAutoDeliveryPolicy
  by unfold_locales (simp_all add: validateAutoDeliveryPolicy_def normalizeAutoDeliveryPolicy_def
      fld_simps keep_simps del: fld.simps split del: if_split split: if_split_asm cong: if_cong)

interpretation staging_delivery: normal_check validateStagingDeliveryState normalizeStagingDeliveryState
  by unfold_locales (simp_all add: validateStagingDeliveryState_def normalizeStagingDeliveryState_def
      fld_simps keep_simps del: fld.simps split del: if_split split: if_split_asm cong: if_cong)

interpretation role_state: strict_check validateRoleState "(normalizeRoleState nowMs)" for nowMs
  by unfold_locales (simp_all add: validateRoleState_def normalizeRoleState_def
      fld_simps keep_simps del: fld.simps split del: if_split split: if_split_asm cong: if_cong)

interpretation artifact_preview: strict_check validateArtifactPreview normalizeArtifactPreview
  by unfold_locales (simp_all add: validateArtifactPreview_def normalizeArtifactPreview_def
      fld_simps keep_simps del: fld.simps split del: if_split split: if_split_asm cong: if_cong)

interpretation score: strict_check validateScore normalizeScore
  by unfold_locales (simp_all add: validateScore_def normalizeScore_def EVOLUTION_SCORE_MAX_def
      fld_simps keep_simps del: fld.simps split del: if_split split: if_split_asm cong: if_cong)

interpretation blocking_question: strict_check validateBlockingQuestion normalizeBlockingQuestion
  by unfold_locales (simp_all add: validateBlockingQuestion_def normalizeBlockingQuestion_def
      fld_simps keep_simps del: fld.simps split del: if_split split: if_split_asm cong: if_cong)

interpretation discussion_message: strict_check validateDiscussionMessage normalizeDiscussionMessage
  by unfold_locales (simp_all add: validateDiscussionMessage_def normalizeDiscussionMessage_def
      fld_simps keep_simps del: fld.simps split del: if_split split: if_split_asm cong: if_cong)

interpretation roundtable_ref: strict_check validateRoundtableRef normalizeRoundtableRef
  by unfold_locales (simp_all add: validateRoundtableRef_def normalizeRoundtableRef_def
      fld_simps keep_simps del: fld.simps split del: if_split split: if_split_asm cong: if_cong)

interpretation evidence_item: strict_check validateEvidence normalizeEvidence
  by unfold_locales (simp_all add: validateEvidence_def normalizeEvidence_def
      fld_simps keep_simps del: fld.simps split del: if_split split: if_split_asm cong: if_cong)

interpretation timeline_item: strict_check validateExecutionTimelineItem normalizeExecutionTimelineItem
  by unfold_locales (simp_all add: validateExecutionTimelineItem_def normalizeExecutionTimelineItem_def
      fld_simps keep_simps del: fld.simps split del: if_split split: if_split_asm cong: if_cong)

interpretation live_progress: strict_check validateLiveEventProgress normalizeLiveEventProgress
  by unfold_locales (simp_all add: validateLiveEventProgress_def normalizeLiveEventProgress_def
      fld_simps keep_simps del: fld.simps split del: if_split split: if_split_asm cong: if_cong)

interpretation evolution_budget: strict_check validateBudget normalizeBudget
  by unfold_locales (simp_all add: validateBudget_def normalizeBudget_def
      fld_simps keep_simps del: fld.simps split del: if_split split: if_split_asm cong: if_cong)

interpretation loop_usage: strict_check validateLoopControlUsage normalizeLoopControlUsage
  by unfold_locales (simp_all add: validateLoopControlUsage_def normalizeLoopControlUsage_def USAGE_KEYS_def
      fld_simps keep_simps del: fld.simps split del: if_split split: if_split_asm cong: if_cong)

interpretation loop_signal: strict_check validateLoopControlSignal normalizeLoopControlSignal
  by unfold_locales (simp_all add: validateLoopControlSignal_def normalizeLoopControlSignal_def
      fld_simps keep_simps del: fld.simps split del: if_split split: if_split_asm cong: if_cong)

section \<open>Checks with parts\<close>

lemma optional_issues_Nil [simp]:
  "((if v \<noteq> Undef then c else []) = []) \<longleftrightarrow> (v \<noteq> Undef \<longrightarrow> c = [])"
  "((if v = Undef then [] else c) = []) \<longleftrightarrow> (v \<noteq> Undef \<longrightarrow> c = [])"
  by simp_all

interpretation artifact_ref: strict_check validateArtifactRef normalizeArtifactRef
proof
  fix v p q
  show "isRecord (normalizeArtifactRef v)" by (simp add: normalizeArtifactRef_def)
  show "validateArtifactRef Undef p \<noteq> []" by (simp add: validateArtifactRef_def)
  assume v: "validateArtifactRef v p = []"
  show "isRecord v" using v by (simp add: validateArtifactRef_def split: if_splits)
  have pv: "fld v ''preview'' \<noteq> Undef \<Longrightarrow> validateArtifactPreview (fld v ''preview'') (p @ ''.preview'') = []"
    using v by (simp add: validateArtifactRef_def split: if_splits)
  note facts = artifact_preview.optional_normal [OF pv] artifact_preview.optional_idem [OF pv]
    artifact_preview.path_free [OF pv, of "q @ ''.preview''"]
  show "validateArtifactRef v q = []"
    using v facts(3) by (simp add: validateArtifactRef_def split: if_split_asm)
  from v show "validateArtifactRef (normalizeArtifactRef v) p = []"
    by (simp add: validateArtifactRef_def normalizeArtifactRef_def fld_simps keep_simps facts(1)
        del: fld.simps split del: if_split split: if_split_asm cong: if_cong)
  from v show "normalizeArtifactRef (normalizeArtifactRef v) = normalizeArtifactRef v"
    by (simp add: validateArtifactRef_def normalizeArtifactRef_def fld_simps keep_simps facts(2)
        del: fld.simps split del: if_split split: if_split_asm cong: if_cong)
qed

interpretation live_event: strict_check validateLiveEvent normalizeLiveEvent
proof
  fix v p q
  show "isRecord (normalizeLiveEvent v)" by (simp add: normalizeLiveEvent_def)
  show "validateLiveEvent Undef p \<noteq> []" by (simp add: validateLiveEvent_def)
  assume v: "validateLiveEvent v p = []"
  show "isRecord v" using v by (simp add: validateLiveEvent_def split: if_splits)
  have pg: "fld v ''progress'' \<noteq> Undef \<Longrightarrow> validateLiveEventProgress (fld v ''progress'') (p @ ''.progress'') = []"
    using v by (simp add: validateLiveEvent_def split: if_splits)
  note facts = live_progress.optional_normal [OF pg] live_progress.optional_idem [OF pg]
    live_progress.path_free [OF pg, of "q @ ''.progress''"]
  show "validateLiveEvent v q = []"
    using v facts(3) by (simp add: validateLiveEvent_def split: if_split_asm)
  from v show "validateLiveEvent (normalizeLiveEvent v) p = []"
    by (simp add: validateLiveEvent_def normalizeLiveEvent_def fld_simps keep_simps facts(1)
        del: fld.simps split del: if_split split: if_split_asm cong: if_cong)
  from v show "normalizeLiveEvent (normalizeLiveEvent v) = normalizeLiveEvent v"
    by (simp add: validateLiveEvent_def normalizeLiveEvent_def fld_simps keep_simps facts(2)
        del: fld.simps split del: if_split split: if_split_asm cong: if_cong)
qed

lemma isArray_mapItems [simp]: "isArray (mapItems f v)" "length (arrItems (mapItems f v)) = length (arrItems v)"
  by (simp_all add: mapItems_def)

lemma map_is_mapItems: "Arr (map f (arrItems v)) = mapItems f v"
  by (simp add: mapItems_def)

interpretation loop_control: strict_check validateLoopControl normalizeLoopControl
proof
  fix v p q
  show "isRecord (normalizeLoopControl v)" by (simp add: normalizeLoopControl_def)
  show "validateLoopControl Undef p \<noteq> []" by (simp add: validateLoopControl_def)
  assume v: "validateLoopControl v p = []"
  show "isRecord v" using v by (simp add: validateLoopControl_def split: if_splits)
  have parts: "validateBudget (fld v ''budget'') (p @ ''.budget'') = []"
      "validateLoopControlUsage (fld v ''usage'') (p @ ''.usage'') = []"
      "eachIssue validateLoopControlSignal (fld v ''signals'') (p @ ''.signals'') = []"
    using v by (simp_all add: validateLoopControl_def split: if_splits)
  note each = loop_signal.each_iff [of _ _ "[]"]
  have undef: "fld v ''budget'' \<noteq> Undef" "fld v ''usage'' \<noteq> Undef"
    using parts(1,2) evolution_budget.undefined_fails loop_usage.undefined_fails by metis+
  note passes = evolution_budget.normal_passes [OF parts(1) undef(1)]
    loop_usage.normal_passes [OF parts(2) undef(2)]
    loop_signal.each_normal [OF parts(3) loop_signal.no_undefined [OF parts(3)]]
  note idem = evolution_budget.normal_idem [OF parts(1) undef(1)]
    loop_usage.normal_idem [OF parts(2) undef(2)]
    loop_signal.each_idem [OF parts(3) loop_signal.no_undefined [OF parts(3)]]
  show "validateLoopControl v q = []"
    using v parts evolution_budget.path_free [OF parts(1)] loop_usage.path_free [OF parts(2)]
    by (simp add: validateLoopControl_def each split: if_split_asm)
  from v show "validateLoopControl (normalizeLoopControl v) p = []"
    by (simp add: validateLoopControl_def normalizeLoopControl_def fld_simps keep_simps passes
        map_is_mapItems del: fld.simps split del: if_split split: if_split_asm cong: if_cong)
  from v show "normalizeLoopControl (normalizeLoopControl v) = normalizeLoopControl v"
    by (simp add: validateLoopControl_def normalizeLoopControl_def fld_simps idem
        map_is_mapItems del: fld.simps split: if_split_asm)
qed

section \<open>The whole projection\<close>

lemma withPath_Nil [simp]: "withPath p xs = [] \<longleftrightarrow> xs = []" "withPathOr a b xs = [] \<longleftrightarrow> xs = []"
  by (simp_all add: withPath_def withPathOr_def)

lemma issuesOf_Nil_iff: "issuesOf r = [] \<longleftrightarrow> (\<exists>s. r = Inr s) \<or> r = Inl []"
  by (cases r) auto

lemma source_normal:
  "sourceIssues v = [] \<Longrightarrow> sourceIssues (normalizeSource v) = []"
  by (simp add: sourceIssues_def normalizeSource_def fld_simps keep_simps
      del: fld.simps split del: if_split split: if_split_asm cong: if_cong)

lemma source_idem:
  "sourceIssues v = [] \<Longrightarrow> normalizeSource (normalizeSource v) = normalizeSource v"
  by (simp add: sourceIssues_def normalizeSource_def fld_simps keep_simps
      del: fld.simps split del: if_split split: if_split_asm cong: if_cong)

lemmas lists_normal = role_state.strict_list_normal artifact_ref.strict_list_normal
  score.strict_list_normal blocking_question.strict_list_normal
  discussion_message.strict_list_normal roundtable_ref.strict_list_normal
  evidence_item.strict_list_normal timeline_item.strict_list_normal live_event.strict_list_normal

lemmas lists_idem = role_state.strict_list_idem artifact_ref.strict_list_idem
  score.strict_list_idem blocking_question.strict_list_idem
  discussion_message.strict_list_idem roundtable_ref.strict_list_idem
  evidence_item.strict_list_idem timeline_item.strict_list_idem live_event.strict_list_idem

lemma role_state_norm_twice:
  "validateRoleState v p = [] \<Longrightarrow> normalizeRoleState n (normalizeRoleState m v) = normalizeRoleState m v"
  by (simp add: validateRoleState_def normalizeRoleState_def fld_simps keep_simps
      del: fld.simps split del: if_split split: if_split_asm cong: if_cong)

lemma roles_idem:
  assumes "listIssues code bound validateRoleState v p = []"
  shows "mapItems (normalizeRoleState n) (mapItems (normalizeRoleState m) v)
    = mapItems (normalizeRoleState m) v"
proof -
  have "\<forall>x\<in>set (arrItems v). validateRoleState x [] = []"
    using assms role_state.each_iff [of v p "[]"] by (auto simp: listIssues_def)
  then show ?thesis by (auto simp: mapItems_def role_state_norm_twice)
qed

lemma loop_control_parts:
  assumes "validateLoopControl v p = []"
  shows "validateLoopControl (normalizeLoopControl v) p = []"
    "normalizeLoopControl (normalizeLoopControl v) = normalizeLoopControl v"
proof -
  have "v \<noteq> Undef" using assms loop_control.undefined_fails by metis
  then show "validateLoopControl (normalizeLoopControl v) p = []"
    "normalizeLoopControl (normalizeLoopControl v) = normalizeLoopControl v"
    using assms loop_control.normal_passes loop_control.normal_idem by blast+
qed

lemma policy_normal:
  assumes "validateAutoDeliveryPolicy v p = []"
  shows "validateAutoDeliveryPolicy (if isRecord v then normalizeAutoDeliveryPolicy v else Undef) p = []"
    "keepAs k isRecord normalizeAutoDeliveryPolicy
        (if isRecord v then normalizeAutoDeliveryPolicy v else Undef)
      = keepAs k isRecord normalizeAutoDeliveryPolicy v"
proof -
  show "validateAutoDeliveryPolicy (if isRecord v then normalizeAutoDeliveryPolicy v else Undef) p = []"
    using assms auto_delivery.normal_passes [of v p]
    by (cases "isRecord v"; cases v) (simp_all add: validateAutoDeliveryPolicy_def)
  show "keepAs k isRecord normalizeAutoDeliveryPolicy
        (if isRecord v then normalizeAutoDeliveryPolicy v else Undef)
      = keepAs k isRecord normalizeAutoDeliveryPolicy v"
    by (rule auto_delivery.optional_idem) (rule assms)
qed

lemma staging_normal:
  assumes "validateStagingDeliveryState v p = []"
  shows "validateStagingDeliveryState (if isRecord v then normalizeStagingDeliveryState v else Undef) p = []"
    "keepAs k isRecord normalizeStagingDeliveryState
        (if isRecord v then normalizeStagingDeliveryState v else Undef)
      = keepAs k isRecord normalizeStagingDeliveryState v"
proof -
  show "validateStagingDeliveryState (if isRecord v then normalizeStagingDeliveryState v else Undef) p = []"
    using assms staging_delivery.normal_passes [of v p]
    by (cases "isRecord v"; cases v) (simp_all add: validateStagingDeliveryState_def)
  show "keepAs k isRecord normalizeStagingDeliveryState
        (if isRecord v then normalizeStagingDeliveryState v else Undef)
      = keepAs k isRecord normalizeStagingDeliveryState v"
    by (rule staging_delivery.optional_idem) (rule assms)
qed

lemma projection_passes_again:
  "projectionIssues v = [] \<Longrightarrow> projectionIssues (normalizeProjection n v) = []"
  unfolding projectionIssues_def append_is_Nil_conv
  by (elim conjE) (simp add: normalizeProjection_def fld_simps keep_simps lists_normal
      source_normal loop_control_parts policy_normal staging_normal
      del: fld.simps split del: if_split cong: if_cong)

lemma projection_normal_again:
  "projectionIssues v = [] \<Longrightarrow> normalizeProjection m (normalizeProjection n v) = normalizeProjection n v"
  unfolding projectionIssues_def append_is_Nil_conv
  by (elim conjE) (simp add: normalizeProjection_def fld_simps keep_simps lists_idem roles_idem
      source_idem loop_control_parts policy_normal staging_normal
      del: fld.simps split del: if_split cong: if_cong)

end
