(* ===== verification/EvoProps.thy ===== *)
theory EvoProps
  imports EvoExample EvoCheckFacts
begin

text \<open>
  The properties of the evolution pipeline that speak of its machine: what every reachable run
  satisfies, how turns move the stage of a run, and what leads to production.
\<close>

section \<open>Every reachable run\<close>



text \<open>C28: In every reachable state each run in memory shows all eleven roles, each with exactly the status that its
  role has at the stage the run is in: no operation moves the stage without updating the role board.\<close>

theorem role_board_follows_stage:
  assumes "evoReachable env s" and "getRuntimeEntry rid (es_world s) = Some e"
  shows "map ro_roleId (run_roles (rn_run e)) = EVOLUTION_ROLE_IDS
    \<and> list_all (\<lambda>x. ro_status x = roleStatusForStage (ro_roleId x) (run_stage (rn_run e))) (run_roles (rn_run e))"
  using every_entry [OF agree.reachable_kept [OF assms(1)] assms(2)] by (simp add: rolesAgree_def list_all_iff)

theorem role_board_follows_stage_witness:
  "list_all (\<lambda>x. ro_status x = roleStatusForStage (ro_roleId x) Es_detected) (run_roles demoRun)"
  using role_board_follows_stage [OF demo_reachable demo_run] by (simp add: demoRun_def newRun_def Let_def)

text \<open>C29: Every run that was ever saved by a reachable state has a valid run id and a requirement path that is a safe
  relative path with an accepted extension below the inbox, so the path checked at launch is still the one on disk.\<close>

theorem saved_run_has_accepted_identity:
  assumes "evoReachable env s" and "readEvolutionRun dir rid (es_world s) = Some run"
  shows "validateEvolutionRunId (Str (run_runId run)) = Inr (run_runId run)
    \<and> isEvolutionSafeRelativePath (sd_relativePath (run_source run))
    \<and> startsWith (sd_relativePath (run_source run)) (EVOLUTION_REQUIREMENT_INBOX_DIR @ ''/'')
    \<and> extensionOf (sd_relativePath (run_source run)) \<in> set EVOLUTION_REQUIREMENT_FILE_EXTENSIONS"
proof -
  have "acceptedIdentity run"
    using every_disk [OF identity.reachable_kept [OF assms(1)]] assms(2) by (simp add: readEvolutionRun_def)
  then have "validateEvolutionRunId (Str (run_runId run)) = Inr (run_runId run)"
    and issues: "sourcePathIssues (sd_relativePath (run_source run)) = []"
    by (simp_all add: acceptedIdentity_def)
  moreover have "trim (sd_relativePath (run_source run)) = sd_relativePath (run_source run)"
    using issues by (simp add: sourcePathIssues_def Let_def pushIf_def split: if_split_asm)
  ultimately show ?thesis
    by (simp add: sourcePathIssues_def Let_def pushIf_def inboxPrefix_def split: if_split_asm)
qed

lemma demo_saved: "readEvolutionRun ''/p'' ''evo-1'' (es_world demoState) = Some demoRun"
proof -
  have "normalizeEvolutionLaunchRequest [''p''] demoInput = demoInput" and "pathText [''p''] = ''/p''" by code_simp+
  moreover have "run_runId demoRun = ''evo-1''" by (simp add: demoRun_def newRun_def Let_def)
  ultimately show ?thesis
    using demo_created by (simp add: readEvolutionRun_def demoState_def demoWorld_def launchEvolutionRun_def
        demo_request Let_def emptyState_def upsertRuntime_def)
qed

theorem saved_run_has_accepted_identity_witness:
  "startsWith (sd_relativePath (run_source demoRun)) ''.imcodes/inbox/requirements/''"
  using saved_run_has_accepted_identity [OF demo_reachable demo_saved] by (simp add: EVOLUTION_REQUIREMENT_INBOX_DIR_def)

section \<open>Moves of the stage\<close>

text \<open>C6: A turn that does not load runs changes no run but the one it is about, and moves the stage of that run only
  along the stage table, in one step or several. The exceptions are turns that resume after waiting, which may also put
  a run into needs_human, and a failed planning, which may put it into failed, both from any stage.\<close>

theorem turn_follows_stage_table:
  assumes "evoStep env s l s'" and "\<not> loads l" and "getRuntimeEntry rid (es_world s) = Some e"
  shows "\<exists>e'. getRuntimeEntry rid (es_world s') = Some e' \<and> (e' = e \<or> rid = labelRun l
    \<and> (canTransitionEvolutionStage\<^sup>*\<^sup>* (run_stage (rn_run e)) (run_stage (rn_run e'))
       \<or> resumes l \<and> run_stage (rn_run e') = Es_needs_human
       \<or> l = Lb_plan_failed rid \<and> run_stage (rn_run e') = Es_failed))"
  using turnD [OF step_turn [OF assms(1,2)] assms(3)] move_in_table [of l "rn_run e"] by metis

lemma demo_stop:
  assumes "holds run s" and "\<not> terminalStage (run_stage run)"
  shows "\<exists>s' e'. evoStep demoEnv s (Lb_stop ''evo-1'') s' \<and> evoReachable demoEnv s'
    \<and> getRuntimeEntry ''evo-1'' (es_world s') = Some e' \<and> run_stage (rn_run e') = Es_stopped"
proof -
  have valid: "validateEvolutionRunId (Str ''evo-1'') = Inr ''evo-1''" by code_simp
  have can: "canTransitionEvolutionStage (run_stage run) Es_stopped"
    using assms(2) by (cases "run_stage run") (simp_all add: canTransitionEvolutionStage_def EVOLUTION_TERMINAL_STAGES_def)
  then have "run_stage run \<noteq> Es_stopped" by (auto simp: canTransitionEvolutionStage_def)
  let ?c = "stopEvolutionRun demoEnv (\<lambda>_. True) ''evo-1'' None 500 (es_world s)"
  have step: "evoStep demoEnv \<lparr>es_world = es_world s, es_flights = es_flights s\<rparr> (Lb_stop ''evo-1'') (stayPut (es_flights s) ?c)"
    by (rule evoStep.stop)
  have "\<exists>e'. getRuntimeEntry ''evo-1'' (snd ?c) = Some e' \<and> run_stage (rn_run e') = Es_stopped"
    using assms can \<open>run_stage run \<noteq> Es_stopped\<close>
    by (simp add: stopEvolutionRun_def advanceEvolutionRunStage_def onRun_def valid validateEvolutionStageTransition_def
        persisted_entry stage_simps)
  moreover have "evoReachable demoEnv (stayPut (es_flights s) ?c)" using assms(1) step by (blast intro: reach_step)
  ultimately show ?thesis using step by (intro exI [of _ "stayPut (es_flights s) ?c"]) (cases s, auto)
qed

lemma demo_holds: "holds demoRun demoState"
  using demo_reachable demo_run by simp

lemma demo_stage: "run_stage demoRun = Es_detected"
  by (simp add: demoRun_def newRun_def Let_def)

theorem turn_follows_stage_table_witness:
  "\<exists>s' e'. evoStep demoEnv demoState (Lb_stop ''evo-1'') s' \<and> getRuntimeEntry ''evo-1'' (es_world s') = Some e'
     \<and> canTransitionEvolutionStage\<^sup>*\<^sup>* Es_detected (run_stage (rn_run e'))"
proof -
  obtain s' where "evoStep demoEnv demoState (Lb_stop ''evo-1'') s'"
    using demo_stop [OF demo_holds] by (auto simp: demo_stage EVOLUTION_TERMINAL_STAGES_def)
  with turn_follows_stage_table [OF this _ demo_run] show ?thesis
    by (fastforce simp: loads_def resumes_def demo_stage)
qed

text \<open>C30: A run that is deployed, failed or stopped stays so under every turn that does not load runs, except that a
  turn resuming after a wait (the end of a staging delivery, of a launch of the automatic delivery, of the follow-up of a
  report, of a strict gate's check) may put it into needs_human, and a failing planning into failed.\<close>

theorem terminal_run_is_left_only_after_a_wait:
  assumes "evoStep env s l s'" and "\<not> loads l" and "getRuntimeEntry rid (es_world s) = Some e"
    and "terminalStage (run_stage (rn_run e))"
  shows "\<exists>e'. getRuntimeEntry rid (es_world s') = Some e' \<and> (run_stage (rn_run e') = run_stage (rn_run e)
    \<or> rid = labelRun l \<and> (resumes l \<and> run_stage (rn_run e') = Es_needs_human
       \<or> l = Lb_plan_failed rid \<and> run_stage (rn_run e') = Es_failed))"
  using turnD [OF step_turn [OF assms(1,2)] assms(3)] terminal_move [OF _ assms(4), of l] by metis

theorem terminal_run_is_left_only_after_a_wait_witness:
  "\<exists>s s' e'. evoReachable demoEnv s \<and> evoStep demoEnv s (Lb_pause ''evo-1'') s'
     \<and> getRuntimeEntry ''evo-1'' (es_world s') = Some e' \<and> run_stage (rn_run e') = Es_stopped"
proof -
  obtain s e where s: "evoReachable demoEnv s" "getRuntimeEntry ''evo-1'' (es_world s) = Some e" "run_stage (rn_run e) = Es_stopped"
    using demo_stop [OF demo_holds] by (auto simp: demo_stage EVOLUTION_TERMINAL_STAGES_def)
  have step: "evoStep demoEnv s (Lb_pause ''evo-1'') (stayPut (es_flights s)
      (pauseEvolutionRun demoEnv (\<lambda>_. True) ''evo-1'' None 600 (es_world s)))"
    using evoStep.pause [where w = "es_world s"] by (cases s) auto
  from terminal_run_is_left_only_after_a_wait [OF step _ s(2)] show ?thesis
    using s(1,3) step by (fastforce simp: loads_def resumes_def EVOLUTION_TERMINAL_STAGES_def)
qed

section \<open>Production\<close>

text \<open>C3: A run reaches production in no way but by a user continuing it at the human release gate, and when it gets
  there it holds the release record of that approval, as an artifact and as evidence that refers to it. OpenSpec
  reports, staging results, planning and a continue aimed at production from another stage never lead there.\<close>

theorem production_needs_human_release:
  assumes "evoReachable env s" and "evoStep env s l s'" and "\<not> loads l"
    and "getRuntimeEntry rid (es_world s) = Some e" and "getRuntimeEntry rid (es_world s') = Some e'"
    and "run_stage (rn_run e) \<noteq> Es_deployed_production" and "run_stage (rn_run e') = Es_deployed_production"
  shows "l = Lb_continue rid \<and> run_stage (rn_run e) = Es_human_release_gate \<and> releaseRecorded (rn_run e')"
proof -
  have "rid = labelRun l" "labelMove l (rn_run e) (rn_run e')"
    using turnD [OF step_turn [OF assms(2,3)] assms(4)] assms(5-7) by auto
  then have gate: "l = Lb_continue rid" "run_stage (rn_run e) = Es_human_release_gate"
    using production_move [of l "rn_run e" "rn_run e'"] assms(6,7) by auto
  moreover have "length (run_artifacts (rn_run e)) \<le> EVOLUTION_ARTIFACTS_MAX"
    using every_entry [OF bounded.reachable_kept [OF assms(1)] assms(4)]
    by (simp add: boundedRun_def EVOLUTION_ARTIFACTS_MAX_def)
  ultimately show ?thesis using continue_step [of env s rid s'] assms(2,4,5,7) release_entry by metis
qed

lemma demo_release:
  assumes "holds demoGate s"
  shows "\<exists>s' e'. evoStep demoEnv s (Lb_continue ''evo-1'') s'
    \<and> getRuntimeEntry ''evo-1'' (es_world s') = Some e' \<and> run_stage (rn_run e') = Es_deployed_production"
proof -
  have valid: "validateEvolutionRunId (Str ''evo-1'') = Inr ''evo-1''" by code_simp
  have can: "canTransitionEvolutionStage Es_human_release_gate Es_deployed_production" by code_simp
  let ?c = "continueEvolutionRun demoEnv (\<lambda>_. True) ''evo-1'' None None 500 (es_world s)"
  have "evoStep demoEnv s (Lb_continue ''evo-1'') (stayPut (es_flights s) ?c)"
    using evoStep.cont [where w = "es_world s"] by (cases s) auto
  moreover have "\<exists>e'. getRuntimeEntry ''evo-1'' (snd ?c) = Some e' \<and> run_stage (rn_run e') = Es_deployed_production"
    using assms can by (simp add: continueEvolutionRun_def continueRelease_def Let_def advanceEvolutionRunStage_def
        onRun_def valid validateEvolutionStageTransition_def persisted_entry entry_setRun stage_simps stage_gate)
  ultimately show ?thesis by (intro exI [of _ "stayPut (es_flights s) ?c"]) auto
qed

theorem production_needs_human_release_witness:
  "\<exists>s s' e'. evoReachable demoEnv s \<and> evoStep demoEnv s (Lb_continue ''evo-1'') s'
     \<and> getRuntimeEntry ''evo-1'' (es_world s') = Some e' \<and> releaseRecorded (rn_run e')"
proof -
  obtain s where s: "holds demoGate s" using gate_reached ..
  then obtain s' e' where s': "evoStep demoEnv s (Lb_continue ''evo-1'') s'"
    "getRuntimeEntry ''evo-1'' (es_world s') = Some e'" "run_stage (rn_run e') = Es_deployed_production"
    using demo_release by blast
  then have "releaseRecorded (rn_run e')"
    using s production_needs_human_release [of demoEnv s "Lb_continue ''evo-1''" s' "''evo-1''"]
    by (simp add: loads_def stage_gate)
  with s s' show ?thesis by blast
qed

end
