(* ===== verification/EvoRunFacts.thy ===== *)
theory EvoRunFacts
  imports EvoExample
begin

text \<open>
  Single operations on a run: pausing and continuing, and the way through the planning stages.
\<close>

section \<open>Pausing and continuing\<close>

lemma firstPause_None: "firstPause run qs = None \<longleftrightarrow> list_all (\<lambda>q. pauseQuestionStage run (bq_id q) = None) qs"
  by (induction qs) (auto split: option.split)

lemma pauseQuestionStage_id: "run_runId r = run_runId r' \<Longrightarrow> pauseQuestionStage r = pauseQuestionStage r'"
  by (rule ext) (simp add: pauseQuestionStage_def)

lemma paused_questions: "run_blockingQuestions (pausedRun env reason now r)
    = filter (\<lambda>q. pauseQuestionStage r (bq_id q) = None) (run_blockingQuestions r)
      @ [\<lparr>bq_id = pauseQuestionId (run_runId r) (run_stage r), bq_stage = run_stage r,
          bq_roleId = Some Er_loop_supervisor, bq_question = en_text env (Tx_pause_question (run_stage r)), bq_createdAt = now\<rparr>]"
  by (simp add: pausedRun_def Let_def frame_simps)

lemma paused_id: "run_runId (pausedRun env reason now r) = run_runId r"
  by (simp add: pausedRun_def Let_def frame_simps)

lemma paused_target: "inferHumanContinueTargetStage ((pausedRun env reason now r)\<lparr>run_updatedAt := t\<rparr>) = run_stage r"
proof -
  let ?r = "(pausedRun env reason now r)\<lparr>run_updatedAt := t\<rparr>"
  have "pauseQuestionStage ?r = pauseQuestionStage r" by (rule pauseQuestionStage_id) (simp add: paused_id)
  then show ?thesis by (simp add: inferHumanContinueTargetStage_def findUserPauseQuestion_def paused_questions)
qed

lemma released_id: "run_runId (releasedRun env t m now r) = run_runId r"
proof -
  have "run_runId (foldl (\<lambda>s x. releaseRoundtable env t m now x s) s xs) = run_runId s" for s xs
    by (induction xs arbitrary: s) (simp_all add: releaseRoundtable_def Let_def frame_simps)
  moreover have "run_runId (releaseUserPauseGateForHumanContinue env t m now r) = run_runId r"
    by (simp add: releaseUserPauseGateForHumanContinue_def Let_def frame_simps split: option.split)
  ultimately show ?thesis by (simp add: releasedRun_def releaseRoundtableGateForHumanContinue_def)
qed

lemma released_pause: "findUserPauseQuestion (releasedRun env t m now r) = None"
proof -
  let ?r = "releaseUserPauseGateForHumanContinue env t m now r"
  have "\<forall>q \<in> set (run_blockingQuestions ?r). pauseQuestionStage r (bq_id q) = None"
    using firstPause_None [of r "rev (run_blockingQuestions r)"]
    by (auto simp: releaseUserPauseGateForHumanContinue_def Let_def frame_simps findUserPauseQuestion_def list_all_iff
        split: option.split)
  moreover have "set (run_blockingQuestions (foldl (\<lambda>s x. releaseRoundtable env t m now x s) s xs)) \<subseteq> set (run_blockingQuestions s)" for s xs
  proof (induction xs arbitrary: s)
    case (Cons x xs)
    have "set (run_blockingQuestions (releaseRoundtable env t m now x s)) \<subseteq> set (run_blockingQuestions s)"
      by (auto simp: releaseRoundtable_def Let_def frame_simps)
    then show ?case using Cons [of "releaseRoundtable env t m now x s"] by auto
  qed simp
  ultimately have "\<forall>q \<in> set (run_blockingQuestions (releasedRun env t m now r)). pauseQuestionStage r (bq_id q) = None"
    unfolding releasedRun_def releaseRoundtableGateForHumanContinue_def by blast
  then show ?thesis using pauseQuestionStage_id [OF released_id]
    by (simp add: findUserPauseQuestion_def firstPause_None list_all_iff)
qed

lemma pause_entry:
  assumes "getRuntimeEntry rid w = Some e" and "validateEvolutionRunId (Str rid) = Inr rid"
    and "\<not> terminalStage (run_stage (rn_run e))" and "run_stage (rn_run e) \<noteq> Es_needs_human"
  shows "getRuntimeEntry rid (snd (pauseEvolutionRun env fs rid reason now w))
    = Some (e\<lparr>rn_run := (pausedRun env reason now (rn_run e))\<lparr>run_updatedAt := now\<rparr>\<rparr>)"
  using assms by (simp add: pauseEvolutionRun_def onRun_def Let_def persisted_entry)

lemma continue_entry:
  assumes "getRuntimeEntry rid w = Some e" and "validateEvolutionRunId (Str rid) = Inr rid"
    and "run_stage (rn_run e) = Es_needs_human" and "t = inferHumanContinueTargetStage (rn_run e)"
    and "t \<noteq> Es_needs_human"
  shows "getRuntimeEntry rid (snd (continueEvolutionRun env fs rid None m now w)) = Some (e\<lparr>rn_run :=
    (let r = releasedRun env t m now (rn_run e) in
     if canTransitionEvolutionStage Es_needs_human t then (advancedRun env t
       (Some (orText m (''Human gate resolved; continuing at '' @ stageText t @ ''.''))) now r)\<lparr>run_updatedAt := now\<rparr>
     else r)\<rparr>)"
  using assms by (simp add: continueEvolutionRun_def advanceEvolutionRunStage_def onRun_def Let_def persisted_entry
      entry_setRun stage_simps validateEvolutionStageTransition_def)

lemma continue_outcome:
  assumes "getRuntimeEntry rid w = Some e" and "validateEvolutionRunId (Str rid) = Inr rid"
    and "run_stage (rn_run e) = Es_needs_human" and "t = inferHumanContinueTargetStage (rn_run e)"
    and "t \<noteq> Es_needs_human" and "\<not> canTransitionEvolutionStage Es_needs_human t"
  shows "fst (continueEvolutionRun env fs rid None m now w) = Evo_failed [issueOf ''invalid_stage_transition'']"
  using assms by (simp add: continueEvolutionRun_def advanceEvolutionRunStage_def onRun_def Let_def
      entry_setRun stage_simps validateEvolutionStageTransition_def)

section \<open>Through the planning stages\<close>

text \<open>\<open>quiet\<close>: what follows the entry of a stage does not pause and keeps the stage and the linked change.\<close>

definition quiet :: "(evolutionStage \<Rightarrow> evolutionRun \<Rightarrow> evolutionRun \<times> bool) \<Rightarrow> bool" where
  "quiet after = (\<forall>t r. \<not> snd (after t r) \<and> run_stage (fst (after t r)) = run_stage r
     \<and> run_linkedOpenSpecChange (fst (after t r)) = run_linkedOpenSpecChange r)"

lemma edits_stage: "run_stage (applyEdits env es r) = run_stage r"
  unfolding applyEdits_def by (rule foldl_stage) (rule stage_planning)

lemma edits_append: "applyEdits env (xs @ ys) r = applyEdits env ys (applyEdits env xs r)"
  by (simp add: applyEdits_def)

definition editsChange :: "runEdit \<Rightarrow> bool" where
  "editsChange e = (case e of Re_change _ \<Rightarrow> True | _ \<Rightarrow> False)"

lemma edits_link: "list_all (Not \<circ> editsChange) es
    \<Longrightarrow> run_linkedOpenSpecChange (applyEdits env es r) = run_linkedOpenSpecChange r"
proof (induction es arbitrary: r)
  case (Cons e es)
  then show ?case by (cases e) (simp_all add: applyEdits_def editsChange_def frame_simps)
qed (simp add: applyEdits_def)

lemma applyEdits_simps:
  "applyEdits env [] s = s" "applyEdits env (e # es) s = applyEdits env es (applyEdit env e s)"
  by (simp_all add: applyEdits_def)

lemma task_edits_link: "run_linkedOpenSpecChange (applyEdits env (taskEdits env inp now) r) = Some (pl_changeSlug inp)"
  by (simp add: taskEdits_def edits_append applyEdits_simps planScore_def planMessage_def frame_simps)

lemma entered_link: "transitionRun env t summary now r = Tr_entered r'
    \<Longrightarrow> run_linkedOpenSpecChange r' = run_linkedOpenSpecChange r"
  by (auto simp: transitionRun_def Let_def frame_simps split: if_split_asm)

lemma plan_step:
  assumes "planStage env inp (run_runId run) now s = Some (edits, t, summary, False)" and "run_stage run = s"
    and "canTransitionEvolutionStage s t" and "s \<noteq> Es_needs_human" and "quiet after"
  shows "\<exists>run1. run_stage run1 = t
    \<and> run_linkedOpenSpecChange run1 = run_linkedOpenSpecChange (applyEdits env edits run)
    \<and> planLoop env inp after now (s # ss) run = planLoop env inp after now ss run1"
proof -
  obtain entered where entered: "transitionRun env t summary now (applyEdits env edits run) = Tr_entered entered"
    using assms(2-4) by (simp add: transitionRun_def edits_stage Let_def)
  define run1 where "run1 = fst (after t entered)"
  have after: "after t entered = (run1, False)" "run_stage run1 = run_stage entered"
    "run_linkedOpenSpecChange run1 = run_linkedOpenSpecChange entered"
    using assms(5) by (simp_all add: quiet_def run1_def prod_eq_iff)
  have "planLoop env inp after now (s # ss) run = planLoop env inp after now ss run1"
    using assms(1,2) entered after(1) by simp
  moreover have "run_stage run1 = t" using stage_entered [OF entered] after(2) by simp
  moreover have "run_linkedOpenSpecChange run1 = run_linkedOpenSpecChange (applyEdits env edits run)"
    using entered_link [OF entered] after(3) by simp
  ultimately show ?thesis by blast
qed

definition planned :: "planInput \<Rightarrow> planResult \<Rightarrow> bool" where
  "planned inp res = (case res of Pl_done r \<Rightarrow> run_stage r = Es_tasks_ready
      \<and> run_linkedOpenSpecChange r = Some (pl_changeSlug inp) | _ \<Rightarrow> False)"

text \<open>\<open>leads\<close>: from stage s the stages ss lead to the tasks.\<close>

definition leads :: "evoEnv \<Rightarrow> planInput \<Rightarrow> (evolutionStage \<Rightarrow> evolutionRun \<Rightarrow> evolutionRun \<times> bool) \<Rightarrow> int
    \<Rightarrow> evolutionStage \<Rightarrow> evolutionStage list \<Rightarrow> bool" where
  "leads env inp after now s ss = (\<forall>run. run_stage run = s \<longrightarrow> planned inp (planLoop env inp after now ss run))"

lemma leads_last: "quiet after \<Longrightarrow> leads env inp after now Es_architecture_baseline [Es_architecture_baseline]"
  unfolding leads_def
proof (intro allI impI)
  fix run :: evolutionRun
  assume a: "quiet after" "run_stage run = Es_architecture_baseline"
  have "planStage env inp (run_runId run) now Es_architecture_baseline = Some (taskEdits env inp now, Es_tasks_ready, None, False)"
    by (simp add: planStage_def)
  from plan_step [OF this a(2) _ _ a(1), of "[]"]
  show "planned inp (planLoop env inp after now [Es_architecture_baseline] run)"
    by (auto simp: planned_def task_edits_link canTransitionEvolutionStage_def)
qed

lemma leads_step:
  assumes "\<And>rid. \<exists>edits. planStage env inp rid now s = Some (edits, t, None, False)"
    and "canTransitionEvolutionStage s t" and "s \<noteq> Es_needs_human" and "quiet after" and "leads env inp after now t ss"
  shows "leads env inp after now s (s # ss)"
  unfolding leads_def
proof (intro allI impI)
  fix run :: evolutionRun
  assume here: "run_stage run = s"
  obtain edits where "planStage env inp (run_runId run) now s = Some (edits, t, None, False)" using assms(1) by blast
  from plan_step [OF this here assms(2-4), of ss] assms(5) show "planned inp (planLoop env inp after now (s # ss) run)"
    by (auto simp: leads_def)
qed

lemma leads_skip: "s \<noteq> s' \<Longrightarrow> leads env inp after now s (s' # ss) \<longleftrightarrow> leads env inp after now s ss"
  by (simp add: leads_def)

lemma plan_leads:
  assumes "quiet after" and "\<not> pl_missingReferences inp" and "\<not> requiredTasteFailed inp" and "s \<in> set PLANNING_STAGES"
  shows "leads env inp after now s PLANNING_STAGES"
proof -
  note step = leads_step [OF _ _ _ assms(1)]
  have 7: "leads env inp after now Es_architecture_baseline [Es_architecture_baseline]" using assms(1) by (rule leads_last)
  have 6: "leads env inp after now Es_design_hifi [Es_design_hifi, Es_architecture_baseline]"
    by (rule step [OF _ _ _ 7]) (simp_all add: planStage_def canTransitionEvolutionStage_def)
  have 5: "leads env inp after now Es_design_lofi [Es_design_lofi, Es_design_hifi, Es_architecture_baseline]"
    by (rule step [OF _ _ _ 6]) (simp_all add: planStage_def canTransitionEvolutionStage_def assms(3))
  have 4: "leads env inp after now Es_prd_ready [Es_prd_ready, Es_design_lofi, Es_design_hifi, Es_architecture_baseline]"
    by (rule step [OF _ _ _ 5]) (simp_all add: planStage_def canTransitionEvolutionStage_def assms(2))
  have 3: "leads env inp after now Es_product_discussion
      [Es_product_discussion, Es_prd_ready, Es_design_lofi, Es_design_hifi, Es_architecture_baseline]"
    by (rule step [OF _ _ _ 4]) (simp_all add: planStage_def canTransitionEvolutionStage_def)
  have 2: "leads env inp after now Es_intake_normalized
      [Es_intake_normalized, Es_product_discussion, Es_prd_ready, Es_design_lofi, Es_design_hifi, Es_architecture_baseline]"
    by (rule step [OF _ _ _ 3]) (simp_all add: planStage_def canTransitionEvolutionStage_def)
  have "leads env inp after now Es_detected (Es_detected #
      [Es_intake_normalized, Es_product_discussion, Es_prd_ready, Es_design_lofi, Es_design_hifi, Es_architecture_baseline])"
    by (rule step [OF _ _ _ 2]) (simp_all add: planStage_def canTransitionEvolutionStage_def)
  with 2 3 4 5 6 7 show ?thesis using assms(4)
    by (auto simp: PLANNING_STAGES_def leads_skip)
qed

end
