(* ===== verification/EvoConfigFacts.thy ===== *)
theory EvoConfigFacts
  imports EvoExample
begin

text \<open>
  What an accepted staging configuration is: the words its arguments cannot contain, its command,
  its limits and its working directory.
\<close>

section \<open>Words\<close>

lemma startsWith_append: "startsWith s w \<longleftrightarrow> (\<exists>r. s = w @ r)"
  unfolding startsWith_def by (metis append_eq_conv_conj append_take_drop_id)

text \<open>A token stands in a text with neither a letter nor a digit beside it.\<close>

definition standsIn :: "string \<Rightarrow> string \<Rightarrow> bool" where
  "standsIn w s = (\<exists>pre post. s = pre @ w @ post \<and> (pre = [] \<or> \<not> isAlphaNum (last pre))
     \<and> (post = [] \<or> \<not> isAlphaNum (hd post)))"

definition closes :: "string \<Rightarrow> bool" where
  "closes post = (post = [] \<or> \<not> isAlphaNum (hd post))"

text \<open>The words that stand in a text whose first character follows a letter or digit (b) or not.\<close>

definition foundIn :: "bool \<Rightarrow> string \<Rightarrow> string \<Rightarrow> bool" where
  "foundIn b w s = (\<exists>pre post. s = pre @ w @ post \<and> (if pre = [] then \<not> b else \<not> isAlphaNum (last pre)) \<and> closes post)"

lemma startsWithToken_iff: "startsWithToken w s \<longleftrightarrow> (\<exists>post. s = w @ post \<and> closes post)"
  by (auto simp: startsWithToken_def startsWith_append closes_def split: list.splits)

lemma foundIn_Cons:
  assumes "w \<noteq> []"
  shows "foundIn b w (c # cs) \<longleftrightarrow> \<not> b \<and> startsWithToken w (c # cs) \<or> foundIn (isAlphaNum c) w cs"
proof -
  have "foundIn b w (c # cs) \<longleftrightarrow> (\<exists>post. c # cs = w @ post \<and> \<not> b \<and> closes post)
    \<or> (\<exists>d pre post. c # cs = (d # pre) @ w @ post \<and> \<not> isAlphaNum (last (d # pre)) \<and> closes post)"
    unfolding foundIn_def by (metis append_Nil list.exhaust list.simps(3))
  also have "(\<exists>d pre post. c # cs = (d # pre) @ w @ post \<and> \<not> isAlphaNum (last (d # pre)) \<and> closes post)
      \<longleftrightarrow> foundIn (isAlphaNum c) w cs"
    by (auto simp: foundIn_def)
  finally show ?thesis by (auto simp: startsWithToken_iff)
qed

lemma tokenFrom_iff: "[] \<notin> set ws \<Longrightarrow> tokenFrom b ws s \<longleftrightarrow> (\<exists>w \<in> set ws. foundIn b w s)"
proof (induction s arbitrary: b)
  case Nil
  then show ?case by (auto simp: foundIn_def)
next
  case (Cons c cs)
  then have "\<And>w. w \<in> set ws \<Longrightarrow> w \<noteq> []" by blast
  then show ?case using Cons foundIn_Cons [of _ b c cs] by (auto simp: list_ex_iff)
qed

lemma standsIn_found: "standsIn w s \<longleftrightarrow> foundIn False w s"
  by (auto simp: standsIn_def foundIn_def closes_def)

lemma productionToken_iff:
  "hasProductionToken parts \<longleftrightarrow> (\<exists>p \<in> set parts. standsIn ''prod'' (toLower p) \<or> standsIn ''production'' (toLower p))"
  by (simp add: hasProductionToken_def list_ex_iff tokenFrom_iff standsIn_found)

section \<open>The parts of a configuration\<close>

lemma args_accepted: "normalizeArgItems i vs = Inr as
    \<Longrightarrow> length as = length vs \<and> list_all (\<lambda>a. CHR 0x00 \<notin> set a \<and> length a \<le> 2048) as"
proof (induction vs arbitrary: i as)
  case (Cons v vs)
  then obtain bs where "normalizeArgItems (Suc i) vs = Inr bs" "as = strOf v # bs"
     "CHR 0x00 \<notin> set (strOf v)" "length (strOf v) \<le> 2048"
    by (simp add: Let_def not_less split: if_split_asm sum.split_asm)
  with Cons.IH [of "Suc i" bs] show ?case by simp
qed simp
lemma normalizeArgs_accepted:
  "normalizeArgs v = Inr as \<Longrightarrow> length as \<le> 64 \<and> list_all (\<lambda>a. CHR 0x00 \<notin> set a \<and> length a \<le> 2048) as"
  by (auto simp: normalizeArgs_def dest!: args_accepted split: if_split_asm)

lemma timeout_accepted:
  assumes "normalizeTimeoutMs v = Inr n"
  shows "1 \<le> n \<and> n \<le> MAX_STAGING_TIMEOUT_MS"
proof (cases "v = Undef")
  case False
  then obtain r where int: "integerVal v" and r: "numOfVal v = Num r" "n = nat \<lfloor>r\<rfloor>" "0 < r"
    "r \<le> of_nat MAX_STAGING_TIMEOUT_MS"
    using assms by (auto simp: normalizeTimeoutMs_def numLeq_def numEq_def not_less split: if_split_asm jsnum.splits)
  obtain i where i: "r = of_int i" using int r(1) by (auto simp: integerVal_def elim!: Ints_cases split: jsval.splits jsnum.splits)
  then have "0 < i" "i \<le> 3600000" "n = nat i" using r by (simp_all add: MAX_STAGING_TIMEOUT_MS_def)
  then show ?thesis by (simp add: MAX_STAGING_TIMEOUT_MS_def nat_le_iff Suc_le_eq)
qed (use assms in \<open>simp add: normalizeTimeoutMs_def DEFAULT_STAGING_TIMEOUT_MS_def MAX_STAGING_TIMEOUT_MS_def\<close>)

lemma safe_segments: "safeRelativePath p \<Longrightarrow> list_all (\<lambda>s. \<not> badSegment s) (splitOn (CHR ''/'') p) \<and> \<not> startsWith p ''/''"
  by (simp add: safeRelativePath_def badSegment_def split: if_split_asm)

lemma join_below:
  assumes "deliveryJoin dir p = Inr q"
  shows "q = dir @ splitOn (CHR ''/'') p \<and> list_all (\<lambda>s. \<not> badSegment s) (splitOn (CHR ''/'') p)"
proof -
  have "safeRelativePath p" and "safeJoin dir p = Some q"
    using assms by (auto simp: deliveryJoin_def split: if_split_asm option.splits)
  then show ?thesis using safe_segments [of p]
    by (auto simp: safeJoin_def Let_def resolvePath_def resolve_clean split: if_split_asm)
qed

lemma cwd_below:
  "normalizeCwd dir v = Inr q \<Longrightarrow> \<exists>ss. q = dir @ ss \<and> list_all (\<lambda>s. \<not> badSegment s) ss"
  using join_below [of dir _ q] by (fastforce simp: normalizeCwd_def Let_def split: if_split_asm)

end
