(* ===== verification/EvoUserProps.thy ===== *)
theory EvoUserProps
  imports EvoRunFacts EvoConfigFacts
begin

text \<open>
  The properties of the evolution pipeline that speak of one operation or of two in a row: pausing and
  continuing, the planning stages, the launch of the automatic delivery, and the configuration of the
  staging delivery.
\<close>

section \<open>Pausing and continuing\<close>






text \<open>C33: When the stage table has no way from needs_human back to the stage a run was paused from (detected,
  deployed_staging, human_release_gate), continuing it fails with invalid_stage_transition and leaves it waiting, but the
  question that remembers the stage is gone: a second continue can no longer find it.\<close>

theorem continue_after_pause_fails:
  assumes "getRuntimeEntry rid w = Some e" and "validateEvolutionRunId (Str rid) = Inr rid"
    and "\<not> terminalStage (run_stage (rn_run e))" and "run_stage (rn_run e) \<noteq> Es_needs_human"
    and "\<not> canTransitionEvolutionStage Es_needs_human (run_stage (rn_run e))"
    and "w1 = snd (pauseEvolutionRun env fs rid reason now w)"
    and "outcome = continueEvolutionRun env fs' rid None message now' w1"
  shows "fst outcome = Evo_failed [issueOf ''invalid_stage_transition''] \<and> (\<exists>e2. getRuntimeEntry rid (snd outcome) = Some e2
    \<and> run_stage (rn_run e2) = Es_needs_human \<and> findUserPauseQuestion (rn_run e2) = None)"
proof -
  note paused = pause_entry [OF assms(1-4), of env fs reason now, folded assms(6)]
  have "fst outcome = Evo_failed [issueOf ''invalid_stage_transition'']" unfolding assms(7)
    by (rule continue_outcome [OF paused assms(2), where t = "run_stage (rn_run e)"]) (simp_all add: paused_target assms(4,5) stage_simps)
  moreover have "getRuntimeEntry rid (snd outcome) = Some (e\<lparr>rn_run := releasedRun env (run_stage (rn_run e)) message now'
      ((pausedRun env reason now (rn_run e))\<lparr>run_updatedAt := now\<rparr>)\<rparr>)" unfolding assms(7)
    by (subst continue_entry [OF paused assms(2), where t = "run_stage (rn_run e)"])
      (simp_all add: Let_def paused_target assms(4,5) stage_simps)
  ultimately show ?thesis by (simp add: stage_simps released_pause)
qed

theorem continue_after_pause_fails_witness:
  "\<exists>e2. getRuntimeEntry ''evo-1'' (snd (continueEvolutionRun demoEnv (\<lambda>_. True) ''evo-1'' None None 600
      (snd (pauseEvolutionRun demoEnv (\<lambda>_. True) ''evo-1'' None 500 demoWorld)))) = Some e2
    \<and> run_stage (rn_run e2) = Es_needs_human \<and> findUserPauseQuestion (rn_run e2) = None"
proof -
  have valid: "validateEvolutionRunId (Str ''evo-1'') = Inr ''evo-1''"
    and no: "\<not> canTransitionEvolutionStage Es_needs_human Es_detected" by code_simp+
  have entry: "getRuntimeEntry ''evo-1'' demoWorld = Some \<lparr>rn_projectRoot = ''/p'', rn_run = demoRun\<rparr>"
    using demo_run by (simp add: demoState_def)
  have "run_stage demoRun = Es_detected" by (simp add: demoRun_def newRun_def Let_def)
  then show ?thesis using continue_after_pause_fails [OF entry valid _ _ _ refl refl] no
    by (simp add: EVOLUTION_TERMINAL_STAGES_def)
qed

section \<open>Planning\<close>





section \<open>The staging configuration\<close>

text \<open>C34: An enabled staging configuration that the check accepts does not name production: neither the command nor an
  argument has the word prod or production with no letter or digit beside it, in any case. The command is no blocked
  shell, there are at most 64 arguments of 2048 characters without NUL, the timeout is at most an hour, and the working
  directory is the project or below it.\<close>

theorem accepted_staging_config:
  assumes "parseStagingDeliveryConfig dir raw = Inr config" and "cf_enabled config"
    and "given = strOf (fld (fld raw ''staging'') ''command'')"
  shows "(\<forall>p \<in> set (given # cf_args config). \<not> standsIn ''prod'' (toLower p) \<and> \<not> standsIn ''production'' (toLower p))
    \<and> toLower (basename given) \<notin> set BLOCKED_COMMAND_BASENAMES
    \<and> length (cf_args config) \<le> 64 \<and> list_all (\<lambda>a. CHR 0x00 \<notin> set a \<and> length a \<le> 2048) (cf_args config)
    \<and> 1 \<le> cf_timeoutMs config \<and> cf_timeoutMs config \<le> 3600000
    \<and> (\<exists>ss. cf_cwd config = dir @ ss \<and> list_all (\<lambda>s. s \<noteq> [] \<and> s \<noteq> ''.'' \<and> s \<noteq> ''..'') ss)"
proof -
  obtain args command cwd ms where parts: "normalizeArgs (fld (fld raw ''staging'') ''args'') = Inr args"
    "\<not> hasProductionToken (given # args)" "resolveCommand dir given = Inr command"
    "normalizeCwd dir (fld (fld raw ''staging'') ''cwd'') = Inr cwd"
    "normalizeTimeoutMs (fld (fld raw ''staging'') ''timeoutMs'') = Inr ms"
    "config = \<lparr>cf_enabled = True, cf_command = command, cf_args = args, cf_cwd = cwd, cf_timeoutMs = ms\<rparr>"
    using assms by (auto simp: parseStagingDeliveryConfig_def Let_def split: if_split_asm sum.split_asm)
  moreover have "toLower (basename given) \<notin> set BLOCKED_COMMAND_BASENAMES"
    using parts(3) by (auto simp: resolveCommand_def Let_def split: if_split_asm)
  ultimately show ?thesis using normalizeArgs_accepted [OF parts(1)] timeout_accepted [OF parts(5)] cwd_below [OF parts(4)]
    by (simp add: productionToken_iff MAX_STAGING_TIMEOUT_MS_def badSegment_def)
qed

definition demoConfig :: jsval where
  "demoConfig = Obj [(''staging'', Obj [(''enabled'', Bool True), (''command'', Str ''make''),
     (''args'', Arr [Str ''deploy-staging'']), (''cwd'', Str ''ops'')])]"

theorem accepted_staging_config_witness: "\<not> standsIn ''production'' (toLower ''deploy-staging'')"
proof -
  have "parseStagingDeliveryConfig [''p''] demoConfig = Inr \<lparr>cf_enabled = True, cf_command = ''make'',
      cf_args = [''deploy-staging''], cf_cwd = [''p'', ''ops''], cf_timeoutMs = 600000\<rparr>"
    by code_simp
  from accepted_staging_config [OF this _ refl] show ?thesis by simp
qed

section \<open>The automatic delivery\<close>











section \<open>Restarts\<close>



end
