(* ===== verification/EvoDataProps.thy ===== *)
theory EvoDataProps
  imports EvoExample EvoCheckFacts
begin

text \<open>
  The properties of the evolution pipeline that speak of the data it exchanges: requests and
  projections that passed their check pass it again unchanged, a request launched twice is one run.
\<close>

section \<open>Requests\<close>

lemma request_fields:
  fixes q :: evolutionLaunchRequest
  shows
  "fld (evolutionLaunchRequest_js q) ''requestId'' = Str (lq_requestId q)"
  "fld (evolutionLaunchRequest_js q) ''serverId'' = optVal Str (lq_serverId q)"
  "fld (evolutionLaunchRequest_js q) ''sessionName'' = Str (lq_sessionName q)"
  "fld (evolutionLaunchRequest_js q) ''projectName'' = optVal Str (lq_projectName q)"
  "fld (evolutionLaunchRequest_js q) ''sourceRelativePath'' = Str (lq_sourceRelativePath q)"
  "fld (evolutionLaunchRequest_js q) ''sourceSizeBytes'' = optVal (\<lambda>n. JsValue.Nat n) (lq_sourceSizeBytes q)"
  "fld (evolutionLaunchRequest_js q) ''sourceSha256'' = optVal Str (lq_sourceSha256 q)"
  "fld (evolutionLaunchRequest_js q) ''locale'' = optVal Str (lq_locale q)"
  "fld (evolutionLaunchRequest_js q) ''requestedBy'' = optVal (\<lambda>x. Str (requestedByText x)) (lq_requestedBy q)"
  "fld (evolutionLaunchRequest_js q) ''autoStart'' = optVal Bool (lq_autoStart q)"
  "fld (evolutionLaunchRequest_js q) ''autoStartImplementation'' = optVal Bool (lq_autoStartImplementation q)"
  "fld (evolutionLaunchRequest_js q) ''autoDeliverPresetId'' = optVal (\<lambda>x. Str (evolutionPresetText x)) (lq_autoDeliverPresetId q)"
  "fld (evolutionLaunchRequest_js q) ''autoCommitPush'' = optVal Bool (lq_autoCommitPush q)"
  "fld (evolutionLaunchRequest_js q) ''roundtableGateMode'' = optVal (\<lambda>x. Str (gateModeText x)) (lq_roundtableGateMode q)"
  "fld (evolutionLaunchRequest_js q) ''designTargetSurface'' = optVal (\<lambda>x. Str (surfaceText x)) (lq_designTargetSurface q)"
  by (simp_all add: evolutionLaunchRequest_js_def fld_simps del: fld.simps split: option.split)

lemma optVal_readStr:
  assumes "absentOr P x" and "\<And>y. P y \<Longrightarrow> isString y"
  shows "optVal Str (readStr x) = x"
proof (cases "x = Undef")
  case False
  then have "isString x" using assms by (simp add: absentOr_def)
  then show ?thesis by (cases x) (simp_all add: readStr_def)
qed (simp add: readStr_def)

lemma readStr_optVal [simp]: "readStr (optVal Str s) = s"
  by (cases s) (simp_all add: readStr_def)

lemma optVal_readNat:
  assumes "absentOr (\<lambda>v. nonNegInt v \<and> Q v) x"
  shows "optVal (\<lambda>n. JsValue.Nat n) (readNat x) = x"
proof (cases "x = Undef")
  case False
  then obtain n where n: "x = Number n" "numInteger n" "\<not> numLess n (Num 0)"
    using assms by (auto simp: absentOr_def nonNegInt_def integerVal_def split: jsval.splits)
  then obtain r where "x = Number (Num r)" "r \<in> \<int>" "0 \<le> r"
    by (cases n) (auto simp: numInteger_def)
  then show ?thesis by (auto simp: readNat_def elim!: Ints_cases)
qed (simp add: readNat_def)

lemma readNat_optVal [simp]: "readNat (optVal (\<lambda>n. JsValue.Nat n) s) = s"
  by (cases s) (simp_all add: readNat_def)

lemma readEnum_text: "x \<in> set xs \<Longrightarrow> distinct (map txt xs) \<Longrightarrow> readEnum txt xs (Str (txt x)) = Some x"
  unfolding readEnum_def by (induction xs) (auto simp: image_iff)

lemma enum_texts:
  "readEnum requestedByText REQUESTED_BY_VALUES (Str (requestedByText a)) = Some a"
  "readEnum evolutionPresetText EVOLUTION_AUTO_DELIVER_PRESET_IDS (Str (evolutionPresetText b)) = Some b"
  "readEnum gateModeText EVOLUTION_ROUNDTABLE_GATE_MODES (Str (gateModeText c)) = Some c"
  "readEnum surfaceText EVOLUTION_DESIGN_TARGET_SURFACES (Str (surfaceText d)) = Some d"
  by (rule readEnum_text, rule all_evolutionRequestedBy all_evolutionPreset all_evolutionGateMode all_evolutionSurface,
      simp add: REQUESTED_BY_VALUES_def EVOLUTION_AUTO_DELIVER_PRESET_IDS_def EVOLUTION_ROUNDTABLE_GATE_MODES_def
        EVOLUTION_DESIGN_TARGET_SURFACES_def)+

lemma texts_known: "x \<in> set xs \<Longrightarrow> absentOr (\<lambda>v. isOneOf v (map txt xs)) (Str (txt x))"
  by (auto simp: absentOr_def)

lemma request_id_again: "validateEvolutionRequestId v = Inr s \<Longrightarrow> validateEvolutionRequestId (Str s) = Inr s"
  by (auto simp: validateEvolutionRequestId_def split: if_split_asm)

lemma source_path_again: "validateEvolutionRequirementSourcePath v = Inr s \<Longrightarrow> validateEvolutionRequirementSourcePath (Str s) = Inr s"
  by (auto simp: validateEvolutionRequirementSourcePath_def sourcePathIssues_def Let_def pushIf_def split: if_split_asm)

lemma sha_again: "absentOr isSha256 x \<Longrightarrow> absentOr isSha256 (optVal Str (map_option toLower (readStr x)))"
  by (cases x) (auto simp: absentOr_def readStr_def isSha256_def isHexText_toLower)

lemma locale_again: "absentOr nonBlankStr x \<Longrightarrow> absentOr nonBlankStr (optVal Str (map_option trim (readStr x)))"
  by (cases x) (auto simp: absentOr_def readStr_def nonBlankStr_def trim_idem)

lemma accepted_request:
  assumes "launchRequestIssues v = []"
  obtains rid path where "validateEvolutionRequestId (fld v ''requestId'') = Inr rid"
    and "validateEvolutionRequirementSourcePath (fld v ''sourceRelativePath'') = Inr path"
proof -
  have "issuesOf (validateEvolutionRequestId (fld v ''requestId'')) = []"
    and "issuesOf (validateEvolutionRequirementSourcePath (fld v ''sourceRelativePath'')) = []"
    using assms by (simp_all add: launchRequestIssues_def withPath_def withPathOr_def)
  moreover have "validateEvolutionRequestId x \<noteq> Inl []" "validateEvolutionRequirementSourcePath x \<noteq> Inl []" for x
    by (simp_all add: validateEvolutionRequestId_def validateEvolutionRequirementSourcePath_def Let_def)
  ultimately show thesis using that by (metis issuesOf.simps(1) old.sum.exhaust)
qed

text \<open>The request that the check makes of an accepted launch request is accepted again and yields itself, so the
  second check inside the creation of a run never fails and loses nothing.\<close>

theorem launch_request_normal_form:
  assumes "validateEvolutionLaunchRequest v = Inr q"
  shows "validateEvolutionLaunchRequest (evolutionLaunchRequest_js q) = Inr q"
proof -
  have issues: "launchRequestIssues v = []" using assms
    by (auto simp: validateEvolutionLaunchRequest_def Let_def split: if_split_asm)
  then obtain rid path where ids: "validateEvolutionRequestId (fld v ''requestId'') = Inr rid"
    "validateEvolutionRequirementSourcePath (fld v ''sourceRelativePath'') = Inr path"
    by (rule accepted_request)
  note again = request_id_again [OF ids(1)] source_path_again [OF ids(2)]
  obtain a b c d e f g where q: "q = \<lparr>lq_requestId = rid, lq_serverId = readStr (fld v ''serverId''),
      lq_sessionName = strOf (fld v ''sessionName''), lq_projectName = readStr (fld v ''projectName''),
      lq_sourceRelativePath = path, lq_sourceSizeBytes = readNat (fld v ''sourceSizeBytes''),
      lq_sourceSha256 = map_option toLower (readStr (fld v ''sourceSha256'')),
      lq_locale = map_option trim (readStr (fld v ''locale'')), lq_requestedBy = Some a, lq_autoStart = Some b,
      lq_autoStartImplementation = Some c, lq_autoDeliverPresetId = Some d, lq_autoCommitPush = Some e,
      lq_roundtableGateMode = Some f, lq_designTargetSurface = Some g\<rparr>"
    using assms ids issues by (auto simp: validateEvolutionLaunchRequest_def Let_def split: if_split_asm)
  have kept: "optVal Str (readStr (fld v ''serverId'')) = fld v ''serverId''"
    "optVal Str (readStr (fld v ''projectName'')) = fld v ''projectName''"
    "optVal (\<lambda>n. JsValue.Nat n) (readNat (fld v ''sourceSizeBytes'')) = fld v ''sourceSizeBytes''"
    "Str (strOf (fld v ''sessionName'')) = fld v ''sessionName''"
    using issues by (auto simp: launchRequestIssues_def nonEmptyStr_def intro!: optVal_readStr optVal_readNat elim!: isStringE)
  have parts: "absentOr isSha256 (optVal Str (map_option toLower (readStr (fld v ''sourceSha256''))))"
    "absentOr nonBlankStr (optVal Str (map_option trim (readStr (fld v ''locale''))))"
    using issues by (simp_all add: launchRequestIssues_def sha_again locale_again)
  have "launchRequestIssues (evolutionLaunchRequest_js q) = []"
    using issues again kept parts
    by (simp add: launchRequestIssues_def request_fields q texts_known all_evolutionRequestedBy all_evolutionPreset
        all_evolutionGateMode all_evolutionSurface withPath_def withPathOr_def absentOr_def)
  moreover have "isRecord (evolutionLaunchRequest_js q)" by (simp add: evolutionLaunchRequest_js_def)
  ultimately show ?thesis
    by (simp add: validateEvolutionLaunchRequest_def request_fields q again enum_texts option.map_comp o_def trim_idem)
qed

theorem launch_request_normal_form_witness:
  "validateEvolutionLaunchRequest (evolutionLaunchRequest_js demoRequest) = Inr demoRequest"
  using launch_request_normal_form [OF demo_request] .



section \<open>Projections\<close>

text \<open>A projection that the check accepts comes back in normal form: checked again, at whatever time, it is accepted
  and is itself, so daemon, server and web client may all check it without changing it.\<close>

theorem projection_check_idempotent:
  assumes "validateEvolutionProjection now v = Inr p"
  shows "validateEvolutionProjection now' p = Inr p"
proof -
  have "projectionIssues v = []" and p: "p = normalizeProjection now v"
    using assms by (auto simp: validateEvolutionProjection_def Let_def split: if_split_asm)
  then have "projectionIssues p = []" and "normalizeProjection now' p = p"
    by (simp_all add: projection_passes_again projection_normal_again)
  moreover have "isRecord p" by (simp add: p normalizeProjection_def)
  ultimately show ?thesis by (simp add: validateEvolutionProjection_def)
qed

definition demoProjection :: jsval where
  "demoProjection = Obj [(''projectionVersion'', Number (Num 1)), (''runId'', Str ''evo-1''), (''requestId'', Str ''req-1''),
     (''stage'', Str ''detected''), (''sessionName'', Str ''deck''),
     (''source'', Obj [(''relativePath'', Str ''.imcodes/inbox/requirements/idea.md''), (''fileName'', Str ''idea.md''),
        (''ingestedAt'', Number (Num 100))]),
     (''roles'', Arr []), (''artifacts'', Arr []), (''scores'', Arr []), (''blockingQuestions'', Arr []),
     (''discussion'', Arr []), (''roundtables'', Arr []), (''roundtableGateMode'', Str ''planning''),
     (''evidence'', Arr []), (''executionTimeline'', Arr []), (''liveEvents'', Arr []),
     (''loopControl'', Obj [(''source'', Str ''loop_engineering''), (''mode'', Str ''planning_only''),
        (''readinessScore'', Number (Num 10)), (''canAutonomouslyContinue'', Bool True), (''currentGate'', Str ''plan''),
        (''budget'', Obj [(''maxRoleTurns'', Number (Num 20)), (''maxElapsedMinutes'', Number (Num 60)), (''maxImplementationAttempts'', Number (Num 3)),
          (''maxAutoDeployStage'', Str ''staging'')]),
        (''usage'', Obj [(''elapsedMinutes'', Number (Num 1)), (''roleTurns'', Number (Num 0)), (''implementationAttempts'', Number (Num 0)),
          (''artifactCount'', Number (Num 1)), (''evidenceCount'', Number (Num 1)), (''discussionCount'', Number (Num 1))]), (''signals'', Arr []), (''updatedAt'', Number (Num 100))]),
     (''elapsedMs'', Number (Num 5)), (''updatedAt'', Number (Num 100))]"

theorem projection_check_idempotent_witness: "validateEvolutionProjection 900 demoProjection = Inr demoProjection"
proof -
  have "projectionIssues demoProjection = []" and "normalizeProjection 500 demoProjection = demoProjection"
    and "isRecord demoProjection"
    by code_simp+
  then have "validateEvolutionProjection 500 demoProjection = Inr demoProjection"
    by (simp add: validateEvolutionProjection_def)
  then show ?thesis by (rule projection_check_idempotent)
qed

end
