(* ===== verification/WfMessages.thy ===== *)
theory WfMessages
  imports WfData
begin

text \<open>
  The messages of the P2P protocol and their routes (\<^verbatim>\<open>shared/p2p-workflow-messages.ts\<close>): who may
  send a message, what the server does with it and which browsers get it.
\<close>

section \<open>The registry\<close>

datatype p2pMessageType =
    Mt_status | Mt_status_response | Mt_list_discussions | Mt_list_discussions_response
    | Mt_read_discussion | Mt_read_discussion_response | Mt_run_start | Mt_run_started
    | Mt_run_update | Mt_run_save | Mt_run_complete | Mt_run_error | Mt_cancel | Mt_cancel_response
    | Mt_conflict | Mt_daemon_hello | Mt_config_save | Mt_config_save_response

primrec p2pMessageText :: "p2pMessageType \<Rightarrow> string" where
  "p2pMessageText Mt_status = ''p2p.status''"
| "p2pMessageText Mt_status_response = ''p2p.status_response''"
| "p2pMessageText Mt_list_discussions = ''p2p.list_discussions''"
| "p2pMessageText Mt_list_discussions_response = ''p2p.list_discussions_response''"
| "p2pMessageText Mt_read_discussion = ''p2p.read_discussion''"
| "p2pMessageText Mt_read_discussion_response = ''p2p.read_discussion_response''"
| "p2pMessageText Mt_run_start = ''p2p.run_start''"
| "p2pMessageText Mt_run_started = ''p2p.run_started''"
| "p2pMessageText Mt_run_update = ''p2p.run_update''"
| "p2pMessageText Mt_run_save = ''p2p.run_save''"
| "p2pMessageText Mt_run_complete = ''p2p.run_complete''"
| "p2pMessageText Mt_run_error = ''p2p.run_error''"
| "p2pMessageText Mt_cancel = ''p2p.cancel''"
| "p2pMessageText Mt_cancel_response = ''p2p.cancel_response''"
| "p2pMessageText Mt_conflict = ''p2p.conflict''"
| "p2pMessageText Mt_daemon_hello = ''daemon.hello''"
| "p2pMessageText Mt_config_save = ''p2p.config.save''"
| "p2pMessageText Mt_config_save_response = ''p2p.config.save_response''"

definition P2P_MESSAGE_TYPES :: "p2pMessageType list" where
  "P2P_MESSAGE_TYPES = [Mt_status, Mt_status_response, Mt_list_discussions, Mt_list_discussions_response,
     Mt_read_discussion, Mt_read_discussion_response, Mt_run_start, Mt_run_started,
     Mt_run_update, Mt_run_save, Mt_run_complete, Mt_run_error,
     Mt_cancel, Mt_cancel_response, Mt_conflict, Mt_daemon_hello,
     Mt_config_save, Mt_config_save_response]"

lemma all_p2pMessageType: "t \<in> set P2P_MESSAGE_TYPES"
  by (cases t) (simp_all add: P2P_MESSAGE_TYPES_def)

datatype p2pProtocolCategory = Pc_workflow | Pc_config

datatype p2pDirection = Dir_browser_to_server | Dir_server_to_browser | Dir_daemon_to_server
  | Dir_server_to_daemon | Dir_bidirectional

datatype p2pIngressPeer = Peer_browser | Peer_daemon

datatype p2pServerHandling = Sh_forward_to_daemon | Sh_singlecast_response | Sh_broadcast_to_browsers
  | Sh_persist_run_and_broadcast | Sh_cache_daemon_capabilities

datatype p2pBrowserDelivery = Bd_none | Bd_singlecast | Bd_broadcast

record p2pDescriptor =
  de_type :: p2pMessageType
  de_category :: p2pProtocolCategory
  de_direction :: p2pDirection
  de_allowedIngress :: "p2pIngressPeer list"
  de_serverHandling :: p2pServerHandling
  de_browserDelivery :: p2pBrowserDelivery
  de_responseTo :: "p2pMessageType option"
  de_expectedResponseType :: "p2pMessageType option"
  de_requestScoped :: bool
  de_response :: bool
  de_broadcastAllowed :: bool

primrec P2P_WORKFLOW_MESSAGE_REGISTRY :: "p2pMessageType \<Rightarrow> p2pDescriptor" where
  "P2P_WORKFLOW_MESSAGE_REGISTRY Mt_status = \<lparr>de_type = Mt_status, de_category = Pc_workflow,
     de_direction = Dir_browser_to_server, de_allowedIngress = [Peer_browser], de_serverHandling = Sh_forward_to_daemon,
     de_browserDelivery = Bd_none, de_responseTo = None, de_expectedResponseType = Some Mt_status_response,
     de_requestScoped = True, de_response = False, de_broadcastAllowed = False\<rparr>"
| "P2P_WORKFLOW_MESSAGE_REGISTRY Mt_status_response = \<lparr>de_type = Mt_status_response, de_category = Pc_workflow,
     de_direction = Dir_server_to_browser, de_allowedIngress = [Peer_daemon], de_serverHandling = Sh_singlecast_response,
     de_browserDelivery = Bd_singlecast, de_responseTo = Some Mt_status, de_expectedResponseType = None,
     de_requestScoped = True, de_response = True, de_broadcastAllowed = False\<rparr>"
| "P2P_WORKFLOW_MESSAGE_REGISTRY Mt_list_discussions = \<lparr>de_type = Mt_list_discussions, de_category = Pc_workflow,
     de_direction = Dir_browser_to_server, de_allowedIngress = [Peer_browser], de_serverHandling = Sh_forward_to_daemon,
     de_browserDelivery = Bd_none, de_responseTo = None, de_expectedResponseType = Some Mt_list_discussions_response,
     de_requestScoped = True, de_response = False, de_broadcastAllowed = False\<rparr>"
| "P2P_WORKFLOW_MESSAGE_REGISTRY Mt_list_discussions_response = \<lparr>de_type = Mt_list_discussions_response, de_category = Pc_workflow,
     de_direction = Dir_server_to_browser, de_allowedIngress = [Peer_daemon], de_serverHandling = Sh_singlecast_response,
     de_browserDelivery = Bd_singlecast, de_responseTo = Some Mt_list_discussions, de_expectedResponseType = None,
     de_requestScoped = True, de_response = True, de_broadcastAllowed = False\<rparr>"
| "P2P_WORKFLOW_MESSAGE_REGISTRY Mt_read_discussion = \<lparr>de_type = Mt_read_discussion, de_category = Pc_workflow,
     de_direction = Dir_browser_to_server, de_allowedIngress = [Peer_browser], de_serverHandling = Sh_forward_to_daemon,
     de_browserDelivery = Bd_none, de_responseTo = None, de_expectedResponseType = Some Mt_read_discussion_response,
     de_requestScoped = True, de_response = False, de_broadcastAllowed = False\<rparr>"
| "P2P_WORKFLOW_MESSAGE_REGISTRY Mt_read_discussion_response = \<lparr>de_type = Mt_read_discussion_response, de_category = Pc_workflow,
     de_direction = Dir_server_to_browser, de_allowedIngress = [Peer_daemon], de_serverHandling = Sh_singlecast_response,
     de_browserDelivery = Bd_singlecast, de_responseTo = Some Mt_read_discussion, de_expectedResponseType = None,
     de_requestScoped = True, de_response = True, de_broadcastAllowed = False\<rparr>"
| "P2P_WORKFLOW_MESSAGE_REGISTRY Mt_run_start = \<lparr>de_type = Mt_run_start, de_category = Pc_workflow,
     de_direction = Dir_browser_to_server, de_allowedIngress = [Peer_browser], de_serverHandling = Sh_forward_to_daemon,
     de_browserDelivery = Bd_none, de_responseTo = None, de_expectedResponseType = None,
     de_requestScoped = False, de_response = False, de_broadcastAllowed = False\<rparr>"
| "P2P_WORKFLOW_MESSAGE_REGISTRY Mt_run_started = \<lparr>de_type = Mt_run_started, de_category = Pc_workflow,
     de_direction = Dir_server_to_browser, de_allowedIngress = [Peer_daemon], de_serverHandling = Sh_broadcast_to_browsers,
     de_browserDelivery = Bd_broadcast, de_responseTo = None, de_expectedResponseType = None,
     de_requestScoped = False, de_response = False, de_broadcastAllowed = True\<rparr>"
| "P2P_WORKFLOW_MESSAGE_REGISTRY Mt_run_update = \<lparr>de_type = Mt_run_update, de_category = Pc_workflow,
     de_direction = Dir_daemon_to_server, de_allowedIngress = [Peer_daemon], de_serverHandling = Sh_persist_run_and_broadcast,
     de_browserDelivery = Bd_broadcast, de_responseTo = None, de_expectedResponseType = None,
     de_requestScoped = False, de_response = False, de_broadcastAllowed = True\<rparr>"
| "P2P_WORKFLOW_MESSAGE_REGISTRY Mt_run_save = \<lparr>de_type = Mt_run_save, de_category = Pc_workflow,
     de_direction = Dir_daemon_to_server, de_allowedIngress = [Peer_daemon], de_serverHandling = Sh_persist_run_and_broadcast,
     de_browserDelivery = Bd_broadcast, de_responseTo = None, de_expectedResponseType = Some Mt_run_update,
     de_requestScoped = False, de_response = False, de_broadcastAllowed = True\<rparr>"
| "P2P_WORKFLOW_MESSAGE_REGISTRY Mt_run_complete = \<lparr>de_type = Mt_run_complete, de_category = Pc_workflow,
     de_direction = Dir_daemon_to_server, de_allowedIngress = [Peer_daemon], de_serverHandling = Sh_persist_run_and_broadcast,
     de_browserDelivery = Bd_broadcast, de_responseTo = None, de_expectedResponseType = Some Mt_run_update,
     de_requestScoped = False, de_response = False, de_broadcastAllowed = True\<rparr>"
| "P2P_WORKFLOW_MESSAGE_REGISTRY Mt_run_error = \<lparr>de_type = Mt_run_error, de_category = Pc_workflow,
     de_direction = Dir_daemon_to_server, de_allowedIngress = [Peer_daemon], de_serverHandling = Sh_persist_run_and_broadcast,
     de_browserDelivery = Bd_broadcast, de_responseTo = None, de_expectedResponseType = Some Mt_run_update,
     de_requestScoped = False, de_response = False, de_broadcastAllowed = True\<rparr>"
| "P2P_WORKFLOW_MESSAGE_REGISTRY Mt_cancel = \<lparr>de_type = Mt_cancel, de_category = Pc_workflow,
     de_direction = Dir_browser_to_server, de_allowedIngress = [Peer_browser], de_serverHandling = Sh_forward_to_daemon,
     de_browserDelivery = Bd_none, de_responseTo = None, de_expectedResponseType = None,
     de_requestScoped = False, de_response = False, de_broadcastAllowed = False\<rparr>"
| "P2P_WORKFLOW_MESSAGE_REGISTRY Mt_cancel_response = \<lparr>de_type = Mt_cancel_response, de_category = Pc_workflow,
     de_direction = Dir_server_to_browser, de_allowedIngress = [Peer_daemon], de_serverHandling = Sh_broadcast_to_browsers,
     de_browserDelivery = Bd_broadcast, de_responseTo = Some Mt_cancel, de_expectedResponseType = None,
     de_requestScoped = False, de_response = True, de_broadcastAllowed = True\<rparr>"
| "P2P_WORKFLOW_MESSAGE_REGISTRY Mt_conflict = \<lparr>de_type = Mt_conflict, de_category = Pc_workflow,
     de_direction = Dir_daemon_to_server, de_allowedIngress = [Peer_daemon], de_serverHandling = Sh_broadcast_to_browsers,
     de_browserDelivery = Bd_broadcast, de_responseTo = None, de_expectedResponseType = None,
     de_requestScoped = False, de_response = False, de_broadcastAllowed = True\<rparr>"
| "P2P_WORKFLOW_MESSAGE_REGISTRY Mt_daemon_hello = \<lparr>de_type = Mt_daemon_hello, de_category = Pc_workflow,
     de_direction = Dir_daemon_to_server, de_allowedIngress = [Peer_daemon], de_serverHandling = Sh_cache_daemon_capabilities,
     de_browserDelivery = Bd_broadcast, de_responseTo = None, de_expectedResponseType = None,
     de_requestScoped = False, de_response = False, de_broadcastAllowed = True\<rparr>"
| "P2P_WORKFLOW_MESSAGE_REGISTRY Mt_config_save = \<lparr>de_type = Mt_config_save, de_category = Pc_config,
     de_direction = Dir_browser_to_server, de_allowedIngress = [Peer_browser], de_serverHandling = Sh_forward_to_daemon,
     de_browserDelivery = Bd_none, de_responseTo = None, de_expectedResponseType = Some Mt_config_save_response,
     de_requestScoped = True, de_response = False, de_broadcastAllowed = False\<rparr>"
| "P2P_WORKFLOW_MESSAGE_REGISTRY Mt_config_save_response = \<lparr>de_type = Mt_config_save_response, de_category = Pc_config,
     de_direction = Dir_server_to_browser, de_allowedIngress = [Peer_daemon], de_serverHandling = Sh_singlecast_response,
     de_browserDelivery = Bd_singlecast, de_responseTo = Some Mt_config_save, de_expectedResponseType = None,
     de_requestScoped = True, de_response = True, de_broadcastAllowed = False\<rparr>"

section \<open>Reading a type\<close>

text \<open>
  The registry is an ordinary object, so a name of \<^verbatim>\<open>Object.prototype\<close> is found in it too: what is
  found there is not a descriptor, and reading its routes throws.
\<close>

datatype parsedMessageType = Pm_known p2pDescriptor | Pm_inherited | Pm_unknown_p2p_message | Pm_not_p2p_message

definition registeredType :: "string \<Rightarrow> p2pMessageType option" where
  "registeredType s = List.find (\<lambda>t. p2pMessageText t = s) P2P_MESSAGE_TYPES"

definition parseP2pWorkflowMessageType :: "jsval \<Rightarrow> parsedMessageType" where
  "parseP2pWorkflowMessageType v =
     (if \<not> isString v then Pm_not_p2p_message
      else (case registeredType (strOf v) of
          Some t \<Rightarrow> Pm_known (P2P_WORKFLOW_MESSAGE_REGISTRY t)
        | None \<Rightarrow>
           if strOf v \<in> set OBJECT_PROTOTYPE_MEMBERS then Pm_inherited
           else if startsWith (strOf v) ''p2p.'' then Pm_unknown_p2p_message
           else Pm_not_p2p_message))"

text \<open>\<^verbatim>\<open>/^[\x21-\x7e]{1,128}$/\<close>.\<close>

definition isP2pWorkflowRequestId :: "jsval \<Rightarrow> bool" where
  "isP2pWorkflowRequestId v = (isString v
     \<and> list_all (\<lambda>c. 33 \<le> codeUnit c \<and> codeUnit c \<le> 126) (strOf v)
     \<and> 1 \<le> length (strOf v) \<and> length (strOf v) \<le> 128)"

definition requiresP2pWorkflowRequestId :: "p2pMessageType \<Rightarrow> bool" where
  "requiresP2pWorkflowRequestId t = de_requestScoped (P2P_WORKFLOW_MESSAGE_REGISTRY t)"

section \<open>What the registry guarantees\<close>

lemma registeredType_text [simp]: "registeredType (p2pMessageText t) = Some t"
  by (cases t) (simp_all add: registeredType_def P2P_MESSAGE_TYPES_def)

lemma registeredType_Some: "registeredType s = Some t \<longleftrightarrow> s = p2pMessageText t"
  using registeredType_text by (auto simp: registeredType_def find_Some_iff)

lemma registry_type [simp]: "de_type (P2P_WORKFLOW_MESSAGE_REGISTRY t) = t"
  by (cases t) simp_all

text \<open>A request and its response: the browser asks, the daemon answers, and only one browser gets the answer.\<close>

lemma registry_pairs:
  assumes "requiresP2pWorkflowRequestId t" and "\<not> de_response (P2P_WORKFLOW_MESSAGE_REGISTRY t)"
  obtains r where "de_expectedResponseType (P2P_WORKFLOW_MESSAGE_REGISTRY t) = Some r"
    and "de_responseTo (P2P_WORKFLOW_MESSAGE_REGISTRY r) = Some t" and "de_response (P2P_WORKFLOW_MESSAGE_REGISTRY r)"
    and "de_requestScoped (P2P_WORKFLOW_MESSAGE_REGISTRY r)"
    and "de_browserDelivery (P2P_WORKFLOW_MESSAGE_REGISTRY r) = Bd_singlecast"
  using assms by (cases t) (auto simp: requiresP2pWorkflowRequestId_def)

lemma registry_ingress: "de_serverHandling (P2P_WORKFLOW_MESSAGE_REGISTRY t) = Sh_forward_to_daemon
    \<longleftrightarrow> de_allowedIngress (P2P_WORKFLOW_MESSAGE_REGISTRY t) = [Peer_browser]"
  by (cases t) simp_all

end
