(* ===== verification/BridgeRoutes.thy ===== *)
theory BridgeRoutes
  imports WfMessages
begin

text \<open>
  How the server passes P2P messages between browsers and the daemon (\<^verbatim>\<open>server/src/ws/bridge.ts\<close>): the
  requests that wait for an answer, with their timers and caps, the routes of the registry, and the
  capabilities the daemon announced. A socket is a number; \<open>isOpen\<close> is its \<^verbatim>\<open>readyState\<close>. Metrics and
  logging are left out.
\<close>

section \<open>Waiting requests\<close>

definition P2P_BRIDGE_PENDING_REQUESTS_PER_SOCKET :: nat where
  "P2P_BRIDGE_PENDING_REQUESTS_PER_SOCKET = 16"

definition P2P_BRIDGE_PENDING_REQUESTS_GLOBAL :: nat where
  "P2P_BRIDGE_PENDING_REQUESTS_GLOBAL = 512"

record pendingRequest =
  pr_socket :: nat
  pr_timer :: nat
  pr_requestType :: p2pMessageType
  pr_expectedResponseType :: p2pMessageType
  pr_createdAt :: int

text \<open>
  An active timer is its number and the request id its callback deletes: \<^verbatim>\<open>setTimeout\<close> adds one,
  \<^verbatim>\<open>clearTimeout\<close> removes one.
\<close>

record bridgeState =
  br_pending :: "(string, pendingRequest) jsmap"
  br_timers :: "(nat \<times> string) list"
  br_nextTimer :: nat

datatype registerResult = Rr_registered | Rr_refused string "string option"

definition registerP2pWorkflowRequest :: "nat \<Rightarrow> jsval \<Rightarrow> p2pDescriptor \<Rightarrow> int \<Rightarrow> bridgeState
    \<Rightarrow> registerResult \<times> bridgeState" where
  "registerP2pWorkflowRequest ws msg descriptor nowMs st =
     (if \<not> isP2pWorkflowRequestId (fld msg ''requestId'')
      then (Rr_refused ''invalid_request_id'' None, st)
      else (case de_expectedResponseType descriptor of
          None \<Rightarrow> (Rr_refused ''p2p_route_policy_error'' None, st)
        | Some expectedResponseType \<Rightarrow>
           (let requestId = strOf (fld msg ''requestId'');
                socketPendingCount = length (filter (\<lambda>x. pr_socket (snd x) = ws) (br_pending st)) in
            if mapHas (br_pending st) requestId then (Rr_refused ''duplicate_request_id'' None, st)
            else if P2P_BRIDGE_PENDING_REQUESTS_PER_SOCKET \<le> socketPendingCount
            then (Rr_refused ''p2p_pending_limit_exceeded'' (Some ''socket''), st)
            else if P2P_BRIDGE_PENDING_REQUESTS_GLOBAL \<le> length (br_pending st)
            then (Rr_refused ''p2p_pending_limit_exceeded'' (Some ''global''), st)
            else (Rr_registered, \<lparr>
              br_pending = mapSet (br_pending st) requestId
                \<lparr>pr_socket = ws, pr_timer = br_nextTimer st, pr_requestType = de_type descriptor,
                 pr_expectedResponseType = expectedResponseType, pr_createdAt = nowMs\<rparr>,
              br_timers = br_timers st @ [(br_nextTimer st, requestId)],
              br_nextTimer = Suc (br_nextTimer st)\<rparr>))))"

definition clearTimer :: "nat \<Rightarrow> bridgeState \<Rightarrow> bridgeState" where
  "clearTimer t st = st\<lparr>br_timers := filter (\<lambda>x. fst x \<noteq> t) (br_timers st)\<rparr>"

definition deletePending :: "string \<Rightarrow> bridgeState \<Rightarrow> bridgeState" where
  "deletePending r st = st\<lparr>br_pending := mapDelete (br_pending st) r\<rparr>"

text \<open>A timer that fires is no longer active; its callback deletes whatever waits under the id.\<close>

definition fireTimer :: "nat \<Rightarrow> bridgeState \<Rightarrow> bridgeState" where
  "fireTimer t st = (case map_of (br_timers st) t of
     None \<Rightarrow> st | Some r \<Rightarrow> deletePending r (clearTimer t st))"

definition cleanupBrowserSocket :: "nat \<Rightarrow> bridgeState \<Rightarrow> bridgeState" where
  "cleanupBrowserSocket ws st = foldl (\<lambda>s x.
     if pr_socket (snd x) = ws then deletePending (fst x) (clearTimer (pr_timer (snd x)) s) else s)
     st (br_pending st)"

section \<open>From a browser\<close>

datatype browserRoute = Bw_dropped | Bw_refused string "string option" | Bw_goes_on | Bw_throws

definition browserP2pMessage :: "nat \<Rightarrow> jsval \<Rightarrow> int \<Rightarrow> bridgeState \<Rightarrow> browserRoute \<times> bridgeState" where
  "browserP2pMessage ws msg nowMs st = (case parseP2pWorkflowMessageType (fld msg ''type'') of
     Pm_unknown_p2p_message \<Rightarrow> (Bw_dropped, st)
   | Pm_known descriptor \<Rightarrow>
       if Peer_browser \<notin> set (de_allowedIngress descriptor) \<or> de_response descriptor
         \<or> de_serverHandling descriptor \<noteq> Sh_forward_to_daemon
       then (Bw_refused ''p2p_wrong_peer'' None, st)
       else if de_requestScoped descriptor
       then (case registerP2pWorkflowRequest ws msg descriptor nowMs st of
           (Rr_registered, st1) \<Rightarrow> (Bw_goes_on, st1)
         | (Rr_refused code scope, st1) \<Rightarrow> (Bw_refused code scope, st1))
       else (Bw_goes_on, st)
   | Pm_inherited \<Rightarrow> (Bw_throws, st)
   | Pm_not_p2p_message \<Rightarrow> (Bw_goes_on, st))"

section \<open>From the daemon\<close>

text \<open>
  What becomes of a message: an answer for one socket (sent if that socket is open), a broadcast of
  the message, a run to sanitize, store and broadcast, a run update to sanitize and broadcast.
\<close>

datatype daemonRoute = Dr_dropped | Dr_answer nat bool | Dr_broadcast | Dr_persist_run | Dr_update_run
  | Dr_not_p2p | Dr_throws

definition answerRequest :: "(nat \<Rightarrow> bool) \<Rightarrow> jsval \<Rightarrow> p2pDescriptor \<Rightarrow> bridgeState \<Rightarrow> daemonRoute \<times> bridgeState" where
  "answerRequest isOpen msg descriptor st =
     (if \<not> isP2pWorkflowRequestId (fld msg ''requestId'') then (Dr_dropped, st)
      else (case mapGet (br_pending st) (strOf (fld msg ''requestId'')) of
          None \<Rightarrow> (Dr_dropped, st)
        | Some pending \<Rightarrow>
           if pr_expectedResponseType pending \<noteq> de_type descriptor then (Dr_dropped, st)
           else (Dr_answer (pr_socket pending) (isOpen (pr_socket pending)),
             deletePending (strOf (fld msg ''requestId'')) (clearTimer (pr_timer pending) st))))"

definition relayP2pMessage :: "(nat \<Rightarrow> bool) \<Rightarrow> jsval \<Rightarrow> bridgeState \<Rightarrow> daemonRoute \<times> bridgeState" where
  "relayP2pMessage isOpen msg st = (case parseP2pWorkflowMessageType (fld msg ''type'') of
     Pm_known descriptor \<Rightarrow>
       if Peer_daemon \<notin> set (de_allowedIngress descriptor) then (Dr_dropped, st)
       else if de_response descriptor \<and> de_requestScoped descriptor
       then answerRequest isOpen msg descriptor st
       else if de_type descriptor = Mt_conflict then (Dr_broadcast, st)
       else if de_type descriptor \<in> {Mt_run_save, Mt_run_complete, Mt_run_error} then (Dr_persist_run, st)
       else if de_type descriptor = Mt_run_update then (Dr_update_run, st)
       else if de_serverHandling descriptor = Sh_broadcast_to_browsers \<and> de_browserDelivery descriptor = Bd_broadcast
       then (Dr_broadcast, st)
       else (Dr_dropped, st)
   | Pm_unknown_p2p_message \<Rightarrow> (Dr_dropped, st)
   | Pm_inherited \<Rightarrow> (Dr_throws, st)
   | Pm_not_p2p_message \<Rightarrow> (Dr_not_p2p, st))"

section \<open>The capabilities of the daemon\<close>

definition TIMELINE_PROTOCOL_CAPABILITY :: string where
  "TIMELINE_PROTOCOL_CAPABILITY = ''timeline.protocol.v1''"

definition P2P_CAPABILITY_FRESHNESS_TTL_MS :: int where
  "P2P_CAPABILITY_FRESHNESS_TTL_MS = 30000"

record daemonCapabilities =
  dc_daemonId :: string
  dc_capabilities :: "string list"
  dc_timelineProtocolRevision :: "rat option"
  dc_buildInfo :: "jsval option"
  dc_helloEpoch :: rat
  dc_sentAt :: rat
  dc_receivedAt :: int

definition finiteNumber :: "jsval \<Rightarrow> rat option" where
  "finiteNumber v = (case v of Number (Num r) \<Rightarrow> Some r | _ \<Rightarrow> None)"

text \<open>The snapshot the browsers see, without the time of receipt.\<close>

definition helloSnapshot :: "daemonCapabilities \<Rightarrow> jsval" where
  "helloSnapshot c = Obj ([(''type'', Str ''daemon.hello''), (''daemonId'', Str (dc_daemonId c)),
     (''capabilities'', Arr (map Str (dc_capabilities c)))]
     @ (case dc_timelineProtocolRevision c of None \<Rightarrow> []
        | Some r \<Rightarrow> [(''timelineProtocolCapability'', Str TIMELINE_PROTOCOL_CAPABILITY),
            (''timelineProtocolRevision'', Number (Num r))])
     @ optField ''buildInfo'' (\<lambda>b. b) (dc_buildInfo c)
     @ [(''helloEpoch'', Number (Num (dc_helloEpoch c))), (''sentAt'', Number (Num (dc_sentAt c)))])"

definition handleDaemonP2pWorkflowHello :: "jsval \<Rightarrow> int \<Rightarrow> daemonCapabilities option
    \<Rightarrow> daemonCapabilities option \<times> jsval option" where
  "handleDaemonP2pWorkflowHello msg nowMs existing =
     (case (finiteNumber (fld msg ''helloEpoch''), finiteNumber (fld msg ''sentAt'')) of
        (Some helloEpoch, Some sentAt) \<Rightarrow>
         (if \<not> isString (fld msg ''daemonId'') \<or> strOf (fld msg ''daemonId'') = []
             \<or> \<not> isArray (fld msg ''capabilities'') then (existing, None)
          else if (case existing of Some c \<Rightarrow> helloEpoch < dc_helloEpoch c | None \<Rightarrow> False) then (existing, None)
          else
           (let given = map strOf (filter isString (arrItems (fld msg ''capabilities'')));
                sortedCapabilities = sortStrings (dedup given);
                revision = (if TIMELINE_PROTOCOL_CAPABILITY \<in> set sortedCapabilities
                  then finiteNumber (fld msg ''timelineProtocolRevision'') else None);
                buildInfo = (if isRecord (fld msg ''buildInfo'') \<or> isArray (fld msg ''buildInfo'')
                  then Some (fld msg ''buildInfo'') else None);
                c = \<lparr>dc_daemonId = strOf (fld msg ''daemonId''), dc_capabilities = sortedCapabilities,
                  dc_timelineProtocolRevision = revision, dc_buildInfo = buildInfo, dc_helloEpoch = helloEpoch,
                  dc_sentAt = sentAt, dc_receivedAt = nowMs\<rparr> in
            (Some c, Some (helloSnapshot c))))
      | _ \<Rightarrow> (existing, None))"

definition getDaemonP2pWorkflowCapabilities :: "int \<Rightarrow> daemonCapabilities option \<Rightarrow> daemonCapabilities option" where
  "getDaemonP2pWorkflowCapabilities now cached = (case cached of None \<Rightarrow> None
   | Some c \<Rightarrow> if now - dc_receivedAt c > P2P_CAPABILITY_FRESHNESS_TTL_MS then None else Some c)"

definition hasDaemonCapability :: "bool \<Rightarrow> string \<Rightarrow> daemonCapabilities option \<Rightarrow> bool" where
  "hasDaemonCapability daemonOpen capability cached =
     (daemonOpen \<and> (case cached of None \<Rightarrow> False | Some c \<Rightarrow> capability \<in> set (dc_capabilities c)))"

end
