(* ===== verification/BridgeInv.thy ===== *)
theory BridgeInv
  imports BridgeRoutes
begin

text \<open>
  The routes as a machine whose events are what browsers and the daemon notice, the invariant of
  waiting requests and timers, and what a trace of events says of every waiting request.
\<close>

section \<open>The machine\<close>

datatype bridgeEvent = Ev_request nat string p2pMessageType | Ev_answer nat string p2pMessageType
  | Ev_timeout string | Ev_closed nat | Ev_other

definition messageType :: "jsval \<Rightarrow> p2pMessageType option" where
  "messageType msg = (case parseP2pWorkflowMessageType (fld msg ''type'') of Pm_known d \<Rightarrow> Some (de_type d) | _ \<Rightarrow> None)"

definition browserEvent :: "nat \<Rightarrow> jsval \<Rightarrow> browserRoute \<Rightarrow> bridgeEvent" where
  "browserEvent ws msg route = (case messageType msg of
     Some t \<Rightarrow> if route = Bw_goes_on \<and> requiresP2pWorkflowRequestId t
       then Ev_request ws (strOf (fld msg ''requestId'')) t else Ev_other
   | None \<Rightarrow> Ev_other)"

definition daemonEvent :: "jsval \<Rightarrow> daemonRoute \<Rightarrow> bridgeEvent" where
  "daemonEvent msg route = (case (route, messageType msg) of
     (Dr_answer ws _, Some t) \<Rightarrow> Ev_answer ws (strOf (fld msg ''requestId'')) t
   | _ \<Rightarrow> Ev_other)"

inductive bridgeStep :: "bridgeState \<Rightarrow> bridgeEvent \<Rightarrow> bridgeState \<Rightarrow> bool" where
  browser: "browserP2pMessage ws msg now st = (route, st') \<Longrightarrow> bridgeStep st (browserEvent ws msg route) st'"
| daemon: "relayP2pMessage isOpen msg st = (route, st') \<Longrightarrow> bridgeStep st (daemonEvent msg route) st'"
| timeout: "map_of (br_timers st) t = Some r \<Longrightarrow> bridgeStep st (Ev_timeout r) (fireTimer t st)"
| closed: "bridgeStep st (Ev_closed ws) (cleanupBrowserSocket ws st)"

definition emptyBridge :: bridgeState where
  "emptyBridge = \<lparr>br_pending = [], br_timers = [], br_nextTimer = 0\<rparr>"

inductive bridgeRun :: "bridgeEvent list \<Rightarrow> bridgeState \<Rightarrow> bool" where
  start: "bridgeRun [] emptyBridge"
| step: "bridgeRun tr st \<Longrightarrow> bridgeStep st e st' \<Longrightarrow> bridgeRun (tr @ [e]) st'"

section \<open>The four changes\<close>

definition added :: "nat \<Rightarrow> string \<Rightarrow> p2pMessageType \<Rightarrow> p2pMessageType \<Rightarrow> int \<Rightarrow> bridgeState \<Rightarrow> bridgeState" where
  "added ws r q a now st = \<lparr>br_pending = br_pending st @ [(r, \<lparr>pr_socket = ws, pr_timer = br_nextTimer st,
     pr_requestType = q, pr_expectedResponseType = a, pr_createdAt = now\<rparr>)],
     br_timers = br_timers st @ [(br_nextTimer st, r)], br_nextTimer = Suc (br_nextTimer st)\<rparr>"

definition ended :: "string \<Rightarrow> nat \<Rightarrow> bridgeState \<Rightarrow> bridgeState" where
  "ended r t st = deletePending r (clearTimer t st)"

definition socketCount :: "nat \<Rightarrow> bridgeState \<Rightarrow> nat" where
  "socketCount ws st = length (filter (\<lambda>x. pr_socket (snd x) = ws) (br_pending st))"

lemma mapSet_new: "\<not> mapHas m k \<Longrightarrow> mapSet m k v = m @ [(k, v)]"
  by (induction m) auto

lemma browser_cases:
  assumes "browserP2pMessage ws msg now st = (route, st')"
  obtains "st' = st" and "browserEvent ws msg route = Ev_other"
  | r q a where "st' = added ws r q a now st" and "browserEvent ws msg route = Ev_request ws r q"
    and "de_expectedResponseType (P2P_WORKFLOW_MESSAGE_REGISTRY q) = Some a"
    and "\<not> mapHas (br_pending st) r" and "socketCount ws st < 16" and "length (br_pending st) < 512"
proof (cases "parseP2pWorkflowMessageType (fld msg ''type'')")
  case (Pm_known d)
  then obtain t where d: "d = P2P_WORKFLOW_MESSAGE_REGISTRY t"
    by (auto simp: parseP2pWorkflowMessageType_def split: if_split_asm option.split_asm)
  have type: "messageType msg = Some t" by (simp add: messageType_def Pm_known d)
  show thesis
  proof (cases "route = Bw_goes_on \<and> de_requestScoped d")
    case True
    then have scoped: "requiresP2pWorkflowRequestId t" by (simp add: d requiresP2pWorkflowRequestId_def)
    obtain a where reg: "registerP2pWorkflowRequest ws msg d now st = (Rr_registered, st')"
      and a: "de_expectedResponseType d = Some a"
      using assms True Pm_known
      by (auto simp: browserP2pMessage_def registerP2pWorkflowRequest_def Let_def
          split: if_split_asm prod.split_asm registerResult.split_asm option.split_asm)
    let ?r = "strOf (fld msg ''requestId'')"
    have "st' = added ws ?r t a now st" "\<not> mapHas (br_pending st) ?r" "socketCount ws st < 16" "length (br_pending st) < 512"
      using reg by (auto simp: registerP2pWorkflowRequest_def a [unfolded d] Let_def added_def socketCount_def mapSet_new d
          P2P_BRIDGE_PENDING_REQUESTS_PER_SOCKET_def P2P_BRIDGE_PENDING_REQUESTS_GLOBAL_def not_le split: if_split_asm)
    moreover have "browserEvent ws msg route = Ev_request ws ?r t"
      using True scoped by (simp add: browserEvent_def type)
    ultimately show thesis using that(2) a d by blast
  next
    case False
    then have "browserEvent ws msg route = Ev_other"
      by (auto simp: browserEvent_def type d requiresP2pWorkflowRequestId_def)
    moreover have "st' = st" using assms False Pm_known
      by (auto simp: browserP2pMessage_def registerP2pWorkflowRequest_def Let_def
          split: if_split_asm prod.split_asm registerResult.split_asm option.split_asm)
    ultimately show thesis using that(1) by blast
  qed
qed (use assms that(1) in \<open>auto simp: browserP2pMessage_def browserEvent_def messageType_def\<close>)

lemma daemon_cases:
  assumes "relayP2pMessage isOpen msg st = (route, st')"
  obtains "st' = st" and "daemonEvent msg route = Ev_other"
  | r p where "st' = ended r (pr_timer p) st" and "mapGet (br_pending st) r = Some p"
    and "daemonEvent msg route = Ev_answer (pr_socket p) r (pr_expectedResponseType p)"
proof (cases "\<exists>ws b. route = Dr_answer ws b")
  case True
  then obtain ws b where route: "route = Dr_answer ws b" by blast
  then obtain d where known: "parseP2pWorkflowMessageType (fld msg ''type'') = Pm_known d"
    and answer: "answerRequest isOpen msg d st = (Dr_answer ws b, st')"
    using assms by (auto simp: relayP2pMessage_def split: parsedMessageType.split_asm if_split_asm)
  then obtain p where "mapGet (br_pending st) (strOf (fld msg ''requestId'')) = Some p"
    and "pr_expectedResponseType p = de_type d" and "ws = pr_socket p"
    and "st' = ended (strOf (fld msg ''requestId'')) (pr_timer p) st"
    by (auto simp: answerRequest_def ended_def split: if_split_asm option.split_asm)
  then show thesis using that(2) by (simp add: daemonEvent_def route messageType_def known)
next
  case False
  then have "st' = st" using assms
    by (auto simp: relayP2pMessage_def answerRequest_def split: parsedMessageType.split_asm if_split_asm option.split_asm)
  moreover have "daemonEvent msg route = Ev_other"
    using False by (auto simp: daemonEvent_def split: daemonRoute.split)
  ultimately show thesis using that(1) by blast
qed

lemma cleanup_fold:
  "foldl (\<lambda>s x. if pr_socket (snd x) = ws then deletePending (fst x) (clearTimer (pr_timer (snd x)) s) else s) st xs
    = st\<lparr>br_pending := filter (\<lambda>y. \<forall>x \<in> set xs. pr_socket (snd x) = ws \<longrightarrow> fst x \<noteq> fst y) (br_pending st),
         br_timers := filter (\<lambda>y. \<forall>x \<in> set xs. pr_socket (snd x) = ws \<longrightarrow> fst y \<noteq> pr_timer (snd x)) (br_timers st)\<rparr>"
proof (induction xs arbitrary: st)
  case (Cons x xs)
  show ?case
    by (subst foldl_Cons, subst Cons.IH)
      (simp add: deletePending_def clearTimer_def AList.delete_eq case_prod_unfold)
qed simp

section \<open>The invariant\<close>

definition timersOf :: "(string, pendingRequest) jsmap \<Rightarrow> (nat \<times> string) list" where
  "timersOf m = map (\<lambda>x. (pr_timer (snd x), fst x)) m"

text \<open>
  Ids are distinct, the active timers are exactly those of the waiting requests, every timer has its
  own number, the caps hold, and a request waits for the answer the registry names.
\<close>

definition bridgeInv :: "bridgeState \<Rightarrow> bool" where
  "bridgeInv st = (distinct (map fst (br_pending st)) \<and> mset (br_timers st) = mset (timersOf (br_pending st))
     \<and> distinct (map fst (br_timers st)) \<and> (\<forall>x \<in> set (br_timers st). fst x < br_nextTimer st)
     \<and> (\<forall>ws. socketCount ws st \<le> 16) \<and> length (br_pending st) \<le> 512
     \<and> (\<forall>x \<in> set (br_pending st). de_expectedResponseType (P2P_WORKFLOW_MESSAGE_REGISTRY (pr_requestType (snd x)))
          = Some (pr_expectedResponseType (snd x))))"

lemma inv_empty: "bridgeInv emptyBridge"
  by (simp add: bridgeInv_def emptyBridge_def timersOf_def socketCount_def)

lemma inv_added:
  assumes "bridgeInv st" and "de_expectedResponseType (P2P_WORKFLOW_MESSAGE_REGISTRY q) = Some a"
    and "\<not> mapHas (br_pending st) r" and "socketCount ws st < 16" and "length (br_pending st) < 512"
  shows "bridgeInv (added ws r q a now st)"
  using assms by (auto simp: bridgeInv_def added_def timersOf_def socketCount_def less_Suc_eq)

text \<open>Dropping some requests with their timers keeps it.\<close>

lemma timer_inj:
  assumes "bridgeInv st" and "x \<in> set (br_pending st)" and "y \<in> set (br_pending st)"
  shows "pr_timer (snd x) = pr_timer (snd y) \<longleftrightarrow> x = y"
proof -
  have "set (br_timers st) = set (timersOf (br_pending st))" and "distinct (map fst (br_timers st))"
    and keys: "distinct (map fst (br_pending st))"
    using assms(1) by (auto simp: bridgeInv_def dest: mset_eq_setD)
  moreover have "(pr_timer (snd z), fst z) \<in> set (timersOf (br_pending st))" if "z \<in> set (br_pending st)" for z
    using that by (auto simp: timersOf_def)
  ultimately have "fst x = fst y" if "pr_timer (snd x) = pr_timer (snd y)"
    using that assms(2,3) eq_key_imp_eq_value by metis
  then show ?thesis using assms(2,3) keys by (metis eq_key_imp_eq_value prod.collapse)
qed

lemma inv_filter:
  assumes "bridgeInv st" and "\<And>x. x \<in> set (br_pending st) \<Longrightarrow> Q (pr_timer (snd x), fst x) \<longleftrightarrow> P x"
  shows "bridgeInv (st\<lparr>br_pending := filter P (br_pending st), br_timers := filter Q (br_timers st)\<rparr>)"
proof -
  have "mset (filter Q (br_timers st)) = mset (filter Q (timersOf (br_pending st)))"
    using assms(1) by (simp add: bridgeInv_def mset_filter)
  also have "filter Q (timersOf (br_pending st)) = timersOf (filter P (br_pending st))"
    using assms(2) by (auto simp: timersOf_def filter_map o_def intro!: arg_cong [where f = "map _"] filter_cong)
  finally have timers: "mset (filter Q (br_timers st)) = mset (timersOf (filter P (br_pending st)))" .
  have "length (filter A (filter P xs)) \<le> length (filter A xs)" for A and xs :: "(string \<times> pendingRequest) list"
    by (induction xs) auto
  then have "socketCount ws (st\<lparr>br_pending := filter P (br_pending st), br_timers := filter Q (br_timers st)\<rparr>)
      \<le> socketCount ws st" for ws
    by (simp add: socketCount_def)
  then show ?thesis using assms(1) timers
    by (auto simp: bridgeInv_def distinct_map_filter intro: order_trans le_trans [OF length_filter_le])
qed

lemma pending_in: "mapGet m r = Some p \<Longrightarrow> (r, p) \<in> set m"
  by (rule map_of_SomeD)

lemma ended_eq:
  assumes "bridgeInv st" and "mapGet (br_pending st) r = Some p"
  shows "ended r (pr_timer p) st = st\<lparr>br_pending := filter (\<lambda>x. fst x \<noteq> r) (br_pending st),
    br_timers := filter (\<lambda>x. fst x \<noteq> pr_timer p) (br_timers st)\<rparr>"
  by (simp add: ended_def deletePending_def clearTimer_def AList.delete_eq case_prod_unfold eq_commute)

lemma inv_ended:
  assumes "bridgeInv st" and "mapGet (br_pending st) r = Some p"
  shows "bridgeInv (ended r (pr_timer p) st)"
  unfolding ended_eq [OF assms]
proof (rule inv_filter [OF assms(1)])
  fix x
  assume "x \<in> set (br_pending st)"
  then have "pr_timer (snd x) = pr_timer p \<longleftrightarrow> x = (r, p)"
    using timer_inj [OF assms(1), of x "(r, p)"] pending_in [OF assms(2)] by simp
  moreover have "fst x = r \<longleftrightarrow> x = (r, p)" using \<open>x \<in> _\<close> pending_in [OF assms(2)] assms(1)
    by (metis bridgeInv_def eq_key_imp_eq_value fst_conv prod.collapse)
  ultimately show "fst (pr_timer (snd x), fst x) \<noteq> pr_timer p \<longleftrightarrow> fst x \<noteq> r" by simp
qed

text \<open>An active timer belongs to a waiting request.\<close>

lemma timer_of_pending:
  assumes "bridgeInv st" and "map_of (br_timers st) t = Some r"
  obtains p where "mapGet (br_pending st) r = Some p" and "pr_timer p = t"
proof -
  have "(t, r) \<in> set (timersOf (br_pending st))"
    using assms map_of_SomeD by (fastforce simp: bridgeInv_def dest: mset_eq_setD)
  then obtain p where "(r, p) \<in> set (br_pending st)" "pr_timer p = t" by (auto simp: timersOf_def)
  then show thesis using that assms(1) by (simp add: bridgeInv_def)
qed

lemma fire_is_end:
  assumes "bridgeInv st" and "map_of (br_timers st) t = Some r"
  obtains p where "mapGet (br_pending st) r = Some p" and "fireTimer t st = ended r (pr_timer p) st"
  by (rule timer_of_pending [OF assms]) (simp add: fireTimer_def assms(2) ended_def)

lemma cleanup_eq:
  assumes "bridgeInv st"
  shows "cleanupBrowserSocket ws st = st\<lparr>br_pending := filter (\<lambda>y. pr_socket (snd y) \<noteq> ws) (br_pending st),
    br_timers := filter (\<lambda>y. \<forall>x \<in> set (br_pending st). pr_socket (snd x) = ws \<longrightarrow> fst y \<noteq> pr_timer (snd x)) (br_timers st)\<rparr>"
proof -
  have "(\<forall>x \<in> set (br_pending st). pr_socket (snd x) = ws \<longrightarrow> fst x \<noteq> fst y) \<longleftrightarrow> pr_socket (snd y) \<noteq> ws"
    if "y \<in> set (br_pending st)" for y
    using that assms by (metis bridgeInv_def eq_key_imp_eq_value prod.collapse)
  then have "filter (\<lambda>y. \<forall>x \<in> set (br_pending st). pr_socket (snd x) = ws \<longrightarrow> fst x \<noteq> fst y) (br_pending st)
    = filter (\<lambda>y. pr_socket (snd y) \<noteq> ws) (br_pending st)" by (rule filter_cong [OF refl])
  then show ?thesis by (simp add: cleanupBrowserSocket_def cleanup_fold)
qed

lemma inv_cleanup:
  assumes "bridgeInv st"
  shows "bridgeInv (cleanupBrowserSocket ws st)"
  unfolding cleanup_eq [OF assms] by (rule inv_filter [OF assms]) (metis fst_conv timer_inj [OF assms])

lemma inv_step: "bridgeStep st e st' \<Longrightarrow> bridgeInv st \<Longrightarrow> bridgeInv st'"
proof (induction rule: bridgeStep.induct)
  case (browser ws msg now st route st')
  then show ?case by (auto elim!: browser_cases intro: inv_added)
next
  case (daemon isOpen msg st route st')
  then show ?case by (auto elim!: daemon_cases intro: inv_ended)
next
  case (timeout st t r)
  then obtain p where "mapGet (br_pending st) r = Some p" "fireTimer t st = ended r (pr_timer p) st"
    using fire_is_end by metis
  with timeout show ?case by (simp add: inv_ended)
next
  case (closed st ws)
  then show ?case by (rule inv_cleanup)
qed

lemma inv_run: "bridgeRun tr st \<Longrightarrow> bridgeInv st"
  by (induction rule: bridgeRun.induct) (auto intro: inv_empty inv_step)

section \<open>What a trace says\<close>

text \<open>An event after which a request of this socket under this id no longer waits, or waits anew.\<close>

primrec endsRequest :: "nat \<Rightarrow> string \<Rightarrow> bridgeEvent \<Rightarrow> bool" where
  "endsRequest ws r (Ev_request _ r' _) = (r' = r)"
| "endsRequest ws r (Ev_answer _ r' _) = (r' = r)"
| "endsRequest ws r (Ev_timeout r') = (r' = r)"
| "endsRequest ws r (Ev_closed ws') = (ws' = ws)"
| "endsRequest ws r Ev_other = False"

text \<open>The trace has a request for it that nothing has ended since.\<close>

definition waitsIn :: "bridgeEvent list \<Rightarrow> nat \<Rightarrow> string \<Rightarrow> p2pMessageType \<Rightarrow> bool" where
  "waitsIn tr ws r q = (\<exists>pre mid. tr = pre @ Ev_request ws r q # mid \<and> (\<forall>e \<in> set mid. \<not> endsRequest ws r e))"

lemma waitsIn_new: "waitsIn (tr @ [Ev_request ws r q]) ws r q"
  unfolding waitsIn_def by (rule exI [of _ tr], rule exI [of _ "[]"]) simp

lemma waitsIn_later:
  assumes "waitsIn tr ws r q" and "\<not> endsRequest ws r e"
  shows "waitsIn (tr @ [e]) ws r q"
proof -
  obtain pre mid where "tr = pre @ Ev_request ws r q # mid" "\<forall>e \<in> set mid. \<not> endsRequest ws r e"
    using assms(1) by (auto simp: waitsIn_def)
  then show ?thesis using assms(2) unfolding waitsIn_def
    by (intro exI [of _ pre] exI [of _ "mid @ [e]"]) auto
qed

lemma get_filter: "distinct (map fst m) \<Longrightarrow> mapGet (filter P m) r = Some p \<longleftrightarrow> mapGet m r = Some p \<and> P (r, p)"
  by (induction m) (auto simp: map_of_eq_None_iff dest: map_of_SomeD, force+)

lemma get_ended: "mapGet (br_pending (ended r t st)) r' = Some p \<longleftrightarrow> r' \<noteq> r \<and> mapGet (br_pending st) r' = Some p"
  by (simp add: ended_def deletePending_def clearTimer_def)

lemma get_cleanup: "bridgeInv st \<Longrightarrow> mapGet (br_pending (cleanupBrowserSocket ws st)) r = Some p
    \<longleftrightarrow> mapGet (br_pending st) r = Some p \<and> pr_socket p \<noteq> ws"
  by (simp add: cleanup_eq get_filter bridgeInv_def)

lemma get_added: "\<not> mapHas (br_pending st) r \<Longrightarrow> mapGet (br_pending (added ws r q a now st)) r' = Some p
    \<longleftrightarrow> (if r' = r then p = \<lparr>pr_socket = ws, pr_timer = br_nextTimer st, pr_requestType = q,
        pr_expectedResponseType = a, pr_createdAt = now\<rparr> else mapGet (br_pending st) r' = Some p)"
  by (cases "r' = r") (auto simp: added_def map_add_Some_iff mapHas_iff)

text \<open>What a step leaves waiting was waiting before and is not ended by its event, or is new.\<close>

lemma step_waits:
  assumes "bridgeStep st e st'" and "bridgeInv st" and "mapGet (br_pending st') r = Some p"
  shows "e = Ev_request (pr_socket p) r (pr_requestType p)
    \<or> mapGet (br_pending st) r = Some p \<and> \<not> endsRequest (pr_socket p) r e"
  using assms
proof (induction rule: bridgeStep.induct)
  case (browser ws msg now st route st')
  then show ?case by (auto elim!: browser_cases simp: get_added split: if_split_asm)
next
  case (daemon isOpen msg st route st')
  then show ?case by (auto elim!: daemon_cases simp: get_ended)
next
  case (timeout st t r')
  then obtain q where "mapGet (br_pending st) r' = Some q" "fireTimer t st = ended r' (pr_timer q) st"
    using fire_is_end by metis
  with timeout show ?case by (auto simp: get_ended)
next
  case (closed st ws)
  then show ?case by (auto simp: get_cleanup)
qed

lemma run_waits: "bridgeRun tr st \<Longrightarrow> mapGet (br_pending st) r = Some p \<Longrightarrow> waitsIn tr (pr_socket p) r (pr_requestType p)"
proof (induction arbitrary: p rule: bridgeRun.induct)
  case (step tr st e st')
  from step_waits [OF step.hyps(2) inv_run [OF step.hyps(1)] step.prems] show ?case
    using step.IH waitsIn_new waitsIn_later by blast
qed (simp add: emptyBridge_def)

end
