(* ===== verification/BridgeProps.thy ===== *)
theory BridgeProps
  imports BridgeInv
begin

text \<open>The properties of the server's P2P routes.\<close>

section \<open>A request waits exactly when its trace says so\<close>

lemma waitsIn_empty: "\<not> waitsIn [] ws r q"
  by (simp add: waitsIn_def)

lemma waitsIn_last:
  assumes "waitsIn (tr @ [e]) ws r q"
  shows "e = Ev_request ws r q \<or> waitsIn tr ws r q \<and> \<not> endsRequest ws r e"
proof -
  obtain pre mid where tr: "tr @ [e] = pre @ Ev_request ws r q # mid" "\<forall>e \<in> set mid. \<not> endsRequest ws r e"
    using assms by (auto simp: waitsIn_def)
  show ?thesis
  proof (cases mid rule: rev_cases)
    case (snoc mid' x)
    then have "tr = pre @ Ev_request ws r q # mid'" "x = e" using tr(1) by simp_all
    then show ?thesis using tr(2) snoc by (auto simp: waitsIn_def)
  qed (use tr(1) in simp)
qed

text \<open>A step keeps waiting what its event does not end.\<close>

lemma step_keeps:
  assumes "bridgeStep st e st'" and "bridgeInv st" and "mapGet (br_pending st) r = Some p"
    and "\<not> endsRequest (pr_socket p) r e"
  shows "mapGet (br_pending st') r = Some p"
  using assms
proof (induction rule: bridgeStep.induct)
  case (browser ws msg now st route st')
  then show ?case by (auto elim!: browser_cases simp: get_added)
next
  case (daemon isOpen msg st route st')
  then show ?case by (auto elim!: daemon_cases simp: get_ended)
next
  case (timeout st t r')
  then obtain q where "mapGet (br_pending st) r' = Some q" "fireTimer t st = ended r' (pr_timer q) st"
    using fire_is_end by metis
  with timeout show ?case by (auto simp: get_ended)
next
  case (closed st ws)
  then show ?case by (auto simp: get_cleanup)
qed

text \<open>A request event leaves the request waiting.\<close>

lemma event_request:
  "browserEvent ws msg route = Ev_request ws' r q \<Longrightarrow> requiresP2pWorkflowRequestId q"
  "daemonEvent msg droute \<noteq> Ev_request ws' r q"
  by (auto simp: browserEvent_def daemonEvent_def split: option.split_asm if_split_asm daemonRoute.split_asm)

lemma step_request:
  assumes "bridgeStep st e st'" and "e = Ev_request ws r q"
  shows "\<exists>p. mapGet (br_pending st') r = Some p \<and> pr_socket p = ws \<and> pr_requestType p = q"
  using assms
proof (induction rule: bridgeStep.induct)
  case (browser ws' msg now st route st')
  from browser(1) show ?case by (rule browser_cases) (use browser(2) in \<open>simp_all add: get_added\<close>)
qed (simp_all add: event_request)

lemma step_scoped: "bridgeStep st e st' \<Longrightarrow> e = Ev_request ws r q \<Longrightarrow> requiresP2pWorkflowRequestId q"
  by (induction rule: bridgeStep.induct) (auto simp: event_request dest: event_request(1))

lemma run_scoped: "bridgeRun tr st \<Longrightarrow> Ev_request ws r q \<in> set tr \<Longrightarrow> requiresP2pWorkflowRequestId q"
  by (induction rule: bridgeRun.induct) (auto dest: step_scoped)

lemma waits_run:
  "bridgeRun tr st \<Longrightarrow> waitsIn tr ws r q
    \<Longrightarrow> \<exists>p. mapGet (br_pending st) r = Some p \<and> pr_socket p = ws \<and> pr_requestType p = q"
proof (induction rule: bridgeRun.induct)
  case (step tr st e st')
  from waitsIn_last [OF step.prems] show ?case
    using step.IH step_keeps [OF step.hyps(2) inv_run [OF step.hyps(1)]] step_request [OF step.hyps(2)] by blast
qed (simp add: waitsIn_empty)

lemma waiting_iff:
  assumes "bridgeRun tr st"
  shows "(\<exists>p. mapGet (br_pending st) r = Some p \<and> pr_socket p = ws \<and> pr_requestType p = q) \<longleftrightarrow> waitsIn tr ws r q"
  using run_waits [OF assms] waits_run [OF assms] by blast

lemma run_expected:
  assumes "bridgeRun tr st" and "mapGet (br_pending st) r = Some p"
  shows "de_expectedResponseType (P2P_WORKFLOW_MESSAGE_REGISTRY (pr_requestType p)) = Some (pr_expectedResponseType p)"
  using inv_run [OF assms(1)] pending_in [OF assms(2)] by (force simp: bridgeInv_def)

lemma waitsIn_scoped:
  assumes "bridgeRun tr st" and "waitsIn tr ws r q"
  shows "requiresP2pWorkflowRequestId q"
  using assms by (auto simp: waitsIn_def intro!: run_scoped [of tr st ws r q])

lemma response_route:
  assumes "requiresP2pWorkflowRequestId q" and "de_expectedResponseType (P2P_WORKFLOW_MESSAGE_REGISTRY q) = Some t"
  shows "Peer_daemon \<in> set (de_allowedIngress (P2P_WORKFLOW_MESSAGE_REGISTRY t))"
    and "de_response (P2P_WORKFLOW_MESSAGE_REGISTRY t)" and "de_requestScoped (P2P_WORKFLOW_MESSAGE_REGISTRY t)"
  using assms by (cases q; auto simp: requiresP2pWorkflowRequestId_def)+

lemma messageType_known: "messageType msg = Some t
    \<Longrightarrow> parseP2pWorkflowMessageType (fld msg ''type'') = Pm_known (P2P_WORKFLOW_MESSAGE_REGISTRY t)"
  by (auto simp: messageType_def parseP2pWorkflowMessageType_def split: if_split_asm option.split_asm)

section \<open>An example\<close>

definition exampleRequest :: jsval where
  "exampleRequest = Obj [(''type'', Str ''p2p.status''), (''requestId'', Str ''r1'')]"

definition exampleAnswer :: jsval where
  "exampleAnswer = Obj [(''type'', Str ''p2p.status_response''), (''requestId'', Str ''r1'')]"

definition exampleBridge :: bridgeState where
  "exampleBridge = snd (browserP2pMessage 7 exampleRequest 0 emptyBridge)"

lemma example_run: "bridgeRun [Ev_request 7 ''r1'' Mt_status] exampleBridge"
proof -
  have e: "browserEvent 7 exampleRequest Bw_goes_on = Ev_request 7 ''r1'' Mt_status" by code_simp
  have "fst (browserP2pMessage 7 exampleRequest 0 emptyBridge) = Bw_goes_on" by code_simp
  then have "browserP2pMessage 7 exampleRequest 0 emptyBridge = (Bw_goes_on, exampleBridge)"
    by (simp add: exampleBridge_def prod_eq_iff)
  then have "bridgeRun ([] @ [browserEvent 7 exampleRequest Bw_goes_on]) exampleBridge"
    by (intro bridgeRun.step [OF bridgeRun.start] bridgeStep.browser)
  then show ?thesis by (simp add: e)
qed

section \<open>The properties\<close>

text \<open>C11: The daemon's message is sent to socket ws as an answer exactly when it has a valid request id
  and the trace holds a request of that socket under that id, with the type the registry pairs with the
  message's, that nothing has ended since: no answer, no timeout, no closing of the socket. So a browser
  sees no answer but to its own question and at most one, and no answer it waits for is lost.\<close>

theorem answer_goes_to_the_asker:
  assumes "bridgeRun tr st" and "messageType msg = Some t"
  shows "(\<exists>b st'. relayP2pMessage isOpen msg st = (Dr_answer ws b, st'))
    \<longleftrightarrow> isP2pWorkflowRequestId (fld msg ''requestId'')
      \<and> (\<exists>q. waitsIn tr ws (strOf (fld msg ''requestId'')) q
          \<and> de_expectedResponseType (P2P_WORKFLOW_MESSAGE_REGISTRY q) = Some t)" (is "?A \<longleftrightarrow> ?B")
proof
  assume ?A
  then obtain p where "isP2pWorkflowRequestId (fld msg ''requestId'')"
    and p: "mapGet (br_pending st) (strOf (fld msg ''requestId'')) = Some p" "pr_expectedResponseType p = t" "pr_socket p = ws"
    by (auto simp: relayP2pMessage_def messageType_known [OF assms(2)] answerRequest_def split: if_split_asm option.split_asm)
  then show ?B using run_expected [OF assms(1) p(1)] run_waits [OF assms(1) p(1)] by auto
next
  assume ?B
  then obtain q where id: "isP2pWorkflowRequestId (fld msg ''requestId'')"
    and q: "waitsIn tr ws (strOf (fld msg ''requestId'')) q" "de_expectedResponseType (P2P_WORKFLOW_MESSAGE_REGISTRY q) = Some t"
    by blast
  then obtain p where p: "mapGet (br_pending st) (strOf (fld msg ''requestId'')) = Some p" "pr_socket p = ws" "pr_requestType p = q"
    using waits_run [OF assms(1)] by blast
  then show ?A using response_route [OF waitsIn_scoped [OF assms(1) q(1)] q(2)] run_expected [OF assms(1) p(1)] q(2) id
    by (simp add: relayP2pMessage_def messageType_known [OF assms(2)] answerRequest_def)
qed

lemma answer_goes_to_the_asker_witness:
  "\<exists>b st'. relayP2pMessage (\<lambda>_. True) exampleAnswer exampleBridge = (Dr_answer 7 b, st')"
proof -
  have "messageType exampleAnswer = Some Mt_status_response" "isP2pWorkflowRequestId (fld exampleAnswer ''requestId'')"
    "strOf (fld exampleAnswer ''requestId'') = ''r1''" by code_simp+
  then show ?thesis
    using answer_goes_to_the_asker [OF example_run, of exampleAnswer Mt_status_response "\<lambda>_. True" 7]
      waitsIn_new [of "[]" 7 "''r1''" Mt_status] by auto
qed

text \<open>C37: Whatever browsers and the daemon send, and in whatever order answers, timeouts and closings come,
  at most 16 requests of a socket and 512 in all wait, each under an id of its own; every one of them has
  exactly one active timer and no other timer is active, so that when a timer fires it ends just its own
  request.\<close>

theorem waiting_requests_bounded:
  assumes "bridgeRun tr st"
  shows "socketCount ws st \<le> P2P_BRIDGE_PENDING_REQUESTS_PER_SOCKET
    \<and> length (br_pending st) \<le> P2P_BRIDGE_PENDING_REQUESTS_GLOBAL
    \<and> distinct (map fst (br_pending st))
    \<and> mset (br_timers st) = mset (timersOf (br_pending st)) \<and> distinct (map fst (br_timers st))
    \<and> (\<forall>r p. mapGet (br_pending st) r = Some p
        \<longrightarrow> br_pending (fireTimer (pr_timer p) st) = filter (\<lambda>x. fst x \<noteq> r) (br_pending st))"
proof -
  have inv: "bridgeInv st" by (rule inv_run [OF assms])
  have "br_pending (fireTimer (pr_timer p) st) = filter (\<lambda>x. fst x \<noteq> r) (br_pending st)"
    if p: "mapGet (br_pending st) r = Some p" for r p
  proof -
    have "set (br_timers st) = set (timersOf (br_pending st))" using inv by (auto simp: bridgeInv_def dest: mset_eq_setD)
    then have "(pr_timer p, r) \<in> set (br_timers st)" using pending_in [OF p] by (force simp: timersOf_def)
    then have "map_of (br_timers st) (pr_timer p) = Some r" using inv by (simp add: bridgeInv_def)
    then show ?thesis using ended_eq [OF inv p] by (simp add: fireTimer_def ended_def)
  qed
  then show ?thesis using inv
    by (simp add: bridgeInv_def P2P_BRIDGE_PENDING_REQUESTS_PER_SOCKET_def P2P_BRIDGE_PENDING_REQUESTS_GLOBAL_def)
qed

lemma waiting_requests_bounded_witness: "socketCount 7 exampleBridge \<le> 16 \<and> length (br_pending exampleBridge) = 1"
proof -
  have "length (br_pending exampleBridge) = 1" by code_simp
  then show ?thesis using waiting_requests_bounded [OF example_run, of 7]
    by (simp add: P2P_BRIDGE_PENDING_REQUESTS_PER_SOCKET_def)
qed

end
