(* ===== verification/SanitizeClone.thy ===== *)
theory SanitizeClone
  imports WfData
begin

text \<open>
  The first half of \<^verbatim>\<open>server/src/p2p-workflow-sanitize.ts\<close>: the scalars it reads, strings cut to a
  number of UTF-8 bytes, and the bounded copy of an arbitrary value that leaves out private fields.
  Values come from \<^verbatim>\<open>JSON.parse\<close>, so they are trees and the set of values already seen never matters.
\<close>

section \<open>Limits and names\<close>

definition P2P_SANITIZE_MAX_STRING_BYTES :: nat where "P2P_SANITIZE_MAX_STRING_BYTES = 4096"

definition P2P_SANITIZE_MAX_ARRAY_ITEMS :: nat where "P2P_SANITIZE_MAX_ARRAY_ITEMS = 64"

definition P2P_SANITIZE_MAX_OBJECT_KEYS :: nat where "P2P_SANITIZE_MAX_OBJECT_KEYS = 64"

definition P2P_SANITIZE_MAX_DEPTH :: nat where "P2P_SANITIZE_MAX_DEPTH = 6"

definition P2P_SANITIZE_MAX_TOTAL_BYTES :: nat where "P2P_SANITIZE_MAX_TOTAL_BYTES = 64 * 1024"

definition FORBIDDEN_KEYS :: "string list" where
  "FORBIDDEN_KEYS = [''__proto__'', ''constructor'', ''prototype''] @ P2P_FORBIDDEN_ENVELOPE_FIELD_NAMES"

definition SAFE_LEGACY_RUN_UPDATE_FIELDS :: "string list" where
  "SAFE_LEGACY_RUN_UPDATE_FIELDS = [''current_round_mode'', ''current_round'', ''total_rounds'', ''total_count'',
     ''total_hops'', ''remaining_count'', ''completed_hops_count'', ''completed_round_hops_count'', ''skipped_hops'',
     ''active_phase'', ''execution_attempt'', ''execution_cycle_current'', ''execution_cycle_total'', ''hop_started_at'',
     ''active_hop_number'', ''active_round_hop_number'', ''current_target_label'', ''initiator_label'', ''hop_states'',
     ''hop_counts'', ''terminal_reason'', ''advanced_p2p_enabled'', ''current_round_id'', ''current_execution_step'',
     ''current_round_attempt'', ''round_attempt_counts'', ''round_jump_counts'', ''routing_history'',
     ''helper_diagnostics'', ''advanced_nodes'', ''run_phase'', ''summary_phase'']"

section \<open>Strings cut to bytes\<close>

text \<open>The binary search for the number of characters that fit.\<close>

function fittingChars :: "string \<Rightarrow> nat \<Rightarrow> nat \<Rightarrow> nat \<Rightarrow> nat" where
  "fittingChars chars maxBytes low high =
     (if low < high then
        (let mid = (low + high + 1) div 2 in
         if byteLength (take mid chars) \<le> maxBytes then fittingChars chars maxBytes mid high
         else fittingChars chars maxBytes low (mid - 1))
      else low)"
  by pat_completeness auto

termination
  by (relation "measure (\<lambda>(chars, maxBytes, low, high). high - low)") auto

declare fittingChars.simps [simp del]

definition truncateUtf8String :: "string \<Rightarrow> nat \<Rightarrow> string \<times> bool" where
  "truncateUtf8String s maxBytes =
     (if byteLength s \<le> maxBytes then (s, False)
      else if maxBytes = 0 then ([], True)
      else (take (fittingChars s maxBytes 0 (length s)) s, True))"

definition boundedString :: "string \<Rightarrow> string" where
  "boundedString s = fst (truncateUtf8String s P2P_SANITIZE_MAX_STRING_BYTES)"

section \<open>Scalars\<close>

text \<open>\<^verbatim>\<open>a ?? b\<close>.\<close>

definition orNullish :: "jsval \<Rightarrow> jsval \<Rightarrow> jsval" where
  "orNullish a b = (if a = Undef \<or> a = Null then b else a)"

definition stringValue :: "jsval \<Rightarrow> string option" where
  "stringValue v = (case v of Str s \<Rightarrow> Some s | _ \<Rightarrow> None)"

definition requiredString :: "jsval \<Rightarrow> string \<Rightarrow> string" where
  "requiredString v fallback = (case stringValue v of
     Some s \<Rightarrow> if trim s \<noteq> [] then boundedString s else fallback | None \<Rightarrow> fallback)"

definition nullableString :: "jsval \<Rightarrow> string option" where
  "nullableString v = (case v of Str s \<Rightarrow> Some (boundedString s) | _ \<Rightarrow> None)"

definition optionalNumber :: "jsval \<Rightarrow> rat option" where
  "optionalNumber v = (case v of Number (Num r) \<Rightarrow> Some r | _ \<Rightarrow> None)"

definition numberValue :: "jsval \<Rightarrow> rat \<Rightarrow> rat" where
  "numberValue v fallback = (case optionalNumber v of Some r \<Rightarrow> r | None \<Rightarrow> fallback)"

definition finiteNumberVal :: "rat \<Rightarrow> jsval" where
  "finiteNumberVal r = Number (Num r)"

text \<open>A number, null or undefined, as the value it becomes.\<close>

definition nullableNumber :: "jsval \<Rightarrow> jsval" where
  "nullableNumber v = (if v = Null then Null else optVal finiteNumberVal (optionalNumber v))"

text \<open>\<^verbatim>\<open>typeof v === 'string' && v.trim() ? boundedString(v.trim()) : ...\<close>.\<close>

definition trimmedString :: "jsval \<Rightarrow> string option" where
  "trimmedString v = (case v of Str s \<Rightarrow> if trim s \<noteq> [] then Some (boundedString (trim s)) else None | _ \<Rightarrow> None)"

definition stringArray :: "jsval \<Rightarrow> string list" where
  "stringArray v = map (\<lambda>x. boundedString (strOf x)) (filter isString (take P2P_SANITIZE_MAX_ARRAY_ITEMS (arrItems v)))"

definition sanitizeDiagnosticString :: "jsval \<Rightarrow> string option" where
  "sanitizeDiagnosticString v = (case v of Str s \<Rightarrow> if trim s \<noteq> [] then Some (boundedString s) else None | _ \<Rightarrow> None)"

section \<open>The bounded copy\<close>

record cloneContext =
  cx_remainingBytes :: nat
  cx_truncated :: bool

definition markTruncated :: "cloneContext \<Rightarrow> cloneContext" where
  "markTruncated cx = cx\<lparr>cx_truncated := True\<rparr>"

definition boundedStringIn :: "string \<Rightarrow> cloneContext \<Rightarrow> string \<times> cloneContext" where
  "boundedStringIn s cx =
     (case truncateUtf8String s (min P2P_SANITIZE_MAX_STRING_BYTES (cx_remainingBytes cx)) of (value, truncated) \<Rightarrow>
        (value, cx\<lparr>cx_truncated := cx_truncated cx \<or> truncated,
                   cx_remainingBytes := cx_remainingBytes cx - byteLength value\<rparr>))"

definition chargeBytes :: "cloneContext \<Rightarrow> string \<Rightarrow> bool \<times> cloneContext" where
  "chargeBytes cx s = (if cx_remainingBytes cx < byteLength s then (False, markTruncated cx)
     else (True, cx\<lparr>cx_remainingBytes := cx_remainingBytes cx - byteLength s\<rparr>))"

text \<open>A scalar is kept when its text can be paid for.\<close>

definition chargeScalar :: "jsval \<Rightarrow> string \<Rightarrow> cloneContext \<Rightarrow> jsval option \<times> cloneContext" where
  "chargeScalar v s cx = (case chargeBytes cx s of (ok, cx1) \<Rightarrow> (if ok then Some v else None, cx1))"

text \<open>The counters \<open>n\<close> of the lists are the \<^verbatim>\<open>slice\<close>s: how many more elements are looked at.\<close>

fun cloneSafePublicValueInner :: "(rat \<Rightarrow> string) \<Rightarrow> jsval \<Rightarrow> nat \<Rightarrow> cloneContext \<Rightarrow> jsval option \<times> cloneContext"
  and cloneItems :: "(rat \<Rightarrow> string) \<Rightarrow> nat \<Rightarrow> jsval list \<Rightarrow> nat \<Rightarrow> cloneContext \<Rightarrow> jsval list \<times> cloneContext"
  and cloneFields :: "(rat \<Rightarrow> string) \<Rightarrow> nat \<Rightarrow> (string \<times> jsval) list \<Rightarrow> nat \<Rightarrow> cloneContext
    \<Rightarrow> (string \<times> jsval) list \<times> cloneContext" where
  "cloneSafePublicValueInner fmt Undef depth cx =
     (if cx_remainingBytes cx = 0 \<or> P2P_SANITIZE_MAX_DEPTH \<le> depth then (None, markTruncated cx) else (None, cx))"
| "cloneSafePublicValueInner fmt Null depth cx =
     (if cx_remainingBytes cx = 0 then (None, markTruncated cx) else chargeScalar Null ''null'' cx)"
| "cloneSafePublicValueInner fmt (Str s) depth cx =
     (if cx_remainingBytes cx = 0 then (None, markTruncated cx)
      else (case boundedStringIn s cx of (value, cx1) \<Rightarrow> (Some (Str value), cx1)))"
| "cloneSafePublicValueInner fmt (Number n) depth cx =
     (if cx_remainingBytes cx = 0 then (None, markTruncated cx)
      else if \<not> numFinite n then (None, cx) else chargeScalar (Number n) (numToString fmt n) cx)"
| "cloneSafePublicValueInner fmt (Bool b) depth cx =
     (if cx_remainingBytes cx = 0 then (None, markTruncated cx)
      else chargeScalar (Bool b) (if b then ''true'' else ''false'') cx)"
| "cloneSafePublicValueInner fmt (Arr vs) depth cx =
     (if cx_remainingBytes cx = 0 \<or> P2P_SANITIZE_MAX_DEPTH \<le> depth then (None, markTruncated cx)
      else (case cloneItems fmt P2P_SANITIZE_MAX_ARRAY_ITEMS vs depth
          (if P2P_SANITIZE_MAX_ARRAY_ITEMS < length vs then markTruncated cx else cx) of
        (output, cx1) \<Rightarrow> (Some (Arr output), cx1)))"
| "cloneSafePublicValueInner fmt (Obj kvs) depth cx =
     (if cx_remainingBytes cx = 0 \<or> P2P_SANITIZE_MAX_DEPTH \<le> depth then (None, markTruncated cx)
      else (case cloneFields fmt P2P_SANITIZE_MAX_OBJECT_KEYS kvs depth
          (if P2P_SANITIZE_MAX_OBJECT_KEYS < length kvs then markTruncated cx else cx) of
        (output, cx1) \<Rightarrow> (Some (Obj output), cx1)))"
| "cloneItems fmt n [] depth cx = ([], cx)"
| "cloneItems fmt n (v # vs) depth cx =
     (if n = 0 then ([], cx)
      else (case cloneSafePublicValueInner fmt v (Suc depth) cx of (cloned, cx1) \<Rightarrow>
        (case cloneItems fmt (n - 1) vs depth cx1 of (output, cx2) \<Rightarrow>
          (case cloned of Some w \<Rightarrow> (w # output, cx2) | None \<Rightarrow> (output, cx2)))))"
| "cloneFields fmt n [] depth cx = ([], cx)"
| "cloneFields fmt n ((key, v) # kvs) depth cx =
     (if n = 0 then ([], cx)
      else if key \<in> set FORBIDDEN_KEYS then cloneFields fmt (n - 1) kvs depth (markTruncated cx)
      else (case chargeBytes cx key of (ok, cx1) \<Rightarrow>
        if \<not> ok then ([], cx1)
        else (case cloneSafePublicValueInner fmt v (Suc depth) cx1 of (cloned, cx2) \<Rightarrow>
          (case cloneFields fmt (n - 1) kvs depth cx2 of (output, cx3) \<Rightarrow>
            (case cloned of Some w \<Rightarrow> ((key, w) # output, cx3) | None \<Rightarrow> (output, cx3))))))"

definition cloneSafePublicValue :: "(rat \<Rightarrow> string) \<Rightarrow> jsval \<Rightarrow> jsval option \<times> bool" where
  "cloneSafePublicValue fmt v =
     (case cloneSafePublicValueInner fmt v 0 \<lparr>cx_remainingBytes = P2P_SANITIZE_MAX_TOTAL_BYTES, cx_truncated = False\<rparr> of
        (value, cx) \<Rightarrow> (value, cx_truncated cx))"

text \<open>\<^verbatim>\<open>JSON.stringify\<close> of the copy of an object or array, of the empty object otherwise.\<close>

definition jsonObjectString :: "(rat \<Rightarrow> string) \<Rightarrow> jsval \<Rightarrow> string" where
  "jsonObjectString fmt v =
     (if \<not> isRecord v \<and> \<not> isArray v then ''{}''
      else (case fst (cloneSafePublicValue fmt v) of Some w \<Rightarrow> jsonText fmt w | None \<Rightarrow> ''{}''))"

section \<open>Cutting is exact\<close>

text \<open>The reference: characters are taken while they fit.\<close>

fun fittingPrefix :: "nat \<Rightarrow> string \<Rightarrow> string" where
  "fittingPrefix m [] = []"
| "fittingPrefix m (c # cs) = (if charBytes c \<le> m then c # fittingPrefix (m - charBytes c) cs else [])"

lemma byteLength_take_iff: "k \<le> length s \<Longrightarrow> byteLength (take k s) \<le> m \<longleftrightarrow> k \<le> length (fittingPrefix m s)"
proof (induction m s arbitrary: k rule: fittingPrefix.induct)
  case (2 m c cs)
  show ?case
  proof (cases k)
    case (Suc k')
    then show ?thesis using 2 by (cases "charBytes c \<le> m") (auto simp: le_diff_conv2 add.commute)
  qed simp
qed simp

lemma fittingPrefix_take: "fittingPrefix m s = take (length (fittingPrefix m s)) s"
  by (induction m s rule: fittingPrefix.induct) simp_all

lemma length_fittingPrefix: "length (fittingPrefix m s) \<le> length s"
  by (induction m s rule: fittingPrefix.induct) simp_all

lemma byteLength_fittingPrefix: "byteLength (fittingPrefix m s) \<le> m"
  by (subst fittingPrefix_take) (simp add: byteLength_take_iff length_fittingPrefix)

lemma fittingPrefix_all: "byteLength s \<le> m \<Longrightarrow> fittingPrefix m s = s"
  using byteLength_take_iff [of "length s" s m] fittingPrefix_take [of m s] by simp

lemma fittingChars_exact:
  "low \<le> length (fittingPrefix m s) \<Longrightarrow> length (fittingPrefix m s) \<le> high \<Longrightarrow> high \<le> length s
    \<Longrightarrow> fittingChars s m low high = length (fittingPrefix m s)"
proof (induction s m low high rule: fittingChars.induct)
  case (1 chars m low high)
  let ?mid = "(low + high + 1) div 2"
  show ?case
  proof (cases "low < high")
    case True
    then have mid: "low < ?mid" "?mid \<le> high" by auto
    show ?thesis
    proof (cases "?mid \<le> length (fittingPrefix m chars)")
      case True
      with 1 mid \<open>low < high\<close> show ?thesis
        by (subst fittingChars.simps) (simp add: Let_def byteLength_take_iff)
    next
      case False
      with 1 mid \<open>low < high\<close> show ?thesis
        by (subst fittingChars.simps) (simp add: Let_def byteLength_take_iff)
    qed
  qed (use 1 in \<open>simp add: fittingChars.simps\<close>)
qed

lemma truncate_eq: "truncateUtf8String s m = (fittingPrefix m s, m < byteLength s)"
proof -
  have "fittingPrefix 0 s = []" by (cases s) (simp_all add: charBytes_def)
  moreover have "take (fittingChars s m 0 (length s)) s = fittingPrefix m s"
    using fittingChars_exact [of 0 m s "length s"] fittingPrefix_take [of m s] length_fittingPrefix [of m s] by simp
  ultimately show ?thesis by (auto simp: truncateUtf8String_def fittingPrefix_all)
qed

lemma boundedString_eq: "boundedString s = fittingPrefix P2P_SANITIZE_MAX_STRING_BYTES s"
  by (simp add: boundedString_def truncate_eq)

lemma boundedString_bytes: "byteLength (boundedString s) \<le> P2P_SANITIZE_MAX_STRING_BYTES"
  by (simp add: boundedString_eq byteLength_fittingPrefix)

lemma boundedString_id: "byteLength s \<le> P2P_SANITIZE_MAX_STRING_BYTES \<Longrightarrow> boundedString s = s"
  by (simp add: boundedString_eq fittingPrefix_all)

lemma boundedString_idem [simp]: "boundedString (boundedString s) = boundedString s"
  by (rule boundedString_id [OF boundedString_bytes])

lemma boundedString_nonempty: "s \<noteq> [] \<Longrightarrow> boundedString s \<noteq> []"
  by (cases s) (simp_all add: boundedString_eq P2P_SANITIZE_MAX_STRING_BYTES_def charBytes_def)

section \<open>What the copy is\<close>

text \<open>No private name is a key of it, at any depth.\<close>

fun noPrivateKey :: "jsval \<Rightarrow> bool" where
  "noPrivateKey (Arr vs) = list_all noPrivateKey vs"
| "noPrivateKey (Obj kvs) = list_all (\<lambda>(k, v). k \<notin> set FORBIDDEN_KEYS \<and> noPrivateKey v) kvs"
| "noPrivateKey _ = True"

text \<open>Strings, arrays and objects within the limits, and not nested deeper than \<open>d\<close>.\<close>

fun withinLimits :: "nat \<Rightarrow> jsval \<Rightarrow> bool" where
  "withinLimits d (Str s) = (byteLength s \<le> P2P_SANITIZE_MAX_STRING_BYTES)"
| "withinLimits d (Arr vs) = (0 < d \<and> length vs \<le> P2P_SANITIZE_MAX_ARRAY_ITEMS \<and> list_all (withinLimits (d - 1)) vs)"
| "withinLimits d (Obj kvs) = (0 < d \<and> length kvs \<le> P2P_SANITIZE_MAX_OBJECT_KEYS
     \<and> list_all (\<lambda>(k, v). withinLimits (d - 1) v) kvs)"
| "withinLimits d _ = True"

text \<open>The bytes of its keys, strings and other scalars.\<close>

fun contentBytes :: "(rat \<Rightarrow> string) \<Rightarrow> jsval \<Rightarrow> nat" where
  "contentBytes fmt Undef = 0"
| "contentBytes fmt Null = 4"
| "contentBytes fmt (Str s) = byteLength s"
| "contentBytes fmt (Number n) = byteLength (numToString fmt n)"
| "contentBytes fmt (Bool b) = (if b then 4 else 5)"
| "contentBytes fmt (Arr vs) = sum_list (map (contentBytes fmt) vs)"
| "contentBytes fmt (Obj kvs) = sum_list (map (\<lambda>(k, v). byteLength k + contentBytes fmt v) kvs)"

lemma charge_bytes:
  "chargeBytes cx s = (ok, cx') \<Longrightarrow> cx_remainingBytes cx' + (if ok then byteLength s else 0) = cx_remainingBytes cx"
  by (auto simp: chargeBytes_def markTruncated_def split: if_split_asm)

lemma chargeScalar_bytes:
  assumes "chargeScalar v s cx = (w, cx')"
  shows "case w of None \<Rightarrow> cx_remainingBytes cx' = cx_remainingBytes cx
    | Some u \<Rightarrow> u = v \<and> cx_remainingBytes cx' + byteLength s = cx_remainingBytes cx"
  using assms by (auto simp: chargeScalar_def chargeBytes_def markTruncated_def split: if_split_asm)

lemma boundedStringIn_bytes:
  assumes "boundedStringIn s cx = (w, cx')"
  shows "cx_remainingBytes cx' + byteLength w = cx_remainingBytes cx" "byteLength w \<le> P2P_SANITIZE_MAX_STRING_BYTES"
  using assms byteLength_fittingPrefix [of "min P2P_SANITIZE_MAX_STRING_BYTES (cx_remainingBytes cx)" s]
  by (auto simp: boundedStringIn_def truncate_eq)

lemma markTruncated_bytes [simp]: "cx_remainingBytes (markTruncated cx) = cx_remainingBytes cx"
  by (simp add: markTruncated_def)

definition soundCopy :: "(rat \<Rightarrow> string) \<Rightarrow> nat \<Rightarrow> jsval \<Rightarrow> bool" where
  "soundCopy fmt d w = (noPrivateKey w \<and> withinLimits (P2P_SANITIZE_MAX_DEPTH - d) w)"

lemma clone_sound:
  "(case cloneSafePublicValueInner fmt v d cx of (r, cx') \<Rightarrow>
      (case r of None \<Rightarrow> cx_remainingBytes cx' \<le> cx_remainingBytes cx
       | Some w \<Rightarrow> soundCopy fmt d w \<and> cx_remainingBytes cx' + contentBytes fmt w \<le> cx_remainingBytes cx))"
  "(case cloneItems fmt n vs d cx of (ws, cx') \<Rightarrow> length ws \<le> n \<and> list_all (soundCopy fmt (Suc d)) ws
      \<and> cx_remainingBytes cx' + sum_list (map (contentBytes fmt) ws) \<le> cx_remainingBytes cx)"
  "(case cloneFields fmt n kvs d cx of (ws, cx') \<Rightarrow> length ws \<le> n
      \<and> list_all (\<lambda>(k, w). k \<notin> set FORBIDDEN_KEYS \<and> soundCopy fmt (Suc d) w) ws
      \<and> cx_remainingBytes cx' + sum_list (map (\<lambda>(k, w). byteLength k + contentBytes fmt w) ws) \<le> cx_remainingBytes cx)"
proof (induction fmt v d cx and fmt n vs d cx and fmt n kvs d cx
    rule: cloneSafePublicValueInner_cloneItems_cloneFields.induct)
  case (2 fmt depth cx)
  then show ?case using chargeScalar_bytes [of Null "''null''" cx]
    by (auto simp: soundCopy_def charBytes_def split: prod.split option.split)
next
  case (3 fmt s depth cx)
  then show ?case using boundedStringIn_bytes [of s cx] by (auto simp: soundCopy_def split: prod.split)
next
  case (4 fmt n depth cx)
  then show ?case using chargeScalar_bytes [of "Number n" "numToString fmt n" cx]
    by (auto simp: soundCopy_def split: prod.split option.split)
next
  case (5 fmt b depth cx)
  then show ?case using chargeScalar_bytes [of "Bool b" "if b then ''true'' else ''false''" cx]
    by (auto simp: soundCopy_def charBytes_def split: prod.split option.split)
next
  case (6 fmt vs depth cx)
  then show ?case
    by (auto simp: soundCopy_def list_all_iff Suc_diff_Suc split: prod.split if_split_asm)
next
  case (7 fmt kvs depth cx)
  then show ?case
    by (auto simp: soundCopy_def list_all_iff split: prod.split if_split_asm)
next
  case (9 fmt n v vs depth cx)
  obtain r cx1 where r: "cloneSafePublicValueInner fmt v (Suc depth) cx = (r, cx1)" by fastforce
  obtain ws cx2 where "cloneItems fmt (n - 1) vs depth cx1 = (ws, cx2)" by fastforce
  then have rest: "length ws \<le> n - 1" "list_all (soundCopy fmt (Suc depth)) ws"
      "cx_remainingBytes cx2 + sum_list (map (contentBytes fmt) ws) \<le> cx_remainingBytes cx1" if "n \<noteq> 0"
    using 9(2) [OF that r [symmetric]] by simp_all
  show ?case
  proof (cases "n = 0")
    case False
    then show ?thesis using rest [OF False] 9(1) [OF False] \<open>cloneItems _ _ _ _ _ = _\<close> by (cases r) (simp_all add: r)
  qed simp
next
  case (11 fmt n key v kvs depth cx)
  obtain ok cx1 where ok: "chargeBytes cx key = (ok, cx1)" by fastforce
  obtain r cx2 where r: "cloneSafePublicValueInner fmt v (Suc depth) cx1 = (r, cx2)" by fastforce
  obtain ws cx3 where ws: "cloneFields fmt (n - 1) kvs depth cx2 = (ws, cx3)" by fastforce
  consider "n = 0" | "n \<noteq> 0" "key \<in> set FORBIDDEN_KEYS" | "n \<noteq> 0" "key \<notin> set FORBIDDEN_KEYS" "\<not> ok"
    | "n \<noteq> 0" "key \<notin> set FORBIDDEN_KEYS" ok by blast
  then show ?case
  proof cases
    case 2
    then show ?thesis using 11(1) by (cases "cloneFields fmt (n - 1) kvs depth (markTruncated cx)") auto
  next
    case 3
    then show ?thesis using charge_bytes [OF ok] by (simp add: ok)
  next
    case 4
    have "length ws \<le> n - 1" "list_all (\<lambda>(k, w). k \<notin> set FORBIDDEN_KEYS \<and> soundCopy fmt (Suc depth) w) ws"
      "cx_remainingBytes cx3 + sum_list (map (\<lambda>(k, w). byteLength k + contentBytes fmt w) ws) \<le> cx_remainingBytes cx2"
      using 11(3) [OF 4(1,2) ok [symmetric] _ r [symmetric]] 4(3) ws by simp_all
    then show ?thesis using 11(2) [OF 4(1,2) ok [symmetric]] 4 charge_bytes [OF ok]
      using ok r ws by (cases r) simp_all
  qed simp
qed simp_all

text \<open>The copy of an object or an array is always there.\<close>

lemma clone_container: "isRecord v \<or> isArray v \<Longrightarrow> \<exists>w t. cloneSafePublicValue fmt v = (Some w, t)"
  by (cases v) (simp_all add: cloneSafePublicValue_def P2P_SANITIZE_MAX_TOTAL_BYTES_def P2P_SANITIZE_MAX_DEPTH_def split: prod.split)

lemma clone_string: "\<exists>t. cloneSafePublicValue fmt (Str s) = (Some (Str (boundedString s)), t)"
  by (simp add: cloneSafePublicValue_def boundedStringIn_def truncate_eq boundedString_eq
      P2P_SANITIZE_MAX_TOTAL_BYTES_def P2P_SANITIZE_MAX_STRING_BYTES_def)

lemma cloned:
  assumes "cloneSafePublicValue fmt v = (Some w, t)"
  shows "noPrivateKey w" and "withinLimits P2P_SANITIZE_MAX_DEPTH w" and "contentBytes fmt w \<le> P2P_SANITIZE_MAX_TOTAL_BYTES"
  using assms clone_sound(1) [where fmt = fmt and v = v and d = 0
      and cx = "\<lparr>cx_remainingBytes = P2P_SANITIZE_MAX_TOTAL_BYTES, cx_truncated = False\<rparr>"]
  by (auto simp: cloneSafePublicValue_def soundCopy_def split: prod.split_asm)

end
