(* ===== verification/SanitizeRun.thy ===== *)
theory SanitizeRun
  imports SanitizeClone
begin

text \<open>
  The second half of \<^verbatim>\<open>server/src/p2p-workflow-sanitize.ts\<close>: the projection of a workflow's status that
  browsers and the database get, snapshots read back from the database, sharing scopes, and the run as it
  is stored and broadcast. What may throw is a sum with the error on the left. The current time is an
  argument (the text \<^verbatim>\<open>new Date().toISOString()\<close> gives); which strings \<^verbatim>\<open>Date.parse\<close> reads and the text of
  a date are the host's.
\<close>

section \<open>Dates and strings of the host\<close>

record dateHost =
  dateParses :: "string \<Rightarrow> bool"
  isoText :: "rat \<Rightarrow> string"

datatype sanitizeError = Se_invalid_time_value | Se_no_primitive_value

text \<open>A date holds at most \<open>8.64 * 10 ^ 15\<close> milliseconds either way, fractions cut off; else \<^verbatim>\<open>toISOString\<close> throws.\<close>

definition truncRat :: "rat \<Rightarrow> int" where
  "truncRat r = (if 0 \<le> r then \<lfloor>r\<rfloor> else - \<lfloor>- r\<rfloor>)"

definition isoTimestamp :: "dateHost \<Rightarrow> string \<Rightarrow> jsval \<Rightarrow> sanitizeError + string" where
  "isoTimestamp h now v = (case v of
     Str s \<Rightarrow> Inr (if dateParses h s then s else now)
   | Number (Num r) \<Rightarrow> (if \<bar>truncRat r\<bar> \<le> 8640000000000000 then Inr (isoText h r) else Inl Se_invalid_time_value)
   | _ \<Rightarrow> Inr now)"

text \<open>
  \<^verbatim>\<open>String(value)\<close> of a JSON value: the elements of an array joined by commas, null and undefined as the
  empty string. An object prints as a constant unless it has a \<^verbatim>\<open>toString\<close> of its own: JSON holds no
  functions, and then no method gives a primitive value.
\<close>

fun jsToString :: "(rat \<Rightarrow> string) \<Rightarrow> jsval \<Rightarrow> sanitizeError + string"
  and jsElements :: "(rat \<Rightarrow> string) \<Rightarrow> jsval list \<Rightarrow> sanitizeError + string list" where
  "jsToString fmt Undef = Inr ''undefined''"
| "jsToString fmt Null = Inr ''null''"
| "jsToString fmt (Bool b) = Inr (if b then ''true'' else ''false'')"
| "jsToString fmt (Number n) = Inr (numToString fmt n)"
| "jsToString fmt (Str s) = Inr s"
| "jsToString fmt (Arr vs) = (case jsElements fmt vs of Inl e \<Rightarrow> Inl e | Inr ss \<Rightarrow> Inr (joinWith '','' ss))"
| "jsToString fmt (Obj kvs) = (if ''toString'' \<in> set (map fst kvs) then Inl Se_no_primitive_value
     else Inr ''[object Object]'')"
| "jsElements fmt [] = Inr []"
| "jsElements fmt (v # vs) =
     (case (if v = Undef \<or> v = Null then Inr [] else jsToString fmt v) of Inl e \<Rightarrow> Inl e
      | Inr s \<Rightarrow> (case jsElements fmt vs of Inl e \<Rightarrow> Inl e | Inr ss \<Rightarrow> Inr (s # ss)))"

section \<open>Diagnostics\<close>

text \<open>Unlike elsewhere, the \<^verbatim>\<open>summary\<close> comes from outside here, so it is kept.\<close>

record bridgeDiagnostic =
  bd_base :: workflowDiagnostic
  bd_summary :: "string option"

primrec phaseText :: "diagnosticPhase \<Rightarrow> string" where
  "phaseText Dp_parse = ''parse''"
| "phaseText Dp_compile = ''compile''"
| "phaseText Dp_bind = ''bind''"
| "phaseText Dp_execute = ''execute''"
| "phaseText Dp_project = ''project''"
| "phaseText Dp_sanitize = ''sanitize''"
| "phaseText Dp_server_ingress = ''server_ingress''"
| "phaseText Dp_web_validate = ''web_validate''"

definition P2P_WORKFLOW_DIAGNOSTIC_PHASES :: "diagnosticPhase list" where
  "P2P_WORKFLOW_DIAGNOSTIC_PHASES = [Dp_parse, Dp_compile, Dp_bind, Dp_execute, Dp_project, Dp_sanitize,
     Dp_server_ingress, Dp_web_validate]"

primrec severityText :: "diagnosticSeverity \<Rightarrow> string" where
  "severityText Sv_info = ''info''"
| "severityText Sv_warning = ''warning''"
| "severityText Sv_error = ''error''"

definition P2P_WORKFLOW_DIAGNOSTIC_SEVERITIES :: "diagnosticSeverity list" where
  "P2P_WORKFLOW_DIAGNOSTIC_SEVERITIES = [Sv_info, Sv_warning, Sv_error]"

definition bridgeDiagnostic_js :: "bridgeDiagnostic \<Rightarrow> jsval" where
  "bridgeDiagnostic_js d = Obj ([(''code'', Str (diagnosticCodeText (dg_code (bd_base d)))),
     (''phase'', Str (phaseText (dg_phase (bd_base d)))),
     (''severity'', Str (severityText (dg_severity (bd_base d)))),
     (''messageKey'', Str (dg_messageKey (bd_base d)))]
     @ optField ''summary'' Str (bd_summary d)
     @ optField ''nodeId'' Str (dg_nodeId (bd_base d))
     @ optField ''runId'' Str (dg_runId (bd_base d))
     @ optField ''fieldPath'' Str (dg_fieldPath (bd_base d)))"

definition makeBridgeDiagnostic :: "diagnosticCode \<Rightarrow> diagnosticPhase option \<Rightarrow> diagnosticExtras
    \<Rightarrow> string option \<Rightarrow> bridgeDiagnostic" where
  "makeBridgeDiagnostic code phase extras summary =
     \<lparr>bd_base = makeP2pWorkflowDiagnostic code phase extras, bd_summary = summary\<rparr>"

definition aboutRun :: "string option \<Rightarrow> diagnosticExtras" where
  "aboutRun r = \<lparr>dx_nodeId = None, dx_runId = r, dx_fieldPath = None\<rparr>"

definition sanitizeWorkflowDiagnosticForRetention :: "jsval \<Rightarrow> string option \<Rightarrow> bridgeDiagnostic option" where
  "sanitizeWorkflowDiagnosticForRetention raw fallbackRunId =
     (if \<not> isRecord raw then None
      else (case List.find (\<lambda>c. Str (diagnosticCodeText c) = fld raw ''code'') P2P_WORKFLOW_DIAGNOSTIC_CODES of
        None \<Rightarrow> None
      | Some code \<Rightarrow>
         (let phase = List.find (\<lambda>p. Str (phaseText p) = fld raw ''phase'') P2P_WORKFLOW_DIAGNOSTIC_PHASES;
              diagnostic = makeBridgeDiagnostic code phase
                \<lparr>dx_nodeId = sanitizeDiagnosticString (fld raw ''nodeId''),
                 dx_runId = (case sanitizeDiagnosticString (fld raw ''runId'') of Some r \<Rightarrow> Some r | None \<Rightarrow> fallbackRunId),
                 dx_fieldPath = sanitizeDiagnosticString (fld raw ''fieldPath'')\<rparr>
                (sanitizeDiagnosticString (fld raw ''summary'')) in
          Some (case List.find (\<lambda>s. Str (severityText s) = fld raw ''severity'') P2P_WORKFLOW_DIAGNOSTIC_SEVERITIES of
              Some s \<Rightarrow> diagnostic\<lparr>bd_base := (bd_base diagnostic)\<lparr>dg_severity := s\<rparr>\<rparr>
            | None \<Rightarrow> diagnostic))))"

definition SERVER_SIDE_SANITIZE_CODES :: "diagnosticCode list" where
  "SERVER_SIDE_SANITIZE_CODES = [Dc_private_projection_field_dropped, Dc_legacy_progress_snapshot_sanitized]"

definition sanitizeServerSideDiagnostic :: "jsval \<Rightarrow> string option \<Rightarrow> bridgeDiagnostic option" where
  "sanitizeServerSideDiagnostic raw fallbackRunId =
     (case sanitizeWorkflowDiagnosticForRetention raw fallbackRunId of None \<Rightarrow> None
      | Some d \<Rightarrow>
         if dg_code (bd_base d) \<notin> set SERVER_SIDE_SANITIZE_CODES then None
         else Some (makeBridgeDiagnostic (dg_code (bd_base d)) (Some Dp_sanitize)
           \<lparr>dx_nodeId = dg_nodeId (bd_base d),
            dx_runId = (case dg_runId (bd_base d) of Some r \<Rightarrow> Some r | None \<Rightarrow> fallbackRunId),
            dx_fieldPath = dg_fieldPath (bd_base d)\<rparr> (bd_summary d)))"

definition droppedDiagnostic :: "string \<Rightarrow> string \<Rightarrow> bridgeDiagnostic" where
  "droppedDiagnostic runId summary =
     makeBridgeDiagnostic Dc_private_projection_field_dropped (Some Dp_sanitize) (aboutRun (Some runId)) (Some summary)"

text \<open>
  The objects of a value are visited down to depth 5 while fewer than 20 diagnostics are collected; arrays
  are not entered. The counter \<open>n\<close> of the fields is the \<^verbatim>\<open>slice\<close> of the keys.
\<close>

fun visitForbidden :: "string \<Rightarrow> jsval \<Rightarrow> nat \<Rightarrow> bridgeDiagnostic list \<Rightarrow> bridgeDiagnostic list"
  and visitFields :: "string \<Rightarrow> nat \<Rightarrow> (string \<times> jsval) list \<Rightarrow> nat \<Rightarrow> bridgeDiagnostic list \<Rightarrow> bridgeDiagnostic list" where
  "visitForbidden runId (Obj kvs) depth acc =
     (if 20 \<le> length acc \<or> 5 < depth then acc
      else visitFields runId P2P_SANITIZE_MAX_OBJECT_KEYS kvs depth
        (acc @ (if P2P_SANITIZE_MAX_OBJECT_KEYS < length kvs
           then [droppedDiagnostic runId ''Sanitized oversized workflow payload''] else [])))"
| "visitForbidden runId _ depth acc = acc"
| "visitFields runId n [] depth acc = acc"
| "visitFields runId n ((key, v) # kvs) depth acc =
     (if n = 0 then acc
      else visitFields runId (n - 1) kvs depth
        (if key \<in> set FORBIDDEN_KEYS then acc @ [droppedDiagnostic runId ''Dropped private field from daemon projection'']
         else visitForbidden runId v (Suc depth) acc))"

definition collectForbiddenFieldDiagnostics :: "jsval \<Rightarrow> string \<Rightarrow> bridgeDiagnostic list" where
  "collectForbiddenFieldDiagnostics raw runId = visitForbidden runId raw 0 []"

section \<open>The projection of a status\<close>

datatype projectionStatus = Pst_queued | Pst_running | Pst_blocked | Pst_completed | Pst_failed | Pst_cancelled | Pst_stale

primrec projectionStatusText :: "projectionStatus \<Rightarrow> string" where
  "projectionStatusText Pst_queued = ''queued''"
| "projectionStatusText Pst_running = ''running''"
| "projectionStatusText Pst_blocked = ''blocked''"
| "projectionStatusText Pst_completed = ''completed''"
| "projectionStatusText Pst_failed = ''failed''"
| "projectionStatusText Pst_cancelled = ''cancelled''"
| "projectionStatusText Pst_stale = ''stale''"

definition PROJECTION_STATUSES :: "projectionStatus list" where
  "PROJECTION_STATUSES = [Pst_queued, Pst_running, Pst_blocked, Pst_completed, Pst_failed, Pst_cancelled, Pst_stale]"

definition statusNamed :: "jsval \<Rightarrow> projectionStatus option" where
  "statusNamed v = List.find (\<lambda>s. Str (projectionStatusText s) = v) PROJECTION_STATUSES"

definition normalizeProjectionStatus :: "jsval \<Rightarrow> projectionStatus" where
  "normalizeProjectionStatus v =
     (if \<not> isString v then Pst_running
      else (case statusNamed v of Some s \<Rightarrow> s
        | None \<Rightarrow> if isOneOf v [''dispatched'', ''awaiting_next_hop'', ''timed_out''] then Pst_running else Pst_failed))"

record capabilitySnapshot =
  cp_daemonId :: string
  cp_capabilities :: "string list"
  cp_helloEpoch :: rat
  cp_sentAt :: rat

definition capabilitySnapshot_js :: "capabilitySnapshot \<Rightarrow> jsval" where
  "capabilitySnapshot_js c = Obj [(''daemonId'', Str (cp_daemonId c)),
     (''capabilities'', Arr (map Str (cp_capabilities c))),
     (''helloEpoch'', finiteNumberVal (cp_helloEpoch c)), (''sentAt'', finiteNumberVal (cp_sentAt c))]"

definition sanitizeCapabilitySnapshot :: "jsval \<Rightarrow> capabilitySnapshot option" where
  "sanitizeCapabilitySnapshot raw =
     (case (stringValue (fld raw ''daemonId''), optionalNumber (fld raw ''helloEpoch''), optionalNumber (fld raw ''sentAt'')) of
        (Some daemonId, Some helloEpoch, Some sentAt) \<Rightarrow>
          if isRecord raw \<and> daemonId \<noteq> [] then Some \<lparr>cp_daemonId = daemonId,
            cp_capabilities = stringArray (fld raw ''capabilities''), cp_helloEpoch = helloEpoch, cp_sentAt = sentAt\<rparr>
          else None
      | _ \<Rightarrow> None)"

record statusProjection =
  sp_runId :: string
  sp_workflowId :: string
  sp_status :: projectionStatus
  sp_currentNodeId :: "string option"
  sp_completedNodeIds :: "string list"
  sp_diagnostics :: "bridgeDiagnostic list"
  sp_capabilitySnapshot :: "capabilitySnapshot option"
  sp_updatedAt :: string

definition statusProjection_js :: "statusProjection \<Rightarrow> jsval" where
  "statusProjection_js p = Obj ([(''projectionVersion'', Number (numOf 1)), (''runId'', Str (sp_runId p)),
     (''workflowId'', Str (sp_workflowId p)), (''status'', Str (projectionStatusText (sp_status p)))]
     @ optField ''currentNodeId'' Str (sp_currentNodeId p)
     @ [(''completedNodeIds'', Arr (map Str (sp_completedNodeIds p))),
        (''diagnostics'', Arr (map bridgeDiagnostic_js (sp_diagnostics p)))]
     @ optField ''capabilitySnapshot'' capabilitySnapshot_js (sp_capabilitySnapshot p)
     @ [(''updatedAt'', Str (sp_updatedAt p))])"

text \<open>The persisted snapshot is the projection without the daemon's capabilities.\<close>

definition buildPersistedSnapshotFromProjection :: "statusProjection \<Rightarrow> statusProjection" where
  "buildPersistedSnapshotFromProjection p = p\<lparr>sp_capabilitySnapshot := None\<rparr>"

definition nonEmptyStringOption :: "string option \<Rightarrow> string option" where
  "nonEmptyStringOption x = (case x of Some s \<Rightarrow> if s = [] then None else Some s | None \<Rightarrow> None)"

definition retainedDiagnostics :: "jsval list \<Rightarrow> string \<Rightarrow> bridgeDiagnostic list" where
  "retainedDiagnostics items runId = List.map_filter (\<lambda>d. sanitizeWorkflowDiagnosticForRetention d (Some runId)) items"

definition sanitizeP2pWorkflowStatusProjection :: "dateHost \<Rightarrow> string \<Rightarrow> jsval \<Rightarrow> jsval \<Rightarrow> sanitizeError + statusProjection" where
  "sanitizeP2pWorkflowStatusProjection h now raw diagnosticSource =
     (let runId = requiredString (orNullish (fld raw ''runId'') (fld raw ''id'')) ''unknown'' in
      case isoTimestamp h now (orNullish (fld raw ''updatedAt'') (fld raw ''updated_at'')) of
        Inl e \<Rightarrow> Inl e
      | Inr updatedAt \<Rightarrow> Inr \<lparr>
          sp_runId = runId,
          sp_workflowId = requiredString
            (orNullish (orNullish (fld raw ''workflowId'') (fld raw ''workflow_id'')) (fld raw ''mode_key'')) ''legacy'',
          sp_status = normalizeProjectionStatus (fld raw ''status''),
          sp_currentNodeId = nonEmptyStringOption (stringValue (orNullish (orNullish (orNullish (fld raw ''currentNodeId'')
            (fld raw ''current_node_id'')) (fld raw ''current_round_id'')) (fld raw ''current_target_session''))),
          sp_completedNodeIds = stringArray (orNullish (fld raw ''completedNodeIds'') (fld raw ''completed_node_ids'')),
          sp_diagnostics = retainedDiagnostics (take P2P_SANITIZE_MAX_ARRAY_ITEMS (arrItems (fld raw ''diagnostics''))) runId
            @ collectForbiddenFieldDiagnostics diagnosticSource runId,
          sp_capabilitySnapshot = sanitizeCapabilitySnapshot (fld raw ''capabilitySnapshot''),
          sp_updatedAt = updatedAt\<rparr>)"

definition sanitizeP2pPersistedWorkflowSnapshot :: "dateHost \<Rightarrow> string \<Rightarrow> jsval \<Rightarrow> sanitizeError + statusProjection" where
  "sanitizeP2pPersistedWorkflowSnapshot h now raw = (case sanitizeP2pWorkflowStatusProjection h now raw raw of
     Inl e \<Rightarrow> Inl e | Inr p \<Rightarrow> Inr (buildPersistedSnapshotFromProjection p))"

section \<open>Snapshots read back\<close>

definition isNonEmptyString :: "jsval \<Rightarrow> bool" where
  "isNonEmptyString v = (isString v \<and> strOf v \<noteq> [])"

definition isValidPersistedSnapshotShape :: "jsval \<Rightarrow> bool" where
  "isValidPersistedSnapshotShape v =
     (isRecord v \<and> fld v ''projectionVersion'' = Number (numOf 1)
      \<and> isNonEmptyString (fld v ''runId'') \<and> isNonEmptyString (fld v ''workflowId'') \<and> isNonEmptyString (fld v ''updatedAt'')
      \<and> statusNamed (fld v ''status'') \<noteq> None
      \<and> isArray (fld v ''completedNodeIds'') \<and> list_all isNonEmptyString (arrItems (fld v ''completedNodeIds''))
      \<and> isArray (fld v ''diagnostics'')
      \<and> (fld v ''currentNodeId'' = Undef \<or> isString (fld v ''currentNodeId''))
      \<and> fld v ''capabilitySnapshot'' = Undef \<and> fld v ''artifactSummaries'' = Undef \<and> fld v ''nodeSummaries'' = Undef
      \<and> \<not> hasAnyOwn v FORBIDDEN_KEYS)"

definition orNonEmpty :: "string option \<Rightarrow> string \<Rightarrow> string" where
  "orNonEmpty x fallback = (case nonEmptyStringOption x of Some s \<Rightarrow> s | None \<Rightarrow> fallback)"

definition emptyValidLegacyProjection :: "string \<Rightarrow> string \<Rightarrow> string \<Rightarrow> statusProjection" where
  "emptyValidLegacyProjection now runId workflowId = \<lparr>
     sp_runId = (if runId = [] then ''unknown'' else runId),
     sp_workflowId = (if workflowId = [] then ''legacy'' else workflowId),
     sp_status = Pst_stale, sp_currentNodeId = None, sp_completedNodeIds = [], sp_diagnostics = [],
     sp_capabilitySnapshot = None, sp_updatedAt = now\<rparr>"

definition legacyDiagnostic :: "string \<Rightarrow> string \<Rightarrow> bridgeDiagnostic" where
  "legacyDiagnostic runId summary =
     makeBridgeDiagnostic Dc_legacy_progress_snapshot_sanitized (Some Dp_sanitize) (aboutRun (Some runId)) (Some summary)"

definition isEmptyPlaceholderObject :: "jsval \<Rightarrow> bool" where
  "isEmptyPlaceholderObject v = (isRecord v \<and> objFields v = [])"

text \<open>The projection of a snapshot that is already in the persisted shape.\<close>

definition snapshotProjection :: "jsval \<Rightarrow> statusProjection" where
  "snapshotProjection v = \<lparr>
     sp_runId = strOf (fld v ''runId''), sp_workflowId = strOf (fld v ''workflowId''),
     sp_status = (case statusNamed (fld v ''status'') of Some s \<Rightarrow> s | None \<Rightarrow> Pst_failed),
     sp_currentNodeId = nonEmptyStringOption (stringValue (fld v ''currentNodeId'')),
     sp_completedNodeIds = map strOf (arrItems (fld v ''completedNodeIds'')),
     sp_diagnostics = retainedDiagnostics (arrItems (fld v ''diagnostics'')) (strOf (fld v ''runId'')),
     sp_capabilitySnapshot = None, sp_updatedAt = strOf (fld v ''updatedAt'')\<rparr>"

text \<open>
  \<open>parsed\<close> is what \<^verbatim>\<open>JSON.parse\<close> makes of the stored text, \<open>None\<close> when it throws. The result is the
  projection and the diagnostic; the snapshot returned beside them is
  \<open>buildPersistedSnapshotFromProjection\<close> of the projection.
\<close>

definition sanitizeLegacyP2pProgressSnapshot :: "dateHost \<Rightarrow> string \<Rightarrow> jsval option \<Rightarrow> string option \<Rightarrow> string option
    \<Rightarrow> sanitizeError + statusProjection \<times> bridgeDiagnostic option" where
  "sanitizeLegacyP2pProgressSnapshot h now parsed runId workflowId =
     (let empty = emptyValidLegacyProjection now (orNonEmpty runId ''unknown'') (orNonEmpty workflowId ''legacy'') in
      case parsed of
        None \<Rightarrow> (let d = legacyDiagnostic (sp_runId empty) ''Sanitized malformed legacy progress snapshot'' in
          Inr (empty\<lparr>sp_diagnostics := [d]\<rparr>, Some d))
      | Some v \<Rightarrow>
         if isEmptyPlaceholderObject v then Inr (empty, None)
         else if isValidPersistedSnapshotShape v then Inr (snapshotProjection v, None)
         else (case sanitizeP2pWorkflowStatusProjection h now v v of Inl e \<Rightarrow> Inl e
          | Inr p \<Rightarrow>
             (let p1 = (if sp_runId p \<in> {''unknown'', []} then p\<lparr>sp_runId := orNonEmpty runId (sp_runId p)\<rparr> else p);
                  p2 = (if sp_workflowId p1 \<in> {''legacy'', []}
                    then p1\<lparr>sp_workflowId := orNonEmpty workflowId (sp_workflowId p1)\<rparr> else p1);
                  d = legacyDiagnostic (sp_runId p2) ''Sanitized legacy progress snapshot at read time'' in
              Inr (p2\<lparr>sp_diagnostics := sp_diagnostics p2 @ [d]\<rparr>, Some d))))"

end
