(* ===== verification/SanitizeShare.thy ===== *)
theory SanitizeShare
  imports SanitizeRun
begin

text \<open>
  Who a run was shared with, and the run itself as it is stored and broadcast
  (\<^verbatim>\<open>server/src/p2p-workflow-sanitize.ts\<close>). A run is the list of its properties in the order they are set.
\<close>

section \<open>Sharing\<close>

datatype shareTarget = Tgt_server string | Tgt_main string string | Tgt_subsession string string

primrec shareTarget_js :: "shareTarget \<Rightarrow> jsval" where
  "shareTarget_js (Tgt_server s) = Obj [(''kind'', Str ''server''), (''serverId'', Str s)]"
| "shareTarget_js (Tgt_main s n) = Obj [(''kind'', Str ''main''), (''serverId'', Str s), (''sessionName'', Str n)]"
| "shareTarget_js (Tgt_subsession s i) = Obj [(''kind'', Str ''subsession''), (''serverId'', Str s), (''subSessionId'', Str i)]"

definition normalizeShareTarget :: "jsval \<Rightarrow> shareTarget option" where
  "normalizeShareTarget v = (case trimmedString (fld v ''serverId'') of None \<Rightarrow> None
   | Some serverId \<Rightarrow>
      if fld v ''kind'' = Str ''server'' then Some (Tgt_server serverId)
      else if fld v ''kind'' = Str ''main'' then
        (case trimmedString (fld v ''sessionName'') of None \<Rightarrow> None | Some n \<Rightarrow> Some (Tgt_main serverId n))
      else if fld v ''kind'' = Str ''subsession'' then
        (case trimmedString (fld v ''subSessionId'') of None \<Rightarrow> None
         | Some i \<Rightarrow> if startsWith i ''deck_sub_'' then None else Some (Tgt_subsession serverId i))
      else None)"

datatype shareRole = Rl_viewer | Rl_participant

primrec shareRoleText :: "shareRole \<Rightarrow> string" where
  "shareRoleText Rl_viewer = ''viewer''"
| "shareRoleText Rl_participant = ''participant''"

record authorizationSnapshot =
  as_target :: shareTarget
  as_effectiveRole :: shareRole
  as_historyCutoffAt :: rat
  as_nextCoverageRecheckAt :: "rat option"
  as_coveringShareIds :: "string list"
  as_primaryShareId :: "string option"
  as_authorizedAt :: rat

definition nullOr :: "('a \<Rightarrow> jsval) \<Rightarrow> 'a option \<Rightarrow> jsval" where
  "nullOr f x = (case x of Some y \<Rightarrow> f y | None \<Rightarrow> Null)"

definition stringsVal :: "string list \<Rightarrow> jsval" where
  "stringsVal xs = Arr (map Str xs)"

definition authorizationSnapshot_js :: "authorizationSnapshot \<Rightarrow> jsval" where
  "authorizationSnapshot_js a = Obj [(''target'', shareTarget_js (as_target a)),
     (''effectiveRole'', Str (shareRoleText (as_effectiveRole a))),
     (''historyCutoffAt'', finiteNumberVal (as_historyCutoffAt a)),
     (''nextCoverageRecheckAt'', nullOr finiteNumberVal (as_nextCoverageRecheckAt a)),
     (''coveringShareIds'', stringsVal (as_coveringShareIds a)),
     (''primaryShareId'', nullOr Str (as_primaryShareId a)),
     (''authorizedAt'', finiteNumberVal (as_authorizedAt a))]"

text \<open>The first 64 non-blank strings, trimmed and cut.\<close>

definition shareIds :: "jsval list \<Rightarrow> string list" where
  "shareIds items = List.map_filter trimmedString
     (take P2P_SANITIZE_MAX_ARRAY_ITEMS (filter (\<lambda>x. trimmedString x \<noteq> None) items))"

definition normalizeShareAuthorizationSnapshot :: "jsval \<Rightarrow> authorizationSnapshot option" where
  "normalizeShareAuthorizationSnapshot v =
     (case (normalizeShareTarget (fld v ''target''),
        List.find (\<lambda>r. Str (shareRoleText r) = fld v ''effectiveRole'') [Rl_viewer, Rl_participant],
        optionalNumber (fld v ''authorizedAt'')) of
        (Some target, Some effectiveRole, Some authorizedAt) \<Rightarrow> Some \<lparr>
          as_target = target, as_effectiveRole = effectiveRole,
          as_historyCutoffAt = numberValue (fld v ''historyCutoffAt'') 0,
          as_nextCoverageRecheckAt = optionalNumber (fld v ''nextCoverageRecheckAt''),
          as_coveringShareIds = shareIds (arrItems (fld v ''coveringShareIds'')),
          as_primaryShareId = trimmedString (fld v ''primaryShareId''),
          as_authorizedAt = authorizedAt\<rparr>
      | _ \<Rightarrow> None)"

text \<open>The role and the origin are the values that came; only their text was checked.\<close>

record actorEnvelope =
  ac_actorUserId :: string
  ac_actorDisplayName :: string
  ac_snapshot :: authorizationSnapshot
  ac_primaryShareId :: "string option"
  ac_effectiveActorRole :: jsval
  ac_actionId :: string
  ac_origin :: jsval
  ac_authorizedAt :: rat
  ac_queuedAt :: "rat option"
  ac_daemonAckedAt :: "rat option"

definition actorEnvelope_js :: "actorEnvelope \<Rightarrow> jsval" where
  "actorEnvelope_js a = Obj ([(''actorUserId'', Str (ac_actorUserId a)), (''actorDisplayName'', Str (ac_actorDisplayName a)),
     (''snapshot'', authorizationSnapshot_js (ac_snapshot a)), (''primaryShareId'', nullOr Str (ac_primaryShareId a)),
     (''effectiveActorRole'', ac_effectiveActorRole a), (''actionId'', Str (ac_actionId a)),
     (''origin'', ac_origin a), (''authorizedAt'', finiteNumberVal (ac_authorizedAt a))]
     @ optField ''queuedAt'' finiteNumberVal (ac_queuedAt a)
     @ optField ''daemonAckedAt'' finiteNumberVal (ac_daemonAckedAt a))"

definition EFFECTIVE_ACTOR_ROLES :: "string list" where
  "EFFECTIVE_ACTOR_ROLES = [''viewer'', ''participant'', ''server-member'', ''server-manager'', ''system'']"

definition ACTOR_ORIGINS :: "string list" where
  "ACTOR_ORIGINS = [''shared-server'', ''shared-tab'', ''server-member'']"

text \<open>\<^verbatim>\<open>a ?? b\<close> and \<^verbatim>\<open>a || b\<close> of options.\<close>

definition orOption :: "'a option \<Rightarrow> 'a option \<Rightarrow> 'a option" where
  "orOption a b = (case a of Some x \<Rightarrow> Some x | None \<Rightarrow> b)"

definition normalizeSharedActor :: "(rat \<Rightarrow> string) \<Rightarrow> jsval \<Rightarrow> sanitizeError + actorEnvelope option" where
  "normalizeSharedActor fmt v =
     (case (normalizeShareAuthorizationSnapshot (fld v ''snapshot''), trimmedString (fld v ''actorUserId''),
        trimmedString (fld v ''actionId''), optionalNumber (fld v ''authorizedAt'')) of
        (Some snapshot, Some actorUserId, Some actionId, Some authorizedAt) \<Rightarrow>
          (case jsToString fmt (fld v ''effectiveActorRole'') of Inl e \<Rightarrow> Inl e
           | Inr role \<Rightarrow>
              if role \<notin> set EFFECTIVE_ACTOR_ROLES then Inr None
              else (case jsToString fmt (fld v ''origin'') of Inl e \<Rightarrow> Inl e
                | Inr origin \<Rightarrow>
                   if origin \<notin> set ACTOR_ORIGINS then Inr None
                   else Inr (Some \<lparr>
                     ac_actorUserId = actorUserId,
                     ac_actorDisplayName = (case trimmedString (fld v ''actorDisplayName'') of Some n \<Rightarrow> n | None \<Rightarrow> actorUserId),
                     ac_snapshot = snapshot,
                     ac_primaryShareId = orOption (trimmedString (fld v ''primaryShareId'')) (as_primaryShareId snapshot),
                     ac_effectiveActorRole = fld v ''effectiveActorRole'', ac_actionId = actionId,
                     ac_origin = fld v ''origin'', ac_authorizedAt = authorizedAt,
                     ac_queuedAt = optionalNumber (fld v ''queuedAt''),
                     ac_daemonAckedAt = optionalNumber (fld v ''daemonAckedAt'')\<rparr>)))
      | _ \<Rightarrow> Inr None)"

record shareScope =
  sc_target :: shareTarget
  sc_historyCutoffAt :: rat
  sc_primaryShareId :: "string option"
  sc_coveringShareIds :: "string list"

definition shareScope_js :: "shareScope \<Rightarrow> jsval" where
  "shareScope_js s = Obj [(''target'', shareTarget_js (sc_target s)),
     (''historyCutoffAt'', finiteNumberVal (sc_historyCutoffAt s)),
     (''primaryShareId'', nullOr Str (sc_primaryShareId s)), (''coveringShareIds'', stringsVal (sc_coveringShareIds s))]"

definition normalizeShareScope :: "jsval \<Rightarrow> actorEnvelope option \<Rightarrow> shareScope option" where
  "normalizeShareScope v actor =
     (if \<not> isRecord v then
        (case actor of None \<Rightarrow> None
         | Some a \<Rightarrow> Some \<lparr>sc_target = as_target (ac_snapshot a), sc_historyCutoffAt = as_historyCutoffAt (ac_snapshot a),
             sc_primaryShareId = as_primaryShareId (ac_snapshot a), sc_coveringShareIds = as_coveringShareIds (ac_snapshot a)\<rparr>)
      else (case normalizeShareTarget (fld v ''target'') of None \<Rightarrow> None
       | Some target \<Rightarrow> Some \<lparr>sc_target = target,
           sc_historyCutoffAt = numberValue (fld v ''historyCutoffAt'')
             (case actor of Some a \<Rightarrow> as_historyCutoffAt (ac_snapshot a) | None \<Rightarrow> 0),
           sc_primaryShareId = orOption (trimmedString (fld v ''primaryShareId''))
             (case actor of Some a \<Rightarrow> as_primaryShareId (ac_snapshot a) | None \<Rightarrow> None),
           sc_coveringShareIds = (if isArray (fld v ''coveringShareIds'') then shareIds (arrItems (fld v ''coveringShareIds''))
             else (case actor of Some a \<Rightarrow> as_coveringShareIds (ac_snapshot a) | None \<Rightarrow> []))\<rparr>))"

section \<open>Lists of rows and counts\<close>

definition sanitizedField :: "jsval \<Rightarrow> jsval option" where
  "sanitizedField v = (case v of Number n \<Rightarrow> Some v | Bool b \<Rightarrow> Some v | Null \<Rightarrow> Some v
     | Str s \<Rightarrow> Some (Str (boundedString s)) | _ \<Rightarrow> None)"

definition sanitizedRow :: "string list \<Rightarrow> jsval \<Rightarrow> jsval" where
  "sanitizedRow allowed item = Obj (List.map_filter
     (\<lambda>(k, v). if k \<in> set allowed then map_option (Pair k) (sanitizedField v) else None)
     (take P2P_SANITIZE_MAX_OBJECT_KEYS (objFields item)))"

definition sanitizedRecordArray :: "jsval \<Rightarrow> string list \<Rightarrow> jsval" where
  "sanitizedRecordArray v allowed = (if \<not> isArray v then Undef
     else Arr (map (sanitizedRow allowed) (filter isRecord (take P2P_SANITIZE_MAX_ARRAY_ITEMS (arrItems v)))))"

definition sanitizedNumberRecord :: "jsval \<Rightarrow> jsval" where
  "sanitizedNumberRecord v = (if \<not> isRecord v then Undef
     else Obj (filter (\<lambda>(k, x). optionalNumber x \<noteq> None) (take P2P_SANITIZE_MAX_OBJECT_KEYS (objFields v))))"

section \<open>The run\<close>

record runOverrides =
  ro_serverId :: string
  ro_status :: "string option"
  ro_completedAt :: "string option option"
  ro_updatedAt :: "string option"

type_synonym runFields = "(string, jsval) jsmap"

definition addOptional :: "string \<Rightarrow> jsval \<Rightarrow> runFields \<Rightarrow> runFields" where
  "addOptional key v run = (if v = Undef then run else mapSet run key v)"

definition addAll :: "runFields \<Rightarrow> runFields \<Rightarrow> runFields" where
  "addAll new run = fold (\<lambda>(k, v). addOptional k v) new run"

text \<open>What the run's projection is made from.\<close>

definition runForProjection :: "jsval \<Rightarrow> runOverrides \<Rightarrow> string \<Rightarrow> jsval" where
  "runForProjection source overrides updatedAt = Obj (
     map (\<lambda>k. (k, fld source k)) [''id'', ''runId'', ''workflowId'', ''workflow_id'', ''mode_key'']
     @ [(''status'', case ro_status overrides of Some s \<Rightarrow> Str s | None \<Rightarrow> fld source ''status'')]
     @ map (\<lambda>k. (k, fld source k)) [''currentNodeId'', ''current_node_id'', ''current_round_id'',
       ''current_target_session'', ''completedNodeIds'', ''completed_node_ids'', ''diagnostics'', ''capabilitySnapshot'']
     @ [(''updated_at'', Str updatedAt)])"

definition requiredFields :: "(rat \<Rightarrow> string) \<Rightarrow> jsval \<Rightarrow> runOverrides \<Rightarrow> string \<Rightarrow> string \<Rightarrow> statusProjection \<Rightarrow> runFields" where
  "requiredFields fmt source overrides createdAt updatedAt projection = [
     (''id'', Str (requiredString (orNullish (fld source ''id'') (fld source ''runId'')) (sp_runId projection))),
     (''discussion_id'', Str (requiredString (fld source ''discussion_id'') [])),
     (''server_id'', Str (ro_serverId overrides)),
     (''main_session'', Str (requiredString (fld source ''main_session'') [])),
     (''initiator_session'', Str (requiredString (fld source ''initiator_session'') [])),
     (''current_target_session'', nullOr Str (nullableString (fld source ''current_target_session''))),
     (''final_return_session'', Str (requiredString (fld source ''final_return_session'') [])),
     (''remaining_targets'', Str (jsonObjectString fmt (fld source ''remaining_targets''))),
     (''mode_key'', Str (requiredString (fld source ''mode_key'') (sp_workflowId projection))),
     (''status'', Str (case ro_status overrides of Some s \<Rightarrow> s
        | None \<Rightarrow> requiredString (fld source ''status'') (projectionStatusText (sp_status projection)))),
     (''request_message_id'', nullOr Str (nullableString (fld source ''request_message_id''))),
     (''callback_message_id'', nullOr Str (nullableString (fld source ''callback_message_id''))),
     (''context_ref'', Str (jsonObjectString fmt (fld source ''context_ref''))),
     (''timeout_ms'', finiteNumberVal (numberValue (fld source ''timeout_ms'') 0)),
     (''result_summary'', nullOr Str (nullableString (fld source ''result_summary''))),
     (''error'', nullOr Str (nullableString (fld source ''error''))),
     (''progress_snapshot'', Str (jsonText fmt (statusProjection_js (buildPersistedSnapshotFromProjection projection)))),
     (''created_at'', Str createdAt),
     (''updated_at'', Str updatedAt),
     (''completed_at'', nullOr Str (case ro_completedAt overrides of Some c \<Rightarrow> c
        | None \<Rightarrow> nullableString (fld source ''completed_at''))),
     (''workflow_projection'', statusProjection_js projection)]"

definition optionalFields :: "jsval \<Rightarrow> runFields" where
  "optionalFields source =
     (let num = (\<lambda>k. (k, optVal finiteNumberVal (optionalNumber (fld source k))));
          nullable = (\<lambda>k. (k, nullableNumber (fld source k)));
          text = (\<lambda>k. (k, optVal Str (stringValue (fld source k))));
          textOrNull = (\<lambda>k. (k, nullOr Str (nullableString (fld source k)))) in
      [num ''current_round'', num ''total_rounds'', num ''total_count'', num ''total_hops'', num ''completed_hops_count'',
       nullable ''active_hop_number'', nullable ''active_round_hop_number'', text ''active_phase'',
       nullable ''execution_attempt'', nullable ''execution_cycle_current'', nullable ''execution_cycle_total'',
       text ''current_round_mode'', textOrNull ''current_target_label'', textOrNull ''initiator_label'',
       text ''run_phase'', textOrNull ''summary_phase'',
       (''hop_states'', sanitizedRecordArray (fld source ''hop_states'')
         [''hop_index'', ''round_index'', ''session'', ''mode'', ''status'', ''started_at'', ''completed_at'', ''error'']),
       (''hop_counts'', sanitizedNumberRecord (fld source ''hop_counts'')),
       (''all_nodes'', sanitizedRecordArray (fld source ''all_nodes'')
         [''session'', ''label'', ''displayLabel'', ''display_label'', ''agentType'', ''ccPreset'', ''cc_preset'', ''mode'',
          ''phase'', ''status'']),
       (''advanced_p2p_enabled'', if isBool (fld source ''advanced_p2p_enabled'') then fld source ''advanced_p2p_enabled'' else Undef),
       textOrNull ''current_round_id'',
       (''advanced_nodes'', sanitizedRecordArray (fld source ''advanced_nodes'')
         [''id'', ''title'', ''preset'', ''status'', ''attempt'', ''step''])])"

definition targetFields :: "shareTarget option \<Rightarrow> runFields" where
  "targetFields target = (case target of None \<Rightarrow> []
   | Some t \<Rightarrow> [
       (''scope_kind'', Str (case t of Tgt_server _ \<Rightarrow> ''server'' | Tgt_main _ _ \<Rightarrow> ''main'' | Tgt_subsession _ _ \<Rightarrow> ''subsession'')),
       (''scope_server_id'', Str (case t of Tgt_server s \<Rightarrow> s | Tgt_main s _ \<Rightarrow> s | Tgt_subsession s _ \<Rightarrow> s)),
       (''scope_session_name'', case t of Tgt_main _ n \<Rightarrow> Str n | _ \<Rightarrow> Null),
       (''scope_sub_session_id'', case t of Tgt_subsession _ i \<Rightarrow> Str i | _ \<Rightarrow> Null),
       (''share_target_snapshot'', shareTarget_js t)])"

definition visibleAfter :: "jsval \<Rightarrow> rat" where
  "visibleAfter source = numberValue (fld source ''visible_after_ms'') (numberValue (fld source ''visibleAfterMs'') 0)"

definition authorizationFields :: "jsval \<Rightarrow> authorizationSnapshot option \<Rightarrow> shareScope option \<Rightarrow> runFields" where
  "authorizationFields source authorization scope =
     (case (authorization, scope) of
        (Some a, _) \<Rightarrow> [(''authorization_snapshot'', authorizationSnapshot_js a),
          (''primary_share_id'', nullOr Str (as_primaryShareId a)), (''covering_share_ids'', stringsVal (as_coveringShareIds a)),
          (''visible_after_ms'', finiteNumberVal (visibleAfter source)),
          (''history_cutoff_at_ms'', finiteNumberVal (as_historyCutoffAt a))]
      | (None, Some s) \<Rightarrow> [(''primary_share_id'', nullOr Str (sc_primaryShareId s)),
          (''covering_share_ids'', stringsVal (sc_coveringShareIds s)),
          (''visible_after_ms'', finiteNumberVal (visibleAfter source)),
          (''history_cutoff_at_ms'', finiteNumberVal (sc_historyCutoffAt s))]
      | _ \<Rightarrow> [])"

definition actorFields :: "actorEnvelope option \<Rightarrow> shareScope option \<Rightarrow> runFields" where
  "actorFields actor scope =
     (case actor of Some a \<Rightarrow> [(''created_by_user_id'', Str (ac_actorUserId a)), (''sharedActor'', actorEnvelope_js a)] | None \<Rightarrow> [])
     @ optField ''shareScope'' shareScope_js scope"

text \<open>The sanitized run, with the projection it holds.\<close>

definition sanitizeP2pOrchestrationRunForBridge :: "(rat \<Rightarrow> string) \<Rightarrow> dateHost \<Rightarrow> string \<Rightarrow> jsval \<Rightarrow> runOverrides
    \<Rightarrow> sanitizeError + statusProjection \<times> runFields" where
  "sanitizeP2pOrchestrationRunForBridge fmt h now source overrides =
     (case normalizeSharedActor fmt (fld source ''sharedActor'') of Inl e \<Rightarrow> Inl e
      | Inr actor \<Rightarrow>
         (let scope = normalizeShareScope (fld source ''shareScope'') actor;
              authorization = (case actor of Some a \<Rightarrow> Some (ac_snapshot a)
                | None \<Rightarrow> normalizeShareAuthorizationSnapshot (fld source ''authorization_snapshot''));
              target = orOption (map_option sc_target scope) (orOption (map_option as_target authorization)
                (normalizeShareTarget (orNullish (fld source ''share_target_snapshot'') (fld source ''shareTargetSnapshot'')))) in
          case (case ro_updatedAt overrides of Some u \<Rightarrow> Inr u
            | None \<Rightarrow> isoTimestamp h now (orNullish (fld source ''updated_at'') (fld source ''updatedAt''))) of Inl e \<Rightarrow> Inl e
          | Inr updatedAt \<Rightarrow>
             (case sanitizeP2pWorkflowStatusProjection h now (runForProjection source overrides updatedAt) source of Inl e \<Rightarrow> Inl e
              | Inr projection \<Rightarrow>
                 (case isoTimestamp h now (fld source ''created_at'') of Inl e \<Rightarrow> Inl e
                  | Inr createdAt \<Rightarrow> Inr (projection,
                      addAll (optionalFields source @ targetFields target @ authorizationFields source authorization scope
                          @ actorFields actor scope)
                        (requiredFields fmt source overrides createdAt updatedAt projection))))))"

text \<open>The public fields a browser still reads, copied over the run; \<open>True\<close> when one of them was cut.\<close>

definition layerLegacyFields :: "(rat \<Rightarrow> string) \<Rightarrow> jsval \<Rightarrow> runFields \<Rightarrow> bool \<times> runFields" where
  "layerLegacyFields fmt source run = fold (\<lambda>field (shortened, r).
     if \<not> hasOwn source field then (shortened, r)
     else (case cloneSafePublicValue fmt (fld source field) of (value, truncated) \<Rightarrow>
       (shortened \<or> truncated, case value of Some w \<Rightarrow> mapSet r field w | None \<Rightarrow> r)))
     SAFE_LEGACY_RUN_UPDATE_FIELDS (False, run)"

text \<open>The diagnostic of a cut payload goes into the projection object the run holds.\<close>

definition pushCutDiagnostic :: "string \<Rightarrow> statusProjection \<Rightarrow> statusProjection" where
  "pushCutDiagnostic runId p =
     p\<lparr>sp_diagnostics := sp_diagnostics p @ [droppedDiagnostic runId ''Sanitized oversized workflow payload'']\<rparr>"

definition runIdOf :: "runFields \<Rightarrow> string" where
  "runIdOf run = (case mapGet run ''id'' of Some (Str s) \<Rightarrow> s | _ \<Rightarrow> [])"

definition sanitizeP2pRunUpdateForBroadcast :: "(rat \<Rightarrow> string) \<Rightarrow> dateHost \<Rightarrow> string \<Rightarrow> jsval \<Rightarrow> runOverrides
    \<Rightarrow> sanitizeError + runFields" where
  "sanitizeP2pRunUpdateForBroadcast fmt h now source overrides =
     (case sanitizeP2pOrchestrationRunForBridge fmt h now source overrides of Inl e \<Rightarrow> Inl e
      | Inr (projection, base) \<Rightarrow>
         (case layerLegacyFields fmt source base of (shortened, run) \<Rightarrow>
            Inr (if shortened then mapSet run ''workflow_projection'' (statusProjection_js (pushCutDiagnostic (runIdOf run) projection))
              else run)))"

text \<open>
  One pass for the database and the browsers: both runs hold the same projection object; the persisted
  snapshot's text is written again after a cut, in the stored run only.
\<close>

definition sanitizeP2pRunForPersistAndBroadcast :: "(rat \<Rightarrow> string) \<Rightarrow> dateHost \<Rightarrow> string \<Rightarrow> jsval \<Rightarrow> runOverrides
    \<Rightarrow> sanitizeError + runFields \<times> runFields" where
  "sanitizeP2pRunForPersistAndBroadcast fmt h now source overrides =
     (case sanitizeP2pOrchestrationRunForBridge fmt h now source overrides of Inl e \<Rightarrow> Inl e
      | Inr (projection, persisted) \<Rightarrow>
         (case layerLegacyFields fmt source persisted of (shortened, broadcast) \<Rightarrow>
            if \<not> shortened then Inr (persisted, broadcast)
            else (let p = pushCutDiagnostic (runIdOf persisted) projection in
              Inr (mapSet (mapSet persisted ''workflow_projection'' (statusProjection_js p))
                     ''progress_snapshot'' (Str (jsonText fmt (statusProjection_js (buildPersistedSnapshotFromProjection p)))),
                   mapSet broadcast ''workflow_projection'' (statusProjection_js p)))))"

end
