(* ===== verification/SanitizeProps.thy ===== *)
theory SanitizeProps
  imports SanitizeShare
begin

text \<open>The properties of the server's sanitizer.\<close>

section \<open>Copies\<close>

text \<open>A value as \<^verbatim>\<open>JSON.parse\<close> gives it: nothing undefined, no number that is not finite.\<close>

fun isJson :: "jsval \<Rightarrow> bool" where
  "isJson Undef = False"
| "isJson (Number n) = numFinite n"
| "isJson (Arr vs) = list_all isJson vs"
| "isJson (Obj kvs) = list_all (\<lambda>(k, v). isJson v) kvs"
| "isJson _ = True"

text \<open>What the copy leaves as it is.\<close>

definition plain :: "nat \<Rightarrow> jsval \<Rightarrow> bool" where
  "plain d v = (isJson v \<and> noPrivateKey v \<and> withinLimits (P2P_SANITIZE_MAX_DEPTH - d) v)"

definition pay :: "cloneContext \<Rightarrow> nat \<Rightarrow> cloneContext" where
  "pay cx n = cx\<lparr>cx_remainingBytes := cx_remainingBytes cx - n\<rparr>"

lemma pay_simps [simp]: "cx_remainingBytes (pay cx n) = cx_remainingBytes cx - n" "pay (pay cx n) m = pay cx (n + m)"
  "pay cx 0 = cx" "cx_truncated (pay cx n) = cx_truncated cx"
  by (simp_all add: pay_def)

lemma charge_pay: "byteLength s \<le> cx_remainingBytes cx \<Longrightarrow> chargeBytes cx s = (True, pay cx (byteLength s))"
  by (simp add: chargeBytes_def pay_def)

lemma bounded_pay: "byteLength s \<le> P2P_SANITIZE_MAX_STRING_BYTES \<Longrightarrow> byteLength s \<le> cx_remainingBytes cx
    \<Longrightarrow> boundedStringIn s cx = (s, pay cx (byteLength s))"
  by (simp add: boundedStringIn_def truncateUtf8String_def pay_def)

lemma plain_Arr: "plain d (Arr vs) \<longleftrightarrow> d < P2P_SANITIZE_MAX_DEPTH \<and> length vs \<le> P2P_SANITIZE_MAX_ARRAY_ITEMS \<and> list_all (plain (Suc d)) vs"
  by (auto simp: plain_def list_all_iff)

lemma plain_Obj: "plain d (Obj kvs) \<longleftrightarrow> d < P2P_SANITIZE_MAX_DEPTH \<and> length kvs \<le> P2P_SANITIZE_MAX_OBJECT_KEYS
    \<and> list_all (\<lambda>(k, v). k \<notin> set FORBIDDEN_KEYS \<and> plain (Suc d) v) kvs"
  by (auto simp: plain_def list_all_iff)

lemma clone_plain:
  "plain d v \<Longrightarrow> contentBytes fmt v < cx_remainingBytes cx
    \<Longrightarrow> cloneSafePublicValueInner fmt v d cx = (Some v, pay cx (contentBytes fmt v))"
  "list_all (plain (Suc d)) vs \<Longrightarrow> length vs \<le> n \<Longrightarrow> sum_list (map (contentBytes fmt) vs) < cx_remainingBytes cx
    \<Longrightarrow> cloneItems fmt n vs d cx = (vs, pay cx (sum_list (map (contentBytes fmt) vs)))"
  "list_all (\<lambda>(k, v). k \<notin> set FORBIDDEN_KEYS \<and> plain (Suc d) v) kvs \<Longrightarrow> length kvs \<le> n
    \<Longrightarrow> sum_list (map (\<lambda>(k, v). byteLength k + contentBytes fmt v) kvs) < cx_remainingBytes cx
    \<Longrightarrow> cloneFields fmt n kvs d cx = (kvs, pay cx (sum_list (map (\<lambda>(k, v). byteLength k + contentBytes fmt v) kvs)))"
proof (induction fmt v d cx and fmt n vs d cx and fmt n kvs d cx
    rule: cloneSafePublicValueInner_cloneItems_cloneFields.induct)
  case (6 fmt vs depth cx)
  then show ?case by (simp add: plain_Arr)
next
  case (7 fmt kvs depth cx)
  then show ?case by (simp add: plain_Obj)
next
  case (9 fmt n v vs depth cx)
  have n: "n \<noteq> 0" using 9(4) by simp
  have v: "cloneSafePublicValueInner fmt v (Suc depth) cx = (Some v, pay cx (contentBytes fmt v))"
    using 9(1) [OF n] 9(3,5) by simp
  have "cloneItems fmt (n - 1) vs depth (pay cx (contentBytes fmt v))
      = (vs, pay (pay cx (contentBytes fmt v)) (sum_list (map (contentBytes fmt) vs)))"
    using 9(2) [OF n v [symmetric]] 9(3-5) by simp
  then show ?case using n v by simp
next
  case (11 fmt n key v kvs depth cx)
  let ?cx1 = "pay cx (byteLength key)" and ?cx2 = "pay cx (byteLength key + contentBytes fmt v)"
  have key: "n \<noteq> 0" "key \<notin> set FORBIDDEN_KEYS" "chargeBytes cx key = (True, ?cx1)" using 11 by (simp_all add: charge_pay)
  have v: "cloneSafePublicValueInner fmt v (Suc depth) ?cx1 = (Some v, ?cx2)"
    using 11(2) [OF key(1,2) key(3) [symmetric]] 11(4-6) by simp
  have "cloneFields fmt (n - 1) kvs depth ?cx2 = (kvs, pay ?cx2 (sum_list (map (\<lambda>(k, v). byteLength k + contentBytes fmt v) kvs)))"
    using 11(3) [OF key(1,2) key(3) [symmetric] _ v [symmetric]] 11(4-6) by simp
  then show ?case using key v by (simp add: add.assoc)
qed (auto simp: plain_def chargeScalar_def charge_pay bounded_pay charBytes_def split: if_split)

section \<open>Properties of a run\<close>

lemma list_all_optField [simp]: "list_all P (optField k f x) \<longleftrightarrow> (case x of None \<Rightarrow> True | Some y \<Rightarrow> P (k, f y))"
  by (cases x) simp_all

lemmas forbidden_names = FORBIDDEN_KEYS_def P2P_FORBIDDEN_ENVELOPE_FIELD_NAMES_def

lemma noPrivateKey_nullOr: "(\<And>y. noPrivateKey (f y)) \<Longrightarrow> noPrivateKey (nullOr f x)"
  by (simp add: nullOr_def split: option.split)

lemma noPrivateKey_optVal: "(\<And>y. noPrivateKey (f y)) \<Longrightarrow> noPrivateKey (optVal f x)"
  by (cases x) simp_all

lemma noPrivateKey_strings [simp]: "noPrivateKey (stringsVal xs)" "list_all noPrivateKey (map Str xs)"
  "noPrivateKey (nullOr Str x)" "noPrivateKey (nullOr finiteNumberVal y)" "noPrivateKey (finiteNumberVal r)"
  by (auto simp: stringsVal_def list_all_iff nullOr_def finiteNumberVal_def split: option.split)

lemma noPrivateKey_diagnostic [simp]: "noPrivateKey (bridgeDiagnostic_js d)"
  by (simp add: bridgeDiagnostic_js_def forbidden_names split: option.split)

lemma noPrivateKey_list: "list_all noPrivateKey (map bridgeDiagnostic_js ds)"
  by (simp add: list_all_iff)

lemma noPrivateKey_projection [simp]: "noPrivateKey (statusProjection_js p)"
  by (simp add: statusProjection_js_def capabilitySnapshot_js_def forbidden_names noPrivateKey_list split: option.split)

lemma noPrivateKey_target [simp]: "noPrivateKey (shareTarget_js t)"
  by (cases t) (simp_all add: forbidden_names)

lemma noPrivateKey_authorization [simp]: "noPrivateKey (authorizationSnapshot_js a)" "noPrivateKey (shareScope_js s)"
  by (simp_all add: authorizationSnapshot_js_def shareScope_js_def forbidden_names)

text \<open>A value whose text has no bracket holds no object.\<close>

lemma set_joinWith: "s \<in> set ss \<Longrightarrow> set s \<subseteq> set (joinWith sep ss)"
  by (induction sep ss rule: joinWith.induct) auto

lemma text_without_object:
  "jsToString fmt v = Inr s \<Longrightarrow> CHR ''['' \<notin> set s \<Longrightarrow> noPrivateKey v"
  "jsElements fmt vs = Inr ss \<Longrightarrow> \<forall>s \<in> set ss. CHR ''['' \<notin> set s \<Longrightarrow> list_all noPrivateKey vs"
proof (induction fmt v and fmt vs arbitrary: s and ss rule: jsToString_jsElements.induct)
  case (6 fmt vs)
  then show ?case using set_joinWith by (fastforce split: sum.split_asm)
next
  case (7 fmt kvs)
  then show ?case by (auto split: if_split_asm)
next
  case (9 fmt v vs)
  then show ?case by (cases "v = Undef \<or> v = Null") (auto split: sum.split_asm)
qed simp_all

lemma noPrivateKey_actor:
  assumes "normalizeSharedActor fmt v = Inr (Some a)"
  shows "noPrivateKey (actorEnvelope_js a)"
proof -
  obtain role origin where "jsToString fmt (ac_effectiveActorRole a) = Inr role" "role \<in> set EFFECTIVE_ACTOR_ROLES"
    "jsToString fmt (ac_origin a) = Inr origin" "origin \<in> set ACTOR_ORIGINS"
    using assms by (auto simp: normalizeSharedActor_def split: option.split_asm sum.split_asm if_split_asm)
  moreover have "CHR ''['' \<notin> set x" if "x \<in> set EFFECTIVE_ACTOR_ROLES \<or> x \<in> set ACTOR_ORIGINS" for x
    using that by (auto simp: EFFECTIVE_ACTOR_ROLES_def ACTOR_ORIGINS_def)
  ultimately have "noPrivateKey (ac_effectiveActorRole a)" "noPrivateKey (ac_origin a)"
    using text_without_object(1) by blast+
  then show ?thesis by (simp add: actorEnvelope_js_def forbidden_names split: option.split)
qed

lemma noPrivateKey_rows:
  assumes "list_all (\<lambda>k. k \<notin> set FORBIDDEN_KEYS) allowed"
  shows "noPrivateKey (sanitizedRecordArray v allowed)"
proof -
  have "noPrivateKey (sanitizedRow allowed item)" for item
    using assms by (auto simp: sanitizedRow_def map_filter_def list_all_iff sanitizedField_def
        split: if_split_asm jsval.split_asm)
  then show ?thesis by (simp add: sanitizedRecordArray_def list_all_iff)
qed

text \<open>The properties of a run before the public fields are copied over it: only the counts may have any name.\<close>

definition cleanField :: "jsval \<Rightarrow> string \<Rightarrow> jsval \<Rightarrow> bool" where
  "cleanField source k v = (k \<notin> set FORBIDDEN_KEYS
     \<and> (noPrivateKey v \<or> k = ''hop_counts'' \<and> isRecord (fld source ''hop_counts'')))"

lemma clean_required: "list_all (\<lambda>(k, v). cleanField source k v) (requiredFields fmt source ov createdAt u p)"
  by (simp add: requiredFields_def cleanField_def forbidden_names)

lemma clean_optional: "list_all (\<lambda>(k, v). v \<noteq> Undef \<longrightarrow> cleanField source k v) (optionalFields source)"
proof -
  have "noPrivateKey (optVal finiteNumberVal x)" "noPrivateKey (optVal Str y)" "noPrivateKey (nullableNumber v)" for x y v
    by (simp_all add: noPrivateKey_optVal nullableNumber_def)
  moreover have "sanitizedNumberRecord v \<noteq> Undef \<Longrightarrow> isRecord v" for v
    by (simp add: sanitizedNumberRecord_def split: if_split_asm)
  moreover have "isBool v \<Longrightarrow> noPrivateKey v" for v by (cases v) simp_all
  ultimately show ?thesis
    by (simp add: optionalFields_def Let_def cleanField_def noPrivateKey_rows forbidden_names)
qed

lemma clean_target: "list_all (\<lambda>(k, v). cleanField source k v) (targetFields t)"
  by (auto simp: targetFields_def cleanField_def forbidden_names split: option.split shareTarget.split)

lemma clean_authorization: "list_all (\<lambda>(k, v). cleanField source k v) (authorizationFields source a s)"
  by (auto simp: authorizationFields_def cleanField_def forbidden_names split: option.split)

lemma clean_actor:
  assumes "normalizeSharedActor fmt v = Inr actor"
  shows "list_all (\<lambda>(k, w). cleanField source k w) (actorFields actor scope)"
  using assms noPrivateKey_actor by (auto simp: actorFields_def cleanField_def forbidden_names split: option.split)

text \<open>A property of the run is one that was set, or was there.\<close>

lemma addAll_get: "mapGet (addAll new run) k = Some v \<Longrightarrow> (k, v) \<in> set new \<and> v \<noteq> Undef \<or> mapGet run k = Some v"
proof (induction new arbitrary: run)
  case (Cons x new)
  obtain k' v' where x: "x = (k', v')" by fastforce
  have "mapGet (addOptional k' v' run) k = Some v \<Longrightarrow> (k, v) = x \<and> v \<noteq> Undef \<or> mapGet run k = Some v"
    by (auto simp: addOptional_def x split: if_split_asm)
  with Cons.IH [of "addOptional k' v' run"] Cons.prems show ?case by (auto simp: addAll_def x)
qed (simp add: addAll_def)

lemma addAll_distinct: "distinct (mapKeys run) \<Longrightarrow> distinct (mapKeys (addAll new run))"
  unfolding addAll_def by (induction new arbitrary: run) (auto simp: addOptional_def)

lemma base_clean:
  assumes "sanitizeP2pOrchestrationRunForBridge fmt h now source overrides = Inr (p, run)"
  shows "distinct (mapKeys run)" and "mapGet run k = Some v \<Longrightarrow> cleanField source k v"
proof -
  obtain actor scope authorization target createdAt u where
    actor: "normalizeSharedActor fmt (fld source ''sharedActor'') = Inr actor"
    and run: "run = addAll (optionalFields source @ targetFields target @ authorizationFields source authorization scope
      @ actorFields actor scope) (requiredFields fmt source overrides createdAt u p)"
    using assms unfolding sanitizeP2pOrchestrationRunForBridge_def Let_def by (auto split: sum.split_asm)
  have "distinct (mapKeys (requiredFields fmt source overrides createdAt u p))" by (simp add: requiredFields_def)
  then show "distinct (mapKeys run)" unfolding run by (rule addAll_distinct)
  show "cleanField source k v" if "mapGet run k = Some v"
    using addAll_get [OF that [unfolded run]] clean_optional clean_target clean_authorization clean_actor [OF actor]
      clean_required map_of_SomeD by (fastforce simp: list_all_iff)
qed

section \<open>The public fields on top\<close>

definition copiedField :: "(rat \<Rightarrow> string) \<Rightarrow> jsval \<Rightarrow> string \<Rightarrow> jsval option" where
  "copiedField fmt source k = (if k \<in> set SAFE_LEGACY_RUN_UPDATE_FIELDS \<and> hasOwn source k
     then fst (cloneSafePublicValue fmt (fld source k)) else None)"

lemma layer_get: "mapGet (snd (layerLegacyFields fmt source run)) k
    = (case copiedField fmt source k of Some w \<Rightarrow> Some w | None \<Rightarrow> mapGet run k)"
proof -
  have "mapGet (snd (fold (\<lambda>field (shortened, r). if \<not> hasOwn source field then (shortened, r)
       else (case cloneSafePublicValue fmt (fld source field) of (value, truncated) \<Rightarrow>
         (shortened \<or> truncated, case value of Some w \<Rightarrow> mapSet r field w | None \<Rightarrow> r))) fs (c, r))) k
     = (case (if k \<in> set fs \<and> hasOwn source k then fst (cloneSafePublicValue fmt (fld source k)) else None) of
         Some w \<Rightarrow> Some w | None \<Rightarrow> mapGet r k)" for fs c r
    by (induction fs arbitrary: c r) (auto split: option.split prod.split)
  then show ?thesis by (simp add: layerLegacyFields_def copiedField_def)
qed

lemma layer_distinct: "distinct (mapKeys run) \<Longrightarrow> distinct (mapKeys (snd (layerLegacyFields fmt source run)))"
proof -
  have "distinct (mapKeys r) \<Longrightarrow> distinct (mapKeys (snd (fold (\<lambda>field (shortened, r). if \<not> hasOwn source field then (shortened, r)
       else (case cloneSafePublicValue fmt (fld source field) of (value, truncated) \<Rightarrow>
         (shortened \<or> truncated, case value of Some w \<Rightarrow> mapSet r field w | None \<Rightarrow> r))) fs (c, r))))" for fs c r
    by (induction fs arbitrary: c r) (auto split: option.split prod.split)
  then show "distinct (mapKeys run) \<Longrightarrow> ?thesis" by (simp add: layerLegacyFields_def)
qed

lemma copied_clean:
  assumes "copiedField fmt source k = Some w"
  shows "k \<in> set SAFE_LEGACY_RUN_UPDATE_FIELDS" "noPrivateKey w" "withinLimits P2P_SANITIZE_MAX_DEPTH w"
    "contentBytes fmt w \<le> P2P_SANITIZE_MAX_TOTAL_BYTES"
  using assms cloned [of fmt "fld source k" w] by (auto simp: copiedField_def split: if_split_asm) (metis prod.collapse)+

lemma counts_copied: "isRecord (fld source ''hop_counts'') \<Longrightarrow> copiedField fmt source ''hop_counts'' \<noteq> None"
proof -
  assume r: "isRecord (fld source ''hop_counts'')"
  then have "hasOwn source ''hop_counts''"
    by (cases source) (auto simp: hasOwn_def dest!: map_of_SomeD split: option.split_asm intro: rev_image_eqI)
  then show ?thesis using clone_container [of "fld source ''hop_counts''" fmt] r
    by (auto simp: copiedField_def SAFE_LEGACY_RUN_UPDATE_FIELDS_def)
qed

lemma safe_names: "k \<in> set SAFE_LEGACY_RUN_UPDATE_FIELDS \<Longrightarrow> k \<notin> set FORBIDDEN_KEYS"
  by (auto simp: SAFE_LEGACY_RUN_UPDATE_FIELDS_def forbidden_names)

lemma noPrivateKey_map:
  assumes "distinct (mapKeys m)" and "\<And>k v. mapGet m k = Some v \<Longrightarrow> k \<notin> set FORBIDDEN_KEYS \<and> noPrivateKey v"
  shows "noPrivateKey (Obj m)"
  using assms by (auto simp: list_all_iff)

lemma layered_clean:
  assumes "sanitizeP2pOrchestrationRunForBridge fmt h now source overrides = Inr (p, run)"
    and "mapGet (snd (layerLegacyFields fmt source run)) k = Some v"
  shows "k \<notin> set FORBIDDEN_KEYS" and "noPrivateKey v"
  using assms(2) base_clean(2) [OF assms(1), of k v] copied_clean [of fmt source k] safe_names
    counts_copied [of source fmt]
  by (auto simp: layer_get cleanField_def split: option.split_asm)

section \<open>What may throw\<close>

definition badTime :: "jsval \<Rightarrow> bool" where
  "badTime v = (case optionalNumber v of Some r \<Rightarrow> 8640000000000000 < \<bar>truncRat r\<bar> | None \<Rightarrow> False)"

lemma isoTimestamp_throws: "isoTimestamp h now v = Inl e \<longleftrightarrow> e = Se_invalid_time_value \<and> badTime v"
  by (auto simp: isoTimestamp_def badTime_def optionalNumber_def split: jsval.split jsnum.split)

lemma isoTimestamp_fine: "isoTimestamp h now v = Inr t \<Longrightarrow> \<not> badTime v"
  using isoTimestamp_throws [of h now v Se_invalid_time_value] by auto

lemma badTime_throws: "badTime v \<Longrightarrow> isoTimestamp h now v = Inl Se_invalid_time_value"
  by (simp add: isoTimestamp_throws)

text \<open>The run's own update time is a string, so its projection never throws.\<close>

lemma projection_of_run: "\<exists>p. sanitizeP2pWorkflowStatusProjection h now (runForProjection source ov u) src = Inr p"
proof -
  have "fld (runForProjection source ov u) ''updatedAt'' = Undef" "fld (runForProjection source ov u) ''updated_at'' = Str u"
    by (simp_all add: runForProjection_def)
  then show ?thesis unfolding sanitizeP2pWorkflowStatusProjection_def Let_def
    by (simp add: orNullish_def isoTimestamp_def del: fld.simps)
qed

lemma run_throws_iff:
  "(\<exists>e. sanitizeP2pOrchestrationRunForBridge fmt h now source ov = Inl e) \<longleftrightarrow>
     (\<exists>e. normalizeSharedActor fmt (fld source ''sharedActor'') = Inl e)
     \<or> ro_updatedAt ov = None \<and> badTime (orNullish (fld source ''updated_at'') (fld source ''updatedAt''))
     \<or> badTime (fld source ''created_at'')"
proof (cases "normalizeSharedActor fmt (fld source ''sharedActor'')")
  case (Inr actor)
  define u where "u = (case ro_updatedAt ov of Some u \<Rightarrow> Inr u
    | None \<Rightarrow> isoTimestamp h now (orNullish (fld source ''updated_at'') (fld source ''updatedAt'')))"
  show ?thesis
  proof (cases u)
    case (Inl e)
    then show ?thesis using Inr
      by (auto simp: sanitizeP2pOrchestrationRunForBridge_def Let_def u_def isoTimestamp_throws split: option.split_asm)
  next
    case up: (Inr t)
    then have "\<not> (ro_updatedAt ov = None \<and> badTime (orNullish (fld source ''updated_at'') (fld source ''updatedAt'')))"
      by (auto simp: u_def isoTimestamp_throws [THEN iffD2])
    moreover obtain p where p: "sanitizeP2pWorkflowStatusProjection h now (runForProjection source ov t) source = Inr p"
      using projection_of_run by blast
    ultimately show ?thesis using Inr up [unfolded u_def]
      by (cases "isoTimestamp h now (fld source ''created_at'')")
        (simp_all add: sanitizeP2pOrchestrationRunForBridge_def Let_def p isoTimestamp_throws isoTimestamp_fine badTime_throws)
  qed
qed (simp add: sanitizeP2pOrchestrationRunForBridge_def)


section \<open>Reading a stored snapshot\<close>

lemma find_code: "List.find (\<lambda>c. diagnosticCodeText c = diagnosticCodeText d) P2P_WORKFLOW_DIAGNOSTIC_CODES = Some d"
  by (cases d) (simp_all add: P2P_WORKFLOW_DIAGNOSTIC_CODES_def)

lemma find_phase: "List.find (\<lambda>c. phaseText c = phaseText d) P2P_WORKFLOW_DIAGNOSTIC_PHASES = Some d"
  by (cases d) (simp_all add: P2P_WORKFLOW_DIAGNOSTIC_PHASES_def)

lemma find_severity: "List.find (\<lambda>c. severityText c = severityText d) P2P_WORKFLOW_DIAGNOSTIC_SEVERITIES = Some d"
  by (cases d) (simp_all add: P2P_WORKFLOW_DIAGNOSTIC_SEVERITIES_def)

lemma find_status: "statusNamed (Str (projectionStatusText d)) = Some d"
  by (cases d) (simp_all add: statusNamed_def PROJECTION_STATUSES_def)

definition boundedText :: "string option \<Rightarrow> bool" where
  "boundedText x = (\<forall>s. x = Some s \<longrightarrow> byteLength s \<le> P2P_SANITIZE_MAX_STRING_BYTES)"

definition notBlank :: "string option \<Rightarrow> bool" where
  "notBlank x = (case x of None \<Rightarrow> True | Some s \<Rightarrow> trim s \<noteq> [])"

definition boundedDiagnostic :: "bridgeDiagnostic \<Rightarrow> bool" where
  "boundedDiagnostic d = (dg_messageKey (bd_base d) = ''p2p.workflow.diagnostics.'' @ diagnosticCodeText (dg_code (bd_base d))
     \<and> boundedText (bd_summary d) \<and> boundedText (dg_nodeId (bd_base d)) \<and> boundedText (dg_runId (bd_base d))
     \<and> boundedText (dg_fieldPath (bd_base d)))"

definition noBlankText :: "bridgeDiagnostic \<Rightarrow> bool" where
  "noBlankText d = (notBlank (bd_summary d) \<and> notBlank (dg_nodeId (bd_base d)) \<and> notBlank (dg_runId (bd_base d))
     \<and> notBlank (dg_fieldPath (bd_base d)))"

lemma diagnosticString_id: "boundedText x \<Longrightarrow> notBlank x
    \<Longrightarrow> sanitizeDiagnosticString (optVal Str x) = x"
  by (cases x) (simp_all add: sanitizeDiagnosticString_def boundedText_def notBlank_def boundedString_id)

lemma retain_retained:
  assumes "boundedDiagnostic d" and "noBlankText d" and "dg_runId (bd_base d) \<noteq> None"
  shows "sanitizeWorkflowDiagnosticForRetention (bridgeDiagnostic_js d) r = Some d"
proof -
  let ?v = "bridgeDiagnostic_js d"
  have "fld ?v ''code'' = Str (diagnosticCodeText (dg_code (bd_base d)))" "fld ?v ''phase'' = Str (phaseText (dg_phase (bd_base d)))"
    "fld ?v ''severity'' = Str (severityText (dg_severity (bd_base d)))"
    by (simp_all add: bridgeDiagnostic_js_def)
  moreover have "fld ?v ''summary'' = optVal Str (bd_summary d)" "fld ?v ''nodeId'' = optVal Str (dg_nodeId (bd_base d))"
    "fld ?v ''runId'' = optVal Str (dg_runId (bd_base d))" "fld ?v ''fieldPath'' = optVal Str (dg_fieldPath (bd_base d))"
    by (cases "bd_summary d"; cases "dg_nodeId (bd_base d)"; cases "dg_runId (bd_base d)"; cases "dg_fieldPath (bd_base d)";
        simp add: bridgeDiagnostic_js_def)+
  then have "sanitizeDiagnosticString (fld ?v ''summary'') = bd_summary d"
    "sanitizeDiagnosticString (fld ?v ''nodeId'') = dg_nodeId (bd_base d)"
    "sanitizeDiagnosticString (fld ?v ''runId'') = dg_runId (bd_base d)"
    "sanitizeDiagnosticString (fld ?v ''fieldPath'') = dg_fieldPath (bd_base d)"
    using assms(1,2) by (simp_all add: diagnosticString_id boundedDiagnostic_def noBlankText_def)
  moreover have "isRecord ?v" by (simp add: bridgeDiagnostic_js_def)
  moreover obtain rid where "dg_runId (bd_base d) = Some rid" using assms(3) by blast
  moreover have "dg_messageKey (bd_base d) = ''p2p.workflow.diagnostics.'' @ diagnosticCodeText (dg_code (bd_base d))"
    using assms(1) by (simp add: boundedDiagnostic_def)
  ultimately show ?thesis
    by (simp add: sanitizeWorkflowDiagnosticForRetention_def find_code find_phase find_severity Let_def
        makeBridgeDiagnostic_def makeP2pWorkflowDiagnostic_def)
qed

lemma sanitizeDiagnosticString_bounded: "boundedText (sanitizeDiagnosticString v)"
  by (auto simp: sanitizeDiagnosticString_def boundedText_def boundedString_bytes split: jsval.split)

lemma retained_bounded:
  assumes "sanitizeWorkflowDiagnosticForRetention v (Some r) = Some d" and "byteLength r \<le> P2P_SANITIZE_MAX_STRING_BYTES"
  shows "boundedDiagnostic d" and "dg_runId (bd_base d) \<noteq> None"
  using assms sanitizeDiagnosticString_bounded
  by (auto simp: sanitizeWorkflowDiagnosticForRetention_def Let_def boundedDiagnostic_def makeBridgeDiagnostic_def
      makeP2pWorkflowDiagnostic_def boundedText_def split: if_split_asm option.split_asm)

lemma visit_dropped:
  "set (visitForbidden r v d acc) \<subseteq> set acc \<union> {droppedDiagnostic r ''Sanitized oversized workflow payload'',
     droppedDiagnostic r ''Dropped private field from daemon projection''}"
  "set (visitFields r n kvs d acc) \<subseteq> set acc \<union> {droppedDiagnostic r ''Sanitized oversized workflow payload'',
     droppedDiagnostic r ''Dropped private field from daemon projection''}"
proof (induction r v d acc and r n kvs d acc rule: visitForbidden_visitFields.induct)
  case (1 r kvs d acc)
  then show ?case by (cases "20 \<le> length acc \<or> 5 < d") (auto split: if_split_asm)
next
  case (4 r n key v kvs d acc)
  then show ?case by (cases "n = 0"; cases "key \<in> set FORBIDDEN_KEYS") auto
qed auto

lemma droppedDiagnostic_bounded:
  assumes "byteLength r \<le> P2P_SANITIZE_MAX_STRING_BYTES" and "byteLength s \<le> P2P_SANITIZE_MAX_STRING_BYTES"
  shows "boundedDiagnostic (droppedDiagnostic r s) \<and> dg_runId (bd_base (droppedDiagnostic r s)) \<noteq> None"
  using assms by (simp add: boundedDiagnostic_def droppedDiagnostic_def makeBridgeDiagnostic_def
      makeP2pWorkflowDiagnostic_def aboutRun_def boundedText_def)

lemma dropped_bounded:
  assumes "byteLength r \<le> P2P_SANITIZE_MAX_STRING_BYTES" and "d \<in> set (collectForbiddenFieldDiagnostics v r)"
  shows "boundedDiagnostic d \<and> dg_runId (bd_base d) \<noteq> None"
proof -
  have "byteLength ''Sanitized oversized workflow payload'' \<le> P2P_SANITIZE_MAX_STRING_BYTES"
    "byteLength ''Dropped private field from daemon projection'' \<le> P2P_SANITIZE_MAX_STRING_BYTES"
    by (simp_all add: P2P_SANITIZE_MAX_STRING_BYTES_def charBytes_def)
  then show ?thesis using assms visit_dropped(1) [of r v 0 "[]"] droppedDiagnostic_bounded
    by (auto simp: collectForbiddenFieldDiagnostics_def)
qed

lemma requiredString_facts:
  assumes "f \<noteq> []" and "byteLength f \<le> P2P_SANITIZE_MAX_STRING_BYTES"
  shows "requiredString v f \<noteq> []" and "byteLength (requiredString v f) \<le> P2P_SANITIZE_MAX_STRING_BYTES"
  using assms boundedString_nonempty boundedString_bytes
  by (auto simp: requiredString_def split: option.split) (metis trim_Nil)

lemma projection_facts:
  assumes "sanitizeP2pWorkflowStatusProjection h now raw source = Inr p"
  shows "sp_runId p \<noteq> []" and "sp_workflowId p \<noteq> []" and "sp_currentNodeId p \<noteq> Some []"
    and "d \<in> set (sp_diagnostics p) \<Longrightarrow> boundedDiagnostic d \<and> dg_runId (bd_base d) \<noteq> None"
proof -
  have b: "byteLength (requiredString v ''unknown'') \<le> P2P_SANITIZE_MAX_STRING_BYTES" for v
    by (rule requiredString_facts) (simp_all add: P2P_SANITIZE_MAX_STRING_BYTES_def charBytes_def)
  have ne: "requiredString v ''unknown'' \<noteq> []" "requiredString v ''legacy'' \<noteq> []" for v
    by (rule requiredString_facts; simp add: P2P_SANITIZE_MAX_STRING_BYTES_def charBytes_def)+
  show "sp_runId p \<noteq> []" "sp_workflowId p \<noteq> []" "sp_currentNodeId p \<noteq> Some []"
    using assms ne by (auto simp: sanitizeP2pWorkflowStatusProjection_def Let_def nonEmptyStringOption_def
        split: sum.split_asm option.split_asm if_split_asm)
  show "boundedDiagnostic d \<and> dg_runId (bd_base d) \<noteq> None" if "d \<in> set (sp_diagnostics p)"
    using assms that retained_bounded [OF _ b] dropped_bounded [OF b]
    by (auto simp: sanitizeP2pWorkflowStatusProjection_def Let_def retainedDiagnostics_def map_filter_def
        split: sum.split_asm)
qed

lemma retained_list: "\<forall>d \<in> set ds. sanitizeWorkflowDiagnosticForRetention (bridgeDiagnostic_js d) (Some r) = Some d
    \<Longrightarrow> retainedDiagnostics (map bridgeDiagnostic_js ds) r = ds"
  by (induction ds) (simp_all add: retainedDiagnostics_def map_filter_simps)

text \<open>A projection without the daemon's capabilities, seen as the value that was stored.\<close>

lemma snapshot_fields:
  assumes "sp_capabilitySnapshot q = None"
  shows "fld (statusProjection_js q) ''projectionVersion'' = Number (numOf 1)"
    "fld (statusProjection_js q) ''runId'' = Str (sp_runId q)" "fld (statusProjection_js q) ''workflowId'' = Str (sp_workflowId q)"
    "fld (statusProjection_js q) ''status'' = Str (projectionStatusText (sp_status q))"
    "fld (statusProjection_js q) ''currentNodeId'' = optVal Str (sp_currentNodeId q)"
    "fld (statusProjection_js q) ''completedNodeIds'' = Arr (map Str (sp_completedNodeIds q))"
    "fld (statusProjection_js q) ''diagnostics'' = Arr (map bridgeDiagnostic_js (sp_diagnostics q))"
    "fld (statusProjection_js q) ''capabilitySnapshot'' = Undef" "fld (statusProjection_js q) ''artifactSummaries'' = Undef"
    "fld (statusProjection_js q) ''nodeSummaries'' = Undef" "fld (statusProjection_js q) ''updatedAt'' = Str (sp_updatedAt q)"
    "isRecord (statusProjection_js q)" "\<not> isEmptyPlaceholderObject (statusProjection_js q)"
    "\<not> hasAnyOwn (statusProjection_js q) FORBIDDEN_KEYS"
  using assms by (cases "sp_currentNodeId q"; simp add: statusProjection_js_def isEmptyPlaceholderObject_def hasAnyOwn_def
      hasOwn_def forbidden_names)+

section \<open>The properties\<close>

text \<open>C9: Whatever the daemon sends as a run, what browsers get of it, saved or updated, has no private
  field name (an environment, a token, a raw prompt, a prototype) as a key at any depth; and what is
  stored has none either, except that its counts, which hold only numbers, may have any name.\<close>

theorem broadcast_has_no_private_field:
  assumes "sanitizeP2pRunForPersistAndBroadcast fmt h now source ov = Inr (persisted, broadcast)"
    and "sanitizeP2pRunUpdateForBroadcast fmt h now source ov = Inr update"
  shows "noPrivateKey (Obj broadcast) \<and> noPrivateKey (Obj update) \<and> noPrivateKey (Obj (mapDelete persisted ''hop_counts''))"
proof -
  obtain p run where base: "sanitizeP2pOrchestrationRunForBridge fmt h now source ov = Inr (p, run)"
    using assms by (auto simp: sanitizeP2pRunForPersistAndBroadcast_def split: sum.split_asm)
  let ?layered = "snd (layerLegacyFields fmt source run)"
  have names: "''workflow_projection'' \<notin> set FORBIDDEN_KEYS" "''progress_snapshot'' \<notin> set FORBIDDEN_KEYS"
    by (simp_all add: forbidden_names)
  have distinct: "distinct (mapKeys run)" "distinct (mapKeys ?layered)"
    using base_clean(1) [OF base] layer_distinct by blast+
  have up: "broadcast = ?layered \<or> (\<exists>q. broadcast = mapSet ?layered ''workflow_projection'' (statusProjection_js q))"
    "update = ?layered \<or> (\<exists>q. update = mapSet ?layered ''workflow_projection'' (statusProjection_js q))"
    "persisted = run \<or> (\<exists>q t. persisted = mapSet (mapSet run ''workflow_projection'' (statusProjection_js q)) ''progress_snapshot'' (Str t))"
    using assms by (auto simp: sanitizeP2pRunForPersistAndBroadcast_def sanitizeP2pRunUpdateForBroadcast_def base Let_def
        split: prod.split_asm if_split_asm)
  have clean: "k \<notin> set FORBIDDEN_KEYS \<and> noPrivateKey v" if "mapGet ?layered k = Some v" for k v
    using layered_clean [OF base that] by blast
  have stored: "k \<notin> set FORBIDDEN_KEYS \<and> noPrivateKey v" if "mapGet run k = Some v" "k \<noteq> ''hop_counts''" for k v
    using base_clean(2) [OF base that(1)] that(2) by (simp add: cleanField_def)
  have "noPrivateKey (Obj broadcast)" using up(1) clean names distinct
    by (intro noPrivateKey_map) (auto split: if_split_asm)
  moreover have "noPrivateKey (Obj update)" using up(2) clean names distinct
    by (intro noPrivateKey_map) (auto split: if_split_asm)
  moreover have "noPrivateKey (Obj (mapDelete persisted ''hop_counts''))" using up(3) stored names distinct
    by (intro noPrivateKey_map) (auto split: if_split_asm)
  ultimately show ?thesis by blast
qed

definition exampleHost :: dateHost where
  "exampleHost = \<lparr>dateParses = (\<lambda>s. s \<noteq> []), isoText = (\<lambda>_. ''1970-01-01T00:00:00.000Z'')\<rparr>"

definition exampleOverrides :: runOverrides where
  "exampleOverrides = \<lparr>ro_serverId = ''srv'', ro_status = None, ro_completedAt = None, ro_updatedAt = None\<rparr>"

definition exampleRun :: jsval where
  "exampleRun = Obj [(''id'', Str ''r1''), (''hop_counts'', Obj [(''secret'', Number (numOf 1))]),
     (''routing_history'', Arr [Obj [(''rawPrompt'', Str ''x''), (''step'', Str ''a'')]])]"

lemma example_run_kept: "\<exists>p run. sanitizeP2pOrchestrationRunForBridge (\<lambda>_. ''0'') exampleHost ''now'' exampleRun exampleOverrides = Inr (p, run)"
proof -
  have "\<not> (\<exists>e. sanitizeP2pOrchestrationRunForBridge (\<lambda>_. ''0'') exampleHost ''now'' exampleRun exampleOverrides = Inl e)"
    unfolding run_throws_iff by (simp add: exampleRun_def normalizeSharedActor_def normalizeShareAuthorizationSnapshot_def
        normalizeShareTarget_def trimmedString_def badTime_def orNullish_def optionalNumber_def)
  then show ?thesis by (metis sum.exhaust surj_pair)
qed

lemma broadcast_has_no_private_field_witness:
  "\<exists>persisted broadcast. sanitizeP2pRunForPersistAndBroadcast (\<lambda>_. ''0'') exampleHost ''now'' exampleRun exampleOverrides
     = Inr (persisted, broadcast) \<and> noPrivateKey (Obj broadcast)"
proof -
  obtain p run where base:
    "sanitizeP2pOrchestrationRunForBridge (\<lambda>_. ''0'') exampleHost ''now'' exampleRun exampleOverrides = Inr (p, run)"
    using example_run_kept by blast
  obtain persisted broadcast update where
    "sanitizeP2pRunForPersistAndBroadcast (\<lambda>_. ''0'') exampleHost ''now'' exampleRun exampleOverrides = Inr (persisted, broadcast)"
    "sanitizeP2pRunUpdateForBroadcast (\<lambda>_. ''0'') exampleHost ''now'' exampleRun exampleOverrides = Inr update"
    by (cases "layerLegacyFields (\<lambda>_. ''0'') exampleRun run"; cases "fst (layerLegacyFields (\<lambda>_. ''0'') exampleRun run)")
      (simp_all add: sanitizeP2pRunForPersistAndBroadcast_def sanitizeP2pRunUpdateForBroadcast_def base Let_def)
  then show ?thesis using broadcast_has_no_private_field by blast
qed

text \<open>C38: The copy of any value whatever holds no private name at any depth, no string over 4096 bytes, no array
  or object with more than 64 members, nothing nested deeper than 6, and at most 64 KiB of names and
  scalars in all; and a JSON value that is like that already, with room to spare, is copied unchanged and
  not reported as cut.\<close>

theorem public_copy_is_bounded:
  shows "(\<forall>w t. cloneSafePublicValue fmt v = (Some w, t) \<longrightarrow> noPrivateKey w \<and> withinLimits P2P_SANITIZE_MAX_DEPTH w
        \<and> contentBytes fmt w \<le> P2P_SANITIZE_MAX_TOTAL_BYTES)
    \<and> (isJson v \<and> noPrivateKey v \<and> withinLimits P2P_SANITIZE_MAX_DEPTH v \<and> contentBytes fmt v < P2P_SANITIZE_MAX_TOTAL_BYTES
        \<longrightarrow> cloneSafePublicValue fmt v = (Some v, False))"
proof (intro conjI allI impI)
  show "noPrivateKey w" "withinLimits P2P_SANITIZE_MAX_DEPTH w" "contentBytes fmt w \<le> P2P_SANITIZE_MAX_TOTAL_BYTES"
    if "cloneSafePublicValue fmt v = (Some w, t)" for w t
    using cloned [OF that] by blast+
  assume v: "isJson v \<and> noPrivateKey v \<and> withinLimits P2P_SANITIZE_MAX_DEPTH v \<and> contentBytes fmt v < P2P_SANITIZE_MAX_TOTAL_BYTES"
  let ?cx = "\<lparr>cx_remainingBytes = P2P_SANITIZE_MAX_TOTAL_BYTES, cx_truncated = False\<rparr>"
  have "cloneSafePublicValueInner fmt v 0 ?cx = (Some v, pay ?cx (contentBytes fmt v))"
    by (rule clone_plain(1)) (use v in \<open>simp_all add: plain_def\<close>)
  then show "cloneSafePublicValue fmt v = (Some v, False)" by (simp add: cloneSafePublicValue_def)
qed

lemma public_copy_is_bounded_witness:
  "cloneSafePublicValue (\<lambda>_. ''0'') (Obj [(''step'', Str ''a'')]) = (Some (Obj [(''step'', Str ''a'')]), False)"
  using public_copy_is_bounded [of "\<lambda>_. ''0''" "Obj [(''step'', Str ''a'')]"]
  by (simp add: forbidden_names charBytes_def P2P_SANITIZE_MAX_TOTAL_BYTES_def P2P_SANITIZE_MAX_STRING_BYTES_def
      P2P_SANITIZE_MAX_OBJECT_KEYS_def P2P_SANITIZE_MAX_DEPTH_def)


text \<open>C40: A snapshot the sanitizer stored is read back as it was, with no diagnostic added, when it names no
  empty node, has a time, and its diagnostics have no blank text.\<close>

theorem stored_snapshot_is_read_back:
  assumes "sanitizeP2pWorkflowStatusProjection h now raw source = Inr p"
    and "[] \<notin> set (sp_completedNodeIds p)" and "sp_updatedAt p \<noteq> []" and "list_all noBlankText (sp_diagnostics p)"
  shows "sanitizeLegacyP2pProgressSnapshot h' now' (Some (statusProjection_js (buildPersistedSnapshotFromProjection p)))
      runId workflowId = Inr (buildPersistedSnapshotFromProjection p, None)"
proof -
  define q where "q = buildPersistedSnapshotFromProjection p"
  have none: "sp_capabilitySnapshot q = None" by (simp add: q_def buildPersistedSnapshotFromProjection_def)
  have facts: "sp_runId q \<noteq> []" "sp_workflowId q \<noteq> []" "sp_currentNodeId q \<noteq> Some []" "[] \<notin> set (sp_completedNodeIds q)"
    "sp_updatedAt q \<noteq> []" "d \<in> set (sp_diagnostics q) \<Longrightarrow> boundedDiagnostic d \<and> noBlankText d \<and> dg_runId (bd_base d) \<noteq> None" for d
    using projection_facts [OF assms(1)] assms(2-4)
    by (simp_all add: q_def buildPersistedSnapshotFromProjection_def list_all_iff)
  have shape: "isValidPersistedSnapshotShape (statusProjection_js q)"
    using facts(1-5) by (cases "sp_currentNodeId q")
      (auto simp: isValidPersistedSnapshotShape_def snapshot_fields [OF none] isNonEmptyString_def find_status list_all_iff)
  have "retainedDiagnostics (map bridgeDiagnostic_js (sp_diagnostics q)) (sp_runId q) = sp_diagnostics q"
    using facts(6) by (intro retained_list) (simp add: retain_retained)
  moreover have "nonEmptyStringOption (stringValue (optVal Str (sp_currentNodeId q))) = sp_currentNodeId q"
    using facts(3) by (cases "sp_currentNodeId q") (simp_all add: nonEmptyStringOption_def stringValue_def)
  ultimately have "snapshotProjection (statusProjection_js q) = q"
    using none by (simp add: snapshotProjection_def snapshot_fields [OF none] find_status o_def)
  with shape show ?thesis
    by (simp add: sanitizeLegacyP2pProgressSnapshot_def snapshot_fields [OF none] Let_def q_def [symmetric])
qed

definition exampleStatus :: jsval where
  "exampleStatus = Obj [(''runId'', Str ''r1''), (''completedNodeIds'', Arr [Str ''n1'']), (''updatedAt'', Str ''2024'')]"

lemma stored_snapshot_is_read_back_witness:
  "\<exists>p. sanitizeP2pWorkflowStatusProjection exampleHost ''now'' exampleStatus exampleStatus = Inr p
     \<and> sanitizeLegacyP2pProgressSnapshot exampleHost ''now'' (Some (statusProjection_js (buildPersistedSnapshotFromProjection p)))
        None None = Inr (buildPersistedSnapshotFromProjection p, None)"
proof -
  obtain p where p: "sanitizeP2pWorkflowStatusProjection exampleHost ''now'' exampleStatus exampleStatus = Inr p"
    "sp_completedNodeIds p = [''n1'']" "sp_updatedAt p = ''2024''" "sp_diagnostics p = []"
    by (simp add: sanitizeP2pWorkflowStatusProjection_def Let_def exampleStatus_def exampleHost_def isoTimestamp_def
        orNullish_def stringArray_def P2P_SANITIZE_MAX_ARRAY_ITEMS_def boundedString_id charBytes_def
        P2P_SANITIZE_MAX_STRING_BYTES_def retainedDiagnostics_def map_filter_simps collectForbiddenFieldDiagnostics_def
        forbidden_names P2P_SANITIZE_MAX_OBJECT_KEYS_def)
  then show ?thesis using stored_snapshot_is_read_back [OF p(1), of exampleHost "''now''" None None] by simp
qed

end
