(* ===== verification/Spec2Isabelle.thy ===== *)
theory Spec2Isabelle
  imports QueueProps ResendProps AckProps WfCheckProps WfPlanProps WfRoundProps WfLibraryProps
    EvoProps EvoUserProps EvoDataProps BridgeProps SanitizeProps
begin

text \<open>
  Verification library for the core logic of IM.codes, a daemon that runs coding agents, the web
  client that drives them and the server between. It covers six parts of the TypeScript sources.

  \<^bold>\<open>Foundations.\<close> Prelude: stable sorting by a comparison, insertion-ordered maps, string
  helpers, the interface of comparators. JsValue: ECMAScript numbers (rationals, the infinities
  and NaN), untyped values as a datatype, property reads, JSON text, UTF-8 lengths, and the host
  whose locale comparison and digit printing are arguments. A string is a list of characters, one
  per code unit up to U+00FF.

  \<^bold>\<open>The transport queue.\<close> The daemon keeps the messages waiting for an agent in four SQLite
  tables (\<^verbatim>\<open>src/daemon/transport-queue-store.ts\<close>), answers each call with a snapshot and sends
  events that the client folds into its own state (\<^verbatim>\<open>shared/transport-queue-reducer.ts\<close>). Data,
  privacy projection and wire validation are in QueueTypes; the tables, the session metadata and
  reading in QueueStore; one definition per mutating method in QueueOps. A method is a function
  from the store to a result (an error or a value) and the new store; a transaction that fails
  leaves the tables as they were. QueueInv states the invariant of the tables and the view of one
  session. QueueContract, QueueEnqueue, QueueDelivery and QueueEpoch state the contract of the
  methods as locales and interpret them on every method. QueueReducer models the client,
  QueueMachine the store as a state machine with one rule per method, its reachable states, and
  the convergence of a client that receives snapshots in any order; QueueOrder the order of the
  shown lists, QueueWire what leaves the daemon. QueueProps has the properties.

  \<^bold>\<open>The resend queue.\<close> While a provider is offline its messages also wait in memory, at most ten
  per session (\<^verbatim>\<open>src/daemon/transport-resend-queue.ts\<close>, \<^verbatim>\<open>transport-resend-preservation.ts\<close>,
  \<^verbatim>\<open>transport-queue-revision.ts\<close>). ResendQueue models the queues together with the store they call;
  the dispatcher of a drain is a function that may change both, since it is awaited. ResendProps has
  the lease a drain takes, what a drain does, and what every sequence of operations keeps.

  \<^bold>\<open>The outbox of acknowledgements.\<close> An acknowledgement that may not reach the server is kept in a map
  and in an append-only file until it is sent (\<^verbatim>\<open>src/daemon/ack-outbox.ts\<close>, with the two emitting
  functions of \<^verbatim>\<open>src/daemon/command-handler.ts\<close>). AckOutbox models the entry objects in a heap, the chain of
  appends, and a flush and a collection as state machines that take one turn per await. AckInv states
  the contract of the operations as a locale, interpreted on each, and the durability invariant; AckProps
  has the runs with their interleavings, failed writes and crashes, and the properties. A line of the file
  is a record or broken text: JSON text of a record reads back as that record.

  \<^bold>\<open>P2P workflows.\<close> A workflow is a graph of agent, script and logic nodes that a user draws, a
  launch envelope carries to the daemon, and the compiler turns into the form the daemon runs
  (\<^verbatim>\<open>shared/p2p-workflow-*.ts\<close>, \<^verbatim>\<open>shared/p2p-advanced.ts\<close>). WfTypes and WfData hold the
  enumerations, limits, diagnostics and records; a typed record has a \<^verbatim>\<open>_js\<close> encoding as the
  untyped value the checks read. WfPaths: artifact paths. WfScan: the search for private fields
  in an envelope, with its limits on depth, count and size. WfLogic: logic contracts. WfScript:
  script contracts and the line protocol of script output. WfValidators: all checks of untrusted
  data, as functions from a value to its list of diagnostics; their common interface is the locale
  \<open>field_check\<close>, interpreted on twelve checks in WfChecks, which also says what each accepts.
  WfPolicy: canonical JSON, the 64-bit FNV-1a hash on words, static policies. WfCompiler: the
  compiler; WfCompilerFacts: reachability as a transitive closure, the graphs and budgets it
  accepts, independence of list order. WfArtifacts: file baselines and their hash. WfAdvanced:
  round plans. WfMaterialize: the draft an old configuration becomes, with the locale
  \<open>materialization\<close> interpreted on the built-in preset. WfLibrary: the library of saved workflows.
  WfCheckProps, WfPlanProps, WfRoundProps and WfLibraryProps have the properties.

  \<^bold>\<open>The evolution pipeline.\<close> A requirement file dropped into a project's inbox becomes a run that
  roles plan, discuss, hand to OpenSpec Auto Deliver, deliver to staging and, when a human approves,
  release (\<^verbatim>\<open>shared/evolution-pipeline-*.ts\<close>, \<^verbatim>\<open>src/daemon/evolution-orchestrator.ts\<close>,
  \<^verbatim>\<open>evolution-stage-runner.ts\<close>, \<^verbatim>\<open>evolution-artifact-store.ts\<close>, \<^verbatim>\<open>evolution-delivery-runner.ts\<close>). EvoTypes
  and EvoData hold the vocabulary, the table of stage transitions and the records, each with its
  encoding; EvoValidators and EvoChecks the checks of untrusted data and the normal forms they return.
  EvoCheckFacts states the contract of a check as the locales \<open>normal_check\<close> and \<open>strict_check\<close>,
  interpreted on every check of a projection's members. EvoRun has the operations on one run with their
  caps, EvoGates the verdicts and gates of roundtables, EvoProjection what clients see, EvoStages the
  world (runs in memory, answers to launches, saved files) and the user's operations on it, EvoLaunch
  the launch. EvoDelivery is the staging configuration and command, EvoOpenSpec the reports of OpenSpec,
  EvoStaging, EvoRoundtables and EvoPlanning the turns of deliveries, roundtables and planning: a
  function is cut at each await into turns that act on the world as it is by then. EvoMachine puts the
  turns together as a step relation with the calls still waiting, and its reachable states. EvoLaws
  states as the locales \<open>run_law\<close> and \<open>run_invariant\<close> what an invariant of single runs owes to the
  operations and proves once that every step keeps it; EvoInvariants interprets them on the bounds,
  the uniqueness of ids, the role board and the identity of runs. EvoStageFacts, EvoTurns and EvoSteps
  say how each operation, turn and step may change the stage of a run. EvoRunFacts and EvoConfigFacts
  treat single operations and the staging configuration, EvoExample walks a small run from its launch to
  the release gate. EvoProps, EvoUserProps and EvoDataProps have the properties.

  \<^bold>\<open>The server bridge.\<close> The server passes P2P workflow messages between browsers and the daemon
  (\<^verbatim>\<open>server/src/ws/bridge.ts\<close>, \<^verbatim>\<open>shared/p2p-workflow-messages.ts\<close>) and sanitizes what the daemon
  says of a run before it is stored or shown (\<^verbatim>\<open>server/src/p2p-workflow-sanitize.ts\<close>). WfMessages is
  the registry of message types with their routes. BridgeRoutes has both routes, the requests that wait
  for an answer with their timers, and the daemon's capabilities; BridgeInv the machine of requests,
  answers, timeouts and closed sockets, its invariant, and what a trace says of each waiting request;
  BridgeProps the properties. SanitizeClone is the cutting of strings, a binary search proved to find the
  longest prefix that fits, and the bounded copy of a value; SanitizeRun the projection of a status and
  its reading back; SanitizeShare the sharing scope and the run itself; SanitizeProps the properties. A
  daemon's message and a stored text are what JSON.parse makes of them; which texts are dates is the
  host's.

  \<^bold>\<open>Composition.\<close> The envelope check calls the draft check, which calls the checks of nodes,
  scripts and artifacts; the compiler calls the draft check again, then its own; a materialized
  draft compiles. The store's snapshots pass the wire validation and drive the client; the resend
  queue calls the store's enqueue, handoff, delivery and failure methods, and its proofs rest on their
  contracts. Creating a run checks the request a second time with the check of the launch; planning, staging
  and reports all move runs along the one table of stage transitions.

  \<^bold>\<open>Loops.\<close> Every loop is total. The three that do not follow a list have termination proofs: the
  passes of the reachability search (bounded by the number of edge targets not yet reached), the
  shortening of a title and the binary search for the characters that fit. The loop that draws identifiers until one is free consumes a list of
  drawn identifiers; None means that the list given was exhausted. No fuel is used.

  \<^bold>\<open>Not modelled.\<close> The English summary texts of diagnostics outside the sanitizer, and conversions made only to print
  them. The order of integer-like member names, which JavaScript puts first. Characters beyond
  U+00FF, surrogate pairs among them. Cyclic values, which the scan tolerates by remembering what
  it visited and which JSON never produces. JSON.parse, SHA-256, locale comparison, printing of
  non-integral numbers and randomness are arguments. Opening and closing the database file. The
  run loop of workflows, provider adapters, the rest of the command handler, the rest of the server
  (authentication, streams, sharing policies, push notifications, the database) and the user
  interface. Of the evolution pipeline: the inbox watcher, the design generator, prompts and the texts
  of documents and messages, which are arguments or a function of their kind and data; file access is a
  map from paths to runs and a choice of which writes fail; the reading of roundtable files is one turn
  although the code waits for each file.
\<close>

end
